(* ===== verification/Prelude.thy ===== *)
theory Prelude
  imports Complex_Main "HOL-Library.Word"
begin

text \<open>
  Shared vocabulary of the development: the machine types of the C++ sources, the exceptions
  the sources throw and let escape, computations that thread a state and may throw, blocking
  waits on a condition variable, decimal printing, and the generic lemmas about them.
\<close>

unbundle bit_operations_syntax

subsection \<open>Collections of hints\<close>

named_theorems wait_simps \<open>unfolding of waits on a condition variable\<close>
named_theorems word_tests \<open>bit tests on status and control words\<close>
named_theorems outcome_simps \<open>sequencing of computations that may throw\<close>

subsection \<open>Machine types\<close>

type_synonym u8 = "8 word"
type_synonym u16 = "16 word"
type_synonym u32 = "32 word"
type_synonym u64 = "64 word"

text \<open>The fixed-width integer types the driver templates are instantiated with. A value of
  such a type is kept as an \<open>int\<close> together with the type it belongs to.\<close>

datatype int_type = U8 | U16 | U32 | I8 | I16 | I32

fun type_bits :: "int_type \<Rightarrow> nat" where
  "type_bits U8 = 8"
| "type_bits U16 = 16"
| "type_bits U32 = 32"
| "type_bits I8 = 8"
| "type_bits I16 = 16"
| "type_bits I32 = 32"

fun type_signed :: "int_type \<Rightarrow> bool" where
  "type_signed U8 = False"
| "type_signed U16 = False"
| "type_signed U32 = False"
| "type_signed I8 = True"
| "type_signed I16 = True"
| "type_signed I32 = True"

text \<open>\<open>std::numeric_limits<T>::min()\<close> and \<open>max()\<close>.\<close>

definition type_min :: "int_type \<Rightarrow> int" where
  "type_min t = (if type_signed t then - (2 ^ (type_bits t - 1)) else 0)"

definition type_max :: "int_type \<Rightarrow> int" where
  "type_max t = (if type_signed t then 2 ^ (type_bits t - 1) - 1 else 2 ^ type_bits t - 1)"

definition in_type :: "int_type \<Rightarrow> int \<Rightarrow> bool" where
  "in_type t v \<longleftrightarrow> type_min t \<le> v \<and> v \<le> type_max t"

text \<open>The implicit conversion of an integer to the type, modulo \<open>2 ^ w\<close>.\<close>

definition cast_int :: "int_type \<Rightarrow> int \<Rightarrow> int" where
  "cast_int t v = (if type_signed t then signed_take_bit (type_bits t - 1) v
                   else take_bit (type_bits t) v)"

lemma type_limits:
  "type_min U8 = 0" "type_max U8 = 255" "type_min U16 = 0" "type_max U16 = 65535"
  "type_min U32 = 0" "type_max U32 = 4294967295" "type_min I8 = - 128" "type_max I8 = 127"
  "type_min I16 = - 32768" "type_max I16 = 32767"
  "type_min I32 = - 2147483648" "type_max I32 = 2147483647"
  by (simp_all add: type_min_def type_max_def)

lemma type_min_le_max: "type_min t \<le> type_max t"
  by (cases t) (simp_all add: type_limits)

lemma in_type_limits [simp]: "in_type t (type_min t)" "in_type t (type_max t)"
  by (simp_all add: in_type_def type_min_le_max)

lemma cast_int_in_type [simp]: "in_type t (cast_int t v)"
proof (cases t)
  case I8
  show ?thesis
    using signed_take_bit_int_greater_eq_minus_exp[of 7 v] signed_take_bit_int_less_exp[of 7 v]
    by (simp add: I8 in_type_def type_limits cast_int_def)
next
  case I16
  show ?thesis
    using signed_take_bit_int_greater_eq_minus_exp[of 15 v] signed_take_bit_int_less_exp[of 15 v]
    by (simp add: I16 in_type_def type_limits cast_int_def)
next
  case I32
  show ?thesis
    using signed_take_bit_int_greater_eq_minus_exp[of 31 v] signed_take_bit_int_less_exp[of 31 v]
    by (simp add: I32 in_type_def type_limits cast_int_def)
next
  case U8
  show ?thesis
    using take_bit_nonnegative[of 8 v] take_bit_int_less_exp[of 8 v]
    by (simp add: U8 in_type_def type_limits cast_int_def)
next
  case U16
  show ?thesis
    using take_bit_nonnegative[of 16 v] take_bit_int_less_exp[of 16 v]
    by (simp add: U16 in_type_def type_limits cast_int_def)
next
  case U32
  show ?thesis
    using take_bit_nonnegative[of 32 v] take_bit_int_less_exp[of 32 v]
    by (simp add: U32 in_type_def type_limits cast_int_def)
qed

lemma cast_int_id:
  assumes "in_type t v"
  shows "cast_int t v = v"
proof -
  have bounds: "type_min t \<le> v" "v \<le> type_max t"
    using assms by (simp_all add: in_type_def)
  show ?thesis
  proof (cases "type_signed t")
    case True
    then have "- (2 ^ (type_bits t - 1)) \<le> v" "v < 2 ^ (type_bits t - 1)"
      using bounds by (simp_all add: type_min_def type_max_def)
    with True show ?thesis
      by (simp add: cast_int_def signed_take_bit_int_eq_self)
  next
    case False
    then have "0 \<le> v" "v < 2 ^ type_bits t"
      using bounds by (simp_all add: type_min_def type_max_def)
    with False show ?thesis
      by (simp add: cast_int_def take_bit_int_eq_self)
  qed
qed

subsection \<open>Doubles\<close>

text \<open>The values of a C++ \<open>double\<close> as far as the sources look at them. Rounding is not
  modelled: a finite value is the exact real number.\<close>

datatype double = NaN | PInf | NInf | Fin real

fun is_nan :: "double \<Rightarrow> bool" where
  "is_nan NaN = True"
| "is_nan PInf = False"
| "is_nan NInf = False"
| "is_nan (Fin r) = False"

text \<open>\<open>a != b\<close> on doubles: a NaN differs from everything, itself included.\<close>

fun double_neq :: "double \<Rightarrow> double \<Rightarrow> bool" where
  "double_neq (Fin a) (Fin b) = (a \<noteq> b)"
| "double_neq PInf PInf = False"
| "double_neq NInf NInf = False"
| "double_neq a b = True"

lemma double_neq_NaN [simp]: "double_neq a NaN" "double_neq NaN a"
  by (cases a; simp)+

text \<open>Products and sums, with the signs of infinities and without those of zeros.\<close>

fun d_neg :: "double \<Rightarrow> double" where
  "d_neg NaN = NaN"
| "d_neg PInf = NInf"
| "d_neg NInf = PInf"
| "d_neg (Fin a) = Fin (- a)"

definition inf_times :: "real \<Rightarrow> double" where
  "inf_times r = (if r = 0 then NaN else if 0 < r then PInf else NInf)"

fun d_mul :: "double \<Rightarrow> double \<Rightarrow> double" where
  "d_mul (Fin a) (Fin b) = Fin (a * b)"
| "d_mul NaN b = NaN"
| "d_mul PInf NaN = NaN"
| "d_mul PInf PInf = PInf"
| "d_mul PInf NInf = NInf"
| "d_mul PInf (Fin b) = inf_times b"
| "d_mul NInf NaN = NaN"
| "d_mul NInf PInf = NInf"
| "d_mul NInf NInf = PInf"
| "d_mul NInf (Fin b) = inf_times (- b)"
| "d_mul (Fin a) NaN = NaN"
| "d_mul (Fin a) PInf = inf_times a"
| "d_mul (Fin a) NInf = inf_times (- a)"

fun d_add :: "double \<Rightarrow> double \<Rightarrow> double" where
  "d_add (Fin a) (Fin b) = Fin (a + b)"
| "d_add NaN b = NaN"
| "d_add PInf NaN = NaN"
| "d_add PInf PInf = PInf"
| "d_add PInf NInf = NaN"
| "d_add PInf (Fin b) = PInf"
| "d_add NInf NaN = NaN"
| "d_add NInf PInf = NaN"
| "d_add NInf NInf = NInf"
| "d_add NInf (Fin b) = NInf"
| "d_add (Fin a) NaN = NaN"
| "d_add (Fin a) PInf = PInf"
| "d_add (Fin a) NInf = NInf"

subsection \<open>Exceptions and computations over a state\<close>

text \<open>The exceptions of the sources. \<open>Terminated\<close> stands for \<open>std::terminate\<close>: the process ends.\<close>

datatype exn =
    Std_exception string
  | System_error int string
  | Driver_exception string
  | Out_of_range string
  | Sdo_error int
  | Bad_conversion string
  | Future_error string
  | Master_exception string
  | Container_exception string
  | Terminated string

text \<open>A computation over a state \<open>'s\<close>: it ends with a value or with a thrown exception, and
  leaves a state behind in both cases (what was assigned before a \<open>throw\<close> stays assigned).\<close>

type_synonym ('s, 'a) outcome = "(exn + 'a) \<times> 's"

definition bindE :: "('s, 'a) outcome \<Rightarrow> ('a \<Rightarrow> 's \<Rightarrow> ('s, 'b) outcome) \<Rightarrow> ('s, 'b) outcome" where
  "bindE p k = (case p of (Inl e, s) \<Rightarrow> (Inl e, s) | (Inr a, s) \<Rightarrow> k a s)"

text \<open>\<open>try { ... } catch (...) { h }\<close>.\<close>

definition catchE :: "('s, 'a) outcome \<Rightarrow> (exn \<Rightarrow> 's \<Rightarrow> ('s, 'a) outcome) \<Rightarrow> ('s, 'a) outcome" where
  "catchE p h = (case p of (Inl e, s) \<Rightarrow> h e s | (Inr a, s) \<Rightarrow> (Inr a, s))"

lemma bindE_simps [simp, outcome_simps]:
  "bindE (Inl e, s) k = (Inl e, s)"
  "bindE (Inr a, s) k = k a s"
  by (simp_all add: bindE_def)

lemma catchE_simps [simp, outcome_simps]:
  "catchE (Inl e, s) h = h e s"
  "catchE (Inr a, s) h = (Inr a, s)"
  by (simp_all add: catchE_def)

lemma bindE_assoc: "bindE (bindE p f) g = bindE p (\<lambda>a s. bindE (f a s) g)"
  by (cases p) (auto simp: bindE_def split: sum.splits)

lemma bindE_Inr_iff:
  "bindE p k = (Inr b, s') \<longleftrightarrow> (\<exists>a s. p = (Inr a, s) \<and> k a s = (Inr b, s'))"
  by (cases p) (auto simp: bindE_def split: sum.splits)

text \<open>A property of the state that both parts of a sequence keep is kept by the sequence.\<close>

lemma bindE_state:
  assumes "P (snd p)" and "\<And>a s. P s \<Longrightarrow> P (snd (k a s))"
  shows "P (snd (bindE p k))"
  using assms by (cases p) (auto simp: bindE_def split: sum.splits)

subsection \<open>Waiting on a condition variable\<close>

datatype cv_status = no_timeout | timeout

text \<open>
  What happens while a thread is blocked: a list of wake-ups, each with the work other threads
  did to the shared state before it and the status \<open>wait_until\<close> returns at it. The end of the
  list is the deadline: the wait returns \<open>timeout\<close>. Spurious wake-ups are ordinary entries, so
  a theorem over all scripts covers every schedule in which the other threads run while this
  one is blocked.
\<close>

type_synonym 's wakeups = "(cv_status \<times> ('s \<Rightarrow> 's)) list"

text \<open>\<open>while (blocked && cond.wait_until(lock, abstime) == no_timeout) {}\<close>\<close>

fun wait_while :: "('s \<Rightarrow> bool) \<Rightarrow> 's wakeups \<Rightarrow> 's \<Rightarrow> 's \<times> 's wakeups" where
  "wait_while blocked [] s = (s, [])"
| "wait_while blocked ((st, f) # ws) s =
    (if blocked s
     then (case st of no_timeout \<Rightarrow> wait_while blocked ws (f s) | timeout \<Rightarrow> (f s, ws))
     else (s, (st, f) # ws))"

text \<open>\<open>cond.wait_until(lock, abstime, pred)\<close>: the predicate decides the result.\<close>

definition wait_until_pred ::
  "('s \<Rightarrow> bool) \<Rightarrow> 's wakeups \<Rightarrow> 's \<Rightarrow> bool \<times> 's \<times> 's wakeups" where
  "wait_until_pred pred ws s =
    (let (s', ws') = wait_while (\<lambda>x. \<not> pred x) ws s in (pred s', s', ws'))"

lemma wait_while_not_blocked [simp, wait_simps]: "\<not> blocked s \<Longrightarrow> wait_while blocked ws s = (s, ws)"
  by (cases ws) auto

lemma wait_while_length: "wait_while blocked ws s = (s', ws') \<Longrightarrow> length ws' \<le> length ws"
  by (induction blocked ws s rule: wait_while.induct)
    (auto split: if_splits cv_status.splits dest: le_SucI)

lemma wait_while_progress:
  "\<lbrakk>wait_while blocked ws s = (s', ws'); blocked s; \<not> blocked s'\<rbrakk> \<Longrightarrow> length ws' < length ws"
  by (cases ws)
    (auto simp: less_Suc_eq_le split: if_splits cv_status.splits dest: wait_while_length)

text \<open>A state property that every wake-up keeps is kept by the wait, and the wake-ups left over
  are among those given.\<close>

definition wakeups_keep :: "('s \<Rightarrow> bool) \<Rightarrow> 's wakeups \<Rightarrow> bool" where
  "wakeups_keep P ws \<longleftrightarrow> (\<forall>w \<in> set ws. \<forall>s. P s \<longrightarrow> P (snd w s))"

lemma wakeups_keep_simps [simp]:
  "wakeups_keep P []"
  "wakeups_keep P (w # ws) \<longleftrightarrow> (\<forall>s. P s \<longrightarrow> P (snd w s)) \<and> wakeups_keep P ws"
  "wakeups_keep P (ws @ vs) \<longleftrightarrow> wakeups_keep P ws \<and> wakeups_keep P vs"
  by (auto simp: wakeups_keep_def)

lemma wakeups_keep_replicate [simp]:
  "wakeups_keep P (replicate n w) \<longleftrightarrow> n = 0 \<or> (\<forall>s. P s \<longrightarrow> P (snd w s))"
  by (induction n) auto

lemma wakeups_keep_subset: "wakeups_keep P ws \<Longrightarrow> set ws' \<subseteq> set ws \<Longrightarrow> wakeups_keep P ws'"
  by (auto simp: wakeups_keep_def)

lemma wait_while_left: "wait_while blocked ws s = (s', ws') \<Longrightarrow> set ws' \<subseteq> set ws"
  by (induction blocked ws s rule: wait_while.induct)
    (auto split: if_splits cv_status.splits)

lemma wait_while_keep:
  "\<lbrakk>wait_while blocked ws s = (s', ws'); wakeups_keep P ws; P s\<rbrakk> \<Longrightarrow> P s'"
  by (induction blocked ws s rule: wait_while.induct)
    (auto split: if_splits cv_status.splits)

lemma wait_until_pred_length:
  "wait_until_pred pred ws s = (r, s', ws') \<Longrightarrow> length ws' \<le> length ws"
  by (auto simp: wait_until_pred_def split: prod.splits dest: wait_while_length)

lemma wait_until_pred_left: "wait_until_pred pred ws s = (r, s', ws') \<Longrightarrow> set ws' \<subseteq> set ws"
  by (auto simp: wait_until_pred_def split: prod.splits dest: wait_while_left)

lemma wait_until_pred_keep:
  "\<lbrakk>wait_until_pred pred ws s = (r, s', ws'); wakeups_keep P ws; P s\<rbrakk> \<Longrightarrow> P s'"
  by (auto simp: wait_until_pred_def split: prod.splits dest: wait_while_keep)

lemma wait_until_pred_result: "wait_until_pred pred ws s = (r, s', ws') \<Longrightarrow> r = pred s'"
  by (auto simp: wait_until_pred_def split: prod.splits)

lemma wait_until_pred_done [simp, wait_simps]: "pred s \<Longrightarrow> wait_until_pred pred ws s = (True, s, ws)"
  by (simp add: wait_until_pred_def)

subsection \<open>Printing\<close>

definition digit_char :: "nat \<Rightarrow> char" where
  "digit_char d = (''0123456789'' ! d)"

fun show_nat :: "nat \<Rightarrow> string" where
  "show_nat n = (if n < 10 then [digit_char n] else show_nat (n div 10) @ [digit_char (n mod 10)])"

declare show_nat.simps [simp del]

definition show_int :: "int \<Rightarrow> string" where
  "show_int i = (if i < 0 then ''-'' @ show_nat (nat (- i)) else show_nat (nat i))"

subsection \<open>Bits of words\<close>

text \<open>The C++ expression \<open>1 << n\<close> at the width of a status or control word, and the tests
  \<open>w & (1 << n)\<close> and updates \<open>w | (1 << n)\<close>, \<open>w & ~(1 << n)\<close> made with it.\<close>

definition shl1 :: "nat \<Rightarrow> u16" where
  "shl1 n = push_bit n 1"

lemma bit_shl1 [word_tests]: "bit (shl1 n) k \<longleftrightarrow> k = n \<and> n < 16"
  by (auto simp: shl1_def bit_simps)

lemma and_shl1_eq_0 [word_tests]: "n < 16 \<Longrightarrow> w AND shl1 n = 0 \<longleftrightarrow> \<not> bit w n"
proof -
  assume n: "n < 16"
  have "shl1 n = 2 ^ n"
    by (simp add: shl1_def push_bit_eq_mult)
  then show ?thesis
    by (simp add: and_exp_eq_0_iff_not_bit)
qed

lemma bit_or_word [word_tests]: "bit (a OR b) k \<longleftrightarrow> bit a k \<or> bit b k"
  by (rule bit_or_iff)

lemma bit_and_word [word_tests]: "bit (a AND b) k \<longleftrightarrow> bit a k \<and> bit b k"
  by (rule bit_and_iff)

lemma bit_not_word [word_tests]: "bit (NOT (a :: u16)) k \<longleftrightarrow> k < 16 \<and> \<not> bit a k"
  by (simp add: bit_not_iff)

lemma word_eq_bits:
  fixes a b :: u16
  shows "(\<And>k. k < 16 \<Longrightarrow> bit a k = bit b k) \<Longrightarrow> a = b"
  by (rule bit_word_eqI) simp

lemma less_16_cases:
  "(k :: nat) < 16 \<longleftrightarrow> k \<in> {0, 1, 2, 3, 4, 5, 6, 7, 8, 9, 10, 11, 12, 13, 14, 15}"
  by (simp add: numeral_eq_Suc less_Suc_eq)

end
