(* ===== verification/State402.thy ===== *)
theory State402
  imports Prelude
begin

text \<open>
  The CiA 402 state tracker of the driver (\<open>canopen_402_driver\<close>, \<open>state.hpp\<close> and \<open>state.cpp\<close>):
  the bits of the status word, the states of the drive, the decoding of a status word into a
  state (\<open>State402::read\<close>) and the wait for a change of state. The lemmas characterise the
  decoder by the bits of the status word and give the result of the wait.
\<close>

subsection \<open>Enumerations\<close>

datatype StatusWord =
    SW_Ready_To_Switch_On | SW_Switched_On | SW_Operation_enabled | SW_Fault
  | SW_Voltage_enabled | SW_Quick_stop | SW_Switch_on_disabled | SW_Warning
  | SW_Manufacturer_specific0 | SW_Remote | SW_Target_reached | SW_Internal_limit
  | SW_Operation_mode_specific0 | SW_Operation_mode_specific1
  | SW_Manufacturer_specific1 | SW_Manufacturer_specific2

primrec sw_bit :: "StatusWord \<Rightarrow> nat" where
  "sw_bit SW_Ready_To_Switch_On = 0"
| "sw_bit SW_Switched_On = 1"
| "sw_bit SW_Operation_enabled = 2"
| "sw_bit SW_Fault = 3"
| "sw_bit SW_Voltage_enabled = 4"
| "sw_bit SW_Quick_stop = 5"
| "sw_bit SW_Switch_on_disabled = 6"
| "sw_bit SW_Warning = 7"
| "sw_bit SW_Manufacturer_specific0 = 8"
| "sw_bit SW_Remote = 9"
| "sw_bit SW_Target_reached = 10"
| "sw_bit SW_Internal_limit = 11"
| "sw_bit SW_Operation_mode_specific0 = 12"
| "sw_bit SW_Operation_mode_specific1 = 13"
| "sw_bit SW_Manufacturer_specific1 = 14"
| "sw_bit SW_Manufacturer_specific2 = 15"

text \<open>\<open>Unknown\<close> and \<open>Start\<close> are the same enumerator value 0 in the source. A configuration file
  gives the switching state as a number that is cast to the enumeration, so a value that names
  no enumerator is possible: \<open>Illegal n\<close>.\<close>

datatype InternalState =
    Unknown | Not_Ready_To_Switch_On | Switch_On_Disabled | Ready_To_Switch_On | Switched_On
  | Operation_Enable | Quick_Stop_Active | Fault_Reaction_Active | Fault | Illegal nat

abbreviation Start :: InternalState where
  "Start \<equiv> Unknown"

fun state_number :: "InternalState \<Rightarrow> nat" where
  "state_number Unknown = 0"
| "state_number Not_Ready_To_Switch_On = 1"
| "state_number Switch_On_Disabled = 2"
| "state_number Ready_To_Switch_On = 3"
| "state_number Switched_On = 4"
| "state_number Operation_Enable = 5"
| "state_number Quick_Stop_Active = 6"
| "state_number Fault_Reaction_Active = 7"
| "state_number Fault = 8"
| "state_number (Illegal n) = n"

text \<open>The cast of a number to the enumeration.\<close>

definition state_of_number :: "nat \<Rightarrow> InternalState" where
  "state_of_number n =
    (if n < 9 then [Unknown, Not_Ready_To_Switch_On, Switch_On_Disabled, Ready_To_Switch_On,
                    Switched_On, Operation_Enable, Quick_Stop_Active, Fault_Reaction_Active,
                    Fault] ! n
     else Illegal n)"

fun legal_state :: "InternalState \<Rightarrow> bool" where
  "legal_state (Illegal n) = False"
| "legal_state s = True"

subsection \<open>The state handler\<close>

text \<open>Member \<open>state_\<close>; \<open>cond_\<close> counts the calls of \<open>notify_all\<close> on the condition variable.\<close>

record State402 =
  state :: InternalState
  cond :: nat

definition State402_init :: State402 where
  "State402_init = \<lparr>state = Unknown, cond = 0\<rparr>"

definition getState :: "State402 \<Rightarrow> InternalState" where
  "getState h = state h"

definition sw_r :: u16 where "sw_r = shl1 (sw_bit SW_Ready_To_Switch_On)"
definition sw_s :: u16 where "sw_s = shl1 (sw_bit SW_Switched_On)"
definition sw_o :: u16 where "sw_o = shl1 (sw_bit SW_Operation_enabled)"
definition sw_f :: u16 where "sw_f = shl1 (sw_bit SW_Fault)"
definition sw_q :: u16 where "sw_q = shl1 (sw_bit SW_Quick_stop)"
definition sw_d :: u16 where "sw_d = shl1 (sw_bit SW_Switch_on_disabled)"

text \<open>The \<open>switch\<close> of \<open>State402::read\<close>.\<close>

definition decode_state :: "u16 \<Rightarrow> InternalState" where
  "decode_state sw =
    (let st = sw AND (sw_d OR sw_q OR sw_f OR sw_o OR sw_s OR sw_r) in
     if st = 0 \<or> st = sw_q then Not_Ready_To_Switch_On
     else if st = sw_d \<or> st = (sw_d OR sw_q) then Switch_On_Disabled
     else if st = (sw_q OR sw_r) then Ready_To_Switch_On
     else if st = (sw_q OR sw_s OR sw_r) then Switched_On
     else if st = (sw_q OR sw_o OR sw_s OR sw_r) then Operation_Enable
     else if st = (sw_o OR sw_s OR sw_r) then Quick_Stop_Active
     else if st = (sw_f OR sw_o OR sw_s OR sw_r) \<or> st = (sw_q OR sw_f OR sw_o OR sw_s OR sw_r)
          then Fault_Reaction_Active
     else if st = sw_f \<or> st = (sw_q OR sw_f) then Fault
     else Unknown)"

definition state_read :: "u16 \<Rightarrow> State402 \<Rightarrow> InternalState \<times> State402" where
  "state_read sw h =
    (let new_state = decode_state sw;
         h' = (if new_state \<noteq> state h then h\<lparr>state := new_state, cond := cond h + 1\<rparr> else h)
     in (state h', h'))"

text \<open>\<open>waitForNewState(abstime, state)\<close>, run on a whole world \<open>'s\<close> of which the handler is a part:
  the result, the new value of the reference argument \<open>state\<close>, the world and the wake-ups that
  are left.\<close>

definition waitForNewState ::
  "('s \<Rightarrow> State402) \<Rightarrow> 's wakeups \<Rightarrow> 's \<Rightarrow> InternalState \<Rightarrow> bool \<times> InternalState \<times> 's \<times> 's wakeups" where
  "waitForNewState handler ws s st =
    (let (s', ws') = wait_while (\<lambda>x. state (handler x) = st) ws s;
         res = (st \<noteq> state (handler s'))
     in (res, state (handler s'), s', ws'))"

subsection \<open>The decoder by bits\<close>

lemmas sw_consts = sw_r_def sw_s_def sw_o_def sw_f_def sw_q_def sw_d_def

text \<open>The masked word as a sum of its six bits: after a case split on the bits, the comparisons of
  the \<open>switch\<close> are comparisons of numerals.\<close>

lemma sw_numerals:
  "sw_r = 1" "sw_s = 2" "sw_o = 4" "sw_f = 8" "sw_q = 32" "sw_d = 64"
  by (simp_all add: sw_consts shl1_def)

text \<open>One bit as a word.\<close>

definition bit_at :: "nat \<Rightarrow> bool \<Rightarrow> u16" where
  "bit_at n b = (if b then shl1 n else 0)"

lemma bit_bit_at: "bit (bit_at n b) k \<longleftrightarrow> b \<and> k = n \<and> n < 16"
  by (simp add: bit_at_def bit_shl1)

lemma masked_sw:
  "sw AND (sw_d OR sw_q OR sw_f OR sw_o OR sw_s OR sw_r) =
    bit_at 0 (bit sw 0) OR bit_at 1 (bit sw 1) OR bit_at 2 (bit sw 2) OR bit_at 3 (bit sw 3)
    OR bit_at 5 (bit sw 5) OR bit_at 6 (bit sw 6)"
  by (rule word_eq_bits) (auto simp: sw_consts bit_shl1 bit_bit_at bit_or_word bit_and_word)

lemma decode_state_bits:
  "decode_state sw =
    (let r = bit sw 0; s = bit sw 1; e = bit sw 2; f = bit sw 3; q = bit sw 5; d = bit sw 6 in
     if \<not> r \<and> \<not> s \<and> \<not> e \<and> \<not> f then (if d then Switch_On_Disabled else Not_Ready_To_Switch_On)
     else if d then Unknown
     else if \<not> r \<and> \<not> s \<and> \<not> e then Fault
     else if r \<and> s \<and> e then (if f then Fault_Reaction_Active
                           else if q then Operation_Enable else Quick_Stop_Active)
     else if r \<and> \<not> e \<and> \<not> f \<and> q then (if s then Switched_On else Ready_To_Switch_On)
     else Unknown)"
  unfolding decode_state_def Let_def masked_sw
  unfolding sw_numerals bit_at_def shl1_def
  by (cases "bit sw 0"; cases "bit sw 1"; cases "bit sw 2"; cases "bit sw 3"; cases "bit sw 5";
      cases "bit sw 6"; simp)

subsection \<open>Reading and waiting\<close>

lemma decode_state_legal [simp]: "legal_state (decode_state sw)"
  by (simp add: decode_state_def Let_def)

text \<open>Only the six state bits matter.\<close>

lemma decode_state_cong:
  assumes "\<And>k. k \<in> {0, 1, 2, 3, 5, 6} \<Longrightarrow> bit a k = bit b k"
  shows "decode_state a = decode_state b"
  using assms[of 0] assms[of 1] assms[of 2] assms[of 3] assms[of 5] assms[of 6]
  by (simp add: decode_state_bits)

lemma state_read_simps [simp]:
  "fst (state_read sw h) = decode_state sw"
  "state (snd (state_read sw h)) = decode_state sw"
  by (simp_all add: state_read_def Let_def)

lemma state_read_notifies:
  "cond (snd (state_read sw h)) = (if decode_state sw = state h then cond h else cond h + 1)"
  by (simp add: state_read_def Let_def)

text \<open>The wait returns \<open>true\<close> exactly when it observed another state than the given one, and then
  reports that state; it never changes the world itself.\<close>

lemma waitForNewState_result:
  assumes "waitForNewState handler ws s st = (res, st', s', ws')"
  shows "st' = state (handler s')" "res \<longleftrightarrow> st' \<noteq> st" "length ws' \<le> length ws"
  using assms
  by (auto simp: waitForNewState_def Let_def split: prod.splits dest: wait_while_length)

lemma waitForNewState_immediate [wait_simps]:
  "state (handler s) \<noteq> st \<Longrightarrow> waitForNewState handler ws s st = (True, state (handler s), s, ws)"
  by (simp add: waitForNewState_def)

lemma waitForNewState_progress:
  assumes "waitForNewState handler ws s st = (True, st', s', ws')" "state (handler s) = st"
  shows "length ws' < length ws"
  using assms
  by (auto simp: waitForNewState_def Let_def split: prod.splits dest: wait_while_progress)

lemma waitForNewState_left:
  assumes "waitForNewState handler ws s st = (res, st', s', ws')"
  shows "set ws' \<subseteq> set ws"
  using assms wait_while_left[of "\<lambda>x. state (handler x) = st" ws s s' ws']
  by (auto simp: waitForNewState_def Let_def split: prod.splits)

lemma waitForNewState_keep:
  assumes "waitForNewState handler ws s st = (res, st', s', ws')" "wakeups_keep P ws" "P s"
  shows "P s'"
  using assms wait_while_keep[of "\<lambda>x. state (handler x) = st" ws s s' ws' P]
  by (auto simp: waitForNewState_def Let_def split: prod.splits)

lemma waitForNewState_wakeup [wait_simps]:
  "state (handler s) = st \<Longrightarrow>
   waitForNewState handler ((no_timeout, f) # ws) s st = waitForNewState handler ws (f s) st"
  by (simp add: waitForNewState_def)

lemma state_of_number_inverse: "legal_state st \<Longrightarrow> state_of_number (state_number st) = st"
  by (cases st) (simp_all add: state_of_number_def)

end
