(* ===== verification/Command402.thy ===== *)
theory Command402
  imports State402
begin

text \<open>
  The control word of CiA 402 and the transition table of the driver (\<open>canopen_402_driver\<close>,
  \<open>command.hpp\<close> and \<open>command.cpp\<close>). \<open>transitions\<close> is the static table, built by the calls of
  \<open>add\<close> in the source order; \<open>setTransition\<close> looks the next hop up and applies it to the control
  word. The lemmas give the bits every hop sets and clears and the path of hops towards
  Operation_Enable.
\<close>

datatype ControlWord =
    CW_Switch_On | CW_Enable_Voltage | CW_Quick_Stop | CW_Enable_Operation
  | CW_Operation_mode_specific0 | CW_Operation_mode_specific1 | CW_Operation_mode_specific2
  | CW_Fault_Reset | CW_Halt | CW_Operation_mode_specific3
  | CW_Manufacturer_specific0 | CW_Manufacturer_specific1 | CW_Manufacturer_specific2
  | CW_Manufacturer_specific3 | CW_Manufacturer_specific4

primrec cw_bit :: "ControlWord \<Rightarrow> nat" where
  "cw_bit CW_Switch_On = 0"
| "cw_bit CW_Enable_Voltage = 1"
| "cw_bit CW_Quick_Stop = 2"
| "cw_bit CW_Enable_Operation = 3"
| "cw_bit CW_Operation_mode_specific0 = 4"
| "cw_bit CW_Operation_mode_specific1 = 5"
| "cw_bit CW_Operation_mode_specific2 = 6"
| "cw_bit CW_Fault_Reset = 7"
| "cw_bit CW_Halt = 8"
| "cw_bit CW_Operation_mode_specific3 = 9"
| "cw_bit CW_Manufacturer_specific0 = 11"
| "cw_bit CW_Manufacturer_specific1 = 12"
| "cw_bit CW_Manufacturer_specific2 = 13"
| "cw_bit CW_Manufacturer_specific3 = 14"
| "cw_bit CW_Manufacturer_specific4 = 15"

abbreviation cwm :: "ControlWord \<Rightarrow> u16" where
  "cwm c \<equiv> shl1 (cw_bit c)"

subsection \<open>Operations on the control word and the transition table\<close>

record Op =
  to_set :: u16
  to_reset :: u16

definition op_apply :: "Op \<Rightarrow> u16 \<Rightarrow> u16" where
  "op_apply op val = (val AND NOT (to_reset op)) OR to_set op"

type_synonym transition_table = "InternalState \<times> InternalState \<rightharpoonup> Op"

text \<open>\<open>flat_map::insert\<close> keeps an entry that is already there.\<close>

definition add_transition ::
  "InternalState \<Rightarrow> InternalState \<Rightarrow> Op \<Rightarrow> transition_table \<Rightarrow> transition_table" where
  "add_transition from to op t =
    (case t (from, to) of None \<Rightarrow> t((from, to) \<mapsto> op) | Some op' \<Rightarrow> t)"

definition disable_voltage :: Op where
  "disable_voltage = \<lparr>to_set = 0, to_reset = cwm CW_Fault_Reset OR cwm CW_Enable_Voltage\<rparr>"

definition automatic :: Op where
  "automatic = \<lparr>to_set = 0, to_reset = 0\<rparr>"

definition shutdown_op :: Op where
  "shutdown_op = \<lparr>to_set = cwm CW_Quick_Stop OR cwm CW_Enable_Voltage,
                  to_reset = cwm CW_Fault_Reset OR cwm CW_Switch_On\<rparr>"

definition switch_on :: Op where
  "switch_on = \<lparr>to_set = cwm CW_Quick_Stop OR cwm CW_Enable_Voltage OR cwm CW_Switch_On,
                to_reset = cwm CW_Fault_Reset OR cwm CW_Enable_Operation\<rparr>"

definition enable_operation :: Op where
  "enable_operation =
    \<lparr>to_set = cwm CW_Quick_Stop OR cwm CW_Enable_Voltage OR cwm CW_Switch_On
              OR cwm CW_Enable_Operation,
     to_reset = cwm CW_Fault_Reset\<rparr>"

definition quickstop :: Op where
  "quickstop = \<lparr>to_set = cwm CW_Enable_Voltage, to_reset = cwm CW_Fault_Reset OR cwm CW_Quick_Stop\<rparr>"

definition fault_reset :: Op where
  "fault_reset = \<lparr>to_set = cwm CW_Fault_Reset, to_reset = 0\<rparr>"

text \<open>The constructor's calls of \<open>add\<close>, in order.\<close>

definition transition_list :: "(InternalState \<times> InternalState \<times> Op) list" where
  "transition_list =
    [(Ready_To_Switch_On, Switch_On_Disabled, disable_voltage),
     (Operation_Enable, Switch_On_Disabled, disable_voltage),
     (Switched_On, Switch_On_Disabled, disable_voltage),
     (Quick_Stop_Active, Switch_On_Disabled, disable_voltage),
     (Start, Not_Ready_To_Switch_On, automatic),
     (Not_Ready_To_Switch_On, Switch_On_Disabled, automatic),
     (Fault_Reaction_Active, Fault, automatic),
     (Switch_On_Disabled, Ready_To_Switch_On, shutdown_op),
     (Switched_On, Ready_To_Switch_On, shutdown_op),
     (Operation_Enable, Ready_To_Switch_On, shutdown_op),
     (Ready_To_Switch_On, Switched_On, switch_on),
     (Operation_Enable, Switched_On, switch_on),
     (Switched_On, Operation_Enable, enable_operation),
     (Quick_Stop_Active, Operation_Enable, enable_operation),
     (Ready_To_Switch_On, Quick_Stop_Active, quickstop),
     (Switched_On, Quick_Stop_Active, quickstop),
     (Operation_Enable, Quick_Stop_Active, quickstop),
     (Fault, Switch_On_Disabled, fault_reset)]"

definition transitions :: transition_table where
  "transitions = fold (\<lambda>(from, to, op) t. add_transition from to op t) transition_list Map.empty"

subsection \<open>The next hop\<close>

text \<open>\<open>nextStateForEnabling\<close>; a value outside the enumeration falls out of the \<open>switch\<close> and
  throws.\<close>

fun nextStateForEnabling :: "InternalState \<Rightarrow> exn + InternalState" where
  "nextStateForEnabling Unknown = Inr Not_Ready_To_Switch_On"
| "nextStateForEnabling Fault = Inr Switch_On_Disabled"
| "nextStateForEnabling Not_Ready_To_Switch_On = Inr Switch_On_Disabled"
| "nextStateForEnabling Switch_On_Disabled = Inr Ready_To_Switch_On"
| "nextStateForEnabling Ready_To_Switch_On = Inr Switched_On"
| "nextStateForEnabling Switched_On = Inr Operation_Enable"
| "nextStateForEnabling Quick_Stop_Active = Inr Operation_Enable"
| "nextStateForEnabling Operation_Enable = Inr Operation_Enable"
| "nextStateForEnabling Fault_Reaction_Active = Inr Fault"
| "nextStateForEnabling (Illegal n) = Inl (Out_of_range ''state value is illegal'')"

text \<open>
  \<open>setTransition(cw, from, to, next)\<close>: the result, the new control word, and the new value of
  what \<open>next\<close> points to (\<open>None\<close>: a null pointer). Everything thrown inside is caught; \<open>*next\<close> is
  assigned before the table is asked.
\<close>

definition setTransition ::
  "u16 \<Rightarrow> InternalState \<Rightarrow> InternalState \<Rightarrow> InternalState option
   \<Rightarrow> bool \<times> u16 \<times> InternalState option" where
  "setTransition cw from to next =
    (if from \<noteq> to
     then (case next of
             None \<Rightarrow>
               (case transitions (from, to) of
                  None \<Rightarrow> (False, cw, None)
                | Some op \<Rightarrow> (True, op_apply op cw, None))
           | Some old \<Rightarrow>
               (case (if to = Operation_Enable then nextStateForEnabling from else Inr to) of
                  Inl e \<Rightarrow> (False, cw, Some old)
                | Inr hop \<Rightarrow>
                    (case transitions (from, hop) of
                       None \<Rightarrow> (False, cw, Some hop)
                     | Some op \<Rightarrow> (True, op_apply op cw, Some hop))))
     else (True, cw, next))"

subsection \<open>The table\<close>

lemma fold_add_transition:
  "fold (\<lambda>(from, to, op) t. add_transition from to op t) xs t k =
    (case t k of None \<Rightarrow> map_of (map (\<lambda>(from, to, op). ((from, to), op)) xs) k | Some op \<Rightarrow> Some op)"
  by (induction xs arbitrary: t) (auto simp: add_transition_def split: option.splits)

lemma transitions_map_of:
  "transitions k = map_of (map (\<lambda>(from, to, op). ((from, to), op)) transition_list) k"
  by (simp add: transitions_def fold_add_transition)

lemma transitions_iff:
  "transitions (src, dst) = Some op \<longleftrightarrow> (src, dst, op) \<in> set transition_list"
proof -
  let ?xs = "map (\<lambda>(from, to, op). ((from, to), op)) transition_list"
  have "distinct (map fst ?xs)"
    by (simp add: transition_list_def)
  then have "map_of ?xs (src, dst) = Some op \<longleftrightarrow> ((src, dst), op) \<in> set ?xs"
    by (rule map_of_eq_Some_iff)
  then show ?thesis
    by (force simp: transitions_map_of)
qed

lemma transitions_None_iff:
  "transitions (src, dst) = None \<longleftrightarrow> (\<forall>op. (src, dst, op) \<notin> set transition_list)"
  by (metis not_Some_eq transitions_iff)

lemma transitions_rows [simp]:
  "transitions (Ready_To_Switch_On, Switch_On_Disabled) = Some disable_voltage"
  "transitions (Operation_Enable, Switch_On_Disabled) = Some disable_voltage"
  "transitions (Switched_On, Switch_On_Disabled) = Some disable_voltage"
  "transitions (Quick_Stop_Active, Switch_On_Disabled) = Some disable_voltage"
  "transitions (Start, Not_Ready_To_Switch_On) = Some automatic"
  "transitions (Not_Ready_To_Switch_On, Switch_On_Disabled) = Some automatic"
  "transitions (Fault_Reaction_Active, Fault) = Some automatic"
  "transitions (Switch_On_Disabled, Ready_To_Switch_On) = Some shutdown_op"
  "transitions (Switched_On, Ready_To_Switch_On) = Some shutdown_op"
  "transitions (Operation_Enable, Ready_To_Switch_On) = Some shutdown_op"
  "transitions (Ready_To_Switch_On, Switched_On) = Some switch_on"
  "transitions (Operation_Enable, Switched_On) = Some switch_on"
  "transitions (Switched_On, Operation_Enable) = Some enable_operation"
  "transitions (Quick_Stop_Active, Operation_Enable) = Some enable_operation"
  "transitions (Ready_To_Switch_On, Quick_Stop_Active) = Some quickstop"
  "transitions (Switched_On, Quick_Stop_Active) = Some quickstop"
  "transitions (Operation_Enable, Quick_Stop_Active) = Some quickstop"
  "transitions (Fault, Switch_On_Disabled) = Some fault_reset"
  by (simp_all add: transitions_iff transition_list_def)

subsection \<open>Bits of a command\<close>

lemmas op_defs = disable_voltage_def automatic_def shutdown_op_def switch_on_def
  enable_operation_def quickstop_def fault_reset_def

lemma bit_op_apply [word_tests]:
  "bit (op_apply op cw) k \<longleftrightarrow> bit (to_set op) k \<or> k < 16 \<and> bit cw k \<and> \<not> bit (to_reset op) k"
  using bit_imp_le_length[of cw k]
  by (auto simp: op_apply_def bit_or_iff bit_and_iff bit_not_iff)

lemma op_bits [word_tests]:
  "bit (to_set disable_voltage) k \<longleftrightarrow> False"
  "bit (to_reset disable_voltage) k \<longleftrightarrow> k = 7 \<or> k = 1"
  "bit (to_set automatic) k \<longleftrightarrow> False"
  "bit (to_reset automatic) k \<longleftrightarrow> False"
  "bit (to_set shutdown_op) k \<longleftrightarrow> k = 2 \<or> k = 1"
  "bit (to_reset shutdown_op) k \<longleftrightarrow> k = 7 \<or> k = 0"
  "bit (to_set switch_on) k \<longleftrightarrow> k = 2 \<or> k = 1 \<or> k = 0"
  "bit (to_reset switch_on) k \<longleftrightarrow> k = 7 \<or> k = 3"
  "bit (to_set enable_operation) k \<longleftrightarrow> k = 2 \<or> k = 1 \<or> k = 0 \<or> k = 3"
  "bit (to_reset enable_operation) k \<longleftrightarrow> k = 7"
  "bit (to_set quickstop) k \<longleftrightarrow> k = 1"
  "bit (to_reset quickstop) k \<longleftrightarrow> k = 7 \<or> k = 2"
  "bit (to_set fault_reset) k \<longleftrightarrow> k = 7"
  "bit (to_reset fault_reset) k \<longleftrightarrow> False"
  by (auto simp: op_defs bit_or_iff bit_shl1)

text \<open>The bits of the control word that state transitions own.\<close>

definition transition_bits :: "nat set" where
  "transition_bits = {0, 1, 2, 3, 7}"

lemma table_op_bits:
  assumes "transitions (src, dst) = Some op"
  shows "bit (to_set op) k \<Longrightarrow> k \<in> transition_bits" "bit (to_reset op) k \<Longrightarrow> k \<in> transition_bits"
  using assms
  by (auto simp: transitions_iff transition_list_def transition_bits_def op_bits)

lemma op_apply_other_bits:
  assumes "transitions (src, dst) = Some op" "k \<notin> transition_bits"
  shows "bit (op_apply op cw) k = bit cw k"
  using table_op_bits[OF assms(1)] assms(2) bit_imp_le_length[of cw k]
  by (auto simp: bit_op_apply)

lemma op_apply_idem: "op_apply op (op_apply op cw) = op_apply op cw"
  by (rule word_eq_bits) (auto simp: bit_op_apply)

subsection \<open>Setting a transition\<close>

lemma setTransition_same [simp]: "setTransition cw st st nx = (True, cw, nx)"
  by (simp add: setTransition_def)

lemma setTransition_null:
  "src \<noteq> dst \<Longrightarrow> setTransition cw src dst None =
    (case transitions (src, dst) of None \<Rightarrow> (False, cw, None) | Some op \<Rightarrow> (True, op_apply op cw, None))"
  by (simp add: setTransition_def)

lemma setTransition_direct:
  "src \<noteq> dst \<Longrightarrow> dst \<noteq> Operation_Enable \<Longrightarrow> setTransition cw src dst (Some old) =
    (case transitions (src, dst) of None \<Rightarrow> (False, cw, Some dst)
     | Some op \<Rightarrow> (True, op_apply op cw, Some dst))"
  by (simp add: setTransition_def)

text \<open>A failed transition leaves the control word alone; a successful one changes only the bits
  that transitions own.\<close>

lemma setTransition_failed: "setTransition cw src dst nx = (False, cw', nx') \<Longrightarrow> cw' = cw"
  by (auto simp: setTransition_def split: if_splits option.splits sum.splits)

lemma setTransition_other_bits:
  assumes "setTransition cw src dst nx = (ok, cw', nx')" "k \<notin> transition_bits"
  shows "bit cw' k = bit cw k"
  using assms
  by (auto simp: setTransition_def op_apply_other_bits split: if_splits option.splits sum.splits)

text \<open>The number of hops to Operation_Enable.\<close>

fun hops_to_enable :: "InternalState \<Rightarrow> nat" where
  "hops_to_enable Operation_Enable = 0"
| "hops_to_enable Switched_On = 1"
| "hops_to_enable Quick_Stop_Active = 1"
| "hops_to_enable Ready_To_Switch_On = 2"
| "hops_to_enable Switch_On_Disabled = 3"
| "hops_to_enable Not_Ready_To_Switch_On = 4"
| "hops_to_enable Fault = 4"
| "hops_to_enable Unknown = 5"
| "hops_to_enable Fault_Reaction_Active = 5"
| "hops_to_enable (Illegal n) = 0"

lemma enabling_hop:
  assumes "legal_state st" "st \<noteq> Operation_Enable"
  obtains hop op where "nextStateForEnabling st = Inr hop" "transitions (st, hop) = Some op"
    "legal_state hop" "hops_to_enable st = Suc (hops_to_enable hop)" "hop \<noteq> st"
  using assms by (cases st) (force simp: transitions_rows)+

lemma setTransition_enabling:
  assumes "st \<noteq> Operation_Enable" "nextStateForEnabling st = Inr hop" "transitions (st, hop) = Some op"
  shows "setTransition cw st Operation_Enable (Some old) = (True, op_apply op cw, Some hop)"
  using assms by (simp add: setTransition_def)

lemma setTransition_illegal:
  "setTransition cw (Illegal n) Operation_Enable (Some old) = (False, cw, Some old)"
  by (simp add: setTransition_def)

text \<open>A successful transition away from a state names another state as its next hop, so the loop
  that waits for the hop has something to wait for.\<close>

lemma setTransition_next_other:
  assumes "setTransition cw src dst (Some old) = (True, cw', Some hop)" "src \<noteq> dst"
  shows "hop \<noteq> src"
proof (cases "dst = Operation_Enable")
  case True
  with assms show ?thesis
    by (cases src) (auto simp: setTransition_def split: option.splits)
next
  case False
  with assms show ?thesis
    by (auto simp: setTransition_direct split: option.splits)
qed

subsection \<open>Properties\<close>

text \<open>From every legal state below Operation_Enable the way to it is open: the next hop exists,
  is in the table and is one hop nearer, and the command for it is put into the control word.\<close>

theorem setTransition_progress:
  assumes "legal_state st" "st \<noteq> Operation_Enable"
  shows "\<exists>hop op. transitions (st, hop) = Some op \<and>
    setTransition cw st Operation_Enable (Some old) = (True, op_apply op cw, Some hop) \<and>
    legal_state hop \<and> hops_to_enable st = Suc (hops_to_enable hop)"
proof -
  obtain hop op where "nextStateForEnabling st = Inr hop" "transitions (st, hop) = Some op"
      "legal_state hop" "hops_to_enable st = Suc (hops_to_enable hop)"
    by (rule enabling_hop[OF assms])
  with setTransition_enabling[OF assms(2)] show ?thesis by blast
qed

theorem setTransition_progress_witness:
  "\<exists>hop op. transitions (Fault, hop) = Some op \<and>
    setTransition 0x010F Fault Operation_Enable (Some Unknown) = (True, op_apply op 0x010F, Some hop) \<and>
    legal_state hop \<and> hops_to_enable Fault = Suc (hops_to_enable hop)"
  by (rule setTransition_progress) simp_all

text \<open>Setting a transition touches the state bits of the control word only: the mode bits, the
  halt bit and the manufacturer bits stay, and after a failure the whole word stays.\<close>

theorem setTransition_frame:
  assumes "setTransition cw src dst nx = (ok, cw', nx')"
  shows "(\<forall>k. k \<notin> {0, 1, 2, 3, 7} \<longrightarrow> bit cw' k = bit cw k) \<and> (\<not> ok \<longrightarrow> cw' = cw)"
proof -
  have "\<not> ok \<longrightarrow> cw' = cw"
    using assms setTransition_failed by (cases ok) auto
  with setTransition_other_bits[OF assms] show ?thesis
    by (simp add: transition_bits_def)
qed

theorem setTransition_frame_witness:
  "\<exists>ok cw' nx'. setTransition 0x0137 Operation_Enable Quick_Stop_Active None = (ok, cw', nx') \<and>
    (\<forall>k. k \<notin> {0, 1, 2, 3, 7} \<longrightarrow> bit cw' k = bit (0x0137 :: u16) k)"
proof -
  obtain ok cw' nx' where run: "setTransition 0x0137 Operation_Enable Quick_Stop_Active None = (ok, cw', nx')"
    by (metis prod_cases3)
  from setTransition_frame[OF this] run show ?thesis by blast
qed

end
