(* ===== verification/Modes402.thy ===== *)
theory Modes402
  imports Command402
begin

text \<open>
  The operation modes of a CiA 402 drive (\<open>canopen_402_driver\<close>): the accessor of the mode bits of
  the control word (\<open>word_accessor.hpp\<close>, \<open>mode.hpp\<close>), the target helper (\<open>mode_target_helper.hpp\<close>),
  the forwarding modes (\<open>mode_forward_helper.hpp\<close>), the profiled position mode
  (\<open>profiled_position_mode.hpp\<close>) and the default homing mode (\<open>homing_mode.hpp\<close>,
  \<open>default_homing_mode.hpp\<close>, \<open>default_homing_mode.cpp\<close>).

  The driver bridge the modes write to is a record of functions on its state \<open>'w\<close>, since the modes
  use nothing of it but \<open>universal_get_value\<close>, \<open>universal_set_value\<close> and \<open>has_object\<close>.
\<close>

subsection \<open>The bus as the modes see it\<close>

record 'w bus =
  uget :: "int_type \<Rightarrow> u16 \<Rightarrow> u8 \<Rightarrow> 'w \<Rightarrow> int \<times> 'w"
  uset :: "int_type \<Rightarrow> u16 \<Rightarrow> u8 \<Rightarrow> int \<Rightarrow> 'w \<Rightarrow> (exn + unit) \<times> 'w"
  has_object :: "u16 \<Rightarrow> u8 \<Rightarrow> 'w \<Rightarrow> bool"

subsection \<open>WordAccessor\<close>

text \<open>The accessor refers to a word: every writing operation returns the new word.\<close>

definition wa_set :: "u16 \<Rightarrow> nat \<Rightarrow> u16 \<Rightarrow> bool \<times> u16" where
  "wa_set MASK b w = (let val = MASK AND shl1 b in (val \<noteq> 0, w OR val))"

definition wa_reset :: "u16 \<Rightarrow> nat \<Rightarrow> u16 \<Rightarrow> bool \<times> u16" where
  "wa_reset MASK b w = (let val = MASK AND shl1 b in (val \<noteq> 0, w AND NOT val))"

definition wa_get_bit :: "nat \<Rightarrow> u16 \<Rightarrow> bool" where
  "wa_get_bit b w \<longleftrightarrow> w AND shl1 b \<noteq> 0"

definition wa_get :: "u16 \<Rightarrow> u16 \<Rightarrow> u16" where
  "wa_get MASK w = w AND MASK"

definition wa_assign :: "u16 \<Rightarrow> u16 \<Rightarrow> u16 \<Rightarrow> u16" where
  "wa_assign MASK val w = (w AND NOT MASK) OR (val AND MASK)"

definition OpModeMask :: u16 where
  "OpModeMask = cwm CW_Operation_mode_specific0 OR cwm CW_Operation_mode_specific1
    OR cwm CW_Operation_mode_specific2 OR cwm CW_Operation_mode_specific3"

text \<open>The bits of the control word that belong to the operation mode.\<close>

definition mode_bits :: "nat set" where
  "mode_bits = {4, 5, 6, 9}"

lemma bit_OpModeMask [word_tests]: "bit OpModeMask k \<longleftrightarrow> k \<in> mode_bits"
  by (auto simp: OpModeMask_def mode_bits_def bit_or_iff bit_shl1)

lemma bit_wa_set [word_tests]:
  "bit (snd (wa_set MASK b w)) k \<longleftrightarrow> bit w k \<or> k = b \<and> b < 16 \<and> bit MASK b"
  by (auto simp: wa_set_def Let_def bit_or_iff bit_and_iff bit_shl1)

lemma bit_wa_reset [word_tests]:
  "bit (snd (wa_reset MASK b w)) k \<longleftrightarrow> bit w k \<and> \<not> (k = b \<and> bit MASK b)"
  using bit_imp_le_length[of w k]
  by (auto simp: wa_reset_def Let_def bit_and_iff bit_or_iff bit_not_iff bit_shl1)

lemma bit_wa_assign [word_tests]:
  "bit (wa_assign MASK val w) k \<longleftrightarrow> (if bit MASK k then bit val k else bit w k)"
  using bit_imp_le_length[of w k]
  by (auto simp: wa_assign_def bit_or_iff bit_and_iff bit_not_iff)

lemma bit_wa_get [word_tests]: "bit (wa_get MASK w) k \<longleftrightarrow> bit w k \<and> bit MASK k"
  by (simp add: wa_get_def bit_and_iff)

lemma wa_get_bit [word_tests]: "b < 16 \<Longrightarrow> wa_get_bit b w = bit w b"
  by (simp add: wa_get_bit_def and_shl1_eq_0)

subsection \<open>ModeTargetHelper\<close>

text \<open>\<open>boost::numeric_cast\<close> is not part of the sources. It is a parameter; a call converts, throws
  one of the two overflow exceptions, or throws something else.\<close>

datatype cast_result = Cast int | Negative_overflow | Positive_overflow | Bad_cast

type_synonym numeric_cast = "int_type \<Rightarrow> double \<Rightarrow> cast_result"

text \<open>Truncation towards zero, and the documented behaviour of \<open>numeric_cast\<close> from \<open>double\<close> to an
  integer type: values whose truncation fits are truncated, the others overflow on their side.\<close>

definition trunc :: "real \<Rightarrow> int" where
  "trunc r = (if r < 0 then \<lceil>r\<rceil> else \<lfloor>r\<rfloor>)"

definition boost_cast :: numeric_cast where
  "boost_cast t v =
    (case v of
       NaN \<Rightarrow> Bad_cast
     | PInf \<Rightarrow> Positive_overflow
     | NInf \<Rightarrow> Negative_overflow
     | Fin r \<Rightarrow> (if r \<le> of_int (type_min t) - 1 then Negative_overflow
                else if of_int (type_max t) + 1 \<le> r then Positive_overflow
                else Cast (trunc r)))"

definition numeric_cast_law :: "numeric_cast \<Rightarrow> bool" where
  "numeric_cast_law nc \<longleftrightarrow> (\<forall>t v. \<not> is_nan v \<longrightarrow> nc t v = boost_cast t v)"

text \<open>\<open>ModeTargetHelper<T>\<close>: the mode id of the base class, the type argument and the two members.
  The constructor initialises neither member.\<close>

record target_helper =
  th_mode_id :: u16
  th_type :: int_type
  target :: int
  has_target :: bool

definition setTarget_helper ::
  "numeric_cast \<Rightarrow> double \<Rightarrow> ('a target_helper_scheme) \<Rightarrow> bool \<times> ('a target_helper_scheme)" where
  "setTarget_helper nc val m =
    (if is_nan val then (False, m)
     else (case nc (th_type m) val of
             Cast v \<Rightarrow> (True, m\<lparr>target := v, has_target := True\<rparr>)
           | Negative_overflow \<Rightarrow> (True, m\<lparr>target := type_min (th_type m), has_target := True\<rparr>)
           | Positive_overflow \<Rightarrow> (True, m\<lparr>target := type_max (th_type m), has_target := True\<rparr>)
           | Bad_cast \<Rightarrow> (False, m)))"

definition start_helper :: "('a target_helper_scheme) \<Rightarrow> bool \<times> ('a target_helper_scheme)" where
  "start_helper m = (True, m\<lparr>has_target := False\<rparr>)"

subsection \<open>ModeForwardHelper\<close>

record forward_mode = target_helper +
  OBJ :: u16
  SUB :: u8
  CW_MASK :: u16
  fwd_channel_offset :: u16

definition forward_read :: "u16 \<Rightarrow> forward_mode \<Rightarrow> bool \<times> forward_mode" where
  "forward_read sw m = (True, m)"

definition forward_write ::
  "'w bus \<Rightarrow> forward_mode \<Rightarrow> u16 \<Rightarrow> 'w \<Rightarrow> (exn + bool) \<times> forward_mode \<times> u16 \<times> 'w" where
  "forward_write bus m cw w =
    (if has_target m
     then (let cw' = wa_assign OpModeMask (wa_get OpModeMask cw OR CW_MASK m) cw in
           case uset bus (th_type m) (OBJ m + fwd_channel_offset m) (SUB m) (target m) w of
             (Inl e, w') \<Rightarrow> (Inl e, m, cw', w')
           | (Inr u, w') \<Rightarrow> (Inr True, m, cw', w'))
     else (Inr False, m, wa_assign OpModeMask (wa_get OpModeMask cw AND NOT (CW_MASK m)) cw, w))"

subsection \<open>ProfiledPositionMode\<close>

record position_mode = target_helper +
  pp_channel_offset :: u16
  pp_sw :: u16
  last_target :: double

definition pp_base_index :: u16 where "pp_base_index = 0x607A"
definition pp_mask_acknowledged :: u16 where "pp_mask_acknowledged = shl1 (sw_bit SW_Operation_mode_specific0)"
definition pp_mask_error :: u16 where "pp_mask_error = shl1 (sw_bit SW_Operation_mode_specific1)"
definition CW_NewPoint :: nat where "CW_NewPoint = cw_bit CW_Operation_mode_specific0"
definition CW_Immediate :: nat where "CW_Immediate = cw_bit CW_Operation_mode_specific1"

definition position_start :: "position_mode \<Rightarrow> bool \<times> position_mode" where
  "position_start m = start_helper (m\<lparr>pp_sw := 0, last_target := NaN\<rparr>)"

definition position_read :: "u16 \<Rightarrow> position_mode \<Rightarrow> bool \<times> position_mode" where
  "position_read sw m = (sw AND pp_mask_error = 0, m\<lparr>pp_sw := sw\<rparr>)"

definition position_write ::
  "'w bus \<Rightarrow> position_mode \<Rightarrow> u16 \<Rightarrow> 'w \<Rightarrow> (exn + bool) \<times> position_mode \<times> u16 \<times> 'w" where
  "position_write bus m cw0 w =
    (let cw = snd (wa_set OpModeMask CW_Immediate cw0) in
     if has_target m
     then (let tgt = target m in
           if pp_sw m AND pp_mask_acknowledged = 0 \<and> double_neq (Fin (of_int tgt)) (last_target m)
           then if wa_get_bit CW_NewPoint cw
                then (Inr True, m, snd (wa_reset OpModeMask CW_NewPoint cw), w)
                else (case uset bus I32 (pp_base_index + pp_channel_offset m) 0 tgt w of
                        (Inl e, w') \<Rightarrow> (Inl e, m, cw, w')
                      | (Inr u, w') \<Rightarrow> (Inr True, m\<lparr>last_target := Fin (of_int tgt)\<rparr>,
                                       snd (wa_set OpModeMask CW_NewPoint cw), w'))
           else if pp_sw m AND pp_mask_acknowledged \<noteq> 0
           then (Inr True, m, snd (wa_reset OpModeMask CW_NewPoint cw), w)
           else (Inr True, m, cw, w))
     else (Inr False, m, cw, w))"

subsection \<open>DefaultHomingMode\<close>

record homing_mode =
  hm_channel_offset :: u16
  hm_execute :: bool
  hm_status :: u16
  hm_cond :: nat
  hm_timeout :: int

definition hm_base_index :: u16 where "hm_base_index = 0x6098"
definition hm_reached :: u16 where "hm_reached = shl1 (sw_bit SW_Target_reached)"
definition hm_attained :: u16 where "hm_attained = shl1 (sw_bit SW_Operation_mode_specific0)"
definition hm_error_mask :: u16 where "hm_error_mask = shl1 (sw_bit SW_Operation_mode_specific1)"
definition CW_StartHoming :: nat where "CW_StartHoming = cw_bit CW_Operation_mode_specific0"

definition homing_read :: "u16 \<Rightarrow> homing_mode \<Rightarrow> bool \<times> homing_mode" where
  "homing_read sw m =
    (let st = sw AND (hm_reached OR hm_attained OR hm_error_mask) in
     (True, if hm_status m \<noteq> st then m\<lparr>hm_status := st, hm_cond := hm_cond m + 1\<rparr>
            else m\<lparr>hm_status := st\<rparr>))"

definition homing_start :: "homing_mode \<Rightarrow> bool \<times> homing_mode" where
  "homing_start m = homing_read 0 (m\<lparr>hm_execute := False\<rparr>)"

definition homing_write :: "homing_mode \<Rightarrow> u16 \<Rightarrow> bool \<times> homing_mode \<times> u16" where
  "homing_write m cw =
    (let cw = wa_assign OpModeMask 0 cw in
     if hm_execute m then (True, m, snd (wa_set OpModeMask CW_StartHoming cw)) else (False, m, cw))"

text \<open>\<open>masked_status_not_equal<mask, not_equal>\<close>\<close>

definition masked_status_not_equal :: "u16 \<Rightarrow> u16 \<Rightarrow> homing_mode \<Rightarrow> bool" where
  "masked_status_not_equal msk excl m \<longleftrightarrow> hm_status m AND msk \<noteq> excl"

text \<open>
  \<open>executeHoming\<close> runs while the polling thread keeps updating the same homing object, so it works
  on a world \<open>'s\<close> that contains the object: \<open>get\<close> and \<open>put\<close> access it, \<open>read_method\<close> is the bus
  read of the homing method. The mutex is held except while waiting. Both deadlines are ends of
  the script; the two waits of a phase share one.
\<close>

definition homing_fail ::
  "('s \<Rightarrow> homing_mode) \<Rightarrow> (homing_mode \<Rightarrow> 's \<Rightarrow> 's) \<Rightarrow> 's \<Rightarrow> 's wakeups \<Rightarrow> bool \<times> 's \<times> 's wakeups" where
  "homing_fail get put s ws = (False, put ((get s)\<lparr>hm_execute := False\<rparr>) s, ws)"

definition homing_error_set :: "homing_mode \<Rightarrow> bool" where
  "homing_error_set m \<longleftrightarrow> hm_status m AND hm_error_mask \<noteq> 0"

text \<open>One \<open>if (!cond_.wait_until(...)) return error(...); if (status_ & MASK_Error) return error(...)\<close>
  followed by the rest of the function.\<close>

definition homing_phase ::
  "('s \<Rightarrow> homing_mode) \<Rightarrow> (homing_mode \<Rightarrow> 's \<Rightarrow> 's) \<Rightarrow> (homing_mode \<Rightarrow> bool) \<Rightarrow> 's \<Rightarrow> 's wakeups
   \<Rightarrow> ('s \<Rightarrow> 's wakeups \<Rightarrow> bool \<times> 's \<times> 's wakeups) \<Rightarrow> bool \<times> 's \<times> 's wakeups" where
  "homing_phase get put pred s ws k =
    (let (ok, s', ws') = wait_until_pred (\<lambda>x. pred (get x)) ws s in
     if \<not> ok then homing_fail get put s' ws'
     else if homing_error_set (get s') then homing_fail get put s' ws'
     else k s' ws')"

definition homing_finish ::
  "('s \<Rightarrow> homing_mode) \<Rightarrow> (homing_mode \<Rightarrow> 's \<Rightarrow> 's) \<Rightarrow> 's \<Rightarrow> 's wakeups \<Rightarrow> bool \<times> 's \<times> 's wakeups" where
  "homing_finish get put s ws =
    (if hm_status (get s) AND hm_reached \<noteq> 0 \<and> hm_status (get s) AND hm_attained \<noteq> 0
     then (True, put ((get s)\<lparr>hm_execute := False\<rparr>) s, ws)
     else homing_fail get put s ws)"

definition executeHoming ::
  "('s \<Rightarrow> homing_mode) \<Rightarrow> (homing_mode \<Rightarrow> 's \<Rightarrow> 's) \<Rightarrow> ('s \<Rightarrow> int \<times> 's) \<Rightarrow> 's \<Rightarrow> 's wakeups
   \<Rightarrow> bool \<times> 's \<times> 's wakeups" where
  "executeHoming get put read_method s ws =
    (let (hmode, s) = read_method s in
     if hmode = 0 then (True, s, ws)
     else homing_phase get put
            (masked_status_not_equal (hm_error_mask OR hm_reached) 0) s ws (\<lambda>s ws.
          let s = put ((get s)\<lparr>hm_execute := True\<rparr>) s in
          homing_phase get put
            (masked_status_not_equal (hm_error_mask OR hm_attained OR hm_reached) hm_reached) s ws
            (\<lambda>s ws.
          homing_phase get put (masked_status_not_equal (hm_error_mask OR hm_attained) 0) s ws
            (\<lambda>s ws.
          homing_phase get put (masked_status_not_equal (hm_error_mask OR hm_reached) 0) s ws
            (\<lambda>s ws. homing_finish get put s ws)))))"

subsection \<open>The class hierarchy of modes\<close>

datatype mode_obj = Forward forward_mode | Position position_mode | Homing_mode homing_mode

definition homing_id :: u16 where "homing_id = 6"

fun mode_obj_id :: "mode_obj \<Rightarrow> u16" where
  "mode_obj_id (Forward m) = th_mode_id m"
| "mode_obj_id (Position m) = th_mode_id m"
| "mode_obj_id (Homing_mode m) = homing_id"

text \<open>The virtual functions \<open>start\<close>, \<open>read\<close>, \<open>write\<close> and \<open>setTarget\<close>. The base class answers \<open>false\<close>
  to \<open>setTarget\<close>.\<close>

fun mode_start :: "mode_obj \<Rightarrow> bool \<times> mode_obj" where
  "mode_start (Forward m) = (let (r, m') = start_helper m in (r, Forward m'))"
| "mode_start (Position m) = (let (r, m') = position_start m in (r, Position m'))"
| "mode_start (Homing_mode m) = (let (r, m') = homing_start m in (r, Homing_mode m'))"

fun mode_read :: "u16 \<Rightarrow> mode_obj \<Rightarrow> bool \<times> mode_obj" where
  "mode_read sw (Forward m) = (let (r, m') = forward_read sw m in (r, Forward m'))"
| "mode_read sw (Position m) = (let (r, m') = position_read sw m in (r, Position m'))"
| "mode_read sw (Homing_mode m) = (let (r, m') = homing_read sw m in (r, Homing_mode m'))"

fun mode_write :: "'w bus \<Rightarrow> mode_obj \<Rightarrow> u16 \<Rightarrow> 'w \<Rightarrow> (exn + bool) \<times> mode_obj \<times> u16 \<times> 'w" where
  "mode_write bus (Forward m) cw w =
    (let (r, m', cw', w') = forward_write bus m cw w in (r, Forward m', cw', w'))"
| "mode_write bus (Position m) cw w =
    (let (r, m', cw', w') = position_write bus m cw w in (r, Position m', cw', w'))"
| "mode_write bus (Homing_mode m) cw w =
    (let (r, m', cw') = homing_write m cw in (Inr r, Homing_mode m', cw', w))"

fun mode_setTarget :: "numeric_cast \<Rightarrow> double \<Rightarrow> mode_obj \<Rightarrow> bool \<times> mode_obj" where
  "mode_setTarget nc v (Forward m) = (let (r, m') = setTarget_helper nc v m in (r, Forward m'))"
| "mode_setTarget nc v (Position m) = (let (r, m') = setTarget_helper nc v m in (r, Position m'))"
| "mode_setTarget nc v (Homing_mode m) = (False, Homing_mode m)"

subsection \<open>Lemmas on targets\<close>

text \<open>The specification of \<open>setTarget\<close>: the truncated value, saturated to the type.\<close>

fun clamp_target :: "int_type \<Rightarrow> double \<Rightarrow> int" where
  "clamp_target t (Fin r) = max (type_min t) (min (type_max t) (trunc r))"
| "clamp_target t PInf = type_max t"
| "clamp_target t NInf = type_min t"
| "clamp_target t NaN = 0"

lemma trunc_le_iff: "trunc r \<le> z \<longleftrightarrow> (if z < 0 then r \<le> of_int z else r < of_int z + 1)"
  unfolding trunc_def by (auto simp: ceiling_le_iff floor_le_iff; linarith)

lemma clamp_target_in_type: "in_type t (clamp_target t v)"
proof (cases v)
  case NaN
  then show ?thesis by (cases t) (simp_all add: in_type_def type_limits)
qed (use type_min_le_max[of t] in \<open>auto simp: in_type_def\<close>)

lemma boost_cast_clamp:
  "boost_cast t (Fin r) =
    (if r \<le> of_int (type_min t) - 1 then Negative_overflow
     else if of_int (type_max t) + 1 \<le> r then Positive_overflow
     else Cast (clamp_target t (Fin r)))"
proof -
  have "trunc r \<le> type_max t" if "\<not> of_int (type_max t) + 1 \<le> r"
    using that by (cases t) (auto simp: trunc_le_iff type_limits)
  moreover have "type_min t \<le> trunc r" if "\<not> r \<le> of_int (type_min t) - 1"
  proof -
    have "type_min t \<le> 0"
      by (simp add: type_min_def)
    with that show ?thesis
      unfolding trunc_def by (auto simp: le_ceiling_iff le_floor_iff)
  qed
  ultimately show ?thesis
    by (simp add: boost_cast_def)
qed

lemma clamp_target_overflow:
  "r \<le> of_int (type_min t) - 1 \<Longrightarrow> clamp_target t (Fin r) = type_min t"
  "of_int (type_max t) + 1 \<le> r \<Longrightarrow> clamp_target t (Fin r) = type_max t"
proof -
  assume "r \<le> of_int (type_min t) - 1"
  then have "trunc r \<le> type_min t"
    by (auto simp: trunc_le_iff type_min_def)
  then show "clamp_target t (Fin r) = type_min t"
    using type_min_le_max[of t] by simp
next
  assume r: "of_int (type_max t) + 1 \<le> r"
  have "0 \<le> type_max t"
    by (cases t) (simp_all add: type_limits)
  with r have "type_max t \<le> trunc r"
    unfolding trunc_def by (auto simp: le_floor_iff)
  then show "clamp_target t (Fin r) = type_max t"
    using type_min_le_max[of t] by simp
qed

lemma setTarget_helper_eq:
  assumes "numeric_cast_law nc"
  shows "setTarget_helper nc v m =
    (if is_nan v then (False, m)
     else (True, m\<lparr>target := clamp_target (th_type m) v, has_target := True\<rparr>))"
proof (cases v)
  case (Fin r)
  with assms show ?thesis
    using clamp_target_overflow[where t = "th_type m" and r = r]
    by (auto simp: setTarget_helper_def numeric_cast_law_def boost_cast_clamp
        simp del: clamp_target.simps)
qed (use assms in \<open>simp_all add: setTarget_helper_def numeric_cast_law_def boost_cast_def\<close>)

lemma setTarget_helper_in_type:
  assumes "numeric_cast_law nc" "setTarget_helper nc v m = (True, m')"
  shows "in_type (th_type m') (target m')" "has_target m'"
  using assms clamp_target_in_type[of "th_type m" v]
  by (auto simp: setTarget_helper_eq split: if_splits)

lemma boost_cast_law: "numeric_cast_law boost_cast"
  by (simp add: numeric_cast_law_def)

subsection \<open>Lemmas on writing\<close>

text \<open>A mode writes only the bits of the control word that belong to the operation mode, thrown
  exceptions included.\<close>

lemma forward_write_other_bits:
  "\<lbrakk>forward_write bus m cw w = (r, m', cw', w'); k \<notin> mode_bits\<rbrakk> \<Longrightarrow> bit cw' k = bit cw k"
  by (auto simp: forward_write_def Let_def word_tests split: if_splits prod.splits sum.splits)

lemma CW_bits_in_mode [simp]: "CW_NewPoint = 4" "CW_Immediate = 5" "CW_StartHoming = 4"
  by (simp_all add: CW_NewPoint_def CW_Immediate_def CW_StartHoming_def)

lemma position_write_other_bits:
  "\<lbrakk>position_write bus m cw w = (r, m', cw', w'); k \<notin> mode_bits\<rbrakk> \<Longrightarrow> bit cw' k = bit cw k"
  by (auto simp: position_write_def Let_def word_tests mode_bits_def
      split: if_splits prod.splits sum.splits)

lemma homing_write_other_bits:
  "\<lbrakk>homing_write m cw = (r, m', cw'); k \<notin> mode_bits\<rbrakk> \<Longrightarrow> bit cw' k = bit cw k"
  by (auto simp: homing_write_def Let_def word_tests mode_bits_def split: if_splits)

lemma mode_write_other_bits:
  assumes "mode_write bus m cw w = (r, m', cw', w')" "k \<notin> mode_bits"
  shows "bit cw' k = bit cw k"
  using assms
  by (cases m) (auto split: prod.splits
      dest: forward_write_other_bits position_write_other_bits homing_write_other_bits)

text \<open>None of the virtual functions changes the identity of a mode.\<close>

lemma mode_start_id: "mode_start m = (r, m') \<Longrightarrow> mode_obj_id m' = mode_obj_id m"
  by (cases m) (auto simp: start_helper_def position_start_def split: prod.splits)

lemma mode_read_id: "mode_read sw m = (r, m') \<Longrightarrow> mode_obj_id m' = mode_obj_id m"
  by (cases m) (auto simp: forward_read_def position_read_def split: prod.splits)

lemma mode_setTarget_id: "mode_setTarget nc v m = (r, m') \<Longrightarrow> mode_obj_id m' = mode_obj_id m"
  by (cases m) (auto simp: setTarget_helper_def split: prod.splits if_splits cast_result.splits)

lemma mode_write_id: "mode_write bus m cw w = (r, m', cw', w') \<Longrightarrow> mode_obj_id m' = mode_obj_id m"
  by (cases m) (auto simp: forward_write_def position_write_def Let_def
      split: prod.splits if_splits sum.splits)

subsection \<open>Homing\<close>

text \<open>Access to a homing object inside a larger world: what is put is what is found.\<close>

locale homing_access =
  fixes get :: "'s \<Rightarrow> homing_mode" and put :: "homing_mode \<Rightarrow> 's \<Rightarrow> 's"
  assumes get_put: "get (put h s) = h"
begin

lemma phase_cases:
  assumes "homing_phase get put pred s ws k = (r, s', ws')"
  obtains (failed) "r = False" "\<not> hm_execute (get s')"
  | (passed) s1 ws1 where "k s1 ws1 = (r, s', ws')" "pred (get s1)" "\<not> homing_error_set (get s1)"
      "length ws1 \<le> length ws"
  using assms
  by (auto simp: homing_phase_def homing_fail_def get_put
      dest: wait_until_pred_result wait_until_pred_length split: prod.splits if_splits)

lemma finish_result:
  assumes "homing_finish get put s ws = (r, s', ws')"
  shows "\<not> hm_execute (get s')" "hm_status (get s') = hm_status (get s)"
    "r \<longleftrightarrow> hm_status (get s) AND hm_reached \<noteq> 0 \<and> hm_status (get s) AND hm_attained \<noteq> 0"
  using assms by (auto simp: homing_finish_def homing_fail_def get_put split: if_splits)

lemma finish_true:
  assumes "homing_finish get put s ws = (True, s', ws')"
  shows "hm_status (get s') AND hm_reached \<noteq> 0" "hm_status (get s') AND hm_attained \<noteq> 0"
  using assms by (auto simp: homing_finish_def homing_fail_def get_put split: if_splits)

text \<open>Whatever happens while it waits, homing withdraws its start bit before it returns, and a
  success is reported only with the device at rest, attained and without error.\<close>

lemma executeHoming_outcome:
  assumes "executeHoming get put rd s ws = (r, s', ws')" "fst (rd s) \<noteq> 0"
  shows "\<not> hm_execute (get s') \<and>
    (r \<longrightarrow> hm_status (get s') AND hm_reached \<noteq> 0 \<and> hm_status (get s') AND hm_attained \<noteq> 0
         \<and> \<not> homing_error_set (get s'))"
proof -
  obtain v s0 where rd: "rd s = (v, s0)" "v \<noteq> 0"
    using assms(2) by (cases "rd s") auto
  show ?thesis
    using assms(1) unfolding executeHoming_def rd Let_def
    by (auto simp: rd(2) homing_error_set_def elim!: phase_cases
        dest: finish_result(1,2) finish_true)
qed

text \<open>A property of the world that the accesses and the other threads keep survives homing.\<close>

definition keeps :: "('s \<Rightarrow> bool) \<Rightarrow> ('s \<Rightarrow> 's wakeups \<Rightarrow> bool \<times> 's \<times> 's wakeups) \<Rightarrow> bool" where
  "keeps P k \<longleftrightarrow> (\<forall>s ws r s' ws'. P s \<longrightarrow> wakeups_keep P ws \<longrightarrow> k s ws = (r, s', ws')
    \<longrightarrow> P s' \<and> set ws' \<subseteq> set ws)"

lemma keepsI:
  "(\<And>s ws r s' ws'. P s \<Longrightarrow> wakeups_keep P ws \<Longrightarrow> k s ws = (r, s', ws') \<Longrightarrow> P s' \<and> set ws' \<subseteq> set ws)
   \<Longrightarrow> keeps P k"
  by (simp add: keeps_def)

lemma keepsD:
  "keeps P k \<Longrightarrow> P s \<Longrightarrow> wakeups_keep P ws \<Longrightarrow> k s ws = (r, s', ws') \<Longrightarrow> P s' \<and> set ws' \<subseteq> set ws"
  by (simp add: keeps_def)

definition put_keeps :: "('s \<Rightarrow> bool) \<Rightarrow> bool" where
  "put_keeps P \<longleftrightarrow> (\<forall>h s. P s \<longrightarrow> P (put h s))"

lemma keeps_fail:
  assumes "put_keeps P"
  shows "keeps P (homing_fail get put)"
  by (rule keepsI) (use assms in \<open>auto simp: homing_fail_def put_keeps_def\<close>)

lemma keeps_finish:
  assumes "put_keeps P"
  shows "keeps P (homing_finish get put)"
  by (rule keepsI) (use assms in
      \<open>auto simp: homing_finish_def homing_fail_def put_keeps_def split: if_splits\<close>)

lemma keeps_put:
  assumes "put_keeps P" "keeps P k"
  shows "keeps P (\<lambda>s ws. k (put (f s) s) ws)"
proof (rule keepsI)
  fix s ws r s' ws'
  assume "P s" "wakeups_keep P ws" "k (put (f s) s) ws = (r, s', ws')"
  then show "P s' \<and> set ws' \<subseteq> set ws"
    using assms keepsD[of P k "put (f s) s" ws r s' ws'] by (simp add: put_keeps_def)
qed

lemma keeps_phase:
  assumes "put_keeps P" "keeps P k"
  shows "keeps P (\<lambda>s ws. homing_phase get put pred s ws k)"
proof (rule keepsI)
  fix s ws r s' ws'
  assume P: "P s" and ws: "wakeups_keep P ws"
    and run: "homing_phase get put pred s ws k = (r, s', ws')"
  obtain ok s1 ws1 where w: "wait_until_pred (\<lambda>x. pred (get x)) ws s = (ok, s1, ws1)"
    by (cases "wait_until_pred (\<lambda>x. pred (get x)) ws s") auto
  note left = wait_until_pred_left[OF w] and kept = wait_until_pred_keep[OF w ws P]
  have "homing_fail get put s1 ws1 = (r, s', ws') \<or> k s1 ws1 = (r, s', ws')"
    using run w by (auto simp: homing_phase_def split: if_splits)
  then have "P s' \<and> set ws' \<subseteq> set ws1"
    using keepsD[OF keeps_fail[OF assms(1)], of s1 ws1] keepsD[OF assms(2), of s1 ws1]
      kept wakeups_keep_subset[OF ws left] by blast
  then show "P s' \<and> set ws' \<subseteq> set ws"
    using left by blast
qed

lemma executeHoming_keep:
  assumes put: "put_keeps P" and rd: "P (snd (rd s))" and ws: "wakeups_keep P ws"
    and run: "executeHoming get put rd s ws = (r, s', ws')"
  shows "P s' \<and> set ws' \<subseteq> set ws"
proof -
  obtain v s0 where v: "rd s = (v, s0)"
    by fastforce
  have body: "keeps P (\<lambda>s ws. homing_phase get put
            (masked_status_not_equal (hm_error_mask OR hm_reached) 0) s ws (\<lambda>s ws.
          homing_phase get put
            (masked_status_not_equal (hm_error_mask OR hm_attained OR hm_reached) hm_reached)
            (put ((get s)\<lparr>hm_execute := True\<rparr>) s) ws
            (\<lambda>s ws.
          homing_phase get put (masked_status_not_equal (hm_error_mask OR hm_attained) 0) s ws
            (\<lambda>s ws.
          homing_phase get put (masked_status_not_equal (hm_error_mask OR hm_reached) 0) s ws
            (\<lambda>s ws. homing_finish get put s ws)))))"
    by (intro keeps_phase[OF put] keeps_finish[OF put]
        keeps_put[OF put, where f = "\<lambda>s. (get s)\<lparr>hm_execute := True\<rparr>"])
  show ?thesis
  proof (cases "v = 0")
    case True
    with run rd show ?thesis
      by (simp add: executeHoming_def v)
  next
    case False
    show ?thesis
      by (rule keepsD[OF body, where s = s0 and ws = ws and r = r])
        (use run rd ws False in \<open>simp_all add: executeHoming_def v Let_def\<close>)
  qed
qed

lemma executeHoming_disabled:
  assumes "rd s = (0, s0)"
  shows "executeHoming get put rd s ws = (True, s0, ws)"
  using assms by (simp add: executeHoming_def)

end

end
