(* ===== verification/Diagnostics.thy ===== *)
theory Diagnostics
  imports Prelude
begin

text \<open>
  The collector of diagnostic information (\<open>canopen_base_driver\<close>, \<open>diagnostic_collector.hpp\<close>):
  a level, a message and a map of values. The formatting functions print into a buffer of 1024
  characters, terminator included.
\<close>

text \<open>The constants of \<open>diagnostic_msgs::msg::DiagnosticStatus\<close>.\<close>

definition DIAG_OK :: u8 where "DIAG_OK = 0"
definition DIAG_WARN :: u8 where "DIAG_WARN = 1"
definition DIAG_ERROR :: u8 where "DIAG_ERROR = 2"
definition DIAG_STALE :: u8 where "DIAG_STALE = 3"

record diagnostics =
  level :: u8
  message :: string
  "values" :: "string \<rightharpoonup> string"

definition DiagnosticsCollector_init :: diagnostics where
  "DiagnosticsCollector_init = \<lparr>level = DIAG_OK, message = [], values = Map.empty\<rparr>"

definition getLevel :: "diagnostics \<Rightarrow> u8" where
  "getLevel d = level d"

definition getMessage :: "diagnostics \<Rightarrow> string" where
  "getMessage d = message d"

definition getValue :: "string \<Rightarrow> diagnostics \<Rightarrow> string" where
  "getValue key d = (case values d key of Some v \<Rightarrow> v | None \<Rightarrow> [])"

text \<open>\<open>vsnprintf\<close> into the buffer.\<close>

definition buffered :: "string \<Rightarrow> string" where
  "buffered s = take 1023 s"

definition diag_summary :: "u8 \<Rightarrow> string \<Rightarrow> diagnostics \<Rightarrow> diagnostics" where
  "diag_summary lvl msg d = d\<lparr>level := lvl, message := msg\<rparr>"

definition diag_summaryf :: "u8 \<Rightarrow> string \<Rightarrow> diagnostics \<Rightarrow> diagnostics" where
  "diag_summaryf lvl formatted d = diag_summary lvl (buffered formatted) d"

definition diag_add :: "string \<Rightarrow> string \<Rightarrow> diagnostics \<Rightarrow> diagnostics" where
  "diag_add key val d = d\<lparr>values := (values d)(key \<mapsto> val)\<rparr>"

definition diag_addf :: "string \<Rightarrow> string \<Rightarrow> diagnostics \<Rightarrow> diagnostics" where
  "diag_addf key formatted d = diag_add key (buffered formatted) d"

definition diag_updateAll :: "u8 \<Rightarrow> string \<Rightarrow> string \<Rightarrow> string \<Rightarrow> diagnostics \<Rightarrow> diagnostics" where
  "diag_updateAll lvl msg key val d =
    d\<lparr>level := lvl, message := msg, values := (values d)(key \<mapsto> val)\<rparr>"

text \<open>\<open>updateAll\<close> is a summary followed by an addition.\<close>

lemma diag_updateAll_eq: "diag_updateAll lvl msg key val d = diag_add key val (diag_summary lvl msg d)"
  by (simp add: diag_updateAll_def diag_add_def diag_summary_def)

lemma getValue_add [simp]:
  "getValue k (diag_add key val d) = (if k = key then val else getValue k d)"
  by (simp add: getValue_def diag_add_def)

lemma diag_summary_get [simp]:
  "getLevel (diag_summary lvl msg d) = lvl"
  "getMessage (diag_summary lvl msg d) = msg"
  "getValue k (diag_summary lvl msg d) = getValue k d"
  by (simp_all add: diag_summary_def getLevel_def getMessage_def getValue_def)

lemma diag_add_get [simp]:
  "getLevel (diag_add key val d) = getLevel d"
  "getMessage (diag_add key val d) = getMessage d"
  by (simp_all add: diag_add_def getLevel_def getMessage_def)

end
