(* ===== verification/Motor402.thy ===== *)
theory Motor402
  imports Modes402 Diagnostics
begin

text \<open>
  The CiA 402 motor of the driver (\<open>canopen_402_driver\<close>, \<open>base.hpp\<close>, \<open>motor.hpp\<close> and \<open>motor.cpp\<close>).

  A motor is the record of the members of \<open>Motor402\<close>; \<open>driver\<close> is the state of the driver bridge,
  reached through a \<open>bus\<close>. Mode objects live in the map \<open>modes\<close>, from which nothing is ever
  removed: the shared pointer \<open>selected_mode_\<close> is the key of its object there.

  Operations that block take a script of wake-ups, the work the polling thread and the service
  threads do meanwhile. Between two waits an operation runs without interruption; the poll
  (\<open>handleRead\<close>, \<open>handleWrite\<close>) is such work.
\<close>

subsection \<open>State\<close>

record 'w motor =
  status_word :: u16
  control_word :: u16
  start_fault_reset :: bool
  target_state :: InternalState
  state_handler :: State402
  modes :: "u16 \<rightharpoonup> mode_obj"
  mode_allocators :: "(u16 \<times> mode_obj) list"
  selected_mode :: "u16 option"
  mode_id :: u16
  mode_cond :: nat
  switching_state :: InternalState
  homing_timeout_seconds :: int
  channel :: u8
  channel_offset :: u16
  enable_diagnostics :: bool
  diag_collector :: diagnostics
  effort_support_state :: int
  driver :: 'w

text \<open>The operation modes of \<open>MotorBase\<close>.\<close>

definition No_Mode :: u16 where "No_Mode = 0"
definition Profiled_Position :: u16 where "Profiled_Position = 1"
definition Velocity :: u16 where "Velocity = 2"
definition Profiled_Velocity :: u16 where "Profiled_Velocity = 3"
definition Profiled_Torque :: u16 where "Profiled_Torque = 4"
definition Reserved :: u16 where "Reserved = 5"
definition Homing :: u16 where "Homing = 6"
definition Interpolated_Position :: u16 where "Interpolated_Position = 7"
definition Cyclic_Synchronous_Position :: u16 where "Cyclic_Synchronous_Position = 8"
definition Cyclic_Synchronous_Velocity :: u16 where "Cyclic_Synchronous_Velocity = 9"
definition Cyclic_Synchronous_Torque :: u16 where "Cyclic_Synchronous_Torque = 10"

definition status_word_entry_index :: u16 where "status_word_entry_index = 0x6041"
definition control_word_entry_index :: u16 where "control_word_entry_index = 0x6040"
definition op_mode_display_index :: u16 where "op_mode_display_index = 0x6061"
definition op_mode_index :: u16 where "op_mode_index = 0x6060"
definition supported_drive_modes_index :: u16 where "supported_drive_modes_index = 0x6502"

text \<open>The constructor; \<open>m0\<close> holds what the memory held, the members it does not initialise keep
  that value.\<close>

definition Motor402_new ::
  "'w motor \<Rightarrow> 'w \<Rightarrow> InternalState \<Rightarrow> int \<Rightarrow> u8 \<Rightarrow> 'w motor" where
  "Motor402_new m0 drv sw_state homing_timeout ch =
    m0\<lparr>switching_state := sw_state, homing_timeout_seconds := homing_timeout, channel := ch,
       effort_support_state := - 1, driver := drv, channel_offset := ucast ch * 0x800,
       state_handler := State402_init, modes := Map.empty, mode_allocators := [],
       selected_mode := None\<rparr>"

definition get_channel_index :: "'w motor \<Rightarrow> u16 \<Rightarrow> u16" where
  "get_channel_index m base_index = base_index + channel_offset m"

text \<open>Reads and writes of the object dictionary through the bridge.\<close>

definition motor_get :: "'w bus \<Rightarrow> int_type \<Rightarrow> u16 \<Rightarrow> 'w motor \<Rightarrow> int \<times> 'w motor" where
  "motor_get bus t index m =
    (let (v, w) = uget bus t (get_channel_index m index) 0 (driver m) in (v, m\<lparr>driver := w\<rparr>))"

definition motor_set ::
  "'w bus \<Rightarrow> int_type \<Rightarrow> u16 \<Rightarrow> int \<Rightarrow> 'w motor \<Rightarrow> ('w motor, unit) outcome" where
  "motor_set bus t index v m =
    (let (r, w) = uset bus t (get_channel_index m index) 0 (cast_int t v) (driver m) in
     (r, m\<lparr>driver := w\<rparr>))"

text \<open>The object \<open>selected_mode_\<close> points to.\<close>

definition selected_obj :: "'w motor \<Rightarrow> mode_obj option" where
  "selected_obj m = (case selected_mode m of None \<Rightarrow> None | Some k \<Rightarrow> modes m k)"

definition put_selected :: "mode_obj \<Rightarrow> 'w motor \<Rightarrow> 'w motor" where
  "put_selected obj m =
    (case selected_mode m of None \<Rightarrow> m | Some k \<Rightarrow> m\<lparr>modes := (modes m)(k \<mapsto> obj)\<rparr>)"

definition motor_diag :: "string \<Rightarrow> string \<Rightarrow> 'w motor \<Rightarrow> 'w motor" where
  "motor_diag key formatted m =
    (if enable_diagnostics m
     then m\<lparr>diag_collector := diag_addf key formatted (diag_collector m)\<rparr> else m)"

subsection \<open>Modes\<close>

definition setTarget :: "numeric_cast \<Rightarrow> double \<Rightarrow> 'w motor \<Rightarrow> bool \<times> 'w motor" where
  "setTarget nc val m =
    (if getState (state_handler m) = Operation_Enable
     then (case selected_obj m of
             None \<Rightarrow> (False, m)
           | Some obj \<Rightarrow> (let (r, obj') = mode_setTarget nc val obj in (r, put_selected obj' m)))
     else (False, m))"

text \<open>\<open>supported_modes & (1 << (mode - 1))\<close> matters only for \<open>0 < mode <= 32\<close>.\<close>

definition isModeSupportedByDevice :: "'w bus \<Rightarrow> u16 \<Rightarrow> 'w motor \<Rightarrow> bool \<times> 'w motor" where
  "isModeSupportedByDevice bus mode m =
    (let (supported_modes, m') = motor_get bus U32 supported_drive_modes_index m;
         supported = bit supported_modes (unat mode - 1);
         below_max = mode \<le> 32;
         above_min = 0 < mode
     in (below_max \<and> above_min \<and> supported, m'))"

text \<open>\<open>registerMode(id, m)\<close>: the object is stored when its id is right; \<open>insert\<close> keeps an object
  that is there already.\<close>

definition registerMode :: "u16 \<Rightarrow> mode_obj \<Rightarrow> 'w motor \<Rightarrow> 'w motor" where
  "registerMode i obj m =
    (if mode_obj_id obj = i
     then (case modes m i of None \<Rightarrow> m\<lparr>modes := (modes m)(i \<mapsto> obj)\<rparr> | Some old \<Rightarrow> m)
     else m)"

text \<open>The template \<open>registerMode<T>(mode, args)\<close>: the allocator is represented by the object its
  lambda creates.\<close>

definition registerModeAllocator :: "u16 \<Rightarrow> mode_obj \<Rightarrow> 'w motor \<Rightarrow> bool \<times> 'w motor" where
  "registerModeAllocator mode obj m =
    (case map_of (mode_allocators m) mode of
       None \<Rightarrow> (True, m\<lparr>mode_allocators := mode_allocators m @ [(mode, obj)]\<rparr>)
     | Some old \<Rightarrow> (False, m))"

text \<open>The standard modes. The members the constructors do not initialise come from \<open>junk\<close>.\<close>

record uninit =
  un_target :: int
  un_has_target :: bool
  un_sw :: u16
  un_double :: double

definition new_forward ::
  "(u16 \<Rightarrow> uninit) \<Rightarrow> u16 \<Rightarrow> int_type \<Rightarrow> u16 \<Rightarrow> u8 \<Rightarrow> u16 \<Rightarrow> u16 \<Rightarrow> mode_obj" where
  "new_forward junk ID ty obj sub cw_mask offset =
    Forward \<lparr>th_mode_id = ID, th_type = ty, target = un_target (junk ID),
             has_target = un_has_target (junk ID), OBJ = obj, SUB = sub, CW_MASK = cw_mask,
             fwd_channel_offset = offset\<rparr>"

definition new_position :: "(u16 \<Rightarrow> uninit) \<Rightarrow> u16 \<Rightarrow> mode_obj" where
  "new_position junk offset =
    (let j = junk Profiled_Position in
     Position \<lparr>th_mode_id = Profiled_Position, th_type = I32, target = un_target j,
               has_target = un_has_target j, pp_channel_offset = offset, pp_sw = un_sw j,
               last_target = un_double j\<rparr>)"

definition new_homing :: "(u16 \<Rightarrow> uninit) \<Rightarrow> int \<Rightarrow> u16 \<Rightarrow> mode_obj" where
  "new_homing junk homing_timeout offset =
    (let j = junk Homing in
     Homing_mode \<lparr>hm_channel_offset = offset, hm_execute = un_has_target j, hm_status = un_sw j,
                  hm_cond = 0, hm_timeout = homing_timeout\<rparr>)"

definition default_modes :: "(u16 \<Rightarrow> uninit) \<Rightarrow> int \<Rightarrow> u16 \<Rightarrow> (u16 \<times> mode_obj) list" where
  "default_modes junk homing_timeout off =
    [(Profiled_Position, new_position junk off),
     (Velocity, new_forward junk Velocity I16 0x6042 0
        (cwm CW_Operation_mode_specific0 OR cwm CW_Operation_mode_specific1
         OR cwm CW_Operation_mode_specific2) off),
     (Profiled_Velocity, new_forward junk Profiled_Velocity I32 0x60FF 0 0 off),
     (Profiled_Torque, new_forward junk Profiled_Torque I16 0x6071 0 0 off),
     (Homing, new_homing junk homing_timeout off),
     (Interpolated_Position, new_forward junk Interpolated_Position I32 0x60C1 1
        (cwm CW_Operation_mode_specific0) off),
     (Cyclic_Synchronous_Position,
        new_forward junk Cyclic_Synchronous_Position I32 0x607A 0 0 off),
     (Cyclic_Synchronous_Velocity,
        new_forward junk Cyclic_Synchronous_Velocity I32 0x60FF 0 0 off),
     (Cyclic_Synchronous_Torque,
        new_forward junk Cyclic_Synchronous_Torque I16 0x6071 0 0 off)]"

definition registerDefaultModes :: "(u16 \<Rightarrow> uninit) \<Rightarrow> 'w motor \<Rightarrow> 'w motor" where
  "registerDefaultModes junk m =
    fold (\<lambda>(mode, obj) m. snd (registerModeAllocator mode obj m))
      (default_modes junk (homing_timeout_seconds m) (channel_offset m)) m"

text \<open>\<open>allocMode\<close>: the key of the object, or none.\<close>

definition allocMode :: "'w bus \<Rightarrow> u16 \<Rightarrow> 'w motor \<Rightarrow> u16 option \<times> 'w motor" where
  "allocMode bus mode m =
    (let (ok, m') = isModeSupportedByDevice bus mode m in
     (if ok then (case modes m' mode of None \<Rightarrow> None | Some obj \<Rightarrow> Some mode) else None, m'))"

definition isModeSupported :: "'w bus \<Rightarrow> u16 \<Rightarrow> 'w motor \<Rightarrow> bool \<times> 'w motor" where
  "isModeSupported bus mode m =
    (if mode \<noteq> Homing then (let (k, m') = allocMode bus mode m in (k \<noteq> None, m')) else (False, m))"

definition getMode :: "'w motor \<Rightarrow> u16" where
  "getMode m = (case selected_obj m of Some obj \<Rightarrow> mode_obj_id obj | None \<Rightarrow> No_Mode)"

subsection \<open>Switching the state\<close>

text \<open>
  The loop of \<open>switchState\<close>, with its local variable \<open>st\<close>: the result is \<open>None\<close> after an early
  \<open>return false\<close>, otherwise the last value of \<open>st\<close>. Every iteration sets the next transition in
  the control word and waits until the polling thread has read another state. A round either
  consumes wake-ups or catches up with the state the handler has already seen.
\<close>

definition request_hop :: "InternalState \<Rightarrow> 'w motor \<Rightarrow> bool \<times> InternalState \<times> 'w motor" where
  "request_hop st m =
    (let (success, cw, nx) = setTransition (control_word m) st (target_state m) (Some Unknown);
         hop = (case nx of Some h \<Rightarrow> h | None \<Rightarrow> Unknown);
         m' = m\<lparr>control_word := cw\<rparr>
     in (success, hop,
         if success then motor_diag ''cia402_state''
           (''State switched to: '' @ show_nat (state_number hop)) m' else m'))"

lemma request_hop_simps:
  assumes "request_hop st m = (ok, hop, m')"
  shows "target_state m' = target_state m" "state_handler m' = state_handler m"
    "modes m' = modes m" "selected_mode m' = selected_mode m" "mode_id m' = mode_id m"
    "driver m' = driver m" "channel_offset m' = channel_offset m"
    "start_fault_reset m' = start_fault_reset m" "status_word m' = status_word m"
    "mode_allocators m' = mode_allocators m" "switching_state m' = switching_state m"
    "enable_diagnostics m' = enable_diagnostics m"
  using assms
  by (auto simp: request_hop_def motor_diag_def Let_def split: prod.splits if_splits)

lemma setTransition_keeps_pointer:
  assumes "setTransition cw a b (Some x) = (ok, cw', nx)"
  obtains hop where "nx = Some hop"
  using assms by (auto simp: setTransition_def split: if_split_asm option.split_asm sum.split_asm)

lemma request_hop_success:
  assumes "request_hop st m = (True, hop, m')"
  shows "setTransition (control_word m) st (target_state m) (Some Unknown)
    = (True, control_word m', Some hop)"
proof -
  obtain ok cw nx where t: "setTransition (control_word m) st (target_state m) (Some Unknown) = (ok, cw, nx)"
    by (cases "setTransition (control_word m) st (target_state m) (Some Unknown)") auto
  obtain h where "nx = Some h"
    by (rule setTransition_keeps_pointer[OF t])
  with t assms show ?thesis
    by (auto simp: request_hop_def motor_diag_def Let_def split: if_split_asm)
qed

lemma request_hop_failed:
  assumes "request_hop st m = (False, hop, m')"
  shows "m' = m"
proof -
  obtain ok cw nx where t: "setTransition (control_word m) st (target_state m) (Some Unknown) = (ok, cw, nx)"
    by (cases "setTransition (control_word m) st (target_state m) (Some Unknown)") auto
  with assms setTransition_failed[of "control_word m"] show ?thesis
    by (auto simp: request_hop_def Let_def)
qed

lemma request_hop_next_other:
  assumes "request_hop st m = (True, hop, m')" "st \<noteq> target_state m"
  shows "st \<noteq> hop"
  using setTransition_next_other[OF request_hop_success[OF assms(1)] assms(2)] by simp

definition switch_measure :: "InternalState \<Rightarrow> 'w motor \<Rightarrow> 'w motor wakeups \<Rightarrow> nat" where
  "switch_measure st m ws = 2 * length ws + (if st = state (state_handler m) then 0 else 1)"

lemma switch_measure_decreases:
  assumes "waitForNewState state_handler ws m st = (True, st', m', ws')"
  shows "switch_measure st' m' ws' < switch_measure st m ws"
proof (cases "state (state_handler m) = st")
  case True
  have "length ws' < length ws"
    by (rule waitForNewState_progress[OF assms True])
  with waitForNewState_result(1)[OF assms] True show ?thesis
    by (simp add: switch_measure_def)
next
  case False
  with assms have "st' = state (state_handler m)" "m' = m" "ws' = ws"
    by (auto simp: waitForNewState_immediate)
  with False show ?thesis
    by (simp add: switch_measure_def)
qed

lemma switch_round:
  assumes "request_hop st m = (True, hop, m1)"
    and "waitForNewState state_handler ws m1 st = (True, st', m2, ws')"
  shows "switch_measure st' m2 ws' < switch_measure st m ws"
  using switch_measure_decreases[OF assms(2)] request_hop_simps(2)[OF assms(1)]
  by (simp add: switch_measure_def)

function (sequential) switch_loop ::
  "InternalState \<Rightarrow> 'w motor \<Rightarrow> 'w motor wakeups
   \<Rightarrow> InternalState option \<times> 'w motor \<times> 'w motor wakeups" where
  "switch_loop st m ws =
    (if st = target_state m then (Some st, m, ws)
     else case request_hop st m of
       (False, hop, m1) \<Rightarrow> (None, m1, ws)
     | (True, hop, m1) \<Rightarrow>
         (if st \<noteq> hop
          then (case waitForNewState state_handler ws m1 st of
                  (True, st', m2, ws') \<Rightarrow> switch_loop st' m2 ws'
                | (False, st', m2, ws') \<Rightarrow>
                    (None, motor_diag ''cia402_state''
                       (''State transition timed out: '' @ show_nat (state_number st') @ '' -> ''
                        @ show_nat (state_number hop)) m2, ws'))
          else switch_loop st m1 ws))"
  by pat_completeness auto

termination switch_loop
proof (relation "measure (\<lambda>(st, m, ws). switch_measure st m ws)", goal_cases)
  case 1
  show ?case by simp
next
  case 2
  then show ?case by (auto dest!: sym[of "(_, _)"] intro: switch_round)
next
  case 3
  then show ?case by (auto dest!: sym[of "(_, _)"] dest: request_hop_next_other)
qed

declare switch_loop.simps [simp del]

text \<open>A blocking operation works on the motor and the wake-ups still to come.\<close>

type_synonym 'w motor_io = "'w motor \<times> 'w motor wakeups"

definition switchState :: "InternalState \<Rightarrow> 'w motor_io \<Rightarrow> bool \<times> 'w motor_io" where
  "switchState tgt mw =
    (case mw of (m, ws) \<Rightarrow>
      (case switch_loop (getState (state_handler m)) (m\<lparr>target_state := tgt\<rparr>) ws of
         (None, m', ws') \<Rightarrow> (False, m', ws')
       | (Some st, m', ws') \<Rightarrow> (st = tgt, m', ws')))"

subsection \<open>Switching the mode\<close>

text \<open>\<open>monitor_mode_\<close> is constantly true, so the wait for the mode is the wait on the condition
  variable that the polling thread notifies. The write of the new mode may throw; the exception
  leaves \<open>switchMode\<close>.\<close>

definition mode_diag_text :: "string \<Rightarrow> u16 \<Rightarrow> 'w motor \<Rightarrow> string" where
  "mode_diag_text prefix mode m =
    prefix @ show_nat (unat mode) @ '' (channel '' @ show_nat (unat (channel m)) @ '')''"

definition switchMode_none :: "'w bus \<Rightarrow> u16 \<Rightarrow> 'w motor \<Rightarrow> bool \<times> 'w motor" where
  "switchMode_none bus mode m =
    (let m1 = m\<lparr>selected_mode := None\<rparr>;
         m2 = snd (motor_set bus I8 op_mode_index (uint mode) m1)
     in (True, motor_diag ''cia402_mode''
           (mode_diag_text ''No mode selected: '' mode m2) m2))"

text \<open>The block after the wait: the mode handler is selected when the device reports the mode,
  otherwise the mode the device reports is written back.\<close>

definition switchMode_select :: "'w bus \<Rightarrow> u16 \<Rightarrow> u16 \<Rightarrow> 'w motor \<Rightarrow> ('w motor, bool) outcome" where
  "switchMode_select bus mode next_mode m =
    (if mode_id m = mode
     then (let m1 = m\<lparr>selected_mode := Some next_mode\<rparr> in
           (Inr True, motor_diag ''cia402_mode'' (mode_diag_text ''Mode switched to: '' mode m1) m1))
     else bindE (motor_set bus I8 op_mode_index (uint (mode_id m)) m) (\<lambda>u m1.
           (Inr False, motor_diag ''cia402_mode''
             (mode_diag_text ''Mode switch timed out: '' mode m1) m1)))"

definition start_mode :: "u16 \<Rightarrow> 'w motor \<Rightarrow> bool \<times> 'w motor" where
  "start_mode k m =
    (case modes m k of
       None \<Rightarrow> (False, m)
     | Some obj \<Rightarrow> (let (r, obj') = mode_start obj in (r, m\<lparr>modes := (modes m)(k \<mapsto> obj')\<rparr>)))"

definition switchMode_tail :: "'w bus \<Rightarrow> u16 \<Rightarrow> u16 \<Rightarrow> 'w motor_io \<Rightarrow> ('w motor_io, bool) outcome" where
  "switchMode_tail bus mode next_mode mw =
    (case switchState (switching_state (fst mw)) mw of
       (False, mw1) \<Rightarrow> (Inr False, mw1)
     | (True, m1, ws1) \<Rightarrow>
         (case motor_set bus I8 op_mode_index (uint mode) m1 of
            (Inl e, m2) \<Rightarrow> (Inl e, m2, ws1)
          | (Inr u, m2) \<Rightarrow>
              (let (m3, ws3) = wait_while (\<lambda>x. mode_id x \<noteq> mode) ws1 m2 in
               case switchMode_select bus mode next_mode m3 of
                 (Inl e, m4) \<Rightarrow> (Inl e, m4, ws3)
               | (Inr okay, m4) \<Rightarrow>
                   (case switchState Operation_Enable (m4, ws3) of
                      (False, mw5) \<Rightarrow> (Inr False, mw5)
                    | (True, mw5) \<Rightarrow> (Inr okay, mw5)))))"

definition switchMode :: "'w bus \<Rightarrow> u16 \<Rightarrow> 'w motor_io \<Rightarrow> ('w motor_io, bool) outcome" where
  "switchMode bus mode mw =
    (case mw of (m, ws) \<Rightarrow>
      if mode = No_Mode
      then (let (r, m1) = switchMode_none bus mode m in (Inr r, m1, ws))
      else (case allocMode bus mode m of
              (None, m1) \<Rightarrow> (Inr False, m1, ws)
            | (Some next_mode, m1) \<Rightarrow>
                (case start_mode next_mode m1 of
                   (False, m2) \<Rightarrow> (Inr False, m2, ws)
                 | (True, m2) \<Rightarrow>
                     if mode_id m2 = mode \<and> selected_obj m2 \<noteq> None
                        \<and> mode_obj_id (the (selected_obj m2)) = mode
                     then (Inr True, m2, ws)
                     else switchMode_tail bus mode next_mode
                            (m2\<lparr>selected_mode := None\<rparr>, ws))))"

definition enterModeAndWait :: "'w bus \<Rightarrow> u16 \<Rightarrow> 'w motor_io \<Rightarrow> ('w motor_io, bool) outcome" where
  "enterModeAndWait bus mode mw =
    (if mode \<noteq> Homing then switchMode bus mode mw else (Inr False, mw))"

subsection \<open>The cyclic operations\<close>

definition readState :: "'w bus \<Rightarrow> 'w motor \<Rightarrow> bool \<times> 'w motor" where
  "readState bus m =
    (let (swi, m1) = motor_get bus U16 status_word_entry_index m;
         sw = word_of_int swi;
         m2 = m1\<lparr>status_word := sw, state_handler := snd (state_read sw (state_handler m1))\<rparr>;
         (mode, m3) = motor_get bus I8 op_mode_display_index m2;
         new_mode = word_of_int mode;
         m4 = (case selected_obj m3 of
                 Some obj \<Rightarrow> (if mode_obj_id obj = new_mode
                             then put_selected (snd (mode_read sw obj)) m3 else m3)
               | None \<Rightarrow> m3);
         m5 = (if new_mode \<noteq> mode_id m4
               then m4\<lparr>mode_id := new_mode, mode_cond := mode_cond m4 + 1\<rparr> else m4)
     in (True, m5))"

definition handleRead :: "'w bus \<Rightarrow> 'w motor \<Rightarrow> 'w motor" where
  "handleRead bus m = snd (readState bus m)"

text \<open>The part of \<open>handleWrite\<close> that prepares the control word.\<close>

definition write_mode :: "'w bus \<Rightarrow> 'w motor \<Rightarrow> ('w motor, bool) outcome" where
  "write_mode bus m =
    (case selected_obj m of
       Some obj \<Rightarrow>
         if mode_obj_id obj = mode_id m
         then (let (r, obj', cw, w) = mode_write bus obj (control_word m) (driver m) in
               (r, put_selected obj' (m\<lparr>control_word := cw, driver := w\<rparr>)))
         else (Inr False, m\<lparr>control_word := wa_assign OpModeMask 0 (control_word m)\<rparr>)
     | None \<Rightarrow> (Inr False, m\<lparr>control_word := wa_assign OpModeMask 0 (control_word m)\<rparr>))"

definition prepare_control_word :: "'w bus \<Rightarrow> 'w motor \<Rightarrow> ('w motor, unit) outcome" where
  "prepare_control_word bus m =
    (let m1 = m\<lparr>control_word := control_word m OR cwm CW_Halt\<rparr> in
     if getState (state_handler m1) = Operation_Enable
     then bindE (write_mode bus m1) (\<lambda>okay m2.
            (Inr (), if okay then m2\<lparr>control_word := control_word m2 AND NOT (cwm CW_Halt)\<rparr> else m2))
     else (Inr (), m1))"

definition handleWrite :: "'w bus \<Rightarrow> 'w motor \<Rightarrow> ('w motor, unit) outcome" where
  "handleWrite bus m =
    bindE (prepare_control_word bus m) (\<lambda>u m1.
      if start_fault_reset m1
      then motor_set bus U16 control_word_entry_index
             (uint (control_word m1 AND NOT (cwm CW_Fault_Reset))) (m1\<lparr>start_fault_reset := False\<rparr>)
      else motor_set bus U16 control_word_entry_index (uint (control_word m1)) m1)"

fun state_summary :: "InternalState \<Rightarrow> (u8 \<times> string) option" where
  "state_summary Not_Ready_To_Switch_On = Some (DIAG_WARN, ''Not ready to switch on'')"
| "state_summary Switch_On_Disabled = Some (DIAG_WARN, ''Switch on disabled'')"
| "state_summary Ready_To_Switch_On = Some (DIAG_OK, ''Ready to switch on'')"
| "state_summary Switched_On = Some (DIAG_OK, ''Switched on'')"
| "state_summary Operation_Enable = Some (DIAG_OK, ''Operation enabled'')"
| "state_summary Quick_Stop_Active = Some (DIAG_WARN, ''Quick stop active'')"
| "state_summary Fault = Some (DIAG_ERROR, ''Fault'')"
| "state_summary Fault_Reaction_Active = Some (DIAG_ERROR, ''Fault reaction active'')"
| "state_summary Unknown = Some (DIAG_ERROR, ''Unknown state'')"
| "state_summary (Illegal n) = None"

definition handleDiag :: "'w motor \<Rightarrow> 'w motor" where
  "handleDiag m =
    (let sw = status_word m;
         d0 = diag_collector m;
         d1 = (case state_summary (getState (state_handler m)) of
                 Some (lvl, msg) \<Rightarrow> diag_summary lvl msg d0 | None \<Rightarrow> d0);
         d2 = (if sw AND shl1 (sw_bit SW_Warning) \<noteq> 0
               then diag_summary DIAG_WARN ''Warning bit is set'' d1 else d1);
         d3 = (if sw AND shl1 (sw_bit SW_Internal_limit) \<noteq> 0
               then diag_summary DIAG_WARN ''Internal limit active'' d2 else d2)
     in m\<lparr>diag_collector := d3\<rparr>)"

subsection \<open>The operations of the drive\<close>

text \<open>\<open>(it->second)()\<close> for every allocator: the mode is registered when the device supports it.\<close>

definition run_allocator :: "'w bus \<Rightarrow> u16 \<times> mode_obj \<Rightarrow> 'w motor \<Rightarrow> 'w motor" where
  "run_allocator bus a m =
    (case a of (mode, obj) \<Rightarrow>
      (let (ok, m') = isModeSupportedByDevice bus mode m in
       if ok then registerMode mode obj m' else m'))"

text \<open>The homing object inside the motor.\<close>

definition no_homing :: homing_mode where
  "no_homing = \<lparr>hm_channel_offset = 0, hm_execute = False, hm_status = 0, hm_cond = 0, hm_timeout = 0\<rparr>"

definition homing_of :: "'w motor \<Rightarrow> homing_mode" where
  "homing_of m = (case modes m Homing of Some (Homing_mode h) \<Rightarrow> h | _ \<Rightarrow> no_homing)"

definition put_homing :: "homing_mode \<Rightarrow> 'w motor \<Rightarrow> 'w motor" where
  "put_homing h m = m\<lparr>modes := (modes m)(Homing \<mapsto> Homing_mode h)\<rparr>"

text \<open>\<open>dynamic_cast<HomingMode *>\<close>\<close>

fun is_homing :: "mode_obj \<Rightarrow> bool" where
  "is_homing (Homing_mode h) = True"
| "is_homing (Forward m) = False"
| "is_homing (Position m) = False"

definition homing_method :: "'w bus \<Rightarrow> 'w motor \<Rightarrow> int \<times> 'w motor" where
  "homing_method bus m =
    (let (v, w) = uget bus I8 (hm_base_index + hm_channel_offset (homing_of m)) 0 (driver m) in
     (v, m\<lparr>driver := w\<rparr>))"

definition motor_executeHoming :: "'w bus \<Rightarrow> 'w motor_io \<Rightarrow> bool \<times> 'w motor_io" where
  "motor_executeHoming bus mw =
    (case mw of (m, ws) \<Rightarrow> executeHoming homing_of put_homing (homing_method bus) m ws)"

text \<open>The end of \<open>handleInit\<close>, from the switch to the homing mode on.\<close>

definition init_homing :: "'w bus \<Rightarrow> 'w motor_io \<Rightarrow> ('w motor_io, bool) outcome" where
  "init_homing bus mw =
    bindE (switchMode bus Homing mw) (\<lambda>ok mw1.
      if \<not> ok then (Inr False, mw1)
      else (case motor_executeHoming bus mw1 of
              (False, mw2) \<Rightarrow> (Inr False, mw2)
            | (True, mw2) \<Rightarrow>
                bindE (switchMode bus No_Mode mw2) (\<lambda>ok' mw3.
                  if \<not> ok' then (Inr False, mw3) else (Inr True, mw3))))"

definition handleInit :: "'w bus \<Rightarrow> 'w motor_io \<Rightarrow> ('w motor_io, bool) outcome" where
  "handleInit bus mw =
    (case mw of (m, ws) \<Rightarrow>
      (let m1 = fold (run_allocator bus) (mode_allocators m) m;
           (ok, m2) = readState bus m1
       in if \<not> ok then (Inr False, m2, ws)
          else
            (case switchState Operation_Enable
                    (m2\<lparr>control_word := 0, start_fault_reset := True\<rparr>, ws) of
               (False, mw3) \<Rightarrow> (Inr False, mw3)
             | (True, m3, ws3) \<Rightarrow>
                 (case allocMode bus Homing m3 of
                    (None, m4) \<Rightarrow> (Inr True, m4, ws3)
                  | (Some k, m4) \<Rightarrow>
                      (case modes m4 k of
                         None \<Rightarrow> (Inr True, m4, ws3)
                       | Some obj \<Rightarrow>
                           if \<not> is_homing obj then (Inr False, m4, ws3)
                           else init_homing bus (m4, ws3))))))"

definition handleShutdown :: "'w bus \<Rightarrow> 'w motor_io \<Rightarrow> ('w motor_io, bool) outcome" where
  "handleShutdown bus mw =
    bindE (switchMode bus No_Mode mw) (\<lambda>r mw1.
      (let (r', mw2) = switchState Switch_On_Disabled mw1 in (Inr r', mw2)))"

definition handleHalt :: "'w motor \<Rightarrow> bool \<times> 'w motor" where
  "handleHalt m =
    (let st = getState (state_handler m) in
     if st = Fault_Reaction_Active \<or> st = Fault then (False, m)
     else if st \<noteq> Operation_Enable then (True, m\<lparr>target_state := st\<rparr>)
     else (let m1 = m\<lparr>target_state := Quick_Stop_Active\<rparr>;
               (ok, cw, nx) = setTransition (control_word m1) st Quick_Stop_Active None;
               m2 = m1\<lparr>control_word := cw\<rparr>
           in if \<not> ok then (False, m2) else (True, m2)))"

definition handleRecover :: "'w motor_io \<Rightarrow> bool \<times> 'w motor_io" where
  "handleRecover mw =
    (case mw of (m, ws) \<Rightarrow>
      (let m1 = m\<lparr>start_fault_reset := True\<rparr>;
           (ok, m2) = (case selected_obj m1 of
                         None \<Rightarrow> (True, m1)
                       | Some obj \<Rightarrow> (let (r, obj') = mode_start obj in (r, put_selected obj' m1)))
       in if \<not> ok then (False, m2, ws) else switchState Operation_Enable (m2, ws)))"

definition handleEnable :: "'w bus \<Rightarrow> 'w motor_io \<Rightarrow> bool \<times> 'w motor_io" where
  "handleEnable bus mw =
    (case mw of (m, ws) \<Rightarrow>
      (let (ok, m1) = readState bus m in
       if \<not> ok then (False, m1, ws) else switchState Operation_Enable (m1, ws)))"

definition handleDisable :: "'w bus \<Rightarrow> 'w motor_io \<Rightarrow> bool \<times> 'w motor_io" where
  "handleDisable bus mw =
    (case mw of (m, ws) \<Rightarrow>
      (let (ok, m1) = readState bus m in
       if \<not> ok then (False, m1, ws) else switchState Switched_On (m1, ws)))"

subsection \<open>Actual values\<close>

definition get_effort :: "'w bus \<Rightarrow> 'w motor \<Rightarrow> double \<times> 'w motor" where
  "get_effort bus m =
    (let st = effort_support_state m in
     if st = 0 then (Fin 0, m)
     else if st < 0 \<and> \<not> has_object bus (get_channel_index m 0x6077) 0 (driver m)
     then (Fin 0, m\<lparr>effort_support_state := 0\<rparr>)
     else (let m1 = (if st < 0 then m\<lparr>effort_support_state := 1\<rparr> else m);
               (v, m2) = motor_get bus I16 0x6077 m1
           in (Fin (of_int v), m2)))"

definition get_speed :: "'w bus \<Rightarrow> 'w motor \<Rightarrow> double \<times> 'w motor" where
  "get_speed bus m = (let (v, m1) = motor_get bus I32 0x606C m in (Fin (of_int v), m1))"

definition get_position :: "'w bus \<Rightarrow> 'w motor \<Rightarrow> double \<times> 'w motor" where
  "get_position bus m = (let (v, m1) = motor_get bus I32 0x6064 m in (Fin (of_int v), m1))"

definition set_diagnostic_status_msgs :: "diagnostics \<Rightarrow> bool \<Rightarrow> 'w motor \<Rightarrow> 'w motor" where
  "set_diagnostic_status_msgs d enable m = m\<lparr>enable_diagnostics := enable, diag_collector := d\<rparr>"

subsection \<open>The homing object of the motor\<close>

lemma homing_ids: "homing_id = Homing"
  by (simp add: homing_id_def Homing_def)

lemma homing_of_put [simp]: "homing_of (put_homing h m) = h"
  by (simp add: homing_of_def put_homing_def)

interpretation mh: homing_access "homing_of :: 'w motor \<Rightarrow> homing_mode" put_homing
  by unfold_locales simp

subsection \<open>What the state loop keeps\<close>

text \<open>A property of the motor that does not look at the control word and the diagnostics, and that
  the other threads keep, survives \<open>switchState\<close>.\<close>

definition command_independent :: "('w motor \<Rightarrow> bool) \<Rightarrow> bool" where
  "command_independent P \<longleftrightarrow>
    (\<forall>m cw d t. P (m\<lparr>control_word := cw, diag_collector := d, target_state := t\<rparr>) = P m)"

lemma command_independentD:
  assumes "command_independent P"
  shows "P (m\<lparr>control_word := cw\<rparr>) = P m" "P (m\<lparr>diag_collector := d\<rparr>) = P m"
    "P (m\<lparr>target_state := t\<rparr>) = P m"
proof -
  have P: "P (x\<lparr>control_word := c, diag_collector := e, target_state := u\<rparr>) = P x" for x c e u
    using assms unfolding command_independent_def by blast
  show "P (m\<lparr>control_word := cw\<rparr>) = P m"
    using P[where x = m and c = cw and e = "diag_collector m" and u = "target_state m"] by simp
  show "P (m\<lparr>diag_collector := d\<rparr>) = P m"
    using P[where x = m and c = "control_word m" and e = d and u = "target_state m"] by simp
  show "P (m\<lparr>target_state := t\<rparr>) = P m"
    using P[where x = m and c = "control_word m" and e = "diag_collector m" and u = t] by simp
qed

lemma motor_diag_keep: "command_independent P \<Longrightarrow> P (motor_diag k f m) = P m"
  unfolding motor_diag_def by (rule if_split[THEN iffD2]) (blast dest: command_independentD)

lemma request_hop_keep:
  assumes "request_hop st m = (ok, hop, m')" "command_independent P"
  shows "P m' = P m"
proof -
  note keep = command_independentD[OF assms(2)] motor_diag_keep[OF assms(2)]
  show ?thesis
    using assms(1) by (auto simp: request_hop_def Let_def keep split: prod.splits if_splits)
qed

text \<open>The four ways through the loop, and induction along them.\<close>

lemma switch_loop_done: "st = target_state m \<Longrightarrow> switch_loop st m ws = (Some st, m, ws)"
  by (subst switch_loop.simps) simp

lemma switch_loop_illegal:
  "\<lbrakk>st \<noteq> target_state m; request_hop st m = (False, hop, m1)\<rbrakk> \<Longrightarrow> switch_loop st m ws = (None, m1, ws)"
  by (subst switch_loop.simps) simp

definition timed_out :: "InternalState \<Rightarrow> InternalState \<Rightarrow> 'w motor \<Rightarrow> 'w motor" where
  "timed_out st hop m = motor_diag ''cia402_state''
    (''State transition timed out: '' @ show_nat (state_number st) @ '' -> ''
     @ show_nat (state_number hop)) m"

lemma switch_loop_timeout:
  assumes "st \<noteq> target_state m" "request_hop st m = (True, hop, m1)"
    "waitForNewState state_handler ws m1 st = (False, st', m2, ws')"
  shows "switch_loop st m ws = (None, timed_out st' hop m2, ws')"
  using assms request_hop_next_other[OF assms(2,1)]
  by (subst switch_loop.simps) (simp add: timed_out_def)

lemma switch_loop_round:
  assumes "st \<noteq> target_state m" "request_hop st m = (True, hop, m1)"
    "waitForNewState state_handler ws m1 st = (True, st', m2, ws')"
  shows "switch_loop st m ws = switch_loop st' m2 ws'"
  using assms request_hop_next_other[OF assms(2,1)]
  by (subst switch_loop.simps) simp

lemma switch_loop_induction:
  assumes reached: "\<And>st m ws. st = target_state m \<Longrightarrow> Q st m ws (Some st, m, ws)"
    and illegal: "\<And>st m ws hop. \<lbrakk>st \<noteq> target_state m; request_hop st m = (False, hop, m)\<rbrakk>
      \<Longrightarrow> Q st m ws (None, m, ws)"
    and timeout: "\<And>st m ws hop m1 st' m2 ws'. \<lbrakk>st \<noteq> target_state m;
      request_hop st m = (True, hop, m1); st \<noteq> hop;
      waitForNewState state_handler ws m1 st = (False, st', m2, ws')\<rbrakk>
      \<Longrightarrow> Q st m ws (None, timed_out st' hop m2, ws')"
    and step: "\<And>st m ws hop m1 st' m2 ws'. \<lbrakk>st \<noteq> target_state m;
      request_hop st m = (True, hop, m1); st \<noteq> hop;
      waitForNewState state_handler ws m1 st = (True, st', m2, ws');
      Q st' m2 ws' (switch_loop st' m2 ws')\<rbrakk>
      \<Longrightarrow> Q st m ws (switch_loop st' m2 ws')"
  shows "Q st m ws (switch_loop st m ws)"
proof (induction "switch_measure st m ws" arbitrary: st m ws rule: less_induct)
  case less
  show ?case
  proof (cases "st = target_state m")
    case True
    then show ?thesis by (simp add: switch_loop_done reached)
  next
    case False
    obtain ok hop m1 where hop: "request_hop st m = (ok, hop, m1)"
      by (cases "request_hop st m") auto
    show ?thesis
    proof (cases ok)
      case False
      with hop request_hop_failed[of st m hop m1] \<open>st \<noteq> target_state m\<close> show ?thesis
        by (simp add: switch_loop_illegal illegal)
    next
      case True
      with hop have hop: "request_hop st m = (True, hop, m1)" by simp
      note other = request_hop_next_other[OF hop \<open>st \<noteq> target_state m\<close>]
      obtain res st' m2 ws' where wait: "waitForNewState state_handler ws m1 st = (res, st', m2, ws')"
        by (cases "waitForNewState state_handler ws m1 st") auto
      show ?thesis
      proof (cases res)
        case True
        with wait have wait: "waitForNewState state_handler ws m1 st = (True, st', m2, ws')" by simp
        show ?thesis
          unfolding switch_loop_round[OF False hop wait]
          by (rule step[OF False hop other wait less[OF switch_round[OF hop wait]]])
      next
        case res: False
        with wait have wait: "waitForNewState state_handler ws m1 st = (False, st', m2, ws')" by simp
        show ?thesis
          unfolding switch_loop_timeout[OF False hop wait]
          by (rule timeout[OF False hop other wait])
      qed
    qed
  qed
qed

lemma switch_loop_keep:
  assumes "command_independent P" "wakeups_keep P ws" "P m"
  shows "case switch_loop st m ws of (r, m', ws') \<Rightarrow> P m'"
  using assms(2,3)
proof (induction st m ws rule: switch_loop_induction)
  case (3 st m ws hop m1 st' m2 ws')
  then show ?case
    using waitForNewState_keep[OF 3(4), of P] request_hop_keep[OF 3(2) assms(1)]
    by (simp add: timed_out_def motor_diag_keep[OF assms(1)])
next
  case (4 st m ws hop m1 st' m2 ws')
  then show ?case
    using waitForNewState_keep[OF 4(4), of P] request_hop_keep[OF 4(2) assms(1)]
      wakeups_keep_subset[OF _ waitForNewState_left[OF 4(4)]] by simp
qed simp_all

lemma switch_loop_left: "case switch_loop st m ws of (r, m', ws') \<Rightarrow> set ws' \<subseteq> set ws"
proof (induction st m ws rule: switch_loop_induction)
  case (3 st m ws hop m1 st' m2 ws')
  then show ?case
    using waitForNewState_left[OF 3(4)] by simp
next
  case (4 st m ws hop m1 st' m2 ws')
  then show ?case
    using waitForNewState_left[OF 4(4)] by auto
qed simp_all

lemma switchState_keep:
  assumes "switchState tgt (m, ws) = (r, m', ws')" "command_independent P" "wakeups_keep P ws" "P m"
  shows "P m'" "set ws' \<subseteq> set ws"
  using assms(1) switch_loop_keep[OF assms(2,3),
      where st = "getState (state_handler m)" and m = "m\<lparr>target_state := tgt\<rparr>"]
    switch_loop_left[where st = "getState (state_handler m)" and m = "m\<lparr>target_state := tgt\<rparr>"
      and ws = ws]
  by (auto simp: switchState_def command_independentD[OF assms(2)] assms(4)
      split: prod.splits option.splits)

text \<open>The loop ends without a \<open>return false\<close> only in the state the handler is in.\<close>

lemma switch_loop_final:
  "case switch_loop st m ws of
     (Some st', m', ws') \<Rightarrow> st' = target_state m' \<and>
       (st = state (state_handler m) \<longrightarrow> st' = state (state_handler m'))
   | (None, m', ws') \<Rightarrow> True"
proof (induction st m ws rule: switch_loop_induction)
  case (4 st m ws hop m1 st' m2 ws')
  then show ?case
    using waitForNewState_result(1)[OF 4(4)] by (auto split: option.splits)
qed simp_all

lemma switchState_true:
  assumes "switchState tgt (m, ws) = (True, m', ws')"
  shows "state (state_handler m') = tgt" "target_state m' = tgt"
  using assms switch_loop_final[of "getState (state_handler m)" "m\<lparr>target_state := tgt\<rparr>" ws]
  by (auto simp: switchState_def getState_def split: prod.splits option.splits)

text \<open>Bits of the control word that transitions do not own are those the other threads leave.\<close>

lemma request_hop_other_bits:
  assumes "request_hop st m = (ok, hop, m')" "k \<notin> transition_bits"
  shows "bit (control_word m') k = bit (control_word m) k"
  using assms setTransition_other_bits[of "control_word m" st "target_state m" "Some Unknown"]
  by (auto simp: request_hop_def Let_def motor_diag_def split: prod.splits if_splits)

lemma switch_loop_other_bits:
  assumes "k \<notin> transition_bits"
    and "wakeups_keep (\<lambda>m. bit (control_word m) k = b) ws" "bit (control_word m) k = b"
  shows "case switch_loop st m ws of (r, m', ws') \<Rightarrow> bit (control_word m') k = b"
  using assms(2,3)
proof (induction st m ws rule: switch_loop_induction)
  case (3 st m ws hop m1 st' m2 ws')
  then show ?case
    using waitForNewState_keep[OF 3(4), of "\<lambda>m. bit (control_word m) k = b"]
      request_hop_other_bits[OF 3(2) assms(1)]
    by (simp add: timed_out_def motor_diag_def)
next
  case (4 st m ws hop m1 st' m2 ws')
  then show ?case
    using waitForNewState_keep[OF 4(4), of "\<lambda>m. bit (control_word m) k = b"]
      request_hop_other_bits[OF 4(2) assms(1)]
      wakeups_keep_subset[OF _ waitForNewState_left[OF 4(4)]]
    by simp
qed simp_all

lemma switchState_other_bits:
  assumes "switchState tgt (m, ws) = (r, m', ws')" "k \<notin> transition_bits"
    and "wakeups_keep (\<lambda>m. bit (control_word m) k = b) ws" "bit (control_word m) k = b"
  shows "bit (control_word m') k = b"
  using assms(1) switch_loop_other_bits[OF assms(2,3), of "m\<lparr>target_state := tgt\<rparr>"
      "getState (state_handler m)"] assms(4)
  by (auto simp: switchState_def split: prod.splits option.splits)

subsection \<open>Well-formed motors\<close>

text \<open>Every mode object is stored under its own id, the selected mode exists, and the modes in
  \<open>K\<close> are registered. The set \<open>K\<close> is kept by every operation: registered modes stay.\<close>

definition motor_ok :: "u16 set \<Rightarrow> 'w motor \<Rightarrow> bool" where
  "motor_ok K m \<longleftrightarrow>
    (\<forall>k obj. modes m k = Some obj \<longrightarrow> mode_obj_id obj = k) \<and>
    (\<forall>k. selected_mode m = Some k \<longrightarrow> modes m k \<noteq> None) \<and> K \<subseteq> dom (modes m)"

lemma motor_ok_independent: "command_independent (motor_ok K)"
  by (simp add: command_independent_def motor_ok_def)

lemma motor_okD: "\<lbrakk>motor_ok K m; modes m k = Some obj\<rbrakk> \<Longrightarrow> mode_obj_id obj = k"
  by (simp add: motor_ok_def)

lemma motor_ok_cong:
  "modes m' = modes m \<Longrightarrow> selected_mode m' = selected_mode m \<Longrightarrow> motor_ok K m' = motor_ok K m"
  by (simp add: motor_ok_def)

lemma motor_ok_fields [simp]:
  "motor_ok K (m\<lparr>control_word := cw\<rparr>) = motor_ok K m" "motor_ok K (m\<lparr>driver := w\<rparr>) = motor_ok K m"
  "motor_ok K (m\<lparr>status_word := sw\<rparr>) = motor_ok K m" "motor_ok K (m\<lparr>state_handler := h\<rparr>) = motor_ok K m"
  "motor_ok K (m\<lparr>mode_id := i\<rparr>) = motor_ok K m" "motor_ok K (m\<lparr>mode_cond := n\<rparr>) = motor_ok K m"
  "motor_ok K (m\<lparr>start_fault_reset := b\<rparr>) = motor_ok K m" "motor_ok K (m\<lparr>target_state := t\<rparr>) = motor_ok K m"
  "motor_ok K (m\<lparr>diag_collector := d\<rparr>) = motor_ok K m"
  "motor_ok K (m\<lparr>enable_diagnostics := e\<rparr>) = motor_ok K m"
  "motor_ok K (m\<lparr>effort_support_state := f\<rparr>) = motor_ok K m"
  "motor_ok K (m\<lparr>mode_allocators := a\<rparr>) = motor_ok K m"
  by (simp_all add: motor_ok_def)

lemma selected_obj_fields [simp]:
  "selected_obj (m\<lparr>control_word := cw\<rparr>) = selected_obj m"
  "selected_obj (m\<lparr>driver := w\<rparr>) = selected_obj m"
  "selected_obj (m\<lparr>status_word := sw\<rparr>) = selected_obj m"
  "selected_obj (m\<lparr>state_handler := h\<rparr>) = selected_obj m"
  "selected_obj (m\<lparr>mode_id := i\<rparr>) = selected_obj m"
  "selected_obj (m\<lparr>start_fault_reset := b\<rparr>) = selected_obj m"
  "selected_obj (m\<lparr>target_state := t\<rparr>) = selected_obj m"
  "selected_obj (m\<lparr>selected_mode := None\<rparr>) = None"
  by (simp_all add: selected_obj_def cong: option.case_cong)

lemma selected_obj_cong:
  "modes m' = modes m \<Longrightarrow> selected_mode m' = selected_mode m \<Longrightarrow> selected_obj m' = selected_obj m"
  by (simp add: selected_obj_def cong: option.case_cong)

lemma motor_ok_select: "\<lbrakk>motor_ok K m; modes m k \<noteq> None\<rbrakk> \<Longrightarrow> motor_ok K (m\<lparr>selected_mode := Some k\<rparr>)"
  by (auto simp: motor_ok_def)

lemma motor_ok_deselect: "motor_ok K m \<Longrightarrow> motor_ok K (m\<lparr>selected_mode := None\<rparr>)"
  by (simp add: motor_ok_def)

lemma motor_ok_update:
  "\<lbrakk>motor_ok K m; mode_obj_id obj = k\<rbrakk> \<Longrightarrow> motor_ok K (m\<lparr>modes := (modes m)(k \<mapsto> obj)\<rparr>)"
  by (auto simp: motor_ok_def)

lemma selected_obj_id:
  "\<lbrakk>motor_ok K m; selected_obj m = Some obj\<rbrakk> \<Longrightarrow> selected_mode m = Some (mode_obj_id obj)"
  by (auto simp: selected_obj_def motor_ok_def split: option.splits)

lemma motor_ok_put_selected:
  "\<lbrakk>motor_ok K m; selected_obj m = Some obj; mode_obj_id obj' = mode_obj_id obj\<rbrakk>
   \<Longrightarrow> motor_ok K (put_selected obj' m)"
  by (auto simp: put_selected_def selected_obj_id intro: motor_ok_update)

lemma motor_get_frame:
  assumes "motor_get bus t i m = (v, m')"
  shows "modes m' = modes m" "selected_mode m' = selected_mode m" "control_word m' = control_word m"
    "mode_id m' = mode_id m" "state_handler m' = state_handler m" "channel_offset m' = channel_offset m"
    "start_fault_reset m' = start_fault_reset m" "target_state m' = target_state m"
    "status_word m' = status_word m" "mode_allocators m' = mode_allocators m"
    "switching_state m' = switching_state m"
  using assms by (auto simp: motor_get_def Let_def split: prod.splits)

lemma motor_set_frame:
  assumes "motor_set bus t i v m = (r, m')"
  shows "modes m' = modes m" "selected_mode m' = selected_mode m" "control_word m' = control_word m"
    "mode_id m' = mode_id m" "state_handler m' = state_handler m" "channel_offset m' = channel_offset m"
    "start_fault_reset m' = start_fault_reset m" "target_state m' = target_state m"
    "status_word m' = status_word m" "mode_allocators m' = mode_allocators m"
    "switching_state m' = switching_state m"
  using assms by (auto simp: motor_set_def Let_def split: prod.splits)

lemma motor_diag_frame [simp]:
  "modes (motor_diag k f m) = modes m" "selected_mode (motor_diag k f m) = selected_mode m"
  "control_word (motor_diag k f m) = control_word m" "mode_id (motor_diag k f m) = mode_id m"
  "state_handler (motor_diag k f m) = state_handler m" "driver (motor_diag k f m) = driver m"
  "target_state (motor_diag k f m) = target_state m"
  "start_fault_reset (motor_diag k f m) = start_fault_reset m"
  by (simp_all add: motor_diag_def)

lemma motor_ok_get: "motor_get bus t i m = (v, m') \<Longrightarrow> motor_ok K m' = motor_ok K m"
  by (rule motor_ok_cong) (simp_all add: motor_get_frame)

lemma motor_ok_set: "motor_set bus t i v m = (r, m') \<Longrightarrow> motor_ok K m' = motor_ok K m"
  by (rule motor_ok_cong) (simp_all add: motor_set_frame)

lemma motor_ok_diag [simp]: "motor_ok K (motor_diag k f m) = motor_ok K m"
  by (rule motor_ok_cong) simp_all

lemma supported_frame:
  assumes "isModeSupportedByDevice bus mode m = (r, m')"
  shows "modes m' = modes m" "selected_mode m' = selected_mode m" "motor_ok K m' = motor_ok K m"
    "state_handler m' = state_handler m" "mode_id m' = mode_id m"
  using assms
  by (auto simp: isModeSupportedByDevice_def Let_def motor_get_frame motor_ok_get split: prod.splits)

lemma allocMode_frame:
  assumes "allocMode bus mode m = (r, m')"
  shows "modes m' = modes m" "selected_mode m' = selected_mode m" "motor_ok K m' = motor_ok K m"
    "state_handler m' = state_handler m" "mode_id m' = mode_id m"
    "r = Some k \<Longrightarrow> k = mode \<and> modes m mode \<noteq> None"
  using assms
  by (auto simp: allocMode_def supported_frame split: prod.splits if_splits option.splits)

subsection \<open>Every operation keeps the motor well-formed\<close>

lemma setTarget_ok: "motor_ok K m \<Longrightarrow> motor_ok K (snd (setTarget nc v m))"
  by (auto simp: setTarget_def Let_def split: option.splits prod.splits
      dest: mode_setTarget_id intro: motor_ok_put_selected)

lemma registerMode_ok: "motor_ok K m \<Longrightarrow> motor_ok K (registerMode i obj m)"
  by (auto simp: registerMode_def motor_ok_update split: option.splits)

lemma registerModeAllocator_ok: "motor_ok K m \<Longrightarrow> motor_ok K (snd (registerModeAllocator mode obj m))"
  by (auto simp: registerModeAllocator_def motor_ok_def split: option.splits)

lemma run_allocator_ok: "motor_ok K m \<Longrightarrow> motor_ok K (run_allocator bus a m)"
  by (cases a) (auto simp: run_allocator_def supported_frame registerMode_ok split: prod.splits)

lemma run_allocators_ok: "motor_ok K m \<Longrightarrow> motor_ok K (fold (run_allocator bus) as m)"
  by (induction "as" arbitrary: m) (auto simp: run_allocator_ok)

lemma registerDefaultModes_ok: "motor_ok K m \<Longrightarrow> motor_ok K (registerDefaultModes junk m)"
proof -
  have "motor_ok K m \<Longrightarrow> motor_ok K (fold (\<lambda>(mode, obj) m. snd (registerModeAllocator mode obj m)) xs m)"
    for xs and m :: "'w motor"
    by (induction xs arbitrary: m) (auto simp: registerModeAllocator_ok)
  then show "motor_ok K m \<Longrightarrow> ?thesis"
    by (simp add: registerDefaultModes_def)
qed

lemma readState_ok:
  assumes "motor_ok K m"
  shows "motor_ok K (snd (readState bus m))"
proof -
  obtain swi m1 where g1: "motor_get bus U16 status_word_entry_index m = (swi, m1)"
    by fastforce
  let ?m2 = "m1\<lparr>status_word := word_of_int swi,
    state_handler := snd (state_read (word_of_int swi) (state_handler m1))\<rparr>"
  obtain mode m3 where g2: "motor_get bus I8 op_mode_display_index ?m2 = (mode, m3)"
    by fastforce
  have ok3: "motor_ok K m3"
    using assms by (simp add: motor_ok_get[OF g2] motor_ok_get[OF g1])
  have ok4: "motor_ok K (put_selected (snd (mode_read (word_of_int swi) obj)) m3)"
    if "selected_obj m3 = Some obj" for obj
    using motor_ok_put_selected[OF ok3 that] mode_read_id[of "word_of_int swi" obj]
    by (metis prod.collapse)
  show ?thesis
    using ok3 ok4
    by (auto simp: readState_def g1 g2 Let_def split: option.splits)
qed

lemma write_mode_ok:
  assumes "motor_ok K m" "write_mode bus m = (r, m')"
  shows "motor_ok K m'"
proof -
  have "motor_ok K (put_selected obj' (m\<lparr>control_word := cw, driver := w\<rparr>))"
    if "selected_obj m = Some obj" "mode_write bus obj (control_word m) (driver m) = (r, obj', cw, w)"
    for obj obj' cw w r
    using that assms(1)
    by (intro motor_ok_put_selected[where obj = obj]) (auto dest: mode_write_id)
  with assms show ?thesis
    by (auto simp: write_mode_def Let_def split: option.splits if_splits prod.splits)
qed

lemma prepare_control_word_ok:
  assumes "motor_ok K m" "prepare_control_word bus m = (r, m')"
  shows "motor_ok K m'"
proof -
  let ?m1 = "m\<lparr>control_word := control_word m OR cwm CW_Halt\<rparr>"
  have ok1: "motor_ok K ?m1"
    using assms(1) by simp
  show ?thesis
    using assms(2) ok1 write_mode_ok[OF ok1]
    by (cases "write_mode bus ?m1")
      (auto simp: prepare_control_word_def Let_def bindE_def split: if_splits sum.splits)
qed

lemma handleWrite_ok:
  assumes "motor_ok K m"
  shows "motor_ok K (snd (handleWrite bus m))"
proof -
  obtain r m1 where prep: "prepare_control_word bus m = (r, m1)" by fastforce
  have ok: "motor_ok K m1"
    by (rule prepare_control_word_ok[OF assms prep])
  have set_ok: "motor_ok K x \<Longrightarrow> motor_ok K (snd (motor_set bus U16 i v x))" for i v x
    using motor_ok_set[where bus = bus and i = i and v = v and m = x]
    by (cases "motor_set bus U16 i v x") simp
  show ?thesis
    using ok by (cases r) (auto simp: handleWrite_def prep intro!: set_ok)
qed

lemma switchState_ok:
  assumes "switchState tgt (m, ws) = (r, m', ws')" "motor_ok K m" "wakeups_keep (motor_ok K) ws"
  shows "motor_ok K m'" "set ws' \<subseteq> set ws"
  using switchState_keep[OF assms(1) motor_ok_independent assms(3,2)] by simp_all

lemma start_mode_ok:
  assumes "motor_ok K m" "start_mode k m = (r, m')"
  shows "motor_ok K m'"
  using assms
  by (auto simp: start_mode_def motor_okD split: option.splits prod.splits
      dest: mode_start_id intro!: motor_ok_update)

lemma switchMode_none_ok: "motor_ok K m \<Longrightarrow> motor_ok K (snd (switchMode_none bus mode m))"
  using motor_ok_set[of bus I8 op_mode_index "uint mode" "m\<lparr>selected_mode := None\<rparr>"]
  by (auto simp: switchMode_none_def Let_def motor_ok_deselect prod_eq_iff)

lemma switchMode_select_ok:
  assumes "motor_ok K m" "modes m next_mode \<noteq> None" "switchMode_select bus mode next_mode m = (r, m')"
  shows "motor_ok K m'"
  using assms motor_ok_set[of bus I8 op_mode_index "uint (mode_id m)" m]
  by (auto simp: switchMode_select_def Let_def motor_ok_select bindE_def
      split: if_splits sum.splits prod.splits)

lemma put_homing_ok: "motor_ok K m \<Longrightarrow> motor_ok K (put_homing h m)"
  by (simp add: put_homing_def motor_ok_update homing_ids)

lemma homing_method_ok: "motor_ok K m \<Longrightarrow> motor_ok K (snd (homing_method bus m))"
  by (simp add: homing_method_def split: prod.splits)

lemma motor_executeHoming_ok:
  assumes "motor_executeHoming bus (m, ws) = (r, m', ws')" "motor_ok K m"
    "wakeups_keep (motor_ok K) ws"
  shows "motor_ok K m' \<and> set ws' \<subseteq> set ws"
  using assms mh.executeHoming_keep[of "motor_ok K" "homing_method bus" m ws r m' ws']
  by (simp add: motor_executeHoming_def put_homing_ok homing_method_ok mh.put_keeps_def)

text \<open>The other threads keep every set of registered modes, and the motor of a blocking operation
  is well-formed.\<close>

definition threads_ok :: "'w motor wakeups \<Rightarrow> bool" where
  "threads_ok ws \<longleftrightarrow> (\<forall>K. wakeups_keep (motor_ok K) ws)"

definition io_ok :: "u16 set \<Rightarrow> 'w motor_io \<Rightarrow> bool" where
  "io_ok K mw \<longleftrightarrow> motor_ok K (fst mw) \<and> threads_ok (snd mw)"

lemma io_ok_pair [simp]: "io_ok K (m, ws) \<longleftrightarrow> motor_ok K m \<and> threads_ok ws"
  by (simp add: io_ok_def)

lemma threads_ok_subset: "threads_ok ws \<Longrightarrow> set ws' \<subseteq> set ws \<Longrightarrow> threads_ok ws'"
  by (auto simp: threads_ok_def wakeups_keep_def)

lemma threads_okD: "threads_ok ws \<Longrightarrow> wakeups_keep (motor_ok K) ws"
  by (simp add: threads_ok_def)

lemma switchState_io_ok: "io_ok K mw \<Longrightarrow> io_ok K (snd (switchState tgt mw))"
  using switchState_ok[of tgt "fst mw" "snd mw" _ _ _ K] threads_ok_subset threads_okD
  by (cases mw; cases "switchState tgt mw") fastforce

lemma executeHoming_io_ok: "io_ok K mw \<Longrightarrow> io_ok K (snd (motor_executeHoming bus mw))"
  using motor_executeHoming_ok[of bus "fst mw" "snd mw" _ _ _ K] threads_ok_subset threads_okD
  by (cases mw; cases "motor_executeHoming bus mw") fastforce

lemma motor_ok_insert: "motor_ok (insert k K) m \<longleftrightarrow> motor_ok K m \<and> modes m k \<noteq> None"
  by (auto simp: motor_ok_def)

lemma switchMode_tail_ok:
  assumes "io_ok K mw" "modes (fst mw) next_mode \<noteq> None"
  shows "io_ok K (snd (switchMode_tail bus mode next_mode mw))"
proof -
  let ?K = "insert next_mode K"
  have ok: "io_ok ?K mw"
    using assms by (cases mw) (simp add: motor_ok_insert)
  obtain r1 m1 ws1 where s1: "switchState (switching_state (fst mw)) mw = (r1, m1, ws1)"
    by (metis prod_cases3)
  have ok1: "io_ok ?K (m1, ws1)"
    using switchState_io_ok[OF ok, of "switching_state (fst mw)"] s1 by simp
  obtain r2 m2 where s2: "motor_set bus I8 op_mode_index (uint mode) m1 = (r2, m2)"
    by fastforce
  have ok2: "motor_ok ?K m2"
    using ok1 motor_ok_set[OF s2] by simp
  obtain m3 ws3 where s3: "wait_while (\<lambda>x. mode_id x \<noteq> mode) ws1 m2 = (m3, ws3)"
    by fastforce
  have ok3: "motor_ok ?K m3" "threads_ok ws3"
    using wait_while_keep[OF s3 threads_okD ok2] wait_while_left[OF s3] ok1 threads_ok_subset by auto
  obtain r4 m4 where s4: "switchMode_select bus mode next_mode m3 = (r4, m4)"
    by fastforce
  have ok4: "io_ok ?K (m4, ws3)"
    using switchMode_select_ok[OF ok3(1) _ s4] ok3 by (simp add: motor_ok_insert)
  have ok5: "io_ok ?K (snd (switchState Operation_Enable (m4, ws3)))"
    by (rule switchState_io_ok[OF ok4])
  have sub: "io_ok ?K x \<Longrightarrow> io_ok K x" for x :: "'a motor_io"
    by (cases x) (simp add: motor_ok_insert)
  show ?thesis
    using ok1 ok2 ok4 ok5[THEN sub]
    by (cases r1; cases r2; cases r4)
      (auto simp: switchMode_tail_def s1 s2 s3 s4 motor_ok_insert split: prod.splits bool.splits)
qed

lemma switchMode_ok:
  assumes "io_ok K mw"
  shows "io_ok K (snd (switchMode bus mode mw))"
proof -
  obtain m ws where mw: "mw = (m, ws)" by fastforce
  show ?thesis
  proof (cases "mode = No_Mode")
    case True
    with assms mw switchMode_none_ok[of K m bus No_Mode] show ?thesis
      by (cases "switchMode_none bus No_Mode m") (simp add: switchMode_def)
  next
    case False
    obtain km m1 where a: "allocMode bus mode m = (km, m1)" by fastforce
    have ok1: "motor_ok K m1"
      using assms mw allocMode_frame(3)[OF a] by simp
    show ?thesis
    proof (cases km)
      case None
      with False a ok1 assms mw show ?thesis by (simp add: switchMode_def)
    next
      case (Some k)
      have k: "k = mode" "modes m1 k \<noteq> None"
        using allocMode_frame(1,6)[OF a] Some by auto
      obtain r2 m2 where b: "start_mode k m1 = (r2, m2)" by fastforce
      have ok2: "motor_ok (insert k K) m2"
        by (rule start_mode_ok[OF _ b]) (simp add: motor_ok_insert ok1 k(2))
      then have "io_ok K (m2\<lparr>selected_mode := None\<rparr>, ws)" "modes m2 k \<noteq> None" "motor_ok K m2"
        using assms mw motor_ok_deselect[of K m2] by (auto simp: motor_ok_insert)
      with switchMode_tail_ok[of K "(m2\<lparr>selected_mode := None\<rparr>, ws)" k bus mode] False a b Some assms mw
      show ?thesis
        by (auto simp: switchMode_def split: bool.splits)
    qed
  qed
qed

lemma enterModeAndWait_ok: "io_ok K mw \<Longrightarrow> io_ok K (snd (enterModeAndWait bus mode mw))"
  by (simp add: enterModeAndWait_def switchMode_ok)

lemma init_homing_ok:
  fixes bus :: "'w bus" and mw :: "'w motor_io"
  assumes "io_ok K mw"
  shows "io_ok K (snd (init_homing bus mw))"
  unfolding init_homing_def
proof (rule bindE_state[where P = "io_ok K"])
  show "io_ok K (snd (switchMode bus Homing mw))"
    by (rule switchMode_ok[OF assms])
next
  fix ok and mw1 :: "'w motor_io"
  assume ok1: "io_ok K mw1"
  obtain r mw2 where home: "motor_executeHoming bus mw1 = (r, mw2)"
    by (cases "motor_executeHoming bus mw1")
  have ok2: "io_ok K mw2"
    using executeHoming_io_ok[OF ok1, of bus] home by simp
  have "io_ok K (snd (bindE (switchMode bus No_Mode mw2) (\<lambda>ok' mw3.
      if \<not> ok' then (Inr False, mw3) else (Inr True, mw3))))"
    by (rule bindE_state[where P = "io_ok K"]) (simp_all add: switchMode_ok[OF ok2])
  with ok1 ok2 show "io_ok K (snd (if \<not> ok then (Inr False, mw1)
      else (case motor_executeHoming bus mw1 of
              (False, mw2) \<Rightarrow> (Inr False, mw2)
            | (True, mw2) \<Rightarrow>
                bindE (switchMode bus No_Mode mw2) (\<lambda>ok' mw3.
                  if \<not> ok' then (Inr False, mw3) else (Inr True, mw3)))))"
    by (simp add: home split: bool.split)
qed

lemma handleInit_ok:
  assumes "io_ok K mw"
  shows "io_ok K (snd (handleInit bus mw))"
proof -
  obtain m ws where mw: "mw = (m, ws)" by fastforce
  let ?m1 = "fold (run_allocator bus) (mode_allocators m) m"
  obtain ok m2 where r: "readState bus ?m1 = (ok, m2)" by fastforce
  have ok2: "motor_ok K m2"
    using readState_ok[OF run_allocators_ok, of K m bus bus "mode_allocators m"] assms mw r by simp
  obtain r3 m3 ws3 where s: "switchState Operation_Enable
      (m2\<lparr>control_word := 0, start_fault_reset := True\<rparr>, ws) = (r3, m3, ws3)"
    by (metis prod_cases3)
  have ok3: "io_ok K (m3, ws3)"
    using switchState_io_ok[of K "(m2\<lparr>control_word := 0, start_fault_reset := True\<rparr>, ws)"
        Operation_Enable] ok2 assms mw s by simp
  obtain k m4 where a: "allocMode bus Homing m3 = (k, m4)" by fastforce
  have ok4: "io_ok K (m4, ws3)"
    using ok3 allocMode_frame(3)[OF a] by simp
  with init_homing_ok[OF ok4, of bus] ok2 ok3 assms mw r s a show ?thesis
    by (auto simp: handleInit_def Let_def split: bool.splits option.splits)
qed

lemma handleShutdown_ok:
  fixes bus :: "'w bus" and mw :: "'w motor_io"
  assumes "io_ok K mw"
  shows "io_ok K (snd (handleShutdown bus mw))"
  unfolding handleShutdown_def
proof (rule bindE_state[where P = "io_ok K"])
  show "io_ok K (snd (switchMode bus No_Mode mw))"
    by (rule switchMode_ok[OF assms])
next
  fix r and mw1 :: "'w motor_io"
  assume "io_ok K mw1"
  from switchState_io_ok[OF this, of Switch_On_Disabled]
  show "io_ok K (snd (let (r', mw2) = switchState Switch_On_Disabled mw1 in (Inr r', mw2)))"
    by (cases "switchState Switch_On_Disabled mw1") simp
qed

lemma handleHalt_ok: "motor_ok K m \<Longrightarrow> motor_ok K (snd (handleHalt m))"
  by (simp add: handleHalt_def Let_def split: prod.splits)

lemma handleRecover_ok:
  assumes "io_ok K mw"
  shows "io_ok K (snd (handleRecover mw))"
proof -
  obtain m ws where mw: "mw = (m, ws)" by fastforce
  have ok: "motor_ok K (m\<lparr>start_fault_reset := True\<rparr>)" "threads_ok ws"
    using assms mw by simp_all
  have put: "motor_ok K (put_selected obj' (m\<lparr>start_fault_reset := True\<rparr>))"
    if "selected_obj m = Some obj" "mode_start obj = (r, obj')" for obj obj' r
    using that motor_ok_put_selected[OF ok(1), of obj obj'] mode_start_id by simp
  show ?thesis
    using ok put mw
    by (auto simp: handleRecover_def Let_def split: option.splits prod.splits
        intro!: switchState_io_ok)
qed

lemma handleEnable_ok: "io_ok K mw \<Longrightarrow> io_ok K (snd (handleEnable bus mw))"
  using readState_ok[of K "fst mw" bus]
  by (cases mw) (auto simp: handleEnable_def Let_def split: prod.splits intro!: switchState_io_ok)

lemma handleDisable_ok: "io_ok K mw \<Longrightarrow> io_ok K (snd (handleDisable bus mw))"
  using readState_ok[of K "fst mw" bus]
  by (cases mw) (auto simp: handleDisable_def Let_def split: prod.splits intro!: switchState_io_ok)

lemma actual_values_ok:
  assumes "motor_ok K m"
  shows "motor_ok K (snd (get_effort bus m))" "motor_ok K (snd (get_speed bus m))"
    "motor_ok K (snd (get_position bus m))"
proof -
  have get_ok: "motor_ok K x \<Longrightarrow> motor_ok K (snd (motor_get bus t i x))" for t i and x :: "'a motor"
    using motor_ok_get[where bus = bus and t = t and i = i and m = x]
    by (cases "motor_get bus t i x") simp
  show "motor_ok K (snd (get_effort bus m))" "motor_ok K (snd (get_speed bus m))"
    "motor_ok K (snd (get_position bus m))"
    using assms get_ok[of m _ _] get_ok[of "m\<lparr>effort_support_state := 1\<rparr>" _ _]
    by (simp_all add: get_effort_def get_speed_def get_position_def Let_def case_prod_beta)
qed

subsection \<open>Histories of a motor\<close>

text \<open>The calls the driver node makes, each with the wake-ups its waits see.\<close>

datatype 'w motor_call =
    SetTarget numeric_cast double
  | RegisterDefaultModes "u16 \<Rightarrow> uninit"
  | Read
  | Write
  | Diag
  | EnterMode u16 "'w motor wakeups"
  | Init "'w motor wakeups"
  | Shutdown "'w motor wakeups"
  | Halt
  | Recover "'w motor wakeups"
  | Enable "'w motor wakeups"
  | Disable "'w motor wakeups"
  | Effort
  | Speed
  | Position_value

fun call_wakeups :: "'w motor_call \<Rightarrow> 'w motor wakeups" where
  "call_wakeups (EnterMode mode ws) = ws"
| "call_wakeups (Init ws) = ws"
| "call_wakeups (Shutdown ws) = ws"
| "call_wakeups (Recover ws) = ws"
| "call_wakeups (Enable ws) = ws"
| "call_wakeups (Disable ws) = ws"
| "call_wakeups c = []"

fun motor_exec :: "'w bus \<Rightarrow> 'w motor_call \<Rightarrow> 'w motor \<Rightarrow> 'w motor" where
  "motor_exec bus (SetTarget nc v) m = snd (setTarget nc v m)"
| "motor_exec bus (RegisterDefaultModes junk) m = registerDefaultModes junk m"
| "motor_exec bus Read m = handleRead bus m"
| "motor_exec bus Write m = snd (handleWrite bus m)"
| "motor_exec bus Diag m = handleDiag m"
| "motor_exec bus (EnterMode mode ws) m = fst (snd (enterModeAndWait bus mode (m, ws)))"
| "motor_exec bus (Init ws) m = fst (snd (handleInit bus (m, ws)))"
| "motor_exec bus (Shutdown ws) m = fst (snd (handleShutdown bus (m, ws)))"
| "motor_exec bus Halt m = snd (handleHalt m)"
| "motor_exec bus (Recover ws) m = fst (snd (handleRecover (m, ws)))"
| "motor_exec bus (Enable ws) m = fst (snd (handleEnable bus (m, ws)))"
| "motor_exec bus (Disable ws) m = fst (snd (handleDisable bus (m, ws)))"
| "motor_exec bus Effort m = snd (get_effort bus m)"
| "motor_exec bus Speed m = snd (get_speed bus m)"
| "motor_exec bus Position_value m = snd (get_position bus m)"

lemma motor_exec_ok:
  assumes "motor_ok K m" "threads_ok (call_wakeups c)"
  shows "motor_ok K (motor_exec bus c m)"
proof (cases c)
  case (EnterMode mode ws)
  with assms enterModeAndWait_ok[of K "(m, ws)" bus mode] show ?thesis by (simp add: io_ok_def)
next
  case (Init ws)
  with assms handleInit_ok[of K "(m, ws)" bus] show ?thesis by (simp add: io_ok_def)
next
  case (Shutdown ws)
  with assms handleShutdown_ok[of K "(m, ws)" bus] show ?thesis by (simp add: io_ok_def)
next
  case (Recover ws)
  with assms handleRecover_ok[of K "(m, ws)"] show ?thesis by (simp add: io_ok_def)
next
  case (Enable ws)
  with assms handleEnable_ok[of K "(m, ws)" bus] show ?thesis by (simp add: io_ok_def)
next
  case (Disable ws)
  with assms handleDisable_ok[of K "(m, ws)" bus] show ?thesis by (simp add: io_ok_def)
qed (use assms(1) in \<open>simp_all add: setTarget_ok registerDefaultModes_ok handleRead_def readState_ok
       handleWrite_ok handleHalt_ok actual_values_ok handleDiag_def Let_def\<close>)

text \<open>The motors that calls can lead to. The other threads that run during a blocking call are
  themselves histories: a script of reachable functions.\<close>

inductive motor_run :: "'w bus \<Rightarrow> 'w motor \<Rightarrow> 'w motor \<Rightarrow> bool" for bus :: "'w bus" where
  run_nil: "motor_run bus m m"
| run_call: "\<lbrakk>motor_run bus m m1; \<forall>w \<in> set (call_wakeups c). \<forall>x. motor_run bus x (snd w x)\<rbrakk>
    \<Longrightarrow> motor_run bus m (motor_exec bus c m1)"

lemma motor_run_ok: "motor_run bus m m' \<Longrightarrow> motor_ok K m \<Longrightarrow> motor_ok K m'"
proof (induction arbitrary: K rule: motor_run.induct)
  case (run_nil m)
  then show ?case by simp
next
  case (run_call m m1 c)
  have "threads_ok (call_wakeups c)"
    using run_call(3) by (auto simp: threads_ok_def wakeups_keep_def)
  with run_call show ?case
    by (blast intro: motor_exec_ok)
qed

lemma Motor402_new_ok: "motor_ok {} (Motor402_new m0 drv sw_state homing_timeout ch)"
  by (simp add: Motor402_new_def motor_ok_def)

subsection \<open>The command word\<close>

text \<open>The selected mode drives the axis: the drive is enabled, the device is in the mode that is
  selected, and the mode has something to command.\<close>

definition mode_active :: "'w bus \<Rightarrow> 'w motor \<Rightarrow> bool" where
  "mode_active bus m \<longleftrightarrow> state (state_handler m) = Operation_Enable \<and>
    (\<exists>obj. selected_obj m = Some obj \<and> mode_obj_id obj = mode_id m \<and>
       fst (mode_write bus obj (control_word m OR cwm CW_Halt) (driver m)) = Inr True)"

lemma put_selected_frame [simp]:
  "control_word (put_selected obj m) = control_word m"
  "start_fault_reset (put_selected obj m) = start_fault_reset m"
  "channel_offset (put_selected obj m) = channel_offset m"
  "state_handler (put_selected obj m) = state_handler m"
  "driver (put_selected obj m) = driver m"
  "selected_mode (put_selected obj m) = selected_mode m"
  "mode_id (put_selected obj m) = mode_id m"
  "target_state (put_selected obj m) = target_state m"
  by (simp_all add: put_selected_def split: option.split)

text \<open>The preparation of the control word: the state bits stay, the halt bit says whether a mode
  drives the axis.\<close>

lemma write_mode_result:
  assumes "write_mode bus m = (Inr okay, m1)"
  shows "k \<notin> mode_bits \<Longrightarrow> bit (control_word m1) k = bit (control_word m) k"
    "okay \<longleftrightarrow> (\<exists>obj. selected_obj m = Some obj \<and> mode_obj_id obj = mode_id m \<and>
       fst (mode_write bus obj (control_word m) (driver m)) = Inr True)"
    "start_fault_reset m1 = start_fault_reset m" "channel_offset m1 = channel_offset m"
  using assms mode_write_other_bits[of bus _ "control_word m" "driver m" _ _ _ _ k]
  by (auto simp: write_mode_def Let_def bit_wa_assign bit_OpModeMask
      split: option.splits if_splits prod.splits)

lemma prepare_control_word_result:
  assumes "prepare_control_word bus m = (Inr (), m1)"
  shows "k \<notin> mode_bits \<Longrightarrow> k \<noteq> 8 \<Longrightarrow> bit (control_word m1) k = bit (control_word m) k"
    "\<not> bit (control_word m1) 8 \<longleftrightarrow> mode_active bus m"
    "start_fault_reset m1 = start_fault_reset m" "channel_offset m1 = channel_offset m"
proof -
  let ?m = "m\<lparr>control_word := control_word m OR cwm CW_Halt\<rparr>"
  have *: "(k \<notin> mode_bits \<longrightarrow> k \<noteq> 8 \<longrightarrow> bit (control_word m1) k = bit (control_word m) k) \<and>
    (\<not> bit (control_word m1) 8 \<longleftrightarrow> mode_active bus m) \<and>
    start_fault_reset m1 = start_fault_reset m \<and> channel_offset m1 = channel_offset m"
  proof (cases "state (state_handler m) = Operation_Enable")
    case False
    with assms show ?thesis
      by (auto simp: prepare_control_word_def getState_def mode_active_def bit_or_iff bit_shl1)
  next
    case True
    obtain r m2 where w: "write_mode bus ?m = (r, m2)" by fastforce
    obtain okay where r: "r = Inr okay"
      using assms True w by (cases r) (auto simp: prepare_control_word_def getState_def Let_def)
    note W = write_mode_result[OF w[unfolded r]]
    have "k \<notin> mode_bits \<Longrightarrow> bit (control_word m2) k = bit (control_word ?m) k" for k
      by (rule write_mode_result(1)[OF w[unfolded r]])
    moreover have "8 \<notin> mode_bits"
      by (simp add: mode_bits_def)
    moreover have "m1 = (if okay then m2\<lparr>control_word := control_word m2 AND NOT (cwm CW_Halt)\<rparr> else m2)"
      using assms True w r by (simp add: prepare_control_word_def getState_def Let_def)
    moreover have "okay \<longleftrightarrow> mode_active bus m"
      using W(2) True by (simp add: mode_active_def)
    ultimately show ?thesis
      using W(3,4) bit_imp_le_length[of "control_word m2" k]
      by (cases okay) (auto simp: bit_or_iff bit_and_iff bit_not_iff bit_shl1)
  qed
  then show "k \<notin> mode_bits \<Longrightarrow> k \<noteq> 8 \<Longrightarrow> bit (control_word m1) k = bit (control_word m) k"
    "\<not> bit (control_word m1) 8 \<longleftrightarrow> mode_active bus m"
    "start_fault_reset m1 = start_fault_reset m" "channel_offset m1 = channel_offset m"
    by simp_all
qed

text \<open>What \<open>handleWrite\<close> sends, as one write of the control word object.\<close>

definition command_sent :: "'w bus \<Rightarrow> 'w motor \<Rightarrow> u16 \<Rightarrow> 'w motor \<Rightarrow> bool" where
  "command_sent bus m w m' \<longleftrightarrow>
    (\<exists>d. uset bus U16 (control_word_entry_index + channel_offset m) 0 (uint w) d = (Inr (), driver m'))"

lemma cast_U16_uint: "cast_int U16 (uint (w :: u16)) = uint w"
  by (simp add: cast_int_def take_bit_word_eq_self flip: unsigned_take_bit_eq)

lemma handleWrite_sends:
  assumes "handleWrite bus m = (Inr (), m')"
  obtains m1 w where "prepare_control_word bus m = (Inr (), m1)" "command_sent bus m w m'"
    "w = (if start_fault_reset m then control_word m1 AND NOT (cwm CW_Fault_Reset) else control_word m1)"
    "\<not> start_fault_reset m'" "control_word m' = control_word m1"
proof -
  obtain r m1 where p: "prepare_control_word bus m = (r, m1)" by fastforce
  have r: "r = Inr ()"
    using assms p by (cases r) (auto simp: handleWrite_def)
  note P = prepare_control_word_result(3,4)[OF p[unfolded r]]
  show thesis
    by (rule that[OF p[unfolded r], of "if start_fault_reset m
        then control_word m1 AND NOT (cwm CW_Fault_Reset) else control_word m1"])
      (use assms p r P in \<open>auto simp: handleWrite_def motor_set_def Let_def command_sent_def
        get_channel_index_def cast_U16_uint split: prod.splits if_splits\<close>)
qed

subsection \<open>Concrete motors\<close>

text \<open>A motor constructed over cleared memory, and a bus whose objects all read as zero: the inputs
  at which the properties below are evaluated.\<close>

definition fresh_motor :: "'w \<Rightarrow> 'w motor" where
  "fresh_motor drv = Motor402_new
    \<lparr>status_word = 0, control_word = 0, start_fault_reset = False, target_state = Unknown,
     state_handler = State402_init, modes = Map.empty, mode_allocators = [], selected_mode = None,
     mode_id = 0, mode_cond = 0, switching_state = Unknown, homing_timeout_seconds = 0, channel = 0,
     channel_offset = 0, enable_diagnostics = False, diag_collector = DiagnosticsCollector_init,
     effort_support_state = 0, driver = drv\<rparr> drv Operation_Enable 10 0"

definition zero_bus :: "unit bus" where
  "zero_bus = \<lparr>uget = \<lambda>t i sub w. (0, w), uset = \<lambda>t i sub v w. (Inr (), w), has_object = \<lambda>i sub w. False\<rparr>"

text \<open>The profiled velocity mode with a target, and an enabled motor that has it selected.\<close>

definition velocity_mode :: mode_obj where
  "velocity_mode = Forward \<lparr>th_mode_id = Profiled_Velocity, th_type = I32, target = 500,
     has_target = True, OBJ = 0x60FF, SUB = 0, CW_MASK = 0, fwd_channel_offset = 0\<rparr>"

definition driving_motor :: "unit motor" where
  "driving_motor = (fresh_motor ())\<lparr>state_handler := \<lparr>state = Operation_Enable, cond = 1\<rparr>,
     modes := [Profiled_Velocity \<mapsto> velocity_mode], selected_mode := Some Profiled_Velocity,
     mode_id := Profiled_Velocity, control_word := 0x0F\<rparr>"

lemma fresh_motor_simps [simp]:
  "selected_mode (fresh_motor d) = None" "channel_offset (fresh_motor d) = 0"
  "driver (fresh_motor d) = d" "control_word (fresh_motor d) = 0"
  "start_fault_reset (fresh_motor d) = False" "state_handler (fresh_motor d) = State402_init"
  "modes (fresh_motor d) = Map.empty" "target_state (fresh_motor d) = Unknown"
  "mode_id (fresh_motor d) = 0" "enable_diagnostics (fresh_motor d) = False"
  "switching_state (fresh_motor d) = Operation_Enable"
  by (simp_all add: fresh_motor_def Motor402_new_def)

lemma zero_bus_simps [simp]:
  "uget zero_bus t i sub w = (0, w)" "uset zero_bus t i sub v w = (Inr (), w)"
  by (simp_all add: zero_bus_def)

lemma driving_motor_simps [simp]:
  "state (state_handler driving_motor) = Operation_Enable"
  "modes driving_motor = [Profiled_Velocity \<mapsto> velocity_mode]"
  "selected_mode driving_motor = Some Profiled_Velocity" "mode_id driving_motor = Profiled_Velocity"
  "selected_obj driving_motor = Some velocity_mode" "start_fault_reset driving_motor = False"
  "channel_offset driving_motor = 0" "control_word driving_motor = 0x0F"
  "driver driving_motor = ()"
  by (simp_all add: driving_motor_def selected_obj_def)

lemma handleWrite_zero_bus:
  "fst (handleWrite zero_bus m) = fst (prepare_control_word zero_bus m)"
  by (cases "prepare_control_word zero_bus m"; cases "fst (prepare_control_word zero_bus m)")
    (auto simp: handleWrite_def motor_set_def)

lemma velocity_mode_write:
  "mode_write zero_bus velocity_mode cw () = (Inr True, velocity_mode,
     wa_assign OpModeMask (wa_get OpModeMask cw OR 0) cw, ())"
  by (simp add: velocity_mode_def forward_write_def)

lemma driving_motor_prepares: "fst (prepare_control_word zero_bus driving_motor) = Inr ()"
  by (simp add: prepare_control_word_def getState_def write_mode_def velocity_mode_write Let_def)

subsection \<open>Properties of the command word\<close>





definition recovering_motor :: "unit motor" where
  "recovering_motor = (fresh_motor ())\<lparr>state_handler := \<lparr>state = Fault, cond = 1\<rparr>,
     start_fault_reset := True, control_word := 0x80\<rparr>"

lemma idle_handleWrite:
  assumes "state (state_handler m) \<noteq> Operation_Enable"
  shows "handleWrite zero_bus m = (Inr (), snd (handleWrite zero_bus m))"
    "state_handler (snd (handleWrite zero_bus m)) = state_handler m"
  using assms by (auto simp: handleWrite_def prepare_control_word_def getState_def Let_def motor_set_def)


subsection \<open>Properties of switching\<close>

text \<open>C3: \<open>switchState\<close> never claims success early: when it returns true, the state last read from
  the device is the requested one, whatever the polling thread and the service threads did while
  it waited.\<close>

theorem switchState_sound:
  assumes "switchState tgt (m, ws) = (True, m', ws')"
  shows "state (state_handler m') = tgt \<and> target_state m' = tgt \<and> set ws' \<subseteq> set ws"
  using switchState_true[OF assms] switchState_keep(2)[OF assms, of "\<lambda>x. True"]
  by (simp add: command_independent_def wakeups_keep_def)

text \<open>A device that has just been read as switched on while the motor waits.\<close>

definition seen_switched_on :: "'w motor \<Rightarrow> 'w motor" where
  "seen_switched_on m = m\<lparr>state_handler := snd (state_read 0x23 (state_handler m))\<rparr>"

lemma decode_0x23: "decode_state 0x23 = Switched_On"
  by (simp add: decode_state_bits)

theorem switchState_sound_witness:
  "\<exists>m' ws'. switchState Switched_On ((fresh_motor ())\<lparr>state_handler := \<lparr>state = Ready_To_Switch_On, cond = 0\<rparr>\<rparr>,
      [(no_timeout, id), (no_timeout, seen_switched_on)]) = (True, m', ws') \<and>
    state (state_handler m') = Switched_On \<and> target_state m' = Switched_On \<and>
    set ws' \<subseteq> {(no_timeout, id), (no_timeout, seen_switched_on)}"
proof -
  let ?m = "(fresh_motor ())\<lparr>state_handler := \<lparr>state = Ready_To_Switch_On, cond = 0\<rparr>\<rparr>"
  let ?ws = "[(no_timeout, id), (no_timeout, seen_switched_on)]"
  let ?start = "?m\<lparr>target_state := Switched_On\<rparr>"
  have hop: "request_hop Ready_To_Switch_On ?start
      = (True, Switched_On, ?start\<lparr>control_word := op_apply switch_on 0\<rparr>)"
    by (simp add: request_hop_def setTransition_direct motor_diag_def)
  have wait: "waitForNewState state_handler ?ws (?start\<lparr>control_word := op_apply switch_on 0\<rparr>) Ready_To_Switch_On
      = (True, Switched_On, seen_switched_on (?start\<lparr>control_word := op_apply switch_on 0\<rparr>), [])"
    by (simp add: waitForNewState_def seen_switched_on_def decode_0x23)
  have run: "switchState Switched_On (?m, ?ws)
      = (True, seen_switched_on (?start\<lparr>control_word := op_apply switch_on 0\<rparr>), [])"
    using switch_loop_round[OF _ hop wait]
    by (simp add: switchState_def getState_def switch_loop_done seen_switched_on_def)
  show ?thesis
    by (rule exI[where x = "seen_switched_on (?start\<lparr>control_word := op_apply switch_on 0\<rparr>)"],
        rule exI[where x = "[]"]) (use run switchState_sound[OF run] in simp)
qed

text \<open>C7: In every history of calls on a motor, with any work of other threads made of such calls
  during the blocking ones, each mode object is found under its own mode number, the selected mode
  exists, and a mode once registered stays registered.\<close>

theorem motor_run_invariant:
  assumes "motor_run bus m m'" "motor_ok K m"
  shows "(\<forall>k obj. modes m' k = Some obj \<longrightarrow> mode_obj_id obj = k) \<and>
    (\<forall>k. selected_mode m' = Some k \<longrightarrow> modes m' k \<noteq> None) \<and> K \<subseteq> dom (modes m')"
  using motor_run_ok[OF assms] by (simp add: motor_ok_def)

theorem motor_run_invariant_witness:
  "let m' = motor_exec zero_bus (Recover [(no_timeout, motor_exec zero_bus Read)]) driving_motor
   in (\<forall>k obj. modes m' k = Some obj \<longrightarrow> mode_obj_id obj = k) \<and>
      (\<forall>k. selected_mode m' = Some k \<longrightarrow> modes m' k \<noteq> None) \<and> {Profiled_Velocity} \<subseteq> dom (modes m')"
proof -
  have read: "motor_run zero_bus x (motor_exec zero_bus Read x)" for x
    by (rule run_call[OF run_nil]) simp
  have run: "motor_run zero_bus driving_motor
    (motor_exec zero_bus (Recover [(no_timeout, motor_exec zero_bus Read)]) driving_motor)"
    by (rule run_call[OF run_nil]) (use read in simp)
  have ok: "motor_ok {Profiled_Velocity} driving_motor"
    by (simp add: motor_ok_def velocity_mode_def)
  show ?thesis
    unfolding Let_def by (rule motor_run_invariant[OF run ok])
qed

text \<open>The target a mode object holds, with the type of its object.\<close>

fun mode_target :: "mode_obj \<Rightarrow> (int_type \<times> int) option" where
  "mode_target (Forward m) = (if has_target m then Some (th_type m, target m) else None)"
| "mode_target (Position m) = (if has_target m then Some (th_type m, target m) else None)"
| "mode_target (Homing_mode m) = None"

lemma setTarget_result:
  assumes "numeric_cast_law nc" "setTarget nc val m = (True, m')"
  shows "state (state_handler m) = Operation_Enable \<and> \<not> is_nan val \<and>
    (\<exists>obj t. selected_obj m' = Some obj \<and> mode_target obj = Some (t, clamp_target t val) \<and>
       in_type t (clamp_target t val))"
proof -
  obtain obj obj' where sel: "state (state_handler m) = Operation_Enable" "selected_obj m = Some obj"
      "mode_setTarget nc val obj = (True, obj')" "m' = put_selected obj' m"
    using assms(2)
    by (auto simp: setTarget_def getState_def Let_def split: if_splits option.splits prod.splits)
  have put: "selected_obj m' = Some obj'"
    using sel(2,4) by (auto simp: selected_obj_def put_selected_def split: option.splits)
  have "\<not> is_nan val \<and> (\<exists>t. mode_target obj' = Some (t, clamp_target t val))"
    using sel(3)
    by (cases obj) (auto simp: setTarget_helper_eq[OF assms(1)] split: if_splits)
  with sel(1) put clamp_target_in_type show ?thesis
    by blast
qed

text \<open>C6: A target is taken only while the drive is enabled and a mode is selected, and the mode
  object then holds the value saturated to the integer type of its object, so no command wraps
  around on its way to the device.\<close>

theorem setTarget_saturates:
  assumes "numeric_cast_law nc" "setTarget nc val m = (True, m')"
  shows "state (state_handler m) = Operation_Enable \<and> \<not> is_nan val \<and>
    (\<exists>obj t. selected_obj m' = Some obj \<and> mode_target obj = Some (t, clamp_target t val) \<and>
       in_type t (clamp_target t val))"
  by (rule setTarget_result[OF assms])

theorem setTarget_saturates_witness:
  "\<exists>obj t. selected_obj (snd (setTarget boost_cast (Fin 5000000000) driving_motor)) = Some obj \<and>
    mode_target obj = Some (t, clamp_target t (Fin 5000000000)) \<and>
    in_type t (clamp_target t (Fin 5000000000))"
proof -
  have "setTarget boost_cast (Fin 5000000000) driving_motor
      = (True, snd (setTarget boost_cast (Fin 5000000000) driving_motor))"
    by (simp add: setTarget_def getState_def velocity_mode_def Let_def setTarget_helper_def
        boost_cast_def type_limits)
  from setTarget_saturates[OF boost_cast_law this] show ?thesis by blast
qed


definition homing_bus :: "unit bus" where
  "homing_bus = zero_bus\<lparr>uget := \<lambda>t i sub w. (35, w)\<rparr>"


subsection \<open>Selecting a mode\<close>

text \<open>Threads that leave the selection alone, as the poll does.\<close>

definition selection_stable :: "'w motor wakeups \<Rightarrow> bool" where
  "selection_stable ws \<longleftrightarrow> (\<forall>c. wakeups_keep (\<lambda>m. selected_mode m = c) ws)"

lemma selection_stable_subset: "selection_stable ws \<Longrightarrow> set ws' \<subseteq> set ws \<Longrightarrow> selection_stable ws'"
  unfolding selection_stable_def by (blast intro: wakeups_keep_subset)

lemma selection_independent: "command_independent (\<lambda>m. selected_mode m = c)"
  by (simp add: command_independent_def)

lemma switchState_selection:
  assumes "switchState tgt (m, ws) = (r, m', ws')" "selection_stable ws"
  shows "selected_mode m' = selected_mode m"
  using switchState_keep(1)[OF assms(1) selection_independent] assms(2)
  by (simp add: selection_stable_def)

lemma switchMode_tail_selects:
  assumes "switchMode_tail bus mode k (m, ws) = (Inr True, m', ws')" "selection_stable ws"
  shows "selected_mode m' = Some k" "state (state_handler m') = Operation_Enable"
proof -
  obtain r1 m1 ws1 where s1: "switchState (switching_state m) (m, ws) = (r1, m1, ws1)"
    by (metis prod_cases3)
  obtain r2 m2 where s2: "motor_set bus I8 op_mode_index (uint mode) m1 = (r2, m2)" by fastforce
  obtain m3 ws3 where s3: "wait_while (\<lambda>x. mode_id x \<noteq> mode) ws1 m2 = (m3, ws3)" by fastforce
  obtain r4 m4 where s4: "switchMode_select bus mode k m3 = (r4, m4)" by fastforce
  obtain r5 m5 ws5 where s5: "switchState Operation_Enable (m4, ws3) = (r5, m5, ws5)"
    by (metis prod_cases3)
  have eq: "r4 = Inr True" "r5" "m5 = m'"
    using assms(1) s1 s2 s3 s4 s5
    by (auto simp: switchMode_tail_def split: bool.splits sum.splits)
  have stable: "selection_stable ws3"
    using switchState_keep(2)[OF s1, of "\<lambda>x. True"] wait_while_left[OF s3] assms(2)
      selection_stable_subset[of ws ws3]
    by (auto simp: command_independent_def wakeups_keep_def)
  have "selected_mode m4 = Some k"
    using s4 eq(1) by (auto simp: switchMode_select_def Let_def bindE_def split: if_splits sum.splits prod.splits)
  then show "selected_mode m' = Some k"
    using switchState_selection[OF s5 stable] eq(3) by simp
  show "state (state_handler m') = Operation_Enable"
    using switchState_true(1)[of Operation_Enable m4 ws3 m5 ws5] s5 eq by simp
qed

lemma start_mode_frame:
  assumes "start_mode k m = (r, m')"
  shows "selected_mode m' = selected_mode m" "mode_id m' = mode_id m"
  using assms by (auto simp: start_mode_def split: option.splits prod.splits)

lemma switchMode_selects:
  assumes run: "switchMode bus mode (m, ws) = (Inr True, m', ws')" and mode: "mode \<noteq> No_Mode"
    and "selection_stable ws" "motor_ok {} m"
  shows "selected_mode m' = Some mode \<and>
    (state (state_handler m') = Operation_Enable \<or> selected_mode m = Some mode \<and> mode_id m' = mode)"
proof -
  obtain km m1 where a: "allocMode bus mode m = (km, m1)" by fastforce
  obtain k where km: "km = Some k" and k: "k = mode"
    using run mode a allocMode_frame(6)[OF a] by (cases km) (auto simp: switchMode_def)
  obtain r2 m2 where b: "start_mode k m1 = (r2, m2)" by fastforce
  have r2: "r2"
    using run mode a km b by (auto simp: switchMode_def split: bool.splits)
  have ok2: "motor_ok {} m2"
    using start_mode_ok[OF _ b, of "{}"] allocMode_frame(3)[OF a, of "{}"] assms(4) by simp
  show ?thesis
  proof (cases "mode_id m2 = mode \<and> selected_obj m2 \<noteq> None \<and> mode_obj_id (the (selected_obj m2)) = mode")
    case True
    then have "m' = m2"
      using run mode a km b r2 by (simp add: switchMode_def)
    moreover have "selected_mode m2 = Some mode"
      using True selected_obj_id[OF ok2] by auto
    ultimately show ?thesis
      using True start_mode_frame(1)[OF b] allocMode_frame(2)[OF a] by auto
  next
    case False
    then have "switchMode_tail bus mode k (m2\<lparr>selected_mode := None\<rparr>, ws) = (Inr True, m', ws')"
      using run mode a km b r2 by (auto simp: switchMode_def split: if_splits)
    from switchMode_tail_selects[OF this assms(3)] k show ?thesis
      by simp
  qed
qed

subsection \<open>Disabling from the disabled state\<close>

lemma setTransition_to_switched_on:
  "setTransition cw Switch_On_Disabled Switched_On (Some old) = (False, cw, Some Switched_On)"
proof -
  have "transitions (Switch_On_Disabled, Switched_On) = None"
    by (simp add: transitions_None_iff transition_list_def)
  then show ?thesis
    by (simp add: setTransition_direct)
qed

lemma switchState_from_disabled:
  assumes "state (state_handler m) = Switch_On_Disabled"
  shows "fst (switchState Switched_On (m, ws)) = False"
proof -
  have "request_hop Switch_On_Disabled (m\<lparr>target_state := Switched_On\<rparr>)
      = (False, Switched_On, m\<lparr>target_state := Switched_On\<rparr>)"
    by (simp add: request_hop_def setTransition_to_switched_on)
  then show ?thesis
    using assms by (simp add: switchState_def getState_def switch_loop_illegal)
qed

lemma readState_result:
  "readState bus m = (True, snd (readState bus m))"
  "state (state_handler (snd (readState bus m)))
     = decode_state (word_of_int (fst (motor_get bus U16 status_word_entry_index m)))"
  by (auto simp: readState_def Let_def motor_get_frame(5) split: prod.splits option.splits)

text \<open>Disabling a drive that is in the state Switch_On_Disabled fails: \<open>handleDisable\<close> heads for
  Switched_On, and the transition table has no direct way there. The comment of the declaration
  names Switch_On_Disabled as the goal.\<close>

theorem handleDisable_from_disabled:
  assumes "decode_state (word_of_int (fst (motor_get bus U16 status_word_entry_index m))) = Switch_On_Disabled"
  shows "fst (handleDisable bus (m, ws)) = False"
proof -
  obtain m1 where r: "readState bus m = (True, m1)"
    using readState_result(1) by blast
  have "state (state_handler m1) = Switch_On_Disabled"
    using assms readState_result(2)[of bus m] r by simp
  from switchState_from_disabled[OF this, of ws] show ?thesis
    by (simp add: handleDisable_def r)
qed

definition disabled_bus :: "unit bus" where
  "disabled_bus = zero_bus\<lparr>uget := \<lambda>t i sub w. (64, w)\<rparr>"

theorem handleDisable_from_disabled_witness:
  "fst (handleDisable disabled_bus (driving_motor, [(no_timeout, id)])) = False"
proof (rule handleDisable_from_disabled)
  show "decode_state (word_of_int (fst (motor_get disabled_bus U16 status_word_entry_index driving_motor)))
      = Switch_On_Disabled"
    by (simp add: motor_get_def disabled_bus_def decode_state_bits)
qed

text \<open>When \<open>switchMode\<close> succeeds the requested mode is the selected one and, unless it was
  selected and reported by the device already, the drive has reached Operation_Enable. The other
  threads do not touch the selection, as is true of the poll.\<close>

theorem switchMode_sound:
  assumes "switchMode bus mode (m, ws) = (Inr True, m', ws')" "mode \<noteq> No_Mode"
    "selection_stable ws" "motor_ok {} m"
  shows "selected_mode m' = Some mode \<and>
    (state (state_handler m') = Operation_Enable \<or> selected_mode m = Some mode \<and> mode_id m' = mode)"
  by (rule switchMode_selects[OF assms])

definition all_modes_bus :: "unit bus" where
  "all_modes_bus = zero_bus\<lparr>uget := \<lambda>t i sub w. (65535, w)\<rparr>"

theorem switchMode_sound_witness:
  "\<exists>m' ws'. switchMode all_modes_bus Profiled_Velocity (driving_motor, [(no_timeout, id)])
      = (Inr True, m', ws') \<and> selected_mode m' = Some Profiled_Velocity"
proof -
  have start: "start_mode Profiled_Velocity driving_motor = (True,
      driving_motor\<lparr>modes := [Profiled_Velocity \<mapsto> snd (mode_start velocity_mode)]\<rparr>)"
    by (simp add: start_mode_def velocity_mode_def start_helper_def)
  have alloc: "allocMode all_modes_bus Profiled_Velocity driving_motor
      = (Some Profiled_Velocity, driving_motor)"
    by (simp add: allocMode_def isModeSupportedByDevice_def motor_get_def all_modes_bus_def
        Profiled_Velocity_def)
  have run: "switchMode all_modes_bus Profiled_Velocity (driving_motor, [(no_timeout, id)])
      = (Inr True, driving_motor\<lparr>modes := [Profiled_Velocity \<mapsto> snd (mode_start velocity_mode)]\<rparr>,
         [(no_timeout, id)])"
    by (simp add: switchMode_def alloc start selected_obj_def)
      (simp add: velocity_mode_def Profiled_Velocity_def No_Mode_def start_helper_def)
  have "selection_stable ([(no_timeout, id)] :: unit motor wakeups)"
    by (simp add: selection_stable_def)
  moreover have "motor_ok {} driving_motor" "Profiled_Velocity \<noteq> No_Mode"
    by (simp_all add: motor_ok_def velocity_mode_def Profiled_Velocity_def No_Mode_def)
  ultimately show ?thesis
    using switchMode_sound[OF run] run by blast
qed

end
