(* ===== verification/FakeSlave402.thy ===== *)
theory FakeSlave402
  imports Command402
begin

text \<open>
  The CiA 402 mock device of the test bench (\<open>canopen_fake_slaves\<close>, \<open>cia402_slave.hpp\<close>, class
  \<open>CIA402MockSlave\<close>): its object dictionary, its state machine driven by the control word and
  the reaction to a write of the mode of operation. Here a thread that simulates the motion of a mode
  is represented by its being joinable; a join ends it. What the threads do is in \<open>MockModes\<close>. The lemmas relate the status word to the
  state and tie the machine to the driver's commands.
\<close>

subsection \<open>State\<close>

datatype mode_thread =
  Profiled_position_thread | Profiled_velocity_thread | Cyclic_position_thread
  | Cyclic_velocity_thread | Interpolated_position_thread | Homing_thread

record slave =
  sl_state :: InternalState
  sl_status :: u16
  sl_control :: u16
  sl_mode :: int
  sl_old_mode :: int
  sl_relative :: bool
  sl_halt :: bool
  sl_new_set_point :: bool
  sl_threads :: "mode_thread set"
  sl_od :: "u16 \<times> u8 \<Rightarrow> int"
  sl_tpdo_events :: nat
  sl_position :: real

text \<open>The constructor; \<open>s0\<close> holds the indeterminate values of the members it leaves alone.\<close>

definition CIA402MockSlave_new :: "slave \<Rightarrow> slave" where
  "CIA402MockSlave_new s0 =
    s0\<lparr>sl_state := Not_Ready_To_Switch_On, sl_status := 0, sl_mode := 0, sl_threads := {}, sl_position := 0\<rparr>"

definition set_status_bit :: "nat \<Rightarrow> slave \<Rightarrow> slave" where
  "set_status_bit b s = s\<lparr>sl_status := sl_status s OR shl1 b\<rparr>"

definition clear_status_bit :: "nat \<Rightarrow> slave \<Rightarrow> slave" where
  "clear_status_bit b s = s\<lparr>sl_status := sl_status s AND NOT (shl1 b)\<rparr>"

definition set_switch_on_disabled :: "slave \<Rightarrow> slave" where
  "set_switch_on_disabled s =
    (set_status_bit (sw_bit SW_Switch_on_disabled)
     \<circ> clear_status_bit (sw_bit SW_Fault)
     \<circ> clear_status_bit (sw_bit SW_Operation_enabled)
     \<circ> clear_status_bit (sw_bit SW_Switched_On)
     \<circ> clear_status_bit (sw_bit SW_Ready_To_Switch_On)) (s\<lparr>sl_state := Switch_On_Disabled\<rparr>)"

definition set_ready_to_switch_on :: "slave \<Rightarrow> slave" where
  "set_ready_to_switch_on s =
    (clear_status_bit (sw_bit SW_Switch_on_disabled)
     \<circ> set_status_bit (sw_bit SW_Quick_stop)
     \<circ> clear_status_bit (sw_bit SW_Fault)
     \<circ> clear_status_bit (sw_bit SW_Operation_enabled)
     \<circ> clear_status_bit (sw_bit SW_Switched_On)
     \<circ> set_status_bit (sw_bit SW_Ready_To_Switch_On)) (s\<lparr>sl_state := Ready_To_Switch_On\<rparr>)"

definition set_switch_on :: "slave \<Rightarrow> slave" where
  "set_switch_on s =
    (clear_status_bit (sw_bit SW_Switch_on_disabled)
     \<circ> set_status_bit (sw_bit SW_Quick_stop)
     \<circ> clear_status_bit (sw_bit SW_Fault)
     \<circ> clear_status_bit (sw_bit SW_Operation_enabled)
     \<circ> set_status_bit (sw_bit SW_Switched_On)
     \<circ> set_status_bit (sw_bit SW_Ready_To_Switch_On)) (s\<lparr>sl_state := Switched_On\<rparr>)"

definition set_operation_enabled :: "slave \<Rightarrow> slave" where
  "set_operation_enabled s =
    (clear_status_bit (sw_bit SW_Switch_on_disabled)
     \<circ> set_status_bit (sw_bit SW_Quick_stop)
     \<circ> clear_status_bit (sw_bit SW_Fault)
     \<circ> set_status_bit (sw_bit SW_Operation_enabled)
     \<circ> set_status_bit (sw_bit SW_Switched_On)
     \<circ> set_status_bit (sw_bit SW_Ready_To_Switch_On)) (s\<lparr>sl_state := Operation_Enable\<rparr>)"

definition set_quick_stop :: "slave \<Rightarrow> slave" where
  "set_quick_stop s =
    (clear_status_bit (sw_bit SW_Switch_on_disabled)
     \<circ> clear_status_bit (sw_bit SW_Quick_stop)
     \<circ> clear_status_bit (sw_bit SW_Fault)
     \<circ> set_status_bit (sw_bit SW_Operation_enabled)
     \<circ> set_status_bit (sw_bit SW_Switched_On)
     \<circ> set_status_bit (sw_bit SW_Ready_To_Switch_On)) (s\<lparr>sl_state := Quick_Stop_Active\<rparr>)"

subsection \<open>Commands\<close>

text \<open>\<open>(control_word >> b) & 1U\<close>\<close>

definition cw_test :: "ControlWord \<Rightarrow> slave \<Rightarrow> bool" where
  "cw_test b s \<longleftrightarrow> bit (sl_control s) (cw_bit b)"

definition is_shutdown :: "slave \<Rightarrow> bool" where
  "is_shutdown s \<longleftrightarrow> \<not> cw_test CW_Fault_Reset s \<and> cw_test CW_Quick_Stop s
     \<and> cw_test CW_Enable_Voltage s \<and> \<not> cw_test CW_Switch_On s"

definition is_disable_voltage :: "slave \<Rightarrow> bool" where
  "is_disable_voltage s \<longleftrightarrow> \<not> cw_test CW_Fault_Reset s \<and> \<not> cw_test CW_Enable_Voltage s"

definition is_switch_on :: "slave \<Rightarrow> bool" where
  "is_switch_on s \<longleftrightarrow> \<not> cw_test CW_Fault_Reset s \<and> \<not> cw_test CW_Enable_Operation s
     \<and> cw_test CW_Quick_Stop s \<and> cw_test CW_Enable_Voltage s \<and> cw_test CW_Switch_On s"

definition is_enable_operation :: "slave \<Rightarrow> bool" where
  "is_enable_operation s \<longleftrightarrow> \<not> cw_test CW_Fault_Reset s \<and> cw_test CW_Enable_Operation s
     \<and> cw_test CW_Quick_Stop s \<and> cw_test CW_Enable_Voltage s \<and> cw_test CW_Switch_On s"

definition is_quickstop :: "slave \<Rightarrow> bool" where
  "is_quickstop s \<longleftrightarrow> \<not> cw_test CW_Fault_Reset s \<and> \<not> cw_test CW_Quick_Stop s
     \<and> cw_test CW_Enable_Voltage s"

definition is_faul_reset :: "slave \<Rightarrow> bool" where
  "is_faul_reset s \<longleftrightarrow> cw_test CW_Fault_Reset s"

subsection \<open>Reactions\<close>

text \<open>A sequence of \<open>if\<close> statements, each looking at the control word, which they do not change.\<close>

definition on_command :: "(slave \<Rightarrow> bool) \<Rightarrow> (slave \<Rightarrow> slave) \<Rightarrow> slave \<Rightarrow> slave" where
  "on_command c f s = (if c s then f s else s)"

definition on_switch_on_disabled :: "slave \<Rightarrow> slave" where
  "on_switch_on_disabled = on_command is_shutdown set_ready_to_switch_on"

definition on_ready_to_switch_on :: "slave \<Rightarrow> slave" where
  "on_ready_to_switch_on =
    on_command is_faul_reset set_ready_to_switch_on \<circ> on_command is_switch_on set_switch_on
    \<circ> on_command is_disable_voltage set_switch_on_disabled"

definition on_switched_on :: "slave \<Rightarrow> slave" where
  "on_switched_on =
    on_command is_enable_operation set_operation_enabled \<circ> on_command is_shutdown set_ready_to_switch_on
    \<circ> on_command is_disable_voltage set_switch_on_disabled"

definition publish_status :: "slave \<Rightarrow> slave" where
  "publish_status s =
    s\<lparr>sl_od := (sl_od s)((0x6041, 0) := uint (sl_status s)), sl_tpdo_events := sl_tpdo_events s + 1\<rparr>"

text \<open>The thread the new mode starts.\<close>

definition thread_of_mode :: "int \<Rightarrow> mode_thread option" where
  "thread_of_mode mode =
    (if mode = 8 then Some Cyclic_position_thread
     else if mode = 1 then Some Profiled_position_thread
     else if mode = 7 then Some Interpolated_position_thread
     else if mode = 6 then Some Homing_thread
     else if mode = 3 then Some Profiled_velocity_thread
     else None)"

text \<open>The joins cover every thread but the one of the cyclic velocity mode, which is never started.\<close>

definition change_mode :: "slave \<Rightarrow> slave" where
  "change_mode s =
    (if sl_old_mode s \<noteq> sl_mode s
     then (let s1 = publish_status (clear_status_bit (sw_bit SW_Target_reached)
                      (clear_status_bit (sw_bit SW_Operation_mode_specific0) s));
               joined = sl_threads s1 \<inter> {Cyclic_velocity_thread};
               started = (case thread_of_mode (sl_mode s1) of None \<Rightarrow> {} | Some t \<Rightarrow> {t})
           in s1\<lparr>sl_threads := joined \<union> started, sl_old_mode := sl_mode s1\<rparr>)
     else s)"

definition on_operation_enabled :: "slave \<Rightarrow> slave" where
  "on_operation_enabled s =
    (let s1 = (on_command is_quickstop set_quick_stop \<circ> on_command is_switch_on set_switch_on
               \<circ> on_command is_shutdown set_ready_to_switch_on
               \<circ> on_command is_disable_voltage set_switch_on_disabled) s;
         s2 = s1\<lparr>sl_relative := bit (sl_control s1) 6, sl_halt := bit (sl_control s1) 8,
                 sl_new_set_point := bit (sl_control s1) 4\<rparr>
     in change_mode s2)"

definition on_quickstop_active :: "slave \<Rightarrow> slave" where
  "on_quickstop_active =
    on_command is_disable_voltage set_switch_on_disabled \<circ> on_command is_enable_operation set_operation_enabled"

definition set_new_status_word_and_state :: "slave \<Rightarrow> slave" where
  "set_new_status_word_and_state s =
    (case sl_state s of
       Not_Ready_To_Switch_On \<Rightarrow> set_switch_on_disabled s
     | Switch_On_Disabled \<Rightarrow> on_switch_on_disabled s
     | Ready_To_Switch_On \<Rightarrow> on_ready_to_switch_on s
     | Switched_On \<Rightarrow> on_switched_on s
     | Operation_Enable \<Rightarrow> on_operation_enabled s
     | Quick_Stop_Active \<Rightarrow> on_quickstop_active s
     | _ \<Rightarrow> s)"

text \<open>\<open>OnWrite(idx, subidx)\<close>, called after a value was written to the local dictionary. The
  assignments to the atomics of the slave convert to \<open>int8_t\<close> and \<open>uint16_t\<close>.\<close>

definition write_control_word :: "slave \<Rightarrow> slave" where
  "write_control_word s =
    publish_status (set_new_status_word_and_state
      (s\<lparr>sl_control := word_of_int (sl_od s (0x6040, 0))\<rparr>))"

definition write_operation_mode :: "slave \<Rightarrow> slave" where
  "write_operation_mode s =
    (let mode = cast_int I8 (sl_od s (0x6060, 0));
         s1 = (if 0 \<le> mode \<and> mode \<le> 10 then s\<lparr>sl_mode := mode\<rparr> else s)
     in s1\<lparr>sl_od := (sl_od s1)((0x6061, 0) := mode), sl_tpdo_events := sl_tpdo_events s1 + 1\<rparr>)"

definition OnWrite :: "u16 \<Rightarrow> u8 \<Rightarrow> slave \<Rightarrow> slave" where
  "OnWrite idx subidx s =
    (let s1 = (if idx = 0x6040 \<and> subidx = 0 then write_control_word s else s)
     in if idx = 0x6060 \<and> subidx = 0 then write_operation_mode s1 else s1)"

text \<open>A value arrives from the master: the stack stores it and calls \<open>OnWrite\<close>.\<close>

definition slave_write :: "u16 \<Rightarrow> u8 \<Rightarrow> int \<Rightarrow> slave \<Rightarrow> slave" where
  "slave_write idx subidx v s = OnWrite idx subidx (s\<lparr>sl_od := (sl_od s)((idx, subidx) := v)\<rparr>)"

subsection \<open>Status word and state\<close>

lemma bit_set_status [word_tests]:
  "bit (sl_status (set_status_bit b s)) k \<longleftrightarrow> bit (sl_status s) k \<or> k = b \<and> b < 16"
  by (auto simp: set_status_bit_def bit_or_iff bit_shl1)

lemma bit_clear_status [word_tests]:
  "bit (sl_status (clear_status_bit b s)) k \<longleftrightarrow> bit (sl_status s) k \<and> k \<noteq> b"
  using bit_imp_le_length[of "sl_status s" k]
  by (auto simp: clear_status_bit_def bit_and_iff bit_not_iff bit_shl1)

lemma status_bit_frame [simp]:
  "sl_state (set_status_bit b s) = sl_state s" "sl_state (clear_status_bit b s) = sl_state s"
  "sl_control (set_status_bit b s) = sl_control s" "sl_control (clear_status_bit b s) = sl_control s"
  "sl_od (set_status_bit b s) = sl_od s" "sl_od (clear_status_bit b s) = sl_od s"
  "sl_mode (set_status_bit b s) = sl_mode s" "sl_mode (clear_status_bit b s) = sl_mode s"
  by (simp_all add: set_status_bit_def clear_status_bit_def)

lemmas set_state_defs = set_switch_on_disabled_def set_ready_to_switch_on_def set_switch_on_def
  set_operation_enabled_def set_quick_stop_def

text \<open>The status word every setter leaves behind is read back as the state it sets.\<close>

lemma set_state_frame [simp]:
  "sl_state (set_switch_on_disabled s) = Switch_On_Disabled"
  "sl_state (set_ready_to_switch_on s) = Ready_To_Switch_On"
  "sl_state (set_switch_on s) = Switched_On"
  "sl_state (set_operation_enabled s) = Operation_Enable"
  "sl_state (set_quick_stop s) = Quick_Stop_Active"
  "sl_control (set_switch_on_disabled s) = sl_control s"
  "sl_control (set_ready_to_switch_on s) = sl_control s"
  "sl_control (set_switch_on s) = sl_control s"
  "sl_control (set_operation_enabled s) = sl_control s"
  "sl_control (set_quick_stop s) = sl_control s"
  by (simp_all add: set_state_defs)

lemma set_state_decode:
  "decode_state (sl_status (set_switch_on_disabled s)) = Switch_On_Disabled"
  "decode_state (sl_status (set_ready_to_switch_on s)) = Ready_To_Switch_On"
  "decode_state (sl_status (set_switch_on s)) = Switched_On"
  "decode_state (sl_status (set_operation_enabled s)) = Operation_Enable"
  "decode_state (sl_status (set_quick_stop s)) = Quick_Stop_Active"
  by (simp_all add: set_state_defs decode_state_bits Let_def bit_set_status bit_clear_status)

definition status_matches :: "slave \<Rightarrow> bool" where
  "status_matches s \<longleftrightarrow> decode_state (sl_status s) = sl_state s"

lemma status_matches_set [simp]:
  "status_matches (set_switch_on_disabled s)" "status_matches (set_ready_to_switch_on s)"
  "status_matches (set_switch_on s)" "status_matches (set_operation_enabled s)"
  "status_matches (set_quick_stop s)"
  by (simp_all add: status_matches_def set_state_decode)

lemma status_matches_command:
  "status_matches s \<Longrightarrow> (\<And>x. status_matches (f x)) \<Longrightarrow> status_matches (on_command c f s)"
  by (simp add: on_command_def)

text \<open>The reaction to the commands, on the state alone.\<close>

fun react :: "InternalState \<Rightarrow> u16 \<Rightarrow> InternalState" where
  "react Not_Ready_To_Switch_On w = Switch_On_Disabled"
| "react Switch_On_Disabled w =
    (if \<not> bit w 7 \<and> bit w 2 \<and> bit w 1 \<and> \<not> bit w 0 then Ready_To_Switch_On else Switch_On_Disabled)"
| "react Ready_To_Switch_On w =
    (if \<not> bit w 7 \<and> \<not> bit w 1 then Switch_On_Disabled
     else if \<not> bit w 7 \<and> \<not> bit w 3 \<and> bit w 2 \<and> bit w 1 \<and> bit w 0 then Switched_On
     else Ready_To_Switch_On)"
| "react Switched_On w =
    (if \<not> bit w 7 \<and> \<not> bit w 1 then Switch_On_Disabled
     else if \<not> bit w 7 \<and> bit w 2 \<and> bit w 1 \<and> \<not> bit w 0 then Ready_To_Switch_On
     else if \<not> bit w 7 \<and> bit w 3 \<and> bit w 2 \<and> bit w 1 \<and> bit w 0 then Operation_Enable
     else Switched_On)"
| "react Operation_Enable w =
    (if \<not> bit w 7 \<and> \<not> bit w 1 then Switch_On_Disabled
     else if \<not> bit w 7 \<and> bit w 2 \<and> bit w 1 \<and> \<not> bit w 0 then Ready_To_Switch_On
     else if \<not> bit w 7 \<and> \<not> bit w 3 \<and> bit w 2 \<and> bit w 1 \<and> bit w 0 then Switched_On
     else if \<not> bit w 7 \<and> \<not> bit w 2 \<and> bit w 1 then Quick_Stop_Active
     else Operation_Enable)"
| "react Quick_Stop_Active w =
    (if \<not> bit w 7 \<and> \<not> bit w 1 then Switch_On_Disabled
     else if \<not> bit w 7 \<and> bit w 3 \<and> bit w 2 \<and> bit w 1 \<and> bit w 0 then Operation_Enable
     else Quick_Stop_Active)"
| "react st w = st"

lemmas command_defs = is_shutdown_def is_disable_voltage_def is_switch_on_def
  is_enable_operation_def is_quickstop_def is_faul_reset_def cw_test_def

lemma change_mode_frame [simp]:
  "sl_state (change_mode s) = sl_state s" "sl_control (change_mode s) = sl_control s"
  by (simp_all add: change_mode_def Let_def publish_status_def)

lemma change_mode_matches: "status_matches s \<Longrightarrow> status_matches (change_mode s)"
proof -
  assume s: "status_matches s"
  let ?s1 = "clear_status_bit 10 (clear_status_bit 12 s)"
  have "decode_state (sl_status ?s1) = decode_state (sl_status s)"
    by (rule decode_state_cong) (auto simp: bit_clear_status)
  with s show ?thesis
    by (simp add: status_matches_def change_mode_def Let_def publish_status_def)
qed

lemma react_state:
  "sl_state (set_new_status_word_and_state s) = react (sl_state s) (sl_control s)"
  by (cases "sl_state s")
    (simp_all add: set_new_status_word_and_state_def on_switch_on_disabled_def
      on_ready_to_switch_on_def on_switched_on_def on_operation_enabled_def on_quickstop_active_def
      on_command_def command_defs Let_def)

lemma react_matches:
  assumes "status_matches s"
  shows "status_matches (set_new_status_word_and_state s)"
proof -
  have upd: "status_matches (t\<lparr>sl_relative := a, sl_halt := b, sl_new_set_point := c\<rparr>)
    = status_matches t" for t a b c
    by (simp add: status_matches_def)
  show ?thesis
    using assms
    by (cases "sl_state s")
      (simp_all add: set_new_status_word_and_state_def on_switch_on_disabled_def
        on_ready_to_switch_on_def on_switched_on_def on_operation_enabled_def Let_def
        on_quickstop_active_def status_matches_command change_mode_matches upd)
qed

text \<open>The slave publishes a status word that names its state, after every write.\<close>

definition slave_ok :: "slave \<Rightarrow> bool" where
  "slave_ok s \<longleftrightarrow> status_matches s \<and> decode_state (word_of_int (sl_od s (0x6041, 0))) = sl_state s"

lemma write_control_word_ok:
  assumes "status_matches s"
  shows "slave_ok (write_control_word s)"
proof -
  have "status_matches (s\<lparr>sl_control := w\<rparr>)" for w
    using assms by (simp add: status_matches_def)
  from react_matches[OF this] show ?thesis
    by (simp add: slave_ok_def write_control_word_def publish_status_def status_matches_def)
qed

lemma write_control_word_state:
  "sl_state (write_control_word s) = react (sl_state s) (word_of_int (sl_od s (0x6040, 0)))"
  by (simp add: write_control_word_def publish_status_def react_state)

lemma slave_write_control:
  assumes "slave_ok s"
  shows "slave_ok (slave_write 0x6040 0 v s)"
    "sl_state (slave_write 0x6040 0 v s) = react (sl_state s) (word_of_int v)"
proof -
  let ?s = "s\<lparr>sl_od := (sl_od s)((0x6040, 0) := v)\<rparr>"
  have "status_matches ?s"
    using assms by (simp add: slave_ok_def status_matches_def)
  then show "slave_ok (slave_write 0x6040 0 v s)"
    "sl_state (slave_write 0x6040 0 v s) = react (sl_state s) (word_of_int v)"
    by (simp_all add: slave_write_def OnWrite_def Let_def write_control_word_ok
        write_control_word_state)
qed

lemma slave_write_ok:
  assumes "slave_ok s" "(idx, sub) \<noteq> (0x6041, 0)"
  shows "slave_ok (slave_write idx sub v s)"
proof (cases "(idx, sub) = (0x6040, 0)")
  case True
  with slave_write_control(1)[OF assms(1)] show ?thesis by simp
next
  case False
  with assms show ?thesis
    by (auto simp: slave_write_def OnWrite_def write_operation_mode_def Let_def slave_ok_def
        status_matches_def)
qed

subsection \<open>Properties\<close>

text \<open>A history of writes the device receives. The status word is no object a master writes.\<close>

definition master_writes :: "(u16 \<times> u8 \<times> int) list \<Rightarrow> slave \<Rightarrow> slave" where
  "master_writes ws s = fold (\<lambda>(idx, sub, v) s. slave_write idx sub v s) ws s"

lemma master_writes_ok:
  "\<lbrakk>slave_ok s; \<forall>(idx, sub, v) \<in> set ws. (idx, sub) \<noteq> (0x6041, 0)\<rbrakk> \<Longrightarrow> slave_ok (master_writes ws s)"
proof (induction ws arbitrary: s)
  case Nil
  then show ?case by (simp add: master_writes_def)
next
  case (Cons w ws)
  obtain idx sub v where w: "w = (idx, sub, v)" by (cases w)
  with Cons.prems have "slave_ok (slave_write idx sub v s)"
    by (intro slave_write_ok) auto
  with Cons.IH[OF this] Cons.prems(2) w show ?case
    by (simp add: master_writes_def)
qed

text \<open>C8: The status word the mock device publishes and the decoder of the driver are inverse to
  each other: after every history of writes, \<open>State402::read\<close> of the published word yields the state
  the device is in.\<close>

theorem published_status_decodes:
  assumes "slave_ok s" "\<forall>(idx, sub, v) \<in> set ws. (idx, sub) \<noteq> (0x6041, 0)"
  shows "fst (state_read (word_of_int (sl_od (master_writes ws s) (0x6041, 0))) h)
    = sl_state (master_writes ws s)"
  using master_writes_ok[OF assms] by (simp add: slave_ok_def)

text \<open>A device just constructed over cleared memory.\<close>

definition fresh_device :: slave where
  "fresh_device = CIA402MockSlave_new
    \<lparr>sl_state = Unknown, sl_status = 0, sl_control = 0, sl_mode = 0, sl_old_mode = 0,
     sl_relative = False, sl_halt = False, sl_new_set_point = False, sl_threads = {},
     sl_od = \<lambda>x. 0, sl_tpdo_events = 0, sl_position = 0\<rparr>"

lemma fresh_device_ok: "slave_ok fresh_device" "sl_state fresh_device = Not_Ready_To_Switch_On"
  by (simp_all add: fresh_device_def CIA402MockSlave_new_def slave_ok_def status_matches_def
      decode_state_bits)

theorem published_status_decodes_witness:
  "fst (state_read (word_of_int (sl_od (master_writes [(0x6040, 0, 6), (0x6060, 0, 3), (0x6040, 0, 7)]
     fresh_device) (0x6041, 0))) State402_init)
    = sl_state (master_writes [(0x6040, 0, 6), (0x6060, 0, 3), (0x6040, 0, 7)] fresh_device)"
  by (rule published_status_decodes[OF fresh_device_ok(1)]) simp

end
