(* ===== verification/ClosedLoop.thy ===== *)
theory ClosedLoop
  imports Motor402 FakeSlave402
begin

text \<open>
  The driver's motor and the mock device joined: the state loop of \<open>Motor402\<close> runs against the
  state machine of \<open>CIA402MockSlave\<close> over a bus without loss and delay. The poll is what
  \<open>NodeCanopen402Driver\<close> does in every period for a channel, \<open>handleRead\<close> and then
  \<open>handleWrite\<close>. The result is liveness: enabling reaches Operation_Enable on both sides.
\<close>

subsection \<open>The joined system\<close>

definition direct_bus :: "slave bus" where
  "direct_bus =
    \<lparr>uget = \<lambda>t idx sub s. (cast_int t (sl_od s (idx, sub)), s),
     uset = \<lambda>t idx sub v s. (Inr (), slave_write idx sub v s),
     has_object = \<lambda>idx sub s. True\<rparr>"

definition poll :: "slave motor \<Rightarrow> slave motor" where
  "poll m = snd (handleWrite direct_bus (handleRead direct_bus m))"

text \<open>A script in which only polls and spurious wake-ups happen, with at least \<open>n\<close> polls before
  the deadline.\<close>

definition poll_count :: "slave motor wakeups \<Rightarrow> nat" where
  "poll_count ws = length (filter (\<lambda>w. fst w = no_timeout \<and> snd w = poll) ws)"

definition poll_script :: "slave motor wakeups \<Rightarrow> bool" where
  "poll_script ws \<longleftrightarrow> (\<forall>w \<in> set ws. fst w = no_timeout \<and> (snd w = poll \<or> snd w = id))"

text \<open>Motor and device agree so far: the motor has no mode selected and uses channel 0, and the
  device publishes its state.\<close>

definition coupled :: "slave motor \<Rightarrow> bool" where
  "coupled m \<longleftrightarrow> selected_mode m = None \<and> channel_offset m = 0 \<and> slave_ok (driver m)"

abbreviation motor_state :: "slave motor \<Rightarrow> InternalState" where
  "motor_state m \<equiv> state (state_handler m)"

abbreviation device_state :: "slave motor \<Rightarrow> InternalState" where
  "device_state m \<equiv> sl_state (driver m)"

subsection \<open>One poll\<close>

lemma word_of_cast_U16: "word_of_int (cast_int U16 v) = (word_of_int v :: u16)"
  by (simp add: cast_int_def word_of_int_eq_iff)

lemma handleRead_coupled:
  assumes "coupled m"
  shows "motor_state (handleRead direct_bus m) = device_state m"
    "driver (handleRead direct_bus m) = driver m"
    "control_word (handleRead direct_bus m) = control_word m"
    "selected_mode (handleRead direct_bus m) = None"
    "channel_offset (handleRead direct_bus m) = 0"
    "target_state (handleRead direct_bus m) = target_state m"
    "start_fault_reset (handleRead direct_bus m) = start_fault_reset m"
  using assms
  by (auto simp: handleRead_def readState_def motor_get_def direct_bus_def coupled_def Let_def
      get_channel_index_def status_word_entry_index_def op_mode_display_index_def selected_obj_def
      word_of_cast_U16 slave_ok_def)

text \<open>The word that \<open>handleWrite\<close> sends when no mode is selected.\<close>

definition sent_word :: "'w motor \<Rightarrow> u16" where
  "sent_word m =
    (let cw = control_word m OR cwm CW_Halt;
         cw' = (if state (state_handler m) = Operation_Enable then wa_assign OpModeMask 0 cw else cw)
     in if start_fault_reset m then cw' AND NOT (cwm CW_Fault_Reset) else cw')"

lemma handleWrite_unselected:
  assumes "selected_mode m = None" "channel_offset m = 0"
  shows "handleWrite direct_bus m = (Inr (),
    m\<lparr>control_word := (if state (state_handler m) = Operation_Enable
        then wa_assign OpModeMask 0 (control_word m OR cwm CW_Halt) else control_word m OR cwm CW_Halt),
      start_fault_reset := False,
      driver := slave_write 0x6040 0 (uint (sent_word m)) (driver m)\<rparr>)"
  using assms
  by (auto simp: handleWrite_def prepare_control_word_def Let_def write_mode_def selected_obj_def
      getState_def motor_set_def direct_bus_def get_channel_index_def control_word_entry_index_def
      cast_U16_uint sent_word_def)

lemma sent_word_bits:
  assumes "k \<in> {0, 1, 2, 3}"
  shows "bit (sent_word m) k = bit (control_word m) k"
  using assms
  by (auto simp: sent_word_def Let_def bit_and_iff bit_or_iff bit_not_iff bit_shl1 bit_wa_assign
      bit_OpModeMask mode_bits_def)

lemma sent_word_reset_bit: "\<not> bit (control_word m) 7 \<Longrightarrow> \<not> bit (sent_word m) 7"
  by (auto simp: sent_word_def Let_def bit_and_iff bit_or_iff bit_not_iff bit_shl1 bit_wa_assign
      bit_OpModeMask mode_bits_def)

lemma poll_coupled:
  assumes "coupled m"
  shows "coupled (poll m)" "motor_state (poll m) = device_state m"
    "device_state (poll m) = react (device_state m) (sent_word (handleRead direct_bus m))"
    "target_state (poll m) = target_state m"
    "k \<in> transition_bits \<Longrightarrow> bit (control_word (poll m)) k = bit (control_word m) k"
  using assms slave_write_control[of "driver m"]
  by (auto simp: poll_def handleWrite_unselected handleRead_coupled coupled_def bit_or_iff bit_shl1
      bit_wa_assign bit_OpModeMask mode_bits_def transition_bits_def)

subsection \<open>One hop\<close>

text \<open>A word carries the command of another one.\<close>

definition carries :: "u16 \<Rightarrow> u16 \<Rightarrow> bool" where
  "carries c w \<longleftrightarrow> (\<forall>k \<in> {0, 1, 2, 3}. bit w k = bit c k) \<and> (\<not> bit c 7 \<longrightarrow> \<not> bit w 7)"

lemma carries_sent: "carries (control_word m) (sent_word m)"
  using sent_word_bits[of _ m] sent_word_reset_bit[of m] by (auto simp: carries_def)

lemma carries_cong:
  "(\<And>k. k \<in> transition_bits \<Longrightarrow> bit c k = bit d k) \<Longrightarrow> carries c w = carries d w"
  by (auto simp: carries_def transition_bits_def)

lemma poll_sends:
  assumes "coupled m" "\<And>k. k \<in> transition_bits \<Longrightarrow> bit (control_word m) k = bit c k"
  shows "carries c (sent_word (handleRead direct_bus m))"
proof -
  have "carries (control_word m) (sent_word (handleRead direct_bus m))"
    using carries_sent[of "handleRead direct_bus m"] handleRead_coupled(3)[OF assms(1)] by simp
  then show ?thesis
    using carries_cong[of "control_word m" c] assms(2) by blast
qed

lemma poll_script_Cons:
  "poll_script ((st, f) # ws) \<longleftrightarrow> st = no_timeout \<and> (f = poll \<or> f = id) \<and> poll_script ws"
  by (auto simp: poll_script_def)

lemma poll_count_Cons:
  "poll_count ((st, f) # ws) = (if st = no_timeout \<and> f = poll then Suc (poll_count ws) else poll_count ws)"
  by (simp add: poll_count_def)

text \<open>The wait of a hop: after two polls at most the motor has read the state the device went to.\<close>

lemma hop_wait:
  assumes hop: "st \<noteq> st'" "\<And>w. carries c w \<Longrightarrow> react st w = st' \<and> react st' w \<in> S"
    and m: "coupled m" "motor_state m = st" "device_state m \<in> {st, st'}"
      "\<And>k. k \<in> transition_bits \<Longrightarrow> bit (control_word m) k = bit c k"
    and ws: "poll_script ws" "(if device_state m = st then 2 else 1) \<le> poll_count ws"
  shows "\<exists>m' ws'. waitForNewState state_handler ws m st = (True, st', m', ws') \<and> coupled m' \<and>
    motor_state m' = st' \<and> device_state m' \<in> S \<and> target_state m' = target_state m \<and>
    poll_script ws' \<and> poll_count ws \<le> poll_count ws' + (if device_state m = st then 2 else 1)"
  using m ws
proof (induction ws arbitrary: m)
  case Nil
  then show ?case
    by (simp add: poll_count_def split: if_splits)
next
  case (Cons w ws)
  obtain stat f where w: "w = (stat, f)" by fastforce
  have stat: "stat = no_timeout" and f: "f = poll \<or> f = id" and script: "poll_script ws"
    using Cons.prems(5) w by (simp_all add: poll_script_Cons)
  have unfold: "waitForNewState state_handler (w # ws) m st = waitForNewState state_handler ws (f m) st"
    using waitForNewState_wakeup[of state_handler m st f ws] Cons.prems(2) w stat by simp
  show ?case
  proof (cases "f = poll")
    case False
    with f have f_id: "f = id" by simp
    have "poll_count ws = poll_count (w # ws)"
      using False w by (simp add: poll_count_Cons)
    then show ?thesis
      using Cons.IH[OF Cons.prems(1-4) script] Cons.prems(6) unfold f_id by simp
  next
    case True
    note P = poll_coupled[OF Cons.prems(1)]
    have count: "poll_count (w # ws) = Suc (poll_count ws)"
      using w stat True by (simp add: poll_count_Cons)
    have sent: "carries c (sent_word (handleRead direct_bus m))"
      by (rule poll_sends[OF Cons.prems(1,4)])
    show ?thesis
    proof (cases "device_state m = st")
      case same: True
      have "device_state (poll m) = st'"
        using hop(2)[OF sent] P(3) same by simp
      then show ?thesis
        using Cons.IH[of "poll m"] P Cons.prems(4,6) script unfold True count same hop(1) by auto
    next
      case False
      have "motor_state (poll m) = st'"
        using P(2) False Cons.prems(3) by simp
      moreover have "waitForNewState state_handler ws (poll m) st
          = (True, motor_state (poll m), poll m, ws)"
        by (rule waitForNewState_immediate) (use hop(1) calculation in simp)
      moreover have "device_state (poll m) \<in> S"
        using hop(2)[OF sent] P(3) False Cons.prems(3) by simp
      ultimately show ?thesis
        using unfold True P(1,4) script count by simp
    qed
  qed
qed

subsection \<open>The way to Operation_Enable\<close>

text \<open>From motor state \<open>st\<close> and a device state in \<open>D\<close>, \<open>n\<close> polls are enough.\<close>

definition enables_from :: "InternalState \<Rightarrow> InternalState set \<Rightarrow> nat \<Rightarrow> bool" where
  "enables_from st D n \<longleftrightarrow> (\<forall>m ws. coupled m \<and> motor_state m = st \<and> device_state m \<in> D \<and>
     target_state m = Operation_Enable \<and> poll_script ws \<and> n \<le> poll_count ws \<longrightarrow>
     (\<exists>m' ws'. switch_loop st m ws = (Some Operation_Enable, m', ws') \<and>
        motor_state m' = Operation_Enable \<and> device_state m' = Operation_Enable))"

lemma enables_done: "enables_from Operation_Enable {Operation_Enable} 0"
  by (auto simp: enables_from_def switch_loop_done)

lemma request_hop_enabling:
  assumes "st \<noteq> Operation_Enable" "nextStateForEnabling st = Inr hop" "transitions (st, hop) = Some op"
    and "target_state m = Operation_Enable"
  shows "\<exists>m1. request_hop st m = (True, hop, m1) \<and> control_word m1 = op_apply op (control_word m)"
  using setTransition_enabling[OF assms(1-3), of "control_word m" Unknown] assms(4)
  by (simp add: request_hop_def Let_def)

lemma enables_hop:
  assumes st: "st \<noteq> Operation_Enable" "nextStateForEnabling st = Inr hop"
      "transitions (st, hop) = Some op" "st \<noteq> hop"
    and D: "D \<subseteq> {st, hop}"
    and react: "\<And>c w. carries (op_apply op c) w \<Longrightarrow> react st w = hop \<and> react hop w \<in> S"
    and rest: "enables_from hop S n" and n': "n' = n + 2"
  shows "enables_from st D n'"
  unfolding enables_from_def n'
proof (intro allI impI)
  fix m :: "slave motor" and ws
  assume a: "coupled m \<and> motor_state m = st \<and> device_state m \<in> D \<and>
     target_state m = Operation_Enable \<and> poll_script ws \<and> n + 2 \<le> poll_count ws"
  obtain m1 where m1: "request_hop st m = (True, hop, m1)"
      "control_word m1 = op_apply op (control_word m)"
    using request_hop_enabling[OF st(1-3)] a by blast
  note frame = request_hop_simps[OF m1(1)]
  have c1: "coupled m1"
    using a frame by (simp add: coupled_def)
  have "\<exists>m' ws'. waitForNewState state_handler ws m1 st = (True, hop, m', ws') \<and> coupled m' \<and>
    motor_state m' = hop \<and> device_state m' \<in> S \<and> target_state m' = target_state m1 \<and>
    poll_script ws' \<and> poll_count ws \<le> poll_count ws' + (if device_state m1 = st then 2 else 1)"
    by (rule hop_wait[where c = "control_word m1"])
      (use st(4) react[of "control_word m"] c1 a frame m1(2) D in auto)
  then obtain m2 ws2 where w: "waitForNewState state_handler ws m1 st = (True, hop, m2, ws2)"
      "coupled m2" "motor_state m2 = hop" "device_state m2 \<in> S" "target_state m2 = Operation_Enable"
      "poll_script ws2" "n \<le> poll_count ws2"
    using a frame(1) by (auto split: if_splits)
  have "switch_loop st m ws = switch_loop hop m2 ws2"
    by (rule switch_loop_round[OF _ m1(1) w(1)]) (use a st(1) in simp)
  then show "\<exists>m' ws'. switch_loop st m ws = (Some Operation_Enable, m', ws') \<and>
        motor_state m' = Operation_Enable \<and> device_state m' = Operation_Enable"
    using rest w unfolding enables_from_def by auto
qed

lemma carries_op:
  "carries (op_apply op c) w \<Longrightarrow> k \<in> {0, 1, 2, 3} \<Longrightarrow>
   bit w k \<longleftrightarrow> bit (to_set op) k \<or> bit c k \<and> \<not> bit (to_reset op) k"
  using bit_op_apply[of op c k] by (auto simp: carries_def)

lemma carries_op_reset:
  "carries (op_apply op c) w \<Longrightarrow> bit (to_reset op) 7 \<Longrightarrow> \<not> bit (to_set op) 7 \<Longrightarrow> \<not> bit w 7"
  by (simp add: carries_def bit_op_apply)

lemma enables_switched_on: "enables_from Switched_On {Switched_On} 2"
  by (rule enables_hop[OF _ _ transitions_rows(13) _ _ _ enables_done])
    (simp_all add: carries_op carries_op_reset op_bits)

lemma enables_quick_stop: "enables_from Quick_Stop_Active {Quick_Stop_Active} 2"
  by (rule enables_hop[OF _ _ transitions_rows(14) _ _ _ enables_done])
    (simp_all add: carries_op carries_op_reset op_bits)

lemma enables_ready: "enables_from Ready_To_Switch_On {Ready_To_Switch_On} 4"
  by (rule enables_hop[OF _ _ transitions_rows(11) _ _ _ enables_switched_on])
    (simp_all add: carries_op carries_op_reset op_bits)

lemma enables_disabled:
  "enables_from Switch_On_Disabled {Switch_On_Disabled, Ready_To_Switch_On} 6"
  by (rule enables_hop[OF _ _ transitions_rows(8) _ _ _ enables_ready])
    (simp_all add: carries_op carries_op_reset op_bits)

lemma enables_not_ready: "enables_from Not_Ready_To_Switch_On {Not_Ready_To_Switch_On} 8"
  by (rule enables_hop[OF _ _ transitions_rows(6) _ _ _ enables_disabled]) simp_all

text \<open>The states the mock device can be in.\<close>

definition device_states :: "InternalState set" where
  "device_states = {Not_Ready_To_Switch_On, Switch_On_Disabled, Ready_To_Switch_On, Switched_On,
                    Operation_Enable, Quick_Stop_Active}"

lemma enables_from_mono: "enables_from st D n \<Longrightarrow> D' \<subseteq> D \<Longrightarrow> n \<le> n' \<Longrightarrow> enables_from st D' n'"
  unfolding enables_from_def by (intro allI impI, elim conjE) (blast dest: order_trans)

lemma enables_all:
  assumes "st \<in> device_states"
  shows "enables_from st {st} 8"
  using assms enables_done enables_switched_on enables_quick_stop enables_ready enables_disabled
    enables_not_ready
  unfolding device_states_def by (auto elim!: enables_from_mono)

lemma switchState_enables:
  assumes "coupled m" "device_state m \<in> device_states" "motor_state m = device_state m"
    "poll_script ws" "8 \<le> poll_count ws"
  shows "\<exists>m' ws'. switchState Operation_Enable (m, ws) = (True, m', ws') \<and>
    motor_state m' = Operation_Enable \<and> device_state m' = Operation_Enable"
proof -
  let ?m = "m\<lparr>target_state := Operation_Enable\<rparr>"
  have "coupled ?m"
    using assms(1) by (simp add: coupled_def)
  then obtain m' ws' where "switch_loop (device_state m) ?m ws = (Some Operation_Enable, m', ws')"
      "motor_state m' = Operation_Enable" "device_state m' = Operation_Enable"
    using enables_all[OF assms(2)] assms unfolding enables_from_def by fastforce
  then show ?thesis
    using assms(3) by (simp add: switchState_def getState_def)
qed

text \<open>The states of the mock device stay in that set.\<close>

lemma react_device_states: "st \<in> device_states \<Longrightarrow> react st w \<in> device_states"
  by (cases st) (simp_all add: device_states_def)

subsection \<open>Enabling a drive\<close>

lemma handleEnable_reaches_operation:
  assumes "coupled m" "device_state m \<in> device_states" "poll_script ws" "8 \<le> poll_count ws"
  shows "\<exists>m' ws'. handleEnable direct_bus (m, ws) = (True, m', ws') \<and>
    motor_state m' = Operation_Enable \<and> device_state m' = Operation_Enable"
proof -
  let ?m = "handleRead direct_bus m"
  note R = handleRead_coupled[OF assms(1)]
  have "coupled ?m"
    using assms(1) R by (simp add: coupled_def)
  then obtain m' ws' where "switchState Operation_Enable (?m, ws) = (True, m', ws')"
      "motor_state m' = Operation_Enable" "device_state m' = Operation_Enable"
    using switchState_enables[of ?m ws] assms R by auto
  moreover have "readState direct_bus m = (True, ?m)"
    by (simp add: handleRead_def readState_def Let_def split: prod.splits)
  ultimately show ?thesis
    by (simp add: handleEnable_def)
qed

subsection \<open>Property\<close>

text \<open>C1: Enabling a drive succeeds: from every state of the mock device, with any control word
  left over and spurious wake-ups in between, eight polls before the deadline bring both the device
  and the motor's view of it to Operation_Enable, and \<open>handleEnable\<close> returns true.\<close>

theorem enable_reaches_operation:
  assumes "coupled m" "device_state m \<in> device_states" "poll_script ws" "8 \<le> poll_count ws"
  shows "\<exists>m' ws'. handleEnable direct_bus (m, ws) = (True, m', ws') \<and>
    motor_state m' = Operation_Enable \<and> device_state m' = Operation_Enable"
  by (rule handleEnable_reaches_operation[OF assms])

theorem enable_reaches_operation_witness:
  "\<exists>m' ws'. handleEnable direct_bus
      ((fresh_motor fresh_device)\<lparr>control_word := 0x8006\<rparr>, replicate 8 (no_timeout, poll))
      = (True, m', ws') \<and>
    motor_state m' = Operation_Enable \<and> device_state m' = Operation_Enable"
proof (rule enable_reaches_operation)
  show "coupled ((fresh_motor fresh_device)\<lparr>control_word := 0x8006\<rparr>)"
    by (simp add: coupled_def fresh_device_ok)
  show "device_state ((fresh_motor fresh_device)\<lparr>control_word := 0x8006\<rparr>) \<in> device_states"
    by (simp add: fresh_device_ok device_states_def)
qed (simp_all add: poll_script_def poll_count_def)

end
