(* ===== verification/Exchange.thy ===== *)
theory Exchange
  imports Prelude
begin

text \<open>
  Data exchange between the CANopen event loop and the ROS side (\<open>canopen_core\<close>, \<open>exchange.hpp\<close>):
  the messages \<open>COData\<close> and \<open>COEmcy\<close> and the \<open>SafeQueue\<close>, a wrapper around
  \<open>boost::lockfree::queue\<close>. That queue is not part of the sources: it is a record of its
  operations, and what the code relies on, first in first out, is the locale \<open>fifo\<close>.
\<close>

subsection \<open>Messages\<close>

record COData =
  index_of :: u16
  subindex_of :: u8
  data_of :: u32

record COEmcy =
  eec :: u16
  er :: u8
  msef :: "u8 list"

subsection \<open>The queue underneath\<close>

record ('q, 'a) lockfree =
  lf_push :: "'a \<Rightarrow> 'q \<Rightarrow> 'q"
  lf_pop :: "'q \<Rightarrow> ('a \<times> 'q) option"
  lf_empty :: "'q \<Rightarrow> bool"

text \<open>What \<open>boost::lockfree::queue\<close> promises, over the sequence of its elements.\<close>

locale fifo =
  fixes q :: "('q, 'a) lockfree" and items :: "'q \<Rightarrow> 'a list"
  assumes items_push: "items (lf_push q x s) = items s @ [x]"
    and pop_Nil: "items s = [] \<Longrightarrow> lf_pop q s = None"
    and pop_Cons: "items s = x # xs \<Longrightarrow> \<exists>s'. lf_pop q s = Some (x, s') \<and> items s' = xs"
    and empty_iff: "lf_empty q s \<longleftrightarrow> items s = []"

subsection \<open>SafeQueue\<close>

text \<open>Both overloads of \<open>try_pop\<close> and of the waiting operations give the same answer: an optional
  value. A wait polls the queue. Its script lists, for every failed attempt, the time that has
  passed since the start and what other threads do to the queue before the next attempt; a
  script that runs out leaves the caller waiting (\<open>None\<close>).\<close>

definition queue_push :: "('q, 'a) lockfree \<Rightarrow> 'a \<Rightarrow> 'q \<Rightarrow> 'q" where
  "queue_push q v s = lf_push q v s"

definition try_pop :: "('q, 'a) lockfree \<Rightarrow> 'q \<Rightarrow> 'a option \<times> 'q" where
  "try_pop q s = (case lf_pop q s of None \<Rightarrow> (None, s) | Some (x, s') \<Rightarrow> (Some x, s'))"

definition queue_empty :: "('q, 'a) lockfree \<Rightarrow> 'q \<Rightarrow> bool" where
  "queue_empty q s = lf_empty q s"

fun wait_and_pop :: "('q, 'a) lockfree \<Rightarrow> ('q \<Rightarrow> 'q) list \<Rightarrow> 'q \<Rightarrow> ('a \<times> 'q) option" where
  "wait_and_pop q [] s = lf_pop q s"
| "wait_and_pop q (f # fs) s =
    (case lf_pop q s of Some r \<Rightarrow> Some r | None \<Rightarrow> wait_and_pop q fs (f s))"

fun wait_and_pop_for ::
  "('q, 'a) lockfree \<Rightarrow> nat \<Rightarrow> (nat \<times> ('q \<Rightarrow> 'q)) list \<Rightarrow> 'q \<Rightarrow> ('a option \<times> 'q) option" where
  "wait_and_pop_for q tmo [] s =
    (case lf_pop q s of Some (x, s') \<Rightarrow> Some (Some x, s') | None \<Rightarrow> None)"
| "wait_and_pop_for q tmo ((elapsed, f) # fs) s =
    (case lf_pop q s of
       Some (x, s') \<Rightarrow> Some (Some x, s')
     | None \<Rightarrow> if tmo \<noteq> 0 \<and> tmo \<le> elapsed then Some (None, s)
              else wait_and_pop_for q tmo fs (f s))"

text \<open>Popping at most \<open>n\<close> values, as the polling callbacks of the drivers do.\<close>

fun pop_upto :: "('q, 'a) lockfree \<Rightarrow> nat \<Rightarrow> 'q \<Rightarrow> 'a list \<times> 'q" where
  "pop_upto q 0 s = ([], s)"
| "pop_upto q (Suc n) s =
    (case try_pop q s of
       (None, s') \<Rightarrow> ([], s')
     | (Some x, s') \<Rightarrow> (let (xs, s'') = pop_upto q n s' in (x # xs, s'')))"

context fifo
begin

lemma try_pop_items:
  "try_pop q s = (v, s') \<Longrightarrow>
   (case items s of [] \<Rightarrow> v = None \<and> s' = s | x # xs \<Rightarrow> v = Some x \<and> items s' = xs)"
  using pop_Nil[of s] pop_Cons[of s]
  by (cases "items s") (auto simp: try_pop_def)

lemma items_pushes: "items (fold (queue_push q) xs s) = items s @ xs"
  by (induction xs arbitrary: s) (simp_all add: queue_push_def items_push)

lemma pop_upto_items:
  "fst (pop_upto q n s) = take n (items s) \<and> items (snd (pop_upto q n s)) = drop n (items s)"
proof (induction n arbitrary: s)
  case 0
  show ?case by simp
next
  case (Suc n)
  obtain v s' where pop: "try_pop q s = (v, s')" by fastforce
  show ?case
    using try_pop_items[OF pop] Suc[of s'] pop
    by (cases "items s") (auto split: prod.splits)
qed

lemma empty_items: "queue_empty q s \<longleftrightarrow> items s = []"
  by (simp add: queue_empty_def empty_iff)

text \<open>A wait gives up only after its timeout, which is not zero, and then with an empty queue.\<close>

lemma pop_None_items: "lf_pop q s = None \<Longrightarrow> items s = []"
  using pop_Cons[of s] by (cases "items s") auto

lemma wait_and_pop_for_None:
  assumes "wait_and_pop_for q tmo fs s = Some (None, s')"
  shows "tmo \<noteq> 0 \<and> (\<exists>w \<in> set fs. tmo \<le> fst w) \<and> items s' = []"
  using assms
proof (induction fs arbitrary: s)
  case Nil
  then show ?case by (auto split: option.splits)
next
  case (Cons w fs)
  obtain elapsed f where w: "w = (elapsed, f)" by fastforce
  with Cons show ?case
    by (auto split: option.splits if_splits dest: pop_None_items)
qed

end

subsection \<open>A list as the queue\<close>

definition list_queue :: "('a list, 'a) lockfree" where
  "list_queue =
    \<lparr>lf_push = \<lambda>x s. s @ [x],
     lf_pop = \<lambda>s. (case s of [] \<Rightarrow> None | x # xs \<Rightarrow> Some (x, xs)),
     lf_empty = \<lambda>s. s = []\<rparr>"

interpretation lq: fifo "list_queue :: ('a list, 'a) lockfree" "\<lambda>s. s"
  by unfold_locales (auto simp: list_queue_def)

text \<open>The queue between the event loop and the polling callback loses, duplicates and reorders
  nothing: after any pushes, a callback that pops at most \<open>n\<close> values gets the first \<open>n\<close> of what was
  in the queue followed by what was pushed, and leaves the rest.\<close>

theorem safe_queue_order:
  "fst (pop_upto list_queue n (fold (queue_push list_queue) xs s)) = take n (s @ xs) \<and>
   snd (pop_upto list_queue n (fold (queue_push list_queue) xs s)) = drop n (s @ xs)"
  using lq.pop_upto_items[of n "fold (queue_push list_queue) xs s"] lq.items_pushes[of xs s] by simp

end
