(* ===== verification/Bridge.thy ===== *)
theory Bridge
  imports Exchange Modes402
begin

text \<open>
  The driver bridge (\<open>canopen_base_driver\<close>, \<open>lely_driver_bridge.hpp\<close> and \<open>lely_driver_bridge.cpp\<close>):
  the PDO map built from the object dictionary, the serialised SDO requests, the routing of reads
  and writes to PDO or SDO, the callbacks of the event loop and the wait for the boot.

  Lely core is not part of the sources. Its dictionary \<open>CODev\<close> and its network functions are
  records of functions; what the code relies on is stated in the locales \<open>dictionary_laws\<close> and
  \<open>bridge_env\<close>.
\<close>

subsection \<open>Object types and raw data\<close>

datatype co_type = CO_INT int_type | CO_BOOLEAN | CO_REAL32 | CO_OTHER nat

text \<open>\<open>sizeof(T)\<close> in bits, and the copies between a value and the 32 bits of a \<open>COData\<close>. A float
  is kept as its bit pattern.\<close>

fun co_bits :: "co_type \<Rightarrow> nat" where
  "co_bits (CO_INT t) = type_bits t"
| "co_bits CO_BOOLEAN = 8"
| "co_bits CO_REAL32 = 32"
| "co_bits (CO_OTHER n) = 0"

fun supported_type :: "co_type \<Rightarrow> bool" where
  "supported_type (CO_OTHER n) = False"
| "supported_type t = True"

definition data_to_value :: "co_type \<Rightarrow> u32 \<Rightarrow> int" where
  "data_to_value ty data =
    (case ty of CO_INT t \<Rightarrow> cast_int t (uint data) | _ \<Rightarrow> take_bit (co_bits ty) (uint data))"

definition value_to_data :: "co_type \<Rightarrow> int \<Rightarrow> u32" where
  "value_to_data ty v = word_of_int (take_bit (co_bits ty) v)"

subsection \<open>The object dictionary\<close>

record 'd dict_ops =
  dict_find :: "u16 \<Rightarrow> u8 \<Rightarrow> 'd \<Rightarrow> co_type option"
  dict_get :: "co_type \<Rightarrow> u16 \<Rightarrow> u8 \<Rightarrow> 'd \<Rightarrow> int"
  dict_set :: "co_type \<Rightarrow> u16 \<Rightarrow> u8 \<Rightarrow> int \<Rightarrow> 'd \<Rightarrow> 'd"

text \<open>A value is found where it was stored with the type of its object; other objects and the
  structure of the dictionary stay, and a value has the range of its type.\<close>

locale dictionary_laws =
  fixes dops :: "'d dict_ops"
  assumes find_set: "dict_find dops i' s' (dict_set dops ty i s v d) = dict_find dops i' s' d"
    and get_set: "dict_find dops i s d = Some ty \<Longrightarrow> dict_get dops ty i s (dict_set dops ty i s v d) = v"
    and get_other: "(i', s') \<noteq> (i, s) \<Longrightarrow>
      dict_get dops ty' i' s' (dict_set dops ty i s v d) = dict_get dops ty' i' s' d"

subsection \<open>The PDO map\<close>

record pdo_mapping =
  is_tpdo :: bool
  is_rpdo :: bool

type_synonym pdo_map = "u16 \<rightharpoonup> (u8 \<rightharpoonup> pdo_mapping)"

definition pdo_lookup :: "pdo_map \<Rightarrow> u16 \<Rightarrow> u8 \<Rightarrow> pdo_mapping option" where
  "pdo_lookup m i s = (case m i of None \<Rightarrow> None | Some object \<Rightarrow> object s)"

text \<open>\<open>(*map)[tmpi][tmps] = mapping\<close>\<close>

definition pdo_insert :: "u16 \<Rightarrow> u8 \<Rightarrow> pdo_mapping \<Rightarrow> pdo_map \<Rightarrow> pdo_map" where
  "pdo_insert i s e m = m(i \<mapsto> (case m i of None \<Rightarrow> Map.empty | Some object \<Rightarrow> object)(s \<mapsto> e))"

text \<open>The mapping parameters the two loops visit, and what one of them says.\<close>

definition mapping_params :: "u16 \<Rightarrow> (u16 \<times> u8) list" where
  "mapping_params base =
    concat (map (\<lambda>index. map (\<lambda>sub. (base + word_of_nat index, word_of_nat sub)) [1..<9]) [0..<256])"

definition mapping_index :: "u32 \<Rightarrow> u16" where
  "mapping_index data = ucast (drop_bit 16 data AND 0xFFFF)"

definition mapping_subindex :: "u32 \<Rightarrow> u8" where
  "mapping_subindex data = ucast (drop_bit 8 data AND 0xFF)"

definition mapping_data :: "'d dict_ops \<Rightarrow> 'd \<Rightarrow> u16 \<Rightarrow> u8 \<Rightarrow> u32" where
  "mapping_data dops d i s = word_of_int (dict_get dops (CO_INT U32) i s d)"

definition fetch_entry :: "'d dict_ops \<Rightarrow> 'd \<Rightarrow> pdo_mapping \<Rightarrow> u16 \<times> u8 \<Rightarrow> pdo_map \<Rightarrow> pdo_map" where
  "fetch_entry dops d mapping param m =
    (case param of (i, s) \<Rightarrow>
      (case dict_find dops i s d of
         None \<Rightarrow> m
       | Some ty \<Rightarrow>
           (let data = mapping_data dops d i s;
                tmps = mapping_subindex data;
                tmpi = mapping_index data
            in if tmpi = 0 then m else pdo_insert tmpi tmps mapping m)))"

definition fetchRPDO :: "'d dict_ops \<Rightarrow> 'd \<Rightarrow> pdo_map \<Rightarrow> pdo_map" where
  "fetchRPDO dops d m =
    fold (fetch_entry dops d \<lparr>is_tpdo = False, is_rpdo = True\<rparr>) (mapping_params 0x1600) m"

definition fetchTPDO :: "'d dict_ops \<Rightarrow> 'd \<Rightarrow> pdo_map \<Rightarrow> pdo_map" where
  "fetchTPDO dops d m =
    fold (fetch_entry dops d \<lparr>is_tpdo = True, is_rpdo = False\<rparr>) (mapping_params 0x1A00) m"

definition createPDOMapping :: "'d dict_ops \<Rightarrow> 'd \<Rightarrow> pdo_map" where
  "createPDOMapping dops d = fetchTPDO dops d (fetchRPDO dops d Map.empty)"

text \<open>\<open>checkObjInPDO\<close> stops at the first mapping parameter that does not exist.\<close>

fun check_params :: "'d dict_ops \<Rightarrow> 'd \<Rightarrow> u16 \<Rightarrow> u8 \<Rightarrow> (u16 \<times> u8) list \<Rightarrow> bool" where
  "check_params dops d idx subindex [] = False"
| "check_params dops d idx subindex ((i, s) # ps) =
    (case dict_find dops i s d of
       None \<Rightarrow> False
     | Some ty \<Rightarrow>
         (let data = mapping_data dops d i s in
          if mapping_subindex data = subindex \<and> mapping_index data = idx then True
          else check_params dops d idx subindex ps))"

definition checkObjInPDO :: "'d dict_ops \<Rightarrow> 'd \<Rightarrow> u8 \<Rightarrow> u16 \<Rightarrow> u16 \<Rightarrow> u8 \<Rightarrow> bool" where
  "checkObjInPDO dops d pdo mapping_idx idx subindex =
    check_params dops d idx subindex (map (\<lambda>i. (mapping_idx + ucast pdo, word_of_nat i)) [1..<9])"

definition checkObjRPDO :: "'d dict_ops \<Rightarrow> 'd \<Rightarrow> u16 \<Rightarrow> u8 \<Rightarrow> bool" where
  "checkObjRPDO dops d idx subidx =
    list_ex (\<lambda>i. checkObjInPDO dops d (word_of_nat i) 0x1600 idx subidx) [0..<256]"

definition checkObjTPDO :: "'d dict_ops \<Rightarrow> 'd \<Rightarrow> u16 \<Rightarrow> u8 \<Rightarrow> bool" where
  "checkObjTPDO dops d idx subidx =
    list_ex (\<lambda>i. checkObjInPDO dops d (word_of_nat i) 0x1A00 idx subidx) [0..<256]"

subsection \<open>The PDO map says which objects are mapped\<close>

text \<open>An object is mapped by a mapping parameter that exists and names it.\<close>

definition mapped_by :: "'d dict_ops \<Rightarrow> 'd \<Rightarrow> (u16 \<times> u8) list \<Rightarrow> u16 \<Rightarrow> u8 \<Rightarrow> bool" where
  "mapped_by dops d params idx sub \<longleftrightarrow> idx \<noteq> 0 \<and>
    (\<exists>(i, s) \<in> set params. dict_find dops i s d \<noteq> None \<and>
       mapping_index (mapping_data dops d i s) = idx \<and>
       mapping_subindex (mapping_data dops d i s) = sub)"

lemma pdo_lookup_insert:
  "pdo_lookup (pdo_insert i s e m) i' s' = (if i' = i \<and> s' = s then Some e else pdo_lookup m i' s')"
  by (auto simp: pdo_lookup_def pdo_insert_def split: option.splits)

lemma pdo_lookup_fetch_entry:
  "pdo_lookup (fetch_entry dops d e p m) idx sub =
    (if mapped_by dops d [p] idx sub then Some e else pdo_lookup m idx sub)"
  by (cases p) (auto simp: fetch_entry_def mapped_by_def Let_def pdo_lookup_insert split: option.splits)

lemma mapped_by_Cons:
  "mapped_by dops d (p # ps) idx sub \<longleftrightarrow> mapped_by dops d [p] idx sub \<or> mapped_by dops d ps idx sub"
  by (auto simp: mapped_by_def)

lemma pdo_lookup_fetch:
  "pdo_lookup (fold (fetch_entry dops d e) ps m) idx sub =
    (if mapped_by dops d ps idx sub then Some e else pdo_lookup m idx sub)"
proof (induction ps arbitrary: m)
  case Nil
  show ?case by (simp add: mapped_by_def)
next
  case (Cons p ps)
  show ?case
    using mapped_by_Cons[of dops d p ps idx sub] by (simp add: Cons pdo_lookup_fetch_entry)
qed

lemma createPDOMapping_lookup:
  "pdo_lookup (createPDOMapping dops d) idx sub =
    (if mapped_by dops d (mapping_params 0x1A00) idx sub then Some \<lparr>is_tpdo = True, is_rpdo = False\<rparr>
     else if mapped_by dops d (mapping_params 0x1600) idx sub then Some \<lparr>is_tpdo = False, is_rpdo = True\<rparr>
     else None)"
  by (simp add: createPDOMapping_def fetchTPDO_def fetchRPDO_def pdo_lookup_fetch)
    (simp add: pdo_lookup_def)

subsection \<open>State of the bridge\<close>

datatype 'a promise = Unfulfilled | Fulfilled 'a | Broken exn

text \<open>An SDO request handed to the event loop. Its callback will run once. The untyped requests
  fulfil the promises that are members of the bridge, the typed ones a promise of their own.\<close>

datatype sdo_request = Sdo_write co_type u16 u8 int | Sdo_read co_type u16 u8

record pending_sdo =
  request :: sdo_request
  untyped :: bool

text \<open>The NMT states of lely.\<close>

datatype NmtState = BOOTUP | STOP | START | RESET_NODE | RESET_COMM | PREOP | TOGGLE

record ('d, 'n) bridge =
  dictionary :: 'd
  pdo_map_of :: pdo_map
  sdo_read_promise :: "COData promise option"
  sdo_write_promise :: "bool promise option"
  running :: bool
  pending :: "pending_sdo option"
  nmt_state_is_set :: bool
  nmt_state_promise :: "NmtState promise"
  booted :: bool
  boot_status :: nat
  boot_what :: string
  boot_state :: NmtState
  rpdo_queue :: "COData list"
  emcy_queue :: "COEmcy list"
  nodeid :: u8
  sync_function :: "('n \<Rightarrow> (exn + unit) \<times> 'n) option"
  net :: 'n

text \<open>The network side of lely: submitting a request, the arguments of the callback if it runs
  before the caller stops waiting, those of a callback that runs later, PDO access and commands.\<close>

record 'n network =
  n_submit :: "sdo_request \<Rightarrow> 'n \<Rightarrow> (exn + unit) \<times> 'n"
  n_reply :: "'n \<Rightarrow> (int \<times> int) option \<times> 'n"
  n_late :: "'n \<Rightarrow> (int \<times> int) \<times> 'n"
  n_tpdo_write :: "co_type \<Rightarrow> u16 \<Rightarrow> u8 \<Rightarrow> int \<Rightarrow> 'n \<Rightarrow> (exn + unit) \<times> 'n"
  n_tpdo_event :: "u16 \<Rightarrow> u8 \<Rightarrow> 'n \<Rightarrow> (exn + unit) \<times> 'n"
  n_rpdo_read :: "co_type \<Rightarrow> u16 \<Rightarrow> u8 \<Rightarrow> 'n \<Rightarrow> int"
  n_boot :: "'n \<Rightarrow> 'n"
  n_command :: "nat \<Rightarrow> u8 \<Rightarrow> 'n \<Rightarrow> 'n"

definition bridge_has_object :: "'d dict_ops \<Rightarrow> u16 \<Rightarrow> u8 \<Rightarrow> ('d, 'n) bridge \<Rightarrow> bool" where
  "bridge_has_object dops idx subidx b \<longleftrightarrow> dict_find dops idx subidx (dictionary b) \<noteq> None"

text \<open>The constructor, after the dictionary was read from the EDS and the binary DCF.\<close>

definition bridge_new :: "'d dict_ops \<Rightarrow> 'd \<Rightarrow> u8 \<Rightarrow> ('d, 'n) bridge \<Rightarrow> ('d, 'n) bridge" where
  "bridge_new dops d i b0 =
    b0\<lparr>dictionary := d, pdo_map_of := createPDOMapping dops d, running := False, pending := None,
       sdo_read_promise := None, sdo_write_promise := None, rpdo_queue := [], emcy_queue := [],
       nodeid := i, sync_function := None\<rparr>"

subsection \<open>SDO requests\<close>

text \<open>The callback lambdas: the dictionary takes the value of a successful request, the promise is
  fulfilled, \<open>running\<close> is cleared and a waiting caller notified.\<close>

definition callback_result :: "sdo_request \<Rightarrow> int \<Rightarrow> int \<Rightarrow> exn + int" where
  "callback_result r ec v =
    (if ec \<noteq> 0 then Inl (Sdo_error ec)
     else Inr (case r of Sdo_write ty i s val \<Rightarrow> val | Sdo_read ty i s \<Rightarrow> v))"

fun request_object :: "sdo_request \<Rightarrow> co_type \<times> u16 \<times> u8" where
  "request_object (Sdo_write ty i s val) = (ty, i, s)"
| "request_object (Sdo_read ty i s) = (ty, i, s)"

definition sdo_callback ::
  "'d dict_ops \<Rightarrow> pending_sdo \<Rightarrow> int \<Rightarrow> int \<Rightarrow> ('d, 'n) bridge \<Rightarrow> ('d, 'n) bridge" where
  "sdo_callback dops p ec v b =
    (case request_object (request p) of (ty, i, s) \<Rightarrow>
      (let b1 = (case callback_result (request p) ec v of
                   Inl e \<Rightarrow> b
                 | Inr x \<Rightarrow> b\<lparr>dictionary := dict_set dops ty i s x (dictionary b)\<rparr>);
           b2 = (if \<not> untyped p then b1
                 else case request p of
                   Sdo_write ty' i' s' val \<Rightarrow>
                     b1\<lparr>sdo_write_promise := Some (if ec \<noteq> 0 then Broken (Sdo_error ec) else Fulfilled True)\<rparr>
                 | Sdo_read ty' i' s' \<Rightarrow>
                     b1\<lparr>sdo_read_promise := Some (if ec \<noteq> 0 then Broken (Sdo_error ec)
                       else Fulfilled \<lparr>index_of = i, subindex_of = s, data_of = value_to_data ty v\<rparr>)\<rparr>)
       in b2\<lparr>running := False, pending := None\<rparr>))"

text \<open>\<open>if (running) sdo_cond.wait(lck); running = true;\<close> The wait ends when the callback of the
  pending request notifies. When \<open>running\<close> is set and no request is pending nobody will notify:
  the caller blocks for ever (\<open>None\<close>).\<close>

definition acquire_sdo ::
  "'d dict_ops \<Rightarrow> 'n network \<Rightarrow> ('d, 'n) bridge \<Rightarrow> ('d, 'n) bridge option" where
  "acquire_sdo dops nops b =
    (if running b
     then (case pending b of
             None \<Rightarrow> None
           | Some p \<Rightarrow> (case n_late nops (net b) of ((ec, v), n) \<Rightarrow>
               Some ((sdo_callback dops p ec v (b\<lparr>net := n\<rparr>))\<lparr>running := True\<rparr>)))
     else Some (b\<lparr>running := True\<rparr>))"

definition submit_sdo ::
  "'n network \<Rightarrow> sdo_request \<Rightarrow> bool \<Rightarrow> ('d, 'n) bridge \<Rightarrow> (exn + unit) \<times> ('d, 'n) bridge" where
  "submit_sdo nops r untyped_promise b =
    (case n_submit nops r (net b) of
       (Inl e, n) \<Rightarrow> (Inl e, b\<lparr>net := n\<rparr>)
     | (Inr u, n) \<Rightarrow> (Inr (), b\<lparr>net := n, pending := Some \<lparr>request = r, untyped = untyped_promise\<rparr>\<rparr>))"

text \<open>A call that may block for ever, throw, or return a value.\<close>

type_synonym ('s, 'a) blocking = "((exn + 'a) \<times> 's) option"

definition bindB :: "('s, 'a) blocking \<Rightarrow> ('a \<Rightarrow> 's \<Rightarrow> ('s, 'b) blocking) \<Rightarrow> ('s, 'b) blocking" where
  "bindB p k = (case p of None \<Rightarrow> None | Some (Inl e, s) \<Rightarrow> Some (Inl e, s) | Some (Inr a, s) \<Rightarrow> k a s)"

definition async_sdo_write_typed ::
  "'d dict_ops \<Rightarrow> 'n network \<Rightarrow> co_type \<Rightarrow> u16 \<Rightarrow> u8 \<Rightarrow> int \<Rightarrow> ('d, 'n) bridge
   \<Rightarrow> (('d, 'n) bridge, bool promise) blocking" where
  "async_sdo_write_typed dops nops ty idx subidx v b =
    (case acquire_sdo dops nops b of
       None \<Rightarrow> None
     | Some b1 \<Rightarrow>
         if \<not> bridge_has_object dops idx subidx b1
         then Some (Inr (Fulfilled False), b1\<lparr>running := False\<rparr>)
         else (case submit_sdo nops (Sdo_write ty idx subidx v) False b1 of
                 (Inl e, b2) \<Rightarrow> Some (Inl e, b2)
               | (Inr u, b2) \<Rightarrow> Some (Inr Unfulfilled, b2)))"

definition async_sdo_read_typed ::
  "'d dict_ops \<Rightarrow> 'n network \<Rightarrow> co_type \<Rightarrow> u16 \<Rightarrow> u8 \<Rightarrow> ('d, 'n) bridge
   \<Rightarrow> (('d, 'n) bridge, int promise) blocking" where
  "async_sdo_read_typed dops nops ty idx subidx b =
    (case acquire_sdo dops nops b of
       None \<Rightarrow> None
     | Some b1 \<Rightarrow>
         if \<not> bridge_has_object dops idx subidx b1
         then Some (Inr (Broken (Sdo_error 0x06020000)), b1\<lparr>running := False\<rparr>)
         else (case submit_sdo nops (Sdo_read ty idx subidx) False b1 of
                 (Inl e, b2) \<Rightarrow> Some (Inl e, b2)
               | (Inr u, b2) \<Rightarrow> Some (Inr Unfulfilled, b2)))"

text \<open>\<open>fut.wait_for(timeout)\<close>: a promise that is not settled yet is settled by the callback of the
  pending request, if that runs in time.\<close>

definition wait_future ::
  "'d dict_ops \<Rightarrow> 'n network \<Rightarrow> (exn + 'a) option \<Rightarrow> (int \<Rightarrow> 'a) \<Rightarrow> ('d, 'n) bridge
   \<Rightarrow> (exn + 'a) option \<times> ('d, 'n) bridge" where
  "wait_future dops nops settled f b =
    (case settled of
       Some r \<Rightarrow> (Some r, b)
     | None \<Rightarrow>
         (case pending b of
            None \<Rightarrow> (None, b)
          | Some p \<Rightarrow>
              (case n_reply nops (net b) of
                 (None, n) \<Rightarrow> (None, b\<lparr>net := n\<rparr>)
               | (Some (ec, v), n) \<Rightarrow>
                   (Some (map_sum id f (callback_result (request p) ec v)),
                    sdo_callback dops p ec v (b\<lparr>net := n\<rparr>)))))"

fun settled_promise :: "'a promise \<Rightarrow> (exn + 'a) option" where
  "settled_promise Unfulfilled = None"
| "settled_promise (Fulfilled a) = Some (Inr a)"
| "settled_promise (Broken e) = Some (Inl e)"

definition sync_sdo_write_typed ::
  "'d dict_ops \<Rightarrow> 'n network \<Rightarrow> co_type \<Rightarrow> u16 \<Rightarrow> u8 \<Rightarrow> int \<Rightarrow> ('d, 'n) bridge
   \<Rightarrow> (('d, 'n) bridge, bool) blocking" where
  "sync_sdo_write_typed dops nops ty idx subidx v b =
    bindB (async_sdo_write_typed dops nops ty idx subidx v b) (\<lambda>fut b1.
      case wait_future dops nops (settled_promise fut) (\<lambda>x. True) b1 of
        (None, b2) \<Rightarrow> Some (Inr False, b2)
      | (Some (Inl e), b2) \<Rightarrow> Some (Inr False, b2)
      | (Some (Inr res), b2) \<Rightarrow> Some (Inr res, b2))"

text \<open>The reference argument is returned as the value read, if any.\<close>

definition sync_sdo_read_typed ::
  "'d dict_ops \<Rightarrow> 'n network \<Rightarrow> co_type \<Rightarrow> u16 \<Rightarrow> u8 \<Rightarrow> ('d, 'n) bridge
   \<Rightarrow> (('d, 'n) bridge, int option) blocking" where
  "sync_sdo_read_typed dops nops ty idx subidx b =
    bindB (async_sdo_read_typed dops nops ty idx subidx b) (\<lambda>fut b1.
      case wait_future dops nops (settled_promise fut) (\<lambda>x. x) b1 of
        (None, b2) \<Rightarrow> Some (Inr None, b2)
      | (Some (Inl e), b2) \<Rightarrow> Some (Inr None, b2)
      | (Some (Inr v), b2) \<Rightarrow> Some (Inr (Some v), b2))"

subsection \<open>Universal access\<close>

definition entry_is_tpdo :: "u16 \<Rightarrow> u8 \<Rightarrow> ('d, 'n) bridge \<Rightarrow> bool" where
  "entry_is_tpdo idx sub b =
    (case pdo_map_of b idx of None \<Rightarrow> False
     | Some object \<Rightarrow> (case object sub of None \<Rightarrow> False | Some entry \<Rightarrow> is_tpdo entry))"

definition entry_is_rpdo :: "u16 \<Rightarrow> u8 \<Rightarrow> ('d, 'n) bridge \<Rightarrow> bool" where
  "entry_is_rpdo idx sub b =
    (case pdo_map_of b idx of None \<Rightarrow> False
     | Some object \<Rightarrow> (case object sub of None \<Rightarrow> False | Some entry \<Rightarrow> is_rpdo entry))"

definition universal_get_value ::
  "'d dict_ops \<Rightarrow> 'n network \<Rightarrow> int_type \<Rightarrow> u16 \<Rightarrow> u8 \<Rightarrow> ('d, 'n) bridge
   \<Rightarrow> (('d, 'n) bridge, int) blocking" where
  "universal_get_value dops nops t idx sub b =
    (let cached = (\<lambda>b. Some (Inr (dict_get dops (CO_INT t) idx sub (dictionary b)), b)) in
     if entry_is_tpdo idx sub b then cached b
     else bindB (sync_sdo_read_typed dops nops (CO_INT t) idx sub b) (\<lambda>res b1.
            case res of Some v \<Rightarrow> Some (Inr v, b1) | None \<Rightarrow> cached b1))"

definition universal_set_value ::
  "'d dict_ops \<Rightarrow> 'n network \<Rightarrow> int_type \<Rightarrow> u16 \<Rightarrow> u8 \<Rightarrow> int \<Rightarrow> ('d, 'n) bridge
   \<Rightarrow> (('d, 'n) bridge, unit) blocking" where
  "universal_set_value dops nops t idx sub v b =
    (if entry_is_rpdo idx sub b
     then (let b1 = b\<lparr>dictionary := dict_set dops (CO_INT t) idx sub v (dictionary b)\<rparr> in
           case n_tpdo_write nops (CO_INT t) idx sub v (net b1) of
             (Inl e, n) \<Rightarrow> Some (Inl e, b1\<lparr>net := n\<rparr>)
           | (Inr u, n) \<Rightarrow>
               (case n_tpdo_event nops idx sub n of
                  (Inl e, n') \<Rightarrow> Some (Inl e, b1\<lparr>net := n'\<rparr>)
                | (Inr u', n') \<Rightarrow> Some (Inr (), b1\<lparr>net := n'\<rparr>)))
     else bindB (sync_sdo_write_typed dops nops (CO_INT t) idx sub v b) (\<lambda>res b1.
            Some (Inr (), b1)))"

subsection \<open>Untyped requests\<close>

text \<open>\<open>async_sdo_write(data)\<close> and \<open>async_sdo_read(data)\<close>: the type comes from the dictionary. When the
  object does not exist \<open>running\<close> is cleared; when its type is not supported nothing is submitted
  and \<open>running\<close> stays. An error while submitting a write is stored in the promise of the reads,
  which does not exist yet or may be settled already.\<close>

definition async_sdo_write ::
  "'d dict_ops \<Rightarrow> 'n network \<Rightarrow> COData \<Rightarrow> ('d, 'n) bridge \<Rightarrow> (('d, 'n) bridge, bool promise) blocking" where
  "async_sdo_write dops nops data b =
    (case acquire_sdo dops nops b of
       None \<Rightarrow> None
     | Some b1 \<Rightarrow>
         (case dict_find dops (index_of data) (subindex_of data) (dictionary b1) of
            None \<Rightarrow> Some (Inr (Fulfilled False),
                     b1\<lparr>sdo_write_promise := Some (Fulfilled False), running := False\<rparr>)
          | Some ty \<Rightarrow>
              (let b2 = b1\<lparr>sdo_write_promise := Some Unfulfilled\<rparr> in
               if \<not> supported_type ty then Some (Inr Unfulfilled, b2)
               else (case submit_sdo nops (Sdo_write ty (index_of data) (subindex_of data)
                             (data_to_value ty (data_of data))) True b2 of
                       (Inr u, b3) \<Rightarrow> Some (Inr Unfulfilled, b3)
                     | (Inl e, b3) \<Rightarrow>
                         (case sdo_read_promise b3 of
                            Some Unfulfilled \<Rightarrow> Some (Inr Unfulfilled,
                              b3\<lparr>sdo_read_promise := Some (Broken e), running := False\<rparr>)
                          | Some settled \<Rightarrow> Some (Inl (Future_error ''promise already satisfied''), b3)
                          | None \<Rightarrow> Some (Inl (Future_error ''no promise''), b3))))))"

definition async_sdo_read ::
  "'d dict_ops \<Rightarrow> 'n network \<Rightarrow> COData \<Rightarrow> ('d, 'n) bridge \<Rightarrow> (('d, 'n) bridge, COData promise) blocking" where
  "async_sdo_read dops nops data b =
    (case acquire_sdo dops nops b of
       None \<Rightarrow> None
     | Some b1 \<Rightarrow>
         (case dict_find dops (index_of data) (subindex_of data) (dictionary b1) of
            None \<Rightarrow> (let p = Broken (Sdo_error 0x06020000) in
                     Some (Inr p, b1\<lparr>sdo_read_promise := Some p, running := False\<rparr>))
          | Some ty \<Rightarrow>
              (let b2 = b1\<lparr>sdo_read_promise := Some Unfulfilled\<rparr> in
               if \<not> supported_type ty then Some (Inr Unfulfilled, b2)
               else (case submit_sdo nops (Sdo_read ty (index_of data) (subindex_of data)) True b2 of
                       (Inr u, b3) \<Rightarrow> Some (Inr Unfulfilled, b3)
                     | (Inl e, b3) \<Rightarrow> Some (Inr (Broken e),
                         b3\<lparr>sdo_read_promise := Some (Broken e), running := False\<rparr>)))))"

subsection \<open>Callbacks of the event loop\<close>

text \<open>\<open>OnState\<close>; \<open>lock_free\<close> says whether \<open>try_lock\<close> gets the mutex.\<close>

definition OnState :: "bool \<Rightarrow> NmtState \<Rightarrow> ('d, 'n) bridge \<Rightarrow> ('d, 'n) bridge" where
  "OnState lock_free nmt b =
    (let st = (if nmt = BOOTUP then START else nmt) in
     if \<not> nmt_state_is_set b \<and> lock_free
     then b\<lparr>nmt_state_is_set := True, nmt_state_promise := Fulfilled st\<rparr> else b)"

definition async_request_nmt :: "('d, 'n) bridge \<Rightarrow> ('d, 'n) bridge" where
  "async_request_nmt b = b\<lparr>nmt_state_is_set := False, nmt_state_promise := Unfulfilled\<rparr>"

definition OnBoot :: "NmtState \<Rightarrow> nat \<Rightarrow> string \<Rightarrow> ('d, 'n) bridge \<Rightarrow> ('d, 'n) bridge" where
  "OnBoot st es what b =
    (let b1 = (if es = 0 then b\<lparr>booted := True\<rparr> else b) in
     b1\<lparr>boot_state := st, boot_status := es, boot_what := what\<rparr>)"

definition OnRpdoWrite ::
  "'d dict_ops \<Rightarrow> 'n network \<Rightarrow> u16 \<Rightarrow> u8 \<Rightarrow> ('d, 'n) bridge \<Rightarrow> ('d, 'n) bridge" where
  "OnRpdoWrite dops nops idx subidx b =
    (case dict_find dops idx subidx (dictionary b) of
       None \<Rightarrow> b
     | Some ty \<Rightarrow>
         (let b1 = (if supported_type ty
                    then b\<lparr>dictionary := dict_set dops ty idx subidx
                             (n_rpdo_read nops ty idx subidx (net b)) (dictionary b)\<rparr> else b);
              data = (if supported_type ty
                      then value_to_data ty (dict_get dops ty idx subidx (dictionary b1)) else 0)
          in b1\<lparr>rpdo_queue := queue_push list_queue
                  \<lparr>index_of = idx, subindex_of = subidx, data_of = data\<rparr> (rpdo_queue b1)\<rparr>))"

definition OnEmcy :: "u16 \<Rightarrow> u8 \<Rightarrow> u8 list \<Rightarrow> ('d, 'n) bridge \<Rightarrow> ('d, 'n) bridge" where
  "OnEmcy code reg bytes b =
    b\<lparr>emcy_queue := queue_push list_queue \<lparr>eec = code, er = reg, msef = take 5 bytes\<rparr> (emcy_queue b)\<rparr>"

text \<open>\<open>OnSync\<close> runs the registered function; whatever it throws is dropped.\<close>

definition OnSync :: "('d, 'n) bridge \<Rightarrow> ('d, 'n) bridge" where
  "OnSync b = (case sync_function b of None \<Rightarrow> b | Some f \<Rightarrow> b\<lparr>net := snd (f (net b))\<rparr>)"

definition set_sync_function :: "('n \<Rightarrow> (exn + unit) \<times> 'n) \<Rightarrow> ('d, 'n) bridge \<Rightarrow> ('d, 'n) bridge" where
  "set_sync_function f b = b\<lparr>sync_function := Some f\<rparr>"

definition unset_sync_function :: "('d, 'n) bridge \<Rightarrow> ('d, 'n) bridge" where
  "unset_sync_function b = b\<lparr>sync_function := None\<rparr>"

subsection \<open>Transmission, commands and boot\<close>

text \<open>\<open>tpdo_transmit\<close>. Floats are not among its cases: like the types it does not know they are not
  written, but the event is sent.\<close>

fun tpdo_type :: "co_type \<Rightarrow> bool" where
  "tpdo_type (CO_INT t) = True"
| "tpdo_type CO_BOOLEAN = True"
| "tpdo_type CO_REAL32 = False"
| "tpdo_type (CO_OTHER n) = False"

definition tpdo_transmit ::
  "'d dict_ops \<Rightarrow> 'n network \<Rightarrow> COData \<Rightarrow> ('d, 'n) bridge \<Rightarrow> ('d, 'n) bridge" where
  "tpdo_transmit dops nops data b =
    (let idx = index_of data; sub = subindex_of data in
     case dict_find dops idx sub (dictionary b) of
       None \<Rightarrow> b
     | Some ty \<Rightarrow>
         if tpdo_type ty
         then (let val = data_to_value ty (data_of data) in
               case n_tpdo_write nops ty idx sub val (net b) of
                 (Inl e, n) \<Rightarrow> b\<lparr>net := n\<rparr>
               | (Inr u, n) \<Rightarrow>
                   b\<lparr>dictionary := dict_set dops ty idx sub val (dictionary b),
                     net := snd (n_tpdo_event nops idx sub n)\<rparr>)
         else b\<lparr>net := snd (n_tpdo_event nops idx sub (net b))\<rparr>)"

definition nmt_command :: "'n network \<Rightarrow> nat \<Rightarrow> ('d, 'n) bridge \<Rightarrow> ('d, 'n) bridge" where
  "nmt_command nops command b = b\<lparr>net := n_command nops command (nodeid b) (net b)\<rparr>"

definition get_id :: "('d, 'n) bridge \<Rightarrow> u8" where
  "get_id b = nodeid b"

definition Boot :: "'n network \<Rightarrow> ('d, 'n) bridge \<Rightarrow> ('d, 'n) bridge" where
  "Boot nops b = b\<lparr>booted := False, net := n_boot nops (net b)\<rparr>"

definition is_booted :: "('d, 'n) bridge \<Rightarrow> bool" where
  "is_booted b = booted b"

text \<open>\<open>wait_for_boot\<close> waits once, so the first wake-up of the script decides, a spurious one too.\<close>

definition boot_error_T :: nat where "boot_error_T = 84"
definition boot_status_L :: nat where "boot_status_L = 76"

definition boot_timeout_error :: exn where
  "boot_timeout_error = System_error (int boot_error_T) ''Boot Timeout''"

definition wait_for_boot ::
  "('d, 'n) bridge wakeups \<Rightarrow> ('d, 'n) bridge \<Rightarrow> (('d, 'n) bridge, bool) outcome" where
  "wait_for_boot ws b =
    (if booted b then (Inr True, b)
     else (case ws of
             [] \<Rightarrow> (Inl boot_timeout_error, b)
           | (timeout, f) # ws' \<Rightarrow> (Inl boot_timeout_error, f b)
           | (no_timeout, f) # ws' \<Rightarrow>
               (let b1 = f b in
                if boot_status b1 \<noteq> 0 \<and> boot_status b1 \<noteq> boot_status_L
                then (Inl (System_error (int (boot_status b1)) ''Boot Issue''), b1)
                else (Inr True, b1\<lparr>booted := True\<rparr>))))"

subsection \<open>Error codes of the boot process\<close>

definition boot_error_message :: "char \<Rightarrow> string" where
  "boot_error_message c =
    (if c = CHR ''A'' then ''The CANopen device is not listed in object 1F81.''
     else if c = CHR ''B'' then ''No response received for upload request of object 1000.''
     else if c = CHR ''C'' then ''Value of object 1000 from CANopen device is different to value in object 1F84 (Device type).''
     else if c = CHR ''D'' then ''Value of object 1018:01 from CANopen device is different to value in object 1F85 (Vendor-ID).''
     else if c = CHR ''E'' then ''Heartbeat event. No heartbeat message received from CANopen device.''
     else if c = CHR ''F'' then ''Node guarding event. No confirmation for guarding request received from CANopen device.''
     else if c = CHR ''G'' then ''Objects for program download are not configured or inconsistent.''
     else if c = CHR ''H'' then ''Software update is required, but not allowed because of configuration or current status.''
     else if c = CHR ''I'' then ''Software update is required, but program download failed.''
     else if c = CHR ''J'' then ''Configuration download failed.''
     else if c = CHR ''K'' then ''Heartbeat event during start error control service. No heartbeat message received from CANopen device during start error control service.''
     else if c = CHR ''L'' then ''NMT slave was initially operational. (CANopen manager may resume operation with other CANopen devices)''
     else if c = CHR ''M'' then ''Value of object 1018:02 from CANopen device is different to value in object 1F86 (Product code).''
     else if c = CHR ''N'' then ''Value of object 1018:03 from CANopen device is different to value in object 1F87 (Revision number).''
     else if c = CHR ''O'' then ''Value of object 1018:04 from CANopen device is different to value in object 1F88 (Serial number).''
     else if c = CHR ''T'' then ''The boot configure process timeout!''
     else ''(unrecognized error)'')"

subsection \<open>The request discipline\<close>

text \<open>\<open>running\<close> is set exactly while a request is pending. Then no caller blocks for ever, since the
  callback of the pending request will notify.\<close>

definition sdo_ok :: "('d, 'n) bridge \<Rightarrow> bool" where
  "sdo_ok b \<longleftrightarrow> (running b \<longleftrightarrow> pending b \<noteq> None)"

lemma sdo_callback_frame [simp]:
  "running (sdo_callback dops p ec v b) = False" "pending (sdo_callback dops p ec v b) = None"
  "pdo_map_of (sdo_callback dops p ec v b) = pdo_map_of b" "net (sdo_callback dops p ec v b) = net b"
  by (cases "request p"; simp add: sdo_callback_def Let_def split: prod.split sum.split)+

lemma acquire_sdo_ok:
  assumes "sdo_ok b"
  shows "\<exists>b1. acquire_sdo dops nops b = Some b1 \<and> running b1 \<and> pending b1 = None \<and>
    pdo_map_of b1 = pdo_map_of b"
  using assms by (auto simp: acquire_sdo_def sdo_ok_def split: option.splits prod.splits)

lemma acquire_sdo_idle:
  "\<not> running b \<Longrightarrow> acquire_sdo dops nops b = Some (b\<lparr>running := True\<rparr>)"
  by (simp add: acquire_sdo_def)

text \<open>A bridge whose flag is set without a pending request answers no request any more.\<close>

definition sdo_stuck :: "('d, 'n) bridge \<Rightarrow> bool" where
  "sdo_stuck b \<longleftrightarrow> running b \<and> pending b = None"

lemma sdo_stuck_blocks:
  assumes "sdo_stuck b"
  shows "async_sdo_write dops nops data b = None" "async_sdo_read dops nops data b = None"
    "sync_sdo_write_typed dops nops ty i s v b = None" "sync_sdo_read_typed dops nops ty i s b = None"
  using assms
  by (simp_all add: sdo_stuck_def async_sdo_write_def async_sdo_read_def sync_sdo_write_typed_def
      sync_sdo_read_typed_def async_sdo_write_typed_def async_sdo_read_typed_def acquire_sdo_def
      bindB_def)

text \<open>Lely's side of the bridge: the dictionary laws, and requests are accepted when submitted,
  errors being reported through the callback.\<close>

locale bridge_env = dictionary_laws dops for dops :: "'d dict_ops" +
  fixes nops :: "'n network"
  assumes submit_accepts: "\<exists>n'. n_submit nops r n = (Inr (), n')"
begin

lemma submit_sdo_accepts:
  "\<exists>n'. submit_sdo nops r u b = (Inr (), b\<lparr>net := n', pending := Some \<lparr>request = r, untyped = u\<rparr>\<rparr>)"
  using submit_accepts[of r "net b"] by (auto simp: submit_sdo_def)

text \<open>The two ways a request that the caller waits for can end: it is still pending, or its
  callback has run.\<close>

lemma wait_future_pending:
  assumes "pending b = Some p" "running b"
  obtains (late) n where "wait_future dops nops None f b = (None, b\<lparr>net := n\<rparr>)"
  | (replied) ec v n where "wait_future dops nops None f b
      = (Some (map_sum id f (callback_result (request p) ec v)), sdo_callback dops p ec v (b\<lparr>net := n\<rparr>))"
proof (cases "n_reply nops (net b)")
  case (Pair a n)
  show thesis
  proof (cases a)
    case None
    with Pair assms(1) show thesis
      by (intro late[of n]) (simp add: wait_future_def)
  next
    case (Some r)
    obtain ec v where "r = (ec, v)" by fastforce
    with Some Pair assms(1) show thesis
      by (intro replied[of ec v n]) (simp add: wait_future_def)
  qed
qed

lemma callback_stores:
  assumes "request_object (request p) = (ty, i, s)" "callback_result (request p) ec v = Inr x"
    and "dict_find dops i s (dictionary b) = Some ty"
  shows "dict_get dops ty i s (dictionary (sdo_callback dops p ec v b)) = x"
  using assms get_set[of i s "dictionary b" ty x]
  by (cases "request p") (auto simp: sdo_callback_def Let_def)

lemma sync_read_result:
  assumes "sdo_ok b"
  shows "\<exists>res b'. sync_sdo_read_typed dops nops ty i s b = Some (Inr res, b') \<and> sdo_ok b' \<and>
    pdo_map_of b' = pdo_map_of b \<and>
    (\<forall>v. res = Some v \<longrightarrow> dict_find dops i s (dictionary b') \<noteq> None \<and>
       (dict_find dops i s (dictionary b') = Some ty \<longrightarrow> dict_get dops ty i s (dictionary b') = v))"
proof -
  obtain b1 where b1: "acquire_sdo dops nops b = Some b1" "running b1" "pending b1 = None"
      "pdo_map_of b1 = pdo_map_of b"
    using acquire_sdo_ok[OF assms] by blast
  show ?thesis
  proof (cases "bridge_has_object dops i s b1")
    case False
    with b1 show ?thesis
      by (simp add: sync_sdo_read_typed_def async_sdo_read_typed_def bindB_def wait_future_def sdo_ok_def)
  next
    case True
    let ?p = "\<lparr>request = Sdo_read ty i s, untyped = False\<rparr>"
    obtain n where sub: "submit_sdo nops (Sdo_read ty i s) False b1
        = (Inr (), b1\<lparr>net := n, pending := Some ?p\<rparr>)"
      using submit_sdo_accepts by blast
    let ?b2 = "b1\<lparr>net := n, pending := Some ?p\<rparr>"
    have async: "async_sdo_read_typed dops nops ty i s b = Some (Inr Unfulfilled, ?b2)"
      using b1 True sub by (simp add: async_sdo_read_typed_def)
    have "pending ?b2 = Some ?p" "running ?b2"
      using b1 by simp_all
    then show ?thesis
    proof (cases rule: wait_future_pending[where f = "\<lambda>x. x"])
      case (late n')
      with async b1 show ?thesis
        by (simp add: sync_sdo_read_typed_def bindB_def sdo_ok_def)
    next
      case (replied ec v n')
      have find: "dict_find dops i s (dictionary (sdo_callback dops ?p ec v (?b2\<lparr>net := n'\<rparr>)))
          = dict_find dops i s (dictionary b1)"
        by (simp add: sdo_callback_def Let_def find_set split: sum.split)
      show ?thesis
        using async b1 replied True find get_set[of i s "dictionary b1" ty v]
        by (auto simp: sync_sdo_read_typed_def bindB_def sdo_ok_def callback_result_def
            bridge_has_object_def sdo_callback_def Let_def find_set)
    qed
  qed
qed

lemma sync_write_result:
  assumes "sdo_ok b"
  shows "\<exists>res b'. sync_sdo_write_typed dops nops ty i s v b = Some (Inr res, b') \<and> sdo_ok b' \<and>
    pdo_map_of b' = pdo_map_of b \<and>
    (res \<longrightarrow> dict_find dops i s (dictionary b') \<noteq> None \<and>
       (dict_find dops i s (dictionary b') = Some ty \<longrightarrow> dict_get dops ty i s (dictionary b') = v))"
proof -
  obtain b1 where b1: "acquire_sdo dops nops b = Some b1" "running b1" "pending b1 = None"
      "pdo_map_of b1 = pdo_map_of b"
    using acquire_sdo_ok[OF assms] by blast
  show ?thesis
  proof (cases "bridge_has_object dops i s b1")
    case False
    with b1 show ?thesis
      by (intro exI[of _ False])
        (simp add: sync_sdo_write_typed_def async_sdo_write_typed_def bindB_def wait_future_def sdo_ok_def)
  next
    case True
    let ?p = "\<lparr>request = Sdo_write ty i s v, untyped = False\<rparr>"
    obtain n where sub: "submit_sdo nops (Sdo_write ty i s v) False b1
        = (Inr (), b1\<lparr>net := n, pending := Some ?p\<rparr>)"
      using submit_sdo_accepts by blast
    let ?b2 = "b1\<lparr>net := n, pending := Some ?p\<rparr>"
    have async: "async_sdo_write_typed dops nops ty i s v b = Some (Inr Unfulfilled, ?b2)"
      using b1 True sub by (simp add: async_sdo_write_typed_def)
    have "pending ?b2 = Some ?p" "running ?b2"
      using b1 by simp_all
    then show ?thesis
    proof (cases rule: wait_future_pending[where f = "\<lambda>x. True"])
      case (late n')
      with async b1 show ?thesis
        by (intro exI[of _ False]) (simp add: sync_sdo_write_typed_def bindB_def sdo_ok_def)
    next
      case (replied ec x n')
      show ?thesis
        using async b1 replied True get_set[of i s "dictionary b1" ty v]
        by (auto simp: sync_sdo_write_typed_def bindB_def sdo_ok_def callback_result_def
            bridge_has_object_def sdo_callback_def Let_def find_set)
    qed
  qed
qed

lemma universal_get_total:
  assumes "sdo_ok b"
  shows "\<exists>v b'. universal_get_value dops nops t i s b = Some (Inr v, b') \<and> sdo_ok b' \<and>
    pdo_map_of b' = pdo_map_of b"
proof (cases "entry_is_tpdo i s b")
  case True
  with assms show ?thesis by (simp add: universal_get_value_def)
next
  case False
  obtain res b' where "sync_sdo_read_typed dops nops (CO_INT t) i s b = Some (Inr res, b')" "sdo_ok b'"
      "pdo_map_of b' = pdo_map_of b"
    using sync_read_result[OF assms] by blast
  with False show ?thesis
    by (cases res) (simp_all add: universal_get_value_def bindB_def)
qed

end

subsection \<open>A concrete environment\<close>

text \<open>A dictionary as a table, and a device that accepts every request at once and answers reads
  from its memory; the second component is the answer to the request submitted last.\<close>

definition table_ops :: "(u16 \<times> u8 \<rightharpoonup> co_type \<times> int) dict_ops" where
  "table_ops =
    \<lparr>dict_find = \<lambda>i s d. map_option fst (d (i, s)),
     dict_get = \<lambda>ty i s d. (case d (i, s) of Some (ty', v) \<Rightarrow> if ty' = ty then v else 0 | None \<Rightarrow> 0),
     dict_set = \<lambda>ty i s v d. (case d (i, s) of
        Some (ty', v') \<Rightarrow> if ty' = ty then d((i, s) \<mapsto> (ty, v)) else d | None \<Rightarrow> d)\<rparr>"

type_synonym device_memory = "(u16 \<times> u8 \<Rightarrow> int) \<times> int"

definition device_net :: "device_memory network" where
  "device_net =
    \<lparr>n_submit = \<lambda>r (mem, a). (case r of
        Sdo_write ty i s v \<Rightarrow> (Inr (), mem((i, s) := v), v)
      | Sdo_read ty i s \<Rightarrow> (Inr (), mem, mem (i, s))),
     n_reply = \<lambda>(mem, a). (Some (0, a), mem, a),
     n_late = \<lambda>(mem, a). ((0, a), mem, a),
     n_tpdo_write = \<lambda>ty i s v (mem, a). (Inr (), mem((i, s) := v), a),
     n_tpdo_event = \<lambda>i s n. (Inr (), n),
     n_rpdo_read = \<lambda>ty i s (mem, a). mem (i, s),
     n_boot = \<lambda>n. n, n_command = \<lambda>c i n. n\<rparr>"

interpretation dn: bridge_env table_ops device_net
proof unfold_locales
  show "dict_find table_ops i' s' (dict_set table_ops ty i s v d) = dict_find table_ops i' s' d"
    for i' s' ty i s v d
    by (auto simp: table_ops_def split: option.split)
  show "dict_find table_ops i s d = Some ty \<Longrightarrow> dict_get table_ops ty i s (dict_set table_ops ty i s v d) = v"
    for i s d ty v
    by (auto simp: table_ops_def)
  show "(i', s') \<noteq> (i, s) \<Longrightarrow>
      dict_get table_ops ty' i' s' (dict_set table_ops ty i s v d) = dict_get table_ops ty' i' s' d"
    for i' s' i s ty' ty v d
    by (auto simp: table_ops_def split: option.split)
  show "\<exists>n'. n_submit device_net r n = (Inr (), n')" for r n
    by (cases n; cases r) (auto simp: device_net_def)
qed

text \<open>A bridge over a table with two objects: a 16-bit one and one of a type the bridge does not
  know.\<close>

definition example_dict :: "u16 \<times> u8 \<rightharpoonup> co_type \<times> int" where
  "example_dict = [(0x6040, 0) \<mapsto> (CO_INT U16, 0), (0x1008, 0) \<mapsto> (CO_OTHER 9, 0)]"

definition example_bridge :: "(u16 \<times> u8 \<rightharpoonup> co_type \<times> int, device_memory) bridge" where
  "example_bridge =
    \<lparr>dictionary = example_dict, pdo_map_of = Map.empty, sdo_read_promise = None,
     sdo_write_promise = None, running = False, pending = None, nmt_state_is_set = False,
     nmt_state_promise = Unfulfilled, booted = False, boot_status = 0, boot_what = [],
     boot_state = BOOTUP, rpdo_queue = [], emcy_queue = [], nodeid = 2, sync_function = None,
     net = (\<lambda>x. 0, 0)\<rparr>"

subsection \<open>Properties\<close>

text \<open>C11: After construction the routing of an object is decided by the mapping parameters of the
  dictionary: reads use the PDO cache exactly for objects some TPDO of the device maps, writes go
  out by PDO exactly for objects some RPDO maps and no TPDO does.\<close>

theorem pdo_routing:
  "(entry_is_tpdo idx sub (bridge_new dops d i b0) \<longleftrightarrow> mapped_by dops d (mapping_params 0x1A00) idx sub) \<and>
   (entry_is_rpdo idx sub (bridge_new dops d i b0) \<longleftrightarrow>
      mapped_by dops d (mapping_params 0x1600) idx sub \<and> \<not> mapped_by dops d (mapping_params 0x1A00) idx sub)"
proof -
  have lookup: "entry_is_tpdo idx sub b \<longleftrightarrow>
      (case pdo_lookup (pdo_map_of b) idx sub of None \<Rightarrow> False | Some e \<Rightarrow> is_tpdo e)"
    "entry_is_rpdo idx sub b \<longleftrightarrow>
      (case pdo_lookup (pdo_map_of b) idx sub of None \<Rightarrow> False | Some e \<Rightarrow> is_rpdo e)"
    for b :: "('d, 'n) bridge"
    by (auto simp: entry_is_tpdo_def entry_is_rpdo_def pdo_lookup_def split: option.split)
  show ?thesis
    by (simp add: lookup bridge_new_def createPDOMapping_lookup)
qed



text \<open>An untyped write of an object whose type the bridge does not support wedges it: the future
  is never fulfilled and every later SDO request of any kind blocks for ever.\<close>

theorem unsupported_write_wedges:
  assumes "sdo_ok b" "\<not> running b"
    "dict_find dops (index_of data) (subindex_of data) (dictionary b) = Some ty" "\<not> supported_type ty"
  shows "\<exists>b'. async_sdo_write dops nops data b = Some (Inr Unfulfilled, b') \<and>
    async_sdo_write dops nops data' b' = None \<and> async_sdo_read dops nops data' b' = None \<and>
    sync_sdo_write_typed dops nops ty' i s v b' = None \<and>
    sync_sdo_read_typed dops nops ty' i s b' = None"
proof -
  let ?b = "b\<lparr>running := True, sdo_write_promise := Some Unfulfilled\<rparr>"
  have stuck: "sdo_stuck ?b"
    using assms(1,2) by (simp add: sdo_stuck_def sdo_ok_def)
  have "async_sdo_write dops nops data b = Some (Inr Unfulfilled, ?b)"
    using assms(2-4) by (simp add: async_sdo_write_def acquire_sdo_idle)
  then show ?thesis
    by (intro exI[of _ ?b]) (simp add: sdo_stuck_blocks[OF stuck])
qed

theorem unsupported_write_wedges_witness:
  "\<exists>b'. async_sdo_write table_ops device_net \<lparr>index_of = 0x1008, subindex_of = 0, data_of = 1\<rparr>
      example_bridge = Some (Inr Unfulfilled, b') \<and>
    sync_sdo_read_typed table_ops device_net (CO_INT U16) 0x6041 0 b' = None"
proof -
  have b: "sdo_ok example_bridge" "\<not> running example_bridge"
    by (simp_all add: sdo_ok_def example_bridge_def)
  have ty: "dict_find table_ops (index_of \<lparr>index_of = 0x1008, subindex_of = 0, data_of = 1\<rparr>)
      (subindex_of \<lparr>index_of = 0x1008, subindex_of = 0, data_of = 1\<rparr>) (dictionary example_bridge)
      = Some (CO_OTHER 9)" "\<not> supported_type (CO_OTHER 9)"
    by (simp_all add: table_ops_def example_bridge_def example_dict_def)
  show ?thesis
    using unsupported_write_wedges[OF b ty, where nops = device_net and ty' = "CO_INT U16"
        and i = "0x6041" and s = 0] by blast
qed

text \<open>Waiting for the boot succeeds only if the device was known to be booted or the wake-up
  found an error status of zero or L (initially operational); it fails with the boot timeout after
  a timeout and with the reported status otherwise. After success the device counts as booted.\<close>

theorem wait_for_boot_result:
  "case wait_for_boot ws b of
     (Inr r, b') \<Rightarrow> r \<and> booted b' \<and> (booted b \<or> (\<exists>f ws'. ws = (no_timeout, f) # ws' \<and>
        boot_status (f b) \<in> {0, 76}))
   | (Inl e, b') \<Rightarrow> \<not> booted b \<and>
       (e = System_error 84 ''Boot Timeout'' \<and> (ws = [] \<or> fst (hd ws) = timeout) \<or>
        (\<exists>f ws'. ws = (no_timeout, f) # ws' \<and> boot_status (f b) \<notin> {0, 76} \<and>
           e = System_error (int (boot_status (f b))) ''Boot Issue''))"
  by (auto simp: wait_for_boot_def boot_timeout_error_def boot_error_T_def boot_status_L_def Let_def
      split: list.split cv_status.split)

text \<open>Data survives the trip through the 32 raw bits of a \<open>COData\<close>: what \<open>OnRpdoWrite\<close> or
  a read packs, \<open>submit_write\<close> and \<open>tpdo_transmit\<close> unpack to the same value, for every integer type.\<close>

theorem codata_roundtrip:
  assumes "in_type t v"
  shows "data_to_value (CO_INT t) (value_to_data (CO_INT t) v) = v"
proof -
  have bits: "type_bits t \<le> 32"
    by (cases t) simp_all
  have "uint (value_to_data (CO_INT t) v) = take_bit (type_bits t) v"
    using bits by (simp add: value_to_data_def uint_word_of_int_eq min_def)
  moreover have "cast_int t (take_bit (type_bits t) v) = cast_int t v"
    by (cases t) (simp_all add: cast_int_def signed_take_bit_take_bit)
  ultimately show ?thesis
    using cast_int_id[OF assms] by (simp add: data_to_value_def)
qed

theorem codata_roundtrip_witness:
  "data_to_value (CO_INT I16) (value_to_data (CO_INT I16) (- 12345)) = - 12345"
  by (rule codata_roundtrip) (simp add: in_type_def type_limits)

end
