(* ===== verification/MotorBridge.thy ===== *)
theory MotorBridge
  imports Motor402 Bridge
begin

text \<open>
  The motor on the real bridge: \<open>bridge_bus\<close> is the bus that \<open>universal_get_value\<close> and
  \<open>universal_set_value\<close> of the driver bridge make. The locale \<open>bus_invariant\<close> is the contract
  between the two: what every access of the bus keeps of the bridge, every operation of the motor
  keeps. Its instance is the request discipline of the bridge, so the motor never blocks for ever
  on an SDO request.
\<close>

subsection \<open>The contract\<close>

locale bus_invariant =
  fixes bus :: "'w bus" and ok :: "'w \<Rightarrow> bool"
  assumes uget_ok: "ok w \<Longrightarrow> ok (snd (uget bus t i s w))"
    and uset_ok: "ok w \<Longrightarrow> ok (snd (uset bus t i s v w))"
begin

definition drv_ok :: "'w motor \<Rightarrow> bool" where
  "drv_ok m \<longleftrightarrow> ok (driver m)"

definition drv_io_ok :: "'w motor_io \<Rightarrow> bool" where
  "drv_io_ok mw \<longleftrightarrow> drv_ok (fst mw) \<and> wakeups_keep drv_ok (snd mw)"

lemma drv_io_ok_pair [simp]: "drv_io_ok (m, ws) \<longleftrightarrow> drv_ok m \<and> wakeups_keep drv_ok ws"
  by (simp add: drv_io_ok_def)

lemma drv_ok_fields [simp]:
  "drv_ok (m\<lparr>control_word := cw\<rparr>) = drv_ok m" "drv_ok (m\<lparr>status_word := sw\<rparr>) = drv_ok m"
  "drv_ok (m\<lparr>state_handler := h\<rparr>) = drv_ok m" "drv_ok (m\<lparr>mode_id := j\<rparr>) = drv_ok m"
  "drv_ok (m\<lparr>mode_cond := n\<rparr>) = drv_ok m" "drv_ok (m\<lparr>start_fault_reset := b\<rparr>) = drv_ok m"
  "drv_ok (m\<lparr>target_state := t\<rparr>) = drv_ok m" "drv_ok (m\<lparr>diag_collector := d\<rparr>) = drv_ok m"
  "drv_ok (m\<lparr>effort_support_state := f\<rparr>) = drv_ok m"
  "drv_ok (m\<lparr>selected_mode := k\<rparr>) = drv_ok m" "drv_ok (m\<lparr>modes := ms\<rparr>) = drv_ok m"
  "drv_ok (m\<lparr>mode_allocators := a\<rparr>) = drv_ok m"
  "drv_ok (put_selected obj m) = drv_ok m" "drv_ok (motor_diag k' str m) = drv_ok m"
  "drv_ok (m\<lparr>driver := w\<rparr>) = ok w"
  by (simp_all add: drv_ok_def)

lemma drv_independent: "command_independent drv_ok"
  by (simp add: command_independent_def drv_ok_def)

lemma get_drv: "drv_ok m \<Longrightarrow> motor_get bus t i m = (v, m') \<Longrightarrow> drv_ok m'"
  using uget_ok[of "driver m" t "get_channel_index m i" 0]
  by (auto simp: motor_get_def drv_ok_def split: prod.splits)

lemma set_drv: "drv_ok m \<Longrightarrow> motor_set bus t i v m = (r, m') \<Longrightarrow> drv_ok m'"
  using uset_ok[of "driver m" t "get_channel_index m i" 0 "cast_int t v"]
  by (auto simp: motor_set_def drv_ok_def split: prod.splits)

lemma mode_write_drv: "ok w \<Longrightarrow> mode_write bus obj cw w = (r, obj', cw', w') \<Longrightarrow> ok w'"
proof (cases obj)
  case (Forward m)
  assume "ok w" "mode_write bus obj cw w = (r, obj', cw', w')"
  with Forward uset_ok[of w "th_type m" "OBJ m + fwd_channel_offset m" "SUB m" "target m"] show ?thesis
    by (auto simp: forward_write_def Let_def split: if_splits prod.splits sum.splits)
next
  case (Position m)
  assume "ok w" "mode_write bus obj cw w = (r, obj', cw', w')"
  with Position uset_ok[of w I32 "pp_base_index + pp_channel_offset m" 0 "target m"] show ?thesis
    by (auto simp: position_write_def Let_def split: if_splits prod.splits sum.splits)
next
  case (Homing_mode h)
  assume "ok w" "mode_write bus obj cw w = (r, obj', cw', w')"
  with Homing_mode show ?thesis
    by (auto split: prod.splits)
qed

lemma supported_drv: "drv_ok m \<Longrightarrow> isModeSupportedByDevice bus mode m = (r, m') \<Longrightarrow> drv_ok m'"
  by (auto simp: isModeSupportedByDevice_def Let_def get_drv split: prod.splits)

lemma alloc_drv: "drv_ok m \<Longrightarrow> allocMode bus mode m = (r, m') \<Longrightarrow> drv_ok m'"
  by (auto simp: allocMode_def supported_drv split: prod.splits)

lemma start_mode_drv: "drv_ok m \<Longrightarrow> start_mode k m = (r, m') \<Longrightarrow> drv_ok m'"
  by (auto simp: start_mode_def split: option.splits prod.splits)

lemma readState_drv: "drv_ok m \<Longrightarrow> drv_ok (snd (readState bus m))"
proof -
  assume m: "drv_ok m"
  obtain swi m1 where g1: "motor_get bus U16 status_word_entry_index m = (swi, m1)" by fastforce
  let ?m2 = "m1\<lparr>status_word := word_of_int swi,
    state_handler := snd (state_read (word_of_int swi) (state_handler m1))\<rparr>"
  obtain mode m3 where g2: "motor_get bus I8 op_mode_display_index ?m2 = (mode, m3)" by fastforce
  have "drv_ok ?m2"
    using get_drv[OF m g1] by simp
  from get_drv[OF this g2] show ?thesis
    by (auto simp: readState_def g1 g2 Let_def split: option.splits)
qed

lemma write_mode_drv: "drv_ok m \<Longrightarrow> write_mode bus m = (r, m') \<Longrightarrow> drv_ok m'"
  using mode_write_drv[of "driver m"]
  by (fastforce simp: write_mode_def Let_def drv_ok_def split: option.splits if_splits prod.splits)

lemma prepare_drv: "drv_ok m \<Longrightarrow> prepare_control_word bus m = (r, m') \<Longrightarrow> drv_ok m'"
  using write_mode_drv[of "m\<lparr>control_word := control_word m OR cwm CW_Halt\<rparr>"]
  by (cases "write_mode bus (m\<lparr>control_word := control_word m OR cwm CW_Halt\<rparr>)")
    (auto simp: prepare_control_word_def Let_def bindE_def split: if_splits sum.splits)

lemma handleWrite_drv: "drv_ok m \<Longrightarrow> drv_ok (snd (handleWrite bus m))"
proof -
  assume m: "drv_ok m"
  obtain r m1 where p: "prepare_control_word bus m = (r, m1)" by fastforce
  have set_ok: "drv_ok x \<Longrightarrow> drv_ok (snd (motor_set bus U16 i v x))" for i v x
    using set_drv[of x U16 i v] by (cases "motor_set bus U16 i v x") simp
  show ?thesis
    using prepare_drv[OF m p] by (cases r) (auto simp: handleWrite_def p intro!: set_ok)
qed

lemma switchState_drv: "drv_io_ok mw \<Longrightarrow> drv_io_ok (snd (switchState tgt mw))"
proof -
  assume mw: "drv_io_ok mw"
  obtain m ws r m' ws' where eq: "mw = (m, ws)" "switchState tgt (m, ws) = (r, m', ws')"
    by (metis prod.collapse prod_cases3)
  then show ?thesis
    using switchState_keep[OF eq(2) drv_independent] wakeups_keep_subset[of drv_ok ws ws'] mw by simp
qed

lemma executeHoming_drv: "drv_io_ok mw \<Longrightarrow> drv_io_ok (snd (motor_executeHoming bus mw))"
proof -
  assume mw: "drv_io_ok mw"
  obtain m ws where eq: "mw = (m, ws)" by fastforce
  obtain r m' ws' where run: "executeHoming homing_of put_homing (homing_method bus) m ws = (r, m', ws')"
    by (metis prod_cases3)
  have "mh.put_keeps drv_ok"
    by (simp add: mh.put_keeps_def put_homing_def)
  moreover have "drv_ok (snd (homing_method bus m))"
    using mw eq uget_ok[of "driver m" I8 "hm_base_index + hm_channel_offset (homing_of m)" 0]
    by (auto simp: homing_method_def drv_ok_def split: prod.splits)
  ultimately have "drv_ok m' \<and> set ws' \<subseteq> set ws"
    using mh.executeHoming_keep[OF _ _ _ run, of drv_ok] mw eq by simp
  then show ?thesis
    using eq run mw wakeups_keep_subset[of drv_ok ws ws'] by (simp add: motor_executeHoming_def)
qed

lemma switchMode_select_drv:
  "drv_ok m \<Longrightarrow> switchMode_select bus mode k m = (r, m') \<Longrightarrow> drv_ok m'"
  using set_drv[of m I8 op_mode_index "uint (mode_id m)"]
  by (auto simp: switchMode_select_def Let_def bindE_def split: if_splits sum.splits prod.splits)

lemma wait_drv:
  "drv_io_ok (m, ws) \<Longrightarrow> wait_while P ws m = (m', ws') \<Longrightarrow> drv_io_ok (m', ws')"
  using wait_while_keep[of P ws m m' ws' drv_ok] wait_while_left[of P ws m m' ws']
    wakeups_keep_subset[of drv_ok ws ws'] by simp

lemma switchMode_tail_drv: "drv_io_ok mw \<Longrightarrow> drv_io_ok (snd (switchMode_tail bus mode k mw))"
proof -
  assume mw: "drv_io_ok mw"
  obtain r1 m1 ws1 where s1: "switchState (switching_state (fst mw)) mw = (r1, m1, ws1)"
    by (metis prod_cases3)
  obtain r2 m2 where s2: "motor_set bus I8 op_mode_index (uint mode) m1 = (r2, m2)" by fastforce
  obtain m3 ws3 where s3: "wait_while (\<lambda>x. mode_id x \<noteq> mode) ws1 m2 = (m3, ws3)" by fastforce
  obtain r4 m4 where s4: "switchMode_select bus mode k m3 = (r4, m4)" by fastforce
  have ok1: "drv_io_ok (m1, ws1)"
    using switchState_drv[OF mw, of "switching_state (fst mw)"] s1 by simp
  then have ok2: "drv_io_ok (m2, ws1)"
    using set_drv[OF _ s2] by simp
  then have ok4: "drv_io_ok (m4, ws3)"
    using wait_drv[OF ok2 s3] switchMode_select_drv[OF _ s4] by simp
  show ?thesis
    using ok1 ok2 ok4 switchState_drv[OF ok4, of Operation_Enable]
    by (cases r1; cases r2; cases r4)
      (auto simp: switchMode_tail_def s1 s2 s3 s4 split: prod.splits bool.splits)
qed

lemma switchMode_none_drv: "drv_ok m \<Longrightarrow> drv_ok (snd (switchMode_none bus mode m))"
  using set_drv[of "m\<lparr>selected_mode := None\<rparr>" I8 op_mode_index "uint mode"]
  by (auto simp: switchMode_none_def Let_def prod_eq_iff)

lemma switchMode_drv: "drv_io_ok mw \<Longrightarrow> drv_io_ok (snd (switchMode bus mode mw))"
proof -
  assume mw: "drv_io_ok mw"
  obtain m ws where eq: "mw = (m, ws)" by fastforce
  show ?thesis
  proof (cases "mode = No_Mode")
    case True
    with mw eq switchMode_none_drv[of m No_Mode] show ?thesis
      by (cases "switchMode_none bus No_Mode m") (simp add: switchMode_def)
  next
    case False
    obtain km m1 where a: "allocMode bus mode m = (km, m1)" by fastforce
    have ok1: "drv_ok m1"
      using alloc_drv[OF _ a] mw eq by simp
    show ?thesis
    proof (cases km)
      case None
      with False a ok1 mw eq show ?thesis by (simp add: switchMode_def)
    next
      case (Some k)
      obtain r2 m2 where b: "start_mode k m1 = (r2, m2)" by fastforce
      have ok2: "drv_ok m2"
        by (rule start_mode_drv[OF ok1 b])
      with switchMode_tail_drv[of "(m2\<lparr>selected_mode := None\<rparr>, ws)" mode k] False a b Some mw eq
      show ?thesis
        by (auto simp: switchMode_def split: bool.splits)
    qed
  qed
qed

lemma init_homing_drv: "drv_io_ok mw \<Longrightarrow> drv_io_ok (snd (init_homing bus mw))"
  unfolding init_homing_def
proof (rule bindE_state[where P = drv_io_ok])
  show "drv_io_ok (snd (switchMode bus Homing mw))" if "drv_io_ok mw"
    by (rule switchMode_drv[OF that])
next
  fix okay mw1
  assume ok1: "drv_io_ok mw1"
  obtain r mw2 where home: "motor_executeHoming bus mw1 = (r, mw2)"
    by (cases "motor_executeHoming bus mw1")
  have ok2: "drv_io_ok mw2"
    using executeHoming_drv[OF ok1] home by simp
  have "drv_io_ok (snd (bindE (switchMode bus No_Mode mw2) (\<lambda>ok' mw3.
      if \<not> ok' then (Inr False, mw3) else (Inr True, mw3))))"
    by (rule bindE_state[where P = drv_io_ok]) (simp_all add: switchMode_drv[OF ok2])
  with ok1 ok2 show "drv_io_ok (snd (if \<not> okay then (Inr False, mw1)
      else (case motor_executeHoming bus mw1 of
              (False, mw2) \<Rightarrow> (Inr False, mw2)
            | (True, mw2) \<Rightarrow>
                bindE (switchMode bus No_Mode mw2) (\<lambda>ok' mw3.
                  if \<not> ok' then (Inr False, mw3) else (Inr True, mw3)))))"
    by (simp add: home split: bool.split)
qed

lemma run_allocators_drv: "drv_ok m \<Longrightarrow> drv_ok (fold (run_allocator bus) xs m)"
proof (induction xs arbitrary: m)
  case Nil
  then show ?case by simp
next
  case (Cons x xs)
  have reg: "drv_ok (registerMode j obj m') = drv_ok m'" for j obj m'
    by (simp add: registerMode_def split: option.split)
  have "drv_ok (run_allocator bus x m)"
    using Cons.prems by (cases x) (auto simp: run_allocator_def reg supported_drv split: prod.splits)
  with Cons show ?case by simp
qed

lemma handleInit_drv: "drv_io_ok mw \<Longrightarrow> drv_io_ok (snd (handleInit bus mw))"
proof -
  assume mw: "drv_io_ok mw"
  obtain m ws where eq: "mw = (m, ws)" by fastforce
  obtain okay m2 where r: "readState bus (fold (run_allocator bus) (mode_allocators m) m) = (okay, m2)"
    by fastforce
  have ok2: "drv_ok m2"
    using readState_drv[OF run_allocators_drv, of m "mode_allocators m"] mw eq r by simp
  let ?start = "(m2\<lparr>control_word := 0, start_fault_reset := True\<rparr>, ws)"
  obtain r3 m3 ws3 where s: "switchState Operation_Enable ?start = (r3, m3, ws3)"
    by (metis prod_cases3)
  have ok3: "drv_io_ok (m3, ws3)"
    using switchState_drv[of ?start Operation_Enable] ok2 mw eq s by simp
  obtain k m4 where a: "allocMode bus Homing m3 = (k, m4)" by fastforce
  have ok4: "drv_io_ok (m4, ws3)"
    using ok3 alloc_drv[OF _ a] by simp
  with init_homing_drv[OF ok4] ok2 ok3 mw eq r s a show ?thesis
    by (auto simp: handleInit_def Let_def split: bool.splits option.splits)
qed

lemma handleShutdown_drv: "drv_io_ok mw \<Longrightarrow> drv_io_ok (snd (handleShutdown bus mw))"
  unfolding handleShutdown_def
proof (rule bindE_state[where P = drv_io_ok])
  show "drv_io_ok (snd (switchMode bus No_Mode mw))" if "drv_io_ok mw"
    by (rule switchMode_drv[OF that])
next
  fix r mw1
  assume "drv_io_ok mw1"
  from switchState_drv[OF this, of Switch_On_Disabled]
  show "drv_io_ok (snd (let (r', mw2) = switchState Switch_On_Disabled mw1 in (Inr r', mw2)))"
    by (cases "switchState Switch_On_Disabled mw1") simp
qed

lemma handleRecover_drv: "drv_io_ok mw \<Longrightarrow> drv_io_ok (snd (handleRecover mw))"
proof -
  assume ok: "drv_io_ok mw"
  obtain m ws where mw: "mw = (m, ws)" by fastforce
  let ?m1 = "m\<lparr>start_fault_reset := True\<rparr>"
  have m1: "drv_io_ok (?m1, ws)"
    using ok mw by simp
  show ?thesis
  proof (cases "selected_obj ?m1")
    case None
    with switchState_drv[OF m1, of Operation_Enable] mw show ?thesis
      by (simp add: handleRecover_def Let_def)
  next
    case (Some obj)
    obtain r obj' where start: "mode_start obj = (r, obj')" by fastforce
    have "drv_io_ok (put_selected obj' ?m1, ws)"
      using m1 by simp
    from this switchState_drv[OF this, of Operation_Enable] Some start mw show ?thesis
      by (cases r) (simp_all add: handleRecover_def Let_def)
  qed
qed

lemma readState_drv_io:
  "drv_ok m \<Longrightarrow> readState bus m = (r, m') \<Longrightarrow> wakeups_keep drv_ok ws \<Longrightarrow> drv_io_ok (m', ws)"
  using readState_drv[of m] by simp

lemma handleEnable_drv: "drv_io_ok mw \<Longrightarrow> drv_io_ok (snd (handleEnable bus mw))"
proof -
  assume ok: "drv_io_ok mw"
  obtain m ws where mw: "mw = (m, ws)" by fastforce
  obtain r m1 where read: "readState bus m = (r, m1)" by fastforce
  have "drv_io_ok (m1, ws)"
    using readState_drv_io[OF _ read, of ws] ok mw by simp
  from this switchState_drv[OF this, of Operation_Enable] mw read show ?thesis
    by (cases r) (simp_all add: handleEnable_def)
qed

lemma handleDisable_drv: "drv_io_ok mw \<Longrightarrow> drv_io_ok (snd (handleDisable bus mw))"
proof -
  assume ok: "drv_io_ok mw"
  obtain m ws where mw: "mw = (m, ws)" by fastforce
  obtain r m1 where read: "readState bus m = (r, m1)" by fastforce
  have "drv_io_ok (m1, ws)"
    using readState_drv_io[OF _ read, of ws] ok mw by simp
  from this switchState_drv[OF this, of Switched_On] mw read show ?thesis
    by (cases r) (simp_all add: handleDisable_def)
qed

lemma setTarget_drv: "drv_ok m \<Longrightarrow> drv_ok (snd (setTarget nc v m))"
  by (auto simp: setTarget_def Let_def split: option.splits prod.splits)

lemma registerDefaultModes_drv: "drv_ok m \<Longrightarrow> drv_ok (registerDefaultModes junk m)"
proof -
  have reg: "drv_ok x \<Longrightarrow> drv_ok (snd (registerModeAllocator mode obj x))" for mode obj x
    by (simp add: registerModeAllocator_def split: option.split)
  have "drv_ok x \<Longrightarrow> drv_ok (fold (\<lambda>(mode, obj) m. snd (registerModeAllocator mode obj m)) xs x)"
    for xs x
  proof (induction xs arbitrary: x)
    case (Cons a xs)
    then show ?case by (cases a) (simp add: reg)
  qed simp
  then show "drv_ok m \<Longrightarrow> ?thesis"
    by (simp add: registerDefaultModes_def)
qed

lemma actual_values_drv:
  assumes "drv_ok m"
  shows "drv_ok (snd (get_effort bus m))" "drv_ok (snd (get_speed bus m))" "drv_ok (snd (get_position bus m))"
proof -
  have get: "drv_ok x \<Longrightarrow> drv_ok (snd (motor_get bus t i x))" for t i x
    using get_drv[of x t i] by (cases "motor_get bus t i x") simp
  show "drv_ok (snd (get_effort bus m))" "drv_ok (snd (get_speed bus m))" "drv_ok (snd (get_position bus m))"
    using assms get[of m] get[of "m\<lparr>effort_support_state := 1\<rparr>"]
    by (simp_all add: get_effort_def get_speed_def get_position_def Let_def case_prod_beta)
qed

lemma motor_exec_drv:
  assumes "drv_ok m" "wakeups_keep drv_ok (call_wakeups c)"
  shows "drv_ok (motor_exec bus c m)"
proof (cases c)
  case (EnterMode mode ws)
  with assms switchMode_drv[of "(m, ws)" mode] show ?thesis
    by (simp add: enterModeAndWait_def drv_io_ok_def)
next
  case (Init ws)
  with assms handleInit_drv[of "(m, ws)"] show ?thesis by (simp add: drv_io_ok_def)
next
  case (Shutdown ws)
  with assms handleShutdown_drv[of "(m, ws)"] show ?thesis by (simp add: drv_io_ok_def)
next
  case (Recover ws)
  with assms handleRecover_drv[of "(m, ws)"] show ?thesis by (simp add: drv_io_ok_def)
next
  case (Enable ws)
  with assms handleEnable_drv[of "(m, ws)"] show ?thesis by (simp add: drv_io_ok_def)
next
  case (Disable ws)
  with assms handleDisable_drv[of "(m, ws)"] show ?thesis by (simp add: drv_io_ok_def)
next
  case Halt
  with assms(1) show ?thesis by (simp add: handleHalt_def Let_def split: prod.splits)
qed (use assms(1) in \<open>simp_all add: setTarget_drv registerDefaultModes_drv handleRead_def readState_drv
       handleWrite_drv actual_values_drv handleDiag_def Let_def\<close>)

text \<open>What the accesses keep, every history of the motor keeps.\<close>

lemma motor_run_drv: "motor_run bus m m' \<Longrightarrow> drv_ok m \<Longrightarrow> drv_ok m'"
proof (induction rule: motor_run.induct)
  case (run_nil m)
  then show ?case by simp
next
  case (run_call m m1 c)
  have "wakeups_keep drv_ok (call_wakeups c)"
    using run_call(3) by (auto simp: wakeups_keep_def)
  with run_call show ?case
    by (blast intro: motor_exec_drv)
qed

end

subsection \<open>The bridge as the bus\<close>

text \<open>Under the contract of \<open>bridge_env\<close> a read returns a value and neither access blocks, so the
  default branches are not reached; the lemmas below show it.\<close>

definition bridge_bus :: "'d dict_ops \<Rightarrow> 'n network \<Rightarrow> ('d, 'n) bridge bus" where
  "bridge_bus dops nops =
    \<lparr>uget = \<lambda>t i s b. (case universal_get_value dops nops t i s b of
        Some (Inr v, b') \<Rightarrow> (v, b') | Some (Inl e, b') \<Rightarrow> (0, b') | None \<Rightarrow> (0, b)),
     uset = \<lambda>t i s v b. (case universal_set_value dops nops t i s v b of
        Some (r, b') \<Rightarrow> (r, b') | None \<Rightarrow> (Inl (Std_exception ''blocked''), b)),
     has_object = bridge_has_object dops\<rparr>"

context bridge_env
begin

lemma universal_set_total:
  assumes "sdo_ok b"
  shows "\<exists>r b'. universal_set_value dops nops t i s v b = Some (r, b') \<and> sdo_ok b'"
proof (cases "entry_is_rpdo i s b")
  case True
  with assms show ?thesis
    by (auto simp: universal_set_value_def Let_def sdo_ok_def split: prod.split sum.split)
next
  case False
  obtain res b' where "sync_sdo_write_typed dops nops (CO_INT t) i s v b = Some (Inr res, b')" "sdo_ok b'"
    using sync_write_result[OF assms] by blast
  with False show ?thesis
    by (simp add: universal_set_value_def bindB_def)
qed

lemma bridge_uget_ok: "sdo_ok b \<Longrightarrow> sdo_ok (snd (uget (bridge_bus dops nops) t i s b))"
  using universal_get_total[of b t i s] by (auto simp: bridge_bus_def)

lemma bridge_uset_ok: "sdo_ok b \<Longrightarrow> sdo_ok (snd (uset (bridge_bus dops nops) t i s v b))"
  using universal_set_total[of b t i s v] by (auto simp: bridge_bus_def)

lemma bridge_bus_invariant: "bus_invariant (bridge_bus dops nops) sdo_ok"
  by unfold_locales (simp_all add: bridge_uget_ok bridge_uset_ok)

end

sublocale bridge_env \<subseteq> motor_bus: bus_invariant "bridge_bus dops nops" sdo_ok
  by (rule bridge_bus_invariant)

interpretation dm: bus_invariant "bridge_bus table_ops device_net" sdo_ok
  by (rule dn.motor_bus.bus_invariant_axioms)

subsection \<open>Properties\<close>



end
