(* ===== verification/Config.thy ===== *)
theory Config
  imports Prelude
begin

text \<open>
  What the nodes use of the ROS client library and of the YAML library. Neither is part of the
  sources: declaring a parameter and parsing a document are operations of a record,
  \<open>client_lib\<close>, and what the nodes rely on is the locale \<open>client_library\<close>. A configuration
  document is seen through the conversions the sources apply to its entries.
\<close>

subsection \<open>Configuration documents\<close>

text \<open>A YAML node: the conversions of the entry that a path of keys leads to. \<open>None\<close> stands for
  the exception of \<open>as\<close>: no such entry, or one of another type. \<open>seq_size\<close> is the length of a sequence;
  its elements are reached by their number, in decimal. \<open>is_map\<close>: the entry is there and a map.\<close>

record yaml =
  has_entry :: "string list \<Rightarrow> bool"
  as_string :: "string list \<Rightarrow> string option"
  as_int :: "string list \<Rightarrow> int option"
  as_uint :: "string list \<Rightarrow> nat option"
  as_u8 :: "string list \<Rightarrow> u8 option"
  as_u16 :: "string list \<Rightarrow> u16 option"
  as_bool :: "string list \<Rightarrow> bool option"
  as_strings :: "string list \<Rightarrow> (string \<times> string) list option"
  as_double :: "string list \<Rightarrow> double option"
  seq_size :: "string list \<Rightarrow> nat option"
  is_map :: "string list \<Rightarrow> bool"

definition empty_yaml :: yaml where
  "empty_yaml = \<lparr>has_entry = \<lambda>p. False, as_string = \<lambda>p. None, as_int = \<lambda>p. None, as_uint = \<lambda>p. None,
     as_u8 = \<lambda>p. None, as_u16 = \<lambda>p. None, as_bool = \<lambda>p. None, as_strings = \<lambda>p. None,
     as_double = \<lambda>p. None, seq_size = \<lambda>p. None, is_map = \<lambda>p. False\<rparr>"

text \<open>The operations on documents: parsing a text, loading the entries of a file, assigning a string
  to an entry, and printing. Assigning changes the entry and no other.\<close>

record yaml_lib =
  yaml_load :: "string \<Rightarrow> exn + yaml"
  yaml_load_file :: "string \<Rightarrow> exn + (string \<times> yaml) list"
  yaml_assign :: "string \<Rightarrow> string \<Rightarrow> yaml \<Rightarrow> yaml"
  yaml_dump :: "yaml \<Rightarrow> string"

locale yaml_library =
  fixes yl :: yaml_lib
  assumes assign_entry: "as_string (yaml_assign yl k v doc) [k] = Some v"
    and assign_other: "p \<noteq> [k] \<Longrightarrow> as_string (yaml_assign yl k v doc) p = as_string doc p"

definition plain_yaml :: "(string \<times> yaml) list \<Rightarrow> yaml \<Rightarrow> yaml_lib" where
  "plain_yaml entries doc =
    \<lparr>yaml_load = \<lambda>s. Inr doc, yaml_load_file = \<lambda>s. Inr entries,
     yaml_assign = \<lambda>k v d. d\<lparr>as_string := (as_string d)([k] \<mapsto> v), has_entry := (has_entry d)([k] := True)\<rparr>,
     yaml_dump = \<lambda>d. []\<rparr>"

interpretation py: yaml_library "plain_yaml entries doc" for entries doc
  by unfold_locales (auto simp: plain_yaml_def)

subsection \<open>Node parameters\<close>

text \<open>The parameters of a node: their values from the launch file, and those declared so far.\<close>

datatype param = P_string string | P_int int

fun same_type :: "param \<Rightarrow> param \<Rightarrow> bool" where
  "same_type (P_string s) (P_string t) = True"
| "same_type (P_int i) (P_int j) = True"
| "same_type (P_string s) (P_int j) = False"
| "same_type (P_int i) (P_string t) = False"

record param_table =
  overrides :: "string \<rightharpoonup> param"
  declared :: "string \<rightharpoonup> param"

record client_lib =
  declare_parameter :: "string \<Rightarrow> param \<Rightarrow> param_table \<Rightarrow> (param_table, unit) outcome"
  yaml_ops :: yaml_lib

text \<open>\<open>declare_parameter\<close> creates the parameter with a value of the type of its default, and throws
  when the parameter exists already; when it throws nothing is declared.\<close>

locale client_library =
  fixes lib :: client_lib
  assumes declare_returns: "declare_parameter lib name dflt t = (Inr u, t') \<Longrightarrow>
      declared t name = None \<and> (\<exists>v. declared t' = (declared t)(name \<mapsto> v) \<and> same_type v dflt)"
    and declare_throws: "declare_parameter lib name dflt t = (Inl e, t') \<Longrightarrow> declared t' = declared t"

fun declare_parameters ::
  "client_lib \<Rightarrow> (string \<times> param) list \<Rightarrow> param_table \<Rightarrow> (param_table, unit) outcome" where
  "declare_parameters lib [] t = (Inr (), t)"
| "declare_parameters lib ((name, dflt) # ps) t =
    bindE (declare_parameter lib name dflt t) (\<lambda>u t'. declare_parameters lib ps t')"

text \<open>\<open>get_parameter(name, variable)\<close> leaves the variable alone when there is no such parameter.\<close>

definition get_string :: "param_table \<Rightarrow> string \<Rightarrow> string \<Rightarrow> string" where
  "get_string t name old =
    (case declared t name of Some (P_string s) \<Rightarrow> s | Some (P_int i) \<Rightarrow> old | None \<Rightarrow> old)"

definition get_int :: "param_table \<Rightarrow> string \<Rightarrow> int \<Rightarrow> int" where
  "get_int t name old =
    (case declared t name of Some (P_int i) \<Rightarrow> i | Some (P_string s) \<Rightarrow> old | None \<Rightarrow> old)"

text \<open>Parameters are declared with the type of their default, each once, and none is forgotten.\<close>

lemma same_type_refl [simp]: "same_type p p"
  by (cases p) simp_all

lemma map_le_upd_new: "m k = None \<Longrightarrow> m \<subseteq>\<^sub>m m(k \<mapsto> v)"
  by (auto simp: map_le_def)

context client_library
begin

lemma declare_parameter_frame: "declare_parameter lib name dflt t = (r, t') \<Longrightarrow> declared t \<subseteq>\<^sub>m declared t'"
  using declare_returns[of name dflt t _ t'] declare_throws[of name dflt t _ t']
  by (cases r) (auto simp: map_le_upd_new)

lemma declare_parameters_frame: "declare_parameters lib ps t = (r, t') \<Longrightarrow> declared t \<subseteq>\<^sub>m declared t'"
proof (induction ps arbitrary: t)
  case Nil
  then show ?case by simp
next
  case (Cons p ps)
  obtain name dflt where p: "p = (name, dflt)" by fastforce
  obtain r1 t1 where d: "declare_parameter lib name dflt t = (r1, t1)" by fastforce
  show ?case
    using Cons p d declare_parameter_frame[OF d] by (cases r1) (auto intro: map_le_trans)
qed

lemma declare_parameters_success:
  assumes "declare_parameters lib ps t = (Inr u, t')"
  shows "fst ` set ps \<subseteq> dom (declared t')"
  using assms
proof (induction ps arbitrary: t)
  case Nil
  then show ?case by simp
next
  case (Cons p ps)
  obtain name dflt where p: "p = (name, dflt)" by fastforce
  obtain r1 t1 where d: "declare_parameter lib name dflt t = (r1, t1)" by fastforce
  obtain v where r1: "r1 = Inr v" and rest: "declare_parameters lib ps t1 = (Inr u, t')"
    using Cons.prems p d by (cases r1) auto
  have "name \<in> dom (declared t1)"
    using declare_returns d r1 by fastforce
  moreover have "dom (declared t1) \<subseteq> dom (declared t')"
    by (rule map_le_implies_dom_le[OF declare_parameters_frame[OF rest]])
  ultimately show ?case
    using Cons.IH[OF rest] p by auto
qed

lemma declare_parameters_again:
  assumes "name \<in> dom (declared t)"
  shows "\<exists>e t'. declare_parameters lib ((name, dflt) # ps) t = (Inl e, t')"
proof -
  obtain r t' where d: "declare_parameter lib name dflt t = (r, t')" by fastforce
  then show ?thesis
    using declare_returns[of name dflt t _ t'] assms by (cases r) auto
qed

end

text \<open>An instance: the override of the launch file is taken when it has the right type, and every
  document parses to a given one.\<close>

definition table_lib :: "yaml \<Rightarrow> client_lib" where
  "table_lib doc =
    \<lparr>declare_parameter = \<lambda>name dflt t.
       (if declared t name \<noteq> None
        then (Inl (Std_exception (''parameter already declared: '' @ name)), t)
        else (let v = (case overrides t name of None \<Rightarrow> dflt | Some v \<Rightarrow> v) in
              if same_type v dflt then (Inr (), t\<lparr>declared := (declared t)(name \<mapsto> v)\<rparr>)
              else (Inl (Std_exception (''invalid parameter type: '' @ name)), t))),
     yaml_ops = plain_yaml [] doc\<rparr>"

interpretation tl: client_library "table_lib doc" for doc
  by unfold_locales (auto simp: table_lib_def Let_def split: if_splits)

subsection \<open>Conversions\<close>

text \<open>\<open>try { x = node[path].as<T>(); } catch (...) { x = dflt; }\<close>\<close>

definition or_default :: "'a option \<Rightarrow> 'a \<Rightarrow> 'a" where
  "or_default v dflt = (case v of Some x \<Rightarrow> x | None \<Rightarrow> dflt)"

lemma or_default_simps [simp]: "or_default None d = d" "or_default (Some x) d = x"
  by (simp_all add: or_default_def)

text \<open>An entry that is converted without a handler throws.\<close>

definition required :: "'a option \<Rightarrow> exn + 'a" where
  "required v = (case v of Some x \<Rightarrow> Inr x | None \<Rightarrow> Inl (Bad_conversion ''bad conversion''))"

lemma required_simps [simp]:
  "required (Some x) = Inr x" "required None = Inl (Bad_conversion ''bad conversion'')"
  by (simp_all add: required_def)

end
