(* ===== verification/DriverNode.thy ===== *)
theory DriverNode
  imports Config
begin

text \<open>
  The life cycle shared by all driver nodes (\<open>canopen_core\<close>: \<open>node_canopen_driver.hpp\<close>,
  \<open>node_canopen_driver.cpp\<close>, \<open>driver_node.cpp\<close>). The virtual functions that the drivers override
  are a record of operations, \<open>driver_hooks\<close>; what the base class needs of them is the locale
  \<open>driver_contract\<close>, whose instances are the drivers of the other theories.
\<close>

subsection \<open>State\<close>

text \<open>The executor and the master come together from the container: \<open>exec_master\<close> is the handle of
  the master they belong to. Timeouts count milliseconds.\<close>

record 'x driver_node =
  dn_name :: string
  dn_params :: param_table
  exec_master :: "nat option"
  non_transmit_timeout :: int
  dn_config :: yaml
  dn_node_id :: u8
  container_name :: string
  eds :: string
  bin :: string
  callback_groups :: bool
  master_set :: bool
  initialised :: bool
  configured :: bool
  activated :: bool
  derived :: 'x

record 'x driver_hooks =
  h_init :: "'x driver_node \<Rightarrow> ('x driver_node, unit) outcome"
  h_configure :: "'x driver_node \<Rightarrow> ('x driver_node, unit) outcome"
  h_activate :: "'x driver_node \<Rightarrow> ('x driver_node, unit) outcome"
  h_deactivate :: "'x driver_node \<Rightarrow> ('x driver_node, unit) outcome"
  h_cleanup :: "'x driver_node \<Rightarrow> ('x driver_node, unit) outcome"
  h_shutdown :: "'x driver_node \<Rightarrow> ('x driver_node, unit) outcome"
  add_to_master :: "'x driver_node \<Rightarrow> ('x driver_node, unit) outcome"
  remove_from_master :: "'x driver_node \<Rightarrow> ('x driver_node, unit) outcome"

definition driver_throw :: "string \<Rightarrow> 's \<Rightarrow> ('s, 'a) outcome" where
  "driver_throw what s = (Inl (Driver_exception what), s)"

subsection \<open>Operations\<close>

definition NodeCanopenDriver_new :: "'x driver_node \<Rightarrow> 'x driver_node" where
  "NodeCanopenDriver_new d =
    d\<lparr>master_set := False, initialised := False, configured := False, activated := False,
      exec_master := None, callback_groups := False\<rparr>"

definition driver_set_master :: "nat \<Rightarrow> 'x driver_node \<Rightarrow> ('x driver_node, unit) outcome" where
  "driver_set_master m d =
    (if \<not> configured d then driver_throw ''Set Master: driver is not configured'' d
     else if activated d then driver_throw ''Set Master: driver is not activated'' d
     else (Inr (), d\<lparr>exec_master := Some m, master_set := True\<rparr>))"

definition driver_defaults :: "(string \<times> param) list" where
  "driver_defaults =
    [(''container_name'', P_string []), (''node_id'', P_int 0),
     (''non_transmit_timeout'', P_int 100), (''config'', P_string [])]"

definition driver_declare :: "client_lib \<Rightarrow> 'x driver_node \<Rightarrow> ('x driver_node, unit) outcome" where
  "driver_declare lib d =
    (case declare_parameters lib driver_defaults (dn_params d) of (r, t) \<Rightarrow> (r, d\<lparr>dn_params := t\<rparr>))"

definition driver_init ::
  "client_lib \<Rightarrow> 'x driver_hooks \<Rightarrow> 'x driver_node \<Rightarrow> ('x driver_node, unit) outcome" where
  "driver_init lib hooks d =
    (if configured d then driver_throw ''Init: Driver is already configured'' d
     else if activated d then driver_throw ''Init: Driver is already activated'' d
     else bindE (driver_declare lib (d\<lparr>callback_groups := True\<rparr>)) (\<lambda>u d1.
          bindE (h_init hooks d1) (\<lambda>u d2. (Inr (), d2\<lparr>initialised := True\<rparr>))))"

text \<open>The part of \<open>configure\<close> that reads the parameters and the document. The names of the EDS and
  of the binary DCF come from the document; a missing entry throws.\<close>

definition driver_read_config ::
  "client_lib \<Rightarrow> 'x driver_node \<Rightarrow> ('x driver_node, unit) outcome" where
  "driver_read_config lib d =
    (let t = dn_params d;
         d1 = d\<lparr>container_name := get_string t ''container_name'' (container_name d),
                dn_node_id := word_of_int (get_int t ''node_id'' (uint (dn_node_id d)))\<rparr>
     in case yaml_load (yaml_ops lib) (get_string t ''config'' []) of
          Inl e \<Rightarrow> (Inl e, d1)
        | Inr doc \<Rightarrow>
            (let d2 = d1\<lparr>dn_config := doc,
                         non_transmit_timeout := get_int t ''non_transmit_timeout'' 0\<rparr>
             in case required (as_string doc [''dcf_path'']) of
                  Inl e \<Rightarrow> (Inl e, d2)
                | Inr path \<Rightarrow>
                    (case required (as_string doc [''dcf'']) of
                       Inl e \<Rightarrow> (Inl e, d2)
                     | Inr dcf \<Rightarrow>
                         (Inr (), d2\<lparr>eds := path @ ''/'' @ dcf,
                                     bin := path @ ''/'' @ dn_name d @ ''.bin''\<rparr>))))"

definition driver_configure ::
  "client_lib \<Rightarrow> 'x driver_hooks \<Rightarrow> 'x driver_node \<Rightarrow> ('x driver_node, unit) outcome" where
  "driver_configure lib hooks d =
    (if \<not> initialised d then driver_throw ''Configure: driver is not initialised'' d
     else if configured d then driver_throw ''Configure: driver is already configured'' d
     else if activated d then driver_throw ''Configure: driver is already activated'' d
     else bindE (driver_read_config lib d) (\<lambda>u d1.
          bindE (h_configure hooks d1) (\<lambda>u d2. (Inr (), d2\<lparr>configured := True\<rparr>))))"

definition driver_activate :: "'x driver_hooks \<Rightarrow> 'x driver_node \<Rightarrow> ('x driver_node, unit) outcome" where
  "driver_activate hooks d =
    (if \<not> master_set d then driver_throw ''Activate: master is not set'' d
     else if \<not> initialised d then driver_throw ''Activate: driver is not initialised'' d
     else if \<not> configured d then driver_throw ''Activate: driver is not configured'' d
     else if activated d then driver_throw ''Activate: driver is already activated'' d
     else bindE (add_to_master hooks d) (\<lambda>u d1.
          bindE (h_activate hooks d1) (\<lambda>u d2. (Inr (), d2\<lparr>activated := True\<rparr>))))"

definition driver_deactivate :: "'x driver_hooks \<Rightarrow> 'x driver_node \<Rightarrow> ('x driver_node, unit) outcome" where
  "driver_deactivate hooks d =
    (if \<not> master_set d then driver_throw ''Activate: master is not set'' d
     else if \<not> initialised d then driver_throw ''Deactivate: driver is not initialised'' d
     else if \<not> configured d then driver_throw ''Deactivate: driver is not configured'' d
     else if \<not> activated d then driver_throw ''Deactivate: driver is not activated'' d
     else bindE (remove_from_master hooks (d\<lparr>activated := False\<rparr>)) (\<lambda>u d1. h_deactivate hooks d1))"

text \<open>\<open>cleanup(bool)\<close> of the base class; the drivers call it from their own.\<close>

definition base_cleanup :: "'x driver_node \<Rightarrow> ('x driver_node, unit) outcome" where
  "base_cleanup d = (Inr (), d\<lparr>exec_master := None, master_set := False\<rparr>)"

definition driver_cleanup :: "'x driver_hooks \<Rightarrow> 'x driver_node \<Rightarrow> ('x driver_node, unit) outcome" where
  "driver_cleanup hooks d =
    (if \<not> initialised d then driver_throw ''Cleanup: driver is not initialised'' d
     else if \<not> configured d then driver_throw ''Cleanup: driver is not configured'' d
     else if activated d then driver_throw ''Cleanup: driver is still activated'' d
     else bindE (h_cleanup hooks d) (\<lambda>u d1. (Inr (), d1\<lparr>configured := False\<rparr>)))"

definition driver_shutdown :: "'x driver_hooks \<Rightarrow> 'x driver_node \<Rightarrow> ('x driver_node, unit) outcome" where
  "driver_shutdown hooks d =
    bindE (if activated d then driver_deactivate hooks d else (Inr (), d)) (\<lambda>u d1.
    bindE (if configured d1 then driver_cleanup hooks d1 else (Inr (), d1)) (\<lambda>u d2.
    bindE (h_shutdown hooks d2) (\<lambda>u d3.
      (Inr (), d3\<lparr>master_set := False, initialised := False, configured := False, activated := False\<rparr>))))"

text \<open>\<open>demand_set_master\<close> asks the container for the master. \<open>polls\<close> are the results of
  \<open>wait_for_service\<close>; the loop leaves only when the service is there, so a list without it stands
  for a call that does not return. \<open>answer\<close> is what the container does to this node while the
  request is out, and whether its response arrives before the timeout.\<close>

definition demand_set_master ::
  "bool list \<Rightarrow> bool \<times> ('x driver_node \<Rightarrow> 'x driver_node) \<Rightarrow> 'x driver_node
   \<Rightarrow> ('x driver_node, unit) outcome option" where
  "demand_set_master polls answer d =
    (if \<not> configured d then Some (driver_throw ''Set Master: driver is not configured'' d)
     else if True \<notin> set polls then None
     else (case answer of (ready, effect) \<Rightarrow>
            Some (if ready then (Inr (), effect d) else driver_throw ''Could not get result.'' (effect d))))"

type_synonym 'x demand = "bool list \<times> bool \<times> ('x driver_node \<Rightarrow> 'x driver_node)"

text \<open>The attempts of \<open>init\<close> and \<open>on_configure\<close>, one element of the list each.\<close>

fun demand_attempts :: "'x demand list \<Rightarrow> 'x driver_node \<Rightarrow> ('x driver_node, unit) outcome option" where
  "demand_attempts [] d = Some (driver_throw ''Failed to get demand set master result. Exiting...'' d)"
| "demand_attempts ((polls, answer) # as) d =
    (case demand_set_master polls answer d of
       None \<Rightarrow> None
     | Some (Inr u, d1) \<Rightarrow> Some (Inr (), d1)
     | Some (Inl e, d1) \<Rightarrow> demand_attempts as d1)"

definition demand_master :: "(nat \<Rightarrow> 'x demand) \<Rightarrow> 'x driver_node \<Rightarrow> ('x driver_node, unit) outcome option" where
  "demand_master env d = demand_attempts (map env [0..<5]) d"

text \<open>\<open>CanopenDriver\<close>: a plain node is brought up by \<open>init\<close> alone.\<close>

definition CanopenDriver_init ::
  "client_lib \<Rightarrow> 'x driver_hooks \<Rightarrow> (nat \<Rightarrow> 'x demand) \<Rightarrow> 'x driver_node
   \<Rightarrow> ('x driver_node, unit) outcome option" where
  "CanopenDriver_init lib hooks env d =
    (case bindE (driver_init lib hooks d) (\<lambda>u d1. driver_configure lib hooks d1) of
       (Inl e, d1) \<Rightarrow> Some (Inl e, d1)
     | (Inr u, d1) \<Rightarrow>
         (case demand_master env d1 of
            None \<Rightarrow> None
          | Some (Inl e, d2) \<Rightarrow> Some (Inl e, d2)
          | Some (Inr u, d2) \<Rightarrow> Some (driver_activate hooks d2)))"

text \<open>\<open>LifecycleCanopenDriver\<close>: the transitions of a managed node.\<close>

definition on_configure ::
  "client_lib \<Rightarrow> 'x driver_hooks \<Rightarrow> (nat \<Rightarrow> 'x demand) \<Rightarrow> 'x driver_node
   \<Rightarrow> ('x driver_node, unit) outcome option" where
  "on_configure lib hooks env d =
    (case driver_configure lib hooks d of
       (Inl e, d1) \<Rightarrow> Some (Inl e, d1)
     | (Inr u, d1) \<Rightarrow> demand_master env d1)"

definition on_activate :: "'x driver_hooks \<Rightarrow> 'x driver_node \<Rightarrow> ('x driver_node, unit) outcome" where
  "on_activate hooks d = driver_activate hooks d"

definition on_deactivate :: "'x driver_hooks \<Rightarrow> 'x driver_node \<Rightarrow> ('x driver_node, unit) outcome" where
  "on_deactivate hooks d = driver_deactivate hooks d"

definition on_cleanup :: "'x driver_hooks \<Rightarrow> 'x driver_node \<Rightarrow> ('x driver_node, unit) outcome" where
  "on_cleanup hooks d = driver_cleanup hooks d"

definition on_shutdown :: "'x driver_hooks \<Rightarrow> 'x driver_node \<Rightarrow> ('x driver_node, unit) outcome" where
  "on_shutdown hooks d = driver_shutdown hooks d"

subsection \<open>The contract with the drivers\<close>

definition same_flags :: "'x driver_node \<Rightarrow> 'x driver_node \<Rightarrow> bool" where
  "same_flags d d' \<longleftrightarrow> master_set d' = master_set d \<and> exec_master d' = exec_master d \<and>
     initialised d' = initialised d \<and> configured d' = configured d \<and> activated d' = activated d \<and>
     declared (dn_params d) \<subseteq>\<^sub>m declared (dn_params d')"

lemma same_flags_refl [simp]: "same_flags d d"
  by (simp add: same_flags_def)

lemma same_flags_trans: "same_flags d d1 \<Longrightarrow> same_flags d1 d2 \<Longrightarrow> same_flags d d2"
  by (auto simp: same_flags_def intro: map_le_trans)

text \<open>The overridden functions leave the life cycle to the base class; \<open>cleanup\<close> gives the master
  back and nothing else.\<close>

locale driver_contract =
  fixes hooks :: "'x driver_hooks"
  assumes init_flags: "h_init hooks d = (r, d') \<Longrightarrow> same_flags d d'"
    and configure_flags: "h_configure hooks d = (r, d') \<Longrightarrow> same_flags d d'"
    and activate_flags: "h_activate hooks d = (r, d') \<Longrightarrow> same_flags d d'"
    and deactivate_flags: "h_deactivate hooks d = (r, d') \<Longrightarrow> same_flags d d'"
    and shutdown_flags: "h_shutdown hooks d = (r, d') \<Longrightarrow> same_flags d d'"
    and add_flags: "add_to_master hooks d = (r, d') \<Longrightarrow> same_flags d d'"
    and remove_flags: "remove_from_master hooks d = (r, d') \<Longrightarrow> same_flags d d'"
    and cleanup_flags: "h_cleanup hooks d = (r, d') \<Longrightarrow>
      same_flags (snd (base_cleanup d)) d' \<or> same_flags d d' \<and> r \<noteq> Inr ()"

locale driver_env = client_library lib + driver_contract hooks
  for lib :: client_lib and hooks :: "'x driver_hooks"

text \<open>Well-formed life cycles: active only when configured and with a master, configured only when
  initialised, a master only when configured, and every parameter of an initialised node exists.\<close>

definition driver_ok :: "'x driver_node \<Rightarrow> bool" where
  "driver_ok d \<longleftrightarrow> (activated d \<longrightarrow> configured d \<and> master_set d) \<and> (configured d \<longrightarrow> initialised d) \<and>
     (master_set d \<longrightarrow> configured d) \<and> (master_set d \<longleftrightarrow> exec_master d \<noteq> None) \<and>
     (initialised d \<longrightarrow> fst ` set driver_defaults \<subseteq> dom (declared (dn_params d)))"

lemma driver_ok_flags: "same_flags d d' \<Longrightarrow> driver_ok d \<Longrightarrow> driver_ok d'"
proof -
  assume F: "same_flags d d'" and ok: "driver_ok d"
  have "dom (declared (dn_params d)) \<subseteq> dom (declared (dn_params d'))"
    using F by (simp add: same_flags_def map_le_implies_dom_le)
  then have "fst ` set driver_defaults \<subseteq> dom (declared (dn_params d'))" if "initialised d"
    using ok that unfolding driver_ok_def by blast
  with F ok show "driver_ok d'"
    by (auto simp: same_flags_def driver_ok_def)
qed

lemma driver_ok_deactivated: "driver_ok d \<Longrightarrow> driver_ok (d\<lparr>activated := False\<rparr>)"
  by (auto simp: driver_ok_def)

lemma driver_read_config_flags: "driver_read_config lib d = (r, d') \<Longrightarrow> same_flags d d'"
  by (auto simp: driver_read_config_def Let_def same_flags_def split: sum.splits)

context client_library
begin

lemma driver_declare_result:
  assumes "driver_declare lib d = (r, d')"
  shows "same_flags d d'" "r = Inr () \<Longrightarrow> fst ` set driver_defaults \<subseteq> dom (declared (dn_params d'))"
proof -
  obtain t where t: "declare_parameters lib driver_defaults (dn_params d) = (r, t)" "d' = d\<lparr>dn_params := t\<rparr>"
    using assms by (auto simp: driver_declare_def split: prod.splits)
  show "same_flags d d'"
    using declare_parameters_frame[OF t(1)] t(2) by (simp add: same_flags_def)
  show "fst ` set driver_defaults \<subseteq> dom (declared (dn_params d'))" if "r = Inr ()"
    using declare_parameters_success[of driver_defaults "dn_params d" "()" t] t that by simp
qed

end

lemma driver_set_master_ok: "driver_ok d \<Longrightarrow> driver_ok (snd (driver_set_master m d))"
  by (auto simp: driver_set_master_def driver_throw_def driver_ok_def)

context driver_env
begin

lemma driver_init_ok:
  assumes "driver_ok d"
  shows "driver_ok (snd (driver_init lib hooks d))"
proof -
  let ?d0 = "d\<lparr>callback_groups := True\<rparr>"
  obtain r1 d1 where decl: "driver_declare lib ?d0 = (r1, d1)" by fastforce
  obtain r2 d2 where init: "h_init hooks d1 = (r2, d2)" by fastforce
  have ok0: "driver_ok ?d0" using assms by (auto simp: driver_ok_def)
  note D = driver_declare_result[OF decl]
  have ok1: "driver_ok d1" by (rule driver_ok_flags[OF D(1) ok0])
  have ok2: "driver_ok d2" by (rule driver_ok_flags[OF init_flags[OF init] ok1])
  have "fst ` set driver_defaults \<subseteq> dom (declared (dn_params d2))" if "r1 = Inr ()"
    using D(2)[OF that] init_flags[OF init] map_le_implies_dom_le unfolding same_flags_def by blast
  with ok2 have "driver_ok (d2\<lparr>initialised := True\<rparr>)" if "r1 = Inr ()"
    using that by (auto simp: driver_ok_def)
  with assms ok1 ok2 decl init show ?thesis
    by (cases r1; cases r2) (simp_all add: driver_init_def driver_throw_def)
qed

lemma driver_configure_ok:
  assumes "driver_ok d"
  shows "driver_ok (snd (driver_configure lib hooks d))"
proof -
  obtain r1 d1 where read: "driver_read_config lib d = (r1, d1)" by fastforce
  obtain r2 d2 where conf: "h_configure hooks d1 = (r2, d2)" by fastforce
  have F1: "same_flags d d1" by (rule driver_read_config_flags[OF read])
  have F2: "same_flags d1 d2" by (rule configure_flags[OF conf])
  have ok1: "driver_ok d1" by (rule driver_ok_flags[OF F1 assms])
  have ok2: "driver_ok d2" by (rule driver_ok_flags[OF F2 ok1])
  have "driver_ok (d2\<lparr>configured := True\<rparr>)" if "initialised d"
    using that ok2 same_flags_trans[OF F1 F2] by (auto simp: driver_ok_def same_flags_def)
  with assms ok1 ok2 read conf show ?thesis
    by (cases r1; cases r2) (simp_all add: driver_configure_def driver_throw_def)
qed

lemma driver_activate_ok:
  assumes "driver_ok d"
  shows "driver_ok (snd (driver_activate hooks d))"
proof -
  obtain r1 d1 where add: "add_to_master hooks d = (r1, d1)" by fastforce
  obtain r2 d2 where act: "h_activate hooks d1 = (r2, d2)" by fastforce
  have F1: "same_flags d d1" by (rule add_flags[OF add])
  have F2: "same_flags d1 d2" by (rule activate_flags[OF act])
  have ok1: "driver_ok d1" by (rule driver_ok_flags[OF F1 assms])
  have ok2: "driver_ok d2" by (rule driver_ok_flags[OF F2 ok1])
  have "driver_ok (d2\<lparr>activated := True\<rparr>)" if "configured d" "master_set d"
    using that ok2 same_flags_trans[OF F1 F2] by (auto simp: driver_ok_def same_flags_def)
  with assms ok1 ok2 add act show ?thesis
    by (cases r1; cases r2) (simp_all add: driver_activate_def driver_throw_def)
qed

text \<open>A failing deactivation leaves the driver inactive all the same.\<close>

lemma driver_deactivate_result:
  assumes "driver_ok d" "driver_deactivate hooks d = (r, d')"
  shows "driver_ok d'" "activated d \<Longrightarrow> \<not> activated d'" "configured d' = configured d"
    "initialised d' = initialised d"
proof -
  let ?d0 = "d\<lparr>activated := False\<rparr>"
  obtain r1 d1 where rem: "remove_from_master hooks ?d0 = (r1, d1)" by fastforce
  obtain r2 d2 where de: "h_deactivate hooks d1 = (r2, d2)" by fastforce
  note F1 = remove_flags[OF rem]
  note F2 = same_flags_trans[OF F1 deactivate_flags[OF de]]
  have ok0: "driver_ok ?d0" by (rule driver_ok_deactivated[OF assms(1)])
  note ok1 = driver_ok_flags[OF F1 ok0] and ok2 = driver_ok_flags[OF F2 ok0]
  show "driver_ok d'" "activated d \<Longrightarrow> \<not> activated d'" "configured d' = configured d"
    "initialised d' = initialised d"
    using assms ok1 ok2 F1 F2 rem de
    by (cases r1; auto simp: driver_deactivate_def driver_throw_def driver_ok_def same_flags_def
        split: if_split_asm)+
qed

lemma driver_cleanup_cases:
  assumes "driver_cleanup hooks d = (r, d')" "driver_ok d" "configured d" "\<not> activated d"
  obtains (cleaned) d1 where "r = Inr ()" "d' = d1\<lparr>configured := False\<rparr>" "same_flags (snd (base_cleanup d)) d1"
  | (failed) e where "r = Inl e" "same_flags (snd (base_cleanup d)) d' \<or> same_flags d d'"
proof -
  obtain r1 d1 where clean: "h_cleanup hooks d = (r1, d1)" by fastforce
  have init: "initialised d"
    using assms(2,3) by (simp add: driver_ok_def)
  show thesis
  proof (cases r1)
    case (Inl e)
    with assms init clean cleanup_flags[OF clean] show thesis
      by (intro failed[of e]) (auto simp: driver_cleanup_def)
  next
    case (Inr u)
    with assms init clean cleanup_flags[OF clean] show thesis
      by (intro cleaned[of d1]) (auto simp: driver_cleanup_def)
  qed
qed

lemma base_cleanup_ok: "driver_ok d \<Longrightarrow> \<not> activated d \<Longrightarrow> driver_ok (snd (base_cleanup d))"
  by (simp add: base_cleanup_def driver_ok_def)

lemma driver_cleanup_result:
  assumes "driver_cleanup hooks d = (r, d')" "driver_ok d" "configured d" "\<not> activated d"
  shows "driver_ok d' \<and> \<not> activated d' \<and> (r = Inr () \<longrightarrow> \<not> configured d' \<and> exec_master d' = None)"
  using assms
proof (cases rule: driver_cleanup_cases)
  case (cleaned d1)
  have "driver_ok d1"
    by (rule driver_ok_flags[OF cleaned(3) base_cleanup_ok[OF assms(2,4)]])
  with cleaned assms(4) show ?thesis
    by (simp add: driver_ok_def same_flags_def base_cleanup_def)
next
  case (failed e)
  from failed(2) have "driver_ok d'"
    using driver_ok_flags[OF _ base_cleanup_ok[OF assms(2,4)]] driver_ok_flags[OF _ assms(2)] by blast
  moreover have "\<not> activated d'"
    using failed(2) assms(4) by (auto simp: same_flags_def base_cleanup_def)
  ultimately show ?thesis using failed(1) by simp
qed

lemma driver_cleanup_ok:
  assumes "driver_ok d"
  shows "driver_ok (snd (driver_cleanup hooks d))"
proof (cases "configured d \<and> \<not> activated d")
  case True
  obtain r d' where "driver_cleanup hooks d = (r, d')" by fastforce
  with True driver_cleanup_result[OF this assms] show ?thesis by simp
next
  case False
  with assms show ?thesis
    by (auto simp: driver_cleanup_def driver_throw_def)
qed

lemma driver_shutdown_ok:
  assumes "driver_ok d"
  shows "driver_ok (snd (driver_shutdown hooks d))"
proof -
  obtain r1 d1 where de: "(if activated d then driver_deactivate hooks d else (Inr (), d)) = (r1, d1)"
    by fastforce
  have ok1: "driver_ok d1" and idle: "\<not> activated d1"
    using assms driver_deactivate_result[OF assms, of r1 d1] de by (auto split: if_split_asm)
  obtain r2 d2 where clean: "(if configured d1 then driver_cleanup hooks d1 else (Inr (), d1)) = (r2, d2)"
    by fastforce
  have ok2: "driver_ok d2" and released: "r2 = Inr () \<Longrightarrow> exec_master d2 = None"
    using ok1 driver_cleanup_result[OF _ ok1 _ idle, of r2 d2] clean
    by (auto simp: driver_ok_def split: if_split_asm)
  obtain r3 d3 where shut: "h_shutdown hooks d2 = (r3, d3)" by fastforce
  have ok3: "driver_ok d3" by (rule driver_ok_flags[OF shutdown_flags[OF shut] ok2])
  have final: "driver_ok (d3\<lparr>master_set := False, initialised := False, configured := False,
      activated := False\<rparr>)" if "r2 = Inr ()"
    using released[OF that] shutdown_flags[OF shut] by (simp add: driver_ok_def same_flags_def)
  show ?thesis
    using ok1 ok2 ok3 final de clean shut
    by (cases r1; cases r2; cases r3) (simp_all add: driver_shutdown_def)
qed

end

subsection \<open>Histories\<close>

datatype driver_call =
    Call_init
  | Call_configure
  | Call_set_master nat
  | Call_activate
  | Call_deactivate
  | Call_cleanup
  | Call_shutdown

fun driver_exec ::
  "client_lib \<Rightarrow> 'x driver_hooks \<Rightarrow> driver_call \<Rightarrow> 'x driver_node \<Rightarrow> ('x driver_node, unit) outcome" where
  "driver_exec lib hooks Call_init d = driver_init lib hooks d"
| "driver_exec lib hooks Call_configure d = driver_configure lib hooks d"
| "driver_exec lib hooks (Call_set_master m) d = driver_set_master m d"
| "driver_exec lib hooks Call_activate d = driver_activate hooks d"
| "driver_exec lib hooks Call_deactivate d = driver_deactivate hooks d"
| "driver_exec lib hooks Call_cleanup d = driver_cleanup hooks d"
| "driver_exec lib hooks Call_shutdown d = driver_shutdown hooks d"

text \<open>Any sequence of calls, whether they return or throw.\<close>

inductive driver_run ::
  "client_lib \<Rightarrow> 'x driver_hooks \<Rightarrow> 'x driver_node \<Rightarrow> 'x driver_node \<Rightarrow> bool"
  for lib :: client_lib and hooks :: "'x driver_hooks" where
  drun_nil: "driver_run lib hooks d d"
| drun_call: "driver_run lib hooks d d1 \<Longrightarrow> driver_run lib hooks d (snd (driver_exec lib hooks c d1))"

lemma driver_run_trans:
  "driver_run lib hooks d1 d2 \<Longrightarrow> driver_run lib hooks d d1 \<Longrightarrow> driver_run lib hooks d d2"
  by (induction rule: driver_run.induct) (auto intro: driver_run.intros)

lemma driver_run_step:
  assumes "driver_exec lib hooks c d = (r, d')"
  shows "driver_run lib hooks d d'"
  using drun_call[OF drun_nil, of lib hooks d c] assms by simp

text \<open>What the container does to a driver that asks for the master: nothing, or handing it over.\<close>

definition demand_ok :: "(nat \<Rightarrow> 'x demand) \<Rightarrow> bool" where
  "demand_ok env \<longleftrightarrow> (\<forall>i d. \<exists>m. snd (snd (env i)) d \<in> {d, snd (driver_set_master m d)})"

lemma demand_attempts_run:
  assumes "\<And>a d. a \<in> set as \<Longrightarrow> \<exists>m. snd (snd a) d \<in> {d, snd (driver_set_master m d)}"
  shows "demand_attempts as d = Some (r, d') \<Longrightarrow> driver_run lib hooks d d' \<and>
    (r = Inr () \<longrightarrow> (\<exists>a \<in> set as. fst (snd a)))"
  using assms
proof (induction "as" arbitrary: d)
  case Nil
  then show ?case by (auto simp: driver_throw_def intro: drun_nil)
next
  case (Cons a as)
  obtain polls ready eff where a: "a = (polls, ready, eff)"
    by (metis prod_cases3)
  have eff: "driver_run lib hooks x (eff x)" for x
  proof -
    obtain m where "eff x = x \<or> eff x = snd (driver_exec lib hooks (Call_set_master m) x)"
      using Cons.prems(2)[of a x] a by auto
    then show ?thesis
      using drun_nil[of lib hooks x] drun_call[OF drun_nil, of lib hooks x "Call_set_master m"] by metis
  qed
  obtain r1 d1 where dem: "demand_set_master polls (ready, eff) d = Some (r1, d1)"
    using Cons.prems(1) a by (cases "demand_set_master polls (ready, eff) d") auto
  have run1: "driver_run lib hooks d d1"
    using dem eff[of d] drun_nil[of lib hooks d]
    by (auto simp: demand_set_master_def driver_throw_def split: if_split_asm)
  show ?case
  proof (cases r1)
    case (Inr u)
    then have "ready"
      using dem by (auto simp: demand_set_master_def driver_throw_def split: if_split_asm)
    with Inr run1 dem a Cons.prems(1) show ?thesis by auto
  next
    case (Inl e)
    then have "demand_attempts as d1 = Some (r, d')"
      using dem a Cons.prems(1) by simp
    from Cons.IH[OF this] Cons.prems(2) have "driver_run lib hooks d1 d'"
      "r = Inr () \<longrightarrow> (\<exists>a \<in> set as. fst (snd a))" by auto
    with run1 show ?thesis
      by (auto intro: driver_run_trans)
  qed
qed

lemma demand_master_run:
  assumes "demand_ok env" "demand_master env d = Some (r, d')"
  shows "driver_run lib hooks d d'" "r = Inr () \<Longrightarrow> \<exists>i < 5. fst (snd (env i))"
proof -
  have "demand_attempts (map env [0..<5]) d = Some (r, d')"
    using assms(2) by (simp only: demand_master_def)
  note R = demand_attempts_run[OF _ this, of lib hooks]
  have eff: "\<exists>m. snd (snd a) x \<in> {x, snd (driver_set_master m x)}" if "a \<in> set (map env [0..<5])" for a x
    using assms(1) that by (auto simp: demand_ok_def)
  show "driver_run lib hooks d d'" "r = Inr () \<Longrightarrow> \<exists>i < 5. fst (snd (env i))"
    using R[OF eff] by auto
qed

context driver_env
begin

lemma driver_exec_ok: "driver_ok d \<Longrightarrow> driver_ok (snd (driver_exec lib hooks c d))"
proof (cases c)
  case Call_deactivate
  assume "driver_ok d"
  with Call_deactivate driver_deactivate_result(1)[of d "fst (driver_deactivate hooks d)"
      "snd (driver_deactivate hooks d)"] show ?thesis by simp
qed (simp_all add: driver_init_ok driver_configure_ok driver_set_master_ok driver_activate_ok
    driver_cleanup_ok driver_shutdown_ok)

lemma driver_run_ok: "driver_run lib hooks d d' \<Longrightarrow> driver_ok d \<Longrightarrow> driver_ok d'"
  by (induction rule: driver_run.induct) (simp_all add: driver_exec_ok)

lemma driver_activate_result:
  assumes "driver_activate hooks d = (r, d')" "\<not> activated d"
  shows "if r = Inr () then activated d' \<and> configured d' \<and> master_set d' else \<not> activated d'"
proof -
  obtain r1 d1 where add: "add_to_master hooks d = (r1, d1)" by fastforce
  obtain r2 d2 where act: "h_activate hooks d1 = (r2, d2)" by fastforce
  show ?thesis
    using assms add act same_flags_trans[OF add_flags[OF add] activate_flags[OF act]] add_flags[OF add]
    by (cases r1; cases r2)
      (auto simp: driver_activate_def driver_throw_def same_flags_def split: if_split_asm)
qed

text \<open>The states on the way of \<open>CanopenDriver::init\<close> are not active before the last step.\<close>

lemma driver_init_inactive: "driver_init lib hooks d = (r, d') \<Longrightarrow> \<not> activated d \<Longrightarrow> \<not> activated d'"
proof -
  assume run: "driver_init lib hooks d = (r, d')" and "\<not> activated d"
  obtain r1 d1 where decl: "driver_declare lib (d\<lparr>callback_groups := True\<rparr>) = (r1, d1)" by fastforce
  obtain r2 d2 where init: "h_init hooks d1 = (r2, d2)" by fastforce
  show "\<not> activated d'"
    using run \<open>\<not> activated d\<close> decl init driver_declare_result(1)[OF decl] init_flags[OF init]
    by (cases r1; cases r2) (auto simp: driver_init_def driver_throw_def same_flags_def split: if_split_asm)
qed

lemma driver_configure_inactive: "driver_configure lib hooks d = (r, d') \<Longrightarrow> \<not> activated d \<Longrightarrow> \<not> activated d'"
proof -
  assume run: "driver_configure lib hooks d = (r, d')" and "\<not> activated d"
  obtain r1 d1 where read: "driver_read_config lib d = (r1, d1)" by fastforce
  obtain r2 d2 where conf: "h_configure hooks d1 = (r2, d2)" by fastforce
  show "\<not> activated d'"
    using run \<open>\<not> activated d\<close> read conf driver_read_config_flags[OF read] configure_flags[OF conf]
    by (cases r1; cases r2) (auto simp: driver_configure_def driver_throw_def same_flags_def split: if_split_asm)
qed

lemma demand_attempts_inactive:
  assumes "\<And>a d. a \<in> set as \<Longrightarrow> \<exists>m. snd (snd a) d \<in> {d, snd (driver_set_master m d)}"
  shows "demand_attempts as d = Some (r, d') \<Longrightarrow> \<not> activated d \<Longrightarrow> \<not> activated d'"
  using assms
proof (induction "as" arbitrary: d)
  case Nil
  then show ?case by (simp add: driver_throw_def)
next
  case (Cons a as)
  obtain polls ready eff where a: "a = (polls, ready, eff)"
    by (metis prod_cases3)
  have eff: "activated (eff x) = activated x" for x
    using Cons.prems(3)[of a x] a by (auto simp: driver_set_master_def driver_throw_def split: if_splits)
  obtain r1 d1 where dem: "demand_set_master polls (ready, eff) d = Some (r1, d1)"
    using Cons.prems(1) a by (cases "demand_set_master polls (ready, eff) d") auto
  have idle: "\<not> activated d1"
    using dem Cons.prems(2) eff[of d]
    by (auto simp: demand_set_master_def driver_throw_def split: if_split_asm)
  show ?case
  proof (cases r1)
    case (Inr u)
    with dem a Cons.prems(1) idle show ?thesis by simp
  next
    case (Inl e)
    have rest: "demand_attempts as d1 = Some (r, d')"
      using Inl dem a Cons.prems(1) by simp
    show ?thesis
      by (rule Cons.IH[OF rest idle]) (rule Cons.prems(3), simp)
  qed
qed

lemma CanopenDriver_init_result:
  assumes "demand_ok env" "\<not> activated d" "CanopenDriver_init lib hooks env d = Some (r, d')"
  shows "driver_run lib hooks d d' \<and> (if r = Inr () then activated d' \<and> configured d' \<and> master_set d' \<and>
    (\<exists>i < 5. fst (snd (env i))) else \<not> activated d')"
proof -
  obtain r1 d1 where init: "driver_init lib hooks d = (r1, d1)" by fastforce
  have run1: "driver_run lib hooks d d1"
    by (rule driver_run_step[where c = Call_init]) (simp add: init)
  have idle1: "\<not> activated d1"
    by (rule driver_init_inactive[OF init assms(2)])
  obtain r2 d2 where conf: "driver_configure lib hooks d1 = (r2, d2)" by fastforce
  have run2: "driver_run lib hooks d d2"
    by (rule driver_run_trans[OF driver_run_step[where c = Call_configure] run1]) (simp add: conf)
  have idle2: "\<not> activated d2"
    by (rule driver_configure_inactive[OF conf idle1])
  show ?thesis
  proof (cases "r1 = Inr () \<and> r2 = Inr ()")
    case False
    with assms(3) init conf run1 run2 idle1 idle2 show ?thesis
      by (cases r1; cases r2) (auto simp: CanopenDriver_init_def)
  next
    case True
    obtain r3 d3 where dem: "demand_master env d2 = Some (r3, d3)"
      using assms(3) True init conf by (cases "demand_master env d2") (auto simp: CanopenDriver_init_def)
    have run3: "driver_run lib hooks d d3"
      by (rule driver_run_trans[OF demand_master_run(1)[OF assms(1) dem] run2])
    have attempts: "demand_attempts (map env [0..<5]) d2 = Some (r3, d3)"
      using dem by (simp only: demand_master_def)
    have eff: "\<exists>m. snd (snd a) x \<in> {x, snd (driver_set_master m x)}" if "a \<in> set (map env [0..<5])" for a x
      using assms(1) that by (auto simp: demand_ok_def)
    have idle3: "\<not> activated d3"
      by (rule demand_attempts_inactive[OF eff attempts idle2])
    obtain r4 d4 where act: "driver_activate hooks d3 = (r4, d4)" by fastforce
    have run4: "driver_run lib hooks d d4"
      by (rule driver_run_trans[OF driver_run_step[where c = Call_activate] run3]) (simp add: act)
    show ?thesis
      using assms(3) True init conf dem act run3 run4 idle3 driver_activate_result[OF act idle3]
        demand_master_run(2)[OF assms(1) dem]
      by (cases r3) (auto simp: CanopenDriver_init_def)
  qed
qed

end

text \<open>A driver whose teardown does not fail: the executor answers in time, and what \<open>activate\<close>
  started (\<open>running\<close>) is there to be stopped.\<close>

locale reliable_driver = driver_env lib hooks for lib :: client_lib and hooks :: "'x driver_hooks" +
  fixes running :: "'x \<Rightarrow> bool"
  assumes activate_running: "h_activate hooks d = (Inr (), d') \<Longrightarrow> running (derived d')"
    and remove_returns: "running (derived d) \<Longrightarrow>
      \<exists>d'. remove_from_master hooks d = (Inr (), d') \<and> running (derived d')"
    and deactivate_returns: "running (derived d) \<Longrightarrow> fst (h_deactivate hooks d) = Inr ()"
    and cleanup_returns: "fst (h_cleanup hooks d) = Inr ()"
    and shutdown_returns: "fst (h_shutdown hooks d) = Inr ()"
begin

definition live :: "'x driver_node \<Rightarrow> bool" where
  "live d \<longleftrightarrow> driver_ok d \<and> (activated d \<longrightarrow> running (derived d))"

lemma driver_shutdown_inactive:
  assumes "driver_ok d"
  shows "\<not> activated (snd (driver_shutdown hooks d))"
proof -
  obtain r1 d1 where de: "(if activated d then driver_deactivate hooks d else (Inr (), d)) = (r1, d1)"
    by fastforce
  have ok1: "driver_ok d1" and idle1: "\<not> activated d1"
    using assms driver_deactivate_result[OF assms, of r1 d1] de by (auto split: if_split_asm)
  obtain r2 d2 where clean: "(if configured d1 then driver_cleanup hooks d1 else (Inr (), d1)) = (r2, d2)"
    by fastforce
  have idle2: "\<not> activated d2"
    using idle1 driver_cleanup_result[OF _ ok1 _ idle1, of r2 d2] clean by (auto split: if_split_asm)
  obtain r3 d3 where shut: "h_shutdown hooks d2 = (r3, d3)" by fastforce
  show ?thesis
    using idle1 idle2 shutdown_flags[OF shut] de clean shut
    by (cases r1; cases r2; cases r3) (simp_all add: driver_shutdown_def same_flags_def)
qed

lemma driver_activate_live:
  assumes "live d"
  shows "live (snd (driver_activate hooks d))"
proof -
  obtain r1 d1 where add: "add_to_master hooks d = (r1, d1)" by fastforce
  obtain r2 d2 where act: "h_activate hooks d1 = (r2, d2)" by fastforce
  have "driver_ok (snd (driver_activate hooks d))"
    using assms driver_activate_ok by (simp add: live_def)
  then show ?thesis
    using assms add act activate_running[of d1 d2] add_flags[OF add] activate_flags[OF act]
    by (cases r1; cases r2) (auto simp: live_def driver_activate_def driver_throw_def same_flags_def)
qed

lemma driver_exec_live:
  assumes "live d"
  shows "live (snd (driver_exec lib hooks c d))"
proof -
  have ok: "driver_ok (snd (driver_exec lib hooks c d))"
    using assms driver_exec_ok by (simp add: live_def)
  show ?thesis
  proof (cases "c = Call_activate")
    case True
    with assms driver_activate_live show ?thesis by simp
  next
    case False
    have "\<not> activated (snd (driver_exec lib hooks c d)) \<or> snd (driver_exec lib hooks c d) = d"
    proof (cases "activated d")
      case act: True
      have "driver_ok d" using assms by (simp add: live_def)
      with act False driver_deactivate_result(2)[of d "fst (driver_deactivate hooks d)"
          "snd (driver_deactivate hooks d)"] driver_shutdown_inactive[of d] show ?thesis
        by (cases c) (auto simp: driver_init_def driver_configure_def driver_set_master_def
            driver_cleanup_def driver_throw_def driver_ok_def)
    next
      case idle: False
      have ok0: "driver_ok d" using assms by (simp add: live_def)
      show ?thesis
      proof (cases c)
        case Call_init
        with driver_init_inactive[OF surjective_pairing idle] show ?thesis by simp
      next
        case Call_configure
        with driver_configure_inactive[OF surjective_pairing idle] show ?thesis by simp
      next
        case (Call_set_master m)
        with idle show ?thesis by (simp add: driver_set_master_def driver_throw_def)
      next
        case Call_activate
        with False show ?thesis by simp
      next
        case Call_deactivate
        with idle show ?thesis by (simp add: driver_deactivate_def driver_throw_def)
      next
        case Call_cleanup
        with idle ok0 driver_cleanup_result[OF surjective_pairing ok0 _ idle] show ?thesis
          by (cases "configured d") (simp_all add: driver_cleanup_def driver_throw_def)
      next
        case Call_shutdown
        with driver_shutdown_inactive[OF ok0] show ?thesis by simp
      qed
    qed
    with ok assms show ?thesis by (auto simp: live_def)
  qed
qed

lemma driver_run_live: "driver_run lib hooks d d' \<Longrightarrow> live d \<Longrightarrow> live d'"
  by (induction rule: driver_run.induct) (simp_all add: driver_exec_live)

lemma driver_deactivate_returns:
  assumes "live d" "activated d"
  shows "\<exists>d'. driver_deactivate hooks d = (Inr (), d')"
proof -
  let ?d0 = "d\<lparr>activated := False\<rparr>"
  have "running (derived ?d0)"
    using assms by (simp add: live_def)
  then obtain d1 where rem: "remove_from_master hooks ?d0 = (Inr (), d1)" "running (derived d1)"
    using remove_returns by blast
  obtain r2 d2 where de: "h_deactivate hooks d1 = (r2, d2)" by fastforce
  have "r2 = Inr ()"
    using deactivate_returns[OF rem(2)] de by simp
  with assms rem de show ?thesis
    by (auto simp: driver_deactivate_def driver_ok_def live_def)
qed

lemma driver_cleanup_returns:
  assumes "driver_ok d" "configured d" "\<not> activated d"
  shows "\<exists>d'. driver_cleanup hooks d = (Inr (), d')"
proof -
  obtain r1 d1 where clean: "h_cleanup hooks d = (r1, d1)" by fastforce
  then have "r1 = Inr ()"
    using cleanup_returns[of d] by simp
  with assms clean show ?thesis
    by (auto simp: driver_cleanup_def driver_ok_def)
qed

text \<open>\<open>shutdown\<close> succeeds from every well-formed state and is final: the parameters of the node
  stay declared, so \<open>init\<close> throws from then on.\<close>

lemma driver_shutdown_returns:
  assumes "live d"
  shows "\<exists>d'. driver_shutdown hooks d = (Inr (), d') \<and> \<not> activated d' \<and> \<not> configured d' \<and>
    \<not> initialised d' \<and> \<not> master_set d' \<and> exec_master d' = None"
proof -
  have ok: "driver_ok d" using assms by (simp add: live_def)
  obtain d1 where de: "(if activated d then driver_deactivate hooks d else (Inr (), d)) = (Inr (), d1)"
      and ok1: "driver_ok d1" and idle1: "\<not> activated d1"
  proof (cases "activated d")
    case True
    obtain d1 where "driver_deactivate hooks d = (Inr (), d1)"
      using driver_deactivate_returns[OF assms True] by blast
    with driver_deactivate_result[OF ok this] True show thesis by (intro that[of d1]) simp_all
  next
    case False
    with ok show thesis by (intro that[of d]) simp_all
  qed
  obtain d2 where clean: "(if configured d1 then driver_cleanup hooks d1 else (Inr (), d1)) = (Inr (), d2)"
      and ok2: "driver_ok d2" and idle2: "\<not> configured d2"
  proof (cases "configured d1")
    case True
    obtain d2 where "driver_cleanup hooks d1 = (Inr (), d2)"
      using driver_cleanup_returns[OF ok1 True idle1] by blast
    with driver_cleanup_result[OF this ok1 True idle1] True show thesis by (intro that[of d2]) simp_all
  next
    case False
    with ok1 show thesis by (intro that[of d1]) simp_all
  qed
  obtain r3 d3 where shut: "h_shutdown hooks d2 = (r3, d3)" by fastforce
  have "r3 = Inr ()"
    using shutdown_returns[of d2] shut by simp
  moreover have "exec_master d3 = None"
    using shutdown_flags[OF shut] ok2 idle2 by (auto simp: driver_ok_def same_flags_def)
  ultimately show ?thesis
    using de clean shut by (simp add: driver_shutdown_def)
qed

end

text \<open>Declared parameters stay, so a node that was initialised once cannot be initialised again.\<close>

definition params_grow :: "'x driver_node \<Rightarrow> 'x driver_node \<Rightarrow> bool" where
  "params_grow d d' \<longleftrightarrow> declared (dn_params d) \<subseteq>\<^sub>m declared (dn_params d')"

lemma params_grow_refl [simp]: "params_grow d d"
  by (simp add: params_grow_def)

lemma params_grow_trans: "params_grow d d1 \<Longrightarrow> params_grow d1 d2 \<Longrightarrow> params_grow d d2"
  by (auto simp: params_grow_def intro: map_le_trans)

lemma same_flags_grow: "same_flags d d' \<Longrightarrow> params_grow d d'"
  by (simp add: same_flags_def params_grow_def)

lemma params_grow_bind:
  assumes "params_grow d (snd p)" "\<And>a s. params_grow s (snd (k a s))"
  shows "params_grow d (snd (bindE p k))"
proof (rule bindE_state[where P = "params_grow d"])
  show "params_grow d (snd p)" by (rule assms(1))
  show "params_grow d (snd (k a s))" if "params_grow d s" for a s
    by (rule params_grow_trans[OF that assms(2)])
qed

lemma params_grow_fields [simp]:
  "params_grow d (d'\<lparr>initialised := a\<rparr>) = params_grow d d'"
  "params_grow d (d'\<lparr>configured := a\<rparr>) = params_grow d d'"
  "params_grow d (d'\<lparr>activated := a\<rparr>) = params_grow d d'"
  "params_grow d (d'\<lparr>master_set := a\<rparr>) = params_grow d d'"
  "params_grow d (d'\<lparr>exec_master := h\<rparr>) = params_grow d d'"
  "params_grow (d\<lparr>activated := a\<rparr>) d' = params_grow d d'"
  "params_grow (d\<lparr>callback_groups := a\<rparr>) d' = params_grow d d'"
  by (simp_all add: params_grow_def)

context driver_env
begin

lemma hooks_grow:
  "params_grow d (snd (h_init hooks d))" "params_grow d (snd (h_configure hooks d))"
  "params_grow d (snd (h_activate hooks d))" "params_grow d (snd (h_deactivate hooks d))"
  "params_grow d (snd (h_shutdown hooks d))" "params_grow d (snd (add_to_master hooks d))"
  "params_grow d (snd (remove_from_master hooks d))" "params_grow d (snd (h_cleanup hooks d))"
proof -
  have clean: "params_grow (snd (base_cleanup d)) x \<Longrightarrow> params_grow d x" for x
    by (simp add: base_cleanup_def params_grow_def)
  show "params_grow d (snd (h_cleanup hooks d))"
    using cleanup_flags[of d "fst (h_cleanup hooks d)" "snd (h_cleanup hooks d)"]
    by (auto intro: clean same_flags_grow)
  show "params_grow d (snd (h_init hooks d))"
    by (rule same_flags_grow, rule init_flags, rule surjective_pairing)
  show "params_grow d (snd (h_configure hooks d))"
    by (rule same_flags_grow, rule configure_flags, rule surjective_pairing)
  show "params_grow d (snd (h_activate hooks d))"
    by (rule same_flags_grow, rule activate_flags, rule surjective_pairing)
  show "params_grow d (snd (h_deactivate hooks d))"
    by (rule same_flags_grow, rule deactivate_flags, rule surjective_pairing)
  show "params_grow d (snd (h_shutdown hooks d))"
    by (rule same_flags_grow, rule shutdown_flags, rule surjective_pairing)
  show "params_grow d (snd (add_to_master hooks d))"
    by (rule same_flags_grow, rule add_flags, rule surjective_pairing)
  show "params_grow d (snd (remove_from_master hooks d))"
    by (rule same_flags_grow, rule remove_flags, rule surjective_pairing)
qed

lemma driver_deactivate_grow: "params_grow d (snd (driver_deactivate hooks d))"
proof -
  have "params_grow d (snd (bindE (remove_from_master hooks (d\<lparr>activated := False\<rparr>))
      (\<lambda>u d1. h_deactivate hooks d1)))"
    by (rule params_grow_bind) (use hooks_grow(7)[of "d\<lparr>activated := False\<rparr>"] hooks_grow(4) in simp_all)
  then show ?thesis
    by (simp add: driver_deactivate_def driver_throw_def)
qed

lemma driver_cleanup_grow: "params_grow d (snd (driver_cleanup hooks d))"
proof -
  have "params_grow d (snd (bindE (h_cleanup hooks d) (\<lambda>u d1. (Inr (), d1\<lparr>configured := False\<rparr>))))"
    by (rule params_grow_bind) (simp_all add: hooks_grow(8))
  then show ?thesis
    by (simp add: driver_cleanup_def driver_throw_def)
qed

lemma driver_shutdown_grow: "params_grow d (snd (driver_shutdown hooks d))"
proof -
  let ?clear = "\<lambda>x. x\<lparr>master_set := False, initialised := False, configured := False, activated := False\<rparr>"
  have last: "params_grow x (snd (bindE (h_shutdown hooks x) (\<lambda>u d3. (Inr (), ?clear d3))))" for x
  proof (rule params_grow_bind[OF hooks_grow(5)])
    show "params_grow y (snd (Inr (), ?clear y))" for y
      by (simp add: params_grow_def)
  qed
  have clean: "params_grow x (snd (if configured x then driver_cleanup hooks x else (Inr (), x)))" for x
    using driver_cleanup_grow[of x] by (cases "configured x") simp_all
  have de: "params_grow d (snd (if activated d then driver_deactivate hooks d else (Inr (), d)))"
    using driver_deactivate_grow[of d] by (cases "activated d") simp_all
  show ?thesis
    unfolding driver_shutdown_def by (rule params_grow_bind[OF de], rule params_grow_bind[OF clean], rule last)
qed

lemma driver_init_again:
  assumes "driver_ok d" "initialised d" "params_grow d d'"
  shows "\<exists>e. fst (driver_init lib hooks d') = Inl e"
proof -
  have "dom (declared (dn_params d)) \<subseteq> dom (declared (dn_params d'))"
    using assms(3) by (simp add: params_grow_def map_le_implies_dom_le)
  moreover have "''container_name'' \<in> dom (declared (dn_params d))"
    using assms(1,2) by (auto simp: driver_ok_def driver_defaults_def)
  ultimately have "''container_name'' \<in> dom (declared (dn_params d'))"
    by blast
  from declare_parameters_again[OF this, of "P_string []"]
  obtain e t where "declare_parameters lib driver_defaults (dn_params d') = (Inl e, t)"
    unfolding driver_defaults_def by blast
  then show ?thesis
    by (simp add: driver_init_def driver_throw_def driver_declare_def)
qed

end

end
