(* ===== verification/BaseDriver.thy ===== *)
theory BaseDriver
  imports DriverNode Diagnostics Bridge
begin

text \<open>
  The base driver (\<open>canopen_base_driver\<close>, \<open>node_canopen_base_driver.hpp\<close> and its implementation):
  it puts a lely driver bridge under the life cycle of \<open>DriverNode\<close>, forwards NMT states, RPDOs and
  emergencies to callbacks, and keeps the diagnostics.
\<close>

subsection \<open>State\<close>

text \<open>A callback works on the rest of the process, \<open>'e\<close>, which also holds what the derived
  drivers add. The queues belong to the bridge; the driver holds pointers to them
  (\<open>queues_held\<close>), which keep them alive (\<open>orphans\<close>) when the bridge is gone.\<close>

datatype timer = Running nat | Cancelled

record ('d, 'n, 'e) base_driver =
  lely_driver :: "('d, 'n) bridge option"
  nmt_thread :: bool
  period_ms :: nat
  sdo_timeout_ms :: int
  boot_timeout_ms :: int
  polling :: bool
  nmt_state_cb :: "(NmtState \<Rightarrow> u8 \<Rightarrow> 'e \<Rightarrow> ('e, unit) outcome) option"
  rpdo_cb :: "(COData \<Rightarrow> u8 \<Rightarrow> 'e \<Rightarrow> ('e, unit) outcome) option"
  emcy_cb :: "(COEmcy \<Rightarrow> u8 \<Rightarrow> 'e \<Rightarrow> ('e, unit) outcome) option"
  queues_held :: bool
  orphans :: "COEmcy list \<times> COData list"
  poll_timer :: "timer option"
  diagnostic_enabled :: bool
  diagnostic_period_ms :: nat
  updater_id :: "string option"
  updater_tasks :: "string list"
  collector :: diagnostics
  ext :: 'e

type_synonym ('d, 'n, 'e) base_node = "('d, 'n, 'e) base_driver driver_node"

definition upd :: "('x \<Rightarrow> 'x) \<Rightarrow> 'x driver_node \<Rightarrow> 'x driver_node" where
  "upd f d = d\<lparr>derived := f (derived d)\<rparr>"

definition set_bridge :: "('d, 'n) bridge \<Rightarrow> ('d, 'n, 'e) base_node \<Rightarrow> ('d, 'n, 'e) base_node" where
  "set_bridge b d = upd (\<lambda>x. x\<lparr>lely_driver := Some b\<rparr>) d"

text \<open>What the driver meets when it runs: how the executor of the master treats posted functions,
  the dictionary that lely makes of the EDS and DCF files, the bridge before its constructor ran,
  whether lely reports the device as ready, and the wake-ups of each wait for the boot.\<close>

datatype posted = In_time | Late | Never

record ('d, 'n, 'e) base_env =
  env_add :: "('d, 'n, 'e) base_node \<Rightarrow> posted"
  env_remove :: "('d, 'n, 'e) base_node \<Rightarrow> posted"
  env_dict :: "string \<Rightarrow> string \<Rightarrow> 'd"
  env_raw :: "('d, 'n, 'e) base_node \<Rightarrow> ('d, 'n) bridge"
  env_ready :: "('d, 'n, 'e) base_node \<Rightarrow> bool"
  env_boots :: "('d, 'n, 'e) base_node \<Rightarrow> nat \<Rightarrow> ('d, 'n) bridge wakeups"
  env_sync :: "'n \<Rightarrow> (exn + unit) \<times> 'n"

subsection \<open>Life cycle\<close>

definition NodeCanopenBaseDriver_new :: "('d, 'n, 'e) base_node \<Rightarrow> ('d, 'n, 'e) base_node" where
  "NodeCanopenBaseDriver_new d =
    upd (\<lambda>x. x\<lparr>lely_driver := None, nmt_thread := False, nmt_state_cb := None, rpdo_cb := None,
                emcy_cb := None, queues_held := False, poll_timer := None, diagnostic_enabled := False,
                updater_id := None, updater_tasks := [], collector := DiagnosticsCollector_init\<rparr>)
      (NodeCanopenDriver_new d)"

text \<open>\<open>configure\<close>, the same for both kinds of nodes. Entries that are missing or of another type
  take their defaults.\<close>

definition configure_base :: "yaml \<Rightarrow> u8 \<Rightarrow> ('d, 'n, 'e) base_driver \<Rightarrow> ('d, 'n, 'e) base_driver" where
  "configure_base doc nid x =
    (let x1 = x\<lparr>polling := or_default (as_bool doc [''polling'']) True\<rparr>;
         x2 = (if polling x1 then x1\<lparr>period_ms := or_default (as_uint doc [''period'']) 10\<rparr> else x1);
         x3 = x2\<lparr>diagnostic_enabled := or_default (as_bool doc [''diagnostics'', ''enable'']) False\<rparr>;
         x4 = (if diagnostic_enabled x3
               then x3\<lparr>diagnostic_period_ms := or_default (as_uint doc [''diagnostics'', ''period'']) 1000,
                       updater_id := Some (show_nat (unat nid)), updater_tasks := []\<rparr>
               else x3)
     in x4\<lparr>sdo_timeout_ms := or_default (as_int doc [''sdo_timeout_ms'']) 20,
           boot_timeout_ms := or_default (as_int doc [''boot_timeout_ms'']) 1000\<rparr>)"

definition base_configure :: "('d, 'n, 'e) base_node \<Rightarrow> (('d, 'n, 'e) base_node, unit) outcome" where
  "base_configure d =
    (let doc = dn_config d;
         d1 = d\<lparr>non_transmit_timeout := or_default (as_int doc [''non_transmit_timeout'']) (non_transmit_timeout d)\<rparr>
     in (Inr (), upd (configure_base doc (dn_node_id d1)) d1))"

text \<open>\<open>activate\<close>. Assigning to a thread that is still joinable ends the process.\<close>

definition base_activate ::
  "('d, 'n, 'e) base_env \<Rightarrow> ('d, 'n, 'e) base_node \<Rightarrow> (('d, 'n, 'e) base_node, unit) outcome" where
  "base_activate env d =
    (if nmt_thread (derived d) then (Inl (Terminated ''assignment to a joinable thread''), d)
     else (let d1 = upd (\<lambda>x. x\<lparr>nmt_thread := True, queues_held := True, orphans := ([], [])\<rparr>) d;
               d2 = (if polling (derived d1)
                     then upd (\<lambda>x. x\<lparr>poll_timer := Some (Running (period_ms x))\<rparr>) d1
                     else upd (\<lambda>x. x\<lparr>lely_driver := map_option (set_sync_function (env_sync env)) (lely_driver x)\<rparr>) d1);
               d3 = (if diagnostic_enabled (derived d2)
                     then upd (\<lambda>x. x\<lparr>updater_tasks := updater_tasks x @ [''diagnostic updater'']\<rparr>) d2 else d2)
           in (Inr (), d3)))"

definition base_deactivate :: "('d, 'n, 'e) base_node \<Rightarrow> (('d, 'n, 'e) base_node, unit) outcome" where
  "base_deactivate d =
    (if \<not> nmt_thread (derived d) then (Inl (System_error 22 ''Invalid argument''), d)
     else (let d1 = upd (\<lambda>x. x\<lparr>nmt_thread := False\<rparr>) d;
               d2 = (if poll_timer (derived d1) \<noteq> None then upd (\<lambda>x. x\<lparr>poll_timer := Some Cancelled\<rparr>) d1 else d1);
               d3 = upd (\<lambda>x. x\<lparr>queues_held := False, orphans := ([], [])\<rparr>) d2;
               d4 = (if diagnostic_enabled (derived d3)
                     then upd (\<lambda>x. x\<lparr>updater_tasks := removeAll ''diagnostic updater'' (updater_tasks x)\<rparr>) d3 else d3)
           in (Inr (), d4)))"

subsection \<open>Adding the device to the master\<close>

definition RESET_NODE_command :: nat where "RESET_NODE_command = 0x81"
definition START_command :: nat where "START_command = 0x01"

definition max_boot_attempts :: nat where "max_boot_attempts = 3"

text \<open>The loop over the boot attempts: what each one meets is \<open>script\<close>, attempts count from 1. Between
  two attempts the node is reset and booted again. The result says whether the boot succeeded and
  after how many attempts.\<close>

function boot_loop ::
  "'n network \<Rightarrow> (nat \<Rightarrow> ('d, 'n) bridge wakeups) \<Rightarrow> nat \<Rightarrow> ('d, 'n) bridge \<Rightarrow> bool \<times> nat \<times> ('d, 'n) bridge" where
  "boot_loop nops script attempts b =
    (if max_boot_attempts \<le> attempts then (False, attempts, b)
     else (case wait_for_boot (script (attempts + 1)) b of
             (Inr r, b1) \<Rightarrow> (True, attempts + 1, b1)
           | (Inl e, b1) \<Rightarrow>
               (if attempts + 1 < max_boot_attempts
                then boot_loop nops script (attempts + 1) (Boot nops (nmt_command nops RESET_NODE_command b1))
                else (False, attempts + 1, b1))))"
  by pat_completeness auto
termination
  by (relation "measure (\<lambda>(nops, script, attempts, b). max_boot_attempts - attempts)")
    (auto simp: max_boot_attempts_def)

declare boot_loop.simps [simp del]

definition make_bridge ::
  "'d dict_ops \<Rightarrow> ('d, 'n, 'e) base_env \<Rightarrow> ('d, 'n, 'e) base_node \<Rightarrow> ('d, 'n) bridge" where
  "make_bridge dops env d = bridge_new dops (env_dict env (eds d) (bin d)) (dn_node_id d) (env_raw env d)"

definition base_add_to_master ::
  "'d dict_ops \<Rightarrow> 'n network \<Rightarrow> ('d, 'n, 'e) base_env \<Rightarrow> ('d, 'n, 'e) base_node
   \<Rightarrow> (('d, 'n, 'e) base_node, unit) outcome" where
  "base_add_to_master dops nops env d =
    (let b = make_bridge dops env d in
     case env_add env d of
       Never \<Rightarrow> (Inl (Driver_exception ''add_to_master: adding timed out''), d)
     | Late \<Rightarrow> (Inl (Driver_exception ''add_to_master: adding timed out''), set_bridge b d)
     | In_time \<Rightarrow>
         (let (booted_up, attempts, b1) = (if env_ready env d then (True, 0, b)
                                           else boot_loop nops (env_boots env d) 0 b);
              d1 = set_bridge b1 d
          in if \<not> booted_up
             then (Inl (Driver_exception (''Boot failed after '' @ show_nat attempts @ '' attempts'')), d1)
             else (Inr (), if diagnostic_enabled (derived d1)
                           then upd (\<lambda>x. x\<lparr>collector := diag_updateAll DIAG_OK ''Device ready'' ''DEVICE''
                                  ''Added to master.'' (collector x)\<rparr>) d1
                           else d1)))"

text \<open>The posted function drops the bridge; queues that the driver still points to survive.\<close>

definition drop_bridge :: "('d, 'n, 'e) base_driver \<Rightarrow> ('d, 'n, 'e) base_driver" where
  "drop_bridge x =
    x\<lparr>lely_driver := None,
      orphans := (case lely_driver x of
                    Some b \<Rightarrow> if queues_held x then (emcy_queue b, rpdo_queue b) else orphans x
                  | None \<Rightarrow> orphans x)\<rparr>"

definition base_remove_from_master ::
  "('d, 'n, 'e) base_env \<Rightarrow> ('d, 'n, 'e) base_node \<Rightarrow> (('d, 'n, 'e) base_node, unit) outcome" where
  "base_remove_from_master env d =
    (case env_remove env d of
       Never \<Rightarrow> (Inl (Driver_exception ''remove_from_master: removing timed out''), d)
     | Late \<Rightarrow> (Inl (Driver_exception ''remove_from_master: removing timed out''), upd drop_bridge d)
     | In_time \<Rightarrow>
         (let d1 = upd drop_bridge d in
          (Inr (), if diagnostic_enabled (derived d1)
                   then upd (\<lambda>x. x\<lparr>collector := diag_updateAll DIAG_ERROR ''Device removed'' ''DEVICE''
                          ''Removed from master.'' (collector x)\<rparr>) d1
                   else d1)))"

definition base_hooks ::
  "'d dict_ops \<Rightarrow> 'n network \<Rightarrow> ('d, 'n, 'e) base_env \<Rightarrow> ('d, 'n, 'e) base_driver driver_hooks" where
  "base_hooks dops nops env =
    \<lparr>h_init = \<lambda>d. (Inr (), d), h_configure = base_configure, h_activate = base_activate env,
     h_deactivate = base_deactivate, h_cleanup = base_cleanup, h_shutdown = \<lambda>d. (Inr (), d),
     add_to_master = base_add_to_master dops nops env, remove_from_master = base_remove_from_master env\<rparr>"

subsection \<open>Callbacks\<close>

text \<open>The virtual functions a driver may override. \<open>None\<close> stands for the dereference of a null
  pointer.\<close>

record 'x virtuals =
  v_nmt :: "NmtState \<Rightarrow> 'x driver_node \<Rightarrow> ('x driver_node, unit) outcome"
  v_rpdo :: "COData \<Rightarrow> 'x driver_node \<Rightarrow> ('x driver_node, unit) outcome"
  v_emcy :: "COEmcy \<Rightarrow> 'x driver_node \<Rightarrow> ('x driver_node, unit) outcome"

definition emcy_text :: "COEmcy \<Rightarrow> string" where
  "emcy_text e = ''Emergency message: '' @ ''eec: '' @ show_nat (unat (eec e)) @ '' er: '' @
     show_nat (unat (er e)) @ '' msef: '' @ concat (map (\<lambda>b. show_nat (unat b) @ '' '') (msef e))"

definition base_on_emcy :: "COEmcy \<Rightarrow> ('d, 'n, 'e) base_node \<Rightarrow> (('d, 'n, 'e) base_node, unit) outcome" where
  "base_on_emcy e d =
    (Inr (), upd (\<lambda>x. x\<lparr>collector := diag_add ''EMCY'' (emcy_text e)
        (diag_summary DIAG_ERROR ''Emergency message received'' (collector x))\<rparr>) d)"

definition base_virtuals :: "('d, 'n, 'e) base_driver virtuals" where
  "base_virtuals = \<lparr>v_nmt = \<lambda>s d. (Inr (), d), v_rpdo = \<lambda>r d. (Inr (), d), v_emcy = base_on_emcy\<rparr>"

definition register_nmt_state_cb ::
  "(NmtState \<Rightarrow> u8 \<Rightarrow> 'e \<Rightarrow> ('e, unit) outcome) \<Rightarrow> ('d, 'n, 'e) base_node \<Rightarrow> ('d, 'n, 'e) base_node" where
  "register_nmt_state_cb f d = upd (\<lambda>x. x\<lparr>nmt_state_cb := Some f\<rparr>) d"

definition register_rpdo_cb ::
  "(COData \<Rightarrow> u8 \<Rightarrow> 'e \<Rightarrow> ('e, unit) outcome) \<Rightarrow> ('d, 'n, 'e) base_node \<Rightarrow> ('d, 'n, 'e) base_node" where
  "register_rpdo_cb f d = upd (\<lambda>x. x\<lparr>rpdo_cb := Some f\<rparr>) d"

definition register_emcy_cb ::
  "(COEmcy \<Rightarrow> u8 \<Rightarrow> 'e \<Rightarrow> ('e, unit) outcome) \<Rightarrow> ('d, 'n, 'e) base_node \<Rightarrow> ('d, 'n, 'e) base_node" where
  "register_emcy_cb f d = upd (\<lambda>x. x\<lparr>emcy_cb := Some f\<rparr>) d"

text \<open>\<open>if (cb) { cb(message, lely_driver_->get_id()); } on_message(message);\<close>\<close>

definition deliver ::
  "('m \<Rightarrow> u8 \<Rightarrow> 'e \<Rightarrow> ('e, unit) outcome) option
   \<Rightarrow> ('m \<Rightarrow> ('d, 'n, 'e) base_node \<Rightarrow> (('d, 'n, 'e) base_node, unit) outcome)
   \<Rightarrow> 'm \<Rightarrow> ('d, 'n, 'e) base_node \<Rightarrow> (('d, 'n, 'e) base_node, unit) outcome option" where
  "deliver cb virt m d =
    (case cb of
       None \<Rightarrow> Some (virt m d)
     | Some f \<Rightarrow>
         (case lely_driver (derived d) of
            None \<Rightarrow> None
          | Some b \<Rightarrow>
              (case f m (get_id b) (ext (derived d)) of
                 (Inl e, w) \<Rightarrow> Some (Inl e, upd (\<lambda>x. x\<lparr>ext := w\<rparr>) d)
               | (Inr u, w) \<Rightarrow> Some (virt m (upd (\<lambda>x. x\<lparr>ext := w\<rparr>) d)))))"

definition deliver_emcy ::
  "('d, 'n, 'e) base_driver virtuals \<Rightarrow> COEmcy \<Rightarrow> ('d, 'n, 'e) base_node
   \<Rightarrow> (('d, 'n, 'e) base_node, unit) outcome option" where
  "deliver_emcy virt m d = deliver (emcy_cb (derived d)) (v_emcy virt) m d"

definition deliver_rpdo ::
  "('d, 'n, 'e) base_driver virtuals \<Rightarrow> COData \<Rightarrow> ('d, 'n, 'e) base_node
   \<Rightarrow> (('d, 'n, 'e) base_node, unit) outcome option" where
  "deliver_rpdo virt m d = deliver (rpdo_cb (derived d)) (v_rpdo virt) m d"

definition deliver_nmt ::
  "('d, 'n, 'e) base_driver virtuals \<Rightarrow> NmtState \<Rightarrow> ('d, 'n, 'e) base_node
   \<Rightarrow> (('d, 'n, 'e) base_node, unit) outcome option" where
  "deliver_nmt virt m d = deliver (nmt_state_cb (derived d)) (v_nmt virt) m d"

text \<open>\<open>try_pop\<close> through the pointers of the driver.\<close>

definition pop_emcy :: "('d, 'n, 'e) base_node \<Rightarrow> (COEmcy option \<times> ('d, 'n, 'e) base_node) option" where
  "pop_emcy d =
    (if \<not> queues_held (derived d) then None
     else Some (case lely_driver (derived d) of
       Some b \<Rightarrow> (case try_pop list_queue (emcy_queue b) of (v, q) \<Rightarrow> (v, set_bridge (b\<lparr>emcy_queue := q\<rparr>) d))
     | None \<Rightarrow> (case try_pop list_queue (fst (orphans (derived d))) of
                  (v, q) \<Rightarrow> (v, upd (\<lambda>x. x\<lparr>orphans := (q, snd (orphans x))\<rparr>) d))))"

definition pop_rpdo :: "('d, 'n, 'e) base_node \<Rightarrow> (COData option \<times> ('d, 'n, 'e) base_node) option" where
  "pop_rpdo d =
    (if \<not> queues_held (derived d) then None
     else Some (case lely_driver (derived d) of
       Some b \<Rightarrow> (case try_pop list_queue (rpdo_queue b) of (v, q) \<Rightarrow> (v, set_bridge (b\<lparr>rpdo_queue := q\<rparr>) d))
     | None \<Rightarrow> (case try_pop list_queue (snd (orphans (derived d))) of
                  (v, q) \<Rightarrow> (v, upd (\<lambda>x. x\<lparr>orphans := (fst (orphans x), q)\<rparr>) d))))"

text \<open>At most \<open>n\<close> messages; an exception of a handler ends the loop, its message is gone.\<close>

fun poll_loop ::
  "nat \<Rightarrow> ('s \<Rightarrow> ('m option \<times> 's) option) \<Rightarrow> ('m \<Rightarrow> 's \<Rightarrow> ('s, unit) outcome option) \<Rightarrow> 's \<Rightarrow> 's option" where
  "poll_loop 0 pop handle s = Some s"
| "poll_loop (Suc n) pop handle s =
    (case pop s of
       None \<Rightarrow> None
     | Some (None, s1) \<Rightarrow> Some s1
     | Some (Some m, s1) \<Rightarrow>
         (case handle m s1 of
            None \<Rightarrow> None
          | Some (Inl e, s2) \<Rightarrow> Some s2
          | Some (Inr u, s2) \<Rightarrow> poll_loop n pop handle s2))"

definition poll_timer_callback ::
  "('d, 'n, 'e) base_driver virtuals \<Rightarrow> ('d, 'n, 'e) base_node \<Rightarrow> ('d, 'n, 'e) base_node option" where
  "poll_timer_callback virt d =
    (case poll_loop 10 pop_emcy (deliver_emcy virt) d of
       None \<Rightarrow> None
     | Some d1 \<Rightarrow> poll_loop 10 pop_rpdo (deliver_rpdo virt) d1)"

text \<open>The threads that wait for a message at a time. Each element of a script is what the others do
  during one period of waiting; at its end the thread is still running. The listeners of the
  queues leave when the driver is inactive and after an exception of a handler.\<close>

fun queue_listener ::
  "(('d, 'n, 'e) base_node \<Rightarrow> ('m option \<times> ('d, 'n, 'e) base_node) option)
   \<Rightarrow> ('m \<Rightarrow> ('d, 'n, 'e) base_node \<Rightarrow> (('d, 'n, 'e) base_node, unit) outcome option)
   \<Rightarrow> (('d, 'n, 'e) base_node \<Rightarrow> ('d, 'n, 'e) base_node) list \<Rightarrow> ('d, 'n, 'e) base_node
   \<Rightarrow> ('d, 'n, 'e) base_node option" where
  "queue_listener pop handle [] d = Some d"
| "queue_listener pop handle (f # fs) d =
    (case pop (f d) of
       None \<Rightarrow> None
     | Some (None, d1) \<Rightarrow> if activated d1 then queue_listener pop handle fs d1 else Some d1
     | Some (Some m, d1) \<Rightarrow>
         (case handle m d1 of
            None \<Rightarrow> None
          | Some (Inl e, d2) \<Rightarrow> Some d2
          | Some (Inr u, d2) \<Rightarrow> queue_listener pop handle fs d2))"

definition rdpo_listener where
  "rdpo_listener virt = queue_listener pop_rpdo (deliver_rpdo virt)"

definition emcy_listener where
  "emcy_listener virt = queue_listener pop_emcy (deliver_emcy virt)"

text \<open>\<open>nmt_listener\<close>: the promise of the bridge is renewed for each message; when the bridge is gone
  its promise is broken and the thread ends. Other exceptions of a handler leave the thread.\<close>

definition request_nmt :: "('d, 'n, 'e) base_node \<Rightarrow> ('d, 'n, 'e) base_node option" where
  "request_nmt d = map_option (\<lambda>b. set_bridge (async_request_nmt b) d) (lely_driver (derived d))"

fun nmt_wait ::
  "('d, 'n, 'e) base_driver virtuals \<Rightarrow> (('d, 'n, 'e) base_node \<Rightarrow> ('d, 'n, 'e) base_node) list
   \<Rightarrow> ('d, 'n, 'e) base_node \<Rightarrow> (('d, 'n, 'e) base_node, unit) outcome option" where
  "nmt_wait virt [] d = Some (Inr (), d)"
| "nmt_wait virt (f # fs) d =
    (let d1 = f d in
     case lely_driver (derived d1) of
       None \<Rightarrow> Some (Inr (), d1)
     | Some b \<Rightarrow>
         (case nmt_state_promise b of
            Unfulfilled \<Rightarrow> if activated d1 then nmt_wait virt fs d1 else Some (Inr (), d1)
          | Broken e \<Rightarrow> Some (Inr (), d1)
          | Fulfilled st \<Rightarrow>
              (case deliver_nmt virt st d1 of
                 None \<Rightarrow> None
               | Some (Inl (Future_error what), d2) \<Rightarrow> Some (Inr (), d2)
               | Some (Inl e, d2) \<Rightarrow> Some (Inl (Terminated ''exception left a thread''), d2)
               | Some (Inr u, d2) \<Rightarrow>
                   (case request_nmt d2 of None \<Rightarrow> None | Some d3 \<Rightarrow> nmt_wait virt fs d3))))"

definition nmt_listener ::
  "('d, 'n, 'e) base_driver virtuals \<Rightarrow> (('d, 'n, 'e) base_node \<Rightarrow> ('d, 'n, 'e) base_node) list
   \<Rightarrow> ('d, 'n, 'e) base_node \<Rightarrow> (('d, 'n, 'e) base_node, unit) outcome option" where
  "nmt_listener virt fs d = (case request_nmt d of None \<Rightarrow> None | Some d1 \<Rightarrow> nmt_wait virt fs d1)"

subsection \<open>The base driver keeps the contract of the life cycle\<close>

lemma upd_fields [simp]:
  "derived (upd f d) = f (derived d)" "master_set (upd f d) = master_set d"
  "exec_master (upd f d) = exec_master d" "initialised (upd f d) = initialised d"
  "configured (upd f d) = configured d" "activated (upd f d) = activated d"
  "dn_params (upd f d) = dn_params d" "dn_config (upd f d) = dn_config d"
  "dn_node_id (upd f d) = dn_node_id d" "non_transmit_timeout (upd f d) = non_transmit_timeout d"
  by (simp_all add: upd_def)

lemma upd_same_flags [simp]: "same_flags d (upd f d)" "same_flags (upd f d) d' = same_flags d d'"
  by (simp_all add: same_flags_def)

lemma upd_twice [simp]: "upd f (upd g d) = upd (\<lambda>x. f (g x)) d"
  by (simp add: upd_def)

lemma set_bridge_flags [simp]: "same_flags d (set_bridge b d)"
  by (simp add: set_bridge_def)

lemma base_contract: "driver_contract (base_hooks dops nops env)"
proof unfold_locales
  let ?H = "base_hooks dops nops env"
  show "h_init ?H d = (r, d') \<Longrightarrow> same_flags d d'" for d r d'
    by (auto simp: base_hooks_def)
  show "h_configure ?H d = (r, d') \<Longrightarrow> same_flags d d'" for d r d'
    by (auto simp: base_hooks_def base_configure_def Let_def same_flags_def)
  show "h_activate ?H d = (r, d') \<Longrightarrow> same_flags d d'" for d r d'
    by (auto simp: base_hooks_def base_activate_def Let_def split: if_splits)
  show "h_deactivate ?H d = (r, d') \<Longrightarrow> same_flags d d'" for d r d'
    by (auto simp: base_hooks_def base_deactivate_def Let_def split: if_splits)
  show "h_shutdown ?H d = (r, d') \<Longrightarrow> same_flags d d'" for d r d'
    by (auto simp: base_hooks_def)
  show "add_to_master ?H d = (r, d') \<Longrightarrow> same_flags d d'" for d r d'
    by (auto simp: base_hooks_def base_add_to_master_def Let_def set_bridge_def
        split: posted.splits if_splits prod.splits)
  show "remove_from_master ?H d = (r, d') \<Longrightarrow> same_flags d d'" for d r d'
    by (auto simp: base_hooks_def base_remove_from_master_def Let_def split: posted.splits if_splits)
  show "h_cleanup ?H d = (r, d') \<Longrightarrow>
      same_flags (snd (base_cleanup d)) d' \<or> same_flags d d' \<and> r \<noteq> Inr ()" for d r d'
    by (auto simp: base_hooks_def)
qed

interpretation bd: driver_env "table_lib doc" "base_hooks dops nops env" for doc dops nops env
  by (intro driver_env.intro tl.client_library_axioms base_contract)

text \<open>When the executor answers in time, the teardown does not fail.\<close>

definition responsive :: "('d, 'n, 'e) base_env \<Rightarrow> bool" where
  "responsive env \<longleftrightarrow> (\<forall>d. env_remove env d = In_time)"

lemma base_reliable:
  "responsive env \<Longrightarrow> client_library lib \<Longrightarrow> reliable_driver lib (base_hooks dops nops env) nmt_thread"
proof (intro reliable_driver.intro reliable_driver_axioms.intro driver_env.intro)
  let ?H = "base_hooks dops nops env"
  assume env: "responsive env"
  show "driver_contract ?H" by (rule base_contract)
  show "h_activate ?H d = (Inr (), d') \<Longrightarrow> nmt_thread (derived d')" for d d'
    by (auto simp: base_hooks_def base_activate_def Let_def split: if_splits)
  show "nmt_thread (derived d) \<Longrightarrow>
      \<exists>d'. remove_from_master ?H d = (Inr (), d') \<and> nmt_thread (derived d')" for d
    using env by (simp add: base_hooks_def base_remove_from_master_def responsive_def Let_def drop_bridge_def)
  show "nmt_thread (derived d) \<Longrightarrow> fst (h_deactivate ?H d) = Inr ()" for d
    by (simp add: base_hooks_def base_deactivate_def Let_def)
  show "fst (h_cleanup ?H d) = Inr ()" for d
    by (simp add: base_hooks_def base_cleanup_def)
  show "fst (h_shutdown ?H d) = Inr ()" for d
    by (simp add: base_hooks_def)
qed

text \<open>A concrete world: an executor that answers at once, a device that boots at the second
  attempt, and a node with its files configured.\<close>

definition raw_bridge :: "(u16 \<times> u8 \<rightharpoonup> co_type \<times> int, device_memory) bridge" where
  "raw_bridge = example_bridge\<lparr>boot_status := 84\<rparr>"

definition second_boot :: "nat \<Rightarrow> ('d, 'n) bridge wakeups" where
  "second_boot n = (if n = 2 then [(no_timeout, OnBoot START 0 [])] else [])"

definition prompt_env :: "(u16 \<times> u8 \<rightharpoonup> co_type \<times> int, device_memory, 'e) base_env" where
  "prompt_env =
    \<lparr>env_add = \<lambda>d. In_time, env_remove = \<lambda>d. In_time, env_dict = \<lambda>e b. example_dict,
     env_raw = \<lambda>d. raw_bridge, env_ready = \<lambda>d. False, env_boots = \<lambda>d. second_boot,
     env_sync = \<lambda>n. (Inr (), n)\<rparr>"

lemma prompt_responsive: "responsive prompt_env"
  by (simp add: responsive_def prompt_env_def)

interpretation pd: reliable_driver "table_lib doc" "base_hooks table_ops device_net prompt_env" nmt_thread for doc
  by (rule base_reliable[OF prompt_responsive tl.client_library_axioms])

subsection \<open>Commands on the way to a booted device\<close>

text \<open>A network whose commands can be told from a log: 0 for a boot request, the code of an NMT
  command otherwise.\<close>

locale command_log =
  fixes nops :: "'n network" and cmds :: "'n \<Rightarrow> nat list"
  assumes log_command: "cmds (n_command nops c i n) = cmds n @ [c]"
    and log_boot: "cmds (n_boot nops n) = cmds n @ [0]"
begin

definition quiet :: "('d, 'n) bridge wakeups \<Rightarrow> bool" where
  "quiet ws \<longleftrightarrow> (\<forall>w \<in> set ws. \<forall>b. cmds (net (snd w b)) = cmds (net b))"

lemma wait_for_boot_log: "quiet ws \<Longrightarrow> wait_for_boot ws b = (r, b') \<Longrightarrow> cmds (net b') = cmds (net b)"
  by (auto simp: wait_for_boot_def quiet_def Let_def
      split: if_splits list.splits prod.splits cv_status.splits)

lemma wait_for_boot_booted: "wait_for_boot ws b = (Inr r, b') \<Longrightarrow> booted b'"
  by (auto simp: wait_for_boot_def Let_def split: if_splits list.splits prod.splits cv_status.splits)

lemma boot_loop_log:
  assumes "\<And>i. quiet (script i)" "boot_loop nops script k b = (ok, n, b')" "k < max_boot_attempts"
  shows "k < n \<and> n \<le> max_boot_attempts \<and> (ok \<longrightarrow> booted b') \<and> (\<not> ok \<longrightarrow> n = max_boot_attempts) \<and>
    cmds (net b') = cmds (net b) @ concat (replicate (n - k - 1) [RESET_NODE_command, 0])"
  using assms(2,3)
proof (induction "max_boot_attempts - k" arbitrary: k b rule: less_induct)
  case less
  obtain r b1 where w: "wait_for_boot (script (k + 1)) b = (r, b1)" by fastforce
  have log1: "cmds (net b1) = cmds (net b)"
    by (rule wait_for_boot_log[OF assms(1) w])
  note step = boot_loop.simps[of nops script k b]
  show ?case
  proof (cases r)
    case (Inr u)
    with less.prems w step wait_for_boot_booted[of "script (k + 1)" b u b1] log1 show ?thesis by auto
  next
    case (Inl e)
    show ?thesis
    proof (cases "k + 1 < max_boot_attempts")
      case False
      with Inl less.prems w step log1 show ?thesis by auto
    next
      case True
      let ?b2 = "Boot nops (nmt_command nops RESET_NODE_command b1)"
      have "boot_loop nops script (k + 1) ?b2 = (ok, n, b')"
        using Inl True less.prems w step by simp
      from less.hyps[OF _ this True] True
      have rest: "k + 1 < n" "n \<le> max_boot_attempts" "ok \<longrightarrow> booted b'" "\<not> ok \<longrightarrow> n = max_boot_attempts"
        "cmds (net b') = cmds (net ?b2) @ concat (replicate (n - (k + 1) - 1) [RESET_NODE_command, 0])"
        by auto
      have "cmds (net ?b2) = cmds (net b) @ [RESET_NODE_command, 0]"
        using log1 by (simp add: Boot_def nmt_command_def log_boot log_command)
      moreover have "n - k - 1 = Suc (n - (k + 1) - 1)"
        using rest(1) by simp
      ultimately show ?thesis
        using rest by simp
    qed
  qed
qed

end

text \<open>Any network with such a log beside it.\<close>

definition logged :: "'n network \<Rightarrow> ('n \<times> nat list) network" where
  "logged nops =
    \<lparr>n_submit = \<lambda>r (n, l). (case n_submit nops r n of (x, n') \<Rightarrow> (x, n', l)),
     n_reply = \<lambda>(n, l). (case n_reply nops n of (x, n') \<Rightarrow> (x, n', l)),
     n_late = \<lambda>(n, l). (case n_late nops n of (x, n') \<Rightarrow> (x, n', l)),
     n_tpdo_write = \<lambda>ty i s v (n, l). (case n_tpdo_write nops ty i s v n of (x, n') \<Rightarrow> (x, n', l)),
     n_tpdo_event = \<lambda>i s (n, l). (case n_tpdo_event nops i s n of (x, n') \<Rightarrow> (x, n', l)),
     n_rpdo_read = \<lambda>ty i s (n, l). n_rpdo_read nops ty i s n,
     n_boot = \<lambda>(n, l). (n_boot nops n, l @ [0]),
     n_command = \<lambda>c i (n, l). (n_command nops c i n, l @ [c])\<rparr>"

interpretation lg: command_log "logged nops" snd for nops :: "'n network"
  by unfold_locales (simp_all add: logged_def split: prod.split)

text \<open>The concrete world over the logged device.\<close>

definition logged_raw :: "(u16 \<times> u8 \<rightharpoonup> co_type \<times> int, device_memory \<times> nat list) bridge" where
  "logged_raw =
    \<lparr>dictionary = example_dict, pdo_map_of = Map.empty, sdo_read_promise = None,
     sdo_write_promise = None, running = False, pending = None, nmt_state_is_set = False,
     nmt_state_promise = Unfulfilled, booted = False, boot_status = 84, boot_what = [],
     boot_state = BOOTUP, rpdo_queue = [], emcy_queue = [], nodeid = 2, sync_function = None,
     net = ((\<lambda>x. 0, 0), [])\<rparr>"

definition logged_env :: "(u16 \<times> u8 \<rightharpoonup> co_type \<times> int, device_memory \<times> nat list, 'e) base_env" where
  "logged_env =
    \<lparr>env_add = \<lambda>d. In_time, env_remove = \<lambda>d. In_time, env_dict = \<lambda>e b. example_dict,
     env_raw = \<lambda>d. logged_raw, env_ready = \<lambda>d. False, env_boots = \<lambda>d. second_boot,
     env_sync = \<lambda>n. (Inr (), n)\<rparr>"

definition base_x :: "'e \<Rightarrow> ('d, 'n, 'e) base_driver" where
  "base_x e =
    \<lparr>lely_driver = None, nmt_thread = False, period_ms = 0, sdo_timeout_ms = 0, boot_timeout_ms = 0,
     polling = False, nmt_state_cb = None, rpdo_cb = None, emcy_cb = None, queues_held = False,
     orphans = ([], []), poll_timer = None, diagnostic_enabled = False, diagnostic_period_ms = 0,
     updater_id = None, updater_tasks = [], collector = DiagnosticsCollector_init, ext = e\<rparr>"

definition fresh_node :: "'x \<Rightarrow> 'x driver_node" where
  "fresh_node x =
    \<lparr>dn_name = ''device1'', dn_params = \<lparr>overrides = [''node_id'' \<mapsto> P_int 2], declared = Map.empty\<rparr>,
     exec_master = None, non_transmit_timeout = 0, dn_config = empty_yaml, dn_node_id = 0,
     container_name = [], eds = [], bin = [], callback_groups = False, master_set = False,
     initialised = False, configured = False, activated = False, derived = x\<rparr>"

definition example_doc :: yaml where
  "example_doc = empty_yaml\<lparr>as_string :=
     [[''dcf_path''] \<mapsto> ''/config'', [''dcf''] \<mapsto> ''device.eds'']\<rparr>"

text \<open>The container answers the second request for the master.\<close>

definition second_demand :: "nat \<Rightarrow> 'x demand" where
  "second_demand i =
    (if i = 1 then ([True], True, \<lambda>d. snd (driver_set_master 7 d)) else ([False, True], False, \<lambda>d. d))"

subsection \<open>Properties\<close>

text \<open>C12: The life cycle of a driver node stays well-formed whatever functions a driver overrides
  within the contract and in whatever order the calls come, those that throw included: a node is
  active only when it is configured and has a master, configured only after \<open>init\<close>, and holds a
  master exactly when the flag says so.\<close>

theorem driver_lifecycle_invariant:
  assumes "driver_env lib hooks" "driver_run lib hooks (NodeCanopenDriver_new d) d'"
  shows "(activated d' \<longrightarrow> configured d' \<and> master_set d') \<and> (configured d' \<longrightarrow> initialised d') \<and>
    (master_set d' \<longrightarrow> configured d') \<and> (master_set d' \<longleftrightarrow> exec_master d' \<noteq> None)"
proof -
  have "driver_ok (NodeCanopenDriver_new d)"
    by (simp add: driver_ok_def NodeCanopenDriver_new_def)
  from driver_env.driver_run_ok[OF assms(1,2) this] show ?thesis
    by (auto simp: driver_ok_def)
qed

definition example_history :: "driver_call list \<Rightarrow> ((u16 \<times> u8 \<rightharpoonup> co_type \<times> int, device_memory, unit) base_driver) driver_node" where
  "example_history cs =
    fold (\<lambda>c d. snd (driver_exec (table_lib example_doc) (base_hooks table_ops device_net prompt_env) c d)) cs
      (NodeCanopenDriver_new (fresh_node (base_x ())))"

lemma example_history_run:
  "driver_run (table_lib example_doc) (base_hooks table_ops device_net prompt_env)
     (NodeCanopenDriver_new (fresh_node (base_x ()))) (example_history cs)"
proof (induction cs rule: rev_induct)
  case Nil
  show ?case by (simp add: example_history_def drun_nil)
next
  case (snoc c cs)
  from drun_call[OF snoc, of c] show ?case by (simp add: example_history_def)
qed

theorem driver_lifecycle_invariant_witness:
  "let d' = example_history [Call_init, Call_configure, Call_set_master 7, Call_activate, Call_shutdown]
   in (activated d' \<longrightarrow> configured d' \<and> master_set d') \<and> (master_set d' \<longleftrightarrow> exec_master d' \<noteq> None)"
  unfolding Let_def
  using driver_lifecycle_invariant[OF bd.driver_env_axioms example_history_run] by blast

text \<open>\<open>shutdown\<close> of a driver whose executor answers succeeds after every history, leaves the node
  without master and with all flags clear, and is final: \<open>init\<close> throws from then on, since the
  parameters of the node stay declared.\<close>

theorem driver_shutdown_final:
  assumes "reliable_driver lib hooks alive" "driver_run lib hooks (NodeCanopenDriver_new d0) d"
  shows "\<exists>d'. driver_shutdown hooks d = (Inr (), d') \<and> \<not> activated d' \<and> \<not> configured d' \<and>
    \<not> initialised d' \<and> \<not> master_set d' \<and> exec_master d' = None \<and>
    (initialised d \<longrightarrow> (\<exists>e. fst (driver_init lib hooks d') = Inl e))"
proof -
  have contract: "driver_env lib hooks"
    using assms(1) by (simp add: reliable_driver_def)
  have new: "reliable_driver.live alive (NodeCanopenDriver_new d0)"
    by (simp add: reliable_driver.live_def[OF assms(1)] driver_ok_def NodeCanopenDriver_new_def)
  have live: "reliable_driver.live alive d"
    by (rule reliable_driver.driver_run_live[OF assms new])
  have ok: "driver_ok d"
    using live by (simp add: reliable_driver.live_def[OF assms(1)])
  obtain d' where down: "driver_shutdown hooks d = (Inr (), d')" "\<not> activated d'" "\<not> configured d'"
      "\<not> initialised d'" "\<not> master_set d'" "exec_master d' = None"
    using reliable_driver.driver_shutdown_returns[OF assms(1) live] by blast
  have "\<exists>e. fst (driver_init lib hooks d') = Inl e" if "initialised d"
    using driver_env.driver_init_again[OF contract ok that]
      driver_env.driver_shutdown_grow[OF contract, of d] down(1) by simp
  with down show ?thesis by blast
qed

theorem driver_shutdown_final_witness:
  "\<exists>d'. driver_shutdown (base_hooks table_ops device_net prompt_env)
      (example_history [Call_init, Call_configure, Call_set_master 7, Call_activate]) = (Inr (), d') \<and>
    \<not> activated d' \<and> exec_master d' = None"
  using driver_shutdown_final[OF pd.reliable_driver_axioms example_history_run] by blast

text \<open>\<open>CanopenDriver::init\<close>, when it returns, has either brought the node to the active state,
  after one of at most five requests for the master was answered, or thrown with the node not
  active; its effects are those of a sequence of life cycle calls.\<close>

theorem driver_bring_up:
  assumes "driver_env lib hooks" "demand_ok env" "\<not> activated d"
    "CanopenDriver_init lib hooks env d = Some (r, d')"
  shows "driver_run lib hooks d d' \<and>
    (if r = Inr () then activated d' \<and> configured d' \<and> master_set d' \<and> (\<exists>i < 5. fst (snd (env i)))
     else \<not> activated d')"
  by (rule driver_env.CanopenDriver_init_result[OF assms])

lemma example_bring_up:
  "\<exists>d'. CanopenDriver_init (table_lib example_doc) (base_hooks table_ops device_net prompt_env) second_demand
    (NodeCanopenDriver_new (fresh_node (base_x ()))) = Some (Inr (), d')"
  by (simp add: CanopenDriver_init_def driver_init_def driver_declare_def driver_defaults_def table_lib_def
      NodeCanopenDriver_new_def fresh_node_def Let_def base_hooks_def driver_configure_def
      driver_read_config_def example_doc_def empty_yaml_def base_configure_def configure_base_def plain_yaml_def
      get_string_def get_int_def demand_master_def second_demand_def demand_set_master_def
      driver_throw_def upt_rec upd_def driver_set_master_def)
    (simp add: driver_activate_def base_add_to_master_def prompt_env_def set_bridge_def boot_loop.simps
      max_boot_attempts_def second_boot_def wait_for_boot_def make_bridge_def bridge_new_def raw_bridge_def
      example_bridge_def nmt_command_def Boot_def Let_def OnBoot_def base_activate_def base_x_def upd_def
      boot_status_L_def)

theorem driver_bring_up_witness:
  "\<exists>d'. CanopenDriver_init (table_lib example_doc) (base_hooks table_ops device_net prompt_env) second_demand
      (NodeCanopenDriver_new (fresh_node (base_x ()))) = Some (Inr (), d') \<and>
    activated d' \<and> configured d' \<and> master_set d'"
proof -
  have env: "demand_ok (second_demand :: nat \<Rightarrow> 'x demand)"
    by (simp add: demand_ok_def second_demand_def) blast
  have idle: "\<not> activated (NodeCanopenDriver_new (fresh_node (base_x ())))"
    by (simp add: NodeCanopenDriver_new_def)
  obtain d' where run: "CanopenDriver_init (table_lib example_doc) (base_hooks table_ops device_net prompt_env)
      second_demand (NodeCanopenDriver_new (fresh_node (base_x ()))) = Some (Inr (), d')"
    using example_bring_up by blast
  with driver_bring_up[OF bd.driver_env_axioms env idle run] show ?thesis by simp
qed



text \<open>When the executor does not answer in time while a driver is deactivated, the driver ends up
  inactive with its NMT thread still joinable, and the next activation that gets as far as
  starting the thread again ends the process.\<close>

theorem reactivation_terminates:
  assumes "driver_ok d" "activated d" "nmt_thread (derived d)" "env_remove env (d\<lparr>activated := False\<rparr>) \<noteq> In_time"
    "\<forall>x. env_add env x = In_time \<and> env_ready env x"
  shows "\<exists>d'. driver_deactivate (base_hooks dops nops env) d
      = (Inl (Driver_exception ''remove_from_master: removing timed out''), d') \<and> \<not> activated d' \<and>
    fst (driver_activate (base_hooks dops nops env) d') = Inl (Terminated ''assignment to a joinable thread'')"
  using assms
  by (cases "env_remove env (d\<lparr>activated := False\<rparr>)")
    (auto simp: driver_deactivate_def driver_activate_def driver_ok_def base_hooks_def
      base_remove_from_master_def base_add_to_master_def base_activate_def Let_def set_bridge_def
      drop_bridge_def)

definition busy_env :: "(u16 \<times> u8 \<rightharpoonup> co_type \<times> int, device_memory, 'e) base_env" where
  "busy_env = prompt_env\<lparr>env_remove := \<lambda>d. Late, env_ready := \<lambda>d. True\<rparr>"

theorem reactivation_terminates_witness:
  "\<exists>d'. driver_deactivate (base_hooks table_ops device_net busy_env)
      ((fresh_node (base_x ()\<lparr>nmt_thread := True\<rparr>))\<lparr>exec_master := Some 7, master_set := True, initialised := True,
        configured := True, activated := True,
        dn_params := \<lparr>overrides = Map.empty, declared = map_of driver_defaults\<rparr>\<rparr>)
      = (Inl (Driver_exception ''remove_from_master: removing timed out''), d') \<and> \<not> activated d' \<and>
    fst (driver_activate (base_hooks table_ops device_net busy_env) d')
      = Inl (Terminated ''assignment to a joinable thread'')"
proof (rule reactivation_terminates)
  show "driver_ok ((fresh_node (base_x ()\<lparr>nmt_thread := True\<rparr>))\<lparr>exec_master := Some 7, master_set := True,
      initialised := True, configured := True, activated := True,
      dn_params := \<lparr>overrides = Map.empty, declared = map_of driver_defaults\<rparr>\<rparr>)"
    by (simp add: driver_ok_def dom_map_of_conv_image_fst)
qed (simp_all add: busy_env_def prompt_env_def fresh_node_def)

end

