(* ===== verification/ProxyDriver.thy ===== *)
theory ProxyDriver
  imports BaseDriver
begin

text \<open>
  The proxy driver (\<open>canopen_proxy_driver\<close>, \<open>node_canopen_proxy_driver_impl.hpp\<close>): it publishes NMT
  states and RPDOs of the device, transmits PDOs it is sent, and offers services for NMT commands
  and for reading and writing objects by SDO.
\<close>

subsection \<open>State\<close>

text \<open>What was published on the two topics, oldest first, and whether the ROS interface exists.\<close>

record 'e proxy =
  nmt_topic :: "string list"
  rpdo_topic :: "COData list"
  interface :: bool
  proxy_rest :: 'e

type_synonym ('d, 'n, 'e) proxy_node = "('d, 'n, 'e proxy) base_node"

definition upd_proxy :: "('e proxy \<Rightarrow> 'e proxy) \<Rightarrow> ('d, 'n, 'e) proxy_node \<Rightarrow> ('d, 'n, 'e) proxy_node" where
  "upd_proxy f d = upd (\<lambda>x. x\<lparr>ext := f (ext x)\<rparr>) d"

definition proxy_init :: "('d, 'n, 'e) proxy_node \<Rightarrow> (('d, 'n, 'e) proxy_node, unit) outcome" where
  "proxy_init d = (Inr (), upd_proxy (\<lambda>p. p\<lparr>interface := True\<rparr>) d)"

subsection \<open>From the device to ROS\<close>

fun nmt_name :: "NmtState \<Rightarrow> string" where
  "nmt_name BOOTUP = ''BOOTUP''"
| "nmt_name PREOP = ''PREOP''"
| "nmt_name RESET_COMM = ''RESET_COMM''"
| "nmt_name RESET_NODE = ''RESET_NODE''"
| "nmt_name START = ''START''"
| "nmt_name STOP = ''STOP''"
| "nmt_name TOGGLE = ''TOGGLE''"

fun nmt_summary :: "NmtState \<Rightarrow> u8 \<times> string" where
  "nmt_summary BOOTUP = (DIAG_OK, ''NMT bootup'')"
| "nmt_summary PREOP = (DIAG_OK, ''NMT preop'')"
| "nmt_summary RESET_COMM = (DIAG_WARN, ''NMT reset comm'')"
| "nmt_summary RESET_NODE = (DIAG_WARN, ''NMT reset node'')"
| "nmt_summary START = (DIAG_OK, ''NMT start'')"
| "nmt_summary STOP = (DIAG_OK, ''NMT stop'')"
| "nmt_summary TOGGLE = (DIAG_OK, ''NMT toggle'')"

definition proxy_on_nmt :: "NmtState \<Rightarrow> ('d, 'n, 'e) proxy_node \<Rightarrow> (('d, 'n, 'e) proxy_node, unit) outcome" where
  "proxy_on_nmt st d =
    (if activated d
     then (let (lvl, msg) = nmt_summary st;
               d1 = upd (\<lambda>x. x\<lparr>collector := diag_updateAll lvl msg ''NMT'' (nmt_name st) (collector x)\<rparr>) d
           in (Inr (), upd_proxy (\<lambda>p. p\<lparr>nmt_topic := nmt_topic p @ [nmt_name st]\<rparr>) d1))
     else (Inr (), d))"

definition proxy_on_rpdo :: "COData \<Rightarrow> ('d, 'n, 'e) proxy_node \<Rightarrow> (('d, 'n, 'e) proxy_node, unit) outcome" where
  "proxy_on_rpdo data d =
    (Inr (), if activated d then upd_proxy (\<lambda>p. p\<lparr>rpdo_topic := rpdo_topic p @ [data]\<rparr>) d else d)"

definition proxy_virtuals :: "('d, 'n, 'e proxy) base_driver virtuals" where
  "proxy_virtuals = \<lparr>v_nmt = proxy_on_nmt, v_rpdo = proxy_on_rpdo, v_emcy = base_on_emcy\<rparr>"

text \<open>What the diagnostic updater asks for.\<close>

definition proxy_diagnostics :: "('d, 'n, 'e) proxy_node \<Rightarrow> u8 \<times> string \<times> (string \<times> string) list" where
  "proxy_diagnostics d =
    (let c = collector (derived d) in
     (getLevel c, getMessage c, [(''device_state'', getValue ''DEVICE'' c), (''nmt_state'', getValue ''NMT'' c),
        (''emcy_state'', getValue ''EMCY'' c)]))"

subsection \<open>From ROS to the device\<close>

text \<open>Operations on the bridge of an active driver. \<open>None\<close>: the call does not return (or there is no
  bridge to call).\<close>

definition with_bridge ::
  "(('d, 'n) bridge \<Rightarrow> (('d, 'n) bridge, 'a) blocking) \<Rightarrow> ('d, 'n, 'e) base_node \<Rightarrow> (('d, 'n, 'e) base_node, 'a) blocking" where
  "with_bridge f d =
    (case lely_driver (derived d) of
       None \<Rightarrow> None
     | Some b \<Rightarrow> (case f b of None \<Rightarrow> None | Some (r, b') \<Rightarrow> Some (r, set_bridge b' d)))"

definition proxy_tpdo_transmit ::
  "'d dict_ops \<Rightarrow> 'n network \<Rightarrow> COData \<Rightarrow> ('d, 'n, 'e) base_node \<Rightarrow> (('d, 'n, 'e) base_node, bool) blocking" where
  "proxy_tpdo_transmit dops nops data d =
    (if activated d then with_bridge (\<lambda>b. Some (Inr True, tpdo_transmit dops nops data b)) d
     else Some (Inr False, d))"

definition on_tpdo ::
  "'d dict_ops \<Rightarrow> 'n network \<Rightarrow> COData \<Rightarrow> ('d, 'n, 'e) base_node \<Rightarrow> (('d, 'n, 'e) base_node, unit) blocking" where
  "on_tpdo dops nops data d = bindB (proxy_tpdo_transmit dops nops data d) (\<lambda>ok d'. Some (Inr (), d'))"

definition reset_node_nmt_command ::
  "'n network \<Rightarrow> ('d, 'n, 'e) base_node \<Rightarrow> (('d, 'n, 'e) base_node, bool) blocking" where
  "reset_node_nmt_command nops d =
    (if activated d then with_bridge (\<lambda>b. Some (Inr True, nmt_command nops RESET_NODE_command b)) d
     else Some (Inr False, d))"

definition start_node_nmt_command ::
  "'n network \<Rightarrow> ('d, 'n, 'e) base_node \<Rightarrow> (('d, 'n, 'e) base_node, bool) blocking" where
  "start_node_nmt_command nops d =
    (if activated d then with_bridge (\<lambda>b. Some (Inr True, nmt_command nops START_command b)) d
     else Some (Inr False, d))"

text \<open>\<open>f.wait()\<close> has no deadline: the callback of the pending request settles the promise; without a
  pending request nothing does.\<close>

definition await_promise ::
  "'d dict_ops \<Rightarrow> 'n network \<Rightarrow> (('d, 'n) bridge \<Rightarrow> 'a promise option) \<Rightarrow> 'a promise \<Rightarrow> ('d, 'n) bridge
   \<Rightarrow> (('d, 'n) bridge, 'a) blocking" where
  "await_promise dops nops member p b =
    (case settled_promise p of
       Some r \<Rightarrow> Some (r, b)
     | None \<Rightarrow>
         (case pending b of
            None \<Rightarrow> None
          | Some q \<Rightarrow>
              (case n_late nops (net b) of ((ec, v), n) \<Rightarrow>
                 (let b1 = sdo_callback dops q ec v (b\<lparr>net := n\<rparr>) in
                  case member b1 of
                    None \<Rightarrow> None
                  | Some p1 \<Rightarrow> map_option (\<lambda>r. (r, b1)) (settled_promise p1)))))"

text \<open>An exception of the future is logged and turned into a failure.\<close>

definition no_throw :: "'a \<Rightarrow> ('s, 'a) blocking \<Rightarrow> ('s, 'a) blocking" where
  "no_throw x r = (case r of Some (Inl e, s) \<Rightarrow> Some (Inr x, s) | Some (Inr a, s) \<Rightarrow> Some (Inr a, s) | None \<Rightarrow> None)"

text \<open>The reference argument is returned beside the result.\<close>

definition proxy_sdo_read ::
  "'d dict_ops \<Rightarrow> 'n network \<Rightarrow> COData \<Rightarrow> ('d, 'n, 'e) base_node
   \<Rightarrow> (('d, 'n, 'e) base_node, bool \<times> COData) blocking" where
  "proxy_sdo_read dops nops data d =
    (if activated d
     then with_bridge (\<lambda>b.
            bindB (async_sdo_read dops nops data b) (\<lambda>p b1.
              no_throw (False, data)
                (bindB (await_promise dops nops sdo_read_promise p b1) (\<lambda>r b2.
                   Some (Inr (True, data\<lparr>data_of := data_of r\<rparr>), b2))))) d
     else Some (Inr (False, data), d))"

definition proxy_sdo_write ::
  "'d dict_ops \<Rightarrow> 'n network \<Rightarrow> COData \<Rightarrow> ('d, 'n, 'e) base_node \<Rightarrow> (('d, 'n, 'e) base_node, bool) blocking" where
  "proxy_sdo_write dops nops data d =
    (if activated d
     then with_bridge (\<lambda>b.
            bindB (async_sdo_write dops nops data b) (\<lambda>p b1.
              no_throw False (await_promise dops nops sdo_write_promise p b1))) d
     else Some (Inr False, d))"

text \<open>The services answer with the result of the operations.\<close>

definition on_sdo_read ::
  "'d dict_ops \<Rightarrow> 'n network \<Rightarrow> u16 \<Rightarrow> u8 \<Rightarrow> ('d, 'n, 'e) base_node
   \<Rightarrow> (('d, 'n, 'e) base_node, bool \<times> u32) blocking" where
  "on_sdo_read dops nops i s d =
    bindB (proxy_sdo_read dops nops \<lparr>index_of = i, subindex_of = s, data_of = 0\<rparr> d)
      (\<lambda>(ok, data) d'. Some (Inr (ok, data_of data), d'))"

definition on_sdo_write ::
  "'d dict_ops \<Rightarrow> 'n network \<Rightarrow> u16 \<Rightarrow> u8 \<Rightarrow> u32 \<Rightarrow> ('d, 'n, 'e) base_node
   \<Rightarrow> (('d, 'n, 'e) base_node, bool) blocking" where
  "on_sdo_write dops nops i s v d =
    proxy_sdo_write dops nops \<lparr>index_of = i, subindex_of = s, data_of = v\<rparr> d"

definition on_nmt_state_reset ::
  "'n network \<Rightarrow> ('d, 'n, 'e) base_node \<Rightarrow> (('d, 'n, 'e) base_node, bool) blocking" where
  "on_nmt_state_reset nops d = reset_node_nmt_command nops d"

definition on_nmt_state_start ::
  "'n network \<Rightarrow> ('d, 'n, 'e) base_node \<Rightarrow> (('d, 'n, 'e) base_node, bool) blocking" where
  "on_nmt_state_start nops d = start_node_nmt_command nops d"

text \<open>The life cycle is that of the base driver, with its own \<open>init\<close>.\<close>

definition proxy_hooks ::
  "'d dict_ops \<Rightarrow> 'n network \<Rightarrow> ('d, 'n, 'e proxy) base_env \<Rightarrow> ('d, 'n, 'e proxy) base_driver driver_hooks" where
  "proxy_hooks dops nops env = (base_hooks dops nops env)\<lparr>h_init := proxy_init\<rparr>"

lemma proxy_init_flags: "proxy_init d = (r, d') \<Longrightarrow> same_flags d d'"
  by (auto simp: proxy_init_def upd_proxy_def)

lemma proxy_contract: "driver_contract (proxy_hooks dops nops env)"
  using base_contract[of dops nops env]
  by (simp add: proxy_hooks_def driver_contract_def proxy_init_flags)

interpretation xd: driver_env "table_lib doc" "proxy_hooks dops nops env" for doc dops nops env
  by (intro driver_env.intro tl.client_library_axioms proxy_contract)

subsection \<open>Polling\<close>

text \<open>An active driver with its bridge in place and no callbacks of its own.\<close>

definition forwarding :: "('d, 'n, 'e) proxy_node \<Rightarrow> ('d, 'n) bridge \<Rightarrow> bool" where
  "forwarding d b \<longleftrightarrow> activated d \<and> lely_driver (derived d) = Some b \<and> queues_held (derived d) \<and>
     rpdo_cb (derived d) = None \<and> emcy_cb (derived d) = None"

lemma try_pop_list [simp]:
  "try_pop list_queue [] = (None, [])" "try_pop list_queue (x # xs) = (Some x, xs)"
  by (simp_all add: try_pop_def list_queue_def)

lemma poll_loop_empty: "pop s = Some (None, s1) \<Longrightarrow> 0 < n \<Longrightarrow> poll_loop n pop handle s = Some s1"
  by (cases n) simp_all

lemma poll_loop_null:
  "pop s = Some (Some m, s1) \<Longrightarrow> handle m s1 = None \<Longrightarrow> 0 < n \<Longrightarrow> poll_loop n pop handle s = None"
  by (cases n) simp_all

lemma poll_rpdo:
  "forwarding d b \<Longrightarrow> \<exists>d'. poll_loop n pop_rpdo (deliver_rpdo proxy_virtuals) d = Some d' \<and>
    forwarding d' (b\<lparr>rpdo_queue := drop n (rpdo_queue b)\<rparr>) \<and>
    rpdo_topic (ext (derived d')) = rpdo_topic (ext (derived d)) @ take n (rpdo_queue b) \<and>
    collector (derived d') = collector (derived d)"
proof (induction n arbitrary: d b)
  case 0
  then show ?case by simp
next
  case (Suc n)
  note F = Suc.prems[unfolded forwarding_def]
  show ?case
  proof (cases "rpdo_queue b")
    case Nil
    with F have pop: "pop_rpdo d = Some (None, set_bridge (b\<lparr>rpdo_queue := []\<rparr>) d)"
      by (simp add: pop_rpdo_def)
    have "forwarding (set_bridge (b\<lparr>rpdo_queue := []\<rparr>) d) (b\<lparr>rpdo_queue := []\<rparr>)"
      using F by (simp add: forwarding_def set_bridge_def)
    with pop Nil show ?thesis by (simp add: set_bridge_def)
  next
    case (Cons m q)
    let ?d1 = "set_bridge (b\<lparr>rpdo_queue := q\<rparr>) d"
    let ?d2 = "upd_proxy (\<lambda>p. p\<lparr>rpdo_topic := rpdo_topic p @ [m]\<rparr>) ?d1"
    have pop: "pop_rpdo d = Some (Some m, ?d1)"
      using F Cons by (simp add: pop_rpdo_def)
    have dl: "deliver_rpdo proxy_virtuals m ?d1 = Some (Inr (), ?d2)"
      using F by (simp add: deliver_rpdo_def deliver_def proxy_virtuals_def proxy_on_rpdo_def set_bridge_def)
    have "forwarding ?d2 (b\<lparr>rpdo_queue := q\<rparr>)"
      using F by (simp add: forwarding_def set_bridge_def upd_proxy_def)
    from Suc.IH[OF this] pop dl Cons show ?thesis
      by (simp add: upd_proxy_def set_bridge_def)
  qed
qed

text \<open>What an emergency message does to the diagnostics.\<close>

definition emcy_note :: "COEmcy \<Rightarrow> diagnostics \<Rightarrow> diagnostics" where
  "emcy_note m c = diag_add ''EMCY'' (emcy_text m) (diag_summary DIAG_ERROR ''Emergency message received'' c)"

lemma poll_emcy:
  "forwarding d b \<Longrightarrow> \<exists>d'. poll_loop n pop_emcy (deliver_emcy proxy_virtuals) d = Some d' \<and>
    forwarding d' (b\<lparr>emcy_queue := drop n (emcy_queue b)\<rparr>) \<and>
    rpdo_topic (ext (derived d')) = rpdo_topic (ext (derived d)) \<and>
    collector (derived d') = fold emcy_note (take n (emcy_queue b)) (collector (derived d))"
proof (induction n arbitrary: d b)
  case 0
  then show ?case by simp
next
  case (Suc n)
  note F = Suc.prems[unfolded forwarding_def]
  show ?case
  proof (cases "emcy_queue b")
    case Nil
    with F have pop: "pop_emcy d = Some (None, set_bridge (b\<lparr>emcy_queue := []\<rparr>) d)"
      by (simp add: pop_emcy_def)
    have "forwarding (set_bridge (b\<lparr>emcy_queue := []\<rparr>) d) (b\<lparr>emcy_queue := []\<rparr>)"
      using F by (simp add: forwarding_def set_bridge_def)
    with pop Nil show ?thesis by (simp add: set_bridge_def)
  next
    case (Cons m q)
    let ?d1 = "set_bridge (b\<lparr>emcy_queue := q\<rparr>) d"
    let ?d2 = "upd (\<lambda>x. x\<lparr>collector := emcy_note m (collector x)\<rparr>) ?d1"
    have pop: "pop_emcy d = Some (Some m, ?d1)"
      using F Cons by (simp add: pop_emcy_def)
    have dl: "deliver_emcy proxy_virtuals m ?d1 = Some (Inr (), ?d2)"
      using F by (simp add: deliver_emcy_def deliver_def proxy_virtuals_def set_bridge_def base_on_emcy_def
          emcy_note_def)
    have "forwarding ?d2 (b\<lparr>emcy_queue := q\<rparr>)"
      using F by (simp add: forwarding_def set_bridge_def)
    from Suc.IH[OF this] pop dl Cons show ?thesis
      by (simp add: set_bridge_def)
  qed
qed

lemma emcy_note_get [simp]:
  "getLevel (emcy_note m c) = DIAG_ERROR" "getValue ''EMCY'' (emcy_note m c) = emcy_text m"
  by (simp_all add: emcy_note_def)

lemma fold_emcy_note:
  assumes "ms \<noteq> []"
  shows "getLevel (fold emcy_note ms c) = DIAG_ERROR"
    "getValue ''EMCY'' (fold emcy_note ms c) = emcy_text (last ms)"
  using assms by (induction ms rule: rev_induct) simp_all

subsection \<open>Requests of the services\<close>

context bridge_env
begin

text \<open>A pending request ends with its callback, which settles the promise of an untyped request.\<close>

lemma await_read:
  assumes "pending b = Some \<lparr>request = Sdo_read ty i s, untyped = True\<rparr>"
  shows "\<exists>r b'. await_promise dops nops sdo_read_promise Unfulfilled b = Some (r, b') \<and> sdo_ok b' \<and> \<not> running b' \<and>
    (\<forall>x. r = Inr x \<longrightarrow> (\<exists>v. data_of x = value_to_data ty v \<and>
      (dict_find dops i s (dictionary b) = Some ty \<longrightarrow> dict_get dops ty i s (dictionary b') = v)))"
proof -
  obtain ec v n where late: "n_late nops (net b) = ((ec, v), n)"
    by (metis prod_cases3 prod.collapse)
  show ?thesis
    using assms late get_set[of i s "dictionary b" ty v]
    by (cases "ec = 0") (auto simp: await_promise_def Let_def sdo_callback_def callback_result_def sdo_ok_def)
qed

lemma await_write:
  assumes "pending b = Some \<lparr>request = Sdo_write ty i s v, untyped = True\<rparr>"
  shows "\<exists>r b'. await_promise dops nops sdo_write_promise Unfulfilled b = Some (r, b') \<and> sdo_ok b' \<and> \<not> running b' \<and>
    (r = Inr True \<longrightarrow> (dict_find dops i s (dictionary b) = Some ty \<longrightarrow> dict_get dops ty i s (dictionary b') = v))"
proof -
  obtain ec x n where late: "n_late nops (net b) = ((ec, x), n)"
    by (metis prod_cases3 prod.collapse)
  show ?thesis
    using assms late get_set[of i s "dictionary b" ty v]
    by (cases "ec = 0") (auto simp: await_promise_def Let_def sdo_callback_def callback_result_def sdo_ok_def)
qed

lemma callback_find [simp]:
  "dict_find dops i s (dictionary (sdo_callback dops p ec v b)) = dict_find dops i s (dictionary b)"
  by (cases "request p") (simp_all add: sdo_callback_def Let_def find_set split: sum.split)

lemma acquire_sdo_find:
  "acquire_sdo dops nops b = Some b1 \<Longrightarrow> dict_find dops i s (dictionary b1) = dict_find dops i s (dictionary b)"
  by (auto simp: acquire_sdo_def split: if_splits option.splits prod.splits)

definition readable :: "u16 \<Rightarrow> u8 \<Rightarrow> ('d, 'n) bridge \<Rightarrow> bool" where
  "readable i s b \<longleftrightarrow> (\<forall>ty. dict_find dops i s (dictionary b) = Some ty \<longrightarrow> supported_type ty)"

lemma await_find:
  "await_promise dops nops member Unfulfilled b = Some (r, b') \<Longrightarrow>
   dict_find dops i s (dictionary b') = dict_find dops i s (dictionary b)"
  by (auto simp: await_promise_def Let_def split: option.splits prod.splits)

lemma untyped_read_result:
  assumes "sdo_ok b" "readable (index_of data) (subindex_of data) b"
  shows "\<exists>r b'. bindB (async_sdo_read dops nops data b) (\<lambda>p b1. await_promise dops nops sdo_read_promise p b1)
      = Some (r, b') \<and> sdo_ok b' \<and>
    (\<forall>x. r = Inr x \<longrightarrow> (\<exists>ty. dict_find dops (index_of data) (subindex_of data) (dictionary b') = Some ty \<and>
       data_of x = value_to_data ty (dict_get dops ty (index_of data) (subindex_of data) (dictionary b'))))"
proof -
  let ?i = "index_of data" and ?s = "subindex_of data"
  obtain b1 where b1: "acquire_sdo dops nops b = Some b1" "running b1" "pending b1 = None"
    using acquire_sdo_ok[OF assms(1)] by blast
  show ?thesis
  proof (cases "dict_find dops ?i ?s (dictionary b1)")
    case None
    with b1 show ?thesis
      by (simp add: async_sdo_read_def Let_def bindB_def await_promise_def sdo_ok_def)
  next
    case (Some ty)
    have sup: "supported_type ty"
      using assms(2) Some acquire_sdo_find[OF b1(1)] by (simp add: readable_def)
    let ?b2 = "b1\<lparr>sdo_read_promise := Some Unfulfilled\<rparr>"
    obtain n where sub: "submit_sdo nops (Sdo_read ty ?i ?s) True ?b2
        = (Inr (), ?b2\<lparr>net := n, pending := Some \<lparr>request = Sdo_read ty ?i ?s, untyped = True\<rparr>\<rparr>)"
      using submit_sdo_accepts by blast
    let ?b3 = "?b2\<lparr>net := n, pending := Some \<lparr>request = Sdo_read ty ?i ?s, untyped = True\<rparr>\<rparr>"
    have async: "async_sdo_read dops nops data b = Some (Inr Unfulfilled, ?b3)"
      using b1 Some sup sub by (simp add: async_sdo_read_def Let_def)
    obtain r b' where wait: "await_promise dops nops sdo_read_promise Unfulfilled ?b3 = Some (r, b')" "sdo_ok b'"
        "\<forall>x. r = Inr x \<longrightarrow> (\<exists>v. data_of x = value_to_data ty v \<and>
          (dict_find dops ?i ?s (dictionary ?b3) = Some ty \<longrightarrow> dict_get dops ty ?i ?s (dictionary b') = v))"
      using await_read[of ?b3 ty ?i ?s] by auto
    have "dict_find dops ?i ?s (dictionary b') = Some ty"
      using await_find[OF wait(1), of ?i ?s] Some by simp
    with wait async Some show ?thesis
      by (auto simp: bindB_def)
  qed
qed

lemma untyped_write_result:
  assumes "sdo_ok b" "readable (index_of data) (subindex_of data) b"
  shows "\<exists>r b'. bindB (async_sdo_write dops nops data b) (\<lambda>p b1. await_promise dops nops sdo_write_promise p b1)
      = Some (r, b') \<and> sdo_ok b' \<and>
    (r = Inr True \<longrightarrow> (\<exists>ty. dict_find dops (index_of data) (subindex_of data) (dictionary b') = Some ty \<and>
       dict_get dops ty (index_of data) (subindex_of data) (dictionary b') = data_to_value ty (data_of data)))"
proof -
  let ?i = "index_of data" and ?s = "subindex_of data"
  obtain b1 where b1: "acquire_sdo dops nops b = Some b1" "running b1" "pending b1 = None"
    using acquire_sdo_ok[OF assms(1)] by blast
  show ?thesis
  proof (cases "dict_find dops ?i ?s (dictionary b1)")
    case None
    with b1 show ?thesis
      by (simp add: async_sdo_write_def Let_def bindB_def await_promise_def sdo_ok_def)
  next
    case (Some ty)
    have sup: "supported_type ty"
      using assms(2) Some acquire_sdo_find[OF b1(1)] by (simp add: readable_def)
    let ?v = "data_to_value ty (data_of data)"
    let ?b2 = "b1\<lparr>sdo_write_promise := Some Unfulfilled\<rparr>"
    obtain n where sub: "submit_sdo nops (Sdo_write ty ?i ?s ?v) True ?b2
        = (Inr (), ?b2\<lparr>net := n, pending := Some \<lparr>request = Sdo_write ty ?i ?s ?v, untyped = True\<rparr>\<rparr>)"
      using submit_sdo_accepts by blast
    let ?b3 = "?b2\<lparr>net := n, pending := Some \<lparr>request = Sdo_write ty ?i ?s ?v, untyped = True\<rparr>\<rparr>"
    have async: "async_sdo_write dops nops data b = Some (Inr Unfulfilled, ?b3)"
      using b1 Some sup sub by (simp add: async_sdo_write_def Let_def)
    obtain r b' where wait: "await_promise dops nops sdo_write_promise Unfulfilled ?b3 = Some (r, b')" "sdo_ok b'"
        "r = Inr True \<longrightarrow> (dict_find dops ?i ?s (dictionary ?b3) = Some ty \<longrightarrow>
          dict_get dops ty ?i ?s (dictionary b') = ?v)"
      using await_write[of ?b3 ty ?i ?s ?v] by auto
    have "dict_find dops ?i ?s (dictionary b') = Some ty"
      using await_find[OF wait(1), of ?i ?s] Some by simp
    with wait async Some show ?thesis
      by (auto simp: bindB_def)
  qed
qed

lemma async_read_no_throw: "async_sdo_read dops nops data b \<noteq> Some (Inl e, b')"
  by (auto simp: async_sdo_read_def Let_def split: option.splits prod.splits sum.splits if_splits)

lemma async_write_no_throw: "async_sdo_write dops nops data b \<noteq> Some (Inl e, b')"
proof (cases "acquire_sdo dops nops b")
  case None
  then show ?thesis by (simp add: async_sdo_write_def)
next
  case (Some b1)
  let ?i = "index_of data" and ?s = "subindex_of data"
  show ?thesis
  proof (cases "dict_find dops ?i ?s (dictionary b1)")
    case None
    with Some show ?thesis by (simp add: async_sdo_write_def)
  next
    case ty: (Some ty)
    obtain n where "submit_sdo nops (Sdo_write ty ?i ?s (data_to_value ty (data_of data))) True
        (b1\<lparr>sdo_write_promise := Some Unfulfilled\<rparr>) = (Inr (), b1\<lparr>sdo_write_promise := Some Unfulfilled, net := n,
          pending := Some \<lparr>request = Sdo_write ty ?i ?s (data_to_value ty (data_of data)), untyped = True\<rparr>\<rparr>)"
      using submit_sdo_accepts by blast
    with Some ty show ?thesis by (simp add: async_sdo_write_def Let_def)
  qed
qed

lemma on_sdo_read_result:
  assumes "activated d" "lely_driver (derived d) = Some b" "sdo_ok b" "readable i s b"
  shows "\<exists>ok v d' b'. on_sdo_read dops nops i s d = Some (Inr (ok, v), d') \<and>
    lely_driver (derived d') = Some b' \<and> sdo_ok b' \<and>
    (ok \<longrightarrow> (\<exists>ty. dict_find dops i s (dictionary b') = Some ty \<and>
       v = value_to_data ty (dict_get dops ty i s (dictionary b'))))"
proof -
  let ?data = "\<lparr>index_of = i, subindex_of = s, data_of = 0\<rparr>"
  obtain r b' where R: "bindB (async_sdo_read dops nops ?data b)
        (\<lambda>p b1. await_promise dops nops sdo_read_promise p b1) = Some (r, b')" "sdo_ok b'"
      "\<forall>x. r = Inr x \<longrightarrow> (\<exists>ty. dict_find dops i s (dictionary b') = Some ty \<and>
         data_of x = value_to_data ty (dict_get dops ty i s (dictionary b')))"
    using untyped_read_result[of b ?data] assms(3,4) by auto
  obtain p b1 where async: "async_sdo_read dops nops ?data b = Some (Inr p, b1)"
      "await_promise dops nops sdo_read_promise p b1 = Some (r, b')"
    using R(1) async_read_no_throw[of ?data b] by (auto simp: bindB_def split: option.splits prod.splits sum.splits)
  have "proxy_sdo_read dops nops ?data d = Some (Inr (case r of Inl e \<Rightarrow> (False, ?data)
      | Inr x \<Rightarrow> (True, ?data\<lparr>data_of := data_of x\<rparr>)), set_bridge b' d)"
    using assms(1,2) async by (cases r) (simp_all add: proxy_sdo_read_def with_bridge_def bindB_def no_throw_def)
  then show ?thesis
    using R(2,3) by (cases r) (auto simp: on_sdo_read_def bindB_def set_bridge_def)
qed

lemma on_sdo_write_result:
  assumes "activated d" "lely_driver (derived d) = Some b" "sdo_ok b" "readable i s b"
  shows "\<exists>ok d' b'. on_sdo_write dops nops i s x d = Some (Inr ok, d') \<and>
    lely_driver (derived d') = Some b' \<and> sdo_ok b' \<and>
    (ok \<longrightarrow> (\<exists>ty. dict_find dops i s (dictionary b') = Some ty \<and>
       dict_get dops ty i s (dictionary b') = data_to_value ty x))"
proof -
  let ?data = "\<lparr>index_of = i, subindex_of = s, data_of = x\<rparr>"
  obtain r b' where R: "bindB (async_sdo_write dops nops ?data b)
        (\<lambda>p b1. await_promise dops nops sdo_write_promise p b1) = Some (r, b')" "sdo_ok b'"
      "r = Inr True \<longrightarrow> (\<exists>ty. dict_find dops i s (dictionary b') = Some ty \<and>
         dict_get dops ty i s (dictionary b') = data_to_value ty x)"
    using untyped_write_result[of b ?data] assms(3,4) by auto
  obtain p b1 where async: "async_sdo_write dops nops ?data b = Some (Inr p, b1)"
      "await_promise dops nops sdo_write_promise p b1 = Some (r, b')"
    using R(1) async_write_no_throw[of ?data b] by (auto simp: bindB_def split: option.splits prod.splits sum.splits)
  have "on_sdo_write dops nops i s x d = Some (Inr (case r of Inl e \<Rightarrow> False | Inr ok \<Rightarrow> ok), set_bridge b' d)"
    using assms(1,2) async
    by (cases r) (simp_all add: on_sdo_write_def proxy_sdo_write_def with_bridge_def bindB_def no_throw_def)
  then show ?thesis
    using R(2,3) by (cases r) (auto simp: set_bridge_def)
qed

end

text \<open>For the drivers that extend this one.\<close>

lemma upd_proxy_derived [simp]:
  "lely_driver (derived (upd_proxy f d)) = lely_driver (derived d)" "same_flags d (upd_proxy f d)"
  "activated (upd_proxy f d) = activated d" "ext (derived (upd_proxy f d)) = f (ext (derived d))"
  by (simp_all add: upd_proxy_def)

lemma same_flags_bind:
  assumes "same_flags d (snd p)" "\<And>a x. same_flags x (snd (k a x))"
  shows "same_flags d (snd (bindE p k))"
  by (rule bindE_state[where P = "same_flags d"], rule assms(1)) (rule same_flags_trans[OF _ assms(2)])

lemma outcome_flags_iff: "(\<forall>d r d'. h d = (r, d') \<longrightarrow> same_flags d d') \<longleftrightarrow> (\<forall>d. same_flags d (snd (h d)))"
  by (metis prod.collapse snd_conv)

subsection \<open>Properties\<close>


definition example_proxy :: "(u16 \<times> u8 \<rightharpoonup> co_type \<times> int, device_memory, unit) proxy_node" where
  "example_proxy =
    (fresh_node (base_x \<lparr>nmt_topic = [], rpdo_topic = [], interface = True, proxy_rest = ()\<rparr>
       \<lparr>lely_driver := Some (example_bridge\<lparr>rpdo_queue := [\<lparr>index_of = 0x6041, subindex_of = 0, data_of = 39\<rparr>],
          emcy_queue := [\<lparr>eec = 0x1000, er = 1, msef = [0, 0, 0, 0, 0]\<rparr>]\<rparr>), queues_held := True\<rparr>))
    \<lparr>activated := True\<rparr>"


text \<open>One polling period of an active driver forwards the first ten RPDOs that wait in the
  queue of the bridge, in their order, to the topic and leaves the rest in the queue; it takes the
  first ten emergencies too, and the last of them is the one the diagnostics show, as an error.\<close>

theorem poll_forwards_in_order:
  assumes "activated d" "lely_driver (derived d) = Some b" "queues_held (derived d)"
    "rpdo_cb (derived d) = None" "emcy_cb (derived d) = None"
  shows "\<exists>d' b'. poll_timer_callback proxy_virtuals d = Some d' \<and> lely_driver (derived d') = Some b' \<and>
    rpdo_topic (ext (derived d')) = rpdo_topic (ext (derived d)) @ take 10 (rpdo_queue b) \<and>
    rpdo_queue b' = drop 10 (rpdo_queue b) \<and> emcy_queue b' = drop 10 (emcy_queue b) \<and>
    (emcy_queue b \<noteq> [] \<longrightarrow> getLevel (collector (derived d')) = DIAG_ERROR \<and>
       getValue ''EMCY'' (collector (derived d')) = emcy_text (last (take 10 (emcy_queue b))))"
proof -
  have F: "forwarding d b"
    using assms by (simp add: forwarding_def)
  obtain d1 where d1: "poll_loop 10 pop_emcy (deliver_emcy proxy_virtuals) d = Some d1"
      "forwarding d1 (b\<lparr>emcy_queue := drop 10 (emcy_queue b)\<rparr>)"
      "rpdo_topic (ext (derived d1)) = rpdo_topic (ext (derived d))"
      "collector (derived d1) = fold emcy_note (take 10 (emcy_queue b)) (collector (derived d))"
    using poll_emcy[OF F, of 10] by blast
  obtain d2 where d2: "poll_loop 10 pop_rpdo (deliver_rpdo proxy_virtuals) d1 = Some d2"
      "lely_driver (derived d2) = Some (b\<lparr>emcy_queue := drop 10 (emcy_queue b), rpdo_queue := drop 10 (rpdo_queue b)\<rparr>)"
      "rpdo_topic (ext (derived d2)) = rpdo_topic (ext (derived d)) @ take 10 (rpdo_queue b)"
      "collector (derived d2) = collector (derived d1)"
    using poll_rpdo[OF d1(2), of 10] d1(3) by (auto simp: forwarding_def)
  have "emcy_queue b \<noteq> [] \<Longrightarrow> take 10 (emcy_queue b) \<noteq> []"
    by simp
  with d1 d2 fold_emcy_note[of "take 10 (emcy_queue b)"] show ?thesis
    by (intro exI[of _ d2]) (simp add: poll_timer_callback_def)
qed

theorem poll_forwards_in_order_witness:
  "\<exists>d'. poll_timer_callback proxy_virtuals example_proxy = Some d' \<and>
    rpdo_topic (ext (derived d')) = [\<lparr>index_of = 0x6041, subindex_of = 0, data_of = 39\<rparr>]"
proof -
  let ?b = "example_bridge\<lparr>rpdo_queue := [\<lparr>index_of = 0x6041, subindex_of = 0, data_of = 39\<rparr>],
    emcy_queue := [\<lparr>eec = 0x1000, er = 1, msef = [0, 0, 0, 0, 0]\<rparr>]\<rparr>"
  have "activated example_proxy" "lely_driver (derived example_proxy) = Some ?b"
    "queues_held (derived example_proxy)" "rpdo_cb (derived example_proxy) = None"
    "emcy_cb (derived example_proxy) = None" "rpdo_topic (ext (derived example_proxy)) = []"
    by (simp_all add: example_proxy_def fresh_node_def base_x_def)
  with poll_forwards_in_order[of example_proxy ?b] show ?thesis by auto
qed

text \<open>Between the removal of the bridge and the end of the deactivation a driver with an RPDO
  callback and a waiting RPDO has no bridge to ask for its node id: a poll at that moment
  dereferences a null pointer.\<close>

theorem poll_after_removal:
  assumes "lely_driver (derived d) = Some b" "queues_held (derived d)" "rpdo_cb (derived d) = Some f"
    "emcy_queue b = []" "rpdo_queue b \<noteq> []"
  shows "poll_timer_callback virt (upd drop_bridge d) = None"
proof -
  obtain m q where q: "rpdo_queue b = m # q"
    using assms(5) by (cases "rpdo_queue b") auto
  let ?d = "upd drop_bridge d"
  have D: "lely_driver (derived ?d) = None" "queues_held (derived ?d)" "orphans (derived ?d) = ([], m # q)"
    "rpdo_cb (derived ?d) = Some f"
    using assms q by (simp_all add: drop_bridge_def)
  have emcy: "pop_emcy ?d = Some (None, upd (\<lambda>x. x\<lparr>orphans := ([], snd (orphans x))\<rparr>) ?d)"
    using D by (simp add: pop_emcy_def)
  have D1: "lely_driver (derived (upd (\<lambda>x. x\<lparr>orphans := ([], snd (orphans x))\<rparr>) ?d)) = None"
    "queues_held (derived (upd (\<lambda>x. x\<lparr>orphans := ([], snd (orphans x))\<rparr>) ?d))"
    "orphans (derived (upd (\<lambda>x. x\<lparr>orphans := ([], snd (orphans x))\<rparr>) ?d)) = ([], m # q)"
    "rpdo_cb (derived (upd (\<lambda>x. x\<lparr>orphans := ([], snd (orphans x))\<rparr>) ?d)) = Some f"
    using D by simp_all
  let ?d1 = "upd (\<lambda>x. x\<lparr>orphans := ([], snd (orphans x))\<rparr>) ?d"
  have "poll_loop 10 pop_emcy (deliver_emcy virt) ?d = Some ?d1"
    by (rule poll_loop_empty[where pop = pop_emcy, OF emcy]) simp
  moreover have "poll_loop 10 pop_rpdo (deliver_rpdo virt) ?d1 = None"
  proof (rule poll_loop_null[where pop = pop_rpdo])
    show "pop_rpdo ?d1 = Some (Some m, upd (\<lambda>x. x\<lparr>orphans := (fst (orphans x), q)\<rparr>) ?d1)"
      using D1 by (simp add: pop_rpdo_def del: upd_twice)
    show "deliver_rpdo virt m (upd (\<lambda>x. x\<lparr>orphans := (fst (orphans x), q)\<rparr>) ?d1) = None"
      using D1 by (simp add: deliver_rpdo_def deliver_def)
  qed simp
  ultimately show ?thesis
    by (simp add: poll_timer_callback_def)
qed

theorem poll_after_removal_witness:
  "poll_timer_callback base_virtuals (upd drop_bridge
     (fresh_node ((base_x ())\<lparr>lely_driver := Some (example_bridge\<lparr>rpdo_queue :=
        [\<lparr>index_of = 0x6041, subindex_of = 0, data_of = 39\<rparr>]\<rparr>), queues_held := True,
        rpdo_cb := Some (\<lambda>m i w. (Inr (), w))\<rparr>))) = None"
proof (rule poll_after_removal)
  show "lely_driver (derived (fresh_node ((base_x ())\<lparr>lely_driver := Some (example_bridge\<lparr>rpdo_queue :=
        [\<lparr>index_of = 0x6041, subindex_of = 0, data_of = 39\<rparr>]\<rparr>), queues_held := True,
        rpdo_cb := Some (\<lambda>m i w. (Inr (), w))\<rparr>))) = Some (example_bridge\<lparr>rpdo_queue :=
        [\<lparr>index_of = 0x6041, subindex_of = 0, data_of = 39\<rparr>]\<rparr>)"
    by (simp add: fresh_node_def)
qed (simp_all add: fresh_node_def example_bridge_def)

end
