(* ===== verification/Devices.thy ===== *)
theory Devices
  imports Config "HOL-Library.List_Lexorder" "HOL-Library.Char_ord"
begin

text \<open>
  The bus configuration (\<open>canopen_core\<close>, \<open>configuration_manager.hpp\<close> and \<open>.cpp\<close>): a map from device
  names to YAML nodes. A \<open>std::map\<close> is iterated in the order of its keys, so it is an association
  list sorted by them; the order of strings is the lexicographic one of their characters.
\<close>

subsection \<open>Ordered maps\<close>

text \<open>\<open>emplace\<close> and \<open>insert\<close> keep an entry that is there, assignment through \<open>[]\<close> replaces it.\<close>

fun emplace :: "'k::linorder \<Rightarrow> 'v \<Rightarrow> ('k \<times> 'v) list \<Rightarrow> ('k \<times> 'v) list" where
  "emplace k v [] = [(k, v)]"
| "emplace k v ((k', v') # m) =
    (if k < k' then (k, v) # (k', v') # m
     else if k = k' then (k', v') # m
     else (k', v') # emplace k v m)"

fun assign :: "'k::linorder \<Rightarrow> 'v \<Rightarrow> ('k \<times> 'v) list \<Rightarrow> ('k \<times> 'v) list" where
  "assign k v [] = [(k, v)]"
| "assign k v ((k', v') # m) =
    (if k < k' then (k, v) # (k', v') # m
     else if k = k' then (k, v) # m
     else (k', v') # assign k v m)"

definition ordered :: "('k::linorder \<times> 'v) list \<Rightarrow> bool" where
  "ordered m \<longleftrightarrow> sorted_wrt (<) (map fst m)"

lemma ordered_simps [simp]:
  "ordered []" "ordered ((k, v) # m) \<longleftrightarrow> (\<forall>x \<in> set m. k < fst x) \<and> ordered m"
  by (auto simp: ordered_def)

lemma fst_emplace [simp]: "fst ` set (emplace k v m) = insert k (fst ` set m)"
  by (induction k v m rule: emplace.induct) auto

lemma fst_assign [simp]: "fst ` set (assign k v m) = insert k (fst ` set m)"
  by (induction k v m rule: assign.induct) auto

lemma ordered_emplace: "ordered m \<Longrightarrow> ordered (emplace k v m)"
proof (induction k v m rule: emplace.induct)
  case (2 k v k' v' m)
  have "fst ` set (emplace k v m) = insert k (fst ` set m)" by simp
  then have "\<forall>x \<in> set (emplace k v m). fst x = k \<or> fst x \<in> fst ` set m" by blast
  with 2 show ?case by fastforce
qed simp

lemma ordered_assign: "ordered m \<Longrightarrow> ordered (assign k v m)"
proof (induction k v m rule: assign.induct)
  case (2 k v k' v' m)
  have "fst ` set (assign k v m) = insert k (fst ` set m)" by simp
  then have "\<forall>x \<in> set (assign k v m). fst x = k \<or> fst x \<in> fst ` set m" by blast
  with 2 show ?case by fastforce
qed simp

lemma ordered_distinct: "ordered m \<Longrightarrow> distinct (map fst m)"
  by (simp add: ordered_def strict_sorted_iff)

lemma map_of_ordered_None: "\<forall>x \<in> set m. (k :: 'k::linorder) < fst x \<Longrightarrow> map_of m k = None"
  by (induction m) auto

lemma map_of_emplace:
  "ordered m \<Longrightarrow> map_of (emplace k v m) k' =
    (if k' = k \<and> map_of m k = None then Some v else map_of m k')"
proof (induction k v m rule: emplace.induct)
  case (2 k v a b m)
  have "k < a \<Longrightarrow> map_of m k = None"
    using 2(2) by (intro map_of_ordered_None) auto
  moreover have "\<not> k < k" by simp
  ultimately show ?case using 2 by (cases "k < a"; cases "k = a") auto
qed simp

lemma map_of_emplace_kept: "map_of m k = Some v \<Longrightarrow> ordered m \<Longrightarrow> map_of (emplace k' v' m) k = Some v"
  by (auto simp: map_of_emplace)

lemma map_of_assign: "ordered m \<Longrightarrow> map_of (assign k v m) k' = (if k' = k then Some v else map_of m k')"
  by (induction k v m rule: assign.induct) auto

subsection \<open>Substrings\<close>

text \<open>\<open>s.find(p) != std::string::npos\<close>\<close>

fun contains :: "string \<Rightarrow> string \<Rightarrow> bool" where
  "contains p [] = (p = [])"
| "contains p (c # s) = (take (length p) (c # s) = p \<or> contains p s)"

subsection \<open>The configuration manager\<close>

record config_manager =
  cm_file :: string
  cm_root :: "(string \<times> yaml) list"
  devices :: "(string \<times> yaml) list"

definition ConfigurationManager_new :: "yaml_lib \<Rightarrow> string \<Rightarrow> exn + config_manager" where
  "ConfigurationManager_new yl f =
    (case yaml_load_file yl f of
       Inl e \<Rightarrow> Inl e
     | Inr entries \<Rightarrow> Inr \<lparr>cm_file = f, cm_root = entries, devices = []\<rparr>)"

text \<open>The first loop of \<open>init_config\<close> looks for the path in the options, the second fills the map.\<close>

fun options_path :: "string \<Rightarrow> (string \<times> yaml) list \<Rightarrow> exn + string" where
  "options_path path [] = Inr path"
| "options_path path ((name, node) # rest) =
    (if name \<noteq> ''options'' then options_path path rest
     else if has_entry node [''dcf_path'']
     then (case required (as_string node [''dcf_path'']) of
             Inl e \<Rightarrow> Inl e | Inr p \<Rightarrow> options_path p rest)
     else options_path path rest)"

fun insert_devices ::
  "yaml_lib \<Rightarrow> string \<Rightarrow> (string \<times> yaml) list \<Rightarrow> (string \<times> yaml) list \<Rightarrow> (string \<times> yaml) list" where
  "insert_devices yl path [] m = m"
| "insert_devices yl path ((name, node) # rest) m =
    (if name = ''options'' then insert_devices yl path rest m
     else insert_devices yl path rest
       (emplace name (if has_entry node [''dcf_path''] then node else yaml_assign yl ''dcf_path'' path node) m))"

definition init_config :: "yaml_lib \<Rightarrow> config_manager \<Rightarrow> (config_manager, unit) outcome" where
  "init_config yl c =
    (case options_path [] (cm_root c) of
       Inl e \<Rightarrow> (Inl e, c)
     | Inr path \<Rightarrow> (Inr (), c\<lparr>devices := insert_devices yl path (cm_root c) (devices c)\<rparr>))"

definition get_all_devices :: "config_manager \<Rightarrow> string list" where
  "get_all_devices c = map fst (devices c)"

definition get_entry ::
  "(yaml \<Rightarrow> string list \<Rightarrow> 'a option) \<Rightarrow> config_manager \<Rightarrow> string \<Rightarrow> string \<Rightarrow> 'a option" where
  "get_entry conv c device_name entry_name =
    (case map_of (devices c) device_name of None \<Rightarrow> None | Some node \<Rightarrow> conv node [entry_name])"

definition dump_device :: "yaml_lib \<Rightarrow> config_manager \<Rightarrow> string \<Rightarrow> string" where
  "dump_device yl c device_name =
    (case map_of (devices c) device_name of None \<Rightarrow> [] | Some node \<Rightarrow> yaml_dump yl node)"

lemma insert_devices_ordered: "ordered m \<Longrightarrow> ordered (insert_devices yl path entries m)"
  by (induction yl path entries m rule: insert_devices.induct) (auto simp: ordered_emplace)

lemma insert_devices_names:
  "fst ` set (insert_devices yl path entries m) = fst ` set m \<union> (fst ` set entries - {''options''})"
  by (induction yl path entries m rule: insert_devices.induct) auto

lemma insert_devices_lookup:
  "ordered m \<Longrightarrow> map_of (insert_devices yl path entries m) n =
    (case map_of m n of
       Some node \<Rightarrow> Some node
     | None \<Rightarrow> if n = ''options'' then None
              else map_option (\<lambda>node. if has_entry node [''dcf_path''] then node
                                      else yaml_assign yl ''dcf_path'' path node) (map_of entries n))"
proof (induction yl path entries m rule: insert_devices.induct)
  case (1 yl path m)
  then show ?case by (simp split: option.split)
next
  case (2 yl path name node rest m)
  show ?case
  proof (cases "name = ''options''")
    case True
    with 2 show ?thesis by (auto split: option.split)
  next
    case False
    let ?x = "if has_entry node [''dcf_path''] then node else yaml_assign yl ''dcf_path'' path node"
    from 2(2)[OF False ordered_emplace[OF 2(3)]] False map_of_emplace[OF 2(3), of name ?x n]
    show ?thesis by (auto split: option.split)
  qed
qed

subsection \<open>Property\<close>

text \<open>A bus configuration that loads lists every device once, in the order of the names and
  without the options; the first entry of a name wins, and a device without a path of its own to
  its configuration files has the one of the options.\<close>

theorem init_config_devices:
  assumes "yaml_library yl" "ConfigurationManager_new yl f = Inr c" "init_config yl c = (Inr (), c')"
    "options_path [] (cm_root c) = Inr path"
  shows "sorted_wrt (<) (get_all_devices c') \<and>
    set (get_all_devices c') = fst ` set (cm_root c) - {''options''} \<and>
    (\<forall>n node. n \<noteq> ''options'' \<and> map_of (cm_root c) n = Some node \<longrightarrow>
       get_entry as_string c' n ''dcf_path'' =
         (if has_entry node [''dcf_path''] then as_string node [''dcf_path''] else Some path))"
proof -
  have new: "devices c = []"
    using assms(2) by (auto simp: ConfigurationManager_new_def split: sum.splits)
  have dev: "devices c' = insert_devices yl path (cm_root c) []"
    using assms(3,4) new by (auto simp: init_config_def)
  show ?thesis
    using insert_devices_ordered[of "[]" yl path "cm_root c"]
      insert_devices_names[of yl path "cm_root c" "[]"]
      insert_devices_lookup[of "[]" yl path "cm_root c"] yaml_library.assign_entry[OF assms(1)]
    by (auto simp: get_all_devices_def get_entry_def dev ordered_def)
qed

definition example_bus :: "(string \<times> yaml) list" where
  "example_bus =
    [(''options'', empty_yaml\<lparr>has_entry := (\<lambda>p. p = [''dcf_path'']), as_string := [[''dcf_path''] \<mapsto> ''/config'']\<rparr>),
     (''motor'', empty_yaml\<lparr>as_u8 := [[''node_id''] \<mapsto> 2], as_u16 := [[''node_id''] \<mapsto> 2]\<rparr>),
     (''a_master'', empty_yaml\<lparr>as_u8 := [[''node_id''] \<mapsto> 1], as_u16 := [[''node_id''] \<mapsto> 1]\<rparr>)]"

definition example_config :: config_manager where
  "example_config =
    \<lparr>cm_file = ''bus.yml'', cm_root = example_bus,
     devices = insert_devices (plain_yaml example_bus empty_yaml) ''/config'' example_bus []\<rparr>"

theorem init_config_devices_witness:
  "get_entry as_string example_config ''motor'' ''dcf_path'' = Some ''/config''"
proof -
  let ?yl = "plain_yaml example_bus empty_yaml"
  let ?c = "\<lparr>cm_file = ''bus.yml'', cm_root = example_bus, devices = []\<rparr>"
  have new: "ConfigurationManager_new ?yl ''bus.yml'' = Inr ?c"
    by (simp add: ConfigurationManager_new_def plain_yaml_def)
  have path: "options_path [] (cm_root ?c) = Inr ''/config''"
    by (simp add: example_bus_def empty_yaml_def)
  then have init: "init_config ?yl ?c = (Inr (), example_config)"
    by (simp add: init_config_def example_config_def)
  have motor: "map_of (cm_root ?c) ''motor''
      = Some (empty_yaml\<lparr>as_u8 := [[''node_id''] \<mapsto> 2], as_u16 := [[''node_id''] \<mapsto> 2]\<rparr>)"
    by (simp add: example_bus_def)
  show ?thesis
    using init_config_devices[OF py.yaml_library_axioms new init path] motor
    by (simp add: empty_yaml_def)
qed

end
