(* ===== verification/LifecycleManager.thy ===== *)
theory LifecycleManager
  imports Devices "HOL-Library.Monad_Syntax"
begin

text \<open>
  The lifecycle manager (\<open>canopen_core\<close>, \<open>lifecycle_manager.hpp\<close> and \<open>.cpp\<close>): it brings the master
  and the driver nodes up and down through the lifecycle services of the nodes. The services are
  not part of the sources: \<open>services\<close> is the record of their calls over the state \<open>'w\<close> of the other
  nodes, and \<open>lifecycle_services\<close> is the locale of what the manager relies on.
\<close>

subsection \<open>Lifecycle services\<close>

text \<open>The numbers of \<open>lifecycle_msgs\<close>.\<close>

definition STATE_UNKNOWN :: nat where "STATE_UNKNOWN = 0"
definition STATE_UNCONFIGURED :: nat where "STATE_UNCONFIGURED = 1"
definition STATE_INACTIVE :: nat where "STATE_INACTIVE = 2"
definition STATE_ACTIVE :: nat where "STATE_ACTIVE = 3"

definition TRANSITION_CONFIGURE :: u8 where "TRANSITION_CONFIGURE = 1"
definition TRANSITION_CLEANUP :: u8 where "TRANSITION_CLEANUP = 2"
definition TRANSITION_ACTIVATE :: u8 where "TRANSITION_ACTIVATE = 3"
definition TRANSITION_DEACTIVATE :: u8 where "TRANSITION_DEACTIVATE = 4"

lemmas lifecycle_numbers = STATE_UNKNOWN_def STATE_UNCONFIGURED_def STATE_INACTIVE_def STATE_ACTIVE_def
  TRANSITION_CONFIGURE_def TRANSITION_CLEANUP_def TRANSITION_ACTIVATE_def TRANSITION_DEACTIVATE_def

text \<open>A call by the name of the node. \<open>None\<close>: the service is not there or does not answer in time.\<close>

record 'w services =
  srv_get_state :: "string \<Rightarrow> 'w \<Rightarrow> nat option \<times> 'w"
  srv_change_state :: "string \<Rightarrow> u8 \<Rightarrow> 'w \<Rightarrow> bool option \<times> 'w"

fun transition_target :: "u8 \<Rightarrow> nat option" where
  "transition_target t =
    (if t = 1 then Some 2 else if t = 2 then Some 1 else if t = 3 then Some 3
     else if t = 4 then Some 2 else None)"

text \<open>A state that is reported is the state of the node; asking changes nothing; a transition touches
  one node only, and when it is reported as done it has led to its target. What an unanswered or
  failed request has done to the node stays open. \<open>requests\<close> lists the transitions asked for.\<close>

locale lifecycle_services =
  fixes sv :: "'w services" and node_state :: "'w \<Rightarrow> string \<Rightarrow> nat"
    and requests :: "'w \<Rightarrow> (string \<times> u8) list"
  assumes get_same: "srv_get_state sv n w = (r, w') \<Longrightarrow> node_state w' = node_state w \<and> requests w' = requests w"
    and get_true: "srv_get_state sv n w = (Some s, w') \<Longrightarrow> s = node_state w n"
    and change_other: "srv_change_state sv n t w = (r', w') \<Longrightarrow> n' \<noteq> n \<Longrightarrow> node_state w' n' = node_state w n'"
    and change_true: "srv_change_state sv n t w = (Some True, w') \<Longrightarrow> transition_target t = Some s \<Longrightarrow>
      node_state w' n = s"
    and change_request: "srv_change_state sv n t w = (r', w') \<Longrightarrow> requests w' = requests w @ [(n, t)]"

subsection \<open>The manager\<close>

text \<open>Both maps of clients have the same keys and lead to the services of the same node; \<open>clients\<close> is
  the node they were made for. \<open>master_id\<close> has an arbitrary value until a master is found.\<close>

record 'w manager =
  lm_container_name :: string
  lm_config :: config_manager
  clients :: "(u8 \<times> string) list"
  device_names_to_ids :: "(string \<times> u8) list"
  master_id :: u8
  nodes :: 'w

definition LifecycleManager_init :: "config_manager \<Rightarrow> 'w manager \<Rightarrow> 'w manager" where
  "LifecycleManager_init c m = m\<lparr>lm_config := c\<rparr>"

text \<open>The name of the node of a device: its namespace, closed by a slash, and its name.\<close>

definition qualified_name :: "config_manager \<Rightarrow> string \<Rightarrow> string" where
  "qualified_name c device_name =
    (let ns = or_default (get_entry as_string c device_name ''namespace'') []
     in (if ns \<noteq> [] \<and> last ns \<noteq> CHR ''/'' then ns @ ''/'' else ns) @ device_name)"

fun load_devices :: "string list \<Rightarrow> 'w manager \<Rightarrow> 'w manager" where
  "load_devices [] m = m"
| "load_devices (name # names) m =
    (case get_entry as_u8 (lm_config m) name ''node_id'' of
       None \<Rightarrow> load_devices names m
     | Some nid \<Rightarrow>
         (let m1 = m\<lparr>device_names_to_ids := emplace name nid (device_names_to_ids m),
                     clients := emplace nid (qualified_name (lm_config m) name) (clients m)\<rparr>;
              m2 = (if contains ''master'' name then m1\<lparr>master_id := nid\<rparr> else m1)
          in load_devices names m2))"

definition load_from_config :: "'w manager \<Rightarrow> bool \<times> 'w manager" where
  "load_from_config m = (True, load_devices (get_all_devices (lm_config m)) m)"

text \<open>A request through a client that does not exist dereferences a null pointer: \<open>None\<close>.\<close>

definition get_state :: "'w services \<Rightarrow> u8 \<Rightarrow> 'w manager \<Rightarrow> (nat \<times> 'w manager) option" where
  "get_state sv node_id m =
    do {
      node \<leftarrow> map_of (clients m) node_id;
      let (r, w) = srv_get_state sv node (nodes m);
      Some (case r of None \<Rightarrow> STATE_UNKNOWN | Some s \<Rightarrow> s, m\<lparr>nodes := w\<rparr>)
    }"

definition change_state :: "'w services \<Rightarrow> u8 \<Rightarrow> u8 \<Rightarrow> 'w manager \<Rightarrow> (bool \<times> 'w manager) option" where
  "change_state sv node_id transition m =
    do {
      node \<leftarrow> map_of (clients m) node_id;
      let (r, w) = srv_change_state sv node transition (nodes m);
      Some (case r of None \<Rightarrow> False | Some b \<Rightarrow> b, m\<lparr>nodes := w\<rparr>)
    }"

definition bring_up_master :: "'w services \<Rightarrow> 'w manager \<Rightarrow> (bool \<times> 'w manager) option" where
  "bring_up_master sv m =
    do {
      (st, m1) \<leftarrow> get_state sv (master_id m) m;
      if st \<noteq> STATE_UNCONFIGURED then Some (False, m1)
      else do {
        (ok, m2) \<leftarrow> change_state sv (master_id m1) TRANSITION_CONFIGURE m1;
        if \<not> ok then Some (False, m2)
        else do {
          (ok', m3) \<leftarrow> change_state sv (master_id m2) TRANSITION_ACTIVATE m2;
          Some (ok', m3)
        }
      }
    }"

definition bring_down_master :: "'w services \<Rightarrow> 'w manager \<Rightarrow> (bool \<times> 'w manager) option" where
  "bring_down_master sv m =
    do {
      (ok, m1) \<leftarrow> change_state sv (master_id m) TRANSITION_DEACTIVATE m;
      (ok', m2) \<leftarrow> change_state sv (master_id m1) TRANSITION_CLEANUP m1;
      (st, m3) \<leftarrow> get_state sv (master_id m2) m2;
      Some (st = STATE_UNCONFIGURED, m3)
    }"

text \<open>\<open>device_names_to_ids[device_name]\<close> creates an entry with id 0 when there is none.\<close>

definition id_of :: "string \<Rightarrow> 'w manager \<Rightarrow> u8 \<times> 'w manager" where
  "id_of name m =
    (case map_of (device_names_to_ids m) name of
       Some nid \<Rightarrow> (nid, m)
     | None \<Rightarrow> (0, m\<lparr>device_names_to_ids := emplace name 0 (device_names_to_ids m)\<rparr>))"

definition bring_up_driver :: "'w services \<Rightarrow> string \<Rightarrow> 'w manager \<Rightarrow> (bool \<times> 'w manager) option" where
  "bring_up_driver sv name m0 =
    do {
      let (nid, m) = id_of name m0;
      (mst, m1) \<leftarrow> get_state sv (master_id m) m;
      if mst \<noteq> STATE_ACTIVE then Some (False, m1)
      else do {
        (st, m2) \<leftarrow> get_state sv nid m1;
        if st \<noteq> STATE_UNCONFIGURED then Some (False, m2)
        else do {
          (ok, m3) \<leftarrow> change_state sv nid TRANSITION_CONFIGURE m2;
          if \<not> ok then Some (False, m3)
          else do {
            (ok', m4) \<leftarrow> change_state sv nid TRANSITION_ACTIVATE m3;
            Some (ok', m4)
          }
        }
      }
    }"

definition bring_down_driver :: "'w services \<Rightarrow> string \<Rightarrow> 'w manager \<Rightarrow> (bool \<times> 'w manager) option" where
  "bring_down_driver sv name m0 =
    do {
      let (nid, m) = id_of name m0;
      (ok, m1) \<leftarrow> change_state sv nid TRANSITION_DEACTIVATE m;
      (ok', m2) \<leftarrow> change_state sv nid TRANSITION_CLEANUP m1;
      (st, m3) \<leftarrow> get_state sv nid m2;
      Some (st = STATE_UNCONFIGURED, m3)
    }"

fun up_loop :: "'w services \<Rightarrow> string list \<Rightarrow> 'w manager \<Rightarrow> (bool \<times> 'w manager) option" where
  "up_loop sv [] m = Some (True, m)"
| "up_loop sv (name # names) m =
    (if contains ''master'' name then up_loop sv names m
     else do {
       (ok, m1) \<leftarrow> bring_up_driver sv name m;
       if \<not> ok then Some (False, m1) else up_loop sv names m1
     })"

definition bring_up_all :: "'w services \<Rightarrow> 'w manager \<Rightarrow> (bool \<times> 'w manager) option" where
  "bring_up_all sv m =
    do {
      (ok, m1) \<leftarrow> bring_up_master sv m;
      if \<not> ok then Some (False, m1) else up_loop sv (map fst (device_names_to_ids m1)) m1
    }"

fun down_loop :: "'w services \<Rightarrow> string list \<Rightarrow> 'w manager \<Rightarrow> (bool \<times> 'w manager) option" where
  "down_loop sv [] m = Some (True, m)"
| "down_loop sv (name # names) m =
    (if name = ''master'' then down_loop sv names m
     else do {
       (ok, m1) \<leftarrow> bring_down_driver sv name m;
       if \<not> ok then Some (False, m1) else down_loop sv names m1
     })"

definition bring_down_all :: "'w services \<Rightarrow> 'w manager \<Rightarrow> (bool \<times> 'w manager) option" where
  "bring_down_all sv m =
    do {
      (ok, m1) \<leftarrow> down_loop sv (map fst (device_names_to_ids m)) m;
      if \<not> ok then Some (False, m1) else bring_down_master sv m1
    }"

datatype callback_return = SUCCESS | ERROR

definition manager_on_configure :: "param_table \<Rightarrow> 'w manager \<Rightarrow> callback_return \<times> 'w manager" where
  "manager_on_configure t m =
    (let m1 = m\<lparr>lm_container_name := get_string t ''container_name'' (lm_container_name m)\<rparr>;
         (ok, m2) = load_from_config m1
     in (if ok then SUCCESS else ERROR, m2))"

definition manager_on_activate :: "'w services \<Rightarrow> 'w manager \<Rightarrow> (callback_return \<times> 'w manager) option" where
  "manager_on_activate sv m = do { (ok, m1) \<leftarrow> bring_up_all sv m; Some (if ok then SUCCESS else ERROR, m1) }"

definition manager_on_deactivate :: "'w services \<Rightarrow> 'w manager \<Rightarrow> (callback_return \<times> 'w manager) option" where
  "manager_on_deactivate sv m = do { (ok, m1) \<leftarrow> bring_down_all sv m; Some (if ok then SUCCESS else ERROR, m1) }"

subsection \<open>What the requests do\<close>

text \<open>The node behind a device, and the requests that bring nodes up and down.\<close>

definition node_of :: "'w manager \<Rightarrow> string \<Rightarrow> string" where
  "node_of m name = the (map_of (clients m) (the (map_of (device_names_to_ids m) name)))"

definition start_requests :: "string \<Rightarrow> (string \<times> u8) list" where
  "start_requests n = [(n, TRANSITION_CONFIGURE), (n, TRANSITION_ACTIVATE)]"

definition stop_requests :: "string \<Rightarrow> (string \<times> u8) list" where
  "stop_requests n = [(n, TRANSITION_DEACTIVATE), (n, TRANSITION_CLEANUP)]"

definition up_requests :: "'w manager \<Rightarrow> string list \<Rightarrow> (string \<times> u8) list" where
  "up_requests m names =
    concat (map (\<lambda>name. start_requests (node_of m name)) (filter (\<lambda>name. \<not> contains ''master'' name) names))"

definition down_requests :: "'w manager \<Rightarrow> string list \<Rightarrow> (string \<times> u8) list" where
  "down_requests m names =
    concat (map (\<lambda>name. stop_requests (node_of m name)) (filter (\<lambda>name. name \<noteq> ''master'') names))"

lemma id_of_known: "map_of (device_names_to_ids m) name = Some nid \<Longrightarrow> id_of name m = (nid, m)"
  by (simp add: id_of_def)

context lifecycle_services
begin

lemma get_state_result:
  assumes "get_state sv i m = Some (s, m')"
  obtains n w where "map_of (clients m) i = Some n" "m' = m\<lparr>nodes := w\<rparr>" "node_state w = node_state (nodes m)"
    "requests w = requests (nodes m)" "s \<noteq> STATE_UNKNOWN \<Longrightarrow> s = node_state (nodes m) n"
proof -
  obtain n where n: "map_of (clients m) i = Some n"
    using assms by (auto simp: get_state_def split: Option.bind_splits)
  obtain r w where srv: "srv_get_state sv n (nodes m) = (r, w)" by fastforce
  with n assms get_same[OF srv] get_true[of n "nodes m" _ w] show thesis
    by (intro that[of n w]) (auto simp: get_state_def STATE_UNKNOWN_def split: option.splits)
qed

lemma change_state_result:
  assumes "change_state sv i t m = Some (b, m')"
  obtains n w where "map_of (clients m) i = Some n" "m' = m\<lparr>nodes := w\<rparr>"
    "\<And>n'. n' \<noteq> n \<Longrightarrow> node_state w n' = node_state (nodes m) n'" "requests w = requests (nodes m) @ [(n, t)]"
    "\<And>s. b \<Longrightarrow> transition_target t = Some s \<Longrightarrow> node_state w n = s"
proof -
  obtain n where n: "map_of (clients m) i = Some n"
    using assms by (auto simp: change_state_def split: Option.bind_splits)
  obtain r w where srv: "srv_change_state sv n t (nodes m) = (r, w)" by fastforce
  show thesis
  proof (rule that[OF n])
    show "m' = m\<lparr>nodes := w\<rparr>"
      using assms n srv by (auto simp: change_state_def)
    show "n' \<noteq> n \<Longrightarrow> node_state w n' = node_state (nodes m) n'" for n'
      by (rule change_other[OF srv])
    show "requests w = requests (nodes m) @ [(n, t)]"
      by (rule change_request[OF srv])
    show "node_state w n = s" if "b" "transition_target t = Some s" for s
      using change_true[of n t "nodes m" w s] assms n srv that
      by (auto simp: change_state_def split: option.splits)
  qed
qed

text \<open>Two requests for a node and the question for its state.\<close>

lemma bring_up_driver_result:
  assumes "bring_up_driver sv name m = Some (True, m')" "map_of (device_names_to_ids m) name = Some nid"
  obtains n w where "map_of (clients m) nid = Some n" "m' = m\<lparr>nodes := w\<rparr>"
    "node_state (nodes m) n = STATE_UNCONFIGURED" "node_state w n = STATE_ACTIVE"
    "\<And>n'. n' \<noteq> n \<Longrightarrow> node_state w n' = node_state (nodes m) n'"
    "requests w = requests (nodes m) @ start_requests n"
    "\<exists>mn. map_of (clients m) (master_id m) = Some mn \<and> node_state w mn = STATE_ACTIVE"
proof -
  obtain m1 where g1: "get_state sv (master_id m) m = Some (STATE_ACTIVE, m1)"
    using assms by (auto simp: bring_up_driver_def id_of_known split: Option.bind_splits if_splits)
  obtain m2 where g2: "get_state sv nid m1 = Some (STATE_UNCONFIGURED, m2)"
    using assms g1 by (auto simp: bring_up_driver_def id_of_known split: Option.bind_splits if_splits)
  obtain m3 where c1: "change_state sv nid TRANSITION_CONFIGURE m2 = Some (True, m3)"
    using assms g1 g2 by (auto simp: bring_up_driver_def id_of_known split: Option.bind_splits if_splits)
  have c2: "change_state sv nid TRANSITION_ACTIVATE m3 = Some (True, m')"
    using assms g1 g2 c1 by (auto simp: bring_up_driver_def id_of_known split: Option.bind_splits)
  obtain mn w1 where r1: "map_of (clients m) (master_id m) = Some mn" "m1 = m\<lparr>nodes := w1\<rparr>"
      "node_state w1 = node_state (nodes m)" "requests w1 = requests (nodes m)"
      "node_state (nodes m) mn = STATE_ACTIVE"
    by (rule get_state_result[OF g1]) (simp add: lifecycle_numbers)
  obtain n w2 where r2: "map_of (clients m1) nid = Some n" "m2 = m1\<lparr>nodes := w2\<rparr>"
      "node_state w2 = node_state (nodes m1)" "requests w2 = requests (nodes m1)"
      "node_state (nodes m1) n = STATE_UNCONFIGURED"
    by (rule get_state_result[OF g2]) (simp add: lifecycle_numbers)
  obtain n3 w3 where r3: "map_of (clients m2) nid = Some n3" "m3 = m2\<lparr>nodes := w3\<rparr>"
      "\<And>n'. n' \<noteq> n3 \<Longrightarrow> node_state w3 n' = node_state (nodes m2) n'"
      "requests w3 = requests (nodes m2) @ [(n3, TRANSITION_CONFIGURE)]"
    by (rule change_state_result[OF c1]) blast
  obtain n4 w4 where r4: "map_of (clients m3) nid = Some n4" "m' = m3\<lparr>nodes := w4\<rparr>"
      "\<And>n'. n' \<noteq> n4 \<Longrightarrow> node_state w4 n' = node_state (nodes m3) n'"
      "requests w4 = requests (nodes m3) @ [(n4, TRANSITION_ACTIVATE)]"
      "node_state w4 n4 = STATE_ACTIVE"
    by (rule change_state_result[OF c2]) (simp add: lifecycle_numbers)
  have same: "n3 = n" "n4 = n"
    using r1 r2 r3 r4 by simp_all
  have "mn \<noteq> n"
    using r1 r2 by (auto simp: lifecycle_numbers)
  with r1 r2 r3 r4 same show thesis
    by (intro that[of n w4]) (auto simp: start_requests_def)
qed

lemma bring_down_result:
  assumes "change_state sv nid TRANSITION_DEACTIVATE m = Some (b1, m1)"
    "change_state sv nid TRANSITION_CLEANUP m1 = Some (b2, m2)" "get_state sv nid m2 = Some (s, m3)"
  obtains n w where "map_of (clients m) nid = Some n" "m3 = m\<lparr>nodes := w\<rparr>"
    "\<And>n'. n' \<noteq> n \<Longrightarrow> node_state w n' = node_state (nodes m) n'"
    "requests w = requests (nodes m) @ [(n, TRANSITION_DEACTIVATE), (n, TRANSITION_CLEANUP)]"
    "s \<noteq> STATE_UNKNOWN \<Longrightarrow> node_state w n = s"
proof -
  obtain n w1 where r1: "map_of (clients m) nid = Some n" "m1 = m\<lparr>nodes := w1\<rparr>"
      "\<And>n'. n' \<noteq> n \<Longrightarrow> node_state w1 n' = node_state (nodes m) n'"
      "requests w1 = requests (nodes m) @ [(n, TRANSITION_DEACTIVATE)]"
    by (rule change_state_result[OF assms(1)]) blast
  obtain n2 w2 where r2: "map_of (clients m1) nid = Some n2" "m2 = m1\<lparr>nodes := w2\<rparr>"
      "\<And>n'. n' \<noteq> n2 \<Longrightarrow> node_state w2 n' = node_state (nodes m1) n'"
      "requests w2 = requests (nodes m1) @ [(n2, TRANSITION_CLEANUP)]"
    by (rule change_state_result[OF assms(2)]) blast
  obtain n3 w3 where r3: "map_of (clients m2) nid = Some n3" "m3 = m2\<lparr>nodes := w3\<rparr>"
      "node_state w3 = node_state (nodes m2)" "requests w3 = requests (nodes m2)"
      "s \<noteq> STATE_UNKNOWN \<Longrightarrow> s = node_state (nodes m2) n3"
    by (rule get_state_result[OF assms(3)]) blast
  have "n2 = n" "n3 = n"
    using r1 r2 r3 by simp_all
  with r1 r2 r3 show thesis
    by (intro that[of n w3]) auto
qed

lemma bring_up_master_result:
  assumes "bring_up_master sv m = Some (True, m')"
  obtains n w where "map_of (clients m) (master_id m) = Some n" "m' = m\<lparr>nodes := w\<rparr>"
    "node_state w n = STATE_ACTIVE" "\<And>n'. n' \<noteq> n \<Longrightarrow> node_state w n' = node_state (nodes m) n'"
    "requests w = requests (nodes m) @ start_requests n"
proof -
  obtain m1 where g1: "get_state sv (master_id m) m = Some (STATE_UNCONFIGURED, m1)"
    using assms by (auto simp: bring_up_master_def split: Option.bind_splits if_splits)
  obtain m2 where c1: "change_state sv (master_id m1) TRANSITION_CONFIGURE m1 = Some (True, m2)"
    using assms g1 by (auto simp: bring_up_master_def split: Option.bind_splits if_splits)
  have c2: "change_state sv (master_id m2) TRANSITION_ACTIVATE m2 = Some (True, m')"
    using assms g1 c1 by (auto simp: bring_up_master_def split: Option.bind_splits)
  obtain n w1 where r1: "map_of (clients m) (master_id m) = Some n" "m1 = m\<lparr>nodes := w1\<rparr>"
      "node_state w1 = node_state (nodes m)" "requests w1 = requests (nodes m)"
    by (rule get_state_result[OF g1]) (simp add: lifecycle_numbers)
  obtain n3 w3 where r3: "map_of (clients m1) (master_id m1) = Some n3" "m2 = m1\<lparr>nodes := w3\<rparr>"
      "\<And>n'. n' \<noteq> n3 \<Longrightarrow> node_state w3 n' = node_state (nodes m1) n'"
      "requests w3 = requests (nodes m1) @ [(n3, TRANSITION_CONFIGURE)]"
    by (rule change_state_result[OF c1]) blast
  obtain n4 w4 where r4: "map_of (clients m2) (master_id m2) = Some n4" "m' = m2\<lparr>nodes := w4\<rparr>"
      "\<And>n'. n' \<noteq> n4 \<Longrightarrow> node_state w4 n' = node_state (nodes m2) n'"
      "requests w4 = requests (nodes m2) @ [(n4, TRANSITION_ACTIVATE)]"
      "node_state w4 n4 = STATE_ACTIVE"
    by (rule change_state_result[OF c2]) (simp add: lifecycle_numbers)
  have same: "n3 = n" "n4 = n"
    using r1 r3 r4 by simp_all
  with r1 r3 r4 show thesis
    by (intro that[of n w4]) (auto simp: start_requests_def)
qed

lemma up_loop_result:
  assumes "up_loop sv names m = Some (True, m')" "set names \<subseteq> dom (map_of (device_names_to_ids m))"
  shows "\<exists>w. m' = m\<lparr>nodes := w\<rparr> \<and> requests w = requests (nodes m) @ up_requests m names \<and>
    (\<forall>n. node_state (nodes m) n = STATE_ACTIVE \<longrightarrow> node_state w n = STATE_ACTIVE) \<and>
    (\<forall>name \<in> set names. \<not> contains ''master'' name \<longrightarrow> node_state w (node_of m name) = STATE_ACTIVE)"
  using assms
proof (induction names arbitrary: m)
  case Nil
  then show ?case by (intro exI[of _ "nodes m"]) (simp add: up_requests_def)
next
  case (Cons name names)
  show ?case
  proof (cases "contains ''master'' name")
    case True
    with Cons show ?thesis by (simp add: up_requests_def)
  next
    case False
    obtain nid where nid: "map_of (device_names_to_ids m) name = Some nid"
      using Cons.prems(2) by auto
    obtain m1 where up: "bring_up_driver sv name m = Some (True, m1)"
      using Cons.prems(1) False by (auto split: Option.bind_splits if_splits)
    obtain n w where r: "map_of (clients m) nid = Some n" "m1 = m\<lparr>nodes := w\<rparr>"
        "node_state (nodes m) n = STATE_UNCONFIGURED" "node_state w n = STATE_ACTIVE"
        "\<And>n'. n' \<noteq> n \<Longrightarrow> node_state w n' = node_state (nodes m) n'"
        "requests w = requests (nodes m) @ start_requests n"
      by (rule bring_up_driver_result[OF up nid]) blast
    have node: "node_of m name = n"
      using nid r(1) by (simp add: node_of_def)
    have "up_loop sv names m1 = Some (True, m')"
      using Cons.prems(1) False up by simp
    from Cons.IH[OF this] Cons.prems(2) r(2) obtain w' where
      w': "m' = m1\<lparr>nodes := w'\<rparr>" "requests w' = requests w @ up_requests m1 names"
        "\<forall>n. node_state w n = STATE_ACTIVE \<longrightarrow> node_state w' n = STATE_ACTIVE"
        "\<forall>name \<in> set names. \<not> contains ''master'' name \<longrightarrow> node_state w' (node_of m1 name) = STATE_ACTIVE"
      by auto
    have keep: "node_state (nodes m) k = STATE_ACTIVE \<Longrightarrow> node_state w' k = STATE_ACTIVE" for k
      using w'(3) r(4,5) by (cases "k = n") auto
    show ?thesis
    proof (intro exI[of _ w'] conjI allI impI ballI)
      show "m' = m\<lparr>nodes := w'\<rparr>" using w'(1) r(2) by simp
      show "requests w' = requests (nodes m) @ up_requests m (name # names)"
        using w'(2) r(2,6) False node by (simp add: up_requests_def node_of_def)
      show "node_state w' (node_of m name') = STATE_ACTIVE"
        if "name' \<in> set (name # names)" "\<not> contains ''master'' name'" for name'
        using that w'(3,4) node r(2,4) by (auto simp: node_of_def)
    qed (rule keep)
  qed
qed

lemma bring_down_driver_result:
  assumes "bring_down_driver sv name m = Some (True, m')" "map_of (device_names_to_ids m) name = Some nid"
  obtains w where "m' = m\<lparr>nodes := w\<rparr>" "node_state w (node_of m name) = STATE_UNCONFIGURED"
    "\<And>n'. n' \<noteq> node_of m name \<Longrightarrow> node_state w n' = node_state (nodes m) n'"
    "requests w = requests (nodes m) @ stop_requests (node_of m name)"
proof -
  obtain b1 m1 where c1: "change_state sv nid TRANSITION_DEACTIVATE m = Some (b1, m1)"
    using assms by (auto simp: bring_down_driver_def id_of_known split: Option.bind_splits)
  obtain b2 m2 where c2: "change_state sv nid TRANSITION_CLEANUP m1 = Some (b2, m2)"
    using assms c1 by (auto simp: bring_down_driver_def id_of_known split: Option.bind_splits)
  have g: "get_state sv nid m2 = Some (STATE_UNCONFIGURED, m')"
    using assms c1 c2 by (auto simp: bring_down_driver_def id_of_known split: Option.bind_splits)
  show thesis
    by (rule bring_down_result[OF c1 c2 g])
      (use assms(2) in \<open>auto simp: node_of_def stop_requests_def lifecycle_numbers intro!: that\<close>)
qed

lemma bring_down_master_result:
  assumes "bring_down_master sv m = Some (True, m')"
  obtains n w where "map_of (clients m) (master_id m) = Some n" "m' = m\<lparr>nodes := w\<rparr>"
    "node_state w n = STATE_UNCONFIGURED" "\<And>n'. n' \<noteq> n \<Longrightarrow> node_state w n' = node_state (nodes m) n'"
    "requests w = requests (nodes m) @ stop_requests n"
proof -
  obtain b1 m1 where c1: "change_state sv (master_id m) TRANSITION_DEACTIVATE m = Some (b1, m1)"
    using assms by (auto simp: bring_down_master_def split: Option.bind_splits)
  have id1: "master_id m1 = master_id m"
    by (rule change_state_result[OF c1]) simp
  obtain b2 m2 where c2: "change_state sv (master_id m) TRANSITION_CLEANUP m1 = Some (b2, m2)"
    using assms c1 id1 by (auto simp: bring_down_master_def split: Option.bind_splits)
  have id2: "master_id m2 = master_id m"
    by (rule change_state_result[OF c2]) (simp add: id1)
  have g: "get_state sv (master_id m) m2 = Some (STATE_UNCONFIGURED, m')"
    using assms c1 c2 id1 id2 by (auto simp: bring_down_master_def split: Option.bind_splits)
  show thesis
    by (rule bring_down_result[OF c1 c2 g])
      (auto simp: stop_requests_def lifecycle_numbers intro!: that)
qed

lemma down_loop_result:
  assumes "down_loop sv names m = Some (True, m')" "set names \<subseteq> dom (map_of (device_names_to_ids m))"
  shows "\<exists>w. m' = m\<lparr>nodes := w\<rparr> \<and> requests w = requests (nodes m) @ down_requests m names \<and>
    (\<forall>n. node_state (nodes m) n = STATE_UNCONFIGURED \<longrightarrow> node_state w n = STATE_UNCONFIGURED) \<and>
    (\<forall>name \<in> set names. name \<noteq> ''master'' \<longrightarrow> node_state w (node_of m name) = STATE_UNCONFIGURED)"
  using assms
proof (induction names arbitrary: m)
  case Nil
  then show ?case by (intro exI[of _ "nodes m"]) (simp add: down_requests_def)
next
  case (Cons name names)
  show ?case
  proof (cases "name = ''master''")
    case True
    with Cons show ?thesis by (simp add: down_requests_def)
  next
    case False
    obtain nid where nid: "map_of (device_names_to_ids m) name = Some nid"
      using Cons.prems(2) by auto
    obtain m1 where down: "bring_down_driver sv name m = Some (True, m1)"
      using Cons.prems(1) False by (auto split: Option.bind_splits if_splits)
    obtain w where r: "m1 = m\<lparr>nodes := w\<rparr>" "node_state w (node_of m name) = STATE_UNCONFIGURED"
        "\<And>n'. n' \<noteq> node_of m name \<Longrightarrow> node_state w n' = node_state (nodes m) n'"
        "requests w = requests (nodes m) @ stop_requests (node_of m name)"
      by (rule bring_down_driver_result[OF down nid]) blast
    have "down_loop sv names m1 = Some (True, m')"
      using Cons.prems(1) False down by simp
    from Cons.IH[OF this] Cons.prems(2) r(1) obtain w' where
      w': "m' = m1\<lparr>nodes := w'\<rparr>" "requests w' = requests w @ down_requests m1 names"
        "\<forall>n. node_state w n = STATE_UNCONFIGURED \<longrightarrow> node_state w' n = STATE_UNCONFIGURED"
        "\<forall>name \<in> set names. name \<noteq> ''master'' \<longrightarrow> node_state w' (node_of m1 name) = STATE_UNCONFIGURED"
      by auto
    have keep: "node_state (nodes m) k = STATE_UNCONFIGURED \<Longrightarrow> node_state w' k = STATE_UNCONFIGURED" for k
      using w'(3) r(2,3) by (cases "k = node_of m name") auto
    show ?thesis
    proof (intro exI[of _ w'] conjI allI impI ballI)
      show "m' = m\<lparr>nodes := w'\<rparr>" using w'(1) r(1) by simp
      show "requests w' = requests (nodes m) @ down_requests m (name # names)"
        using w'(2) r(1,4) False by (simp add: down_requests_def node_of_def)
      show "node_state w' (node_of m name') = STATE_UNCONFIGURED"
        if "name' \<in> set (name # names)" "name' \<noteq> ''master''" for name'
        using that w'(3,4) r(1,2) by (auto simp: node_of_def)
    qed (rule keep)
  qed
qed

end

text \<open>What both services keep of the other nodes, every operation of the manager keeps.\<close>

locale service_invariant =
  fixes isv :: "'w services" and P :: "'w \<Rightarrow> bool"
  assumes get_keeps: "P w \<Longrightarrow> srv_get_state isv n w = (r, w') \<Longrightarrow> P w'"
    and change_keeps: "P w \<Longrightarrow> srv_change_state isv n t w = (r', w') \<Longrightarrow> P w'"
begin

lemma get_state_keeps: "get_state isv i m = Some (s, m') \<Longrightarrow> P (nodes m) \<Longrightarrow> P (nodes m')"
  by (auto simp: get_state_def split: Option.bind_splits prod.splits intro: get_keeps)

lemma change_state_keeps: "change_state isv i t m = Some (b, m') \<Longrightarrow> P (nodes m) \<Longrightarrow> P (nodes m')"
  by (auto simp: change_state_def split: Option.bind_splits prod.splits intro: change_keeps)

lemmas requests_keep = get_state_keeps change_state_keeps

lemma bring_up_master_keeps: "bring_up_master isv m = Some (b, m') \<Longrightarrow> P (nodes m) \<Longrightarrow> P (nodes m')"
  by (auto simp: bring_up_master_def split: Option.bind_splits if_split_asm) (blast intro: requests_keep)+

lemma id_of_nodes: "nodes (snd (id_of name m)) = nodes m"
  by (simp add: id_of_def split: option.split)

lemma bring_up_driver_keeps: "bring_up_driver isv name m = Some (b, m') \<Longrightarrow> P (nodes m) \<Longrightarrow> P (nodes m')"
  using id_of_nodes[of name m]
  by (auto simp: bring_up_driver_def split: Option.bind_splits if_split_asm prod.splits) (metis requests_keep)+

lemma up_loop_keeps: "up_loop isv names m = Some (b, m') \<Longrightarrow> P (nodes m) \<Longrightarrow> P (nodes m')"
  by (induction names arbitrary: m)
    (auto split: Option.bind_splits if_split_asm dest: bring_up_driver_keeps)

lemma bring_up_all_keeps: "bring_up_all isv m = Some (b, m') \<Longrightarrow> P (nodes m) \<Longrightarrow> P (nodes m')"
  by (auto simp: bring_up_all_def split: Option.bind_splits if_split_asm)
    (blast intro: bring_up_master_keeps up_loop_keeps)+

end

subsection \<open>The table of the devices\<close>

definition device_id :: "config_manager \<Rightarrow> string \<Rightarrow> u8 option" where
  "device_id c name = get_entry as_u8 c name ''node_id''"

definition managed_devices :: "config_manager \<Rightarrow> string list" where
  "managed_devices c = filter (\<lambda>name. device_id c name \<noteq> None) (get_all_devices c)"

lemma load_devices_frame:
  "nodes (load_devices names m) = nodes m" "lm_config (load_devices names m) = lm_config m"
  by (induction names m rule: load_devices.induct) (auto simp: Let_def split: option.splits)

lemma load_devices_ordered:
  "ordered (device_names_to_ids m) \<Longrightarrow> ordered (clients m) \<Longrightarrow>
   ordered (device_names_to_ids (load_devices names m)) \<and> ordered (clients (load_devices names m))"
  by (induction names m rule: load_devices.induct) (auto simp: Let_def ordered_emplace split: option.splits)

lemma load_devices_names:
  "fst ` set (device_names_to_ids (load_devices names m)) =
    fst ` set (device_names_to_ids m) \<union> {name \<in> set names. device_id (lm_config m) name \<noteq> None}"
  by (induction names m rule: load_devices.induct)
    (auto simp: Let_def device_id_def split: option.splits)

lemma load_devices_keep:
  "map_of (device_names_to_ids m) name = Some i \<Longrightarrow> ordered (device_names_to_ids m) \<Longrightarrow>
   map_of (device_names_to_ids (load_devices names m)) name = Some i"
  "map_of (clients m) i = Some q \<Longrightarrow> ordered (clients m) \<Longrightarrow>
   map_of (clients (load_devices names m)) i = Some q"
  by (induction names arbitrary: m)
    (simp_all add: Let_def map_of_emplace_kept ordered_emplace split: option.split)

lemma load_devices_ids:
  "ordered (device_names_to_ids m) \<Longrightarrow> map_of (device_names_to_ids m) name = None \<Longrightarrow>
   map_of (device_names_to_ids (load_devices names m)) name =
     (if name \<in> set names then device_id (lm_config m) name else None)"
proof (induction names m rule: load_devices.induct)
  case (1 m)
  then show ?case by simp
next
  case (2 a names m)
  show ?case
  proof (cases "device_id (lm_config m) a")
    case None
    with 2 show ?thesis by (auto simp: device_id_def)
  next
    case (Some nid)
    let ?m1 = "m\<lparr>device_names_to_ids := emplace a nid (device_names_to_ids m),
      clients := emplace nid (qualified_name (lm_config m) a) (clients m)\<rparr>"
    let ?m2 = "if contains ''master'' a then ?m1\<lparr>master_id := nid\<rparr> else ?m1"
    have step: "load_devices (a # names) m = load_devices names ?m2"
      using Some by (simp add: device_id_def)
    have dn: "device_names_to_ids ?m2 = emplace a nid (device_names_to_ids m)"
      "lm_config ?m2 = lm_config m"
      by simp_all
    show ?thesis
    proof (cases "name = a")
      case True
      have "map_of (device_names_to_ids ?m2) a = Some nid" "ordered (device_names_to_ids ?m2)"
        using 2(3,4) True by (simp_all add: dn map_of_emplace ordered_emplace)
      from load_devices_keep(1)[OF this, of names] step True Some show ?thesis by simp
    next
      case False
      have "ordered (device_names_to_ids ?m2)" "map_of (device_names_to_ids ?m2) name = None"
        using 2(3,4) False by (simp_all add: dn map_of_emplace ordered_emplace)
      with 2(2) Some False step show ?thesis by (simp add: device_id_def Let_def)
    qed
  qed
qed

text \<open>With distinct ids every device has the client of its own node.\<close>

lemma load_devices_clients:
  assumes "\<And>a b nid. device_id (lm_config m) a = Some nid \<Longrightarrow> device_id (lm_config m) b = Some nid \<Longrightarrow> a = b"
    "ordered (clients m)" "name \<in> set names" "device_id (lm_config m) name = Some nid"
    "map_of (clients m) nid \<in> {None, Some (qualified_name (lm_config m) name)}"
  shows "map_of (clients (load_devices names m)) nid = Some (qualified_name (lm_config m) name)"
  using assms
proof (induction names m rule: load_devices.induct)
  case (1 m)
  then show ?case by simp
next
  case (2 a names m)
  show ?case
  proof (cases "get_entry as_u8 (lm_config m) a ''node_id''")
    case None
    with 2 show ?thesis by (auto simp: device_id_def)
  next
    case (Some aid)
    let ?m1 = "m\<lparr>device_names_to_ids := emplace a aid (device_names_to_ids m),
      clients := emplace aid (qualified_name (lm_config m) a) (clients m)\<rparr>"
    let ?m2 = "if contains ''master'' a then ?m1\<lparr>master_id := aid\<rparr> else ?m1"
    have step: "load_devices (a # names) m = load_devices names ?m2"
      using Some by (simp add: device_id_def)
    have m2: "clients ?m2 = emplace aid (qualified_name (lm_config m) a) (clients m)" "lm_config ?m2 = lm_config m"
      by simp_all
    have ord: "ordered (clients ?m2)" using 2(4) by (simp add: m2 ordered_emplace)
    have own: "aid = nid \<Longrightarrow> a = name"
      using 2(3)[of a aid name] 2(6) Some by (simp add: device_id_def)
    have client: "map_of (clients ?m2) nid \<in> {None, Some (qualified_name (lm_config m) name)}"
      "a = name \<Longrightarrow> map_of (clients ?m2) nid = Some (qualified_name (lm_config m) name)"
      using 2(4,6,7) own Some by (auto simp: m2 map_of_emplace device_id_def)
    show ?thesis
    proof (cases "a = name")
      case True
      from load_devices_keep(2)[OF client(2)[OF True] ord, of names] step show ?thesis by simp
    next
      case False
      have IH: "map_of (clients (load_devices names ?m2)) nid = Some (qualified_name (lm_config ?m2) name)"
      proof (rule 2(2)[OF Some refl refl])
        show "x = y" if "device_id (lm_config ?m2) x = Some i" "device_id (lm_config ?m2) y = Some i" for x y i
          using 2(3)[of x i y] that by (simp only: m2)
        show "name \<in> set names" using 2(5) False by simp
        show "device_id (lm_config ?m2) name = Some nid" using 2(6) by (simp only: m2)
        show "map_of (clients ?m2) nid \<in> {None, Some (qualified_name (lm_config ?m2) name)}"
          using client(1) by (simp only: m2)
      qed (rule ord)
      with step show ?thesis by (simp add: m2(2))
    qed
  qed
qed

lemma load_devices_master:
  "master_id (load_devices names m) =
    (case filter (\<lambda>name. contains ''master'' name \<and> device_id (lm_config m) name \<noteq> None) names of
       [] \<Rightarrow> master_id m
     | ms \<Rightarrow> the (device_id (lm_config m) (last ms)))"
  by (induction names m rule: load_devices.induct)
    (auto simp: Let_def device_id_def split: option.splits list.splits)

text \<open>A bus configuration the manager can handle: every node id belongs to one device, and one device
  with an id is the master.\<close>

definition bus_ok :: "config_manager \<Rightarrow> string \<Rightarrow> bool" where
  "bus_ok c mname \<longleftrightarrow> ordered (devices c) \<and> inj_on (device_id c) (set (managed_devices c)) \<and>
     filter (contains ''master'') (managed_devices c) = [mname]"

lemma manager_loaded:
  assumes "bus_ok (lm_config m) mname" "clients m = []" "device_names_to_ids m = []"
    "manager_on_configure t m = (r, m1)"
  shows "map fst (device_names_to_ids m1) = managed_devices (lm_config m)"
    "name \<in> set (managed_devices (lm_config m)) \<Longrightarrow> node_of m1 name = qualified_name (lm_config m) name"
    "map_of (clients m1) (master_id m1) = Some (qualified_name (lm_config m) mname)" "nodes m1 = nodes m" "r = SUCCESS"
proof -
  let ?c = "lm_config m" and ?names = "get_all_devices (lm_config m)"
  let ?m0 = "m\<lparr>lm_container_name := get_string t ''container_name'' (lm_container_name m)\<rparr>"
  have m1: "m1 = load_devices ?names ?m0" and "r = SUCCESS"
    using assms(4) by (simp_all add: manager_on_configure_def load_from_config_def)
  then show "r = SUCCESS" "nodes m1 = nodes m" by (simp_all add: load_devices_frame)
  have managed: "set (managed_devices ?c) = {name \<in> set ?names. device_id ?c name \<noteq> None}"
    by (auto simp: managed_devices_def)
  have inj: "a = b" if "device_id ?c a = Some i" "device_id ?c b = Some i" for a b i
  proof -
    have "x \<in> set ?names" if "device_id ?c x = Some i" for x
      using that by (force simp: device_id_def get_entry_def get_all_devices_def split: option.splits dest: map_of_SomeD)
    with that managed have "a \<in> set (managed_devices ?c)" "b \<in> set (managed_devices ?c)" by auto
    with assms(1) that show ?thesis by (auto simp: bus_ok_def inj_on_def)
  qed
  have sorted: "sorted_wrt (<) (managed_devices ?c)"
    using assms(1) by (simp add: bus_ok_def managed_devices_def get_all_devices_def ordered_def sorted_wrt_filter)
  have ord: "ordered (device_names_to_ids m1)"
    using load_devices_ordered[of ?m0 ?names] assms(2,3) by (simp add: m1)
  have "fst ` set (device_names_to_ids m1) = set (managed_devices ?c)"
    using load_devices_names[of ?names ?m0] assms(3) by (simp add: m1 managed)
  then show "map fst (device_names_to_ids m1) = managed_devices ?c"
    using strict_sorted_equal[OF sorted, of "map fst (device_names_to_ids m1)"] ord by (simp add: ordered_def)
  have client: "map_of (clients m1) i = Some (qualified_name ?c x)"
    if "x \<in> set (managed_devices ?c)" "device_id ?c x = Some i" for x i
    using load_devices_clients[of ?m0 x ?names i] inj that assms(2) managed by (simp add: m1)
  have dev: "map_of (device_names_to_ids m1) x = device_id ?c x" if "x \<in> set (managed_devices ?c)" for x
    using load_devices_ids[of ?m0 x ?names] that assms(3) managed by (simp add: m1)
  show "node_of m1 name = qualified_name ?c name" if "name \<in> set (managed_devices ?c)"
    using client[OF that] dev[OF that] that managed by (auto simp: node_of_def)
  have master: "filter (\<lambda>name. contains ''master'' name \<and> device_id ?c name \<noteq> None) ?names = [mname]"
    using assms(1) by (simp add: bus_ok_def managed_devices_def conj_commute)
  then have "mname \<in> set (filter (\<lambda>name. contains ''master'' name \<and> device_id ?c name \<noteq> None) ?names)"
    by simp
  then have "mname \<in> set (managed_devices ?c)"
    using managed by auto
  moreover have "master_id m1 = the (device_id ?c mname)"
    using load_devices_master[of ?names ?m0] master by (simp add: m1)
  ultimately show "map_of (clients m1) (master_id m1) = Some (qualified_name ?c mname)"
    using client[of mname "the (device_id ?c mname)"] managed by auto
qed

subsection \<open>Properties\<close>

definition drivers_of :: "config_manager \<Rightarrow> string list" where
  "drivers_of c = filter (\<lambda>name. \<not> contains ''master'' name) (managed_devices c)"

lemma manager_bring_up_result:
  assumes "lifecycle_services sv node_state requests" "bus_ok (lm_config m) mname"
    "clients m = []" "device_names_to_ids m = []"
    "manager_on_configure t m = (SUCCESS, m1)" "manager_on_activate sv m1 = Some (SUCCESS, m2)"
  shows "requests (nodes m2) = requests (nodes m) @
      concat (map (start_requests \<circ> qualified_name (lm_config m)) (mname # drivers_of (lm_config m))) \<and>
    (\<forall>name \<in> set (mname # drivers_of (lm_config m)).
       node_state (nodes m2) (qualified_name (lm_config m) name) = STATE_ACTIVE)"
proof -
  let ?q = "qualified_name (lm_config m)"
  note L = manager_loaded[OF assms(2-5)]
  obtain m' where up: "bring_up_master sv m1 = Some (True, m')"
      and loop: "up_loop sv (map fst (device_names_to_ids m')) m' = Some (True, m2)"
    using assms(6) by (auto simp: manager_on_activate_def bring_up_all_def split: Option.bind_splits if_splits)
  obtain n w where M: "map_of (clients m1) (master_id m1) = Some n" "m' = m1\<lparr>nodes := w\<rparr>"
    "node_state w n = STATE_ACTIVE" "requests w = requests (nodes m1) @ start_requests n"
    by (rule lifecycle_services.bring_up_master_result[OF assms(1) up]) blast
  have names: "map fst (device_names_to_ids m') = managed_devices (lm_config m)"
    using M(2) L(1) by simp
  have node: "node_of m' name = ?q name" if "name \<in> set (managed_devices (lm_config m))" for name
    using L(2)[OF that] M(2) by (simp add: node_of_def)
  have "set (managed_devices (lm_config m)) \<subseteq> dom (map_of (device_names_to_ids m'))"
    by (simp add: dom_map_of_conv_image_fst flip: names)
  from lifecycle_services.up_loop_result[OF assms(1) loop[unfolded names] this] obtain w' where
    W: "m2 = m'\<lparr>nodes := w'\<rparr>" "requests w' = requests (nodes m') @ up_requests m' (managed_devices (lm_config m))"
      "\<forall>n. node_state (nodes m') n = STATE_ACTIVE \<longrightarrow> node_state w' n = STATE_ACTIVE"
      "\<forall>name \<in> set (managed_devices (lm_config m)). \<not> contains ''master'' name \<longrightarrow>
         node_state w' (node_of m' name) = STATE_ACTIVE"
    by blast
  have "up_requests m' (managed_devices (lm_config m)) = concat (map (start_requests \<circ> ?q) (drivers_of (lm_config m)))"
    unfolding up_requests_def drivers_of_def using node
    by (intro arg_cong[where f = concat] map_cong) auto
  moreover have "n = ?q mname"
    using L(3) M(1) by simp
  ultimately show ?thesis
    using M W L(4) node by (auto simp: drivers_of_def)
qed

text \<open>When the lifecycle manager is activated successfully, it has configured and activated the master
  first and then every driver in the order of the device names, each through the node that the
  configuration names for it, and all of them are active.\<close>

theorem manager_bring_up:
  assumes "lifecycle_services sv node_state requests" "bus_ok (lm_config m) mname"
    "clients m = []" "device_names_to_ids m = []"
    "manager_on_configure t m = (SUCCESS, m1)" "manager_on_activate sv m1 = Some (SUCCESS, m2)"
  shows "requests (nodes m2) = requests (nodes m) @
      concat (map (start_requests \<circ> qualified_name (lm_config m)) (mname # drivers_of (lm_config m))) \<and>
    (\<forall>name \<in> set (mname # drivers_of (lm_config m)).
       node_state (nodes m2) (qualified_name (lm_config m) name) = STATE_ACTIVE)"
  by (rule manager_bring_up_result[OF assms])

text \<open>C16: A successful deactivation of the lifecycle manager deactivates and cleans up every device whose name
  is not exactly master, in the order of the names, then the master, and leaves all of them unconfigured.\<close>

theorem manager_bring_down:
  assumes "lifecycle_services sv node_state requests" "bus_ok (lm_config m) mname"
    "clients m = []" "device_names_to_ids m = []"
    "manager_on_configure t m = (SUCCESS, m1)" "manager_on_deactivate sv m1 = Some (SUCCESS, m2)"
  shows "requests (nodes m2) = requests (nodes m) @ concat (map (stop_requests \<circ> qualified_name (lm_config m))
      (filter (\<lambda>name. name \<noteq> ''master'') (managed_devices (lm_config m)) @ [mname])) \<and>
    (\<forall>name \<in> set (managed_devices (lm_config m)).
       node_state (nodes m2) (qualified_name (lm_config m) name) = STATE_UNCONFIGURED)"
proof -
  let ?q = "qualified_name (lm_config m)" and ?names = "managed_devices (lm_config m)"
  note L = manager_loaded[OF assms(2-5)]
  obtain m' where loop: "down_loop sv (map fst (device_names_to_ids m1)) m1 = Some (True, m')"
      and down: "bring_down_master sv m' = Some (True, m2)"
    using assms(6) by (auto simp: manager_on_deactivate_def bring_down_all_def split: Option.bind_splits if_splits)
  have "set ?names \<subseteq> dom (map_of (device_names_to_ids m1))"
    using L(1)[symmetric] by (simp add: dom_map_of_conv_image_fst)
  from lifecycle_services.down_loop_result[OF assms(1) loop[unfolded L(1)] this] obtain w where
    W: "m' = m1\<lparr>nodes := w\<rparr>" "requests w = requests (nodes m1) @ down_requests m1 ?names"
      "\<forall>name \<in> set ?names. name \<noteq> ''master'' \<longrightarrow> node_state w (node_of m1 name) = STATE_UNCONFIGURED"
    by blast
  obtain n w' where M: "map_of (clients m') (master_id m') = Some n" "m2 = m'\<lparr>nodes := w'\<rparr>"
    "node_state w' n = STATE_UNCONFIGURED" "\<And>n'. n' \<noteq> n \<Longrightarrow> node_state w' n' = node_state (nodes m') n'"
    "requests w' = requests (nodes m') @ stop_requests n"
    by (rule lifecycle_services.bring_down_master_result[OF assms(1) down]) blast
  have n: "n = ?q mname"
    using L(3) M(1) W(1) by simp
  have "down_requests m1 ?names = concat (map (stop_requests \<circ> ?q) (filter (\<lambda>name. name \<noteq> ''master'') ?names))"
    unfolding down_requests_def using L(2) by (intro arg_cong[where f = concat] map_cong) auto
  moreover have "node_state w' (?q name) = STATE_UNCONFIGURED" if "name \<in> set ?names" for name
  proof (cases "?q name = n")
    case False
    have "contains ''master'' ''master''" by simp
    with that have "name = ''master'' \<Longrightarrow> name \<in> set (filter (contains ''master'') ?names)" by simp
    with assms(2) False n have "name \<noteq> ''master''" by (auto simp: bus_ok_def)
    then have "node_state w (node_of m1 name) = STATE_UNCONFIGURED"
      using that W(3) by blast
    with False that W(1) L(2)[OF that] M(4) show ?thesis by simp
  qed (simp add: M(3))
  ultimately show ?thesis
    using M(2,5) W(1,2) L(4) n by simp
qed

text \<open>A master whose name merely contains master is stopped among the drivers, in the order of the names,
  although the drivers are meant to be brought down before it: when it comes first, the first node asked to
  deactivate is the master.\<close>

theorem master_stopped_first:
  assumes "lifecycle_services sv node_state requests" "bus_ok (lm_config m) mname"
    "clients m = []" "device_names_to_ids m = []"
    "manager_on_configure t m = (SUCCESS, m1)" "manager_on_deactivate sv m1 = Some (SUCCESS, m2)"
    "mname \<noteq> ''master''" "managed_devices (lm_config m) = mname # rest"
  shows "\<exists>later. requests (nodes m2) =
    requests (nodes m) @ stop_requests (qualified_name (lm_config m) mname) @ later"
proof -
  let ?q = "qualified_name (lm_config m)"
  note L = manager_loaded[OF assms(2-5)]
  obtain m' where loop: "down_loop sv (map fst (device_names_to_ids m1)) m1 = Some (True, m')"
      and down: "bring_down_master sv m' = Some (True, m2)"
    using assms(6) by (auto simp: manager_on_deactivate_def bring_down_all_def split: Option.bind_splits if_splits)
  have "set (mname # rest) \<subseteq> dom (map_of (device_names_to_ids m1))"
    using L(1)[symmetric] assms(8) by (simp add: dom_map_of_conv_image_fst)
  from lifecycle_services.down_loop_result[OF assms(1) loop[unfolded L(1) assms(8)] this] obtain w where
    W: "m' = m1\<lparr>nodes := w\<rparr>" "requests w = requests (nodes m1) @ down_requests m1 (mname # rest)"
    by blast
  obtain n w' where M: "m2 = m'\<lparr>nodes := w'\<rparr>" "requests w' = requests (nodes m') @ stop_requests n"
    by (rule lifecycle_services.bring_down_master_result[OF assms(1) down]) blast
  have "node_of m1 mname = ?q mname"
    using L(2)[of mname] assms(8) by simp
  with M W L(4) assms(7) show ?thesis by (simp add: down_requests_def)
qed

end
