(* ===== verification/MasterNode.thy ===== *)
theory MasterNode
  imports Bridge Config
begin

text \<open>
  The master: the life cycle of \<open>canopen_core\<close> (\<open>node_canopen_master.hpp\<close>, \<open>master_node.cpp\<close>), the
  bridge that serialises its SDO transfers (\<open>canopen_master_driver\<close>, \<open>lely_master_bridge.hpp\<close> and
  \<open>.cpp\<close>) and the node that offers them as services (\<open>node_canopen_basic_master_impl.hpp\<close>).
\<close>

subsection \<open>State of the master node\<close>

text \<open>\<open>mn_master\<close>: \<open>master_\<close> is not null; \<open>mn_exec\<close>: the executor and the objects created with it
  exist; \<open>spinner\<close>: the event loop's thread is joinable. \<open>master_log\<close> lists what the node makes the
  event loop do, \<open>mn_services\<close> the services it offers.\<close>

datatype master_event = Master_reset | Loop_started | Shutdown_posted | Loop_joined

record 'x master_node =
  mn_name :: string
  mn_services :: "string list"
  mn_params :: param_table
  mn_container_name :: string
  master_dcf :: string
  master_bin :: string
  can_interface_name :: string
  mn_node_id :: u8
  mn_config :: yaml
  mn_non_transmit_timeout :: int
  timeout_ms :: u32
  mn_initialised :: bool
  mn_configured :: bool
  mn_activated :: bool
  mn_master_set :: bool
  mn_master :: bool
  mn_exec :: bool
  spinner :: bool
  master_log :: "master_event list"
  mn_derived :: 'x

text \<open>The functions derived masters override, and what opening the CAN interface may throw.\<close>

record 'x master_hooks =
  mh_init :: "'x master_node \<Rightarrow> ('x master_node, unit) outcome"
  mh_configure :: "'x master_node \<Rightarrow> ('x master_node, unit) outcome"
  mh_activate :: "'x master_node \<Rightarrow> ('x master_node, unit) outcome"
  mh_deactivate :: "'x master_node \<Rightarrow> ('x master_node, unit) outcome"
  mh_cleanup :: "'x master_node \<Rightarrow> ('x master_node, unit) outcome"
  mh_shutdown :: "'x master_node \<Rightarrow> ('x master_node, unit) outcome"

record master_env =
  me_client :: client_lib
  open_can :: "string \<Rightarrow> exn + unit"

definition master_throw :: "string \<Rightarrow> 's \<Rightarrow> ('s, 'a) outcome" where
  "master_throw what s = (Inl (Master_exception what), s)"

subsection \<open>Life cycle of the master node\<close>

definition NodeCanopenMaster_new :: "'x master_node \<Rightarrow> 'x master_node" where
  "NodeCanopenMaster_new d =
    d\<lparr>mn_initialised := False, mn_configured := False, mn_activated := False, mn_master_set := False,
      mn_master := False, mn_exec := False, spinner := False, timeout_ms := 2000\<rparr>"

definition master_defaults :: "(string \<times> param) list" where
  "master_defaults =
    [(''container_name'', P_string []), (''master_dcf'', P_string []), (''master_bin'', P_string []),
     (''can_interface_name'', P_string ''vcan0''), (''node_id'', P_int 0),
     (''non_transmit_timeout'', P_int 100), (''config'', P_string [])]"

definition master_declare :: "client_lib \<Rightarrow> 'x master_node \<Rightarrow> ('x master_node, unit) outcome" where
  "master_declare lib d =
    (case declare_parameters lib master_defaults (mn_params d) of (r, t) \<Rightarrow> (r, d\<lparr>mn_params := t\<rparr>))"

definition master_init ::
  "master_env \<Rightarrow> 'x master_hooks \<Rightarrow> 'x master_node \<Rightarrow> ('x master_node, unit) outcome" where
  "master_init env hooks d =
    (if mn_configured d then master_throw ''Init: Master is already configured.'' d
     else if mn_activated d then master_throw ''Init: Master is already activated.'' d
     else bindE (master_declare (me_client env) d) (\<lambda>u d1.
          bindE (mh_init hooks d1) (\<lambda>u d2. (Inr (), d2\<lparr>mn_initialised := True\<rparr>))))"

definition master_read_config ::
  "client_lib \<Rightarrow> 'x master_node \<Rightarrow> ('x master_node, unit) outcome" where
  "master_read_config lib d =
    (let t = mn_params d;
         d1 = d\<lparr>mn_container_name := get_string t ''container_name'' (mn_container_name d),
                master_dcf := get_string t ''master_dcf'' (master_dcf d),
                master_bin := get_string t ''master_bin'' (master_bin d),
                can_interface_name := get_string t ''can_interface_name'' (can_interface_name d),
                mn_node_id := word_of_int (get_int t ''node_id'' (uint (mn_node_id d)))\<rparr>
     in case yaml_load (yaml_ops lib) (get_string t ''config'' []) of
          Inl e \<Rightarrow> (Inl e, d1)
        | Inr doc \<Rightarrow> (Inr (), d1\<lparr>mn_config := doc,
                               mn_non_transmit_timeout := get_int t ''non_transmit_timeout'' 0\<rparr>))"

text \<open>\<open>configure(bool)\<close> of the base class: the boot timeout, if the document has one.\<close>

definition master_configure_hook :: "'x master_node \<Rightarrow> ('x master_node, unit) outcome" where
  "master_configure_hook d =
    (Inr (), d\<lparr>timeout_ms :=
       (case as_int (mn_config d) [''boot_timeout''] of None \<Rightarrow> timeout_ms d | Some i \<Rightarrow> word_of_int i)\<rparr>)"

definition master_configure ::
  "master_env \<Rightarrow> 'x master_hooks \<Rightarrow> 'x master_node \<Rightarrow> ('x master_node, unit) outcome" where
  "master_configure env hooks d =
    (if \<not> mn_initialised d then master_throw ''Configure: Master is not initialised.'' d
     else if mn_configured d then master_throw ''Configure: Master is already configured.'' d
     else if mn_activated d then master_throw ''Configure: Master is already activated.'' d
     else bindE (master_read_config (me_client env) d) (\<lambda>u d1.
          bindE (mh_configure hooks d1) (\<lambda>u d2. (Inr (), d2\<lparr>mn_configured := True\<rparr>))))"

text \<open>\<open>spinner_ = std::thread(...)\<close> ends the process when the thread assigned to is joinable.\<close>

definition start_spinner :: "'x master_node \<Rightarrow> ('x master_node, unit) outcome" where
  "start_spinner d =
    (if spinner d then (Inl (Terminated ''assignment to a joinable thread''), d)
     else (Inr (), d\<lparr>spinner := True, master_log := master_log d @ [Loop_started]\<rparr>))"

definition master_activate ::
  "master_env \<Rightarrow> 'x master_hooks \<Rightarrow> 'x master_node \<Rightarrow> ('x master_node, unit) outcome" where
  "master_activate env hooks d =
    (if \<not> mn_initialised d then master_throw ''Activate: master is not initialised'' d
     else if \<not> mn_configured d then master_throw ''Activate: master is not configured'' d
     else if mn_activated d then master_throw ''Activate: master is already activated'' d
     else (let d1 = d\<lparr>mn_exec := True\<rparr> in
       case open_can env (can_interface_name d1) of
         Inl e \<Rightarrow> (Inl e, d1)
       | Inr u \<Rightarrow>
           bindE (mh_activate hooks d1) (\<lambda>u d2.
             if \<not> mn_master d2 then master_throw ''Activate: master not set'' d2
             else bindE (start_spinner (d2\<lparr>mn_master_set := True, master_log := master_log d2 @ [Master_reset]\<rparr>))
                    (\<lambda>u d3. (Inr (), d3\<lparr>mn_activated := True\<rparr>)))))"

text \<open>The posted task shuts the context down, which ends the loop; joining a thread that is not
  joinable throws.\<close>

definition join_spinner :: "'x master_node \<Rightarrow> ('x master_node, unit) outcome" where
  "join_spinner d =
    (if \<not> spinner d then (Inl (Std_exception ''Invalid argument''), d)
     else (Inr (), d\<lparr>spinner := False, master_log := master_log d @ [Loop_joined]\<rparr>))"

definition master_deactivate :: "'x master_hooks \<Rightarrow> 'x master_node \<Rightarrow> ('x master_node, unit) outcome" where
  "master_deactivate hooks d =
    (if \<not> mn_initialised d then master_throw ''Deactivate: master is not initialised'' d
     else if \<not> mn_configured d then master_throw ''Deactivate: master is not configured'' d
     else if \<not> mn_activated d then master_throw ''Deactivate: master is not activated'' d
     else bindE (join_spinner (d\<lparr>master_log := master_log d @ [Shutdown_posted]\<rparr>)) (\<lambda>u d1.
          bindE (mh_deactivate hooks d1) (\<lambda>u d2. (Inr (), d2\<lparr>mn_activated := False\<rparr>))))"

definition master_cleanup :: "'x master_hooks \<Rightarrow> 'x master_node \<Rightarrow> ('x master_node, unit) outcome" where
  "master_cleanup hooks d =
    (if \<not> mn_initialised d then master_throw ''Cleanup: master is not initialised.'' d
     else if \<not> mn_configured d then master_throw ''Cleanup: master is not configured'' d
     else if mn_activated d then master_throw ''Cleanup: master is still active'' d
     else bindE (mh_cleanup hooks d) (\<lambda>u d1.
          (Inr (), d1\<lparr>mn_exec := False, mn_configured := False, mn_master_set := False\<rparr>)))"

definition master_shutdown :: "'x master_hooks \<Rightarrow> 'x master_node \<Rightarrow> ('x master_node, unit) outcome" where
  "master_shutdown hooks d =
    bindE (if mn_activated d then master_deactivate hooks d else (Inr (), d)) (\<lambda>u d1.
    bindE (if mn_configured d1 then master_cleanup hooks d1 else (Inr (), d1)) (\<lambda>u d2.
    bindE (mh_shutdown hooks d2) (\<lambda>u d3.
      (Inr (), d3\<lparr>mn_master_set := False, mn_initialised := False, mn_configured := False,
                  mn_activated := False\<rparr>))))"

text \<open>The pointers handed out; \<open>False\<close> stands for a null pointer.\<close>

definition get_master :: "'x master_node \<Rightarrow> exn + bool" where
  "get_master d =
    (if \<not> mn_master_set d then Inl (Master_exception ''Get Master: Master is not set.'') else Inr (mn_master d))"

definition get_executor :: "'x master_node \<Rightarrow> exn + bool" where
  "get_executor d =
    (if \<not> mn_master_set d then Inl (Master_exception ''Get Executor: master is not set'') else Inr (mn_exec d))"

text \<open>\<open>CanopenMaster::init\<close> brings a plain master up in one call.\<close>

definition CanopenMaster_init ::
  "master_env \<Rightarrow> 'x master_hooks \<Rightarrow> 'x master_node \<Rightarrow> ('x master_node, unit) outcome" where
  "CanopenMaster_init env hooks d =
    bindE (master_init env hooks d) (\<lambda>u d1.
    bindE (master_configure env hooks d1) (\<lambda>u d2. master_activate env hooks d2))"

text \<open>The transitions of a managed master.\<close>

definition master_on_configure ::
  "master_env \<Rightarrow> 'x master_hooks \<Rightarrow> 'x master_node \<Rightarrow> ('x master_node, unit) outcome" where
  "master_on_configure env hooks d = master_configure env hooks d"

definition master_on_activate ::
  "master_env \<Rightarrow> 'x master_hooks \<Rightarrow> 'x master_node \<Rightarrow> ('x master_node, unit) outcome" where
  "master_on_activate env hooks d = master_activate env hooks d"

definition master_on_deactivate :: "'x master_hooks \<Rightarrow> 'x master_node \<Rightarrow> ('x master_node, unit) outcome" where
  "master_on_deactivate hooks d = master_deactivate hooks d"

definition master_on_cleanup :: "'x master_hooks \<Rightarrow> 'x master_node \<Rightarrow> ('x master_node, unit) outcome" where
  "master_on_cleanup hooks d = master_cleanup hooks d"

definition master_on_shutdown :: "'x master_hooks \<Rightarrow> 'x master_node \<Rightarrow> ('x master_node, unit) outcome" where
  "master_on_shutdown hooks d = master_shutdown hooks d"

subsection \<open>The contract with derived masters\<close>

text \<open>What the overridden functions leave alone: the flags and the thread. Only \<open>activate\<close> and
  \<open>deactivate\<close> touch \<open>master_\<close>.\<close>

definition same_master_flags :: "'x master_node \<Rightarrow> 'x master_node \<Rightarrow> bool" where
  "same_master_flags d d' \<longleftrightarrow> mn_initialised d' = mn_initialised d \<and> mn_configured d' = mn_configured d \<and>
     mn_activated d' = mn_activated d \<and> mn_master_set d' = mn_master_set d \<and> mn_exec d' = mn_exec d \<and>
     spinner d' = spinner d \<and> master_log d' = master_log d"

locale master_contract =
  fixes mhooks :: "'x master_hooks"
  assumes minit: "mh_init mhooks d = (r, d') \<Longrightarrow> same_master_flags d d' \<and> mn_master d' = mn_master d"
    and mconfigure: "mh_configure mhooks d = (r, d') \<Longrightarrow> same_master_flags d d' \<and> mn_master d' = mn_master d"
    and mactivate: "mh_activate mhooks d = (r, d') \<Longrightarrow> same_master_flags d d'"
    and mdeactivate: "mh_deactivate mhooks d = (r, d') \<Longrightarrow> same_master_flags d d'"
    and mcleanup: "mh_cleanup mhooks d = (r, d') \<Longrightarrow> same_master_flags d d' \<and> mn_master d' = mn_master d"
    and mshutdown: "mh_shutdown mhooks d = (r, d') \<Longrightarrow> same_master_flags d d' \<and> mn_master d' = mn_master d"

text \<open>Active only when configured, with an executor and the master set; set only while configured; and
  the thread runs only while active.\<close>

definition master_ok :: "'x master_node \<Rightarrow> bool" where
  "master_ok d \<longleftrightarrow> (mn_activated d \<longrightarrow> mn_configured d \<and> mn_master_set d) \<and>
     (mn_configured d \<longrightarrow> mn_initialised d) \<and> (mn_master_set d \<longrightarrow> mn_configured d \<and> mn_exec d) \<and>
     (spinner d \<longrightarrow> mn_activated d)"

lemma master_ok_flags: "same_master_flags d d' \<Longrightarrow> master_ok d \<Longrightarrow> master_ok d'"
  by (simp add: same_master_flags_def master_ok_def)

lemma master_read_config_flags:
  "master_read_config lib d = (r, d') \<Longrightarrow> same_master_flags d d' \<and> mn_master d' = mn_master d"
  by (auto simp: master_read_config_def Let_def same_master_flags_def split: sum.splits)

lemma master_declare_flags:
  "master_declare lib d = (r, d') \<Longrightarrow> same_master_flags d d' \<and> mn_master d' = mn_master d"
  by (auto simp: master_declare_def same_master_flags_def split: prod.splits)

datatype master_call =
    M_init
  | M_configure
  | M_activate
  | M_deactivate
  | M_cleanup
  | M_shutdown

fun master_exec ::
  "master_env \<Rightarrow> 'x master_hooks \<Rightarrow> master_call \<Rightarrow> 'x master_node \<Rightarrow> ('x master_node, unit) outcome" where
  "master_exec env hooks M_init d = master_init env hooks d"
| "master_exec env hooks M_configure d = master_configure env hooks d"
| "master_exec env hooks M_activate d = master_activate env hooks d"
| "master_exec env hooks M_deactivate d = master_deactivate hooks d"
| "master_exec env hooks M_cleanup d = master_cleanup hooks d"
| "master_exec env hooks M_shutdown d = master_shutdown hooks d"

inductive master_run ::
  "master_env \<Rightarrow> 'x master_hooks \<Rightarrow> 'x master_node \<Rightarrow> 'x master_node \<Rightarrow> bool"
  for env :: master_env and hooks :: "'x master_hooks" where
  mrun_nil: "master_run env hooks d d"
| mrun_call: "master_run env hooks d d1 \<Longrightarrow> master_run env hooks d (snd (master_exec env hooks c d1))"

text \<open>A step of a sequence keeps the invariant when it keeps it from every state that has it.\<close>

lemma master_ok_bind:
  assumes "master_ok (snd p)" "\<And>a d. master_ok d \<Longrightarrow> master_ok (snd (k a d))"
  shows "master_ok (snd (bindE p k))"
  by (rule bindE_state[where P = master_ok]) (rule assms(1), rule assms(2))

context master_contract
begin

lemma hooks_master_ok:
  "master_ok d \<Longrightarrow> master_ok (snd (mh_init mhooks d))"
  "master_ok d \<Longrightarrow> master_ok (snd (mh_configure mhooks d))"
  "master_ok d \<Longrightarrow> master_ok (snd (mh_activate mhooks d))"
  "master_ok d \<Longrightarrow> master_ok (snd (mh_deactivate mhooks d))"
  "master_ok d \<Longrightarrow> master_ok (snd (mh_cleanup mhooks d))"
  "master_ok d \<Longrightarrow> master_ok (snd (mh_shutdown mhooks d))"
  using minit[of d, OF surjective_pairing] mconfigure[of d, OF surjective_pairing]
    mactivate[of d, OF surjective_pairing] mdeactivate[of d, OF surjective_pairing]
    mcleanup[of d, OF surjective_pairing] mshutdown[of d, OF surjective_pairing] master_ok_flags
  by blast+

lemma master_init_ok: "master_ok d \<Longrightarrow> master_ok (snd (master_init env mhooks d))"
proof -
  assume ok: "master_ok d"
  have decl: "master_ok (snd (master_declare (me_client env) d))"
    using master_declare_flags[OF surjective_pairing] ok master_ok_flags by blast
  have last: "master_ok (snd (bindE (mh_init mhooks x) (\<lambda>u y. (Inr (), y\<lparr>mn_initialised := True\<rparr>))))"
    if "master_ok x" for x
    by (rule master_ok_bind) (use that hooks_master_ok(1) in \<open>auto simp: master_ok_def\<close>)
  have "master_ok (snd (bindE (master_declare (me_client env) d)
      (\<lambda>u x. bindE (mh_init mhooks x) (\<lambda>u y. (Inr (), y\<lparr>mn_initialised := True\<rparr>)))))"
    by (rule master_ok_bind[OF decl last])
  with ok show ?thesis
    by (simp add: master_init_def master_throw_def)
qed

lemma master_configure_ok: "master_ok d \<Longrightarrow> master_ok (snd (master_configure env mhooks d))"
proof -
  assume ok: "master_ok d"
  obtain r1 d1 where read: "master_read_config (me_client env) d = (r1, d1)" by fastforce
  obtain r2 d2 where conf: "mh_configure mhooks d1 = (r2, d2)" by fastforce
  have F1: "same_master_flags d d1" and F2: "same_master_flags d1 d2"
    using master_read_config_flags[OF read] mconfigure[OF conf] by simp_all
  then have "mn_initialised d2 = mn_initialised d"
    by (simp add: same_master_flags_def)
  moreover have "master_ok d1" "master_ok d2"
    using ok F1 F2 master_ok_flags by blast+
  ultimately show ?thesis
    using ok read conf
    by (cases r1; cases r2) (auto simp: master_configure_def master_throw_def master_ok_def)
qed

lemma master_activate_ok: "master_ok d \<Longrightarrow> master_ok (snd (master_activate env mhooks d))"
proof -
  assume ok: "master_ok d"
  let ?d1 = "d\<lparr>mn_exec := True\<rparr>"
  obtain r2 d2 where act: "mh_activate mhooks ?d1 = (r2, d2)" by fastforce
  have "same_master_flags ?d1 d2"
    by (rule mactivate[OF act])
  then show ?thesis
    using ok act
    by (cases r2; auto simp: master_activate_def master_throw_def master_ok_def same_master_flags_def
        start_spinner_def Let_def split: sum.split)
qed

lemma master_deactivate_ok: "master_ok d \<Longrightarrow> master_ok (snd (master_deactivate mhooks d))"
proof -
  assume ok: "master_ok d"
  let ?d1 = "d\<lparr>spinner := False, master_log := master_log d @ [Shutdown_posted, Loop_joined]\<rparr>"
  obtain r2 d2 where de: "mh_deactivate mhooks ?d1 = (r2, d2)" by fastforce
  have "same_master_flags ?d1 d2"
    by (rule mdeactivate[OF de])
  then show ?thesis
    using ok de
    by (cases r2; auto simp: master_deactivate_def master_throw_def master_ok_def same_master_flags_def
        join_spinner_def)
qed

lemma master_cleanup_ok: "master_ok d \<Longrightarrow> master_ok (snd (master_cleanup mhooks d))"
proof -
  assume ok: "master_ok d"
  obtain r2 d2 where clean: "mh_cleanup mhooks d = (r2, d2)" by fastforce
  have "same_master_flags d d2"
    using mcleanup[OF clean] by simp
  then show ?thesis
    using ok clean
    by (cases r2; auto simp: master_cleanup_def master_throw_def master_ok_def same_master_flags_def)
qed

lemma master_deactivate_idle:
  assumes "master_deactivate mhooks d = (Inr (), d')"
  shows "\<not> mn_activated d' \<and> \<not> spinner d'"
proof -
  let ?d1 = "d\<lparr>spinner := False, master_log := master_log d @ [Shutdown_posted, Loop_joined]\<rparr>"
  obtain r2 d2 where de: "mh_deactivate mhooks ?d1 = (r2, d2)" by fastforce
  have "same_master_flags ?d1 d2"
    by (rule mdeactivate[OF de])
  with assms de show ?thesis
    by (cases r2) (auto simp: master_deactivate_def master_throw_def same_master_flags_def join_spinner_def
        split: if_split_asm)
qed

lemma master_shutdown_ok:
  assumes "master_ok d"
  shows "master_ok (snd (master_shutdown mhooks d))"
proof -
  obtain r1 d1 where de: "(if mn_activated d then master_deactivate mhooks d else (Inr (), d)) = (r1, d1)"
    by fastforce
  have ok1: "master_ok d1"
    using assms master_deactivate_ok[OF assms] de by (auto split: if_split_asm)
  have idle1: "\<not> spinner d1" if "r1 = Inr ()"
    using that de master_deactivate_idle[of d d1] assms by (auto simp: master_ok_def split: if_split_asm)
  obtain r2 d2 where clean: "(if mn_configured d1 then master_cleanup mhooks d1 else (Inr (), d1)) = (r2, d2)"
    by fastforce
  have ok2: "master_ok d2"
    using ok1 master_cleanup_ok[OF ok1] clean by (auto split: if_split_asm)
  have idle2: "\<not> spinner d2" if "r1 = Inr ()"
    using idle1[OF that] clean mcleanup[of d1, OF surjective_pairing]
    by (auto simp: master_cleanup_def master_throw_def same_master_flags_def bindE_def
        split: if_split_asm sum.splits prod.splits)
  obtain r3 d3 where shut: "mh_shutdown mhooks d2 = (r3, d3)" by fastforce
  have "same_master_flags d2 d3"
    using mshutdown[OF shut] by simp
  then show ?thesis
    using ok1 ok2 idle2 de clean shut master_ok_flags[OF _ ok2]
    by (cases r1; cases r2; cases r3) (auto simp: master_shutdown_def master_ok_def same_master_flags_def)
qed

lemma master_run_ok: "master_run env mhooks d d' \<Longrightarrow> master_ok d \<Longrightarrow> master_ok d'"
proof (induction rule: master_run.induct)
  case (mrun_call d d1 c)
  then show ?case
    by (cases c) (simp_all add: master_init_ok master_configure_ok master_activate_ok master_deactivate_ok
        master_cleanup_ok master_shutdown_ok)
qed

text \<open>What a successful activation does, and when it fails it leaves the node inactive.\<close>

lemma master_activate_result:
  assumes "master_activate env mhooks d = (r, d')" "master_ok d" "\<not> mn_activated d"
  shows "if r = Inr () then mn_activated d' \<and> mn_master d' \<and> mn_master_set d' \<and> spinner d' \<and>
      master_log d' = master_log d @ [Master_reset, Loop_started]
    else \<not> mn_activated d' \<and> \<not> spinner d'"
proof -
  let ?d1 = "d\<lparr>mn_exec := True\<rparr>"
  obtain r2 d2 where act: "mh_activate mhooks ?d1 = (r2, d2)" by fastforce
  have "same_master_flags ?d1 d2"
    by (rule mactivate[OF act])
  then show ?thesis
    using assms act
    by (cases r2; auto simp: master_activate_def master_throw_def master_ok_def same_master_flags_def
        start_spinner_def Let_def split: sum.splits if_split_asm)
qed

end

end
