(* ===== verification/MasterBridge.thy ===== *)
theory MasterBridge
  imports MasterNode "HOL-Library.Monad_Syntax"
begin

text \<open>
  The bridge of the master (\<open>canopen_master_driver\<close>, \<open>lely_master_bridge.hpp\<close> and \<open>.cpp\<close>) and the
  node that offers its SDO transfers as services (\<open>node_canopen_basic_master_impl.hpp\<close>). The network
  of lely is a record of functions.
\<close>

subsection \<open>State of the bridge\<close>

datatype master_request =
    Download u8 int_type u16 u8 int
  | Upload u8 int_type u16 u8

text \<open>\<open>mb_pending\<close> is the transfer whose callback has not run yet. The promise of the NMT commands is
  a member: it is settled once, and its future can be taken once.\<close>

record 'n master_bridge =
  mb_read_promise :: "COData promise"
  mb_write_promise :: "bool promise"
  nmt_promise :: "bool promise"
  nmt_future_taken :: bool
  mb_running :: bool
  mb_pending :: "master_request option"
  mb_node_id :: u8
  mb_timeout :: "u32 option"
  mb_net :: 'n

text \<open>Submitting a transfer, the arguments of its callback, and sending a command.\<close>

record 'n master_net =
  mn_submit :: "master_request \<Rightarrow> 'n \<Rightarrow> (exn + unit) \<times> 'n"
  mn_answer :: "'n \<Rightarrow> (int \<times> int) \<times> 'n"
  mn_command :: "u8 \<Rightarrow> u8 \<Rightarrow> 'n \<Rightarrow> 'n"

text \<open>The constructor initialises the base class and the node id only: \<open>running\<close> starts with whatever
  the memory holds, \<open>garbage\<close>.\<close>

definition LelyMasterBridge_new :: "bool \<Rightarrow> u8 \<Rightarrow> 'n \<Rightarrow> 'n master_bridge" where
  "LelyMasterBridge_new garbage i n =
    \<lparr>mb_read_promise = Unfulfilled, mb_write_promise = Unfulfilled, nmt_promise = Unfulfilled,
     nmt_future_taken = False, mb_running = garbage, mb_pending = None, mb_node_id = i, mb_timeout = None,
     mb_net = n\<rparr>"

subsection \<open>SDO transfers\<close>

text \<open>The callbacks of \<open>submit_write_sdo\<close> and \<open>submit_read_sdo\<close>.\<close>

definition master_sdo_callback :: "master_request \<Rightarrow> int \<Rightarrow> int \<Rightarrow> 'n master_bridge \<Rightarrow> 'n master_bridge" where
  "master_sdo_callback req ec v b =
    (let b1 = (case req of
         Download i t idx sub x \<Rightarrow>
           b\<lparr>mb_write_promise := (if ec \<noteq> 0 then Broken (Sdo_error ec) else Fulfilled True)\<rparr>
       | Upload i t idx sub \<Rightarrow>
           b\<lparr>mb_read_promise := (if ec \<noteq> 0 then Broken (Sdo_error ec)
             else Fulfilled \<lparr>index_of = idx, subindex_of = sub, data_of = value_to_data (CO_INT t) v\<rparr>)\<rparr>)
     in b1\<lparr>mb_running := False, mb_pending := None\<rparr>)"

text \<open>\<open>if (running) sdo_cond.wait(lck); running = true;\<close> Only the callback of a pending transfer
  notifies: without one the caller blocks for ever.\<close>

definition master_acquire :: "'n master_net \<Rightarrow> 'n master_bridge \<Rightarrow> 'n master_bridge option" where
  "master_acquire nops b =
    (if mb_running b
     then (case mb_pending b of
             None \<Rightarrow> None
           | Some req \<Rightarrow> (case mn_answer nops (mb_net b) of ((ec, v), n) \<Rightarrow>
               Some ((master_sdo_callback req ec v (b\<lparr>mb_net := n\<rparr>))\<lparr>mb_running := True\<rparr>)))
     else Some (b\<lparr>mb_running := True\<rparr>))"

text \<open>The data types of CiA 301 that the transfers accept.\<close>

fun deftype :: "u8 \<Rightarrow> int_type option" where
  "deftype n = (if n = 2 then Some I8 else if n = 3 then Some I16 else if n = 4 then Some I32
    else if n = 5 then Some U8 else if n = 6 then Some U16 else if n = 7 then Some U32 else None)"

definition unknown_datatype :: exn where
  "unknown_datatype = Sdo_error 0x08000000"

definition master_submit ::
  "'n master_net \<Rightarrow> master_request \<Rightarrow> 'n master_bridge \<Rightarrow> ('n master_bridge, unit) outcome" where
  "master_submit nops req b =
    (case mn_submit nops req (mb_net b) of
       (Inl e, n) \<Rightarrow> (Inl e, b\<lparr>mb_net := n\<rparr>)
     | (Inr u, n) \<Rightarrow> (Inr (), b\<lparr>mb_net := n, mb_pending := Some req\<rparr>))"

text \<open>The result is the state after the call; the future is that of the promise in it.\<close>

definition master_async_write_sdo ::
  "'n master_net \<Rightarrow> u8 \<Rightarrow> COData \<Rightarrow> u8 \<Rightarrow> 'n master_bridge \<Rightarrow> 'n master_bridge option" where
  "master_async_write_sdo nops i data datatype b =
    (case master_acquire nops b of
       None \<Rightarrow> None
     | Some b1 \<Rightarrow>
         (let b2 = b1\<lparr>mb_write_promise := Unfulfilled\<rparr>;
              (r, b3) = (case deftype datatype of
                 None \<Rightarrow> (Inl unknown_datatype, b2)
               | Some t \<Rightarrow> master_submit nops
                   (Download i t (index_of data) (subindex_of data) (data_to_value (CO_INT t) (data_of data))) b2)
          in case r of
               Inr u \<Rightarrow> Some b3
             | Inl e \<Rightarrow> Some (b3\<lparr>mb_write_promise := Broken e, mb_running := False\<rparr>)))"

definition master_async_read_sdo ::
  "'n master_net \<Rightarrow> u8 \<Rightarrow> COData \<Rightarrow> u8 \<Rightarrow> 'n master_bridge \<Rightarrow> 'n master_bridge option" where
  "master_async_read_sdo nops i data datatype b =
    (case master_acquire nops b of
       None \<Rightarrow> None
     | Some b1 \<Rightarrow>
         (let b2 = b1\<lparr>mb_read_promise := Unfulfilled\<rparr>;
              (r, b3) = (case deftype datatype of
                 None \<Rightarrow> (Inl unknown_datatype, b2)
               | Some t \<Rightarrow> master_submit nops (Upload i t (index_of data) (subindex_of data)) b2)
          in case r of
               Inr u \<Rightarrow> Some b3
             | Inl e \<Rightarrow> Some (b3\<lparr>mb_read_promise := Broken e, mb_running := False\<rparr>)))"

text \<open>\<open>f.wait()\<close>: a promise that is not settled is settled by the callback of the pending transfer;
  without one the wait does not end.\<close>

definition master_wait :: "'n master_net \<Rightarrow> ('n master_bridge \<Rightarrow> 'a promise) \<Rightarrow> 'n master_bridge
   \<Rightarrow> 'n master_bridge option" where
  "master_wait nops promise b =
    (case promise b of
       Unfulfilled \<Rightarrow>
         (case mb_pending b of
            None \<Rightarrow> None
          | Some req \<Rightarrow> (case mn_answer nops (mb_net b) of ((ec, v), n) \<Rightarrow>
              Some (master_sdo_callback req ec v (b\<lparr>mb_net := n\<rparr>))))
     | Fulfilled a \<Rightarrow> Some b
     | Broken e \<Rightarrow> Some b)"

subsection \<open>NMT commands\<close>

text \<open>The commands of CiA 301; others are not sent. Settling the promise a second time throws.\<close>

definition nmt_known :: "u8 \<Rightarrow> bool" where
  "nmt_known command \<longleftrightarrow> command \<in> {1, 2, 128, 129, 130}"

definition async_write_nmt ::
  "'n master_net \<Rightarrow> u8 \<Rightarrow> u8 \<Rightarrow> 'n master_bridge \<Rightarrow> ('n master_bridge, bool promise) outcome" where
  "async_write_nmt nops i command b =
    (let b1 = (if nmt_known command then b\<lparr>mb_net := mn_command nops command i (mb_net b)\<rparr> else b)
     in if nmt_promise b1 \<noteq> Unfulfilled then (Inl (Future_error ''promise already satisfied''), b1)
        else (let b2 = b1\<lparr>nmt_promise := Fulfilled True\<rparr> in
          if nmt_future_taken b2 then (Inl (Future_error ''future already retrieved''), b2)
          else (Inr (Fulfilled True), b2\<lparr>nmt_future_taken := True\<rparr>)))"

subsection \<open>The basic master\<close>

type_synonym 'n basic_master = "'n master_bridge option master_node"

record id_request =
  rq_nodeid :: u8
  rq_index :: u16
  rq_subindex :: u8
  rq_data :: u32
  rq_datatype :: u8

record id_response =
  rs_success :: bool
  rs_data :: u32

text \<open>\<open>activate\<close> makes a bridge, unless reading the object dictionary fails; \<open>deactivate\<close> drops it.\<close>

definition basic_activate ::
  "('n basic_master \<Rightarrow> exn + bool \<times> 'n) \<Rightarrow> 'n basic_master \<Rightarrow> ('n basic_master, unit) outcome" where
  "basic_activate mk d =
    (case mk d of
       Inl e \<Rightarrow> (Inl e, d)
     | Inr (garbage, n) \<Rightarrow>
         (let b = (LelyMasterBridge_new garbage (mn_node_id d) n)\<lparr>mb_timeout := Some (timeout_ms d)\<rparr>
          in (Inr (), d\<lparr>mn_derived := Some b, mn_master := True\<rparr>)))"

definition basic_deactivate :: "'n basic_master \<Rightarrow> ('n basic_master, unit) outcome" where
  "basic_deactivate d = (Inr (), d\<lparr>mn_derived := None, mn_master := False\<rparr>)"

definition basic_init :: "'n basic_master \<Rightarrow> ('n basic_master, unit) outcome" where
  "basic_init d = (Inr (), d\<lparr>mn_services := mn_services d @ [mn_name d @ ''/sdo_read'', mn_name d @ ''/sdo_write'']\<rparr>)"

definition basic_hooks :: "('n basic_master \<Rightarrow> exn + bool \<times> 'n) \<Rightarrow> 'n master_bridge option master_hooks" where
  "basic_hooks mk =
    \<lparr>mh_init = basic_init, mh_configure = master_configure_hook, mh_activate = basic_activate mk,
     mh_deactivate = basic_deactivate, mh_cleanup = (\<lambda>d. (Inr (), d)), mh_shutdown = (\<lambda>d. (Inr (), d))\<rparr>"

text \<open>The services. \<open>None\<close>: the call blocks for ever or uses a bridge that is not there. The response
  arrives with its default values.\<close>

definition master_on_sdo_read ::
  "'n master_net \<Rightarrow> id_request \<Rightarrow> id_response \<Rightarrow> 'n basic_master \<Rightarrow> (id_response \<times> 'n basic_master) option" where
  "master_on_sdo_read nops q resp d =
    (if mn_activated d
     then do {
       b \<leftarrow> mn_derived d;
       b1 \<leftarrow> master_async_read_sdo nops (rq_nodeid q)
          \<lparr>index_of = rq_index q, subindex_of = rq_subindex q, data_of = 0\<rparr> (rq_datatype q) b;
       b2 \<leftarrow> master_wait nops mb_read_promise b1;
       Some (case mb_read_promise b2 of
               Fulfilled data \<Rightarrow> resp\<lparr>rs_data := data_of data, rs_success := True\<rparr>
             | _ \<Rightarrow> resp\<lparr>rs_success := False\<rparr>,
             d\<lparr>mn_derived := Some b2\<rparr>)
     }
     else Some (resp\<lparr>rs_success := False\<rparr>, d))"

definition master_on_sdo_write ::
  "'n master_net \<Rightarrow> id_request \<Rightarrow> id_response \<Rightarrow> 'n basic_master \<Rightarrow> (id_response \<times> 'n basic_master) option" where
  "master_on_sdo_write nops q resp d =
    (if mn_activated d
     then do {
       b \<leftarrow> mn_derived d;
       b1 \<leftarrow> master_async_write_sdo nops (rq_nodeid q)
          \<lparr>index_of = rq_index q, subindex_of = rq_subindex q, data_of = rq_data q\<rparr> (rq_datatype q) b;
       b2 \<leftarrow> master_wait nops mb_write_promise b1;
       Some (case mb_write_promise b2 of
               Fulfilled ok \<Rightarrow> resp\<lparr>rs_success := ok\<rparr>
             | _ \<Rightarrow> resp\<lparr>rs_success := False\<rparr>,
             d\<lparr>mn_derived := Some b2\<rparr>)
     }
     else Some (resp\<lparr>rs_success := False\<rparr>, d))"

interpretation bm: master_contract "basic_hooks mk" for mk
  by unfold_locales
    (auto simp: basic_hooks_def basic_init_def basic_activate_def basic_deactivate_def Let_def
      master_configure_hook_def same_master_flags_def split: sum.splits prod.splits)

subsection \<open>The discipline of the transfers\<close>

text \<open>\<open>running\<close> is set exactly while the callback of a transfer is outstanding.\<close>

definition transfer_ok :: "'n master_bridge \<Rightarrow> bool" where
  "transfer_ok b \<longleftrightarrow> (mb_running b \<longleftrightarrow> mb_pending b \<noteq> None)"

definition transfer_idle :: "'n master_bridge \<Rightarrow> bool" where
  "transfer_idle b \<longleftrightarrow> \<not> mb_running b \<and> mb_pending b = None"

lemma master_sdo_callback_simps [simp]:
  "mb_running (master_sdo_callback req ec v b) = False"
  "mb_pending (master_sdo_callback req ec v b) = None"
  "mb_read_promise (master_sdo_callback (Upload i t idx sub) ec v b) =
    (if ec \<noteq> 0 then Broken (Sdo_error ec)
     else Fulfilled \<lparr>index_of = idx, subindex_of = sub, data_of = value_to_data (CO_INT t) v\<rparr>)"
  "mb_write_promise (master_sdo_callback (Download i t idx sub x) ec v b) =
    (if ec \<noteq> 0 then Broken (Sdo_error ec) else Fulfilled True)"
  by (simp_all add: master_sdo_callback_def Let_def)

lemma master_acquire_result:
  assumes "transfer_ok b"
  obtains b1 where "master_acquire nops b = Some b1" "mb_running b1" "mb_pending b1 = None"
proof (cases "mb_pending b")
  case None
  with assms that[of "b\<lparr>mb_running := True\<rparr>"] show thesis
    by (simp add: master_acquire_def transfer_ok_def)
next
  case (Some req)
  obtain ec v n where ans: "mn_answer nops (mb_net b) = ((ec, v), n)"
    by (metis surj_pair)
  show thesis
  proof (rule that)
    show "master_acquire nops b = Some ((master_sdo_callback req ec v (b\<lparr>mb_net := n\<rparr>))\<lparr>mb_running := True\<rparr>)"
      using assms Some ans by (simp add: master_acquire_def transfer_ok_def)
  qed simp_all
qed

lemma master_wait_pending:
  "promise b = Unfulfilled \<Longrightarrow> mb_pending b = Some req \<Longrightarrow> mn_answer nops (mb_net b) = ((ec, v), n) \<Longrightarrow>
   master_wait nops promise b = Some (master_sdo_callback req ec v (b\<lparr>mb_net := n\<rparr>))"
  by (simp add: master_wait_def)

lemma master_wait_settled: "promise b = Broken e \<Longrightarrow> master_wait nops promise b = Some b"
  by (simp add: master_wait_def)

lemma master_async_read_result:
  assumes "transfer_ok b"
  obtains b' where "master_async_read_sdo nops i data dt b = Some b'" "transfer_ok b'"
    "(\<exists>t. deftype dt = Some t \<and> mb_read_promise b' = Unfulfilled \<and>
        mb_pending b' = Some (Upload i t (index_of data) (subindex_of data))) \<or>
     (\<exists>e. mb_read_promise b' = Broken e \<and> mb_pending b' = None)"
proof -
  obtain b1 where b1: "master_acquire nops b = Some b1" "mb_running b1" "mb_pending b1 = None"
    using master_acquire_result[OF assms] by metis
  show thesis
  proof (cases "deftype dt")
    case None
    with b1 that show thesis by (simp add: master_async_read_sdo_def transfer_ok_def del: deftype.simps)
  next
    case (Some t)
    let ?b2 = "b1\<lparr>mb_read_promise := Unfulfilled\<rparr>"
    let ?req = "Upload i t (index_of data) (subindex_of data)"
    obtain r n where sub: "mn_submit nops ?req (mb_net ?b2) = (r, n)" by fastforce
    with Some b1 that show thesis
      by (cases r)
        (simp_all add: master_async_read_sdo_def transfer_ok_def master_submit_def del: deftype.simps)
  qed
qed

lemma master_async_write_result:
  assumes "transfer_ok b"
  obtains b' where "master_async_write_sdo nops i data dt b = Some b'" "transfer_ok b'"
    "(\<exists>t x. deftype dt = Some t \<and> mb_write_promise b' = Unfulfilled \<and>
        mb_pending b' = Some (Download i t (index_of data) (subindex_of data) x)) \<or>
     (\<exists>e. mb_write_promise b' = Broken e \<and> mb_pending b' = None)"
proof -
  obtain b1 where b1: "master_acquire nops b = Some b1" "mb_running b1" "mb_pending b1 = None"
    using master_acquire_result[OF assms] by metis
  show thesis
  proof (cases "deftype dt")
    case None
    with b1 that show thesis by (simp add: master_async_write_sdo_def transfer_ok_def del: deftype.simps)
  next
    case (Some t)
    let ?b2 = "b1\<lparr>mb_write_promise := Unfulfilled\<rparr>"
    let ?req = "Download i t (index_of data) (subindex_of data) (data_to_value (CO_INT t) (data_of data))"
    obtain r n where sub: "mn_submit nops ?req (mb_net ?b2) = (r, n)" by fastforce
    with Some b1 that show thesis
      by (cases r)
        (simp_all add: master_async_write_sdo_def transfer_ok_def master_submit_def del: deftype.simps)
  qed
qed

lemma master_on_sdo_read_result:
  assumes "mn_activated d" "mn_derived d = Some b" "transfer_ok b"
  obtains resp' b' where "master_on_sdo_read nops q resp d = Some (resp', d\<lparr>mn_derived := Some b'\<rparr>)"
    "transfer_idle b'"
    "rs_success resp' \<Longrightarrow> \<exists>t v. deftype (rq_datatype q) = Some t \<and> rs_data resp' = value_to_data (CO_INT t) v"
proof -
  let ?data = "\<lparr>index_of = rq_index q, subindex_of = rq_subindex q, data_of = 0\<rparr>"
  obtain b1 where b1: "master_async_read_sdo nops (rq_nodeid q) ?data (rq_datatype q) b = Some b1" "transfer_ok b1"
    "(\<exists>t. deftype (rq_datatype q) = Some t \<and> mb_read_promise b1 = Unfulfilled \<and>
        mb_pending b1 = Some (Upload (rq_nodeid q) t (index_of ?data) (subindex_of ?data))) \<or>
     (\<exists>e. mb_read_promise b1 = Broken e \<and> mb_pending b1 = None)"
    by (rule master_async_read_result[OF assms(3)])
  from b1(3) show thesis
  proof (elim disjE exE conjE)
    fix t assume t: "deftype (rq_datatype q) = Some t" "mb_read_promise b1 = Unfulfilled"
      "mb_pending b1 = Some (Upload (rq_nodeid q) t (index_of ?data) (subindex_of ?data))"
    obtain ec v n where ans: "mn_answer nops (mb_net b1) = ((ec, v), n)" by (metis surj_pair)
    let ?b2 = "master_sdo_callback (Upload (rq_nodeid q) t (rq_index q) (rq_subindex q)) ec v (b1\<lparr>mb_net := n\<rparr>)"
    have wait: "master_wait nops mb_read_promise b1 = Some ?b2"
      using master_wait_pending[where promise = mb_read_promise, OF t(2,3) ans] by simp
    show thesis
    proof (rule that)
      show "master_on_sdo_read nops q resp d = Some (if ec \<noteq> 0 then resp\<lparr>rs_success := False\<rparr>
          else resp\<lparr>rs_data := value_to_data (CO_INT t) v, rs_success := True\<rparr>, d\<lparr>mn_derived := Some ?b2\<rparr>)"
        using assms b1(1) wait by (simp add: master_on_sdo_read_def)
    qed (use t(1) in \<open>auto simp: transfer_idle_def simp del: deftype.simps split: if_split_asm\<close>)
  next
    fix e assume e: "mb_read_promise b1 = Broken e" "mb_pending b1 = None"
    have wait: "master_wait nops mb_read_promise b1 = Some b1"
      by (rule master_wait_settled[where promise = mb_read_promise, OF e(1)])
    show thesis
    proof (rule that)
      show "master_on_sdo_read nops q resp d = Some (resp\<lparr>rs_success := False\<rparr>, d\<lparr>mn_derived := Some b1\<rparr>)"
        using assms b1(1) wait e by (simp add: master_on_sdo_read_def)
    qed (use b1(2) e in \<open>auto simp: transfer_idle_def transfer_ok_def\<close>)
  qed
qed

lemma master_on_sdo_write_result:
  assumes "mn_activated d" "mn_derived d = Some b" "transfer_ok b"
  obtains resp' b' where "master_on_sdo_write nops q resp d = Some (resp', d\<lparr>mn_derived := Some b'\<rparr>)"
    "transfer_idle b'" "rs_success resp' \<Longrightarrow> deftype (rq_datatype q) \<noteq> None"
proof -
  let ?data = "\<lparr>index_of = rq_index q, subindex_of = rq_subindex q, data_of = rq_data q\<rparr>"
  obtain b1 where b1: "master_async_write_sdo nops (rq_nodeid q) ?data (rq_datatype q) b = Some b1" "transfer_ok b1"
    "(\<exists>t x. deftype (rq_datatype q) = Some t \<and> mb_write_promise b1 = Unfulfilled \<and>
        mb_pending b1 = Some (Download (rq_nodeid q) t (index_of ?data) (subindex_of ?data) x)) \<or>
     (\<exists>e. mb_write_promise b1 = Broken e \<and> mb_pending b1 = None)"
    by (rule master_async_write_result[OF assms(3)])
  from b1(3) show thesis
  proof (elim disjE exE conjE)
    fix t x assume t: "deftype (rq_datatype q) = Some t" "mb_write_promise b1 = Unfulfilled"
      "mb_pending b1 = Some (Download (rq_nodeid q) t (index_of ?data) (subindex_of ?data) x)"
    obtain ec v n where ans: "mn_answer nops (mb_net b1) = ((ec, v), n)" by (metis surj_pair)
    let ?b2 = "master_sdo_callback (Download (rq_nodeid q) t (rq_index q) (rq_subindex q) x) ec v (b1\<lparr>mb_net := n\<rparr>)"
    have wait: "master_wait nops mb_write_promise b1 = Some ?b2"
      using master_wait_pending[where promise = mb_write_promise, OF t(2,3) ans] by simp
    show thesis
    proof (rule that)
      show "master_on_sdo_write nops q resp d =
          Some (if ec \<noteq> 0 then resp\<lparr>rs_success := False\<rparr> else resp\<lparr>rs_success := True\<rparr>, d\<lparr>mn_derived := Some ?b2\<rparr>)"
        using assms b1(1) wait by (simp add: master_on_sdo_write_def)
    qed (use t(1) in \<open>auto simp: transfer_idle_def simp del: deftype.simps split: if_split_asm\<close>)
  next
    fix e assume e: "mb_write_promise b1 = Broken e" "mb_pending b1 = None"
    have wait: "master_wait nops mb_write_promise b1 = Some b1"
      by (rule master_wait_settled[where promise = mb_write_promise, OF e(1)])
    show thesis
    proof (rule that)
      show "master_on_sdo_write nops q resp d = Some (resp\<lparr>rs_success := False\<rparr>, d\<lparr>mn_derived := Some b1\<rparr>)"
        using assms b1(1) wait e by (simp add: master_on_sdo_write_def)
    qed (use b1(2) e in \<open>auto simp: transfer_idle_def transfer_ok_def\<close>)
  qed
qed

subsection \<open>Properties\<close>

text \<open>C17: Whatever a derived master overrides, and in whatever order its life cycle functions are
  called, throwing ones included: it is active only when configured and with its master set, configured
  only when initialised, its executor exists while the master is set, and the event loop's thread runs
  only while it is active, so starting it never ends the process.\<close>

theorem master_lifecycle_invariant:
  assumes "master_contract hooks" "master_run env hooks (NodeCanopenMaster_new d) d'"
  shows "(mn_activated d' \<longrightarrow> mn_configured d' \<and> mn_master_set d') \<and> (mn_configured d' \<longrightarrow> mn_initialised d') \<and>
    (mn_master_set d' \<longrightarrow> mn_configured d' \<and> get_executor d' = Inr True) \<and>
    (\<not> mn_activated d' \<longrightarrow> (\<exists>d''. start_spinner d' = (Inr (), d'')))"
proof -
  have "master_ok (NodeCanopenMaster_new d)"
    by (simp add: NodeCanopenMaster_new_def master_ok_def)
  then have "master_ok d'"
    by (rule master_contract.master_run_ok[OF assms])
  then show ?thesis
    by (auto simp: master_ok_def get_executor_def start_spinner_def)
qed

text \<open>A master for the witnesses: the override table of a launch file and a network whose every transfer
  ends with the value 7.\<close>

definition example_master_env :: master_env where
  "example_master_env = \<lparr>me_client = table_lib empty_yaml, open_can = (\<lambda>name. Inr ())\<rparr>"

definition raw_master :: "nat basic_master" where
  "raw_master =
    \<lparr>mn_name = ''master'', mn_services = [], mn_params = \<lparr>overrides = Map.empty, declared = Map.empty\<rparr>, mn_container_name = [], master_dcf = [],
     master_bin = [], can_interface_name = [], mn_node_id = 0, mn_config = empty_yaml,
     mn_non_transmit_timeout = 0, timeout_ms = 0, mn_initialised = True, mn_configured = True,
     mn_activated = True, mn_master_set = True, mn_master = True, mn_exec = True, spinner = True,
     master_log = [], mn_derived = None\<rparr>"

definition seven_net :: "nat master_net" where
  "seven_net = \<lparr>mn_submit = (\<lambda>req n. (Inr (), n + 1)), mn_answer = (\<lambda>n. ((0, 7), n)), mn_command = (\<lambda>c i n. n + 100)\<rparr>"

lemma raw_master_init:
  "\<exists>t l. master_init example_master_env (basic_hooks mk) (NodeCanopenMaster_new raw_master) =
    (Inr (), (NodeCanopenMaster_new raw_master)\<lparr>mn_services := l, mn_params := t, mn_initialised := True\<rparr>)"
  by (simp add: master_init_def example_master_env_def NodeCanopenMaster_new_def raw_master_def Let_def
      basic_hooks_def basic_init_def master_declare_def master_defaults_def table_lib_def)

theorem master_lifecycle_invariant_witness:
  "\<exists>d'. master_run example_master_env (basic_hooks (\<lambda>d. Inr (False, 0))) (NodeCanopenMaster_new raw_master) d' \<and>
     mn_initialised d' \<and> \<not> mn_activated d' \<and> (\<exists>d''. start_spinner d' = (Inr (), d''))"
proof -
  let ?h = "basic_hooks (\<lambda>d. Inr (False, 0 :: nat))"
  let ?d = "snd (master_init example_master_env ?h (NodeCanopenMaster_new raw_master))"
  have run: "master_run example_master_env ?h (NodeCanopenMaster_new raw_master) ?d"
    using mrun_call[OF mrun_nil, of example_master_env ?h "NodeCanopenMaster_new raw_master" M_init] by simp
  have flags: "mn_initialised ?d \<and> \<not> mn_activated ?d"
    using raw_master_init[of "\<lambda>d. Inr (False, 0)"] by (auto simp: NodeCanopenMaster_new_def)
  show ?thesis
    using master_lifecycle_invariant[OF bm.master_contract_axioms run] run flags by blast
qed

text \<open>The SDO services of an active master answer every request while the discipline of its transfers
  holds, and keep it: a transfer of a supported type whose reply succeeds carries a value of that type,
  and a request of an unknown type is answered with a failure.\<close>

theorem master_sdo_services:
  assumes "mn_activated d" "mn_derived d = Some b" "transfer_ok b"
  shows "\<exists>resp1 b1 resp2 b2.
      master_on_sdo_read nops q resp d = Some (resp1, d\<lparr>mn_derived := Some b1\<rparr>) \<and> transfer_ok b1 \<and>
      (rs_success resp1 \<longrightarrow> (\<exists>t v. deftype (rq_datatype q) = Some t \<and> rs_data resp1 = value_to_data (CO_INT t) v)) \<and>
      master_on_sdo_write nops q resp d = Some (resp2, d\<lparr>mn_derived := Some b2\<rparr>) \<and> transfer_ok b2 \<and>
      (rs_success resp2 \<longrightarrow> deftype (rq_datatype q) \<noteq> None)"
proof -
  have idle: "transfer_idle x \<Longrightarrow> transfer_ok x" for x :: "'a master_bridge"
    by (simp add: transfer_idle_def transfer_ok_def)
  obtain resp1 b1 where r: "master_on_sdo_read nops q resp d = Some (resp1, d\<lparr>mn_derived := Some b1\<rparr>)"
    "transfer_idle b1"
    "rs_success resp1 \<Longrightarrow> \<exists>t v. deftype (rq_datatype q) = Some t \<and> rs_data resp1 = value_to_data (CO_INT t) v"
    by (rule master_on_sdo_read_result[OF assms]) blast
  obtain resp2 b2 where w: "master_on_sdo_write nops q resp d = Some (resp2, d\<lparr>mn_derived := Some b2\<rparr>)"
    "transfer_idle b2" "rs_success resp2 \<Longrightarrow> deftype (rq_datatype q) \<noteq> None"
    by (rule master_on_sdo_write_result[OF assms]) blast
  show ?thesis
    using r w idle by blast
qed

theorem master_sdo_services_witness:
  "\<exists>resp d'. master_on_sdo_read seven_net \<lparr>rq_nodeid = 2, rq_index = 0x6064, rq_subindex = 0, rq_data = 0, rq_datatype = 4\<rparr>
     \<lparr>rs_success = False, rs_data = 0\<rparr> (raw_master\<lparr>mn_derived := Some (LelyMasterBridge_new False 1 0)\<rparr>) = Some (resp, d')"
  using master_sdo_services[of "raw_master\<lparr>mn_derived := Some (LelyMasterBridge_new False 1 0)\<rparr>"
      "LelyMasterBridge_new False 1 0" seven_net]
  by (simp add: raw_master_def LelyMasterBridge_new_def transfer_ok_def) blast

text \<open>The bridge of the master does not initialise its \<open>running\<close> flag. When the memory it is built in
  happens to hold true, every SDO service call on the freshly activated master blocks for ever.\<close>

theorem uninitialised_running_blocks:
  assumes "mk (d\<lparr>mn_exec := True\<rparr>) = Inr (True, n)"
    "master_activate env (basic_hooks mk) d = (Inr (), d')"
  shows "master_on_sdo_read nops q resp d' = None \<and> master_on_sdo_write nops q resp d' = None"
proof -
  obtain b where "mn_activated d'" "mn_derived d' = Some b" "mb_running b" "mb_pending b = None"
    using assms by (auto simp: master_activate_def master_throw_def basic_hooks_def basic_activate_def Let_def
        LelyMasterBridge_new_def start_spinner_def split: if_split_asm sum.splits)
  then show ?thesis
    by (simp add: master_on_sdo_read_def master_on_sdo_write_def master_async_read_sdo_def
        master_async_write_sdo_def master_acquire_def)
qed

definition configured_master :: "nat basic_master" where
  "configured_master = raw_master\<lparr>mn_activated := False, mn_master_set := False, mn_master := False, spinner := False\<rparr>"

theorem uninitialised_running_blocks_witness:
  "\<forall>q resp. master_on_sdo_read seven_net q resp
     (snd (master_activate example_master_env (basic_hooks (\<lambda>d. Inr (True, 0))) configured_master)) = None"
proof -
  let ?h = "basic_hooks (\<lambda>d. Inr (True, 0 :: nat))"
  have "\<exists>d'. master_activate example_master_env ?h configured_master = (Inr (), d')"
    by (simp add: master_activate_def configured_master_def raw_master_def basic_hooks_def basic_activate_def Let_def
        start_spinner_def example_master_env_def)
  then obtain d' where act: "master_activate example_master_env ?h configured_master = (Inr (), d')"
    by blast
  then show ?thesis
    using uninitialised_running_blocks[OF _ act, of 0 seven_net] by simp
qed

text \<open>The promise of the NMT commands is a member that is never renewed: after one command returned,
  every later one is sent to the device and then throws.\<close>

theorem second_nmt_command:
  assumes "async_write_nmt nops i c b = (Inr p, b1)"
  shows "\<exists>e. fst (async_write_nmt nops i' c' b1) = Inl (Future_error e) \<and>
    mb_net (snd (async_write_nmt nops i' c' b1)) = (if nmt_known c' then mn_command nops c' i' (mb_net b1) else mb_net b1)"
  using assms by (auto simp: async_write_nmt_def Let_def split: if_split_asm)

theorem second_nmt_command_witness:
  "\<exists>e. fst (async_write_nmt seven_net 2 129 (snd (async_write_nmt seven_net 2 1 (LelyMasterBridge_new False 1 0))))
     = Inl (Future_error e)"
proof -
  let ?b = "LelyMasterBridge_new False 1 0 :: nat master_bridge"
  have "\<exists>b1. async_write_nmt seven_net 2 1 ?b = (Inr (Fulfilled True), b1)"
    by (simp add: async_write_nmt_def LelyMasterBridge_new_def Let_def nmt_known_def)
  then obtain b1 where "async_write_nmt seven_net 2 1 ?b = (Inr (Fulfilled True), b1)"
    by blast
  with second_nmt_command[OF this, of 2 129] show ?thesis by auto
qed

end
