(* ===== verification/Fleet.thy ===== *)
theory Fleet
  imports LifecycleManager MasterBridge BaseDriver
begin

text \<open>
  A bus of managed nodes: the lifecycle manager, the master and the drivers together. The lifecycle
  services of the nodes belong to the ROS client library; \<open>fleet_services\<close> is their documented state
  machine over the transitions of the nodes (\<open>master_node.cpp\<close>, \<open>driver_node.cpp\<close>), and an instance
  of the interface \<open>lifecycle_services\<close> that the manager relies on.
\<close>

subsection \<open>Managed nodes\<close>

text \<open>The nodes by name, each with its primary state, and the transitions asked for so far.\<close>

record 'a fleet =
  members :: "string \<rightharpoonup> nat \<times> 'a"
  asked :: "(string \<times> u8) list"

definition fleet_state :: "'a fleet \<Rightarrow> string \<Rightarrow> nat" where
  "fleet_state w n = (case members w n of None \<Rightarrow> STATE_UNKNOWN | Some (s, a) \<Rightarrow> s)"

text \<open>The state a transition starts from. A transition whose callback fails ends in the finalized state, 4.\<close>

fun transition_source :: "u8 \<Rightarrow> nat" where
  "transition_source t = (if t = 1 then 1 else if t = 2 then 2 else if t = 3 then 2 else if t = 4 then 3 else 0)"

definition fleet_change ::
  "(u8 \<Rightarrow> 'a \<Rightarrow> (bool \<times> 'a) option) \<Rightarrow> string \<Rightarrow> u8 \<Rightarrow> 'a fleet \<Rightarrow> bool option \<times> 'a fleet" where
  "fleet_change cb n t w =
    (let w1 = w\<lparr>asked := asked w @ [(n, t)]\<rparr> in
     case members w n of
       None \<Rightarrow> (None, w1)
     | Some (s, a) \<Rightarrow>
         (case transition_target t of
            None \<Rightarrow> (Some False, w1)
          | Some s' \<Rightarrow>
              if s \<noteq> transition_source t then (Some False, w1)
              else (case cb t a of
                      None \<Rightarrow> (None, w1)
                    | Some (ok, a') \<Rightarrow>
                        (Some ok, w1\<lparr>members := (members w)(n \<mapsto> (if ok then s' else 4, a'))\<rparr>))))"

definition fleet_services :: "(u8 \<Rightarrow> 'a \<Rightarrow> (bool \<times> 'a) option) \<Rightarrow> 'a fleet services" where
  "fleet_services cb =
    \<lparr>srv_get_state = \<lambda>n w. (map_option fst (members w n), w), srv_change_state = fleet_change cb\<rparr>"

interpretation fl: lifecycle_services "fleet_services cb" fleet_state asked for cb
  by unfold_locales
    (auto simp: fleet_services_def fleet_change_def fleet_state_def Let_def simp del: transition_source.simps
      transition_target.simps split: option.splits if_split_asm)

subsection \<open>Masters and drivers\<close>

datatype ('n, 'x) member = Master "'n master_node" | Driver "'x driver_node"

definition succeeded :: "('s, unit) outcome \<Rightarrow> bool" where
  "succeeded p = (case fst p of Inl e \<Rightarrow> False | Inr u \<Rightarrow> True)"

text \<open>The callback of a transition. \<open>None\<close>: the driver waits for the container for ever.\<close>

fun member_callback ::
  "master_env \<Rightarrow> 'n master_hooks \<Rightarrow> client_lib \<Rightarrow> 'x driver_hooks \<Rightarrow> (nat \<Rightarrow> 'x demand) \<Rightarrow> u8
   \<Rightarrow> ('n, 'x) member \<Rightarrow> (bool \<times> ('n, 'x) member) option" where
  "member_callback menv mhooks lib hooks demands t (Master d) =
    (let p = (if t = 1 then master_on_configure menv mhooks d
              else if t = 2 then master_on_cleanup mhooks d
              else if t = 3 then master_on_activate menv mhooks d
              else master_on_deactivate mhooks d)
     in Some (succeeded p, Master (snd p)))"
| "member_callback menv mhooks lib hooks demands t (Driver d) =
    map_option (\<lambda>p. (succeeded p, Driver (snd p)))
      (if t = 1 then on_configure lib hooks demands d
       else if t = 2 then Some (on_cleanup hooks d)
       else if t = 3 then Some (on_activate hooks d)
       else Some (on_deactivate hooks d))"

fun member_ok :: "nat \<Rightarrow> ('n, 'x) member \<Rightarrow> bool" where
  "member_ok s (Master d) \<longleftrightarrow> master_ok d \<and> (s = STATE_ACTIVE \<longrightarrow> mn_activated d \<and> get_master d = Inr True)"
| "member_ok s (Driver d) \<longleftrightarrow> driver_ok d \<and> (s = STATE_ACTIVE \<longrightarrow> activated d)"

definition fleet_ok :: "('n, 'x) member fleet \<Rightarrow> bool" where
  "fleet_ok w \<longleftrightarrow> (\<forall>n s a. members w n = Some (s, a) \<longrightarrow> member_ok s a)"

lemma succeeded_iff: "succeeded p \<longleftrightarrow> fst p = Inr ()"
  by (auto simp: succeeded_def split: sum.split)

text \<open>Only the transition to active has to establish more than the invariant of the node.\<close>

lemma member_okI:
  "master_ok d \<Longrightarrow> s \<noteq> STATE_ACTIVE \<Longrightarrow> member_ok s (Master d)"
  "driver_ok e \<Longrightarrow> s \<noteq> STATE_ACTIVE \<Longrightarrow> member_ok s (Driver e)"
  by simp_all

lemma transition_target_cases:
  assumes "transition_target t = Some s'"
  obtains (configure) "t = 1" "s' = 2" | (cleanup) "t = 2" "s' = 1" | (activate) "t = 3" "s' = 3"
    | (deactivate) "t = 4" "s' = 2"
  using assms by (auto split: if_split_asm)

lemma master_callback_ok:
  assumes "master_contract mhooks" "master_ok d"
    "member_callback menv mhooks lib hooks demands t (Master d) = Some (ok, a)" "transition_target t = Some s'"
  shows "member_ok (if ok then s' else 4) a"
proof -
  note keep = master_contract.master_run_ok[OF assms(1) _ assms(2)]
    and call = mrun_call[OF mrun_nil, of menv mhooks d]
  show ?thesis
    using assms(4)
  proof (cases rule: transition_target_cases)
    case configure
    with assms(3) keep[OF call[of M_configure]] show ?thesis
      by (auto simp: Let_def lifecycle_numbers master_on_configure_def)
  next
    case cleanup
    with assms(3) keep[OF call[of M_cleanup]] show ?thesis
      by (auto simp: Let_def lifecycle_numbers master_on_cleanup_def)
  next
    case activate
    have "master_activate menv mhooks d = (Inr (), x) \<Longrightarrow> mn_activated x \<and> get_master x = Inr True" for x
      using master_contract.master_activate_result[OF assms(1), of menv d "Inr ()" x] assms(2)
      by (cases "mn_activated d") (auto simp: get_master_def master_activate_def master_throw_def split: if_split_asm)
    with activate assms(3) keep[OF call[of M_activate]] show ?thesis
      by (cases "master_activate menv mhooks d") (auto simp: Let_def lifecycle_numbers master_on_activate_def succeeded_iff)
  next
    case deactivate
    with assms(3) keep[OF call[of M_deactivate]] show ?thesis
      by (auto simp: Let_def lifecycle_numbers master_on_deactivate_def)
  qed
qed

lemma driver_callback_ok:
  assumes "driver_env lib hooks" "demand_ok demands" "driver_ok d"
    "member_callback menv mhooks lib hooks demands t (Driver d) = Some (ok, a)" "transition_target t = Some s'"
  shows "member_ok (if ok then s' else 4) a"
proof -
  note keep = driver_env.driver_run_ok[OF assms(1) _ assms(3)]
    and call = drun_call[OF drun_nil, of lib hooks d]
  show ?thesis
    using assms(5)
  proof (cases rule: transition_target_cases)
    case configure
    then obtain r x where x: "on_configure lib hooks demands d = Some (r, x)" "a = Driver x"
      using assms(4) by (cases "on_configure lib hooks demands d") auto
    obtain r1 d1 where conf: "driver_configure lib hooks d = (r1, d1)" by fastforce
    have run1: "driver_run lib hooks d d1"
      using call[of Call_configure] conf by simp
    have "driver_run lib hooks d x"
    proof (cases r1)
      case (Inl e)
      with x(1) conf run1 show ?thesis by (simp add: on_configure_def)
    next
      case (Inr u)
      with x(1) conf have "demand_master demands d1 = Some (r, x)" by (simp add: on_configure_def)
      from driver_run_trans[OF demand_master_run(1)[OF assms(2) this] run1] show ?thesis .
    qed
    from keep[OF this] configure x(2) show ?thesis by (simp add: lifecycle_numbers)
  next
    case cleanup
    with assms(4) keep[OF call[of Call_cleanup]] show ?thesis
      by (auto simp: lifecycle_numbers on_cleanup_def)
  next
    case activate
    have "driver_activate hooks d = (Inr (), x) \<Longrightarrow> activated x" for x
      using driver_env.driver_activate_result[OF assms(1), of d "Inr ()" x]
      by (cases "activated d") (auto simp: driver_activate_def driver_throw_def split: if_split_asm)
    with activate assms(4) keep[OF call[of Call_activate]] show ?thesis
      by (cases "driver_activate hooks d") (auto simp: lifecycle_numbers on_activate_def succeeded_iff)
  next
    case deactivate
    with assms(4) keep[OF call[of Call_deactivate]] show ?thesis
      by (auto simp: lifecycle_numbers on_deactivate_def)
  qed
qed

lemma member_callback_ok:
  assumes "master_contract mhooks" "driver_env lib hooks" "demand_ok demands" "member_ok s a"
    "member_callback menv mhooks lib hooks demands t a = Some (ok, a')" "transition_target t = Some s'"
  shows "member_ok (if ok then s' else 4) a'"
proof (cases a)
  case (Master d)
  with assms(4) have "master_ok d" by simp
  from master_callback_ok[OF assms(1) this assms(5)[unfolded Master] assms(6)] show ?thesis .
next
  case (Driver d)
  with assms(4) have "driver_ok d" by simp
  from driver_callback_ok[OF assms(2,3) this assms(5)[unfolded Driver] assms(6)] show ?thesis .
qed

lemma fleet_invariant:
  assumes "master_contract mhooks" "driver_env lib hooks" "demand_ok demands"
  shows "service_invariant (fleet_services (member_callback menv mhooks lib hooks demands)) fleet_ok"
proof
  show "fleet_ok w'" if "fleet_ok w" "srv_get_state (fleet_services cb) n w = (r, w')"
    for cb w w' n r
    using that by (simp add: fleet_services_def)
  show "fleet_ok w'" if ok: "fleet_ok w"
    and run: "srv_change_state (fleet_services (member_callback menv mhooks lib hooks demands)) n t w = (r, w')"
    for w w' n t r
  proof (cases "members w' = members w")
    case True
    with ok show ?thesis by (simp add: fleet_ok_def)
  next
    case False
    then obtain s a s' ok a' where w': "members w n = Some (s, a)" "transition_target t = Some s'"
      "member_callback menv mhooks lib hooks demands t a = Some (ok, a')"
      "members w' = (members w)(n \<mapsto> (if ok then s' else 4, a'))"
      using run by (auto simp: fleet_services_def fleet_change_def Let_def simp del: transition_source.simps
          transition_target.simps split: option.splits if_split_asm)
    have "member_ok s a"
      using \<open>fleet_ok w\<close> w'(1) by (simp add: fleet_ok_def)
    from member_callback_ok[OF assms this w'(3,2)] \<open>fleet_ok w\<close> w'(4) show ?thesis
      by (auto simp: fleet_ok_def)
  qed
qed

lemma second_demand_ok: "demand_ok second_demand"
  by (simp add: demand_ok_def second_demand_def) blast

text \<open>The nodes of the basic master and of the base driver obey it.\<close>

interpretation fi: service_invariant
  "fleet_services (member_callback menv (basic_hooks mk) (table_lib doc) (base_hooks dops nops env) second_demand)" fleet_ok
  for menv mk doc dops nops env
  by (rule fleet_invariant[OF bm.master_contract_axioms bd.driver_env_axioms second_demand_ok])

subsection \<open>A bus\<close>

definition no_params :: param_table where
  "no_params = \<lparr>overrides = Map.empty, declared = Map.empty\<rparr>"

definition example_manager :: "'w \<Rightarrow> 'w manager" where
  "example_manager w =
    \<lparr>lm_container_name = [], lm_config = example_config, clients = [], device_names_to_ids = [],
     master_id = 0, nodes = w\<rparr>"

definition loaded_manager :: "'w \<Rightarrow> 'w manager" where
  "loaded_manager w = (example_manager w)\<lparr>clients := [(1, ''a_master''), (2, ''motor'')],
     device_names_to_ids := [(''a_master'', 1), (''motor'', 2)], master_id := 1\<rparr>"

lemma example_devices:
  "devices example_config =
    [(''a_master'', yaml_assign (plain_yaml example_bus empty_yaml) ''dcf_path'' ''/config''
        (empty_yaml\<lparr>as_u8 := [[''node_id''] \<mapsto> 1], as_u16 := [[''node_id''] \<mapsto> 1]\<rparr>)),
     (''motor'', yaml_assign (plain_yaml example_bus empty_yaml) ''dcf_path'' ''/config''
        (empty_yaml\<lparr>as_u8 := [[''node_id''] \<mapsto> 2], as_u16 := [[''node_id''] \<mapsto> 2]\<rparr>))]"
  by (simp add: example_config_def example_bus_def empty_yaml_def less_char_def)

lemma example_ids: "device_id example_config ''a_master'' = Some 1" "device_id example_config ''motor'' = Some 2"
  by (simp_all add: device_id_def get_entry_def example_devices plain_yaml_def)

lemma example_names: "qualified_name example_config name = name"
  if "name \<in> {''a_master'', ''motor''}"
  using that by (auto simp: qualified_name_def get_entry_def example_devices plain_yaml_def empty_yaml_def)

lemma example_managed: "managed_devices example_config = [''a_master'', ''motor'']"
  by (simp add: managed_devices_def get_all_devices_def example_devices)
    (simp add: example_ids flip: example_devices)

lemma example_masters: "contains ''master'' ''a_master''" "\<not> contains ''master'' ''motor''"
  by simp_all

lemma example_bus_ok: "bus_ok example_config ''a_master''"
  by (simp add: bus_ok_def example_managed example_ids ordered_def example_devices less_char_def example_masters
      del: contains.simps)

lemma example_loaded: "manager_on_configure no_params (example_manager w) = (SUCCESS, loaded_manager w)"
  by (simp add: manager_on_configure_def load_from_config_def example_manager_def get_string_def no_params_def
      get_all_devices_def example_devices)
    (simp add: example_ids[unfolded device_id_def] example_names loaded_manager_def example_manager_def less_char_def
      flip: example_devices)

lemma example_start:
  assumes "members w ''a_master'' = Some (1, a)" "members w ''motor'' = Some (1, b)"
    "cb 1 a = Some (True, a1)" "cb 3 a1 = Some (True, a2)" "cb 1 b = Some (True, b1)" "cb 3 b1 = Some (True, b2)"
  shows "\<exists>m. manager_on_activate (fleet_services cb) (loaded_manager w) = Some (SUCCESS, m)"
proof -
  let ?w1 = "w\<lparr>members := (members w)(''a_master'' \<mapsto> (3, a2)),
    asked := asked w @ [(''a_master'', 1), (''a_master'', 3)]\<rparr>"
  let ?w2 = "?w1\<lparr>members := (members ?w1)(''motor'' \<mapsto> (3, b2)),
    asked := asked ?w1 @ [(''motor'', 1), (''motor'', 3)]\<rparr>"
  have "bring_up_master (fleet_services cb) (loaded_manager w) = Some (True, loaded_manager ?w1)"
    using assms by (simp add: bring_up_master_def get_state_def change_state_def loaded_manager_def
        example_manager_def fleet_services_def fleet_change_def lifecycle_numbers Let_def)
  moreover have "bring_up_driver (fleet_services cb) ''motor'' (loaded_manager ?w1) = Some (True, loaded_manager ?w2)"
    using assms by (simp add: bring_up_driver_def id_of_def get_state_def change_state_def loaded_manager_def
        example_manager_def fleet_services_def fleet_change_def lifecycle_numbers Let_def)
  ultimately show ?thesis
    by (simp add: manager_on_activate_def bring_up_all_def loaded_manager_def example_masters del: contains.simps)
qed

lemma example_stop:
  assumes "members w ''a_master'' = Some (3, a)" "members w ''motor'' = Some (3, b)"
    "cb 4 a = Some (True, a1)" "cb 2 a1 = Some (True, a2)" "cb 4 b = Some (True, b1)" "cb 2 b1 = Some (True, b2)"
  shows "\<exists>m. manager_on_deactivate (fleet_services cb) (loaded_manager w) = Some (SUCCESS, m)"
proof -
  let ?w1 = "w\<lparr>members := (members w)(''a_master'' \<mapsto> (1, a2)),
    asked := asked w @ [(''a_master'', 4), (''a_master'', 2)]\<rparr>"
  let ?w2 = "?w1\<lparr>members := (members ?w1)(''motor'' \<mapsto> (1, b2)),
    asked := asked ?w1 @ [(''motor'', 4), (''motor'', 2)]\<rparr>"
  have "bring_down_driver (fleet_services cb) ''a_master'' (loaded_manager w) = Some (True, loaded_manager ?w1)"
    using assms by (simp add: bring_down_driver_def id_of_def get_state_def change_state_def loaded_manager_def
        example_manager_def fleet_services_def fleet_change_def lifecycle_numbers Let_def)
  moreover have "bring_down_driver (fleet_services cb) ''motor'' (loaded_manager ?w1) = Some (True, loaded_manager ?w2)"
    using assms by (simp add: bring_down_driver_def id_of_def get_state_def change_state_def loaded_manager_def
        example_manager_def fleet_services_def fleet_change_def lifecycle_numbers Let_def)
  moreover have "\<exists>m. bring_down_master (fleet_services cb) (loaded_manager ?w2) = Some (True, m)"
    using assms by (simp add: bring_down_master_def get_state_def change_state_def loaded_manager_def
        example_manager_def fleet_services_def fleet_change_def lifecycle_numbers Let_def)
  ultimately show ?thesis
    by (auto simp: manager_on_deactivate_def bring_down_all_def loaded_manager_def)
qed

text \<open>Nodes whose transitions all succeed.\<close>

definition willing :: "u8 \<Rightarrow> unit \<Rightarrow> (bool \<times> unit) option" where
  "willing t a = Some (True, a)"

definition willing_fleet :: "nat \<Rightarrow> unit fleet" where
  "willing_fleet s = \<lparr>members = [''a_master'' \<mapsto> (s, ()), ''motor'' \<mapsto> (s, ())], asked = []\<rparr>"

lemmas example_bus_facts = example_bus_ok example_managed example_names example_masters example_manager_def

theorem manager_bring_up_witness:
  "\<exists>m. manager_on_activate (fleet_services willing) (loaded_manager (willing_fleet 1)) = Some (SUCCESS, m) \<and>
     asked (nodes m) = start_requests ''a_master'' @ start_requests ''motor''"
proof -
  obtain m where m: "manager_on_activate (fleet_services willing) (loaded_manager (willing_fleet 1)) = Some (SUCCESS, m)"
    using example_start[of "willing_fleet 1" "()" "()" willing] by (auto simp: willing_fleet_def willing_def)
  with manager_bring_up[OF fl.lifecycle_services_axioms _ _ _ example_loaded m, of "''a_master''"] show ?thesis
    by (simp add: example_bus_facts drivers_of_def willing_fleet_def del: contains.simps)
qed

theorem manager_bring_down_witness:
  "\<exists>m. manager_on_deactivate (fleet_services willing) (loaded_manager (willing_fleet 3)) = Some (SUCCESS, m) \<and>
     asked (nodes m) = stop_requests ''a_master'' @ stop_requests ''motor'' @ stop_requests ''a_master''"
proof -
  obtain m where m: "manager_on_deactivate (fleet_services willing) (loaded_manager (willing_fleet 3)) = Some (SUCCESS, m)"
    using example_stop[of "willing_fleet 3" "()" "()" willing] by (auto simp: willing_fleet_def willing_def)
  with manager_bring_down[OF fl.lifecycle_services_axioms _ _ _ example_loaded m, of "''a_master''"] show ?thesis
    by (simp add: example_bus_facts willing_fleet_def del: contains.simps)
qed

theorem master_stopped_first_witness:
  "\<exists>m later. manager_on_deactivate (fleet_services willing) (loaded_manager (willing_fleet 3)) = Some (SUCCESS, m) \<and>
     asked (nodes m) = stop_requests ''a_master'' @ later"
proof -
  obtain m where m: "manager_on_deactivate (fleet_services willing) (loaded_manager (willing_fleet 3)) = Some (SUCCESS, m)"
    using example_stop[of "willing_fleet 3" "()" "()" willing] by (auto simp: willing_fleet_def willing_def)
  with master_stopped_first[OF fl.lifecycle_services_axioms _ _ _ example_loaded m, of "''a_master''" "[''motor'']"]
  show ?thesis
    by (simp add: example_bus_facts willing_fleet_def del: contains.simps)
qed

subsection \<open>The whole bus\<close>

fun member_active :: "('n, 'x) member \<Rightarrow> bool" where
  "member_active (Master d) \<longleftrightarrow> mn_activated d \<and> get_master d = Inr True"
| "member_active (Driver d) \<longleftrightarrow> activated d \<and> configured d \<and> exec_master d \<noteq> None"

lemma member_ok_active: "member_ok STATE_ACTIVE a \<Longrightarrow> member_active a"
  by (cases a) (auto simp: driver_ok_def)

text \<open>C15: On a bus of managed nodes a successful activation of the lifecycle manager leaves the master and
  every driver of the configuration really active: the master hands out its pointer, and each driver is
  configured, activated and holds a master.\<close>

theorem fleet_bring_up:
  assumes "master_contract mhooks" "driver_env lib hooks" "demand_ok demands"
    "fleet_ok (nodes m)" "bus_ok (lm_config m) mname" "clients m = []" "device_names_to_ids m = []"
    "manager_on_configure t m = (SUCCESS, m1)"
    "manager_on_activate (fleet_services (member_callback menv mhooks lib hooks demands)) m1 = Some (SUCCESS, m2)"
    "name \<in> set (mname # drivers_of (lm_config m))"
  shows "\<exists>a. members (nodes m2) (qualified_name (lm_config m) name) = Some (STATE_ACTIVE, a) \<and> member_active a"
proof -
  let ?sv = "fleet_services (member_callback menv mhooks lib hooks demands)"
  have "bring_up_all ?sv m1 = Some (True, m2)"
    using assms(9) by (auto simp: manager_on_activate_def split: Option.bind_splits if_splits)
  moreover have "fleet_ok (nodes m1)"
    using assms(4) manager_loaded(4)[OF assms(5-8)] by simp
  ultimately have "fleet_ok (nodes m2)"
    by (rule service_invariant.bring_up_all_keeps[OF fleet_invariant[OF assms(1-3)]])
  moreover have "fleet_state (nodes m2) (qualified_name (lm_config m) name) = STATE_ACTIVE"
    using manager_bring_up_result[OF fl.lifecycle_services_axioms assms(5-9)] assms(10) by blast
  ultimately show ?thesis
    using member_ok_active by (fastforce simp: fleet_ok_def fleet_state_def lifecycle_numbers split: option.splits)
qed

text \<open>A master and a driver that start.\<close>

abbreviation example_mhooks :: "nat master_bridge option master_hooks" where
  "example_mhooks \<equiv> basic_hooks (\<lambda>d. Inr (False, 0))"

lemma example_master_start:
  "\<exists>d1 d2 d3. master_on_configure example_master_env example_mhooks d1 = (Inr (), d2) \<and>
     master_on_activate example_master_env example_mhooks d2 = (Inr (), d3) \<and> master_ok d1"
proof -
  obtain t l where init: "master_init example_master_env example_mhooks (NodeCanopenMaster_new raw_master) =
      (Inr (), (NodeCanopenMaster_new raw_master)\<lparr>mn_services := l, mn_params := t, mn_initialised := True\<rparr>)"
    using raw_master_init by blast
  let ?d1 = "(NodeCanopenMaster_new raw_master)\<lparr>mn_services := l, mn_params := t, mn_initialised := True\<rparr>"
  have "\<exists>d2. master_on_configure example_master_env example_mhooks ?d1 = (Inr (), d2) \<and>
      mn_initialised d2 \<and> mn_configured d2 \<and> \<not> mn_activated d2 \<and> \<not> spinner d2"
    by (simp add: master_on_configure_def master_configure_def master_read_config_def NodeCanopenMaster_new_def
        raw_master_def example_master_env_def table_lib_def plain_yaml_def basic_hooks_def
        master_configure_hook_def Let_def)
  then obtain d2 where d2: "master_on_configure example_master_env example_mhooks ?d1 = (Inr (), d2)"
      "mn_initialised d2" "mn_configured d2" "\<not> mn_activated d2" "\<not> spinner d2"
    by blast
  have "\<exists>d3. master_on_activate example_master_env example_mhooks d2 = (Inr (), d3)"
    using d2(2-5) by (simp add: master_on_activate_def master_activate_def basic_hooks_def basic_activate_def Let_def
        start_spinner_def example_master_env_def)
  moreover have "master_ok ?d1"
    by (simp add: master_ok_def NodeCanopenMaster_new_def)
  ultimately show ?thesis using d2(1) by blast
qed

abbreviation example_hooks :: "(u16 \<times> u8 \<rightharpoonup> co_type \<times> int, device_memory, unit) base_driver driver_hooks" where
  "example_hooks \<equiv> base_hooks table_ops device_net prompt_env"

lemma example_driver_start:
  "\<exists>d1 d2 d3. on_configure (table_lib example_doc) example_hooks second_demand d1 = Some (Inr (), d2) \<and>
     on_activate example_hooks d2 = (Inr (), d3) \<and> driver_ok d1"
proof -
  let ?d0 = "NodeCanopenDriver_new (fresh_node (base_x ()))"
  obtain d' where up: "CanopenDriver_init (table_lib example_doc) example_hooks second_demand ?d0 = Some (Inr (), d')"
    using example_bring_up by blast
  obtain d1 where d1: "driver_init (table_lib example_doc) example_hooks ?d0 = (Inr (), d1)"
    using up by (cases "driver_init (table_lib example_doc) example_hooks ?d0")
      (auto simp: CanopenDriver_init_def bindE_def split: sum.splits)
  have "driver_ok (snd (driver_init (table_lib example_doc) example_hooks ?d0))"
    by (rule bd.driver_init_ok) (simp add: NodeCanopenDriver_new_def driver_ok_def)
  with d1 have "driver_ok d1" by simp
  moreover obtain d2 where d2: "driver_configure (table_lib example_doc) example_hooks d1 = (Inr (), d2)"
    using up d1 by (cases "driver_configure (table_lib example_doc) example_hooks d1")
      (auto simp: CanopenDriver_init_def split: sum.splits)
  moreover obtain d3 where d3: "demand_master second_demand d2 = Some (Inr (), d3)"
    using up d1 d2 by (cases "demand_master second_demand d2")
      (auto simp: CanopenDriver_init_def split: sum.splits prod.splits)
  moreover have "on_configure (table_lib example_doc) example_hooks second_demand d1 = Some (Inr (), d3)"
    using d2 d3 by (simp add: on_configure_def)
  moreover have "on_activate example_hooks d3 = (Inr (), d')"
    using up d1 d2 d3 by (simp add: CanopenDriver_init_def on_activate_def)
  ultimately show ?thesis by blast
qed

theorem fleet_bring_up_witness:
  "\<exists>dm dd m a. manager_on_activate
      (fleet_services (member_callback example_master_env example_mhooks (table_lib example_doc) example_hooks second_demand))
      (loaded_manager \<lparr>members = [''a_master'' \<mapsto> (1, Master dm), ''motor'' \<mapsto> (1, Driver dd)], asked = []\<rparr>)
      = Some (SUCCESS, m) \<and>
    members (nodes m) ''motor'' = Some (STATE_ACTIVE, a) \<and> member_active a"
proof -
  let ?cb = "member_callback example_master_env example_mhooks (table_lib example_doc) example_hooks second_demand"
  obtain m1 m2 m3 where M: "master_on_configure example_master_env example_mhooks m1 = (Inr (), m2)"
    "master_on_activate example_master_env example_mhooks m2 = (Inr (), m3)" "master_ok m1"
    using example_master_start by blast
  obtain d1 d2 d3 where D: "on_configure (table_lib example_doc) example_hooks second_demand d1 = Some (Inr (), d2)"
    "on_activate example_hooks d2 = (Inr (), d3)" "driver_ok d1"
    using example_driver_start by blast
  let ?w = "\<lparr>members = [''a_master'' \<mapsto> (1, Master m1), ''motor'' \<mapsto> (1, Driver d1)], asked = []\<rparr>"
  have cb: "?cb 1 (Master m1) = Some (True, Master m2)" "?cb 3 (Master m2) = Some (True, Master m3)"
    "?cb 1 (Driver d1) = Some (True, Driver d2)" "?cb 3 (Driver d2) = Some (True, Driver d3)"
    using M D by (simp_all add: succeeded_def)
  obtain m where m: "manager_on_activate (fleet_services ?cb) (loaded_manager ?w) = Some (SUCCESS, m)"
    using example_start[of ?w _ _ ?cb, OF _ _ cb] by auto
  have ok: "fleet_ok (nodes (example_manager ?w))"
    using M(3) D(3) by (simp add: fleet_ok_def example_manager_def lifecycle_numbers)
  have "\<exists>a. members (nodes m) ''motor'' = Some (STATE_ACTIVE, a) \<and> member_active a"
    using fleet_bring_up[OF bm.master_contract_axioms bd.driver_env_axioms second_demand_ok ok _ _ _ example_loaded m,
        of "''a_master''" "''motor''"]
    by (simp add: example_bus_facts drivers_of_def del: contains.simps)
  with m show ?thesis by blast
qed

end
