(* ===== verification/DeviceContainer.thy ===== *)
theory DeviceContainer
  imports LifecycleManager Bridge
begin

text \<open>
  The device container (\<open>canopen_core\<close>, \<open>device_container.hpp\<close> and \<open>.cpp\<close>): it loads the master, the
  drivers and the lifecycle manager that a bus configuration names, gives drivers the master, and
  shuts everything down. The loader of components, \<open>rclcpp_components\<close>, and the loaded masters and
  drivers are reached through the record \<open>container_lib\<close> of their functions.
\<close>

subsection \<open>State\<close>

text \<open>\<open>'c\<close> is a loaded component, \<open>'m\<close> and \<open>'d\<close> what the pointers to the interfaces of masters and of
  drivers refer to. A cast to an interface that the component does not have is undefined: \<open>None\<close>.
  \<open>cl_what\<close> is the text an exception gives as a \<open>std::exception\<close>.\<close>

record component_request =
  cr_package :: string
  cr_class :: string
  cr_arguments :: "string list"
  cr_params :: "(string \<times> param) list"

record ('c, 'm, 'd) container_lib =
  cl_client :: client_lib
  component_classes :: "string \<Rightarrow> exn + string list"
  create_factory :: "string \<Rightarrow> string \<Rightarrow> exn + unit"
  create_instance :: "component_request \<Rightarrow> exn + 'c"
  as_master :: "'c \<Rightarrow> 'm option"
  as_driver :: "'c \<Rightarrow> 'd option"
  cl_what :: "exn \<Rightarrow> string option"
  m_init :: "'m \<Rightarrow> ('m, unit) blocking"
  m_shutdown :: "'m \<Rightarrow> ('m, unit) outcome"
  m_is_lifecycle :: "'m \<Rightarrow> bool"
  m_pointers :: "'m \<Rightarrow> exn + nat"
  m_name :: "'m \<Rightarrow> string"
  d_init :: "'d \<Rightarrow> ('d, unit) blocking"
  d_shutdown :: "'d \<Rightarrow> ('d, unit) outcome"
  d_is_lifecycle :: "'d \<Rightarrow> bool"
  d_set_master :: "nat \<Rightarrow> 'd \<Rightarrow> ('d, unit) outcome"
  d_name :: "'d \<Rightarrow> string"
  manager_name :: string

text \<open>\<open>can_master_id\<close> has an arbitrary value until the master is loaded. \<open>executor_nodes\<close> are the names
  of the nodes given to the executor, while there is one.\<close>

record ('m, 'd) container =
  ct_name :: string
  ct_namespace :: string
  ct_params :: param_table
  registered_drivers :: "(u16 \<times> 'd) list"
  can_master :: "'m option"
  can_master_id :: u16
  has_manager :: "config_manager option"
  ct_config :: config_manager
  dcf_txt :: string
  bus_config :: string
  dcf_bin :: string
  can_if_name :: string
  lifecycle_operation :: bool
  executor_there :: bool
  executor_nodes :: "string list"

definition container_throw :: "string \<Rightarrow> 's \<Rightarrow> ('s, 'a) outcome" where
  "container_throw what s = (Inl (Container_exception what), s)"

definition container_defaults :: "(string \<times> param) list" where
  "container_defaults =
    [(''can_interface_name'', P_string []), (''master_config'', P_string []), (''bus_config'', P_string []),
     (''master_bin'', P_string [])]"

definition DeviceContainer_new ::
  "('c, 'm, 'd) container_lib \<Rightarrow> ('m, 'd) container \<Rightarrow> (('m, 'd) container, unit) outcome" where
  "DeviceContainer_new lib c =
    (case declare_parameters (cl_client lib) container_defaults (ct_params c) of
       (r, t) \<Rightarrow> (r, c\<lparr>ct_params := t, registered_drivers := [], can_master := None, has_manager := None,
                       lifecycle_operation := False\<rparr>))"

definition add_node_to_executor :: "string \<Rightarrow> ('m, 'd) container \<Rightarrow> ('m, 'd) container" where
  "add_node_to_executor name c =
    (if executor_there c then c\<lparr>executor_nodes := executor_nodes c @ [name]\<rparr> else c)"

subsection \<open>Loading a component\<close>

text \<open>The arguments of the node: its name, its namespace and the remappings.\<close>

definition remap_rules :: "string \<Rightarrow> string \<Rightarrow> (string \<times> string) list \<Rightarrow> string list" where
  "remap_rules node_name ns remappings =
    [''--ros-args'', ''-r'', ''__node:='' @ node_name, ''-r'', ''__ns:='' @ ns] @
    concat (map (\<lambda>(a, b). [''-r'', a @ '':='' @ b]) remappings)"

definition lifecycle_message :: "string \<Rightarrow> string \<Rightarrow> bool \<Rightarrow> string" where
  "lifecycle_message driver_name node_name managed =
    ''Driver '' @ driver_name @ '' for device '' @ node_name @
    (if managed then '' is not a lifecycle driver while the master is.''
     else '' is a lifecycle driver while the master is not.'')"

text \<open>The inside of the \<open>try\<close> block, after the node was created.\<close>

definition register_component ::
  "('c, 'm, 'd) container_lib \<Rightarrow> string \<Rightarrow> u16 \<Rightarrow> string \<Rightarrow> 'c \<Rightarrow> ('m, 'd) container
   \<Rightarrow> (('m, 'd) container, unit) blocking" where
  "register_component lib driver_name node_id node_name component c =
    (if node_name = ''master''
     then (case as_master lib component of
             None \<Rightarrow> None
           | Some m \<Rightarrow> Some (Inr (), c\<lparr>can_master := Some m\<rparr>))
     else (case as_driver lib component of
             None \<Rightarrow> None
           | Some d \<Rightarrow>
               if lifecycle_operation c \<noteq> d_is_lifecycle lib d
               then Some (container_throw (lifecycle_message driver_name node_name (lifecycle_operation c)) c)
               else Some (Inr (), c\<lparr>registered_drivers := assign node_id d (registered_drivers c)\<rparr>)))"

definition constructor_error :: "('c, 'm, 'd) container_lib \<Rightarrow> exn \<Rightarrow> string" where
  "constructor_error lib e =
    (case cl_what lib e of
       Some s \<Rightarrow> ''Component constructor threw an exception: '' @ s
     | None \<Rightarrow> ''Component constructor threw an exception'')"

fun load_class ::
  "('c, 'm, 'd) container_lib \<Rightarrow> component_request \<Rightarrow> u16 \<Rightarrow> string \<Rightarrow> string list \<Rightarrow> ('m, 'd) container
   \<Rightarrow> (('m, 'd) container, bool) blocking" where
  "load_class lib req node_id node_name [] c = Some (Inr False, c)"
| "load_class lib req node_id node_name (cls # classes) c =
    (if cls \<noteq> cr_class req then load_class lib req node_id node_name classes c
     else (case create_factory lib (cr_package req) cls of
         Inl e \<Rightarrow> Some (Inl e, c)
       | Inr u \<Rightarrow>
           (case (case create_instance lib req of
                    Inl e \<Rightarrow> Some (Inl e, c)
                  | Inr component \<Rightarrow> register_component lib cls node_id node_name component c) of
              None \<Rightarrow> None
            | Some (Inl e, c1) \<Rightarrow> Some (container_throw (constructor_error lib e) c1)
            | Some (Inr u, c1) \<Rightarrow> Some (Inr True, c1))))"

definition load_component ::
  "('c, 'm, 'd) container_lib \<Rightarrow> string \<Rightarrow> string \<Rightarrow> u16 \<Rightarrow> string \<Rightarrow> (string \<times> param) list
   \<Rightarrow> (string \<times> string) list \<Rightarrow> string \<Rightarrow> ('m, 'd) container \<Rightarrow> (('m, 'd) container, bool) blocking" where
  "load_component lib package_name driver_name node_id node_name params remappings node_namespace c =
    (case component_classes lib package_name of
       Inl e \<Rightarrow> Some (Inl e, c)
     | Inr classes \<Rightarrow>
         (let ns = (if node_namespace = [] then ct_namespace c else node_namespace);
              req = \<lparr>cr_package = package_name, cr_class = driver_name,
                     cr_arguments = remap_rules node_name ns remappings, cr_params = params\<rparr>
          in load_class lib req node_id node_name classes c))"

subsection \<open>Configuration\<close>

text \<open>\<open>get_parameter(name, variable)\<close> returns whether there is such a parameter.\<close>

definition read_param ::
  "string \<Rightarrow> (string \<Rightarrow> ('m, 'd) container \<Rightarrow> ('m, 'd) container) \<Rightarrow> (('m, 'd) container \<Rightarrow> string)
   \<Rightarrow> ('m, 'd) container \<Rightarrow> (('m, 'd) container, unit) outcome" where
  "read_param name put get c =
    (if declared (ct_params c) name = None then container_throw ''Fatal: Getting Parameter failed.'' c
     else (Inr (), put (get_string (ct_params c) name (get c)) c))"

definition require_text :: "(('m, 'd) container \<Rightarrow> string) \<Rightarrow> ('m, 'd) container
   \<Rightarrow> (('m, 'd) container, unit) outcome" where
  "require_text get c =
    (if get c = [] then container_throw ''Fatal: Getting Parameter failed.'' c else (Inr (), c))"

definition load_bus :: "yaml_lib \<Rightarrow> ('m, 'd) container \<Rightarrow> (('m, 'd) container, unit) outcome" where
  "load_bus yl c =
    (case ConfigurationManager_new yl (bus_config c) of
       Inl e \<Rightarrow> (Inl e, c)
     | Inr m \<Rightarrow> (case init_config yl m of (r, m') \<Rightarrow> (r, c\<lparr>ct_config := m'\<rparr>)))"

definition container_configure ::
  "('c, 'm, 'd) container_lib \<Rightarrow> ('m, 'd) container \<Rightarrow> (('m, 'd) container, unit) outcome" where
  "container_configure lib c0 =
    bindE (read_param ''can_interface_name'' (\<lambda>s c. c\<lparr>can_if_name := s\<rparr>) can_if_name c0) (\<lambda>u c1.
    bindE (read_param ''master_config'' (\<lambda>s c. c\<lparr>dcf_txt := s\<rparr>) dcf_txt c1) (\<lambda>u c2.
    bindE (read_param ''master_bin'' (\<lambda>s c. c\<lparr>dcf_bin := s\<rparr>) dcf_bin c2) (\<lambda>u c3.
    bindE (read_param ''bus_config'' (\<lambda>s c. c\<lparr>bus_config := s\<rparr>) bus_config c3) (\<lambda>u c4.
    bindE (require_text can_if_name c4) (\<lambda>u c5.
    bindE (require_text dcf_txt c5) (\<lambda>u c6.
    bindE (require_text bus_config c6) (\<lambda>u c7.
      (case load_bus (yaml_ops (cl_client lib)) c7 of
         (Inr v, c8) \<Rightarrow> (Inr (), c8)
       | (Inl e, c8) \<Rightarrow>
           container_throw (''Fatal: Loading bus configuration '' @ bus_config c8 @ '' failed.'') c8))))))))"

subsection \<open>Loading the bus\<close>

record device_entry =
  de_node_id :: u16
  de_driver :: string
  de_package :: string
  de_namespace :: string
  de_remappings :: "(string \<times> string) list"

definition read_entry :: "config_manager \<Rightarrow> string \<Rightarrow> device_entry option" where
  "read_entry cfg name =
    (case (get_entry as_u16 cfg name ''node_id'', get_entry as_string cfg name ''driver'',
           get_entry as_string cfg name ''package'') of
       (Some nid, Some drv, Some pkg) \<Rightarrow>
         Some \<lparr>de_node_id = nid, de_driver = drv, de_package = pkg,
               de_namespace = or_default (get_entry as_string cfg name ''namespace'') [],
               de_remappings = or_default (get_entry as_strings cfg name ''remappings'') []\<rparr>
     | _ \<Rightarrow> None)"

definition master_params :: "('c, 'm, 'd) container_lib \<Rightarrow> ('m, 'd) container \<Rightarrow> string \<Rightarrow> device_entry
   \<Rightarrow> (string \<times> param) list" where
  "master_params lib c name e =
    [(''container_name'', P_string (ct_name c)), (''master_dcf'', P_string (dcf_txt c)),
     (''master_bin'', P_string (dcf_bin c)), (''can_interface_name'', P_string (can_if_name c)),
     (''node_id'', P_int (uint (de_node_id e))), (''non_transmit_timeout'', P_int 100),
     (''config'', P_string (dump_device (yaml_ops (cl_client lib)) (ct_config c) name))]"

definition driver_params :: "('c, 'm, 'd) container_lib \<Rightarrow> ('m, 'd) container \<Rightarrow> string \<Rightarrow> device_entry
   \<Rightarrow> (string \<times> param) list" where
  "driver_params lib c name e =
    [(''container_name'', P_string (ct_name c)), (''node_id'', P_int (uint (de_node_id e))),
     (''config'', P_string (dump_device (yaml_ops (cl_client lib)) (ct_config c) name)), (''non_transmit_timeout'', P_int 100)]"

text \<open>\<open>can_master_->init()\<close> and \<open>registered_drivers_[node_id]->init()\<close>. A null pointer is \<open>None\<close>. While a
  plain driver initialises itself it asks the container for the master, \<open>init_driver\<close> below.\<close>

definition init_master :: "('c, 'm, 'd) container_lib \<Rightarrow> ('m, 'd) container \<Rightarrow> (('m, 'd) container, unit) blocking" where
  "init_master lib c =
    (case can_master c of
       None \<Rightarrow> None
     | Some m \<Rightarrow>
         (case m_init lib m of
            None \<Rightarrow> None
          | Some (r, m') \<Rightarrow> Some (r, (add_node_to_executor (m_name lib m) c)\<lparr>can_master := Some m'\<rparr>)))"

definition init_registered ::
  "('c, 'm, 'd) container_lib \<Rightarrow> u16 \<Rightarrow> ('m, 'd) container \<Rightarrow> (('m, 'd) container, unit) blocking" where
  "init_registered lib nid c =
    (case map_of (registered_drivers c) nid of
       None \<Rightarrow> None
     | Some d \<Rightarrow>
         (case d_init lib d of
            None \<Rightarrow> None
          | Some (r, d') \<Rightarrow>
              Some (r, (add_node_to_executor (d_name lib d) c)\<lparr>registered_drivers := assign nid d' (registered_drivers c)\<rparr>)))"

fun master_loop ::
  "('c, 'm, 'd) container_lib \<Rightarrow> string list \<Rightarrow> bool \<Rightarrow> ('m, 'd) container \<Rightarrow> (('m, 'd) container, bool) blocking" where
  "master_loop lib [] master_found c = Some (Inr master_found, c)"
| "master_loop lib (name # names) master_found c =
    (if contains ''master'' name \<and> \<not> master_found
     then (case read_entry (ct_config c) name of
         None \<Rightarrow> Some (Inr False, c)
       | Some e \<Rightarrow>
           bindB (load_component lib (de_package e) (de_driver e) (de_node_id e) name (master_params lib c name e)
                    (de_remappings e) (de_namespace e) c) (\<lambda>loaded c1.
             if \<not> loaded then Some (Inr False, c1)
             else bindB (init_master lib c1) (\<lambda>u c2.
               let c3 = c2\<lparr>can_master_id := de_node_id e,
                           lifecycle_operation := (case can_master c2 of None \<Rightarrow> False | Some m \<Rightarrow> m_is_lifecycle lib m)\<rparr>
               in master_loop lib names True c3)))
     else master_loop lib names master_found c)"

definition load_master :: "('c, 'm, 'd) container_lib \<Rightarrow> ('m, 'd) container \<Rightarrow> (('m, 'd) container, bool) blocking" where
  "load_master lib c =
    (let names = get_all_devices (ct_config c) in
     if names = [] then Some (Inr False, c) else master_loop lib names False c)"

fun drivers_loop ::
  "('c, 'm, 'd) container_lib \<Rightarrow> string list \<Rightarrow> ('m, 'd) container \<Rightarrow> (('m, 'd) container, bool) blocking" where
  "drivers_loop lib [] c = Some (Inr True, c)"
| "drivers_loop lib (name # names) c =
    (if contains ''master'' name \<or> contains ''options'' name then drivers_loop lib names c
     else (case read_entry (ct_config c) name of
         None \<Rightarrow> Some (Inr False, c)
       | Some e \<Rightarrow>
           if de_node_id e = can_master_id c then Some (Inr False, c)
           else if map_of (registered_drivers c) (de_node_id e) \<noteq> None then Some (Inr False, c)
           else bindB (load_component lib (de_package e) (de_driver e) (de_node_id e) name (driver_params lib c name e)
                         (de_remappings e) (de_namespace e) c) (\<lambda>loaded c1.
             if \<not> loaded then Some (Inr False, c1)
             else bindB (init_registered lib (de_node_id e) c1) (\<lambda>u c2. drivers_loop lib names c2))))"

definition load_drivers :: "('c, 'm, 'd) container_lib \<Rightarrow> ('m, 'd) container \<Rightarrow> (('m, 'd) container, bool) blocking" where
  "load_drivers lib c =
    (let names = get_all_devices (ct_config c) in
     if names = [] then Some (Inr False, c) else drivers_loop lib names c)"

definition load_manager :: "('c, 'm, 'd) container_lib \<Rightarrow> ('m, 'd) container \<Rightarrow> (('m, 'd) container, bool) blocking" where
  "load_manager lib c =
    (if lifecycle_operation c
     then Some (Inr True, (add_node_to_executor (manager_name lib) c)\<lparr>has_manager := Some (ct_config c)\<rparr>)
     else Some (Inr True, c))"

definition required_load :: "string \<Rightarrow> (('m, 'd) container, bool) blocking \<Rightarrow> (('m, 'd) container, unit) blocking" where
  "required_load what p = bindB p (\<lambda>ok c. Some (if ok then (Inr (), c) else container_throw what c))"

definition load_all :: "('c, 'm, 'd) container_lib \<Rightarrow> ('m, 'd) container \<Rightarrow> (('m, 'd) container, unit) blocking" where
  "load_all lib c =
    bindB (required_load ''Fatal: Loading Master Failed.'' (load_master lib c)) (\<lambda>u c1.
    bindB (required_load ''Fatal: Loading Drivers Failed.'' (load_drivers lib c1)) (\<lambda>u c2.
      required_load ''Fatal: Loading Manager Failed.'' (load_manager lib c2)))"

definition container_init :: "('c, 'm, 'd) container_lib \<Rightarrow> ('m, 'd) container \<Rightarrow> (('m, 'd) container, unit) blocking" where
  "container_init lib c = bindB (Some (container_configure lib c)) (\<lambda>u c1. load_all lib c1)"

definition container_init_with ::
  "('c, 'm, 'd) container_lib \<Rightarrow> string \<Rightarrow> string \<Rightarrow> string \<Rightarrow> string \<Rightarrow> ('m, 'd) container
   \<Rightarrow> (('m, 'd) container, unit) blocking" where
  "container_init_with lib ifname master_config bus_cfg binary c =
    bindB (Some (load_bus (yaml_ops (cl_client lib))
      (c\<lparr>can_if_name := ifname, dcf_txt := master_config, dcf_bin := binary, bus_config := bus_cfg\<rparr>)))
      (\<lambda>u c1. load_all lib c1)"

subsection \<open>Services and queries\<close>

text \<open>\<open>init_driver\<close>, the service drivers ask for the master through.\<close>

definition init_driver :: "('c, 'm, 'd) container_lib \<Rightarrow> u16 \<Rightarrow> ('m, 'd) container \<Rightarrow> (('m, 'd) container, bool) blocking" where
  "init_driver lib nid c =
    (case (map_of (registered_drivers c) nid, can_master c) of
       (Some d, Some m) \<Rightarrow>
         (case m_pointers lib m of
            Inl e \<Rightarrow> Some (Inl e, c)
          | Inr h \<Rightarrow>
              (case d_set_master lib h d of
                 (r, d') \<Rightarrow> Some (map_sum id (\<lambda>u. True) r, c\<lparr>registered_drivers := assign nid d' (registered_drivers c)\<rparr>)))
     | _ \<Rightarrow> None)"

text \<open>\<open>shutdown\<close>, also run by the destructor. Exceptions are printed and dropped.\<close>

definition container_shutdown :: "('c, 'm, 'd) container_lib \<Rightarrow> ('m, 'd) container \<Rightarrow> ('m, 'd) container option" where
  "container_shutdown lib c =
    (let c1 = c\<lparr>registered_drivers := map (\<lambda>(nid, d). (nid, snd (d_shutdown lib d))) (registered_drivers c)\<rparr>
     in case can_master c1 of
          None \<Rightarrow> None
        | Some m \<Rightarrow> Some (c1\<lparr>can_master := Some (snd (m_shutdown lib m))\<rparr>))"

definition count_drivers :: "('m, 'd) container \<Rightarrow> nat" where
  "count_drivers c = length (registered_drivers c)"

fun ids_loop :: "config_manager \<Rightarrow> string \<Rightarrow> string list \<Rightarrow> exn + u16 list" where
  "ids_loop cfg type [] = Inr []"
| "ids_loop cfg type (name # names) =
    (if get_entry as_string cfg name ''driver'' = Some type
     then (case get_entry as_u16 cfg name ''node_id'' of
             None \<Rightarrow> Inl (Std_exception ''bad optional access'')
           | Some nid \<Rightarrow> map_sum id (\<lambda>ids. nid # ids) (ids_loop cfg type names))
     else ids_loop cfg type names)"

definition get_ids_of_drivers_with_type :: "string \<Rightarrow> ('m, 'd) container \<Rightarrow> exn + u16 list" where
  "get_ids_of_drivers_with_type type c = ids_loop (ct_config c) type (get_all_devices (ct_config c))"

text \<open>The loop of \<open>get_driver_type\<close> ends without a \<open>return\<close> when no device has the id: \<open>None\<close>.\<close>

fun type_loop :: "config_manager \<Rightarrow> u16 \<Rightarrow> string list \<Rightarrow> (exn + string) option" where
  "type_loop cfg nid [] = None"
| "type_loop cfg nid (name # names) =
    (if get_entry as_u16 cfg name ''node_id'' = Some nid
     then Some (case get_entry as_string cfg name ''driver'' of
                  None \<Rightarrow> Inl (Std_exception ''bad optional access'') | Some s \<Rightarrow> Inr s)
     else type_loop cfg nid names)"

definition get_driver_type :: "u16 \<Rightarrow> ('m, 'd) container \<Rightarrow> (exn + string) option" where
  "get_driver_type nid c =
    (let names = get_all_devices (ct_config c) in
     if names = [] then Some (Inr []) else type_loop (ct_config c) nid names)"

definition list_components :: "('c, 'm, 'd) container_lib \<Rightarrow> ('m, 'd) container \<Rightarrow> (u16 \<times> string) list option" where
  "list_components lib c =
    (case can_master c of
       None \<Rightarrow> None
     | Some m \<Rightarrow>
         if lifecycle_operation c \<and> has_manager c = None then None
         else (let l1 = assign (can_master_id c) (m_name lib m) [];
              l2 = (if lifecycle_operation c then assign 256 (manager_name lib) l1 else l1)
          in Some (fold (\<lambda>(nid, d) l. assign nid (d_name lib d) l) (registered_drivers c) l2)))"

definition on_list_nodes :: "('c, 'm, 'd) container_lib \<Rightarrow> ('m, 'd) container \<Rightarrow> (u64 list \<times> string list) option" where
  "on_list_nodes lib c =
    map_option (\<lambda>l. (map (ucast \<circ> fst) l, map snd l)) (list_components lib c)"

subsection \<open>What loading a component does\<close>

lemma bindB_Some:
  "bindB p k = Some (Inr b, s') \<longleftrightarrow> (\<exists>a s. p = Some (Inr a, s) \<and> k a s = Some (Inr b, s'))"
  by (auto simp: bindB_def split: option.splits prod.splits sum.splits)

lemma add_node_frame [simp]:
  "registered_drivers (add_node_to_executor n c) = registered_drivers c"
  "can_master (add_node_to_executor n c) = can_master c"
  "can_master_id (add_node_to_executor n c) = can_master_id c"
  "ct_config (add_node_to_executor n c) = ct_config c"
  "lifecycle_operation (add_node_to_executor n c) = lifecycle_operation c"
  "has_manager (add_node_to_executor n c) = has_manager c"
  by (simp_all add: add_node_to_executor_def)

lemma map_of_assign_same: "map_of (assign k v m) k = Some v"
  by (induction k v m rule: assign.induct) auto

lemma assign_assign [simp]: "assign k v (assign k w m) = assign k v m"
  by (induction k w m rule: assign.induct) auto

lemma load_class_loaded:
  assumes "load_class lib req nid name classes c = Some (Inr True, c')"
  obtains component where "create_instance lib req = Inr component"
    "register_component lib (cr_class req) nid name component c = Some (Inr (), c')"
  using assms
proof (induction classes)
  case (Cons cls classes)
  show ?case
  proof (cases "cls = cr_class req")
    case True
    with Cons.prems show ?thesis
      by (auto simp: container_throw_def split: sum.splits option.splits prod.splits)
  next
    case False
    with Cons show ?thesis by simp
  qed
qed simp

text \<open>A device called master becomes the master, any other a driver of the right kind.\<close>

lemma load_component_loaded:
  assumes "load_component lib pkg drv nid name params remaps ns c = Some (Inr True, c')"
  shows "if name = ''master'' then \<exists>m. c' = c\<lparr>can_master := Some m\<rparr>
    else \<exists>d. d_is_lifecycle lib d = lifecycle_operation c \<and>
             c' = c\<lparr>registered_drivers := assign nid d (registered_drivers c)\<rparr>"
proof -
  obtain classes req where "load_class lib req nid name classes c = Some (Inr True, c')"
    using assms by (auto simp: load_component_def Let_def split: sum.splits)
  then obtain component where
    "register_component lib (cr_class req) nid name component c = Some (Inr (), c')"
    by (rule load_class_loaded)
  then show ?thesis
    by (auto simp: register_component_def container_throw_def split: option.splits if_split_asm)
qed

text \<open>One device of \<open>load_drivers\<close>.\<close>

lemma load_driver_step:
  assumes "drivers_loop lib (name # names) c = Some (Inr True, c')"
    "\<not> (contains ''master'' name \<or> contains ''options'' name)"
  obtains e d0 d where "read_entry (ct_config c) name = Some e" "de_node_id e \<noteq> can_master_id c"
    "map_of (registered_drivers c) (de_node_id e) = None" "d_is_lifecycle lib d0 = lifecycle_operation c"
    "d_init lib d0 = Some (Inr (), d)"
    "drivers_loop lib names ((add_node_to_executor (d_name lib d0) c)\<lparr>registered_drivers :=
       assign (de_node_id e) d (registered_drivers c)\<rparr>) = Some (Inr True, c')"
proof -
  obtain e where e: "read_entry (ct_config c) name = Some e"
    using assms by (cases "read_entry (ct_config c) name") simp_all
  have free: "de_node_id e \<noteq> can_master_id c" "map_of (registered_drivers c) (de_node_id e) = None"
    using assms e by (auto split: if_split_asm)
  obtain c1 c2 where load: "load_component lib (de_package e) (de_driver e) (de_node_id e) name
        (driver_params lib c name e) (de_remappings e) (de_namespace e) c = Some (Inr True, c1)"
      and init: "init_registered lib (de_node_id e) c1 = Some (Inr (), c2)"
      and rest: "drivers_loop lib names c2 = Some (Inr True, c')"
    using assms e free by (auto simp: bindB_Some split: if_split_asm)
  have "name \<noteq> ''master''"
    using assms(2) by auto
  with load_component_loaded[OF load] obtain d0 where
    d0: "d_is_lifecycle lib d0 = lifecycle_operation c"
      "c1 = c\<lparr>registered_drivers := assign (de_node_id e) d0 (registered_drivers c)\<rparr>"
    by auto
  obtain d1 d where d: "map_of (registered_drivers c1) (de_node_id e) = Some d1" "d_init lib d1 = Some (Inr (), d)"
    "c2 = (add_node_to_executor (d_name lib d1) c1)\<lparr>registered_drivers := assign (de_node_id e) d (registered_drivers c1)\<rparr>"
    using init by (auto simp: init_registered_def split: option.splits)
  have "d1 = d0"
    using d(1) d0(2) by (simp add: map_of_assign_same)
  with d(3) d0(2) have "c2 = (add_node_to_executor (d_name lib d0) c)\<lparr>registered_drivers :=
      assign (de_node_id e) d (registered_drivers c)\<rparr>"
    by (cases "executor_there c") (simp_all add: add_node_to_executor_def)
  with d(2) d0(1) \<open>d1 = d0\<close> e free rest show thesis
    by (intro that[of e d0 d]) simp_all
qed

subsection \<open>What loading the drivers does\<close>

text \<open>The devices that get a driver, and their node ids.\<close>

definition driver_devices :: "string list \<Rightarrow> string list" where
  "driver_devices names = filter (\<lambda>name. \<not> (contains ''master'' name \<or> contains ''options'' name)) names"

definition entry_id :: "config_manager \<Rightarrow> string \<Rightarrow> u16" where
  "entry_id cfg name = (case read_entry cfg name of None \<Rightarrow> 0 | Some e \<Rightarrow> de_node_id e)"

definition same_bus :: "('m, 'd) container \<Rightarrow> ('m, 'd) container \<Rightarrow> bool" where
  "same_bus c c' \<longleftrightarrow> ct_config c' = ct_config c \<and> can_master c' = can_master c \<and>
     can_master_id c' = can_master_id c \<and> lifecycle_operation c' = lifecycle_operation c \<and>
     has_manager c' = has_manager c"

text \<open>A driver that \<open>init\<close> returned from, of the kind the container asked for.\<close>

definition started_driver :: "('c, 'm, 'd) container_lib \<Rightarrow> bool \<Rightarrow> 'd \<Rightarrow> bool" where
  "started_driver lib managed d \<longleftrightarrow>
    (\<exists>d0. d_init lib d0 = Some (Inr (), d) \<and> d_is_lifecycle lib d0 = managed)"

lemma drivers_loop_result:
  assumes "drivers_loop lib names c = Some (Inr True, c')" "ordered (registered_drivers c)"
  shows "ordered (registered_drivers c') \<and> same_bus c c' \<and>
    fst ` set (registered_drivers c') =
      fst ` set (registered_drivers c) \<union> entry_id (ct_config c) ` set (driver_devices names) \<and>
    distinct (map (entry_id (ct_config c)) (driver_devices names)) \<and>
    (\<forall>nid d. map_of (registered_drivers c) nid = Some d \<longrightarrow> map_of (registered_drivers c') nid = Some d) \<and>
    (\<forall>name \<in> set (driver_devices names).
       entry_id (ct_config c) name \<notin> insert (can_master_id c) (fst ` set (registered_drivers c)) \<and>
       (\<exists>d. map_of (registered_drivers c') (entry_id (ct_config c) name) = Some d \<and>
            started_driver lib (lifecycle_operation c) d))"
  using assms
proof (induction names arbitrary: c)
  case Nil
  then show ?case by (simp add: driver_devices_def same_bus_def)
next
  case (Cons name names)
  show ?case
  proof (cases "contains ''master'' name \<or> contains ''options'' name")
    case True
    then have "driver_devices (name # names) = driver_devices names"
      by (simp add: driver_devices_def)
    with Cons True show ?thesis by simp
  next
    case False
    obtain e d0 d where e: "read_entry (ct_config c) name = Some e" "de_node_id e \<noteq> can_master_id c"
      "map_of (registered_drivers c) (de_node_id e) = None" "d_is_lifecycle lib d0 = lifecycle_operation c"
      "d_init lib d0 = Some (Inr (), d)"
      "drivers_loop lib names ((add_node_to_executor (d_name lib d0) c)\<lparr>registered_drivers :=
         assign (de_node_id e) d (registered_drivers c)\<rparr>) = Some (Inr True, c')"
      by (rule load_driver_step[OF Cons.prems(1) False])
    let ?c1 = "(add_node_to_executor (d_name lib d0) c)\<lparr>registered_drivers :=
         assign (de_node_id e) d (registered_drivers c)\<rparr>"
    have id: "entry_id (ct_config c) name = de_node_id e"
      by (simp add: entry_id_def e(1))
    have new: "de_node_id e \<notin> fst ` set (registered_drivers c)"
      using e(3) by (simp add: map_of_eq_None_iff)
    have "ordered (registered_drivers ?c1)"
      using Cons.prems(2) by (simp add: ordered_assign)
    note IH = Cons.IH[OF e(6) this]
    have devices: "driver_devices (name # names) = name # driver_devices names"
      using False by (simp add: driver_devices_def)
    have "started_driver lib (lifecycle_operation c) d"
      using e(4,5) by (auto simp: started_driver_def)
    moreover have "map_of (registered_drivers c') (de_node_id e) = Some d"
      using IH by (simp add: map_of_assign_same)
    moreover have "map_of (registered_drivers c') nid = Some x"
      if "map_of (registered_drivers c) nid = Some x" for nid x
      using IH that e(3) Cons.prems(2) by (cases "nid = de_node_id e") (auto simp: map_of_assign)
    ultimately show ?thesis
      using IH id new e(2) Cons.prems(2)
      by (auto simp: devices same_bus_def map_of_assign)
  qed
qed

subsection \<open>What loading the master does\<close>

text \<open>A pointer to the master appears only when the device is called master, exactly.\<close>

lemma master_loop_found:
  "master_loop lib names True c = Some (Inr True, c)"
  by (induction names) simp_all

lemma master_loop_result:
  assumes "master_loop lib names False c = Some (Inr True, c')" "can_master c = None"
  obtains pre post e m0 m where "names = pre @ ''master'' # post" "\<forall>name \<in> set pre. \<not> contains ''master'' name"
    "read_entry (ct_config c) ''master'' = Some e" "m_init lib m0 = Some (Inr (), m)"
    "can_master c' = Some m" "can_master_id c' = de_node_id e" "lifecycle_operation c' = m_is_lifecycle lib m"
    "registered_drivers c' = registered_drivers c" "ct_config c' = ct_config c"
    "has_manager c' = has_manager c"
  using assms
proof (induction names arbitrary: thesis)
  case Nil
  then show ?case by simp
next
  case (Cons name names)
  show ?case
  proof (cases "contains ''master'' name")
    case False
    with Cons.prems(2) have "master_loop lib names False c = Some (Inr True, c')" by simp
    then show ?thesis
    proof (rule Cons.IH[rotated])
      fix pre post e m0 m
      assume "names = pre @ ''master'' # post" "\<forall>name \<in> set pre. \<not> contains ''master'' name"
        "read_entry (ct_config c) ''master'' = Some e" "m_init lib m0 = Some (Inr (), m)"
        "can_master c' = Some m" "can_master_id c' = de_node_id e" "lifecycle_operation c' = m_is_lifecycle lib m"
        "registered_drivers c' = registered_drivers c" "ct_config c' = ct_config c"
        "has_manager c' = has_manager c"
      with False show thesis
        by (intro Cons.prems(1)[of "name # pre" post e m0 m]) simp_all
    qed (rule Cons.prems(3))
  next
    case True
    obtain e where e: "read_entry (ct_config c) name = Some e"
      using Cons.prems(2) True by (cases "read_entry (ct_config c) name") simp_all
    obtain c1 c2 where load: "load_component lib (de_package e) (de_driver e) (de_node_id e) name
          (master_params lib c name e) (de_remappings e) (de_namespace e) c = Some (Inr True, c1)"
        and init: "init_master lib c1 = Some (Inr (), c2)"
        and rest: "master_loop lib names True (c2\<lparr>can_master_id := de_node_id e,
          lifecycle_operation := (case can_master c2 of None \<Rightarrow> False | Some m \<Rightarrow> m_is_lifecycle lib m)\<rparr>)
          = Some (Inr True, c')"
      using Cons.prems(2) True e by (auto simp: bindB_Some Let_def split: if_split_asm)
    have name: "name = ''master''"
    proof (rule ccontr)
      assume "name \<noteq> ''master''"
      with load_component_loaded[OF load] have "can_master c1 = can_master c" by auto
      with Cons.prems(3) init show False by (simp add: init_master_def)
    qed
    then obtain m0 where m0: "c1 = c\<lparr>can_master := Some m0\<rparr>"
      using load_component_loaded[OF load] by auto
    then obtain m where m: "m_init lib m0 = Some (Inr (), m)"
        "c2 = (add_node_to_executor (m_name lib m0) c1)\<lparr>can_master := Some m\<rparr>"
      using init by (auto simp: init_master_def split: option.splits)
    have "c' = c2\<lparr>can_master_id := de_node_id e, lifecycle_operation := m_is_lifecycle lib m\<rparr>"
      using rest m(2) by (simp add: master_loop_found)
    with m m0 name e show ?thesis
      by (intro Cons.prems(1)[of "[]" names e m0 m]) simp_all
  qed
qed

subsection \<open>Properties\<close>


text \<open>A container library whose components start: a master and drivers that count how often they did.\<close>

definition counting_lib :: "bool \<Rightarrow> (bool, nat, nat) container_lib" where
  "counting_lib managed =
    \<lparr>cl_client = table_lib empty_yaml, component_classes = (\<lambda>pkg. Inr [''Master'', ''Driver'']),
     create_factory = (\<lambda>pkg cls. Inr ()), create_instance = (\<lambda>req. Inr (cr_class req = ''Master'')),
     as_master = (\<lambda>b. if b then Some 0 else None), as_driver = (\<lambda>b. if b then None else Some 0),
     cl_what = (\<lambda>e. None), m_init = (\<lambda>m. Some (Inr (), m + 1)), m_shutdown = (\<lambda>m. (Inr (), m)),
     m_is_lifecycle = (\<lambda>m. managed), m_pointers = (\<lambda>m. Inr 0), m_name = (\<lambda>m. ''master''),
     d_init = (\<lambda>d. Some (Inr (), d + 1)), d_shutdown = (\<lambda>d. (Inr (), d)), d_is_lifecycle = (\<lambda>d. managed),
     d_set_master = (\<lambda>h d. (Inr (), d)), d_name = (\<lambda>d. ''driver''), manager_name = ''lifecycle_manager''\<rparr>"

definition plain_device :: "u16 \<Rightarrow> string \<Rightarrow> yaml" where
  "plain_device nid cls = empty_yaml\<lparr>as_u16 := [[''node_id''] \<mapsto> nid],
     as_string := [[''driver''] \<mapsto> cls, [''package''] \<mapsto> ''canopen'']\<rparr>"

definition two_devices :: config_manager where
  "two_devices = \<lparr>cm_file = [], cm_root = [],
     devices = [(''master'', plain_device 1 ''Master''), (''motor'', plain_device 2 ''Driver'')]\<rparr>"

definition empty_container :: "config_manager \<Rightarrow> (nat, nat) container" where
  "empty_container cfg =
    \<lparr>ct_name = ''/device_container'', ct_namespace = ''/'', ct_params = \<lparr>overrides = Map.empty, declared = Map.empty\<rparr>,
     registered_drivers = [], can_master = None, can_master_id = 0, has_manager = None, ct_config = cfg,
     dcf_txt = ''master.dcf'', bus_config = ''bus.yml'', dcf_bin = [], can_if_name = ''vcan0'',
     lifecycle_operation = False, executor_there = True, executor_nodes = []\<rparr>"

lemma two_devices_entries:
  "read_entry two_devices ''master'' = Some \<lparr>de_node_id = 1, de_driver = ''Master'', de_package = ''canopen'',
     de_namespace = [], de_remappings = []\<rparr>"
  "read_entry two_devices ''motor'' = Some \<lparr>de_node_id = 2, de_driver = ''Driver'', de_package = ''canopen'',
     de_namespace = [], de_remappings = []\<rparr>"
  by (simp_all add: read_entry_def get_entry_def two_devices_def plain_device_def empty_yaml_def)

lemma two_devices_names: "get_all_devices two_devices = [''master'', ''motor'']"
  by (simp add: get_all_devices_def two_devices_def)

lemma two_devices_kinds:
  "contains ''master'' ''master''" "\<not> contains ''master'' ''motor''" "\<not> contains ''options'' ''motor''"
  by simp_all

lemma two_devices_load:
  "\<exists>c'. load_all (counting_lib managed) (empty_container two_devices) = Some (Inr (), c')"
  by (simp add: load_all_def required_load_def load_master_def load_drivers_def load_manager_def bindB_def
      two_devices_names empty_container_def two_devices_entries two_devices_kinds load_component_def
      counting_lib_def register_component_def init_master_def init_registered_def add_node_to_executor_def Let_def
      del: contains.simps)


text \<open>When the configuration of a new container cannot be read, \<open>init\<close> throws, and the destructor then
  calls \<open>shutdown\<close>, which goes through a null pointer to the master.\<close>

theorem failed_configuration_crashes:
  assumes "DeviceContainer_new lib c = (Inr (), c0)" "fst (container_configure lib c0) = Inl e"
  shows "\<exists>c'. container_init lib c0 = Some (Inl e, c') \<and> container_shutdown lib c' = None"
proof -
  obtain c' where run: "container_configure lib c0 = (Inl e, c')"
    using assms(2) by (cases "container_configure lib c0") simp
  have "can_master c0 = None"
    using assms(1) by (auto simp: DeviceContainer_new_def split: prod.splits)
  then have "can_master (snd (container_configure lib c0)) = None"
    unfolding container_configure_def
    by (intro bindE_state[where P = "\<lambda>c. can_master c = None"])
      (auto simp: read_param_def require_text_def container_throw_def load_bus_def split: sum.splits prod.splits)
  with run show ?thesis
    by (simp add: container_init_def bindB_def container_shutdown_def)
qed

theorem failed_configuration_crashes_witness:
  "\<exists>c0 e c'. DeviceContainer_new (counting_lib False) (empty_container two_devices) = (Inr (), c0) \<and>
     container_init (counting_lib False) c0 = Some (Inl e, c') \<and> container_shutdown (counting_lib False) c' = None"
proof -
  let ?lib = "counting_lib False"
  have "\<exists>c0 e. DeviceContainer_new ?lib (empty_container two_devices) = (Inr (), c0) \<and>
      fst (container_configure ?lib c0) = Inl e"
    by (simp add: DeviceContainer_new_def container_defaults_def counting_lib_def table_lib_def empty_container_def Let_def)
      (simp add: container_configure_def read_param_def require_text_def container_throw_def get_string_def)
  then show ?thesis
    using failed_configuration_crashes by blast
qed

lemma ids_loop_mem:
  "ids_loop cfg type names = Inr ids \<Longrightarrow> nid \<in> set ids \<Longrightarrow>
   \<exists>name \<in> set names. get_entry as_string cfg name ''driver'' = Some type \<and> get_entry as_u16 cfg name ''node_id'' = Some nid"
proof (induction names arbitrary: ids)
  case (Cons name names)
  show ?case
  proof (cases "get_entry as_string cfg name ''driver'' = Some type")
    case True
    then obtain i rest where "get_entry as_u16 cfg name ''node_id'' = Some i" "ids_loop cfg type names = Inr rest"
        "ids = i # rest"
      using Cons.prems(1) by (auto split: option.splits) (cases "ids_loop cfg type names"; auto)
    with True Cons show ?thesis by auto
  next
    case False
    with Cons show ?thesis by auto
  qed
qed simp

lemma type_loop_found:
  assumes "name \<in> set names" "get_entry as_u16 cfg name ''node_id'' = Some nid"
    "\<And>a. a \<in> set names \<Longrightarrow> get_entry as_u16 cfg a ''node_id'' = Some nid \<Longrightarrow> a = name"
  shows "type_loop cfg nid names = Some (case get_entry as_string cfg name ''driver'' of
    None \<Rightarrow> Inl (Std_exception ''bad optional access'') | Some s \<Rightarrow> Inr s)"
  using assms
proof (induction names)
  case (Cons a names)
  show ?case
  proof (cases "get_entry as_u16 cfg a ''node_id'' = Some nid")
    case True
    then have "a = name" using Cons.prems(3) by simp
    with True show ?thesis by simp
  next
    case False
    then have "name \<in> set names" using Cons.prems(1,2) by auto
    from Cons.IH[OF this Cons.prems(2)] Cons.prems(3) False show ?thesis by simp
  qed
qed simp

lemma type_loop_missing:
  "(\<And>a. a \<in> set names \<Longrightarrow> get_entry as_u16 cfg a ''node_id'' \<noteq> Some nid) \<Longrightarrow> type_loop cfg nid names = None"
  by (induction names) auto

text \<open>On a bus without duplicate node ids the two queries agree: each id listed for a driver type has that
  type. For an id that no device has, \<open>get_driver_type\<close> runs off its end without returning a value.\<close>

theorem driver_type_roundtrip:
  assumes "get_ids_of_drivers_with_type type c = Inr ids"
    "\<And>a b. a \<in> set (get_all_devices (ct_config c)) \<Longrightarrow> b \<in> set (get_all_devices (ct_config c)) \<Longrightarrow>
       get_entry as_u16 (ct_config c) a ''node_id'' = Some nid \<Longrightarrow>
       get_entry as_u16 (ct_config c) b ''node_id'' = Some nid \<Longrightarrow> a = b"
  shows "(nid \<in> set ids \<longrightarrow> get_driver_type nid c = Some (Inr type)) \<and>
    (get_all_devices (ct_config c) \<noteq> [] \<and>
     (\<forall>a \<in> set (get_all_devices (ct_config c)). get_entry as_u16 (ct_config c) a ''node_id'' \<noteq> Some nid) \<longrightarrow>
     get_driver_type nid c = None)"
proof (intro conjI impI)
  assume "nid \<in> set ids"
  then obtain name where name: "name \<in> set (get_all_devices (ct_config c))"
    "get_entry as_string (ct_config c) name ''driver'' = Some type"
    "get_entry as_u16 (ct_config c) name ''node_id'' = Some nid"
    using ids_loop_mem assms(1) unfolding get_ids_of_drivers_with_type_def by blast
  from name(1) have "get_all_devices (ct_config c) \<noteq> []" by auto
  with type_loop_found[OF name(1,3) assms(2)[OF _ name(1) _ name(3)]] name(2)
  show "get_driver_type nid c = Some (Inr type)"
    by (simp add: get_driver_type_def)
next
  assume "get_all_devices (ct_config c) \<noteq> [] \<and>
     (\<forall>a \<in> set (get_all_devices (ct_config c)). get_entry as_u16 (ct_config c) a ''node_id'' \<noteq> Some nid)"
  then show "get_driver_type nid c = None"
    using type_loop_missing[of "get_all_devices (ct_config c)" "ct_config c" nid]
    by (simp add: get_driver_type_def)
qed

lemma two_devices_members:
  assumes "name \<in> set (get_all_devices (ct_config (empty_container two_devices)))"
  obtains "name = ''master''" | "name = ''motor''"
  using assms by (auto simp: empty_container_def two_devices_names)

theorem driver_type_roundtrip_witness:
  "get_driver_type 2 (empty_container two_devices) = Some (Inr ''Driver'') \<and>
   get_driver_type 3 (empty_container two_devices) = None"
proof -
  let ?c = "empty_container two_devices"
  have entries: "get_entry as_u16 two_devices ''master'' ''node_id'' = Some 1"
    "get_entry as_u16 two_devices ''motor'' ''node_id'' = Some 2"
    "get_entry as_string two_devices ''master'' ''driver'' = Some ''Master''"
    "get_entry as_string two_devices ''motor'' ''driver'' = Some ''Driver''"
    by (simp_all add: get_entry_def two_devices_def plain_device_def)
  have ids: "get_ids_of_drivers_with_type ''Driver'' ?c = Inr [2]"
    by (simp add: get_ids_of_drivers_with_type_def empty_container_def two_devices_names entries)
  have cfg: "ct_config ?c = two_devices"
    by (simp add: empty_container_def)
  have unique: "a = b" if "a \<in> set (get_all_devices (ct_config ?c))" "b \<in> set (get_all_devices (ct_config ?c))"
    "get_entry as_u16 (ct_config ?c) a ''node_id'' = Some nid" "get_entry as_u16 (ct_config ?c) b ''node_id'' = Some nid"
    for a b nid
    using that by (elim two_devices_members) (simp_all add: cfg entries)
  have "get_driver_type 2 ?c = Some (Inr ''Driver'')"
    using driver_type_roundtrip[OF ids unique, THEN conjunct1, rule_format, of 2] by simp
  moreover have "get_driver_type 3 ?c = None"
    by (rule driver_type_roundtrip[OF ids unique, THEN conjunct2, rule_format])
      (simp_all add: cfg two_devices_names entries)
  ultimately show ?thesis by simp
qed

end
