(* ===== verification/Driver402.thy ===== *)
theory Driver402
  imports ProxyDriver MotorBridge
begin

text \<open>
  The CiA 402 driver (\<open>canopen_402_driver\<close>, \<open>node_canopen_402_driver.hpp\<close> and its implementation): a
  proxy driver with one motor per channel of the device. It offers services for every channel,
  scales targets and actual values, and publishes the joint states. The motors share the bridge of
  the driver and its diagnostics.
\<close>

subsection \<open>State\<close>

record scales =
  scale_pos_to_dev :: double
  scale_pos_from_dev :: double
  scale_vel_to_dev :: double
  scale_vel_from_dev :: double
  scale_eff_from_dev :: double
  offset_pos_to_dev :: double
  offset_pos_from_dev :: double

definition default_scales :: scales where
  "default_scales = \<lparr>scale_pos_to_dev = Fin 1000, scale_pos_from_dev = Fin (1 / 1000), scale_vel_to_dev = Fin 1000,
     scale_vel_from_dev = Fin (1 / 1000), scale_eff_from_dev = Fin (1 / 1000), offset_pos_to_dev = Fin 0,
     offset_pos_from_dev = Fin 0\<rparr>"

text \<open>The services of a channel.\<close>

datatype motor_service =
    S_init
  | S_enable
  | S_disable
  | S_halt
  | S_recover
  | S_position_mode
  | S_velocity_mode
  | S_torque_mode
  | S_cyclic_velocity_mode
  | S_cyclic_position_mode
  | S_cyclic_torque_mode
  | S_interpolated_position_mode
  | S_target

record 'w channel_ctx =
  ch_motor :: "'w motor option"
  ch_scales :: scales

record joint_state =
  js_name :: "string list"
  js_position :: "double list"
  js_velocity :: "double list"
  js_effort :: "double list"

text \<open>\<open>motor_bridge\<close> is the bridge the motors keep alive when the driver has dropped its pointer.
  \<open>offered\<close> are the services by name, each with its channel.\<close>

record ('w, 'e) driver402 =
  channels :: "'w channel_ctx list"
  num_channels :: u8
  channel_names :: "string list"
  joint_topic :: "joint_state list"
  joint_publisher :: bool
  global_scales :: scales
  switching :: InternalState
  homing_timeout :: int
  offered :: "(string \<times> u8 \<times> motor_service) list"
  motor_bridge :: "'w option"
  d402_rest :: 'e

type_synonym ('d, 'n, 'e) d402_node = "('d, 'n, (('d, 'n) bridge, 'e) driver402) proxy_node"

definition x402 :: "('d, 'n, 'e) d402_node \<Rightarrow> (('d, 'n) bridge, 'e) driver402" where
  "x402 d = proxy_rest (ext (derived d))"

definition upd402 ::
  "((('d, 'n) bridge, 'e) driver402 \<Rightarrow> (('d, 'n) bridge, 'e) driver402) \<Rightarrow> ('d, 'n, 'e) d402_node \<Rightarrow> ('d, 'n, 'e) d402_node" where
  "upd402 f d = upd_proxy (\<lambda>p. p\<lparr>proxy_rest := f (proxy_rest p)\<rparr>) d"

subsection \<open>Configuration\<close>

definition d402_init :: "('d, 'n, 'e) d402_node \<Rightarrow> (('d, 'n, 'e) d402_node, unit) outcome" where
  "d402_init d = bindE (proxy_init d) (\<lambda>u d1. (Inr (), upd402 (\<lambda>x. x\<lparr>joint_publisher := True\<rparr>) d1))"

definition read_scales :: "yaml \<Rightarrow> string list \<Rightarrow> scales \<Rightarrow> scales" where
  "read_scales doc path s =
    (let get = (\<lambda>key dflt. or_default (as_double doc (path @ [key])) dflt) in
     \<lparr>scale_pos_to_dev = get ''scale_pos_to_dev'' (scale_pos_to_dev s),
      scale_pos_from_dev = get ''scale_pos_from_dev'' (scale_pos_from_dev s),
      scale_vel_to_dev = get ''scale_vel_to_dev'' (scale_vel_to_dev s),
      scale_vel_from_dev = get ''scale_vel_from_dev'' (scale_vel_from_dev s),
      scale_eff_from_dev = get ''scale_eff_from_dev'' (scale_eff_from_dev s),
      offset_pos_to_dev = get ''offset_pos_to_dev'' (offset_pos_to_dev s),
      offset_pos_from_dev = get ''offset_pos_from_dev'' (offset_pos_from_dev s)\<rparr>)"

text \<open>The names of the channels, up to the first entry that is not a string.\<close>

fun read_names :: "yaml \<Rightarrow> nat list \<Rightarrow> string list" where
  "read_names doc [] = []"
| "read_names doc (i # is) =
    (case as_string doc [''channel_names'', show_nat i] of
       None \<Rightarrow> [] | Some s \<Rightarrow> s # read_names doc is)"

definition default_names :: "string \<Rightarrow> nat \<Rightarrow> string list" where
  "default_names node n = map (\<lambda>i. node @ ''/'' @ show_nat i) [0..<n]"

definition seq_length :: "yaml \<Rightarrow> string list \<Rightarrow> nat" where
  "seq_length doc path = (case seq_size doc path of None \<Rightarrow> 0 | Some n \<Rightarrow> n)"

definition configured_names :: "yaml \<Rightarrow> string \<Rightarrow> nat \<Rightarrow> string list" where
  "configured_names doc node n =
    (let names = read_names doc [0..<seq_length doc [''channel_names'']] in
     if names = [] then default_names node n else names)"

definition configured_channels :: "yaml \<Rightarrow> scales \<Rightarrow> nat \<Rightarrow> 'w channel_ctx list" where
  "configured_channels doc s n =
    map (\<lambda>i. \<lparr>ch_motor = None,
       ch_scales = (if i < seq_length doc [''channels''] then read_scales doc [''channels'', show_nat i] s else s)\<rparr>) [0..<n]"

text \<open>\<open>create_per_channel_services\<close>. A driver with one channel keeps the old names.\<close>

definition service_list :: "(string \<times> motor_service) list" where
  "service_list =
    [(''init'', S_init), (''enable'', S_enable), (''disable'', S_disable), (''halt'', S_halt), (''recover'', S_recover),
     (''position_mode'', S_position_mode), (''velocity_mode'', S_velocity_mode), (''torque_mode'', S_torque_mode),
     (''cyclic_velocity_mode'', S_cyclic_velocity_mode), (''cyclic_position_mode'', S_cyclic_position_mode),
     (''cyclic_torque_mode'', S_cyclic_torque_mode),
     (''interpolated_position_mode'', S_interpolated_position_mode), (''target'', S_target)]"

definition service_prefix :: "string \<Rightarrow> nat \<Rightarrow> string list \<Rightarrow> nat \<Rightarrow> string" where
  "service_prefix node n names ch =
    (if n = 1 then node @ ''/''
     else if ch < length names then names ! ch @ ''/''
     else ''ch'' @ show_nat ch @ ''/'')"

definition channel_services :: "string \<Rightarrow> nat \<Rightarrow> string list \<Rightarrow> (string \<times> u8 \<times> motor_service) list" where
  "channel_services node n names =
    concat (map (\<lambda>ch. map (\<lambda>(name, s). (service_prefix node n names ch @ name, word_of_nat ch, s)) service_list) [0..<n])"

definition configure_common ::
  "yaml \<Rightarrow> string \<Rightarrow> ('w, 'e) driver402 \<Rightarrow> ('w, 'e) driver402" where
  "configure_common doc node x =
    (let s = read_scales doc [] default_scales;
         n = or_default (as_u8 doc [''num_channels'']) 1;
         names = configured_names doc node (unat n)
     in x\<lparr>global_scales := s,
          switching := state_of_number (nat (or_default (as_int doc [''switching_state'']) 5)),
          homing_timeout := or_default (as_int doc [''homing_timeout_seconds'']) 10,
          num_channels := n, channel_names := names,
          channels := configured_channels doc s (unat n),
          offered := channel_services node (unat n) names\<rparr>)"

definition d402_configure :: "('d, 'n, 'e) d402_node \<Rightarrow> (('d, 'n, 'e) d402_node, unit) outcome" where
  "d402_configure d =
    bindE (base_configure d) (\<lambda>u d1. (Inr (), upd402 (configure_common (dn_config d1) (dn_name d1)) d1))"

subsection \<open>Life cycle\<close>

text \<open>\<open>add_to_master\<close> makes the motors on the new bridge. \<open>raw\<close> is the memory of a motor before its
  constructor.\<close>

definition make_motors ::
  "('w \<Rightarrow> 'w motor) \<Rightarrow> 'w \<Rightarrow> ('w, 'e) driver402 \<Rightarrow> ('w, 'e) driver402" where
  "make_motors raw b x =
    (let cs = take (unat (num_channels x)) (channels x) @
              replicate (unat (num_channels x) - length (channels x)) \<lparr>ch_motor = None, ch_scales = default_scales\<rparr>
     in x\<lparr>motor_bridge := Some b,
          channels := map (\<lambda>(ch, c). c\<lparr>ch_motor := Some (Motor402_new (raw b) b (switching x) (homing_timeout x) (word_of_nat ch))\<rparr>)
            (enumerate 0 cs)\<rparr>)"

definition d402_add_to_master ::
  "'d dict_ops \<Rightarrow> 'n network \<Rightarrow> ('d, 'n, (('d, 'n) bridge, 'e) driver402 proxy) base_env
   \<Rightarrow> (('d, 'n) bridge \<Rightarrow> ('d, 'n) bridge motor) \<Rightarrow> ('d, 'n, 'e) d402_node
   \<Rightarrow> (('d, 'n, 'e) d402_node, unit) outcome" where
  "d402_add_to_master dops nops env raw d =
    bindE (base_add_to_master dops nops env d) (\<lambda>u d1.
      case lely_driver (derived d1) of
        None \<Rightarrow> (Inr (), d1)
      | Some b \<Rightarrow> (Inr (), upd402 (make_motors raw b) d1))"

text \<open>The bridge the motors work on, and an operation of one motor on it and on the diagnostics.\<close>

definition shared_bridge :: "('d, 'n, 'e) d402_node \<Rightarrow> ('d, 'n) bridge option" where
  "shared_bridge d =
    (case lely_driver (derived d) of Some b \<Rightarrow> Some b | None \<Rightarrow> motor_bridge (x402 d))"

definition put_bridge :: "('d, 'n) bridge \<Rightarrow> ('d, 'n, 'e) d402_node \<Rightarrow> ('d, 'n, 'e) d402_node" where
  "put_bridge b d =
    (case lely_driver (derived d) of
       Some b' \<Rightarrow> set_bridge b d
     | None \<Rightarrow> upd402 (\<lambda>x. x\<lparr>motor_bridge := Some b\<rparr>) d)"

definition put_motor :: "nat \<Rightarrow> ('d, 'n) bridge motor \<Rightarrow> ('d, 'n, 'e) d402_node \<Rightarrow> ('d, 'n, 'e) d402_node" where
  "put_motor ch m d =
    put_bridge (driver m)
      (upd (\<lambda>x. x\<lparr>collector := diag_collector m\<rparr>)
        (upd402 (\<lambda>x. x\<lparr>channels := (channels x)[ch := (channels x ! ch)\<lparr>ch_motor := Some m\<rparr>]\<rparr>) d))"

definition on_motor ::
  "nat \<Rightarrow> (('d, 'n) bridge motor \<Rightarrow> 'a \<times> ('d, 'n) bridge motor) \<Rightarrow> ('d, 'n, 'e) d402_node
   \<Rightarrow> 'a option \<times> ('d, 'n, 'e) d402_node" where
  "on_motor ch f d =
    (if ch < length (channels (x402 d))
     then (case (ch_motor (channels (x402 d) ! ch), shared_bridge d) of
             (Some m, Some b) \<Rightarrow>
               (case f (m\<lparr>driver := b, diag_collector := collector (derived d)\<rparr>) of
                  (a, m') \<Rightarrow> (Some a, put_motor ch m' d))
           | _ \<Rightarrow> (None, d))
     else (None, d))"

fun on_motors ::
  "(('d, 'n) bridge motor \<Rightarrow> ('d, 'n) bridge motor) \<Rightarrow> nat list \<Rightarrow> ('d, 'n, 'e) d402_node \<Rightarrow> ('d, 'n, 'e) d402_node" where
  "on_motors f [] d = d"
| "on_motors f (ch # chs) d = on_motors f chs (snd (on_motor ch (\<lambda>m. ((), f m)) d))"

definition all_channels :: "('d, 'n, 'e) d402_node \<Rightarrow> nat list" where
  "all_channels d = [0..<length (channels (x402 d))]"

text \<open>\<open>activate\<close> registers the modes. \<open>ui\<close> is what memory holds where a mode does not initialise it.\<close>

definition d402_activate ::
  "('d, 'n, (('d, 'n) bridge, 'e) driver402 proxy) base_env \<Rightarrow> (u16 \<Rightarrow> uninit) \<Rightarrow> ('d, 'n, 'e) d402_node
   \<Rightarrow> (('d, 'n, 'e) d402_node, unit) outcome" where
  "d402_activate env ui d =
    bindE (base_activate env d) (\<lambda>u d1.
      (Inr (), on_motors (\<lambda>m. set_diagnostic_status_msgs (collector (derived d1)) (diagnostic_enabled (derived d1))
                                (registerDefaultModes ui m)) (all_channels d1) d1))"

text \<open>\<open>deactivate\<close> lets the executor drop the motors; \<open>drained\<close>: it gets to it.\<close>

definition drop_motors :: "('w, 'e) driver402 \<Rightarrow> ('w, 'e) driver402" where
  "drop_motors x = x\<lparr>channels := map (\<lambda>c. c\<lparr>ch_motor := None\<rparr>) (channels x), motor_bridge := None\<rparr>"

definition d402_deactivate :: "bool \<Rightarrow> ('d, 'n, 'e) d402_node \<Rightarrow> (('d, 'n, 'e) d402_node, unit) outcome" where
  "d402_deactivate drained d =
    bindE (base_deactivate d) (\<lambda>u d1. (Inr (), if drained then upd402 drop_motors d1 else d1))"

text \<open>Dropping the bridge leaves it to the motors.\<close>

definition d402_remove_from_master ::
  "('d, 'n, (('d, 'n) bridge, 'e) driver402 proxy) base_env \<Rightarrow> ('d, 'n, 'e) d402_node
   \<Rightarrow> (('d, 'n, 'e) d402_node, unit) outcome" where
  "d402_remove_from_master env d =
    base_remove_from_master env (upd402 (\<lambda>x. x\<lparr>motor_bridge := shared_bridge d\<rparr>) d)"

definition d402_hooks ::
  "'d dict_ops \<Rightarrow> 'n network \<Rightarrow> ('d, 'n, (('d, 'n) bridge, 'e) driver402 proxy) base_env
   \<Rightarrow> (('d, 'n) bridge \<Rightarrow> ('d, 'n) bridge motor) \<Rightarrow> (u16 \<Rightarrow> uninit) \<Rightarrow> bool
   \<Rightarrow> ('d, 'n, (('d, 'n) bridge, 'e) driver402 proxy) base_driver driver_hooks" where
  "d402_hooks dops nops env raw ui drained =
    (base_hooks dops nops env)\<lparr>h_init := d402_init, h_configure := d402_configure, h_activate := d402_activate env ui,
       h_deactivate := d402_deactivate drained, add_to_master := d402_add_to_master dops nops env raw,
       remove_from_master := d402_remove_from_master env\<rparr>"

subsection \<open>Services of a channel\<close>

text \<open>What the services that need a motor have in common: an inactive node, a channel that is not there
  and a channel without a motor answer no.\<close>

definition channel_call ::
  "u8 \<Rightarrow> (('d, 'n) bridge motor \<Rightarrow> (exn + bool) \<times> ('d, 'n) bridge motor) \<Rightarrow> ('d, 'n, 'e) d402_node
   \<Rightarrow> (('d, 'n, 'e) d402_node, bool) outcome" where
  "channel_call ch f d =
    (if activated d
     then (case on_motor (unat ch) f d of
             (None, d1) \<Rightarrow> (Inr False, d1)
           | (Some r, d1) \<Rightarrow> (r, d1))
     else (Inr False, d))"

text \<open>An operation of a motor that waits, with the script of its waits.\<close>

definition waiting ::
  "('w motor_io \<Rightarrow> ('a \<times> 'w motor_io)) \<Rightarrow> 'w motor wakeups \<Rightarrow> 'w motor \<Rightarrow> 'a \<times> 'w motor" where
  "waiting f ws m = (case f (m, ws) of (r, m', ws') \<Rightarrow> (r, m'))"

definition init_motor ::
  "('d, 'n) bridge bus \<Rightarrow> u8 \<Rightarrow> ('d, 'n) bridge motor wakeups \<Rightarrow> ('d, 'n, 'e) d402_node
   \<Rightarrow> (('d, 'n, 'e) d402_node, bool) outcome" where
  "init_motor bus ch ws d = channel_call ch (waiting (handleInit bus) ws) d"

definition recover_motor ::
  "u8 \<Rightarrow> ('d, 'n) bridge motor wakeups \<Rightarrow> ('d, 'n, 'e) d402_node \<Rightarrow> (('d, 'n, 'e) d402_node, bool) outcome" where
  "recover_motor ch ws d = channel_call ch (map_prod Inr id \<circ> waiting handleRecover ws) d"

definition halt_motor :: "u8 \<Rightarrow> ('d, 'n, 'e) d402_node \<Rightarrow> (('d, 'n, 'e) d402_node, bool) outcome" where
  "halt_motor ch d = channel_call ch (map_prod Inr id \<circ> handleHalt) d"

definition handle_enable ::
  "('d, 'n) bridge bus \<Rightarrow> u8 \<Rightarrow> ('d, 'n) bridge motor wakeups \<Rightarrow> ('d, 'n, 'e) d402_node
   \<Rightarrow> (('d, 'n, 'e) d402_node, bool) outcome" where
  "handle_enable bus ch ws d = channel_call ch (map_prod Inr id \<circ> waiting (handleEnable bus) ws) d"

definition handle_disable ::
  "('d, 'n) bridge bus \<Rightarrow> u8 \<Rightarrow> ('d, 'n) bridge motor wakeups \<Rightarrow> ('d, 'n, 'e) d402_node
   \<Rightarrow> (('d, 'n, 'e) d402_node, bool) outcome" where
  "handle_disable bus ch ws d = channel_call ch (map_prod Inr id \<circ> waiting (handleDisable bus) ws) d"

definition set_operation_mode ::
  "('d, 'n) bridge bus \<Rightarrow> u16 \<Rightarrow> u8 \<Rightarrow> ('d, 'n) bridge motor wakeups \<Rightarrow> ('d, 'n, 'e) d402_node
   \<Rightarrow> (('d, 'n, 'e) d402_node, bool) outcome" where
  "set_operation_mode bus mode ch ws d =
    channel_call ch (\<lambda>m. if getMode m \<noteq> mode then waiting (enterModeAndWait bus mode) ws m else (Inr False, m)) d"

text \<open>Targets are scaled by the kind of the mode.\<close>

definition scaled_target :: "scales \<Rightarrow> u16 \<Rightarrow> double \<Rightarrow> double" where
  "scaled_target s mode tgt =
    (if mode = Profiled_Position \<or> mode = Cyclic_Synchronous_Position \<or> mode = Interpolated_Position
     then d_add (d_mul tgt (scale_pos_to_dev s)) (offset_pos_to_dev s)
     else if mode = Velocity \<or> mode = Profiled_Velocity \<or> mode = Cyclic_Synchronous_Velocity
     then d_mul tgt (scale_vel_to_dev s)
     else tgt)"

definition channel_scales :: "u8 \<Rightarrow> ('d, 'n, 'e) d402_node \<Rightarrow> scales" where
  "channel_scales ch d = ch_scales (channels (x402 d) ! unat ch)"

definition set_target ::
  "numeric_cast \<Rightarrow> double \<Rightarrow> u8 \<Rightarrow> ('d, 'n, 'e) d402_node \<Rightarrow> (('d, 'n, 'e) d402_node, bool) outcome" where
  "set_target nc tgt ch d =
    channel_call ch (\<lambda>m. map_prod Inr id (setTarget nc (scaled_target (channel_scales ch d) (getMode m) tgt) m)) d"

text \<open>The service callbacks. \<open>tgt\<close> is the field \<open>target\<close> of the request of \<open>S_target\<close>.\<close>

fun service_call ::
  "('d, 'n) bridge bus \<Rightarrow> numeric_cast \<Rightarrow> motor_service \<Rightarrow> double \<Rightarrow> u8 \<Rightarrow> ('d, 'n) bridge motor wakeups
   \<Rightarrow> ('d, 'n, 'e) d402_node \<Rightarrow> (('d, 'n, 'e) d402_node, bool) outcome" where
  "service_call bus nc S_init tgt ch ws d = init_motor bus ch ws d"
| "service_call bus nc S_enable tgt ch ws d = handle_enable bus ch ws d"
| "service_call bus nc S_disable tgt ch ws d = handle_disable bus ch ws d"
| "service_call bus nc S_halt tgt ch ws d = halt_motor ch d"
| "service_call bus nc S_recover tgt ch ws d = recover_motor ch ws d"
| "service_call bus nc S_position_mode tgt ch ws d = set_operation_mode bus Profiled_Position ch ws d"
| "service_call bus nc S_velocity_mode tgt ch ws d = set_operation_mode bus Profiled_Velocity ch ws d"
| "service_call bus nc S_torque_mode tgt ch ws d = set_operation_mode bus Profiled_Torque ch ws d"
| "service_call bus nc S_cyclic_velocity_mode tgt ch ws d = set_operation_mode bus Cyclic_Synchronous_Velocity ch ws d"
| "service_call bus nc S_cyclic_position_mode tgt ch ws d = set_operation_mode bus Cyclic_Synchronous_Position ch ws d"
| "service_call bus nc S_cyclic_torque_mode tgt ch ws d = set_operation_mode bus Cyclic_Synchronous_Torque ch ws d"
| "service_call bus nc S_interpolated_position_mode tgt ch ws d = set_operation_mode bus Interpolated_Position ch ws d"
| "service_call bus nc S_target tgt ch ws d = set_target nc tgt ch d"

text \<open>A call by name reaches the first service of that name.\<close>

definition ros_call ::
  "('d, 'n) bridge bus \<Rightarrow> numeric_cast \<Rightarrow> string \<Rightarrow> double \<Rightarrow> ('d, 'n) bridge motor wakeups
   \<Rightarrow> ('d, 'n, 'e) d402_node \<Rightarrow> (('d, 'n, 'e) d402_node, bool) outcome option" where
  "ros_call bus nc name tgt ws d =
    (case map_of (offered (x402 d)) name of
       None \<Rightarrow> None
     | Some (ch, s) \<Rightarrow> Some (service_call bus nc s tgt ch ws d))"

subsection \<open>Actual values\<close>

definition value_or_zero ::
  "u8 \<Rightarrow> (('d, 'n) bridge motor \<Rightarrow> double \<times> ('d, 'n) bridge motor) \<Rightarrow> (double \<Rightarrow> double) \<Rightarrow> ('d, 'n, 'e) d402_node
   \<Rightarrow> double \<times> ('d, 'n, 'e) d402_node" where
  "value_or_zero ch get f d =
    (case on_motor (unat ch) get d of (None, d1) \<Rightarrow> (Fin 0, d1) | (Some v, d1) \<Rightarrow> (f v, d1))"

definition node_effort :: "('d, 'n) bridge bus \<Rightarrow> u8 \<Rightarrow> ('d, 'n, 'e) d402_node \<Rightarrow> double \<times> ('d, 'n, 'e) d402_node" where
  "node_effort bus ch d = value_or_zero ch (get_effort bus) (\<lambda>v. d_mul v (scale_eff_from_dev (channel_scales ch d))) d"

definition node_speed :: "('d, 'n) bridge bus \<Rightarrow> u8 \<Rightarrow> ('d, 'n, 'e) d402_node \<Rightarrow> double \<times> ('d, 'n, 'e) d402_node" where
  "node_speed bus ch d = value_or_zero ch (get_speed bus) (\<lambda>v. d_mul v (scale_vel_from_dev (channel_scales ch d))) d"

definition node_position :: "('d, 'n) bridge bus \<Rightarrow> u8 \<Rightarrow> ('d, 'n, 'e) d402_node \<Rightarrow> double \<times> ('d, 'n, 'e) d402_node" where
  "node_position bus ch d =
    value_or_zero ch (get_position bus)
      (\<lambda>v. d_add (d_mul v (scale_pos_from_dev (channel_scales ch d))) (offset_pos_from_dev (channel_scales ch d))) d"

definition node_mode :: "u8 \<Rightarrow> ('d, 'n, 'e) d402_node \<Rightarrow> u16" where
  "node_mode ch d =
    (if unat ch < length (channels (x402 d))
     then (case ch_motor (channels (x402 d) ! unat ch) of None \<Rightarrow> 0 | Some m \<Rightarrow> getMode m)
     else 0)"

text \<open>\<open>publish\<close>: one entry for every channel.\<close>

definition joint_name :: "('d, 'n, 'e) d402_node \<Rightarrow> nat \<Rightarrow> string" where
  "joint_name d ch =
    (if num_channels (x402 d) = 1 then dn_name d
     else if ch < length (channel_names (x402 d)) then channel_names (x402 d) ! ch
     else dn_name d @ ''/ch'' @ show_nat ch)"

fun joint_loop ::
  "('d, 'n) bridge bus \<Rightarrow> nat list \<Rightarrow> joint_state \<Rightarrow> ('d, 'n, 'e) d402_node \<Rightarrow> joint_state \<times> ('d, 'n, 'e) d402_node" where
  "joint_loop bus [] js d = (js, d)"
| "joint_loop bus (ch # chs) js d =
    (let (p, d1) = node_position bus (word_of_nat ch) d;
         (v, d2) = node_speed bus (word_of_nat ch) d1;
         (e, d3) = node_effort bus (word_of_nat ch) d2
     in joint_loop bus chs
          (js\<lparr>js_name := js_name js @ [joint_name d ch], js_position := js_position js @ [p],
              js_velocity := js_velocity js @ [v], js_effort := js_effort js @ [e]\<rparr>) d3)"

definition publish_joints :: "('d, 'n) bridge bus \<Rightarrow> ('d, 'n, 'e) d402_node \<Rightarrow> ('d, 'n, 'e) d402_node" where
  "publish_joints bus d =
    (case joint_loop bus (all_channels d) \<lparr>js_name = [], js_position = [], js_velocity = [], js_effort = []\<rparr> d of
       (js, d1) \<Rightarrow> upd402 (\<lambda>x. x\<lparr>joint_topic := joint_topic x @ [js]\<rparr>) d1)"

text \<open>\<open>poll_timer_callback\<close>: an exception of \<open>handleWrite\<close> leaves it.\<close>

fun motor_round ::
  "('d, 'n) bridge bus \<Rightarrow> nat list \<Rightarrow> ('d, 'n, 'e) d402_node \<Rightarrow> (('d, 'n, 'e) d402_node, unit) outcome" where
  "motor_round bus [] d = (Inr (), d)"
| "motor_round bus (ch # chs) d =
    (case on_motor ch (\<lambda>m. handleWrite bus (handleRead bus m)) d of
       (Some (Inl e), d1) \<Rightarrow> (Inl e, d1)
     | (r, d1) \<Rightarrow> motor_round bus chs d1)"

definition d402_virtuals :: "('d, 'n, (('d, 'n) bridge, 'e) driver402 proxy) base_driver virtuals" where
  "d402_virtuals = proxy_virtuals"

definition d402_poll ::
  "('d, 'n) bridge bus \<Rightarrow> ('d, 'n, 'e) d402_node \<Rightarrow> (('d, 'n, 'e) d402_node, unit) outcome option" where
  "d402_poll bus d =
    (case poll_timer_callback d402_virtuals d of
       None \<Rightarrow> None
     | Some d1 \<Rightarrow> Some (bindE (motor_round bus (all_channels d1) d1) (\<lambda>u d2. (Inr (), publish_joints bus d2))))"

definition d402_diagnostics ::
  "('d, 'n, 'e) d402_node \<Rightarrow> (u8 \<times> string \<times> (string \<times> string) list) \<times> ('d, 'n, 'e) d402_node" where
  "d402_diagnostics d0 =
    (let d = on_motors handleDiag (all_channels d0) d0;
         c = collector (derived d)
     in ((getLevel c, getMessage c,
          [(''device_state'', getValue ''DEVICE'' c), (''nmt_state'', getValue ''NMT'' c),
           (''emcy_state'', getValue ''EMCY'' c), (''cia402_mode'', getValue ''cia402_mode'' c),
           (''cia402_state'', getValue ''cia402_state'' c)] @
          concat (map (\<lambda>ch. let p = ''ch'' @ show_nat ch @ ''_'' in
            [(p @ ''mode'', getValue (p @ ''cia402_mode'') c), (p @ ''state'', getValue (p @ ''cia402_state'') c)])
            (all_channels d))), d))"

subsection \<open>What the operations of a channel leave alone\<close>

lemma upd402_simps [simp]:
  "x402 (upd402 f d) = f (x402 d)" "lely_driver (derived (upd402 f d)) = lely_driver (derived d)"
  "same_flags d (upd402 f d)" "activated (upd402 f d) = activated d"
  by (simp_all add: upd402_def x402_def)

lemma set_bridge_402 [simp]:
  "x402 (set_bridge b d) = x402 d" "lely_driver (derived (set_bridge b d)) = Some b"
  "activated (set_bridge b d) = activated d"
  by (simp_all add: set_bridge_def x402_def)

lemma put_bridge_simps [simp]:
  "channels (x402 (put_bridge b d)) = channels (x402 d)" "offered (x402 (put_bridge b d)) = offered (x402 d)"
  "shared_bridge (put_bridge b d) = Some b" "same_flags d (put_bridge b d)" "activated (put_bridge b d) = activated d"
  by (auto simp: put_bridge_def shared_bridge_def split: option.splits)

definition only_channel :: "nat \<Rightarrow> ('d, 'n, 'e) d402_node \<Rightarrow> ('d, 'n, 'e) d402_node \<Rightarrow> bool" where
  "only_channel ch d d' \<longleftrightarrow> same_flags d d' \<and> offered (x402 d') = offered (x402 d) \<and>
     length (channels (x402 d')) = length (channels (x402 d)) \<and>
     (\<forall>i. i \<noteq> ch \<longrightarrow> channels (x402 d') ! i = channels (x402 d) ! i) \<and>
     (ch < length (channels (x402 d)) \<longrightarrow> ch_scales (channels (x402 d') ! ch) = ch_scales (channels (x402 d) ! ch))"

lemma only_channel_refl [simp]: "only_channel ch d d"
  by (simp add: only_channel_def)

lemma put_motor_result:
  assumes "ch < length (channels (x402 d))"
  shows "only_channel ch d (put_motor ch m d)" "ch_motor (channels (x402 (put_motor ch m d)) ! ch) = Some m"
    "shared_bridge (put_motor ch m d) = Some (driver m)" "activated (put_motor ch m d) = activated d"
proof -
  let ?d1 = "upd402 (\<lambda>x. x\<lparr>channels := (channels x)[ch := (channels x ! ch)\<lparr>ch_motor := Some m\<rparr>]\<rparr>) d"
  let ?d2 = "upd (\<lambda>x. x\<lparr>collector := diag_collector m\<rparr>) ?d1"
  have x: "x402 ?d2 = (x402 d)\<lparr>channels := (channels (x402 d))[ch := (channels (x402 d) ! ch)\<lparr>ch_motor := Some m\<rparr>]\<rparr>"
    by (simp add: x402_def upd402_def upd_proxy_def)
  have flags: "same_flags d ?d2"
    using same_flags_trans[OF upd402_simps(3) upd_same_flags(1)] by blast
  have put: "put_motor ch m d = put_bridge (driver m) ?d2"
    by (simp add: put_motor_def)
  show "only_channel ch d (put_motor ch m d)"
    using assms same_flags_trans[OF flags put_bridge_simps(4)] by (simp add: only_channel_def put x)
  show "ch_motor (channels (x402 (put_motor ch m d)) ! ch) = Some m"
    using assms by (simp add: put x)
  show "shared_bridge (put_motor ch m d) = Some (driver m)" "activated (put_motor ch m d) = activated d"
    by (simp_all add: put)
qed

lemma on_motor_cases:
  assumes "on_motor ch f d = (a, d')"
  obtains (none) "a = None" "d' = d"
    "\<not> (ch < length (channels (x402 d)) \<and> ch_motor (channels (x402 d) ! ch) \<noteq> None \<and> shared_bridge d \<noteq> None)"
  | (ran) m b v m' where "ch < length (channels (x402 d))" "ch_motor (channels (x402 d) ! ch) = Some m"
      "shared_bridge d = Some b" "f (m\<lparr>driver := b, diag_collector := collector (derived d)\<rparr>) = (v, m')"
      "a = Some v" "d' = put_motor ch m' d"
  using assms by (auto simp: on_motor_def split: if_split_asm option.splits prod.splits)

text \<open>The discipline of the bridge that all motors share.\<close>

definition bus_ok :: "('d, 'n, 'e) d402_node \<Rightarrow> bool" where
  "bus_ok d \<longleftrightarrow> (\<forall>b. shared_bridge d = Some b \<longrightarrow> sdo_ok b)"

lemma on_motor_keeps:
  assumes "on_motor ch f d = (a, d')" "bus_ok d" "\<And>m. sdo_ok (driver m) \<Longrightarrow> sdo_ok (driver (snd (f m)))"
  shows "only_channel ch d d' \<and> bus_ok d' \<and> activated d' = activated d"
  using assms(1)
proof (cases rule: on_motor_cases)
  case none
  with assms(2) show ?thesis by simp
next
  case (ran m b v m')
  have "sdo_ok (driver m')"
    using assms(2) assms(3)[of "m\<lparr>driver := b, diag_collector := collector (derived d)\<rparr>"] ran(3,4)
    by (simp add: bus_ok_def)
  with put_motor_result[OF ran(1), of m'] ran(6) show ?thesis
    by (simp add: bus_ok_def)
qed

definition reachable_motor :: "u8 \<Rightarrow> ('d, 'n, 'e) d402_node \<Rightarrow> bool" where
  "reachable_motor ch d \<longleftrightarrow> activated d \<and> unat ch < length (channels (x402 d)) \<and>
     ch_motor (channels (x402 d) ! unat ch) \<noteq> None \<and> shared_bridge d \<noteq> None"

lemma channel_call_keeps:
  assumes "channel_call ch f d = (r, d')" "bus_ok d" "\<And>m. sdo_ok (driver m) \<Longrightarrow> sdo_ok (driver (snd (f m)))"
  shows "only_channel (unat ch) d d' \<and> bus_ok d' \<and> (\<not> reachable_motor ch d \<longrightarrow> r = Inr False \<and> d' = d)"
proof (cases "activated d")
  case False
  with assms(1,2) show ?thesis by (simp add: channel_call_def)
next
  case True
  obtain a d1 where run: "on_motor (unat ch) f d = (a, d1)" by fastforce
  have d1: "d' = d1" "r = (case a of None \<Rightarrow> Inr False | Some r' \<Rightarrow> r')"
    using assms(1) True run by (auto simp: channel_call_def split: option.splits)
  from run have "\<not> reachable_motor ch d \<longrightarrow> a = None \<and> d1 = d"
    by (cases rule: on_motor_cases) (use True in \<open>auto simp: reachable_motor_def\<close>)
  with on_motor_keeps[OF run assms(2,3)] d1 show ?thesis by simp
qed

text \<open>Every service keeps it, for one channel at a time.\<close>

locale motor_services = bus_invariant bus sdo_ok for bus :: "('d, 'n) bridge bus"
begin

lemma waiting_keeps:
  assumes "\<And>mw. drv_io_ok mw \<Longrightarrow> drv_io_ok (snd (f mw))" "wakeups_keep drv_ok ws" "sdo_ok (driver m)"
  shows "sdo_ok (driver (snd (waiting f ws m)))"
  using assms(1)[of "(m, ws)"] assms(2,3) by (auto simp: waiting_def drv_ok_def split: prod.split)

lemma service_call_keeps:
  assumes "service_call bus nc s tgt ch ws d = (r, d')" "bus_ok d" "wakeups_keep drv_ok ws"
  shows "only_channel (unat ch) d d' \<and> bus_ok d' \<and> (\<not> reachable_motor ch d \<longrightarrow> r = Inr False \<and> d' = d)"
proof -
  have mode: "sdo_ok (driver (snd (if getMode m \<noteq> mode then waiting (enterModeAndWait bus mode) ws m else (Inr False, m))))"
    if "sdo_ok (driver m)" for mode and m :: "('d, 'n) bridge motor"
    using that waiting_keeps[of "enterModeAndWait bus mode" ws m] assms(3) switchMode_drv
    by (simp add: enterModeAndWait_def)
  have tgt: "sdo_ok (driver (snd (map_prod Inr id (setTarget nc v m))))" if "sdo_ok (driver m)" for v and m :: "('d, 'n) bridge motor"
    using that setTarget_drv[of m nc v] by (simp add: drv_ok_def)
  have halt: "sdo_ok (driver (snd (handleHalt m)))" if "sdo_ok (driver m)"
    for m :: "('d, 'n) bridge motor"
    using that by (simp add: handleHalt_def Let_def split: prod.splits)
  note calls = channel_call_keeps[OF _ assms(2)]
    and waits = waiting_keeps handleInit_drv handleEnable_drv handleDisable_drv handleRecover_drv assms(3)
  have set_mode: ?thesis if "set_operation_mode bus mode ch ws d = (r, d')" for mode
    by (rule calls[OF that[unfolded set_operation_mode_def] mode])
  show ?thesis
  proof (cases s)
    case S_init
    show ?thesis
      by (rule calls[OF assms(1)[unfolded S_init service_call.simps init_motor_def]]) (simp add: waits halt)
  next
    case S_enable
    show ?thesis
      by (rule calls[OF assms(1)[unfolded S_enable service_call.simps handle_enable_def]]) (simp add: waits halt)
  next
    case S_disable
    show ?thesis
      by (rule calls[OF assms(1)[unfolded S_disable service_call.simps handle_disable_def]]) (simp add: waits halt)
  next
    case S_halt
    show ?thesis
      by (rule calls[OF assms(1)[unfolded S_halt service_call.simps halt_motor_def]]) (simp add: waits halt)
  next
    case S_recover
    show ?thesis
      by (rule calls[OF assms(1)[unfolded S_recover service_call.simps recover_motor_def]]) (simp add: waits halt)
  next
    case S_position_mode
    show ?thesis
      by (rule set_mode[OF assms(1)[unfolded S_position_mode service_call.simps]])
  next
    case S_velocity_mode
    show ?thesis
      by (rule set_mode[OF assms(1)[unfolded S_velocity_mode service_call.simps]])
  next
    case S_torque_mode
    show ?thesis
      by (rule set_mode[OF assms(1)[unfolded S_torque_mode service_call.simps]])
  next
    case S_cyclic_velocity_mode
    show ?thesis
      by (rule set_mode[OF assms(1)[unfolded S_cyclic_velocity_mode service_call.simps]])
  next
    case S_cyclic_position_mode
    show ?thesis
      by (rule set_mode[OF assms(1)[unfolded S_cyclic_position_mode service_call.simps]])
  next
    case S_cyclic_torque_mode
    show ?thesis
      by (rule set_mode[OF assms(1)[unfolded S_cyclic_torque_mode service_call.simps]])
  next
    case S_interpolated_position_mode
    show ?thesis
      by (rule set_mode[OF assms(1)[unfolded S_interpolated_position_mode service_call.simps]])
  next
    case S_target
    show ?thesis
      by (rule calls[OF assms(1)[unfolded S_target service_call.simps set_target_def] tgt])
  qed
qed

end

sublocale bridge_env \<subseteq> services: motor_services "bridge_bus dops nops"
  by (intro motor_services.intro bridge_bus_invariant)

interpretation ds: motor_services "bridge_bus table_ops device_net"
  by (rule dn.services.motor_services_axioms)

subsection \<open>Names of services\<close>

text \<open>Reading back what \<open>show_nat\<close> prints.\<close>

definition digit_value :: "char \<Rightarrow> nat" where
  "digit_value c = of_char c - 48"

definition read_nat :: "string \<Rightarrow> nat" where
  "read_nat s = fold (\<lambda>c n. 10 * n + digit_value c) s 0"

lemma digit_cases: "(d::nat) < 10 \<Longrightarrow> d \<in> {0, 1, 2, 3, 4, 5, 6, 7, 8, 9}"
  by auto

lemma digit_value_char: "d < 10 \<Longrightarrow> digit_value (digit_char d) = d"
  using digit_cases[of d] by (auto simp: digit_value_def digit_char_def)

lemma read_show_nat: "read_nat (show_nat n) = n"
proof (induction n rule: show_nat.induct)
  case (1 n)
  show ?case
  proof (cases "n < 10")
    case True
    then show ?thesis by (simp add: show_nat.simps[of n] read_nat_def digit_value_char)
  next
    case False
    with 1 have "read_nat (show_nat (n div 10)) = n div 10" by simp
    with False show ?thesis
      by (simp add: show_nat.simps[of n] read_nat_def digit_value_char)
  qed
qed

lemma show_nat_inj: "show_nat a = show_nat b \<Longrightarrow> a = b"
  by (metis read_show_nat)

text \<open>The names of the services have no slash, so the prefix of a full name ends at its last one.\<close>

lemma service_list_names:
  "(name, s) \<in> set service_list \<Longrightarrow> CHR ''/'' \<notin> set name"
  "distinct (map fst service_list)"
  by (auto simp: service_list_def)

lemma append_slash_eq:
  assumes "p @ CHR ''/'' # a = q @ CHR ''/'' # b" "CHR ''/'' \<notin> set a" "CHR ''/'' \<notin> set b"
  shows "p = q \<and> a = b"
proof -
  have "takeWhile (\<lambda>c. c \<noteq> CHR ''/'') (rev (p @ CHR ''/'' # a)) = rev a"
    using assms(2) by (simp add: takeWhile_append)
  moreover have "takeWhile (\<lambda>c. c \<noteq> CHR ''/'') (rev (q @ CHR ''/'' # b)) = rev b"
    using assms(3) by (simp add: takeWhile_append)
  ultimately have "a = b" using assms(1) by simp
  with assms(1) show ?thesis by simp
qed

definition prefix_stem :: "string \<Rightarrow> nat \<Rightarrow> string list \<Rightarrow> nat \<Rightarrow> string" where
  "prefix_stem node n names ch =
    (if n = 1 then node else if ch < length names then names ! ch else ''ch'' @ show_nat ch)"

lemma service_prefix_stem: "service_prefix node n names ch = prefix_stem node n names ch @ ''/''"
  by (simp add: service_prefix_def prefix_stem_def)

lemma channel_services_lookup:
  assumes "inj_on (prefix_stem node n names) {..<n}" "ch < n" "(name, s) \<in> set service_list"
  shows "map_of (channel_services node n names) (service_prefix node n names ch @ name) = Some (word_of_nat ch, s)"
proof -
  let ?row = "\<lambda>ch. map (\<lambda>(name, s). (service_prefix node n names ch @ name, (word_of_nat ch :: u8), s)) service_list"
  let ?l = "channel_services node n names"
  have key: "ch' = ch \<and> name' = name"
    if "ch' < n" "(name', s') \<in> set service_list"
      "service_prefix node n names ch' @ name' = service_prefix node n names ch @ name" for ch' name' s'
  proof -
    have "prefix_stem node n names ch' = prefix_stem node n names ch \<and> name' = name"
      using append_slash_eq[of "prefix_stem node n names ch'" name' "prefix_stem node n names ch" name]
        that(2,3) service_list_names(1) assms(3) by (auto simp: service_prefix_stem)
    with that(1) assms(1,2) show ?thesis by (auto simp: inj_on_def)
  qed
  have mem: "(service_prefix node n names ch @ name, word_of_nat ch, s) \<in> set ?l"
    using assms(2,3) by (force simp: channel_services_def)
  have only: "v = (word_of_nat ch, s)" if "(service_prefix node n names ch @ name, v) \<in> set ?l" for v
  proof -
    from that obtain ch' name' s' where "ch' < n" "(name', s') \<in> set service_list"
      "service_prefix node n names ch @ name = service_prefix node n names ch' @ name'" "v = (word_of_nat ch', s')"
      by (auto simp: channel_services_def)
    with key[of ch' name' s'] have "ch' = ch" "name' = name" by auto
    moreover have "s' = s"
      using \<open>(name', s') \<in> set service_list\<close> \<open>name' = name\<close> assms(3) eq_key_imp_eq_value[OF service_list_names(2)]
      by blast
    ultimately show ?thesis using \<open>v = (word_of_nat ch', s')\<close> by simp
  qed
  obtain v where "map_of ?l (service_prefix node n names ch @ name) = Some v"
    using mem by (metis map_of_eq_None_iff image_eqI fst_conv option.exhaust)
  with only[OF map_of_SomeD[OF this]] show ?thesis by simp
qed

lemma default_prefixes: "inj_on (prefix_stem node n (default_names node n)) {..<n}"
proof (rule inj_onI)
  fix a b
  assume "a \<in> {..<n}" "b \<in> {..<n}" "prefix_stem node n (default_names node n) a = prefix_stem node n (default_names node n) b"
  then show "a = b"
    by (cases "n = 1") (auto simp: prefix_stem_def default_names_def dest: show_nat_inj)
qed

subsection \<open>The contract of the base driver\<close>

lemma on_motor_flags: "same_flags d (snd (on_motor ch f d))"
proof -
  obtain a d' where run: "on_motor ch f d = (a, d')" by fastforce
  then have "same_flags d d'"
    by (cases rule: on_motor_cases) (auto dest: put_motor_result(1) simp: only_channel_def)
  with run show ?thesis by simp
qed

lemma on_motors_flags: "same_flags d (on_motors f chs d)"
  by (induction chs arbitrary: d) (auto intro: same_flags_trans[OF on_motor_flags])

lemma d402_contract:
  fixes env :: "('d, 'n, (('d, 'n) bridge, 'e) driver402 proxy) base_env"
  shows "driver_contract (d402_hooks dops nops env raw ui drained)"
proof -
  note base = base_contract[of dops nops env, unfolded driver_contract_def]
  have "same_flags d (snd (d402_init d))" for d :: "('d, 'n, 'e) d402_node"
    unfolding d402_init_def by (rule same_flags_bind) (simp_all add: proxy_init_def)
  moreover have "same_flags d (snd (d402_configure d))" for d :: "('d, 'n, 'e) d402_node"
  proof -
    have "same_flags d (snd (base_configure d))"
      by (simp add: base_configure_def Let_def same_flags_def)
    then show ?thesis
      unfolding d402_configure_def by (rule same_flags_bind) simp
  qed
  moreover have "same_flags d (snd (d402_activate env ui d))" for d
    unfolding d402_activate_def
    by (rule same_flags_bind) (auto simp: base_activate_def Let_def on_motors_flags)
  moreover have "same_flags d (snd (d402_deactivate drained d))" for d :: "('d, 'n, 'e) d402_node"
    unfolding d402_deactivate_def by (rule same_flags_bind) (auto simp: base_deactivate_def Let_def)
  moreover have "same_flags d (snd (d402_add_to_master dops nops env raw d))" for d
    unfolding d402_add_to_master_def
    using base by (intro same_flags_bind) (auto simp: base_hooks_def split: option.split, metis prod.collapse)
  moreover have "same_flags d (snd (d402_remove_from_master env d))" for d
  proof -
    have "same_flags x (snd (base_remove_from_master env x))" for x
      by (auto simp: base_remove_from_master_def Let_def split: posted.split)
    then show ?thesis
      unfolding d402_remove_from_master_def by (rule same_flags_trans[OF upd402_simps(3)])
  qed
  ultimately show ?thesis
    unfolding d402_hooks_def driver_contract_def by (simp add: base_hooks_def outcome_flags_iff)
qed

interpretation d4: driver_env "table_lib doc" "d402_hooks dops nops env raw ui drained" for doc dops nops env raw ui drained
  by (intro driver_env.intro tl.client_library_axioms d402_contract)

subsection \<open>A driver of two axes\<close>

text \<open>The second channel has an enabled motor in cyclic position mode on the bridge of the examples.\<close>

definition cyclic_position :: mode_obj where
  "cyclic_position = Forward \<lparr>th_mode_id = Cyclic_Synchronous_Position, th_type = I32, target = 0,
     has_target = True, OBJ = 0x687A, SUB = 0, CW_MASK = 0, fwd_channel_offset = 0x800\<rparr>"

definition second_motor :: "((u16 \<times> u8 \<rightharpoonup> co_type \<times> int, device_memory) bridge) motor" where
  "second_motor = (fresh_motor example_bridge)\<lparr>state_handler := \<lparr>state = Operation_Enable, cond = 1\<rparr>,
     modes := [Cyclic_Synchronous_Position \<mapsto> cyclic_position], selected_mode := Some Cyclic_Synchronous_Position,
     mode_id := Cyclic_Synchronous_Position\<rparr>"

definition two_axes :: "((u16 \<times> u8 \<rightharpoonup> co_type \<times> int, device_memory) bridge, unit) driver402" where
  "two_axes =
    \<lparr>channels = [\<lparr>ch_motor = None, ch_scales = default_scales\<rparr>,
        \<lparr>ch_motor = Some second_motor, ch_scales = default_scales\<rparr>],
     num_channels = 2, channel_names = [], joint_topic = [], joint_publisher = True,
     global_scales = default_scales, switching = Operation_Enable, homing_timeout = 10, offered = [],
     motor_bridge = None, d402_rest = ()\<rparr>"

definition two_axes_doc :: yaml where
  "two_axes_doc = empty_yaml\<lparr>as_u8 := [[''num_channels''] \<mapsto> 2]\<rparr>"

definition two_axes_node :: "(u16 \<times> u8 \<rightharpoonup> co_type \<times> int, device_memory, unit) d402_node" where
  "two_axes_node =
    (fresh_node (base_x \<lparr>nmt_topic = [], rpdo_topic = [], interface = True, proxy_rest = two_axes\<rparr>
       \<lparr>lely_driver := Some example_bridge, queues_held := True\<rparr>))
    \<lparr>activated := True, dn_config := two_axes_doc\<rparr>"

lemma two_axes_node_simps [simp]:
  "x402 two_axes_node = two_axes" "activated two_axes_node"
  "lely_driver (derived two_axes_node) = Some example_bridge"
  "dn_config two_axes_node = two_axes_doc" "dn_name two_axes_node = ''device1''"
  "collector (derived two_axes_node) = DiagnosticsCollector_init"
  by (simp_all add: two_axes_node_def x402_def fresh_node_def base_x_def)

lemma lent_motor_simps [simp]:
  "selected_obj (m\<lparr>driver := b, diag_collector := c\<rparr>) = selected_obj m"
  "getMode (m\<lparr>driver := b, diag_collector := c\<rparr>) = getMode m"
  by (simp_all add: selected_obj_def getMode_def split: option.split)

lemma second_motor_simps [simp]:
  "state (state_handler second_motor) = Operation_Enable" "selected_obj second_motor = Some cyclic_position"
  "selected_mode second_motor = Some Cyclic_Synchronous_Position" "getMode second_motor = Cyclic_Synchronous_Position"
  "modes second_motor = [Cyclic_Synchronous_Position \<mapsto> cyclic_position]"
  by (simp_all add: second_motor_def selected_obj_def getMode_def cyclic_position_def)

subsection \<open>Properties\<close>







end
