(* ===== verification/HydraulicAxis.thy ===== *)
theory HydraulicAxis
  imports Modes402
begin

text \<open>
  The valve of the CiA 408 driver (\<open>canopen_408_driver\<close>, \<open>hydraulic_axis.hpp\<close>, \<open>hydraulic_axis.cpp\<close>,
  \<open>pved_faults.hpp\<close>): the climb through the states of the device, which the poll timer drives, the
  stream of control words and set points, and the names of the faults. The bridge is the record
  \<open>bus\<close> on a state \<open>'w\<close>, as for the motors; a null \<open>driver_\<close> is \<open>None\<close>.
\<close>

subsection \<open>Object dictionary and commands\<close>

definition CONTROLWORD :: u16 where "CONTROLWORD = 0x6040"
definition STATUSWORD :: u16 where "STATUSWORD = 0x6041"
definition SETPOINT :: u16 where "SETPOINT = 0x6300"
definition ACTUAL :: u16 where "ACTUAL = 0x6301"
definition DEMAND :: u16 where "DEMAND = 0x6310"
definition PCB_TEMPERATURE :: u16 where "PCB_TEMPERATURE = 0x3468"
definition STORE_PARAMS :: u16 where "STORE_PARAMS = 0x1010"

definition CW_INIT :: u16 where "CW_INIT = 0x08"
definition CW_DISABLED :: u16 where "CW_DISABLED = 0x09"
definition CW_HOLD :: u16 where "CW_HOLD = 0x0B"
definition CW_ACTIVE :: u16 where "CW_ACTIVE = 0x0F"
definition CW_FAULT_RESET :: u16 where "CW_FAULT_RESET = 0x03"

lemmas control_words = CW_INIT_def CW_DISABLED_def CW_HOLD_def CW_ACTIVE_def CW_FAULT_RESET_def

definition SETPOINT_FULL_SCALE :: int where "SETPOINT_FULL_SCALE = 16384"
definition SETPOINT_FLOAT :: int where "SETPOINT_FLOAT = 32767"
definition STORE_SIGNATURE :: int where "STORE_SIGNATURE = 0x65766173"
definition PHASE_DWELL_TICKS :: nat where "PHASE_DWELL_TICKS = 15"

subsection \<open>State\<close>

datatype Phase = Ph_Idle | Ph_FaultReset | Ph_Init | Ph_Disabled | Ph_Hold | Ph_Active

text \<open>The members of \<open>HydraulicAxis408\<close> without the bridge, which it shares with its driver.\<close>

record axis =
  enabled :: bool
  current_cw :: u16
  last_setpoint :: int
  phase :: Phase
  phase_ticks :: nat

definition HydraulicAxis408_new :: axis where
  "HydraulicAxis408_new =
    \<lparr>enabled = False, current_cw = CW_DISABLED, last_setpoint = 0, phase = Ph_Idle, phase_ticks = 0\<rparr>"

type_synonym 'w axis_io = "axis \<times> 'w option"

subsection \<open>Access to the device\<close>

definition write_controlword :: "'w bus \<Rightarrow> u16 \<Rightarrow> 'w axis_io \<Rightarrow> bool \<times> 'w axis_io" where
  "write_controlword bus v aw =
    (case aw of
       (a, None) \<Rightarrow> (False, a, None)
     | (a, Some w) \<Rightarrow>
         (case uset bus U16 CONTROLWORD 0 (uint v) w of
            (Inl e, w1) \<Rightarrow> (False, a, Some w1)
          | (Inr u, w1) \<Rightarrow> (True, a\<lparr>current_cw := v\<rparr>, Some w1)))"

definition send_setpoint :: "'w bus \<Rightarrow> int \<Rightarrow> 'w axis_io \<Rightarrow> bool \<times> 'w axis_io" where
  "send_setpoint bus raw aw =
    (case aw of
       (a, None) \<Rightarrow> (False, a, None)
     | (a, Some w) \<Rightarrow>
         (case uset bus I16 SETPOINT 1 raw w of
            (Inl e, w1) \<Rightarrow> (False, a, Some w1)
          | (Inr u, w1) \<Rightarrow> (True, a, Some w1)))"

definition axis_get :: "'w bus \<Rightarrow> int_type \<Rightarrow> u16 \<Rightarrow> u8 \<Rightarrow> 'w axis_io \<Rightarrow> int \<times> 'w axis_io" where
  "axis_get bus t i s aw =
    (case aw of
       (a, None) \<Rightarrow> (0, a, None)
     | (a, Some w) \<Rightarrow>
         (if has_object bus i s w then (let (v, w1) = uget bus t i s w in (v, a, Some w1)) else (0, a, Some w)))"

definition get_spool_position :: "'w bus \<Rightarrow> 'w axis_io \<Rightarrow> int \<times> 'w axis_io" where
  "get_spool_position bus = axis_get bus I16 ACTUAL 1"

definition get_demand :: "'w bus \<Rightarrow> 'w axis_io \<Rightarrow> int \<times> 'w axis_io" where
  "get_demand bus = axis_get bus I16 DEMAND 0"

definition get_statusword :: "'w bus \<Rightarrow> 'w axis_io \<Rightarrow> int \<times> 'w axis_io" where
  "get_statusword bus = axis_get bus U16 STATUSWORD 0"

definition get_pcb_temperature :: "'w bus \<Rightarrow> 'w axis_io \<Rightarrow> int \<times> 'w axis_io" where
  "get_pcb_temperature bus = axis_get bus U16 PCB_TEMPERATURE 0"

subsection \<open>Commands\<close>

definition enable :: "'w axis_io \<Rightarrow> bool \<times> 'w axis_io" where
  "enable aw =
    (True, (fst aw)\<lparr>last_setpoint := 0, enabled := False, phase_ticks := 0, phase := Ph_Init\<rparr>, snd aw)"

definition recover :: "'w axis_io \<Rightarrow> bool \<times> 'w axis_io" where
  "recover aw =
    (True, (fst aw)\<lparr>last_setpoint := 0, enabled := False, phase_ticks := 0, phase := Ph_FaultReset\<rparr>, snd aw)"

definition hold :: "'w axis_io \<Rightarrow> bool \<times> 'w axis_io" where
  "hold aw = (True, (fst aw)\<lparr>phase := Ph_Idle, enabled := False, current_cw := CW_HOLD\<rparr>, snd aw)"

definition disable :: "'w axis_io \<Rightarrow> bool \<times> 'w axis_io" where
  "disable aw = (True, (fst aw)\<lparr>phase := Ph_Idle, enabled := False, current_cw := CW_DISABLED\<rparr>, snd aw)"

definition clamp_setpoint :: "int \<Rightarrow> int" where
  "clamp_setpoint raw =
    (if raw \<noteq> SETPOINT_FLOAT \<and> raw \<noteq> - SETPOINT_FLOAT
     then max (- SETPOINT_FULL_SCALE) (min SETPOINT_FULL_SCALE raw) else raw)"

definition set_setpoint :: "'w bus \<Rightarrow> int \<Rightarrow> 'w axis_io \<Rightarrow> bool \<times> 'w axis_io" where
  "set_setpoint bus raw aw =
    send_setpoint bus (clamp_setpoint raw) ((fst aw)\<lparr>last_setpoint := clamp_setpoint raw\<rparr>, snd aw)"

definition set_float :: "'w bus \<Rightarrow> 'w axis_io \<Rightarrow> bool \<times> 'w axis_io" where
  "set_float bus aw = set_setpoint bus SETPOINT_FLOAT aw"

subsection \<open>The climb\<close>

fun phase_word :: "Phase \<Rightarrow> u16 option" where
  "phase_word Ph_Idle = None"
| "phase_word Ph_FaultReset = Some CW_FAULT_RESET"
| "phase_word Ph_Init = Some CW_INIT"
| "phase_word Ph_Disabled = Some CW_DISABLED"
| "phase_word Ph_Hold = Some CW_HOLD"
| "phase_word Ph_Active = Some CW_ACTIVE"

fun next_phase :: "Phase \<Rightarrow> Phase" where
  "next_phase Ph_Idle = Ph_Idle"
| "next_phase Ph_FaultReset = Ph_Init"
| "next_phase Ph_Init = Ph_Disabled"
| "next_phase Ph_Disabled = Ph_Hold"
| "next_phase Ph_Hold = Ph_Active"
| "next_phase Ph_Active = Ph_Idle"

text \<open>\<open>advance_phase_locked\<close>; its log line asks the device for the status word.\<close>

definition advance_phase_locked :: "'w bus \<Rightarrow> 'w axis_io \<Rightarrow> 'w axis_io" where
  "advance_phase_locked bus aw =
    (case phase_word (phase (fst aw)) of
       None \<Rightarrow> aw
     | Some cw \<Rightarrow>
         (let p = phase (fst aw);
              a1 = (fst aw)\<lparr>current_cw := cw, phase_ticks := phase_ticks (fst aw) + 1\<rparr>
          in if phase_ticks a1 < PHASE_DWELL_TICKS then (a1, snd aw)
             else (let a2 = a1\<lparr>phase_ticks := 0, enabled := (p = Ph_Active \<or> enabled a1)\<rparr>;
                       (sw, a3, w3) = get_statusword bus (a2, snd aw)
                   in (a3\<lparr>phase := next_phase p\<rparr>, w3))))"

definition spin_once :: "'w bus \<Rightarrow> 'w axis_io \<Rightarrow> 'w axis_io" where
  "spin_once bus aw =
    (let aw1 = advance_phase_locked bus aw;
         aw2 = snd (write_controlword bus (current_cw (fst aw1)) aw1)
     in snd (send_setpoint bus (last_setpoint (fst aw2)) aw2))"

text \<open>\<open>save_to_eeprom\<close> does nothing to the axis; \<open>sdo_write\<close> is \<open>async_sdo_write_typed(...).get()\<close>.\<close>

definition save_to_eeprom ::
  "(int_type \<Rightarrow> u16 \<Rightarrow> u8 \<Rightarrow> int \<Rightarrow> 'w \<Rightarrow> ((exn + bool) \<times> 'w) option) \<Rightarrow> 'w axis_io \<Rightarrow> (bool \<times> 'w axis_io) option" where
  "save_to_eeprom sdo_write aw =
    (case aw of
       (a, None) \<Rightarrow> Some (False, a, None)
     | (a, Some w) \<Rightarrow>
         (case sdo_write U32 STORE_PARAMS 1 STORE_SIGNATURE w of
            None \<Rightarrow> None
          | Some (Inl e, w1) \<Rightarrow> Some (False, a, Some w1)
          | Some (Inr r, w1) \<Rightarrow> Some (r, a, Some w1)))"

subsection \<open>Names of faults\<close>

definition pved_faults :: "(u16 \<times> string) list" where
  "pved_faults =
    [(0x0000, ''No error / fault cleared''),
     (0x6200, ''Software initialization fault''),
     (0x6201, ''Internal calculation fault''),
     (0x6203, ''Parameter truncation change''),
     (0x6204, ''Interpolation fault''),
     (0x3411, ''Supply voltage above upper limit''),
     (0x3412, ''Supply voltage below lower limit''),
     (0x3414, ''5V PSU out of range''),
     (0x620B, ''Spool position calculation fault''),
     (0x3413, ''V reference signal out of range''),
     (0x3415, ''GND signal unstable''),
     (0x5235, ''Demodulator A: signal out of range''),
     (0x5236, ''Demodulator B: signal out of range''),
     (0x610D, ''Handshake not received by safeUC''),
     (0x610E, ''Transducer signal frequency out of range''),
     (0x6108, ''Safety demodulator A: signal out of range''),
     (0x6109, ''Safety demodulator B: signal out of range''),
     (0x610F, ''Safety-controller PSU out of range''),
     (0x6110, ''Safety-controller voltage reference out of range''),
     (0x6101, ''Safety-controller fuse bit fault''),
     (0x610A, ''Safety-controller spool position cross validation fault''),
     (0x6111, ''Safety switch state fault (cannot perform safe operation)''),
     (0x6211, ''Safety-controller initialization fault''),
     (0x6112, ''Safety switch status fault (cannot perform safe operation)''),
     (0x6205, ''Handshake not received by mainUC''),
     (0x6113, ''Handshake bootup fault''),
     (0x620C, ''POST fault (power-on self-test failed)''),
     (0x6114, ''Safety controller task scheduling fault''),
     (0x8006, ''Spool position cross validation fault''),
     (0x5511, ''Memory (RAM) corrupted''),
     (0x6322, ''Memory (EEPROM) invalid parameter''),
     (0x5521, ''Memory (Flash) corrupted''),
     (0x5002, ''SPI communication fault''),
     (0xFF06, ''Fault overload (>3 faults simultaneously)''),
     (0x6323, ''PWM calibration fault''),
     (0x5532, ''Memory (EEPROM) communication fault''),
     (0x6209, ''PSM operation fault''),
     (0x5533, ''Config sector CRC fault''),
     (0x5536, ''Diagnostic sector CRC fault''),
     (0x620A, ''PSM buffer overload''),
     (0x4227, ''Average operating temperature above limit''),
     (0x4224, ''Current temperature above upper limit''),
     (0x4225, ''Current temperature below lower limit''),
     (0x8310, ''Main spool cannot return to neutral''),
     (0x8311, ''Float not reached''),
     (0x8307, ''Main spool not in neutral at bootup''),
     (0x8312, ''Actual main spool position exceeds set point''),
     (0x5237, ''Transducer signal frequency out of range''),
     (0x620F, ''SPI buffer overload''),
     (0x6210, ''SPI communication fault''),
     (0x8140, ''Loss and recovery of CAN bus connection''),
     (0x8003, ''Flow command not received within timeout period''),
     (0x6212, ''Safety switch status fault''),
     (0x8313, ''Float threshold setpoint not given''),
     (0x6213, ''Solenoid driver validation fault''),
     (0x620D, ''Stack usage > 90%''),
     (0x5537, ''CRC fault (data change not approved)''),
     (0x5001, ''Invalid hardware version''),
     (0x8009, ''COMM: running number validation fault''),
     (0x8008, ''Corrupted data received by Inlet actuator''),
     (0x8001, ''TPDO from Work Function actuator not received in time''),
     (0x8211, ''RPDO received invalid''),
     (0x81FF, ''RPDO not received within timeout period''),
     (0x9001, ''EMCY consumer received EMCY message from master'')]"

definition pved_fault_name :: "u16 \<Rightarrow> string option" where
  "pved_fault_name eec = map_of pved_faults eec"

definition pved_severity_name :: "u8 \<Rightarrow> string" where
  "pved_severity_name s =
    (if s = 0x00 then ''Info'' else if s = 0x10 then ''Warning'' else if s = 0x20 then ''Critical''
     else if s = 0x30 then ''Severe'' else ''Unknown'')"

subsection \<open>Histories\<close>

text \<open>The operations of an axis, and what the other users of its bridge do meanwhile.\<close>

datatype 'w axis_call =
    Axis_enable
  | Axis_recover
  | Axis_hold
  | Axis_disable
  | Axis_set int
  | Axis_spin
  | Axis_others "'w \<Rightarrow> 'w"

fun axis_exec :: "'w bus \<Rightarrow> 'w axis_call \<Rightarrow> 'w axis_io \<Rightarrow> 'w axis_io" where
  "axis_exec bus Axis_enable aw = snd (enable aw)"
| "axis_exec bus Axis_recover aw = snd (recover aw)"
| "axis_exec bus Axis_hold aw = snd (hold aw)"
| "axis_exec bus Axis_disable aw = snd (disable aw)"
| "axis_exec bus (Axis_set raw) aw = snd (set_setpoint bus raw aw)"
| "axis_exec bus Axis_spin aw = spin_once bus aw"
| "axis_exec bus (Axis_others f) aw = (fst aw, map_option f (snd aw))"

text \<open>The control words that a history streams, one for each spin.\<close>

fun streamed :: "'w bus \<Rightarrow> 'w axis_call list \<Rightarrow> 'w axis_io \<Rightarrow> u16 list" where
  "streamed bus [] aw = []"
| "streamed bus (c # cs) aw =
    (case c of Axis_spin \<Rightarrow> [current_cw (fst (advance_phase_locked bus aw))] | _ \<Rightarrow> []) @
    streamed bus cs (axis_exec bus c aw)"

definition axis_run :: "'w bus \<Rightarrow> 'w axis_call list \<Rightarrow> 'w axis_io \<Rightarrow> 'w axis_io" where
  "axis_run bus cs aw = fold (axis_exec bus) cs aw"

lemma axis_run_simps [simp]:
  "axis_run bus [] aw = aw" "axis_run bus (c # cs) aw = axis_run bus cs (axis_exec bus c aw)"
  by (simp_all add: axis_run_def)

text \<open>The accesses to the device leave the axis alone.\<close>

lemma axis_get_axis [simp]: "fst (snd (axis_get bus t i s aw)) = fst aw"
  by (cases aw) (auto simp: axis_get_def split: option.split prod.split)

lemma send_setpoint_axis [simp]: "fst (snd (send_setpoint bus raw aw)) = fst aw"
  by (cases aw) (auto simp: send_setpoint_def split: option.split prod.split sum.split)

lemma write_controlword_axis: "current_cw (fst aw) = v \<Longrightarrow> fst (snd (write_controlword bus v aw)) = fst aw"
  by (cases aw) (auto simp: write_controlword_def split: option.split prod.split sum.split)

definition advanced :: "axis \<Rightarrow> axis" where
  "advanced a =
    (case phase_word (phase a) of
       None \<Rightarrow> a
     | Some cw \<Rightarrow>
         if phase_ticks a + 1 < PHASE_DWELL_TICKS then a\<lparr>current_cw := cw, phase_ticks := phase_ticks a + 1\<rparr>
         else a\<lparr>current_cw := cw, phase_ticks := 0, enabled := (phase a = Ph_Active \<or> enabled a),
                phase := next_phase (phase a)\<rparr>)"

lemma advance_axis: "fst (advance_phase_locked bus aw) = advanced (fst aw)"
proof -
  have "fst (snd (get_statusword bus (a, w))) = a" for a w
    by (simp add: get_statusword_def)
  then have "fst (snd (get_statusword bus (a, w))) = a \<and>
    (case get_statusword bus (a, w) of (sw, a3, w3) \<Rightarrow> (a3\<lparr>phase := p\<rparr>, w3)) =
      (a\<lparr>phase := p\<rparr>, snd (snd (get_statusword bus (a, w))))" for a w p
    by (metis (mono_tags, lifting) case_prod_beta)
  then show ?thesis
    by (auto simp: advance_phase_locked_def advanced_def Let_def split: option.split)
qed

lemma spin_axis: "fst (spin_once bus aw) = advanced (fst aw)"
  by (simp add: spin_once_def Let_def write_controlword_axis advance_axis)

lemma set_setpoint_axis [simp]: "fst (snd (set_setpoint bus raw aw)) = (fst aw)\<lparr>last_setpoint := clamp_setpoint raw\<rparr>"
  by (simp add: set_setpoint_def)

lemma streamed_enable: "streamed bus (Axis_enable # cs) aw = streamed bus cs (snd (enable aw))"
  by simp

lemma streamed_spin: "streamed bus (Axis_spin # cs) aw = current_cw (advanced (fst aw)) # streamed bus cs (spin_once bus aw)"
  by (simp add: advance_axis)

subsection \<open>The climb is complete\<close>

text \<open>\<open>climbed ws a\<close>: what the control words streamed so far tell of the state of the axis.\<close>

definition ladder :: "u16 list" where
  "ladder = replicate 15 CW_INIT @ replicate 15 CW_DISABLED @ replicate 15 CW_HOLD"

fun climbed_to :: "Phase \<Rightarrow> nat \<Rightarrow> u16 list \<Rightarrow> bool" where
  "climbed_to Ph_Idle n ws = True"
| "climbed_to Ph_FaultReset n ws = True"
| "climbed_to Ph_Init n ws = (\<exists>p. ws = p @ replicate n CW_INIT)"
| "climbed_to Ph_Disabled n ws = (\<exists>p. ws = p @ replicate 15 CW_INIT @ replicate n CW_DISABLED)"
| "climbed_to Ph_Hold n ws = (\<exists>p. ws = p @ replicate 15 CW_INIT @ replicate 15 CW_DISABLED @ replicate n CW_HOLD)"
| "climbed_to Ph_Active n ws = (\<exists>p. ws = p @ ladder @ replicate n CW_ACTIVE)"

definition topped :: "u16 list \<Rightarrow> bool" where
  "topped ws \<longleftrightarrow> (\<exists>p m. ws = p @ ladder @ replicate m CW_ACTIVE)"

definition climbed :: "u16 list \<Rightarrow> axis \<Rightarrow> bool" where
  "climbed ws a \<longleftrightarrow> climbed_to (phase a) (phase_ticks a) ws \<and> (phase a \<noteq> Ph_Idle \<longrightarrow> phase_ticks a < 15) \<and>
     (phase a = Ph_Idle \<and> current_cw a = CW_ACTIVE \<longrightarrow> topped ws) \<and>
     (enabled a \<longrightarrow> phase a = Ph_Idle \<and> current_cw a = CW_ACTIVE)"

lemma climbed_to_snoc:
  assumes "climbed_to ph n ws" "phase_word ph = Some w"
  shows "climbed_to ph (Suc n) (ws @ [w])"
  using assms by (cases ph) (auto simp flip: replicate_append_same)

lemma climbed_to_next: "climbed_to ph 15 ws \<Longrightarrow> climbed_to (next_phase ph) 0 ws"
  by (cases ph) (auto simp: ladder_def)

lemma climbed_to_top: "climbed_to Ph_Active n ws \<Longrightarrow> topped ws"
  by (auto simp: topped_def)

lemma topped_snoc: "topped ws \<Longrightarrow> topped (ws @ [CW_ACTIVE])"
proof -
  assume "topped ws"
  then obtain p m where "ws = p @ ladder @ replicate m CW_ACTIVE"
    by (auto simp: topped_def)
  then have "ws @ [CW_ACTIVE] = p @ ladder @ replicate (Suc m) CW_ACTIVE"
    by (simp flip: replicate_append_same)
  then show ?thesis unfolding topped_def by blast
qed

lemma phase_word_Active [simp]: "phase_word ph = Some CW_ACTIVE \<longleftrightarrow> ph = Ph_Active"
  by (cases ph) (simp_all add: control_words)

lemma next_phase_Idle [simp]: "next_phase ph = Ph_Idle \<longleftrightarrow> ph = Ph_Active \<or> ph = Ph_Idle"
  by (cases ph) simp_all

lemma climbed_spin:
  assumes "climbed ws a"
  shows "climbed (ws @ [current_cw (advanced a)]) (advanced a) \<and> (current_cw (advanced a) = CW_ACTIVE \<longrightarrow> topped ws)"
proof (cases "phase_word (phase a)")
  case None
  then have "phase a = Ph_Idle" by (cases "phase a") simp_all
  with assms None show ?thesis
    by (auto simp: climbed_def advanced_def topped_snoc)
next
  case (Some w)
  then have busy: "phase a \<noteq> Ph_Idle" by auto
  from assms Some have snoc: "climbed_to (phase a) (Suc (phase_ticks a)) (ws @ [w])"
    by (simp add: climbed_def climbed_to_snoc)
  from assms busy have state: "\<not> enabled a" "phase_ticks a < 15" "climbed_to (phase a) (phase_ticks a) ws"
    by (auto simp: climbed_def)
  have active: "w = CW_ACTIVE \<longleftrightarrow> phase a = Ph_Active"
    using Some by auto
  have below: "phase a = Ph_Active \<Longrightarrow> topped ws"
    using state(3) climbed_to_top by metis
  show ?thesis
  proof (cases "phase_ticks a + 1 < PHASE_DWELL_TICKS")
    case True
    with Some state(1) snoc busy active below show ?thesis
      by (simp add: climbed_def advanced_def PHASE_DWELL_TICKS_def)
  next
    case False
    with state(2) have "Suc (phase_ticks a) = 15" by (simp add: PHASE_DWELL_TICKS_def)
    with snoc have full: "climbed_to (phase a) 15 (ws @ [w])" by simp
    have "current_cw (advanced a) = w" "phase (advanced a) = next_phase (phase a)"
      "phase_ticks (advanced a) = 0" "enabled (advanced a) \<longleftrightarrow> phase a = Ph_Active"
      using Some False state(1) by (simp_all add: advanced_def)
    with climbed_to_next[OF full] busy below active topped_snoc[of ws] show ?thesis
      by (auto simp: climbed_def)
  qed
qed

lemma climbed_call:
  assumes "climbed ws (fst aw)" "c \<noteq> Axis_spin"
  shows "climbed ws (fst (axis_exec bus c aw))"
  using assms
  by (cases c) (auto simp: climbed_def enable_def recover_def hold_def disable_def control_words)

lemma streamed_climb:
  assumes "climbed ws (fst aw)" "streamed bus cs aw = us @ CW_ACTIVE # vs"
  shows "topped (ws @ us)"
  using assms
proof (induction cs arbitrary: ws aw us)
  case Nil
  then show ?case by simp
next
  case (Cons c cs)
  show ?case
  proof (cases "c = Axis_spin")
    case False
    then have "streamed bus cs (axis_exec bus c aw) = us @ CW_ACTIVE # vs"
      using Cons.prems(2) by (cases c) simp_all
    from Cons.IH[OF climbed_call[OF Cons.prems(1) False] this] show ?thesis .
  next
    case True
    let ?w = "current_cw (advanced (fst aw))"
    have seq: "?w # streamed bus cs (spin_once bus aw) = us @ CW_ACTIVE # vs"
      using Cons.prems(2) unfolding True streamed_spin by simp
    show ?thesis
    proof (cases us)
      case Nil
      with seq climbed_spin[OF Cons.prems(1)] show ?thesis by simp
    next
      case (Cons u us')
      with seq have "streamed bus cs (spin_once bus aw) = us' @ CW_ACTIVE # vs" "u = ?w" by simp_all
      with Cons.IH[of "ws @ [?w]" "spin_once bus aw" us'] climbed_spin[OF Cons.prems(1)] Cons
      show ?thesis by (simp add: spin_axis)
    qed
  qed
qed

text \<open>Where the climb is after \<open>n\<close> spins.\<close>

definition climb_at :: "nat \<Rightarrow> axis \<Rightarrow> bool" where
  "climb_at n a \<longleftrightarrow>
     (if 60 \<le> n then phase a = Ph_Idle \<and> current_cw a = CW_ACTIVE \<and> enabled a
      else \<not> enabled a \<and> phase_ticks a = n mod 15 \<and> phase a = [Ph_Init, Ph_Disabled, Ph_Hold, Ph_Active] ! (n div 15))"

lemma climb_at_spin: "climb_at n a \<Longrightarrow> climb_at (Suc n) (advanced a)"
proof (cases "60 \<le> n")
  case True
  then show "climb_at n a \<Longrightarrow> climb_at (Suc n) (advanced a)"
    by (simp add: climb_at_def advanced_def)
next
  case False
  assume at: "climb_at n a"
  from False have cases: "n div 15 \<in> {0, 1, 2, 3}" by auto
  show ?thesis
  proof (cases "n mod 15 = 14")
    case True
    then have "Suc n div 15 = Suc (n div 15)" "Suc n mod 15 = 0" by (simp_all add: div_Suc mod_Suc)
    moreover obtain k where "n = 15 * k + 14" "k \<in> {0, 1, 2, 3}"
      using cases True by (metis mult_div_mod_eq)
    then have "n \<in> {14, 29, 44, 59}" by auto
    ultimately show ?thesis
      using at by (auto simp: climb_at_def advanced_def PHASE_DWELL_TICKS_def)
  next
    case False
    then have "Suc n div 15 = n div 15" "Suc n mod 15 = Suc (n mod 15)" "n mod 15 < 14"
      using mod_less_divisor[of 15 n] by (simp_all add: div_Suc mod_Suc)
    moreover from this cases have "Suc n < 60" by auto
    ultimately show ?thesis
      using at cases by (auto simp: climb_at_def advanced_def PHASE_DWELL_TICKS_def)
  qed
qed

definition undisturbed :: "'w axis_call \<Rightarrow> bool" where
  "undisturbed c \<longleftrightarrow> (case c of Axis_spin \<Rightarrow> True | Axis_set r \<Rightarrow> True | Axis_others f \<Rightarrow> True | _ \<Rightarrow> False)"

definition spins :: "'w axis_call list \<Rightarrow> nat" where
  "spins cs = length (filter (\<lambda>c. case c of Axis_spin \<Rightarrow> True | _ \<Rightarrow> False) cs)"

lemma climb_at_run:
  "climb_at n (fst aw) \<Longrightarrow> \<forall>c \<in> set cs. undisturbed c \<Longrightarrow> climb_at (n + spins cs) (fst (axis_run bus cs aw))"
proof (induction cs arbitrary: n aw)
  case Nil
  then show ?case by (simp add: spins_def)
next
  case (Cons c cs)
  have "climb_at (n + spins [c]) (fst (axis_exec bus c aw))"
  proof (cases c)
    case Axis_spin
    with climb_at_spin[OF Cons.prems(1)] show ?thesis by (simp add: spins_def spin_axis)
  qed (use Cons.prems in \<open>auto simp: spins_def undisturbed_def climb_at_def\<close>)
  from Cons.IH[OF this] Cons.prems(2) show ?case
    by (cases c) (auto simp: spins_def)
qed

text \<open>What the valve understands, and a bus that refuses anything else.\<close>

definition legal_setpoint :: "int \<Rightarrow> bool" where
  "legal_setpoint v \<longleftrightarrow> \<bar>v\<bar> \<le> SETPOINT_FULL_SCALE \<or> \<bar>v\<bar> = SETPOINT_FLOAT"

definition legal_word :: "u16 \<Rightarrow> bool" where
  "legal_word w \<longleftrightarrow> w \<in> {CW_FAULT_RESET, CW_INIT, CW_DISABLED, CW_HOLD, CW_ACTIVE}"

definition guarded :: "'w bus \<Rightarrow> 'w bus" where
  "guarded bus = bus\<lparr>uset := \<lambda>t i s v w.
     if (t, i, s) = (U16, CONTROLWORD, 0) \<and> legal_word (word_of_int v) \<or> (t, i, s) = (I16, SETPOINT, 1) \<and> legal_setpoint v
     then uset bus t i s v w else (Inl (Std_exception ''refused''), w)\<rparr>"

definition axis_legal :: "axis \<Rightarrow> bool" where
  "axis_legal a \<longleftrightarrow> legal_word (current_cw a) \<and> legal_setpoint (last_setpoint a)"

lemma clamp_setpoint_legal [simp]: "legal_setpoint (clamp_setpoint raw)"
  by (auto simp: legal_setpoint_def clamp_setpoint_def SETPOINT_FULL_SCALE_def SETPOINT_FLOAT_def)

lemma legal_constants [simp]: "legal_setpoint 0" "legal_word CW_HOLD" "legal_word CW_DISABLED"
  by (simp_all add: legal_setpoint_def SETPOINT_FULL_SCALE_def legal_word_def)

lemma phase_word_legal: "phase_word ph = Some w \<Longrightarrow> legal_word w"
  by (cases ph) (auto simp: legal_word_def)

lemma advanced_legal: "axis_legal a \<Longrightarrow> axis_legal (advanced a)"
  by (auto simp: axis_legal_def advanced_def phase_word_legal split: option.split)

lemma guarded_get [simp]: "axis_get (guarded bus) = axis_get bus" "get_statusword (guarded bus) = get_statusword bus"
  by (simp_all add: axis_get_def guarded_def get_statusword_def fun_eq_iff split: prod.split option.split)

lemma guarded_advance [simp]: "advance_phase_locked (guarded bus) = advance_phase_locked bus"
  unfolding advance_phase_locked_def guarded_get by (rule refl)

lemma guarded_send: "legal_setpoint v \<Longrightarrow> send_setpoint (guarded bus) v aw = send_setpoint bus v aw"
  by (cases aw) (simp add: send_setpoint_def guarded_def split: option.split)

lemma guarded_write: "legal_word v \<Longrightarrow> write_controlword (guarded bus) v aw = write_controlword bus v aw"
  by (cases aw) (simp add: write_controlword_def guarded_def split: option.split)

lemma guarded_exec:
  assumes "axis_legal (fst aw)"
  shows "axis_exec (guarded bus) c aw = axis_exec bus c aw \<and> axis_legal (fst (axis_exec bus c aw))"
proof (cases c)
  case Axis_spin
  let ?aw1 = "advance_phase_locked bus aw"
  have "axis_legal (fst ?aw1)"
    using assms by (simp add: advance_axis advanced_legal)
  then show ?thesis
    using assms
    by (simp add: Axis_spin spin_axis advanced_legal)
      (simp add: spin_once_def Let_def axis_legal_def guarded_write guarded_send write_controlword_axis)
qed (use assms in \<open>simp_all add: axis_legal_def enable_def recover_def hold_def disable_def set_setpoint_def
      guarded_send\<close>)

lemma guarded_run: "axis_legal (fst aw) \<Longrightarrow> axis_run (guarded bus) cs aw = axis_run bus cs aw"
  by (induction cs arbitrary: aw) (simp_all add: guarded_exec)

definition quiet_bus :: "unit bus" where
  "quiet_bus = \<lparr>uget = \<lambda>t i s w. (0, w), uset = \<lambda>t i s v w. (Inr (), w), has_object = \<lambda>i s w. False\<rparr>"

subsection \<open>Properties\<close>

text \<open>C22: Over every history of commands, set points, spins and interference on the bridge, the valve is
  told to follow its set point only after a complete climb: whenever a spin streams the control word
  Active, the words streamed just before are fifteen times Init, Disabled and Hold each, and then
  nothing but Active.\<close>

theorem active_needs_climb:
  assumes "streamed bus cs (HydraulicAxis408_new, w) = us @ CW_ACTIVE # vs"
  shows "\<exists>p m. us = p @ replicate 15 CW_INIT @ replicate 15 CW_DISABLED @ replicate 15 CW_HOLD @ replicate m CW_ACTIVE"
proof -
  have "climbed [] (fst (HydraulicAxis408_new, w))"
    by (simp add: climbed_def HydraulicAxis408_new_def control_words)
  from streamed_climb[OF this assms] show ?thesis
    by (simp add: topped_def ladder_def)
qed

theorem active_needs_climb_witness:
  "\<exists>p m. replicate 15 CW_INIT @ replicate 15 CW_DISABLED @ replicate 15 CW_HOLD @ replicate 2 CW_ACTIVE =
     p @ replicate 15 CW_INIT @ replicate 15 CW_DISABLED @ replicate 15 CW_HOLD @ replicate m CW_ACTIVE"
proof -
  have "streamed quiet_bus (Axis_enable # replicate 48 Axis_spin) (HydraulicAxis408_new, None) =
    (replicate 15 CW_INIT @ replicate 15 CW_DISABLED @ replicate 15 CW_HOLD @ replicate 2 CW_ACTIVE) @ CW_ACTIVE # []"
    by (simp add: numeral_eq_Suc streamed_enable streamed_spin spin_axis enable_def advanced_def PHASE_DWELL_TICKS_def
        del: streamed.simps(2))
  from active_needs_climb[OF this] show ?thesis .
qed

text \<open>C23: An enabled climb ends: after \<open>enable\<close>, however set points and other users of the bridge
  interleave, the axis reports that it is enabled exactly from the sixtieth spin on, and streams
  Active from then on, whatever the device answers.\<close>

theorem climb_completes:
  assumes "\<forall>c \<in> set cs. undisturbed c"
  shows "let a = fst (axis_run bus (Axis_enable # cs) aw) in
    (enabled a \<longleftrightarrow> 60 \<le> spins cs) \<and> (60 \<le> spins cs \<longrightarrow> phase a = Ph_Idle \<and> current_cw a = CW_ACTIVE)"
proof -
  have "climb_at 0 (fst (snd (enable aw)))"
    by (simp add: climb_at_def enable_def)
  from climb_at_run[OF this assms, of bus] show ?thesis
    by (simp add: Let_def climb_at_def split: if_split_asm)
qed

theorem climb_completes_witness:
  "enabled (fst (axis_run quiet_bus (Axis_enable # Axis_set 5 # replicate 60 Axis_spin) (HydraulicAxis408_new, Some ())))"
proof -
  have "\<forall>c \<in> set (Axis_set 5 # replicate 60 Axis_spin :: unit axis_call list). undisturbed c"
    by (simp add: undisturbed_def)
  moreover have "spins (Axis_set 5 # replicate 60 Axis_spin :: unit axis_call list) = 60"
    by (simp add: spins_def)
  ultimately show ?thesis
    using climb_completes[of "Axis_set 5 # replicate 60 Axis_spin" quiet_bus "(HydraulicAxis408_new, Some ())"]
    unfolding Let_def by (simp del: axis_run_simps)
qed

text \<open>C24: Only values the valve understands are ever sent: over every history from the construction of the
  axis on, whatever set points it is asked for, a bus that refuses all control words but the five
  commands and all set points beyond full scale but the two that request the float state cannot be
  told from the real one.\<close>

theorem only_legal_values:
  "axis_run (guarded bus) cs (HydraulicAxis408_new, w) = axis_run bus cs (HydraulicAxis408_new, w)"
  by (rule guarded_run)
    (simp add: axis_legal_def HydraulicAxis408_new_def legal_word_def legal_setpoint_def SETPOINT_FULL_SCALE_def)

end
