(* ===== verification/Rounding.thy ===== *)
theory Rounding
  imports Prelude
begin

text \<open>
  Rounding of a \<open>double\<close> to an integer, as the drivers for CiA 408 and CiA 410 devices use it.
\<close>

text \<open>\<open>std::lround\<close> rounds half away from zero. What it returns for values that do not fit is not
  specified, so it is a parameter.\<close>

definition round_half_away :: "real \<Rightarrow> int" where
  "round_half_away x = (if 0 \<le> x then \<lfloor>x + 1 / 2\<rfloor> else - \<lfloor>1 / 2 - x\<rfloor>)"

definition lround_law :: "(double \<Rightarrow> int) \<Rightarrow> bool" where
  "lround_law lround \<longleftrightarrow>
    (\<forall>x. - (2 ^ 63) \<le> round_half_away x \<and> round_half_away x < 2 ^ 63 \<longrightarrow> lround (Fin x) = round_half_away x)"

definition plain_lround :: "double \<Rightarrow> int" where
  "plain_lround v = (case v of Fin x \<Rightarrow> round_half_away x | _ \<Rightarrow> 0)"

lemma plain_lround_law: "lround_law plain_lround"
  by (simp add: lround_law_def plain_lround_def)

lemma round_half_away_near: "\<bar>of_int (round_half_away x) - x\<bar> \<le> 1 / 2"
proof (cases "0 \<le> x")
  case True
  then show ?thesis
    using floor_correct[of "x + 1 / 2"] by (simp only: round_half_away_def if_True) linarith
next
  case False
  then show ?thesis
    using floor_correct[of "1 / 2 - x"] by (simp only: round_half_away_def if_False of_int_minus) linarith
qed

lemma round_half_away_bounds:
  "of_int l - 1 / 2 < x \<Longrightarrow> x < of_int u + 1 / 2 \<Longrightarrow> l \<le> round_half_away x \<and> round_half_away x \<le> u"
  using round_half_away_near[of x] by linarith

lemma round_half_away_abs: "\<bar>y\<bar> \<le> of_int n \<Longrightarrow> - n \<le> round_half_away y \<and> round_half_away y \<le> n"
  using round_half_away_near[of y] by linarith

end
