(* ===== verification/Driver408.thy ===== *)
theory Driver408
  imports ProxyDriver MotorBridge HydraulicAxis Rounding
begin

text \<open>
  The CiA 408 driver (\<open>canopen_408_driver\<close>, \<open>node_canopen_408_driver.hpp\<close> and its implementation): a proxy
  driver with one hydraulic valve. It scales set points and positions, drives the valve from its poll
  timer and publishes the faults of the device.
\<close>

subsection \<open>State\<close>

record topic_names =
  spool_position_name :: string
  demand_name :: string
  status_word_name :: string
  pcb_temperature_name :: string
  fault_name :: string
  target_name :: string

text \<open>\<open>axis_bridge\<close> is the bridge the axis keeps alive when the driver has dropped its pointer.\<close>

record ('w, 'e) driver408 =
  axis_ptr :: "axis option"
  axis_bridge :: "'w option"
  spool_topic :: "double list"
  status_topic :: "int list"
  fault_topic :: "string list"
  scale_to_dev :: double
  scale_from_dev :: double
  offset :: double
  float_setpoint_raw :: int
  names408 :: topic_names
  publishers :: bool
  services408 :: "string list"
  d408_rest :: 'e

type_synonym ('d, 'n, 'e) d408_node = "('d, 'n, (('d, 'n) bridge, 'e) driver408) proxy_node"

definition x408 :: "('d, 'n, 'e) d408_node \<Rightarrow> (('d, 'n) bridge, 'e) driver408" where
  "x408 d = proxy_rest (ext (derived d))"

definition upd408 ::
  "((('d, 'n) bridge, 'e) driver408 \<Rightarrow> (('d, 'n) bridge, 'e) driver408) \<Rightarrow> ('d, 'n, 'e) d408_node \<Rightarrow> ('d, 'n, 'e) d408_node" where
  "upd408 f d = upd_proxy (\<lambda>p. p\<lparr>proxy_rest := f (proxy_rest p)\<rparr>) d"

definition NodeCanopen408Driver_new :: "'e \<Rightarrow> ('w, 'e) driver408" where
  "NodeCanopen408Driver_new e =
    \<lparr>axis_ptr = None, axis_bridge = None, spool_topic = [], status_topic = [], fault_topic = [],
     scale_to_dev = Fin (16384 / 100), scale_from_dev = Fin (1 / (16384 / 100)), offset = Fin 0,
     float_setpoint_raw = SETPOINT_FLOAT,
     names408 = \<lparr>spool_position_name = ''~/spool_position'', demand_name = ''~/demand'',
        status_word_name = ''~/status_word'', pcb_temperature_name = ''~/pcb_temperature'',
        fault_name = ''~/fault'', target_name = ''~/target''\<rparr>,
     publishers = False, services408 = [], d408_rest = e\<rparr>"

subsection \<open>Configuration\<close>

definition d408_init :: "('d, 'n, 'e) d408_node \<Rightarrow> (('d, 'n, 'e) d408_node, unit) outcome" where
  "d408_init d = proxy_init d"

definition configure408 :: "yaml \<Rightarrow> string \<Rightarrow> ('w, 'e) driver408 \<Rightarrow> ('w, 'e) driver408" where
  "configure408 doc node x =
    (let name = (\<lambda>key old. or_default (as_string doc [key]) old); n = names408 x in
     x\<lparr>scale_to_dev := or_default (as_double doc [''scale_target_to_dev'']) (scale_to_dev x),
       scale_from_dev := or_default (as_double doc [''scale_actual_from_dev'']) (scale_from_dev x),
       offset := or_default (as_double doc [''offset'']) (offset x),
       float_setpoint_raw :=
         (case as_int doc [''float_setpoint_raw''] of None \<Rightarrow> float_setpoint_raw x | Some v \<Rightarrow> cast_int I16 v),
       names408 :=
         \<lparr>spool_position_name = name ''spool_position_topic'' (spool_position_name n),
          demand_name = name ''demand_topic'' (demand_name n),
          status_word_name = name ''status_word_topic'' (status_word_name n),
          pcb_temperature_name = name ''pcb_temperature_topic'' (pcb_temperature_name n),
          fault_name = name ''fault_topic'' (fault_name n),
          target_name = name ''target_topic'' (target_name n)\<rparr>,
       publishers := True,
       services408 := map (\<lambda>s. node @ ''/'' @ s)
         [''enable'', ''disable'', ''hold'', ''recover'', ''float'', ''save'', ''set_position'']\<rparr>)"

definition d408_configure :: "('d, 'n, 'e) d408_node \<Rightarrow> (('d, 'n, 'e) d408_node, unit) outcome" where
  "d408_configure d =
    bindE (base_configure d) (\<lambda>u d1. (Inr (), upd408 (configure408 (dn_config d1) (dn_name d1)) d1))"

subsection \<open>The axis of the node\<close>

definition bridge_of_axis :: "('d, 'n, 'e) d408_node \<Rightarrow> ('d, 'n) bridge option" where
  "bridge_of_axis d =
    (case lely_driver (derived d) of Some b \<Rightarrow> Some b | None \<Rightarrow> axis_bridge (x408 d))"

definition put_axis :: "('d, 'n) bridge axis_io \<Rightarrow> ('d, 'n, 'e) d408_node \<Rightarrow> ('d, 'n, 'e) d408_node" where
  "put_axis aw d =
    (let d1 = upd408 (\<lambda>x. x\<lparr>axis_ptr := Some (fst aw)\<rparr>) d in
     case (lely_driver (derived d), snd aw) of
       (Some b0, Some b) \<Rightarrow> set_bridge b d1
     | (None, w) \<Rightarrow> upd408 (\<lambda>x. x\<lparr>axis_bridge := w\<rparr>) d1
     | (Some b0, None) \<Rightarrow> d1)"

definition on_axis ::
  "(('d, 'n) bridge axis_io \<Rightarrow> 'a \<times> ('d, 'n) bridge axis_io) \<Rightarrow> ('d, 'n, 'e) d408_node
   \<Rightarrow> 'a option \<times> ('d, 'n, 'e) d408_node" where
  "on_axis f d =
    (case axis_ptr (x408 d) of
       None \<Rightarrow> (None, d)
     | Some a \<Rightarrow> (case f (a, bridge_of_axis d) of (r, aw) \<Rightarrow> (Some r, put_axis aw d)))"

text \<open>\<open>axis_ ? axis_->f() : false\<close>.\<close>

definition axis_command ::
  "(('d, 'n) bridge axis_io \<Rightarrow> bool \<times> ('d, 'n) bridge axis_io) \<Rightarrow> ('d, 'n, 'e) d408_node
   \<Rightarrow> bool \<times> ('d, 'n, 'e) d408_node" where
  "axis_command f d = (case on_axis f d of (r, d1) \<Rightarrow> (r = Some True, d1))"

definition enable_axis :: "('d, 'n, 'e) d408_node \<Rightarrow> bool \<times> ('d, 'n, 'e) d408_node" where
  "enable_axis d = axis_command enable d"

definition disable_axis :: "('d, 'n, 'e) d408_node \<Rightarrow> bool \<times> ('d, 'n, 'e) d408_node" where
  "disable_axis d = axis_command disable d"

definition hold_axis :: "('d, 'n, 'e) d408_node \<Rightarrow> bool \<times> ('d, 'n, 'e) d408_node" where
  "hold_axis d = axis_command hold d"

definition recover_axis :: "('d, 'n, 'e) d408_node \<Rightarrow> bool \<times> ('d, 'n, 'e) d408_node" where
  "recover_axis d = axis_command recover d"

definition float_axis :: "('d, 'n) bridge bus \<Rightarrow> ('d, 'n, 'e) d408_node \<Rightarrow> bool \<times> ('d, 'n, 'e) d408_node" where
  "float_axis bus d = axis_command (set_setpoint bus (float_setpoint_raw (x408 d))) d"

definition save_axis ::
  "(int_type \<Rightarrow> u16 \<Rightarrow> u8 \<Rightarrow> int \<Rightarrow> ('d, 'n) bridge \<Rightarrow> (('d, 'n) bridge, bool) blocking) \<Rightarrow> ('d, 'n, 'e) d408_node
   \<Rightarrow> (bool \<times> ('d, 'n, 'e) d408_node) option" where
  "save_axis sdo_write d =
    (case axis_ptr (x408 d) of
       None \<Rightarrow> Some (False, d)
     | Some a \<Rightarrow> (case save_to_eeprom sdo_write (a, bridge_of_axis d) of
                    None \<Rightarrow> None | Some (r, aw) \<Rightarrow> Some (r, put_axis aw d)))"

text \<open>The set point of a position: the result of \<open>lround\<close> is a \<open>long\<close>, stored in an \<open>int32_t\<close> and cast
  to \<open>int16_t\<close> before the axis clamps it.\<close>

definition raw_setpoint :: "(double \<Rightarrow> int) \<Rightarrow> ('w, 'e) driver408 \<Rightarrow> double \<Rightarrow> int" where
  "raw_setpoint lround x percent =
    cast_int I16 (cast_int I32 (lround (d_mul (d_add percent (d_neg (offset x))) (scale_to_dev x))))"

definition set_position ::
  "('d, 'n) bridge bus \<Rightarrow> (double \<Rightarrow> int) \<Rightarrow> double \<Rightarrow> ('d, 'n, 'e) d408_node \<Rightarrow> bool \<times> ('d, 'n, 'e) d408_node" where
  "set_position bus lround percent d =
    axis_command (set_setpoint bus (raw_setpoint lround (x408 d) percent)) d"

definition node_spool_position :: "('d, 'n) bridge bus \<Rightarrow> ('d, 'n, 'e) d408_node \<Rightarrow> double \<times> ('d, 'n, 'e) d408_node" where
  "node_spool_position bus d =
    (case on_axis (HydraulicAxis.get_spool_position bus) d of
       (None, d1) \<Rightarrow> (Fin 0, d1)
     | (Some v, d1) \<Rightarrow> (d_add (d_mul (Fin (of_int v)) (scale_from_dev (x408 d))) (offset (x408 d)), d1))"

subsection \<open>Life cycle\<close>

text \<open>\<open>deactivate\<close> lets the executor drop the axis; \<open>drained\<close>: it gets to it.\<close>

definition d408_deactivate :: "bool \<Rightarrow> ('d, 'n, 'e) d408_node \<Rightarrow> (('d, 'n, 'e) d408_node, unit) outcome" where
  "d408_deactivate drained d =
    bindE (base_deactivate (snd (disable_axis d)))
      (\<lambda>u d1. (Inr (), if drained then upd408 (\<lambda>x. x\<lparr>axis_ptr := None, axis_bridge := None\<rparr>) d1 else d1))"

definition d408_add_to_master ::
  "'d dict_ops \<Rightarrow> 'n network \<Rightarrow> ('d, 'n, (('d, 'n) bridge, 'e) driver408 proxy) base_env \<Rightarrow> ('d, 'n, 'e) d408_node
   \<Rightarrow> (('d, 'n, 'e) d408_node, unit) outcome" where
  "d408_add_to_master dops nops env d =
    bindE (base_add_to_master dops nops env d) (\<lambda>u d1.
      (Inr (), upd408 (\<lambda>x. x\<lparr>axis_ptr := Some HydraulicAxis408_new, axis_bridge := lely_driver (derived d1)\<rparr>) d1))"

text \<open>Dropping the bridge leaves it to the axis.\<close>

definition d408_remove_from_master ::
  "('d, 'n, (('d, 'n) bridge, 'e) driver408 proxy) base_env \<Rightarrow> ('d, 'n, 'e) d408_node
   \<Rightarrow> (('d, 'n, 'e) d408_node, unit) outcome" where
  "d408_remove_from_master env d =
    base_remove_from_master env (upd408 (\<lambda>x. x\<lparr>axis_bridge := bridge_of_axis d\<rparr>) d)"

definition d408_hooks ::
  "'d dict_ops \<Rightarrow> 'n network \<Rightarrow> ('d, 'n, (('d, 'n) bridge, 'e) driver408 proxy) base_env \<Rightarrow> bool
   \<Rightarrow> ('d, 'n, (('d, 'n) bridge, 'e) driver408 proxy) base_driver driver_hooks" where
  "d408_hooks dops nops env drained =
    (base_hooks dops nops env)\<lparr>h_init := d408_init, h_configure := d408_configure,
       h_deactivate := d408_deactivate drained, add_to_master := d408_add_to_master dops nops env,
       remove_from_master := d408_remove_from_master env\<rparr>"

subsection \<open>Faults\<close>

definition hex_char :: "nat \<Rightarrow> char" where
  "hex_char d = ''0123456789ABCDEF'' ! d"

definition show_hex :: "nat \<Rightarrow> nat \<Rightarrow> string" where
  "show_hex width n = map (\<lambda>i. hex_char (n div 16 ^ i mod 16)) (rev [0..<width])"

text \<open>\<open>snprintf\<close> into a buffer of 256 characters.\<close>

definition fault_text :: "COEmcy \<Rightarrow> string" where
  "fault_text e =
    take 255 (''EMCY 0x'' @ show_hex 4 (unat (eec e)) @ '' err_reg=0x'' @ show_hex 2 (unat (er e)) @
      '' severity='' @ pved_severity_name (msef e ! 4) @ '' fault_id='' @ show_nat (unat (msef e ! 1)) @
      '' occ='' @ show_nat (unat (msef e ! 0)) @ '' : '' @
      (case pved_fault_name (eec e) of None \<Rightarrow> ''undocumented fault'' | Some n \<Rightarrow> n))"

definition d408_on_emcy :: "COEmcy \<Rightarrow> ('d, 'n, 'e) d408_node \<Rightarrow> (('d, 'n, 'e) d408_node, unit) outcome" where
  "d408_on_emcy e d =
    bindE (base_on_emcy e d) (\<lambda>u d1.
      (Inr (), if publishers (x408 d1) then upd408 (\<lambda>x. x\<lparr>fault_topic := fault_topic x @ [fault_text e]\<rparr>) d1 else d1))"

definition d408_virtuals :: "('d, 'n, (('d, 'n) bridge, 'e) driver408 proxy) base_driver virtuals" where
  "d408_virtuals = proxy_virtuals\<lparr>v_emcy := d408_on_emcy\<rparr>"

subsection \<open>Polling\<close>

definition publish_axis :: "('d, 'n) bridge bus \<Rightarrow> ('d, 'n, 'e) d408_node \<Rightarrow> ('d, 'n, 'e) d408_node" where
  "publish_axis bus d =
    (if axis_ptr (x408 d) = None then d
     else (let (p, d1) = node_spool_position bus d;
               d2 = upd408 (\<lambda>x. x\<lparr>spool_topic := spool_topic x @ [p]\<rparr>) d1;
               (sw, d3) = on_axis (get_statusword bus) d2
           in upd408 (\<lambda>x. x\<lparr>status_topic := status_topic x @ [case sw of None \<Rightarrow> 0 | Some v \<Rightarrow> v]\<rparr>) d3))"

definition d408_poll :: "('d, 'n) bridge bus \<Rightarrow> ('d, 'n, 'e) d408_node \<Rightarrow> ('d, 'n, 'e) d408_node option" where
  "d408_poll bus d =
    (case poll_timer_callback d408_virtuals d of
       None \<Rightarrow> None
     | Some d1 \<Rightarrow> Some (publish_axis bus (snd (on_axis (\<lambda>aw. ((), spin_once bus aw)) d1))))"

subsection \<open>The contract of the base driver\<close>

lemma upd408_simps [simp]:
  "x408 (upd408 f d) = f (x408 d)" "lely_driver (derived (upd408 f d)) = lely_driver (derived d)"
  "same_flags d (upd408 f d)" "activated (upd408 f d) = activated d"
  by (simp_all add: upd408_def x408_def)

lemma set_bridge_408 [simp]: "x408 (set_bridge b d) = x408 d"
  by (simp add: set_bridge_def x408_def)

lemma upd408_then [simp]: "same_flags d d' \<Longrightarrow> same_flags d (upd408 f d')"
  by (rule same_flags_trans[OF _ upd408_simps(3)])

lemma put_axis_result:
  "same_flags d (put_axis aw d)" "axis_ptr (x408 (put_axis aw d)) = Some (fst aw)"
  "poll_timer (derived (put_axis aw d)) = poll_timer (derived d)"
  by (auto simp: put_axis_def Let_def upd408_def upd_proxy_def set_bridge_def x408_def
      intro: same_flags_trans split: option.split)

lemma on_axis_flags: "same_flags d (snd (on_axis f d))"
  by (auto simp: on_axis_def put_axis_result split: option.split prod.split)

lemma disable_axis_flags [simp]: "same_flags d (snd (disable_axis d))"
  using on_axis_flags[of d disable] by (cases "on_axis disable d") (simp add: disable_axis_def axis_command_def)

lemma d408_contract:
  fixes env :: "('d, 'n, (('d, 'n) bridge, 'e) driver408 proxy) base_env"
  shows "driver_contract (d408_hooks dops nops env drained)"
proof -
  note base = base_contract[of dops nops env, unfolded driver_contract_def]
  have deact: "same_flags x (snd (base_deactivate x))" for x :: "('d, 'n, 'e) d408_node"
    by (auto simp: base_deactivate_def Let_def)
  have "same_flags d (snd (d408_init d))" for d :: "('d, 'n, 'e) d408_node"
    by (simp add: d408_init_def proxy_init_def)
  moreover have "same_flags d (snd (d408_configure d))" for d :: "('d, 'n, 'e) d408_node"
  proof -
    have "same_flags d (snd (base_configure d))"
      by (simp add: base_configure_def Let_def same_flags_def)
    then show ?thesis
      unfolding d408_configure_def by (rule same_flags_bind) simp
  qed
  moreover have "same_flags d (snd (d408_deactivate drained d))" for d :: "('d, 'n, 'e) d408_node"
    unfolding d408_deactivate_def
    by (rule same_flags_bind) (simp_all add: same_flags_trans[OF disable_axis_flags deact])
  moreover have "same_flags d (snd (d408_add_to_master dops nops env d))" for d
    unfolding d408_add_to_master_def
    using base by (intro same_flags_bind) (auto simp: base_hooks_def, metis prod.collapse)
  moreover have "same_flags d (snd (d408_remove_from_master env d))" for d
  proof -
    have "same_flags x (snd (base_remove_from_master env x))" for x
      by (auto simp: base_remove_from_master_def Let_def split: posted.split)
    then show ?thesis
      unfolding d408_remove_from_master_def by (rule same_flags_trans[OF upd408_simps(3)])
  qed
  ultimately show ?thesis
    using base
    unfolding d408_hooks_def driver_contract_def by (simp add: base_hooks_def outcome_flags_iff)
qed

interpretation d8: driver_env "table_lib doc" "d408_hooks dops nops env drained" for doc dops nops env drained
  by (intro driver_env.intro tl.client_library_axioms d408_contract)

subsection \<open>Set points\<close>

lemma set_position_axis:
  assumes "set_position bus lround v d = (r, d')" "axis_ptr (x408 d) = Some a"
  shows "axis_ptr (x408 d') = Some (a\<lparr>last_setpoint := clamp_setpoint (raw_setpoint lround (x408 d) v)\<rparr>)"
proof -
  let ?p = "set_setpoint bus (raw_setpoint lround (x408 d) v) (a, bridge_of_axis d)"
  have "d' = put_axis (snd ?p) d"
    using assms by (cases ?p) (simp add: set_position_def axis_command_def on_axis_def)
  then show ?thesis
    by (simp add: put_axis_result)
qed

lemma cast_int_I16: "cast_int I16 v = (v + 32768) mod 65536 - 32768"
  by (simp add: cast_int_def signed_take_bit_eq_take_bit_shift take_bit_eq_mod)

lemma raw_setpoint_eq:
  assumes "lround_law lround" "offset x = Fin q" "scale_to_dev x = Fin s"
    "l \<le> round_half_away ((p - q) * s)" "round_half_away ((p - q) * s) \<le> u" "- (2 ^ 31) \<le> l" "u < 2 ^ 31"
  shows "raw_setpoint lround x (Fin p) = cast_int I16 (round_half_away ((p - q) * s))"
proof -
  let ?r = "round_half_away ((p - q) * s)"
  have "lround (Fin ((p - q) * s)) = ?r"
    using assms(1,4-7) by (simp add: lround_law_def)
  moreover have "cast_int I32 ?r = ?r"
    using assms(4-7) by (intro cast_int_id) (simp add: in_type_def type_limits)
  ultimately show ?thesis
    by (simp add: raw_setpoint_def assms(2,3))
qed

subsection \<open>An enabled valve\<close>

definition valve_node :: "(u16 \<times> u8 \<rightharpoonup> co_type \<times> int, device_memory, unit) d408_node" where
  "valve_node =
    (fresh_node (base_x \<lparr>nmt_topic = [], rpdo_topic = [], interface = True, proxy_rest =
         (NodeCanopen408Driver_new ())\<lparr>axis_ptr := Some (HydraulicAxis408_new\<lparr>enabled := True, current_cw := CW_ACTIVE\<rparr>)\<rparr>\<rparr>
       \<lparr>lely_driver := Some example_bridge, nmt_thread := True, poll_timer := Some (Running 10)\<rparr>))
    \<lparr>exec_master := Some 7, master_set := True, initialised := True, configured := True, activated := True\<rparr>"

lemma valve_node_simps [simp]:
  "axis_ptr (x408 valve_node) = Some (HydraulicAxis408_new\<lparr>enabled := True, current_cw := CW_ACTIVE\<rparr>)"
  "offset (x408 valve_node) = Fin 0" "scale_to_dev (x408 valve_node) = Fin (16384 / 100)"
  "poll_timer (derived valve_node) = Some (Running 10)" "lely_driver (derived valve_node) = Some example_bridge"
  by (simp_all add: valve_node_def fresh_node_def base_x_def x408_def NodeCanopen408Driver_new_def)

subsection \<open>Properties\<close>

text \<open>C25: A position within full scale reaches the valve as the nearest set point: the set point that the
  axis streams from then on is within full scale, and scaled back it is the requested position up to
  half a step of the device.\<close>

theorem position_accuracy:
  assumes "lround_law lround" "set_position bus lround (Fin p) d = (r, d')" "axis_ptr (x408 d) = Some a"
    "offset (x408 d) = Fin q" "scale_to_dev (x408 d) = Fin s" "0 < s" "\<bar>(p - q) * s\<bar> \<le> 16384"
  shows "\<exists>a'. axis_ptr (x408 d') = Some a' \<and> \<bar>last_setpoint a'\<bar> \<le> SETPOINT_FULL_SCALE \<and>
    \<bar>of_int (last_setpoint a') * (1 / s) + q - p\<bar> \<le> 1 / (2 * s)"
proof -
  let ?y = "(p - q) * s" and ?r = "round_half_away ((p - q) * s)"
  have r: "- 16384 \<le> ?r" "?r \<le> 16384"
    using round_half_away_bounds[of "- 16384" ?y 16384] assms(7) by auto
  have "raw_setpoint lround (x408 d) (Fin p) = cast_int I16 ?r"
    by (rule raw_setpoint_eq[OF assms(1,4,5) r]) simp_all
  also have "cast_int I16 ?r = ?r"
    using r by (intro cast_int_id) (simp add: in_type_def type_limits)
  finally have clamp: "clamp_setpoint (raw_setpoint lround (x408 d) (Fin p)) = ?r"
    using r by (simp add: clamp_setpoint_def SETPOINT_FULL_SCALE_def SETPOINT_FLOAT_def)
  have "of_int ?r * (1 / s) + q - p = (of_int ?r - ?y) / s"
    using assms(6) by (simp add: field_simps)
  then have "\<bar>of_int ?r * (1 / s) + q - p\<bar> = \<bar>of_int ?r - ?y\<bar> / s"
    using assms(6) by (simp add: abs_divide)
  also have "\<dots> \<le> 1 / 2 / s"
    using assms(6) round_half_away_near[of ?y] by (intro divide_right_mono) auto
  finally show ?thesis
    using set_position_axis[OF assms(2,3)] clamp r by (simp add: SETPOINT_FULL_SCALE_def)
qed

theorem position_accuracy_witness:
  "\<exists>a'. axis_ptr (x408 (snd (set_position (bridge_bus table_ops device_net) plain_lround (Fin 25) valve_node))) = Some a' \<and>
    \<bar>last_setpoint a'\<bar> \<le> SETPOINT_FULL_SCALE \<and>
    \<bar>of_int (last_setpoint a') * (1 / (16384 / 100)) + 0 - 25\<bar> \<le> 1 / (2 * (16384 / 100 :: real))"
  by (rule position_accuracy[OF plain_lround_law surjective_pairing valve_node_simps(1-3)]) simp_all

text \<open>With the default scale a request beyond full scale is clamped only up to almost 200 percent:
  the number is truncated to sixteen bits before it is clamped, so that from 200.01 to 300 percent
  the valve is sent to full scale in the opposite direction, and just below 200 percent it is asked to
  float.\<close>

theorem over_range_reverses:
  assumes "lround_law lround" "set_position bus lround (Fin p) d = (r, d')" "axis_ptr (x408 d) = Some a"
    "offset (x408 d) = Fin 0" "scale_to_dev (x408 d) = Fin (16384 / 100)"
  shows "(100 \<le> p \<and> p \<le> 199.99 \<longrightarrow> map_option last_setpoint (axis_ptr (x408 d')) = Some SETPOINT_FULL_SCALE) \<and>
    (199.991 \<le> p \<and> p \<le> 199.996 \<longrightarrow> map_option last_setpoint (axis_ptr (x408 d')) = Some SETPOINT_FLOAT) \<and>
    (200.01 \<le> p \<and> p \<le> 300 \<longrightarrow> map_option last_setpoint (axis_ptr (x408 d')) = Some (- SETPOINT_FULL_SCALE))"
proof -
  let ?y = "(p - 0) * (16384 / 100)" and ?r = "round_half_away ((p - 0) * (16384 / 100))"
  have set: "map_option last_setpoint (axis_ptr (x408 d')) = Some (clamp_setpoint (cast_int I16 ?r))"
    if "l \<le> ?r" "?r \<le> u" "0 \<le> l" "u \<le> 50000" for l u
    using set_position_axis[OF assms(2,3)] raw_setpoint_eq[OF assms(1,4,5) that(1,2)] that(3,4) by simp
  have clamps: "clamp_setpoint (cast_int I16 z) = 16384" if "z \<in> {16384..32766}" for z
    using that by (simp add: clamp_setpoint_def cast_int_I16 SETPOINT_FULL_SCALE_def SETPOINT_FLOAT_def)
  have floats: "clamp_setpoint (cast_int I16 32767) = 32767"
    by (simp add: clamp_setpoint_def cast_int_I16 SETPOINT_FULL_SCALE_def SETPOINT_FLOAT_def)
  have wraps: "clamp_setpoint (cast_int I16 z) = - 16384" if "z \<in> {32770..49152}" for z
  proof -
    from that have "(z + 32768) mod 65536 = z - 32768"
      by (intro int_mod_pos_eq[where q = 1]) simp_all
    with that show ?thesis
      by (simp add: clamp_setpoint_def cast_int_I16 SETPOINT_FULL_SCALE_def SETPOINT_FLOAT_def)
  qed
  show ?thesis
    unfolding SETPOINT_FULL_SCALE_def SETPOINT_FLOAT_def
  proof (intro conjI impI; elim conjE)
    assume "100 \<le> p" "p \<le> 199.99"
    then have "16384 \<le> ?r \<and> ?r \<le> 32766" by (intro round_half_away_bounds) simp_all
    with set[of 16384 32766] clamps[of ?r] show "map_option last_setpoint (axis_ptr (x408 d')) = Some 16384"
      by simp
  next
    assume "199.991 \<le> p" "p \<le> 199.996"
    then have "32767 \<le> ?r \<and> ?r \<le> 32767" by (intro round_half_away_bounds) simp_all
    then have "?r = 32767" by simp
    with set[of 32767 32767] floats show "map_option last_setpoint (axis_ptr (x408 d')) = Some 32767"
      by simp
  next
    assume "200.01 \<le> p" "p \<le> 300"
    then have "32770 \<le> ?r \<and> ?r \<le> 49152" by (intro round_half_away_bounds) simp_all
    with set[of 32770 49152] wraps[of ?r] show "map_option last_setpoint (axis_ptr (x408 d')) = Some (- 16384)"
      by simp
  qed
qed

theorem over_range_reverses_witness:
  "map_option last_setpoint (axis_ptr (x408 (snd (set_position (bridge_bus table_ops device_net) plain_lround (Fin 250) valve_node))))
     = Some (- SETPOINT_FULL_SCALE)"
  using over_range_reverses[OF plain_lround_law surjective_pairing valve_node_simps(1-3),
      where bus = "bridge_bus table_ops device_net" and p = 250] by simp

text \<open>Deactivating an enabled driver does not stop the valve: the control word Disabled that \<open>deactivate\<close>
  asks for is only streamed by the poll timer, which the same deactivation cancels, so the bridge is
  left as it was and the device has last been told to be active.\<close>

theorem deactivate_sends_nothing:
  assumes "driver_deactivate (d408_hooks dops nops env False) d = (Inr (), d')" "axis_ptr (x408 d) = Some a"
    "poll_timer (derived d) = Some (Running ms)" "lely_driver (derived d) = Some b"
  shows "poll_timer (derived d') = Some Cancelled \<and> bridge_of_axis d' = Some b \<and>
    axis_ptr (x408 d') = Some (a\<lparr>phase := Ph_Idle, enabled := False, current_cw := CW_DISABLED\<rparr>)"
proof -
  let ?d0 = "upd408 (\<lambda>x. x\<lparr>axis_bridge := bridge_of_axis (d\<lparr>activated := False\<rparr>)\<rparr>) (d\<lparr>activated := False\<rparr>)"
  obtain d1 where d1: "base_remove_from_master env ?d0 = (Inr (), d1)" "d408_deactivate False d1 = (Inr (), d')"
    using assms(1) by (auto simp: driver_deactivate_def d408_hooks_def driver_throw_def bindE_Inr_iff
        d408_remove_from_master_def split: if_split_asm)
  have "axis_bridge (x408 ?d0) = Some b" "axis_ptr (x408 ?d0) = Some a" "poll_timer (derived ?d0) = Some (Running ms)"
    using assms(2-4) by (simp_all add: bridge_of_axis_def x408_def upd408_def upd_proxy_def)
  then have removed: "axis_bridge (x408 d1) = Some b" "axis_ptr (x408 d1) = Some a" "lely_driver (derived d1) = None"
    "poll_timer (derived d1) = Some (Running ms)"
    using d1(1) by (auto simp: base_remove_from_master_def drop_bridge_def Let_def x408_def split: posted.splits if_split_asm)
  let ?d2 = "snd (disable_axis d1)"
  have "bridge_of_axis d1 = Some b"
    using removed by (simp add: bridge_of_axis_def)
  then have "?d2 = put_axis (snd (disable (a, Some b))) d1"
    using removed(2) by (simp add: disable_axis_def axis_command_def on_axis_def split: prod.split)
  then have disabled: "axis_bridge (x408 ?d2) = Some b" "lely_driver (derived ?d2) = None"
    "axis_ptr (x408 ?d2) = Some (a\<lparr>phase := Ph_Idle, enabled := False, current_cw := CW_DISABLED\<rparr>)"
    "poll_timer (derived ?d2) = Some (Running ms)"
    using removed by (simp_all add: put_axis_result put_axis_def Let_def disable_def upd408_def upd_proxy_def x408_def)
  have "base_deactivate ?d2 = (Inr (), d')"
    using d1(2) by (auto simp: d408_deactivate_def bindE_Inr_iff)
  with disabled show ?thesis
    by (auto simp: base_deactivate_def Let_def x408_def bridge_of_axis_def split: if_split_asm)
qed

theorem deactivate_sends_nothing_witness:
  "bridge_of_axis (snd (driver_deactivate (d408_hooks table_ops device_net prompt_env False) valve_node)) = Some example_bridge"
proof -
  have "driver_deactivate (d408_hooks table_ops device_net prompt_env False) valve_node =
    (Inr (), snd (driver_deactivate (d408_hooks table_ops device_net prompt_env False) valve_node))"
    by (simp add: driver_deactivate_def d408_hooks_def d408_remove_from_master_def base_remove_from_master_def
        prompt_env_def valve_node_def fresh_node_def base_x_def Let_def d408_deactivate_def disable_axis_def
        axis_command_def on_axis_def base_deactivate_def x408_def upd408_def upd_proxy_def bridge_of_axis_def
        put_axis_def drop_bridge_def disable_def NodeCanopen408Driver_new_def)
  from deactivate_sends_nothing[OF this valve_node_simps(1,4,5)] show ?thesis by simp
qed

end
