(* ===== verification/ControlSystem.thy ===== *)
theory ControlSystem
  imports ProxyDriver Modes402 DeviceContainer
begin

text \<open>
  The hardware component of ros2\_control for a bus of proxy drivers (\<open>canopen_ros2_control\<close>,
  \<open>canopen_system.hpp\<close> and \<open>canopen_system.cpp\<close>): the data of a node that controllers see as doubles,
  the callbacks that fill it, and the control cycle that hands commands over to the drivers.
\<close>

subsection \<open>Conversions\<close>

text \<open>\<open>static_cast\<close> from \<open>double\<close> to an integer type truncates; what it does to values that do not fit is
  undefined, so it is a parameter.\<close>

type_synonym static_cast = "int_type \<Rightarrow> double \<Rightarrow> int"

definition static_cast_law :: "static_cast \<Rightarrow> bool" where
  "static_cast_law sc \<longleftrightarrow> (\<forall>t r. in_type t (trunc r) \<longrightarrow> sc t (Fin r) = trunc r)"

definition plain_cast :: static_cast where
  "plain_cast t v = (case v of Fin r \<Rightarrow> (if in_type t (trunc r) then trunc r else 0) | _ \<Rightarrow> 0)"

lemma plain_cast_law: "static_cast_law plain_cast"
  by (simp add: static_cast_law_def plain_cast_def)

definition SUPPORTED_TYPES :: "string list" where
  "SUPPORTED_TYPES = [''bool'', ''int8_t'', ''uint8_t'', ''int16_t'', ''uint16_t'', ''int32_t'', ''uint32_t'']"

text \<open>The integer type that a name stands for; \<open>bool\<close> is not one of them.\<close>

definition type_names :: "(string \<times> int_type) list" where
  "type_names = [(''int8_t'', I8), (''uint8_t'', U8), (''int16_t'', I16), (''uint16_t'', U16), (''int32_t'', I32),
     (''uint32_t'', U32)]"

text \<open>\<open>memcpy\<close> between a value and the low bytes of the 32 bits of a \<open>COData\<close>.\<close>

definition copy_out :: "int_type \<Rightarrow> u32 \<Rightarrow> int" where
  "copy_out t v = cast_int t (uint v)"

definition low_mask :: "nat \<Rightarrow> u32" where
  "low_mask n = word_of_int (2 ^ n - 1)"

definition copy_in :: "nat \<Rightarrow> int \<Rightarrow> u32 \<Rightarrow> u32" where
  "copy_in n v old = (old AND NOT (low_mask n)) OR (word_of_int v AND low_mask n)"

text \<open>\<open>RORos2ControlCOData::prepare_data\<close> and \<open>WORos2ControlCoData::prepare_data\<close>.\<close>

definition ro_value :: "string \<Rightarrow> u32 \<Rightarrow> double" where
  "ro_value co_type v =
    (if co_type = ''bool'' then Fin (if take_bit 8 v \<noteq> 0 then 1 else 0)
     else (case map_of type_names co_type of
             Some t \<Rightarrow> Fin (of_int (copy_out t v))
           | None \<Rightarrow> Fin (of_int (uint v))))"

definition wo_raw :: "static_cast \<Rightarrow> string \<Rightarrow> double \<Rightarrow> u32 \<Rightarrow> u32" where
  "wo_raw sc co_type v old =
    (if co_type = ''bool'' then copy_in 8 (if double_neq v (Fin 0) then 1 else 0) old
     else (case map_of type_names co_type of
             Some t \<Rightarrow> copy_in (type_bits t) (sc t v) old
           | None \<Rightarrow> word_of_int (sc U32 v)))"

subsection \<open>The data of a node\<close>

record co_slot =
  original :: COData
  co_index :: double
  co_subindex :: double
  co_value :: double
  co_type_name :: string
  one_shot :: double

definition set_co_data_type :: "string \<Rightarrow> co_slot \<Rightarrow> co_slot" where
  "set_co_data_type ty s =
    s\<lparr>co_type_name := (if ty = [] \<or> ty \<in> set SUPPORTED_TYPES then ty else ''int32_t'')\<rparr>"

definition set_data :: "COData \<Rightarrow> co_slot \<Rightarrow> co_slot" where
  "set_data d s = s\<lparr>original := d\<rparr>"

definition ro_prepare :: "co_slot \<Rightarrow> co_slot" where
  "ro_prepare s =
    s\<lparr>co_index := Fin (of_int (uint (index_of (original s)))),
      co_subindex := Fin (of_int (uint (subindex_of (original s)))),
      co_value := ro_value (co_type_name s) (data_of (original s))\<rparr>"

definition wo_prepare :: "static_cast \<Rightarrow> co_slot \<Rightarrow> co_slot" where
  "wo_prepare sc s =
    s\<lparr>original := \<lparr>index_of = word_of_int (sc U16 (co_index s)), subindex_of = word_of_int (sc U8 (co_subindex s)),
        data_of = wo_raw sc (co_type_name s) (co_value s) (data_of (original s))\<rparr>\<rparr>"

definition write_command :: "co_slot \<Rightarrow> bool \<times> co_slot" where
  "write_command s = (\<not> is_nan (one_shot s), s\<lparr>one_shot := NaN\<rparr>)"

text \<open>An entry of the map is value-initialised: doubles start as zero unless a constructor says
  otherwise. (A slot that is only read has no \<open>one_shot\<close>; it is never looked at.)\<close>

definition co_slot_init :: co_slot where
  "co_slot_init = \<lparr>original = \<lparr>index_of = 0, subindex_of = 0, data_of = 0\<rparr>, co_index = Fin 0, co_subindex = Fin 0,
     co_value = Fin 0, co_type_name = ''int32_t'', one_shot = NaN\<rparr>"

record emcy_slot =
  error_code :: double
  error_register :: double
  manufacturer_error_codes :: "double list"
  original_emcy :: COEmcy

definition emcy_slot_init :: emcy_slot where
  "emcy_slot_init = \<lparr>error_code = Fin 0, error_register = Fin 0, manufacturer_error_codes = replicate 5 (Fin 0),
     original_emcy = \<lparr>eec = 0, er = 0, msef = [0, 0, 0, 0, 0]\<rparr>\<rparr>"

text \<open>\<open>set_emcy\<close> copies two bytes for each of the five, so the last copy reads a byte behind the array,
  \<open>beyond\<close>.\<close>

definition set_emcy :: "u8 \<Rightarrow> COEmcy \<Rightarrow> emcy_slot \<Rightarrow> emcy_slot" where
  "set_emcy beyond e s =
    s\<lparr>original_emcy := e, error_code := Fin (of_int (uint (eec e))), error_register := Fin (of_int (uint (er e))),
      manufacturer_error_codes :=
        map (\<lambda>i. Fin (of_int (uint ((msef e @ [beyond]) ! i) + 256 * uint ((msef e @ [beyond]) ! (i + 1))))) [0..<5]\<rparr>"

record nmt_slot =
  original_state :: NmtState
  nmt_value :: double
  reset_ons :: double
  reset_fbk :: double
  start_ons :: double
  start_fbk :: double

definition nmt_slot_init :: nmt_slot where
  "nmt_slot_init = \<lparr>original_state = BOOTUP, nmt_value = Fin 0, reset_ons = NaN, reset_fbk = NaN, start_ons = NaN,
     start_fbk = NaN\<rparr>"

text \<open>The numbers of the NMT states are those of the CANopen library.\<close>

definition set_state :: "(NmtState \<Rightarrow> int) \<Rightarrow> NmtState \<Rightarrow> nmt_slot \<Rightarrow> nmt_slot" where
  "set_state number st s = s\<lparr>original_state := st, nmt_value := Fin (of_int (number st))\<rparr>"

definition reset_command :: "nmt_slot \<Rightarrow> bool \<times> nmt_slot" where
  "reset_command s = (\<not> is_nan (reset_ons s), s\<lparr>reset_ons := NaN\<rparr>)"

definition start_command :: "nmt_slot \<Rightarrow> bool \<times> nmt_slot" where
  "start_command s = (\<not> is_nan (start_ons s), s\<lparr>start_ons := NaN\<rparr>)"

record node_data =
  nmt_state :: nmt_slot
  rpdo_data :: co_slot
  tpdo_data :: co_slot
  emcy_data :: emcy_slot
  rpdo_data_map :: "u16 \<times> u8 \<rightharpoonup> double"
  rpdo_raw_data_map :: "u16 \<times> u8 \<rightharpoonup> u32"

definition CanopenNodeData_new :: node_data where
  "CanopenNodeData_new = \<lparr>nmt_state = nmt_slot_init, rpdo_data = co_slot_init, tpdo_data = co_slot_init,
     emcy_data = emcy_slot_init, rpdo_data_map = Map.empty, rpdo_raw_data_map = Map.empty\<rparr>"

definition set_rpdo_data :: "COData \<Rightarrow> node_data \<Rightarrow> node_data" where
  "set_rpdo_data d n =
    (let s = ro_prepare (set_data d (rpdo_data n)); k = (index_of d, subindex_of d) in
     n\<lparr>rpdo_data := s, rpdo_raw_data_map := (rpdo_raw_data_map n)(k \<mapsto> data_of d),
       rpdo_data_map := (rpdo_data_map n)(k \<mapsto> co_value s)\<rparr>)"

text \<open>\<open>std::numeric_limits<uint32_t>::quiet_NaN()\<close> is zero.\<close>

definition get_rpdo_raw_data :: "u16 \<Rightarrow> u8 \<Rightarrow> node_data \<Rightarrow> u32" where
  "get_rpdo_raw_data i s n = (case rpdo_raw_data_map n (i, s) of Some v \<Rightarrow> v | None \<Rightarrow> 0)"

definition get_rpdo_data :: "u16 \<Rightarrow> u8 \<Rightarrow> node_data \<Rightarrow> double" where
  "get_rpdo_data i s n = (case rpdo_data_map n (i, s) of Some v \<Rightarrow> v | None \<Rightarrow> NaN)"

subsection \<open>The callbacks\<close>

text \<open>\<open>std::map\<close> from node ids to data, in the order of the ids; \<open>[]\<close> makes a missing entry.\<close>

fun at_entry :: "('k \<Rightarrow> 'k \<Rightarrow> bool) \<Rightarrow> 'v \<Rightarrow> 'k \<Rightarrow> ('v \<Rightarrow> 'v) \<Rightarrow> ('k \<times> 'v) list \<Rightarrow> ('k \<times> 'v) list" where
  "at_entry before new i f [] = [(i, f new)]"
| "at_entry before new i f ((j, n) # rest) =
    (if i = j then (j, f n) # rest
     else if before i j then (i, f new) # (j, n) # rest
     else (j, n) # at_entry before new i f rest)"

definition at_node :: "u16 \<Rightarrow> (node_data \<Rightarrow> node_data) \<Rightarrow> (u16 \<times> node_data) list \<Rightarrow> (u16 \<times> node_data) list" where
  "at_node = at_entry (<) CanopenNodeData_new"

definition nmt_state_cb :: "(NmtState \<Rightarrow> int) \<Rightarrow> NmtState \<Rightarrow> u8 \<Rightarrow> (u16 \<times> node_data) list \<Rightarrow> (u16 \<times> node_data) list" where
  "nmt_state_cb number st i = at_node (ucast i) (\<lambda>n. n\<lparr>nmt_state := set_state number st (nmt_state n)\<rparr>)"

definition system_rpdo_cb :: "COData \<Rightarrow> u8 \<Rightarrow> (u16 \<times> node_data) list \<Rightarrow> (u16 \<times> node_data) list" where
  "system_rpdo_cb d i = at_node (ucast i) (set_rpdo_data d)"

definition system_emcy_cb :: "u8 \<Rightarrow> COEmcy \<Rightarrow> u8 \<Rightarrow> (u16 \<times> node_data) list \<Rightarrow> (u16 \<times> node_data) list" where
  "system_emcy_cb beyond e i = at_node (ucast i) (\<lambda>n. n\<lparr>emcy_data := set_emcy beyond e (emcy_data n)\<rparr>)"

subsection \<open>The interfaces of a joint\<close>

text \<open>The names under which the fields of a node are exported; a joint without a node id exports none.
  \<open>node\<close> is its parameter \<open>node_id\<close> after \<open>std::stoi\<close> and the cast to \<open>uint8_t\<close>.\<close>

record joint =
  joint_name :: string
  joint_node :: "u8 option"

definition state_fields :: "(string \<times> (node_data \<Rightarrow> double)) list" where
  "state_fields =
    [(''rpdo/index'', \<lambda>n. co_index (rpdo_data n)), (''rpdo/subindex'', \<lambda>n. co_subindex (rpdo_data n)),
     (''rpdo/data'', \<lambda>n. co_value (rpdo_data n)), (''nmt/state'', \<lambda>n. nmt_value (nmt_state n)),
     (''emcy/error_code'', \<lambda>n. error_code (emcy_data n)), (''emcy/error_register'', \<lambda>n. error_register (emcy_data n)),
     (''emcy/manufacturer_error_code1'', \<lambda>n. manufacturer_error_codes (emcy_data n) ! 0),
     (''emcy/manufacturer_error_code2'', \<lambda>n. manufacturer_error_codes (emcy_data n) ! 1),
     (''emcy/manufacturer_error_code3'', \<lambda>n. manufacturer_error_codes (emcy_data n) ! 2),
     (''emcy/manufacturer_error_code4'', \<lambda>n. manufacturer_error_codes (emcy_data n) ! 3),
     (''emcy/manufacturer_error_code5'', \<lambda>n. manufacturer_error_codes (emcy_data n) ! 4)]"

definition command_fields :: "(string \<times> (double \<Rightarrow> node_data \<Rightarrow> node_data)) list" where
  "command_fields =
    [(''tpdo/index'', \<lambda>v n. n\<lparr>tpdo_data := (tpdo_data n)\<lparr>co_index := v\<rparr>\<rparr>),
     (''tpdo/subindex'', \<lambda>v n. n\<lparr>tpdo_data := (tpdo_data n)\<lparr>co_subindex := v\<rparr>\<rparr>),
     (''tpdo/data'', \<lambda>v n. n\<lparr>tpdo_data := (tpdo_data n)\<lparr>co_value := v\<rparr>\<rparr>),
     (''tpdo/ons'', \<lambda>v n. n\<lparr>tpdo_data := (tpdo_data n)\<lparr>one_shot := v\<rparr>\<rparr>),
     (''nmt/reset'', \<lambda>v n. n\<lparr>nmt_state := (nmt_state n)\<lparr>reset_ons := v\<rparr>\<rparr>),
     (''nmt/reset_fbk'', \<lambda>v n. n\<lparr>nmt_state := (nmt_state n)\<lparr>reset_fbk := v\<rparr>\<rparr>),
     (''nmt/start'', \<lambda>v n. n\<lparr>nmt_state := (nmt_state n)\<lparr>start_ons := v\<rparr>\<rparr>),
     (''nmt/start_fbk'', \<lambda>v n. n\<lparr>nmt_state := (nmt_state n)\<lparr>start_fbk := v\<rparr>\<rparr>)]"

text \<open>An export makes the entries of the nodes of the joints, and lists joint, interface and node.\<close>

fun export_interfaces ::
  "string list \<Rightarrow> joint list \<Rightarrow> (u16 \<times> node_data) list \<Rightarrow> (string \<times> string \<times> u16) list \<times> (u16 \<times> node_data) list" where
  "export_interfaces names [] data = ([], data)"
| "export_interfaces names (j # js) data =
    (case joint_node j of
       None \<Rightarrow> export_interfaces names js data
     | Some i \<Rightarrow>
         (case export_interfaces names js (at_node (ucast i) (\<lambda>n. n) data) of
            (rest, data') \<Rightarrow> (map (\<lambda>f. (joint_name j, f, ucast i)) names @ rest, data')))"

definition export_state_interfaces where
  "export_state_interfaces = export_interfaces (map fst state_fields)"

definition export_command_interfaces where
  "export_command_interfaces = export_interfaces (map fst command_fields)"

text \<open>Reading a state interface and writing a command interface.\<close>

definition read_interface :: "string \<Rightarrow> u16 \<Rightarrow> (u16 \<times> node_data) list \<Rightarrow> double option" where
  "read_interface name i data =
    (case (map_of state_fields name, map_of data i) of (Some f, Some n) \<Rightarrow> Some (f n) | _ \<Rightarrow> None)"

definition write_interface :: "string \<Rightarrow> u16 \<Rightarrow> double \<Rightarrow> (u16 \<times> node_data) list \<Rightarrow> (u16 \<times> node_data) list" where
  "write_interface name i v data =
    (case map_of command_fields name of None \<Rightarrow> data | Some f \<Rightarrow> at_node i (f v) data)"

subsection \<open>The control cycle\<close>

text \<open>What the cycle asks of the drivers the container has registered, by node id, in a state \<open>'w\<close>.\<close>

record 'w proxy_lib =
  pl_registered :: "u16 \<Rightarrow> 'w \<Rightarrow> bool"
  pl_reset :: "u16 \<Rightarrow> 'w \<Rightarrow> ('w, bool) blocking"
  pl_start :: "u16 \<Rightarrow> 'w \<Rightarrow> ('w, bool) blocking"
  pl_tpdo :: "u16 \<Rightarrow> COData \<Rightarrow> 'w \<Rightarrow> ('w, bool) blocking"

text \<open>A call made while the data of a node are at hand; its result goes into them.\<close>

definition call_with :: "('w, 'a) blocking \<Rightarrow> ('a \<Rightarrow> 'x \<Rightarrow> 'x) \<Rightarrow> 'x \<Rightarrow> ('x \<times> 'w, unit) blocking" where
  "call_with r f x =
    (case r of
       None \<Rightarrow> None
     | Some (Inl e, w) \<Rightarrow> Some (Inl e, x, w)
     | Some (Inr a, w) \<Rightarrow> Some (Inr (), f a x, w))"

definition response :: "bool \<Rightarrow> double" where
  "response ok = Fin (if ok then 1 else 0)"

definition write_reset :: "'w proxy_lib \<Rightarrow> u16 \<Rightarrow> node_data \<times> 'w \<Rightarrow> (node_data \<times> 'w, unit) blocking" where
  "write_reset pl i nw =
    (case nw of (n, w) \<Rightarrow>
      (let (commanded, s) = reset_command (nmt_state n); n1 = n\<lparr>nmt_state := s\<rparr> in
       if commanded
       then call_with (pl_reset pl i w) (\<lambda>ok x. x\<lparr>nmt_state := (nmt_state x)\<lparr>reset_fbk := response ok\<rparr>\<rparr>) n1
       else Some (Inr (), n1, w)))"

definition write_start :: "'w proxy_lib \<Rightarrow> u16 \<Rightarrow> node_data \<times> 'w \<Rightarrow> (node_data \<times> 'w, unit) blocking" where
  "write_start pl i nw =
    (case nw of (n, w) \<Rightarrow>
      (let (commanded, s) = start_command (nmt_state n); n1 = n\<lparr>nmt_state := s\<rparr> in
       if commanded
       then call_with (pl_start pl i w) (\<lambda>ok x. x\<lparr>nmt_state := (nmt_state x)\<lparr>start_fbk := response ok\<rparr>\<rparr>) n1
       else Some (Inr (), n1, w)))"

text \<open>An exception of \<open>tpdo_transmit\<close> is printed and dropped.\<close>

definition write_tpdo :: "'w proxy_lib \<Rightarrow> static_cast \<Rightarrow> u16 \<Rightarrow> node_data \<times> 'w \<Rightarrow> (node_data \<times> 'w, unit) blocking" where
  "write_tpdo pl sc i nw =
    (case nw of (n, w) \<Rightarrow>
      (let (commanded, s) = write_command (tpdo_data n); n1 = n\<lparr>tpdo_data := s\<rparr> in
       if commanded
       then (let n2 = n1\<lparr>tpdo_data := wo_prepare sc s\<rparr> in
             case pl_tpdo pl i (original (tpdo_data n2)) w of
               None \<Rightarrow> None
             | Some (r, w1) \<Rightarrow> Some (Inr (), n2, w1))
       else Some (Inr (), n1, w)))"

definition write_node :: "'w proxy_lib \<Rightarrow> static_cast \<Rightarrow> u16 \<Rightarrow> node_data \<times> 'w \<Rightarrow> (node_data \<times> 'w, unit) blocking" where
  "write_node pl sc i nw =
    bindB (write_reset pl i nw) (\<lambda>u nw1. bindB (write_start pl i nw1) (\<lambda>u nw2. write_tpdo pl sc i nw2))"

fun canopen_write ::
  "'w proxy_lib \<Rightarrow> static_cast \<Rightarrow> (u16 \<times> node_data) list \<Rightarrow> 'w \<Rightarrow> ((u16 \<times> node_data) list \<times> 'w, unit) blocking" where
  "canopen_write pl sc [] w = Some (Inr (), [], w)"
| "canopen_write pl sc ((i, n) # rest) w =
    (if \<not> pl_registered pl i w
     then map_option (map_prod id (map_prod (\<lambda>l. (i, n) # l) id)) (canopen_write pl sc rest w)
     else (case write_node pl sc i (n, w) of
             None \<Rightarrow> None
           | Some (Inl e, n1, w1) \<Rightarrow> Some (Inl e, (i, n1) # rest, w1)
           | Some (Inr u, n1, w1) \<Rightarrow>
               map_option (map_prod id (map_prod (\<lambda>l. (i, n1) # l) id)) (canopen_write pl sc rest w1)))"

text \<open>\<open>read\<close> only reports the nodes that sent an emergency.\<close>

definition canopen_read :: "(u16 \<times> node_data) list \<Rightarrow> (u16 \<times> COEmcy) list" where
  "canopen_read data =
    map (\<lambda>(i, n). (i, original_emcy (emcy_data n)))
      (filter (\<lambda>(i, n). double_neq (error_code (emcy_data n)) (Fin 0)) data)"

subsection \<open>The hardware component\<close>

text \<open>The members that are pointers; a thread is there and joinable, or there and joined.\<close>

record ('m, 'd) hardware =
  hw_params :: "string \<rightharpoonup> string"
  hw_executor :: bool
  hw_container :: "('m, 'd) container option"
  hw_spin :: "bool option"
  hw_init :: "bool option"
  hw_data :: "(u16 \<times> node_data) list"

definition CanopenSystem_new :: "(string \<rightharpoonup> string) \<Rightarrow> ('m, 'd) hardware" where
  "CanopenSystem_new ps =
    \<lparr>hw_params = ps, hw_executor = False, hw_container = None, hw_spin = None, hw_init = None, hw_data = []\<rparr>"

definition hw_param :: "string \<Rightarrow> ('m, 'd) hardware \<Rightarrow> string" where
  "hw_param k h = (case hw_params h k of None \<Rightarrow> [] | Some v \<Rightarrow> v)"

text \<open>\<open>initDeviceContainer\<close>: the container loads the bus, and every driver gets its data and callbacks.\<close>

definition initDeviceContainer ::
  "('c, 'm, 'd) container_lib \<Rightarrow> ('m, 'd) hardware \<Rightarrow> (('m, 'd) hardware, unit) blocking" where
  "initDeviceContainer lib h =
    (case hw_container h of
       None \<Rightarrow> None
     | Some c \<Rightarrow>
         (let bin = (if hw_param ''master_bin'' h = [CHR 0x22, CHR 0x22] then [] else hw_param ''master_bin'' h) in
          case container_init_with lib (hw_param ''can_interface_name'' h) (hw_param ''master_config'' h)
                 (hw_param ''bus_config'' h) bin c of
            None \<Rightarrow> None
          | Some (Inl e, c1) \<Rightarrow> Some (Inl e, h\<lparr>hw_container := Some c1\<rparr>)
          | Some (Inr u, c1) \<Rightarrow>
              Some (Inr (), h\<lparr>hw_container := Some c1,
                hw_data := fold (\<lambda>(i, d). at_node i (\<lambda>n. n)) (registered_drivers c1) (hw_data h)\<rparr>)))"

text \<open>An exception that leaves a thread, and the destruction of a thread that was not joined, end the
  process. \<open>raw\<close> is the memory of the container before its constructor.\<close>

definition hw_configure ::
  "('c, 'm, 'd) container_lib \<Rightarrow> ('m, 'd) container \<Rightarrow> ('m, 'd) hardware \<Rightarrow> (('m, 'd) hardware, bool) blocking" where
  "hw_configure lib raw h =
    (case DeviceContainer_new lib raw of
       (Inl e, c) \<Rightarrow> Some (Inl e, h\<lparr>hw_executor := True\<rparr>)
     | (Inr u, c) \<Rightarrow>
         (let h1 = h\<lparr>hw_executor := True, hw_container := Some c\<rparr> in
          if hw_spin h1 = Some True then Some (Inl (Terminated ''thread not joined''), h1)
          else (case initDeviceContainer lib (h1\<lparr>hw_spin := Some True, hw_init := Some True\<rparr>) of
                  None \<Rightarrow> None
                | Some (Inl e, h2) \<Rightarrow> Some (Inl (Terminated ''exception in a thread''), h2)
                | Some (Inr u, h2) \<Rightarrow> Some (Inr True, h2\<lparr>hw_init := Some False\<rparr>))))"

text \<open>\<open>clean\<close> follows every pointer without a test; \<open>None\<close> when one of them is null, or when the
  destructor of the container follows a null pointer.\<close>

definition clean :: "('c, 'm, 'd) container_lib \<Rightarrow> ('m, 'd) hardware \<Rightarrow> (('m, 'd) hardware, unit) blocking" where
  "clean lib h =
    (case (hw_executor h, hw_spin h, hw_init h) of
       (True, Some True, Some j) \<Rightarrow>
         (case hw_container h of
            None \<Rightarrow> Some (Inr (), h\<lparr>hw_executor := False, hw_spin := None, hw_init := None\<rparr>)
          | Some c \<Rightarrow>
              (case container_shutdown lib c of
                 None \<Rightarrow> None
               | Some c1 \<Rightarrow> Some (Inr (), h\<lparr>hw_executor := False, hw_container := None, hw_spin := None, hw_init := None\<rparr>)))
     | (True, Some False, _) \<Rightarrow> Some (Inl (System_error 22 ''Invalid argument''), h)
     | _ \<Rightarrow> None)"

definition hw_cleanup :: "('c, 'm, 'd) container_lib \<Rightarrow> ('m, 'd) hardware \<Rightarrow> (('m, 'd) hardware, unit) blocking" where
  "hw_cleanup lib h = clean lib h"

definition hw_shutdown :: "('c, 'm, 'd) container_lib \<Rightarrow> ('m, 'd) hardware \<Rightarrow> (('m, 'd) hardware, unit) blocking" where
  "hw_shutdown lib h = clean lib h"

definition hw_destroy :: "('c, 'm, 'd) container_lib \<Rightarrow> ('m, 'd) hardware \<Rightarrow> (('m, 'd) hardware, unit) blocking" where
  "hw_destroy lib h = clean lib h"

subsection \<open>Copying bytes\<close>

lemma low_mask_eq: "low_mask n = mask n"
  by (simp add: low_mask_def mask_eq_exp_minus_1)

lemma take_bit_copy_in: "n \<le> 32 \<Longrightarrow> take_bit n (uint (copy_in n v old)) = take_bit n v"
proof (rule bit_eqI)
  fix k
  assume "n \<le> 32"
  then show "bit (take_bit n (uint (copy_in n v old))) k = bit (take_bit n v) k"
    by (auto simp: copy_in_def low_mask_eq bit_take_bit_iff bit_uint_iff bit_or_iff bit_and_iff bit_not_iff
        bit_mask_iff bit_word_of_int_iff)
qed

lemma cast_int_take_bit: "cast_int t (take_bit (type_bits t) v) = cast_int t v"
  by (cases t) (simp_all add: cast_int_def signed_take_bit_take_bit)

lemma copy_out_in: "in_type t v \<Longrightarrow> copy_out t (copy_in (type_bits t) v old) = v"
proof -
  assume "in_type t v"
  have "type_bits t \<le> 32" by (cases t) simp_all
  then have "cast_int t (uint (copy_in (type_bits t) v old)) = cast_int t v"
    using take_bit_copy_in[of "type_bits t" v old] cast_int_take_bit by metis
  with cast_int_id[OF \<open>in_type t v\<close>] show ?thesis by (simp add: copy_out_def)
qed

lemma bool_copy: "take_bit 8 (copy_in 8 (if b then 1 else 0) old) \<noteq> 0 \<longleftrightarrow> b"
proof -
  have "uint (take_bit 8 (copy_in 8 (if b then 1 else 0) old)) = take_bit 8 (if b then 1 else 0)"
    using take_bit_copy_in[of 8 "if b then 1 else 0" old] by (simp add: unsigned_take_bit_eq)
  then have "uint (take_bit 8 (copy_in 8 (if b then 1 else 0) old)) = 0 \<longleftrightarrow> \<not> b" by simp
  then show ?thesis by (simp add: uint_0_iff)
qed

lemma static_cast_int: "static_cast_law sc \<Longrightarrow> in_type t v \<Longrightarrow> sc t (Fin (of_int v)) = v"
proof -
  assume "static_cast_law sc" "in_type t v"
  moreover have "trunc (of_int v) = v" by (simp add: trunc_def)
  ultimately show ?thesis by (metis static_cast_law_def)
qed

subsection \<open>One-shot commands\<close>

definition idle :: "node_data \<Rightarrow> bool" where
  "idle n \<longleftrightarrow> reset_ons (nmt_state n) = NaN \<and> start_ons (nmt_state n) = NaN \<and> one_shot (tpdo_data n) = NaN"

lemma is_nan_iff: "is_nan v \<longleftrightarrow> v = NaN"
  by (cases v) simp_all

lemma write_reset_result:
  "write_reset pl i (n, w) = Some (Inr u, n', w') \<Longrightarrow>
     reset_ons (nmt_state n') = NaN \<and> start_ons (nmt_state n') = start_ons (nmt_state n) \<and> tpdo_data n' = tpdo_data n"
  by (auto simp: write_reset_def reset_command_def call_with_def Let_def split: if_split_asm option.splits sum.splits)

lemma write_start_result:
  "write_start pl i (n, w) = Some (Inr u, n', w') \<Longrightarrow>
     start_ons (nmt_state n') = NaN \<and> reset_ons (nmt_state n') = reset_ons (nmt_state n) \<and> tpdo_data n' = tpdo_data n"
  by (auto simp: write_start_def start_command_def call_with_def Let_def split: if_split_asm option.splits sum.splits)

lemma write_tpdo_result:
  "write_tpdo pl sc i (n, w) = Some (r, n', w') \<Longrightarrow> one_shot (tpdo_data n') = NaN \<and> nmt_state n' = nmt_state n"
  by (auto simp: write_tpdo_def write_command_def wo_prepare_def Let_def split: if_split_asm option.splits)

lemma write_node_idle: "write_node pl sc i (n, w) = Some (Inr u, n', w') \<Longrightarrow> idle n'"
  by (auto simp: write_node_def bindB_def idle_def split: option.splits sum.splits
      dest!: write_reset_result write_start_result write_tpdo_result)

lemma idle_write_node: "idle n \<Longrightarrow> write_node pl sc i (n, w) = Some (Inr (), n, w)"
  by (simp add: write_node_def idle_def write_reset_def write_start_def write_tpdo_def reset_command_def
      start_command_def write_command_def bindB_def)

text \<open>The registered drivers stay registered whatever is asked of them.\<close>

locale control_drivers =
  fixes pl :: "'w proxy_lib"
  assumes reset_keeps: "pl_reset pl i w = Some (r, w') \<Longrightarrow> pl_registered pl j w' = pl_registered pl j w"
    and start_keeps: "pl_start pl i w = Some (r, w') \<Longrightarrow> pl_registered pl j w' = pl_registered pl j w"
    and tpdo_keeps: "pl_tpdo pl i d w = Some (b, w') \<Longrightarrow> pl_registered pl j w' = pl_registered pl j w"
begin

lemma write_node_keeps:
  assumes "write_node pl sc i (n, w) = Some (r, n', w')"
  shows "pl_registered pl j w' = pl_registered pl j w"
proof -
  have reset: "pl_registered pl j x' = pl_registered pl j x" if "write_reset pl i (m, x) = Some (q, m', x')" for m x q m' x'
    using that reset_keeps[of i x _ x' j]
    by (auto simp: write_reset_def call_with_def Let_def split: prod.splits if_split_asm option.splits sum.splits)
  have start: "pl_registered pl j x' = pl_registered pl j x" if "write_start pl i (m, x) = Some (q, m', x')" for m x q m' x'
    using that start_keeps[of i x _ x' j]
    by (auto simp: write_start_def call_with_def Let_def split: prod.splits if_split_asm option.splits sum.splits)
  have tpdo: "pl_registered pl j x' = pl_registered pl j x" if "write_tpdo pl sc i (m, x) = Some (q, m', x')" for m x q m' x'
    using that tpdo_keeps[of i _ x _ x' j]
    by (auto simp: write_tpdo_def Let_def split: prod.splits if_split_asm option.splits)
  from assms show ?thesis
    by (auto simp: write_node_def bindB_def split: option.splits sum.splits prod.splits
        dest!: reset start tpdo)
qed

lemma canopen_write_result:
  assumes "canopen_write pl sc data w = Some (Inr u, data', w')"
  shows "map fst data' = map fst data \<and> (\<forall>j. pl_registered pl j w' = pl_registered pl j w) \<and>
    list_all2 (\<lambda>(i, n) (j, n'). if pl_registered pl i w then idle n' else n' = n) data data'"
  using assms
proof (induction data arbitrary: w data')
  case Nil
  then show ?case by simp
next
  case (Cons p rest)
  obtain i n where p: "p = (i, n)" by fastforce
  show ?case
  proof (cases "pl_registered pl i w")
    case False
    then obtain l where "canopen_write pl sc rest w = Some (Inr u, l, w')" "data' = (i, n) # l"
      using Cons.prems by (auto simp: p)
    with Cons.IH[of w l] False show ?thesis by (simp add: p)
  next
    case True
    then obtain n1 w1 l where step: "write_node pl sc i (n, w) = Some (Inr (), n1, w1)"
      "canopen_write pl sc rest w1 = Some (Inr u, l, w')" "data' = (i, n1) # l"
      using Cons.prems by (auto simp: p split: option.splits sum.splits)
    from Cons.IH[OF step(2)] write_node_keeps[OF step(1)] write_node_idle[OF step(1)] True step(3)
    show ?thesis by (simp add: p)
  qed
qed

end

lemma idle_write:
  "\<forall>(i, n) \<in> set data. pl_registered pl i w \<longrightarrow> idle n \<Longrightarrow> canopen_write pl sc data w = Some (Inr (), data, w)"
  by (induction data) (auto simp: idle_write_node)

text \<open>The drivers of the model: the proxy drivers of a container.\<close>

definition on_member ::
  "('x \<Rightarrow> ('x, 'a) blocking) \<Rightarrow> u16 \<Rightarrow> (u16 \<rightharpoonup> 'x) \<Rightarrow> (u16 \<rightharpoonup> 'x, 'a) blocking" where
  "on_member f i ds =
    (case ds i of
       None \<Rightarrow> None
     | Some d \<Rightarrow> (case f d of None \<Rightarrow> None | Some (r, d') \<Rightarrow> Some (r, ds(i \<mapsto> d'))))"

definition proxy_drivers ::
  "'d dict_ops \<Rightarrow> 'n network \<Rightarrow> (u16 \<rightharpoonup> ('d, 'n, 'e) base_node) proxy_lib" where
  "proxy_drivers dops nops =
    \<lparr>pl_registered = \<lambda>i ds. ds i \<noteq> None,
     pl_reset = on_member (reset_node_nmt_command nops),
     pl_start = on_member (start_node_nmt_command nops),
     pl_tpdo = \<lambda>i d. on_member (proxy_tpdo_transmit dops nops d) i\<rparr>"

lemma on_member_keeps: "on_member f i ds = Some (r, ds') \<Longrightarrow> (ds' j = None) = (ds j = None)"
  by (auto simp: on_member_def split: option.splits if_split_asm)

interpretation pd: control_drivers "proxy_drivers dops nops" for dops nops
  by unfold_locales (simp_all add: proxy_drivers_def del: not_None_eq, (metis on_member_keeps)+)

subsection \<open>Properties\<close>

text \<open>A number survives the trip of a command to the device and back: what a controller writes to the
  data of a slot whose type can hold it is packed into the 32 bits of the message so that a slot of
  the same type unpacks it to the same number, whatever the message held before.\<close>

theorem co_value_roundtrip:
  assumes "static_cast_law sc" "map_of type_names ty = Some t" "in_type t v"
  shows "ro_value ty (wo_raw sc ty (Fin (of_int v)) old) = Fin (of_int v) \<and>
    ro_value ''bool'' (wo_raw sc ''bool'' (Fin (of_int v)) old) = Fin (if v = 0 then 0 else 1)"
proof -
  have "ty \<noteq> ''bool''" using assms(2) by (auto simp: type_names_def)
  then show ?thesis
    using assms bool_copy[of "v \<noteq> 0" old]
    by (auto simp: ro_value_def wo_raw_def static_cast_int copy_out_in)
qed

theorem co_value_roundtrip_witness:
  "ro_value ''int16_t'' (wo_raw plain_cast ''int16_t'' (Fin (of_int (- 2))) 0xFFFF1234) = Fin (of_int (- 2))"
proof -
  have "map_of type_names ''int16_t'' = Some I16" "in_type I16 (- 2)"
    by (simp_all add: type_names_def in_type_def type_limits)
  from co_value_roundtrip[OF plain_cast_law this] show ?thesis by blast
qed

text \<open>The two maps of received objects hold the same information: after every sequence of RPDOs, with
  the type of the slot as it was set at the start, an object that came reads as the latest raw data
  converted to that type; one that never came reads as not a number, and as zero in raw form.\<close>

theorem rpdo_maps_agree:
  assumes "n = fold set_rpdo_data ds (n0\<lparr>rpdo_data_map := Map.empty, rpdo_raw_data_map := Map.empty\<rparr>)"
  shows "get_rpdo_data i s n =
      (if (i, s) \<in> (\<lambda>d. (index_of d, subindex_of d)) ` set ds
       then ro_value (co_type_name (rpdo_data n0)) (get_rpdo_raw_data i s n) else NaN) \<and>
    get_rpdo_raw_data i s n =
      (case find (\<lambda>d. index_of d = i \<and> subindex_of d = s) (rev ds) of Some d \<Rightarrow> data_of d | None \<Rightarrow> 0)"
proof -
  have "co_type_name (rpdo_data n) = co_type_name (rpdo_data n0) \<and>
    rpdo_raw_data_map n (i, s) = map_option data_of (find (\<lambda>d. index_of d = i \<and> subindex_of d = s) (rev ds)) \<and>
    rpdo_data_map n (i, s) = map_option (ro_value (co_type_name (rpdo_data n0))) (rpdo_raw_data_map n (i, s))"
    using assms
  proof (induction ds arbitrary: n rule: rev_induct)
    case (snoc d ds)
    then show ?case
      by (auto simp: set_rpdo_data_def Let_def ro_prepare_def set_data_def)
  qed simp
  moreover have "find (\<lambda>d. index_of d = i \<and> subindex_of d = s) (rev ds) = None \<longleftrightarrow>
    (i, s) \<notin> (\<lambda>d. (index_of d, subindex_of d)) ` set ds"
    by (auto simp: find_None_iff)
  ultimately show ?thesis
    by (cases "find (\<lambda>d. index_of d = i \<and> subindex_of d = s) (rev ds)")
      (simp_all add: get_rpdo_data_def get_rpdo_raw_data_def)
qed

theorem rpdo_maps_agree_witness:
  "get_rpdo_data 0x6041 0 (fold set_rpdo_data [\<lparr>index_of = 0x6041, subindex_of = 0, data_of = 0xFFFFFFFF\<rparr>] CanopenNodeData_new)
     = Fin (- 1)"
proof -
  let ?ds = "[\<lparr>index_of = 0x6041, subindex_of = 0, data_of = 0xFFFFFFFF\<rparr>] :: COData list"
  have "fold set_rpdo_data ?ds CanopenNodeData_new
      = fold set_rpdo_data ?ds (CanopenNodeData_new\<lparr>rpdo_data_map := Map.empty, rpdo_raw_data_map := Map.empty\<rparr>)"
    by (simp add: CanopenNodeData_new_def)
  from rpdo_maps_agree[OF this, where i = "0x6041" and s = 0] show ?thesis
    by (simp add: CanopenNodeData_new_def co_slot_init_def ro_value_def type_names_def copy_out_def cast_int_def
        signed_take_bit_eq_take_bit_shift take_bit_eq_mod)
qed

text \<open>Commands are one-shot: a control cycle that returns has consumed every command of the nodes that
  have a driver and left the others as they were, so that another cycle without new commands calls
  no driver and changes nothing.\<close>

theorem commands_are_one_shot:
  assumes "canopen_write (proxy_drivers dops nops) sc data ds = Some (Inr (), data', ds')"
  shows "map fst data' = map fst data \<and>
    list_all2 (\<lambda>(i, n) (j, n'). if ds i \<noteq> None then idle n' else n' = n) data data' \<and>
    canopen_write (proxy_drivers dops nops) sc data' ds' = Some (Inr (), data', ds')"
proof -
  note result = pd.canopen_write_result[OF assms]
  have names: "map fst data' = map fst data" using result by blast
  have reg: "pl_registered (proxy_drivers dops nops) i ds \<longleftrightarrow> ds i \<noteq> None" for i and ds :: "u16 \<rightharpoonup> ('a, 'b, 'c) base_node"
    by (simp add: proxy_drivers_def)
  have "idle n'" if "(j, n') \<in> set data'" "ds' j \<noteq> None" for j n'
  proof -
    from that(1) obtain k where k: "k < length data'" "data' ! k = (j, n')" by (meson in_set_conv_nth)
    have "length data = length data'"
      using names by (metis length_map)
    with k have "map fst data' ! k = j" "k < length data" by simp_all
    then have "fst (data ! k) = j"
      unfolding names by simp
    moreover have "ds j \<noteq> None"
      using conjunct1[OF conjunct2[OF result]] that(2) by (simp add: reg del: not_None_eq)
    ultimately show ?thesis
      using list_all2_nthD2[OF conjunct2[OF conjunct2[OF result]] k(1)] by (cases "data ! k") (simp add: reg k(2))
  qed
  then have "canopen_write (proxy_drivers dops nops) sc data' ds' = Some (Inr (), data', ds')"
    by (intro idle_write) (auto simp: reg)
  with result show ?thesis by (simp add: reg)
qed

theorem commands_are_one_shot_witness:
  "let n = CanopenNodeData_new\<lparr>nmt_state := nmt_slot_init\<lparr>reset_ons := Fin 1\<rparr>\<rparr>;
       r = the (canopen_write (proxy_drivers table_ops device_net) plain_cast [(2, n)] [2 \<mapsto> example_proxy])
   in canopen_write (proxy_drivers table_ops device_net) plain_cast (fst (snd r)) (snd (snd r)) = Some (Inr (), snd r)"
proof -
  let ?n = "CanopenNodeData_new\<lparr>nmt_state := nmt_slot_init\<lparr>reset_ons := Fin 1\<rparr>\<rparr>"
  let ?w = "canopen_write (proxy_drivers table_ops device_net) plain_cast [(2, ?n)] [2 \<mapsto> example_proxy]"
  have "\<exists>data' ds'. ?w = Some (Inr (), data', ds')"
    by (simp add: proxy_drivers_def write_node_def write_reset_def write_start_def write_tpdo_def reset_command_def
        start_command_def write_command_def bindB_def call_with_def on_member_def reset_node_nmt_command_def
        with_bridge_def example_proxy_def fresh_node_def base_x_def nmt_slot_init_def CanopenNodeData_new_def
        co_slot_init_def)
  then obtain data' ds' where run: "?w = Some (Inr (), data', ds')" by blast
  from commands_are_one_shot[OF run] show ?thesis
    unfolding Let_def run by simp
qed

text \<open>The component cannot be torn down in the usual order: \<open>clean\<close> succeeds only on a configured
  component, yet the destructor calls it always, so that destroying a component after its cleanup
  or its shutdown, or one that was never configured, dereferences null pointers.\<close>

theorem destruction_crashes:
  assumes "hw_cleanup lib h = Some (Inr (), h') \<or> hw_shutdown lib h = Some (Inr (), h') \<or> h' = CanopenSystem_new ps"
  shows "hw_destroy lib h' = None"
proof -
  have "\<not> hw_executor h'"
    using assms by (auto simp: hw_cleanup_def hw_shutdown_def clean_def CanopenSystem_new_def
        split: bool.splits option.splits)
  then show ?thesis
    by (auto simp: hw_destroy_def clean_def split: bool.split option.split)
qed

theorem destruction_crashes_witness:
  "hw_destroy (counting_lib True) (CanopenSystem_new Map.empty) = None"
  by (rule destruction_crashes[where h = "CanopenSystem_new Map.empty" and ps = Map.empty]) simp

text \<open>Each of the five manufacturer codes that \<open>set_emcy\<close> reports has its successor in the upper byte, so
  it is the byte of the message only when the next byte is zero.\<close>

theorem emcy_codes_overlap:
  assumes "k < 5" "length (msef e) = 5"
  shows "manufacturer_error_codes (set_emcy beyond e s) ! k = Fin (of_int (uint (msef e ! k))) \<longleftrightarrow>
    (msef e @ [beyond]) ! (k + 1) = 0"
proof -
  have "manufacturer_error_codes (set_emcy beyond e s) ! k =
    Fin (of_int (uint (msef e ! k) + 256 * uint ((msef e @ [beyond]) ! (k + 1))))"
    using assms by (simp add: set_emcy_def nth_append del: of_int_add)
  moreover have "(of_int (uint (msef e ! k) + 256 * uint ((msef e @ [beyond]) ! (k + 1))) :: real) =
      of_int (uint (msef e ! k)) \<longleftrightarrow> (msef e @ [beyond]) ! (k + 1) = 0"
    unfolding of_int_eq_iff by (simp add: uint_0_iff)
  ultimately show ?thesis by simp
qed

end
