(* ===== verification/Cia402System.thy ===== *)
theory Cia402System
  imports ControlSystem Driver402
begin

text \<open>
  The hardware component for CiA 402 drives (\<open>canopen_ros2_control\<close>, \<open>cia402_system.hpp\<close> and
  \<open>cia402_system.cpp\<close>): beside the data of the nodes it keeps the data of the motors, one per node and
  channel, and its cycle hands their commands and targets over to the drivers.
\<close>

subsection \<open>Motors\<close>

record trigger =
  ons_cmd :: double
  resp :: double

definition trigger_init :: trigger where
  "trigger_init = \<lparr>ons_cmd = NaN, resp = NaN\<rparr>"

definition is_commanded :: "trigger \<Rightarrow> bool \<times> trigger" where
  "is_commanded t = (\<not> is_nan (ons_cmd t), t\<lparr>ons_cmd := NaN\<rparr>)"

definition set_response :: "bool \<Rightarrow> trigger \<Rightarrow> trigger" where
  "set_response ok t = t\<lparr>resp := response ok\<rparr>"

record motor_node =
  actual_position :: double
  actual_speed :: double
  actual_effort :: double
  t_init :: trigger
  t_halt :: trigger
  t_recover :: trigger
  t_position_mode :: trigger
  t_velocity_mode :: trigger
  t_cyclic_velocity_mode :: trigger
  t_cyclic_position_mode :: trigger
  t_torque_mode :: trigger
  t_interpolated_position_mode :: trigger
  position_value :: double
  velocity_value :: double
  torque_value :: double

text \<open>An entry of the map is value-initialised: targets and feedback start as zero.\<close>

definition motor_node_init :: motor_node where
  "motor_node_init = \<lparr>actual_position = Fin 0, actual_speed = Fin 0, actual_effort = Fin 0, t_init = trigger_init,
     t_halt = trigger_init, t_recover = trigger_init, t_position_mode = trigger_init, t_velocity_mode = trigger_init,
     t_cyclic_velocity_mode = trigger_init, t_cyclic_position_mode = trigger_init, t_torque_mode = trigger_init,
     t_interpolated_position_mode = trigger_init, position_value = Fin 0, velocity_value = Fin 0,
     torque_value = Fin 0\<rparr>"

type_synonym motor_key = "u8 \<times> u8"

definition at_motor ::
  "motor_key \<Rightarrow> (motor_node \<Rightarrow> motor_node) \<Rightarrow> (motor_key \<times> motor_node) list \<Rightarrow> (motor_key \<times> motor_node) list" where
  "at_motor = at_entry (\<lambda>(a, b) (c, d). a < c \<or> a = c \<and> b < d) motor_node_init"

subsection \<open>The drivers\<close>

text \<open>Beside the operations of a proxy driver: those on a channel. A driver that is not registered is a
  null pointer, and calling it gives \<open>None\<close>.\<close>

record 'w drive_lib = "'w proxy_lib" +
  dl_init :: "u16 \<Rightarrow> u8 \<Rightarrow> 'w \<Rightarrow> ('w, bool) blocking"
  dl_halt :: "u16 \<Rightarrow> u8 \<Rightarrow> 'w \<Rightarrow> ('w, bool) blocking"
  dl_recover :: "u16 \<Rightarrow> u8 \<Rightarrow> 'w \<Rightarrow> ('w, bool) blocking"
  dl_set_mode :: "u16 \<Rightarrow> u16 \<Rightarrow> u8 \<Rightarrow> 'w \<Rightarrow> ('w, bool) blocking"
  dl_get_mode :: "u16 \<Rightarrow> u8 \<Rightarrow> 'w \<Rightarrow> ('w, u16) blocking"
  dl_set_target :: "u16 \<Rightarrow> double \<Rightarrow> u8 \<Rightarrow> 'w \<Rightarrow> ('w, bool) blocking"
  dl_position :: "u16 \<Rightarrow> u8 \<Rightarrow> 'w \<Rightarrow> ('w, double) blocking"
  dl_speed :: "u16 \<Rightarrow> u8 \<Rightarrow> 'w \<Rightarrow> ('w, double) blocking"
  dl_effort :: "u16 \<Rightarrow> u8 \<Rightarrow> 'w \<Rightarrow> ('w, double) blocking"

text \<open>Each of the handlers: when the command is there it is taken, the driver called and the response set.\<close>

definition trigger_step ::
  "(motor_node \<Rightarrow> trigger) \<Rightarrow> ((trigger \<Rightarrow> trigger) \<Rightarrow> motor_node \<Rightarrow> motor_node) \<Rightarrow> ('w \<Rightarrow> ('w, bool) blocking)
   \<Rightarrow> motor_node \<times> 'w \<Rightarrow> (motor_node \<times> 'w, unit) blocking" where
  "trigger_step get change call mw =
    (case mw of (m, w) \<Rightarrow>
      (let (commanded, t) = is_commanded (get m); m1 = change (\<lambda>u. t) m in
       if commanded then call_with (call w) (\<lambda>ok. change (set_response ok)) m1 else Some (Inr (), m1, w)))"

definition handle_init :: "'w drive_lib \<Rightarrow> u16 \<Rightarrow> u8 \<Rightarrow> motor_node \<times> 'w \<Rightarrow> (motor_node \<times> 'w, unit) blocking" where
  "handle_init dl i ch = trigger_step t_init t_init_update (dl_init dl i ch)"

definition handle_halt :: "'w drive_lib \<Rightarrow> u16 \<Rightarrow> u8 \<Rightarrow> motor_node \<times> 'w \<Rightarrow> (motor_node \<times> 'w, unit) blocking" where
  "handle_halt dl i ch = trigger_step t_halt t_halt_update (dl_halt dl i ch)"

definition handle_recover :: "'w drive_lib \<Rightarrow> u16 \<Rightarrow> u8 \<Rightarrow> motor_node \<times> 'w \<Rightarrow> (motor_node \<times> 'w, unit) blocking" where
  "handle_recover dl i ch = trigger_step t_recover t_recover_update (dl_recover dl i ch)"

definition mode_triggers :: "((motor_node \<Rightarrow> trigger) \<times> ((trigger \<Rightarrow> trigger) \<Rightarrow> motor_node \<Rightarrow> motor_node) \<times> u16) list" where
  "mode_triggers =
    [(t_position_mode, t_position_mode_update, Profiled_Position),
     (t_cyclic_position_mode, t_cyclic_position_mode_update, Cyclic_Synchronous_Position),
     (t_velocity_mode, t_velocity_mode_update, Profiled_Velocity),
     (t_cyclic_velocity_mode, t_cyclic_velocity_mode_update, Cyclic_Synchronous_Velocity),
     (t_torque_mode, t_torque_mode_update, Profiled_Torque),
     (t_interpolated_position_mode, t_interpolated_position_mode_update, Interpolated_Position)]"

fun run_steps :: "('s \<Rightarrow> ('s, unit) blocking) list \<Rightarrow> 's \<Rightarrow> ('s, unit) blocking" where
  "run_steps [] s = Some (Inr (), s)"
| "run_steps (f # fs) s = bindB (f s) (\<lambda>u s1. run_steps fs s1)"

definition switchModes :: "'w drive_lib \<Rightarrow> u16 \<Rightarrow> u8 \<Rightarrow> motor_node \<times> 'w \<Rightarrow> (motor_node \<times> 'w, unit) blocking" where
  "switchModes dl i ch =
    run_steps (map (\<lambda>(get, change, mode). trigger_step get change (dl_set_mode dl i mode ch)) mode_triggers)"

text \<open>The target that a mode takes; modes without one are only reported.\<close>

definition target_of_mode :: "u16 \<Rightarrow> motor_node \<Rightarrow> double option" where
  "target_of_mode mode m =
    (if mode = No_Mode then None
     else if mode = Profiled_Position \<or> mode = Cyclic_Synchronous_Position \<or> mode = Interpolated_Position
     then Some (position_value m)
     else if mode = Profiled_Velocity \<or> mode = Cyclic_Synchronous_Velocity then Some (velocity_value m)
     else if mode = Profiled_Torque then Some (torque_value m)
     else None)"

definition hand_over_target :: "'w drive_lib \<Rightarrow> u16 \<Rightarrow> u8 \<Rightarrow> motor_node \<times> 'w \<Rightarrow> (motor_node \<times> 'w, unit) blocking" where
  "hand_over_target dl i ch mw =
    (case mw of (m, w) \<Rightarrow>
      (case dl_get_mode dl i ch w of
         None \<Rightarrow> None
       | Some (Inl e, w1) \<Rightarrow> Some (Inl e, m, w1)
       | Some (Inr mode, w1) \<Rightarrow>
           (case target_of_mode mode m of
              None \<Rightarrow> Some (Inr (), m, w1)
            | Some v \<Rightarrow> call_with (dl_set_target dl i v ch w1) (\<lambda>ok x. x) m)))"

definition write_motor :: "'w drive_lib \<Rightarrow> u16 \<Rightarrow> u8 \<Rightarrow> motor_node \<times> 'w \<Rightarrow> (motor_node \<times> 'w, unit) blocking" where
  "write_motor dl i ch =
    run_steps [handle_init dl i ch, handle_halt dl i ch, handle_recover dl i ch, switchModes dl i ch,
      hand_over_target dl i ch]"

subsection \<open>The control cycle\<close>

text \<open>The first loop, over the nodes: as in the base class, but a missing driver is not skipped, responses
  are not kept, and an exception of \<open>tpdo_transmit\<close> is not caught.\<close>

definition drive_write_node ::
  "'w drive_lib \<Rightarrow> static_cast \<Rightarrow> u16 \<Rightarrow> node_data \<times> 'w \<Rightarrow> (node_data \<times> 'w, unit) blocking" where
  "drive_write_node dl sc i =
    run_steps
      [\<lambda>(n, w). (let (commanded, s) = reset_command (nmt_state n); n1 = n\<lparr>nmt_state := s\<rparr> in
         if commanded then call_with (pl_reset dl i w) (\<lambda>ok x. x) n1 else Some (Inr (), n1, w)),
       \<lambda>(n, w). (let (commanded, s) = start_command (nmt_state n); n1 = n\<lparr>nmt_state := s\<rparr> in
         if commanded then call_with (pl_start dl i w) (\<lambda>ok x. x) n1 else Some (Inr (), n1, w)),
       \<lambda>(n, w). (let (commanded, s) = write_command (tpdo_data n); n1 = n\<lparr>tpdo_data := s\<rparr> in
         if commanded
         then (let n2 = n1\<lparr>tpdo_data := wo_prepare sc s\<rparr> in
               call_with (pl_tpdo dl i (original (tpdo_data n2)) w) (\<lambda>ok x. x) n2)
         else Some (Inr (), n1, w))]"

text \<open>A loop over the entries of a map, whose data change in place; an exception leaves the rest as it is.\<close>

fun each_entry ::
  "('k \<Rightarrow> 'v \<times> 'w \<Rightarrow> ('v \<times> 'w, unit) blocking) \<Rightarrow> ('k \<times> 'v) list \<Rightarrow> 'w \<Rightarrow> (('k \<times> 'v) list \<times> 'w, unit) blocking" where
  "each_entry f [] w = Some (Inr (), [], w)"
| "each_entry f ((k, x) # rest) w =
    (case f k (x, w) of
       None \<Rightarrow> None
     | Some (Inl e, x1, w1) \<Rightarrow> Some (Inl e, (k, x1) # rest, w1)
     | Some (Inr u, x1, w1) \<Rightarrow> map_option (map_prod id (map_prod (\<lambda>l. (k, x1) # l) id)) (each_entry f rest w1))"

type_synonym drive_data = "(u16 \<times> node_data) list \<times> (motor_key \<times> motor_node) list"

definition drive_write ::
  "'w drive_lib \<Rightarrow> static_cast \<Rightarrow> drive_data \<Rightarrow> 'w \<Rightarrow> (drive_data \<times> 'w, unit) blocking" where
  "drive_write dl sc data w =
    (case each_entry (drive_write_node dl sc) (fst data) w of
       None \<Rightarrow> None
     | Some (Inl e, ns, w1) \<Rightarrow> Some (Inl e, (ns, snd data), w1)
     | Some (Inr u, ns, w1) \<Rightarrow>
         map_option (map_prod id (map_prod (Pair ns) id))
           (each_entry (\<lambda>(i, ch). write_motor dl (ucast i) ch) (snd data) w1))"

definition read_motor :: "'w drive_lib \<Rightarrow> u16 \<Rightarrow> u8 \<Rightarrow> motor_node \<times> 'w \<Rightarrow> (motor_node \<times> 'w, unit) blocking" where
  "read_motor dl i ch =
    run_steps
      [\<lambda>(m, w). call_with (dl_position dl i ch w) (\<lambda>v x. x\<lparr>actual_position := v\<rparr>) m,
       \<lambda>(m, w). call_with (dl_speed dl i ch w) (\<lambda>v x. x\<lparr>actual_speed := v\<rparr>) m,
       \<lambda>(m, w). call_with (dl_effort dl i ch w) (\<lambda>v x. x\<lparr>actual_effort := v\<rparr>) m]"

text \<open>\<open>read\<close> reports the emergencies of the nodes and reads the motors.\<close>

definition drive_read ::
  "'w drive_lib \<Rightarrow> drive_data \<Rightarrow> 'w \<Rightarrow> (drive_data \<times> 'w, (u16 \<times> COEmcy) list) blocking" where
  "drive_read dl data w =
    (case each_entry (\<lambda>(i, ch). read_motor dl (ucast i) ch) (snd data) w of
       None \<Rightarrow> None
     | Some (r, ms, w1) \<Rightarrow> Some (map_sum id (\<lambda>u. canopen_read (fst data)) r, (fst data, ms), w1))"

subsection \<open>Callbacks and interfaces\<close>

text \<open>The callback of the NMT state is that of the base class. The RPDO callback stores the message but does not prepare the doubles that are exported.\<close>

definition drive_rpdo_cb :: "COData \<Rightarrow> u8 \<Rightarrow> (u16 \<times> node_data) list \<Rightarrow> (u16 \<times> node_data) list" where
  "drive_rpdo_cb d i = at_node (ucast i) (\<lambda>n. n\<lparr>rpdo_data := set_data d (rpdo_data n)\<rparr>)"

text \<open>A joint may have a channel.\<close>

record drive_joint = joint +
  joint_channel :: "u8 option"

definition motor_state_fields :: "(string \<times> (motor_node \<Rightarrow> double)) list" where
  "motor_state_fields = [(''position'', actual_position), (''velocity'', actual_speed), (''effort'', actual_effort)]"

definition motor_command_fields :: "(string \<times> ((double \<Rightarrow> double) \<Rightarrow> motor_node \<Rightarrow> motor_node)) list" where
  "motor_command_fields =
    (let cmd = (\<lambda>change f. change (\<lambda>t. t\<lparr>ons_cmd := f (ons_cmd t)\<rparr>)); fbk = (\<lambda>change f. change (\<lambda>t. t\<lparr>resp := f (resp t)\<rparr>)) in
     [(''position'', position_value_update), (''velocity'', velocity_value_update), (''effort'', torque_value_update),
      (''init_cmd'', cmd t_init_update), (''init_fbk'', fbk t_init_update),
      (''halt_cmd'', cmd t_halt_update), (''halt_fbk'', fbk t_halt_update),
      (''recover_cmd'', cmd t_recover_update), (''recover_fbk'', fbk t_recover_update),
      (''position_mode_cmd'', cmd t_position_mode_update), (''position_mode_fbk'', fbk t_position_mode_update),
      (''velocity_mode_cmd'', cmd t_velocity_mode_update), (''velocity_mode_fbk'', fbk t_velocity_mode_update),
      (''cyclic_velocity_mode_cmd'', cmd t_cyclic_velocity_mode_update),
      (''cyclic_velocity_mode_fbk'', fbk t_cyclic_velocity_mode_update),
      (''cyclic_position_mode_cmd'', cmd t_cyclic_position_mode_update),
      (''cyclic_position_mode_fbk'', fbk t_cyclic_position_mode_update),
      (''interpolated_position_mode_cmd'', cmd t_interpolated_position_mode_update),
      (''interpolated_position_mode_fbk'', fbk t_interpolated_position_mode_update)])"

definition joint_key :: "drive_joint \<Rightarrow> motor_key option" where
  "joint_key j = map_option (\<lambda>i. (i, case joint_channel j of None \<Rightarrow> 0 | Some ch \<Rightarrow> ch)) (joint_node j)"

fun export_motors ::
  "string list \<Rightarrow> drive_joint list \<Rightarrow> (motor_key \<times> motor_node) list
   \<Rightarrow> (string \<times> string \<times> motor_key) list \<times> (motor_key \<times> motor_node) list" where
  "export_motors names [] ms = ([], ms)"
| "export_motors names (j # js) ms =
    (case joint_key j of
       None \<Rightarrow> export_motors names js ms
     | Some k \<Rightarrow>
         (case export_motors names js (at_motor k (\<lambda>m. m) ms) of
            (rest, ms') \<Rightarrow> (map (\<lambda>f. (joint.joint_name j, f, k)) names @ rest, ms')))"

definition drive_export_state ::
  "drive_joint list \<Rightarrow> drive_data \<Rightarrow> ((string \<times> string \<times> u16) list \<times> (string \<times> string \<times> motor_key) list) \<times> drive_data" where
  "drive_export_state js data =
    (let (xs, ns) = export_state_interfaces (map joint.truncate js) (fst data);
         (ys, ms) = export_motors (map fst motor_state_fields) js (snd data) in ((xs, ys), (ns, ms)))"

definition drive_export_command ::
  "drive_joint list \<Rightarrow> drive_data \<Rightarrow> ((string \<times> string \<times> u16) list \<times> (string \<times> string \<times> motor_key) list) \<times> drive_data" where
  "drive_export_command js data =
    (let (xs, ns) = export_command_interfaces (map joint.truncate js) (fst data);
         (ys, ms) = export_motors (map fst motor_command_fields) js (snd data) in ((xs, ys), (ns, ms)))"

subsection \<open>Configuration\<close>

text \<open>Loading the bus does not make the data of the nodes; the callbacks and the exports do.\<close>

definition drive_container ::
  "('c, 'm, 'd) container_lib \<Rightarrow> ('m, 'd) hardware \<Rightarrow> (('m, 'd) hardware, unit) blocking" where
  "drive_container lib h =
    (case hw_container h of
       None \<Rightarrow> None
     | Some c \<Rightarrow>
         (let bin = (if hw_param ''master_bin'' h = [CHR 0x22, CHR 0x22] then [] else hw_param ''master_bin'' h) in
          map_option (map_prod id (\<lambda>c1. h\<lparr>hw_container := Some c1\<rparr>))
            (container_init_with lib (hw_param ''can_interface_name'' h) (hw_param ''master_config'' h)
               (hw_param ''bus_config'' h) bin c)))"

definition drive_configure ::
  "('c, 'm, 'd) container_lib \<Rightarrow> ('m, 'd) container \<Rightarrow> ('m, 'd) hardware \<Rightarrow> (('m, 'd) hardware, bool) blocking" where
  "drive_configure lib raw h =
    (case DeviceContainer_new lib raw of
       (Inl e, c) \<Rightarrow> Some (Inl e, h\<lparr>hw_executor := True\<rparr>)
     | (Inr u, c) \<Rightarrow>
         (let h1 = h\<lparr>hw_executor := True, hw_container := Some c\<rparr> in
          if hw_spin h1 = Some True then Some (Inl (Terminated ''thread not joined''), h1)
          else (case drive_container lib (h1\<lparr>hw_spin := Some True, hw_init := Some True\<rparr>) of
                  None \<Rightarrow> None
                | Some (Inl e, h2) \<Rightarrow> Some (Inl (Terminated ''exception in a thread''), h2)
                | Some (Inr u, h2) \<Rightarrow> Some (Inr True, h2\<lparr>hw_init := Some False\<rparr>))))"

subsection \<open>Quiet data\<close>

text \<open>Data without a command: what a cycle leaves behind.\<close>

definition quiet :: "trigger \<Rightarrow> bool" where
  "quiet t \<longleftrightarrow> ons_cmd t = NaN"

definition quiet_motor :: "motor_node \<Rightarrow> bool" where
  "quiet_motor m \<longleftrightarrow> quiet (t_init m) \<and> quiet (t_halt m) \<and> quiet (t_recover m) \<and> quiet (t_position_mode m) \<and>
     quiet (t_velocity_mode m) \<and> quiet (t_cyclic_velocity_mode m) \<and> quiet (t_cyclic_position_mode m) \<and>
     quiet (t_torque_mode m) \<and> quiet (t_interpolated_position_mode m)"

lemma quiet_command: "quiet t \<Longrightarrow> is_commanded t = (False, t)"
  by (simp add: quiet_def is_commanded_def)

lemma is_commanded_quiet: "quiet (snd (is_commanded t))" "quiet (set_response ok (snd (is_commanded t)))"
  by (simp_all add: quiet_def is_commanded_def set_response_def)

lemma call_with_result:
  "call_with r f x = Some (Inr u, x', w') \<Longrightarrow> \<exists>a. r = Some (Inr a, w') \<and> x' = f a x"
  by (auto simp: call_with_def split: option.splits sum.splits)

lemma trigger_step_result:
  assumes "trigger_step get change call (m, w) = Some (Inr u, m', w')"
    "\<And>f g x. change f (change g x) = change (\<lambda>t. f (g t)) x"
  shows "\<exists>t. quiet t \<and> m' = change (\<lambda>u. t) m"
proof -
  obtain c t where t: "is_commanded (get m) = (c, t)" by fastforce
  then have q: "quiet t" "quiet (set_response ok t)" for ok
    using is_commanded_quiet[where t = "get m"] by auto
  from assms t have "m' = change (\<lambda>u. t) m \<or> (\<exists>ok. m' = change (set_response ok) (change (\<lambda>u. t) m))"
    by (auto simp: trigger_step_def Let_def split: if_split_asm dest!: call_with_result)
  with q assms(2) show ?thesis by auto
qed

lemma trigger_step_quiet:
  assumes "is_commanded (get m) = (False, get m)" "change (\<lambda>u. get m) m = m"
  shows "trigger_step get change call (m, w) = Some (Inr (), m, w)"
  unfolding trigger_step_def prod.case assms(1) Let_def using assms(2) by simp

lemma hand_over_data: "hand_over_target dl i ch (m, w) = Some (r, m', w') \<Longrightarrow> m' = m"
  by (auto simp: hand_over_target_def call_with_def split: option.splits sum.splits)

text \<open>The triggers of a motor, each with its update.\<close>

definition motor_triggers :: "((motor_node \<Rightarrow> trigger) \<times> ((trigger \<Rightarrow> trigger) \<Rightarrow> motor_node \<Rightarrow> motor_node)) list" where
  "motor_triggers =
    [(t_init, t_init_update), (t_halt, t_halt_update), (t_recover, t_recover_update)]
    @ map (\<lambda>(get, change, mode). (get, change)) mode_triggers"

lemma motor_triggers_law:
  "(get, change) \<in> set motor_triggers \<Longrightarrow>
     get (change f m) = f (get m) \<and> change f (change g m) = change (\<lambda>t. f (g t)) m \<and> change (\<lambda>u. get m) m = m"
  by (auto simp: motor_triggers_def mode_triggers_def)

lemma motor_triggers_frame:
  "(get, change) \<in> set motor_triggers \<Longrightarrow> (get', change') \<in> set motor_triggers \<Longrightarrow>
     quiet (get' m) \<Longrightarrow> quiet t \<Longrightarrow> quiet (get' (change (\<lambda>u. t) m))"
  by (auto simp: motor_triggers_def mode_triggers_def)

lemma quiet_motor_iff: "quiet_motor m \<longleftrightarrow> (\<forall>(get, change) \<in> set motor_triggers. quiet (get m))"
  by (auto simp: quiet_motor_def motor_triggers_def mode_triggers_def)

lemma run_steps_append: "run_steps (xs @ ys) s = bindB (run_steps xs s) (\<lambda>u. run_steps ys)"
  by (induction xs arbitrary: s) (auto simp: bindB_def split: option.splits sum.splits)

text \<open>A write is the triggers of the motor, in order, and then the target.\<close>

definition drive_steps where
  "drive_steps dl i ch =
    [(t_init, t_init_update, dl_init dl i ch), (t_halt, t_halt_update, dl_halt dl i ch),
     (t_recover, t_recover_update, dl_recover dl i ch)]
    @ map (\<lambda>(get, change, mode). (get, change, dl_set_mode dl i mode ch)) mode_triggers"

abbreviation run_triggers where
  "run_triggers steps \<equiv> run_steps (map (\<lambda>(get, change, call). trigger_step get change call) steps)"

lemma write_motor_triggers:
  "write_motor dl i ch mw = bindB (run_triggers (drive_steps dl i ch) mw) (\<lambda>u. hand_over_target dl i ch)"
proof -
  have m: "map (\<lambda>(get, change, mode). trigger_step get change (dl_set_mode dl i mode ch)) xs
      = map (\<lambda>(get, change, call). trigger_step get change call)
          (map (\<lambda>(get, change, mode). (get, change, dl_set_mode dl i mode ch)) xs)" for xs
    by auto
  show ?thesis
    unfolding write_motor_def drive_steps_def map_append run_steps_append switchModes_def m
    by (simp add: handle_init_def handle_halt_def handle_recover_def bindB_def split: option.splits sum.splits)
qed

lemma drive_steps_triggers: "map (\<lambda>(get, change, call). (get, change)) (drive_steps dl i ch) = motor_triggers"
  by (simp add: drive_steps_def motor_triggers_def mode_triggers_def)

text \<open>A run of triggers quiets those it has passed, and keeps the others quiet.\<close>

lemma run_triggers_quiet:
  assumes "run_steps (map (\<lambda>(get, change, call). trigger_step get change call) steps) (m, w) = Some (Inr u, m', w')"
    "\<forall>(get, change, call) \<in> set steps. (get, change) \<in> set motor_triggers"
  shows "\<forall>(get, change) \<in> set motor_triggers. (\<exists>call. (get, change, call) \<in> set steps) \<or> quiet (get m) \<longrightarrow> quiet (get m')"
  using assms
proof (induction steps arbitrary: m w)
  case Nil
  then show ?case by auto
next
  case (Cons s steps)
  obtain g c call where s: "s = (g, c, call)" by (cases s)
  with Cons.prems have gc: "(g, c) \<in> set motor_triggers" by simp
  from Cons.prems s obtain m1 w1 where
    1: "trigger_step g c call (m, w) = Some (Inr (), m1, w1)" and
    2: "run_steps (map (\<lambda>(get, change, call). trigger_step get change call) steps) (m1, w1) = Some (Inr u, m', w')"
    by (auto simp: bindB_def split: option.splits sum.splits)
  from trigger_step_result[OF 1] motor_triggers_law[OF gc] obtain t where t: "quiet t" "m1 = c (\<lambda>u. t) m" by blast
  have "quiet (g m1)" using t motor_triggers_law[OF gc] by simp
  moreover have "quiet (get m1)" if "(get, change) \<in> set motor_triggers" "quiet (get m)" for get change
    using motor_triggers_frame[OF gc that] t by simp
  moreover have "\<forall>(get, change, call) \<in> set steps. (get, change) \<in> set motor_triggers"
    using Cons.prems(2) by simp
  ultimately show ?case using Cons.IH[OF 2] s by fastforce
qed

lemma write_motor_quiet:
  assumes "write_motor dl i ch (m, w) = Some (Inr u, m', w')"
  shows "quiet_motor m'"
proof -
  from assms obtain m1 w1 where
    1: "run_triggers (drive_steps dl i ch) (m, w) = Some (Inr (), m1, w1)" and
    2: "hand_over_target dl i ch (m1, w1) = Some (Inr u, m', w')"
    by (auto simp: write_motor_triggers bindB_def split: option.splits sum.splits)
  have t: "\<forall>(get, change, call) \<in> set (drive_steps dl i ch). (get, change) \<in> set motor_triggers"
    "\<forall>(get, change) \<in> set motor_triggers. \<exists>call. (get, change, call) \<in> set (drive_steps dl i ch)"
    using drive_steps_triggers[of dl i ch, THEN arg_cong[where f = set]] by (force simp: set_eq_iff)+
  from run_triggers_quiet[OF 1 t(1)] t(2) show ?thesis
    using hand_over_data[OF 2] by (auto simp: quiet_motor_iff)
qed

text \<open>A motor without a command only gets its target.\<close>

lemma run_triggers_idle:
  assumes "\<forall>(get, change, call) \<in> set steps. (get, change) \<in> set motor_triggers" "quiet_motor m"
  shows "run_triggers steps (m, w) = Some (Inr (), m, w)"
  using assms(1)
proof (induction steps)
  case (Cons s steps)
  obtain g c call where s: "s = (g, c, call)" by (cases s)
  with Cons.prems have gc: "(g, c) \<in> set motor_triggers" by simp
  then have "is_commanded (g m) = (False, g m)"
    using assms(2) by (auto simp: quiet_motor_iff intro!: quiet_command)
  then have "trigger_step g c call (m, w) = Some (Inr (), m, w)"
    using motor_triggers_law[OF gc] by (intro trigger_step_quiet) auto
  with Cons show ?case by (simp add: s bindB_def)
qed simp

lemma write_motor_idle:
  assumes "quiet_motor m"
  shows "write_motor dl i ch (m, w) = hand_over_target dl i ch (m, w)"
proof -
  have "\<forall>(get, change, call) \<in> set (drive_steps dl i ch). (get, change) \<in> set motor_triggers"
    using drive_steps_triggers[of dl i ch, THEN arg_cong[where f = set]] by (force simp: set_eq_iff)
  from run_triggers_idle[OF this assms] show ?thesis by (simp add: write_motor_triggers bindB_def)
qed

text \<open>The loop over the entries: keys stay, and what a step promises holds of every entry.\<close>

lemma each_entry_keys: "each_entry f xs w = Some (r, ys, w') \<Longrightarrow> map fst ys = map fst xs"
proof (induction xs arbitrary: w ys r w')
  case (Cons p xs)
  obtain k x where "p = (k, x)" by (cases p)
  with Cons show ?case by (auto split: option.splits sum.splits)
qed simp

lemma each_entry_all:
  assumes "each_entry f xs w = Some (Inr u, ys, w')"
    "\<And>k x w x' w'. f k (x, w) = Some (Inr (), x', w') \<Longrightarrow> P k x'"
  shows "\<forall>(k, y) \<in> set ys. P k y"
  using assms(1)
proof (induction xs arbitrary: w ys)
  case (Cons p xs)
  obtain k x where "p = (k, x)" by (cases p)
  with Cons assms(2) show ?case by (fastforce split: option.splits sum.splits)
qed simp

lemma each_entry_cong:
  assumes "\<And>k x w. (k, x) \<in> set xs \<Longrightarrow> f k (x, w) = g k (x, w)"
  shows "each_entry f xs w = each_entry g xs w"
  using assms
proof (induction xs arbitrary: w)
  case (Cons p xs)
  obtain k x where "p = (k, x)" by (cases p)
  with Cons show ?case by (simp split: option.splits sum.splits)
qed simp

lemma each_entry_skip:
  "\<forall>(k, x) \<in> set xs. \<forall>w. f k (x, w) = Some (Inr (), x, w) \<Longrightarrow> each_entry f xs w = Some (Inr (), xs, w)"
  by (induction xs) auto

lemma each_entry_same:
  assumes "each_entry f xs w = Some (r, ys, w')" "\<And>k x w r x' w'. f k (x, w) = Some (r, x', w') \<Longrightarrow> x' = x"
  shows "ys = xs"
  using assms(1)
proof (induction xs arbitrary: w ys r w')
  case (Cons p xs)
  obtain k x where "p = (k, x)" by (cases p)
  with Cons assms(2) show ?case by (fastforce split: option.splits sum.splits)
qed simp

text \<open>The loop over the nodes.\<close>

lemma drive_write_node_idle: "drive_write_node dl sc i (n, w) = Some (Inr u, n', w') \<Longrightarrow> idle n'"
  by (auto simp: drive_write_node_def bindB_def call_with_def idle_def reset_command_def start_command_def
      write_command_def wo_prepare_def Let_def split: option.splits sum.splits if_split_asm)

lemma idle_drive_write_node: "idle n \<Longrightarrow> drive_write_node dl sc i (n, w) = Some (Inr (), n, w)"
  by (simp add: drive_write_node_def idle_def reset_command_def start_command_def write_command_def bindB_def)

text \<open>A cycle that returns.\<close>

lemma drive_write_result:
  assumes "drive_write dl sc data w = Some (Inr u, data', w')"
  shows "map fst (fst data') = map fst (fst data) \<and> map fst (snd data') = map fst (snd data) \<and>
    (\<forall>(i, n) \<in> set (fst data'). idle n) \<and> (\<forall>(k, m) \<in> set (snd data'). quiet_motor m)"
proof -
  from assms obtain ns w1 ms where
    1: "each_entry (drive_write_node dl sc) (fst data) w = Some (Inr (), ns, w1)" and
    2: "each_entry (\<lambda>(i, ch). write_motor dl (ucast i) ch) (snd data) w1 = Some (Inr u, ms, w')" and
    d: "data' = (ns, ms)"
    by (auto simp: drive_write_def split: option.splits sum.splits)
  have "\<forall>(i, n) \<in> set ns. idle n"
    by (rule each_entry_all[OF 1]) (rule drive_write_node_idle)
  moreover have "\<forall>(k, m) \<in> set ms. quiet_motor m"
    by (rule each_entry_all[OF 2]) (auto dest: write_motor_quiet)
  ultimately show ?thesis using each_entry_keys[OF 1] each_entry_keys[OF 2] d by simp
qed

lemma drive_write_idle:
  assumes "\<forall>(i, n) \<in> set (fst data). idle n" "\<forall>(k, m) \<in> set (snd data). quiet_motor m"
  shows "drive_write dl sc data w =
    map_option (map_prod id (map_prod (\<lambda>ms. data) id))
      (each_entry (\<lambda>(i, ch). hand_over_target dl (ucast i) ch) (snd data) w)"
proof -
  have "each_entry (drive_write_node dl sc) (fst data) w = Some (Inr (), fst data, w)"
    using assms(1) by (intro each_entry_skip) (auto simp: idle_drive_write_node)
  moreover have "each_entry (\<lambda>(i, ch). write_motor dl (ucast i) ch) (snd data) w =
      each_entry (\<lambda>(i, ch). hand_over_target dl (ucast i) ch) (snd data) w"
    using assms(2) by (intro each_entry_cong) (auto simp: write_motor_idle)
  moreover have "ms = snd data"
    if "each_entry (\<lambda>(i, ch). hand_over_target dl (ucast i) ch) (snd data) w = Some (r, ms, w')" for r ms w'
    by (rule each_entry_same[OF that]) (auto dest: hand_over_data)
  ultimately show ?thesis
    by (cases "each_entry (\<lambda>(i, ch). hand_over_target dl (ucast i) ch) (snd data) w")
      (auto simp: drive_write_def)
qed

subsection \<open>The drives of a container\<close>

text \<open>What a call on a driver does: it crashes when there is none, and registers and forgets none.\<close>

definition serves :: "('w \<Rightarrow> u16 \<Rightarrow> bool) \<Rightarrow> u16 \<Rightarrow> ('w \<Rightarrow> ('w, 'a) blocking) \<Rightarrow> bool" where
  "serves reg i f \<longleftrightarrow>
    (\<forall>w. (f w = None \<longleftrightarrow> \<not> reg w i) \<and> (\<forall>r w'. f w = Some (r, w') \<longrightarrow> reg w' = reg w))"

locale motor_drivers =
  fixes dl :: "'w drive_lib" and reg :: "'w \<Rightarrow> u16 \<Rightarrow> bool"
  assumes init_serves: "serves reg i (dl_init dl i ch)" and halt_serves: "serves reg i (dl_halt dl i ch)"
    and recover_serves: "serves reg i (dl_recover dl i ch)"
    and set_mode_serves: "serves reg i (dl_set_mode dl i mode ch)"
    and get_mode_serves: "serves reg i (dl_get_mode dl i ch)"
    and set_target_serves: "serves reg i (dl_set_target dl i v ch)"
    and position_serves: "serves reg i (dl_position dl i ch)"
    and speed_serves: "serves reg i (dl_speed dl i ch)"
    and effort_serves: "serves reg i (dl_effort dl i ch)"
    and position_returns: "dl_position dl i ch w \<noteq> Some (Inl e, w')"
    and speed_returns: "dl_speed dl i ch w \<noteq> Some (Inl e, w')"
    and effort_returns: "dl_effort dl i ch w \<noteq> Some (Inl e, w')"
begin

lemma read_motor_result:
  "if reg w i then \<exists>m' w'. read_motor dl i ch (m, w) = Some (Inr (), m', w') \<and> reg w' = reg w
   else read_motor dl i ch (m, w) = None"
proof (cases "reg w i")
  case False
  then have "dl_position dl i ch w = None" using position_serves by (simp add: serves_def)
  with False show ?thesis by (simp add: read_motor_def call_with_def bindB_def)
next
  case True
  have call: "\<exists>a w'. f x = Some (Inr a, w') \<and> reg w' = reg x"
    if "serves reg i f" "\<And>x e w'. f x \<noteq> Some (Inl e, w')" "reg x i" for f :: "'w \<Rightarrow> ('w, double) blocking" and x
  proof (cases "f x")
    case None
    with that show ?thesis by (simp add: serves_def)
  next
    case (Some p)
    with that show ?thesis by (cases p; cases "fst p") (auto simp: serves_def)
  qed
  obtain p w1 where 1: "dl_position dl i ch w = Some (Inr p, w1)" "reg w1 = reg w"
    using call[OF position_serves position_returns True] by blast
  obtain v w2 where 2: "dl_speed dl i ch w1 = Some (Inr v, w2)" "reg w2 = reg w"
    using call[OF speed_serves speed_returns, of w1 ch] 1 True by auto
  obtain e w3 where 3: "dl_effort dl i ch w2 = Some (Inr e, w3)" "reg w3 = reg w"
    using call[OF effort_serves effort_returns, of w2 ch] 2 True by auto
  from 1 2 3 True show ?thesis by (simp add: read_motor_def call_with_def bindB_def)
qed

lemma drive_read_returns:
  "drive_read dl data w = None \<longleftrightarrow> (\<exists>((i, ch), m) \<in> set (snd data). \<not> reg w (ucast i))"
proof -
  have "each_entry (\<lambda>(i, ch). read_motor dl (ucast i) ch) ms w = None \<longleftrightarrow> (\<exists>((i, ch), m) \<in> set ms. \<not> reg w (ucast i))" for ms
  proof (induction ms arbitrary: w)
    case (Cons p ms)
    obtain i ch m where p: "p = ((i, ch), m)" by (metis surj_pair)
    show ?case
    proof (cases "reg w (ucast i)")
      case True
      then obtain m' w' where "read_motor dl (ucast i) ch (m, w) = Some (Inr (), m', w')" "reg w' = reg w"
        using read_motor_result[of w "ucast i" ch m] by auto
      with Cons.IH[of w'] True show ?thesis by (simp add: p)
    next
      case False
      then show ?thesis using read_motor_result[of w "ucast i" ch m] by (simp add: p)
    qed
  qed simp
  from this[of "snd data"] show ?thesis
    by (cases "each_entry (\<lambda>(i, ch). read_motor dl (ucast i) ch) (snd data) w") (simp_all add: drive_read_def split_beta)
qed

end

definition drives ::
  "'d dict_ops \<Rightarrow> 'n network \<Rightarrow> numeric_cast \<Rightarrow> (u16 \<Rightarrow> u8 \<Rightarrow> ('d, 'n) bridge motor wakeups)
   \<Rightarrow> (u16 \<rightharpoonup> ('d, 'n, 'e) d402_node) drive_lib" where
  "drives dops nops nc ws =
    (let bus = bridge_bus dops nops; now = (\<lambda>f d. Some (f d)); get = (\<lambda>f d. Some (map_prod Inr id (f d))) in
     proxy_lib.extend (proxy_drivers dops nops)
       (drive_lib.fields
         (\<lambda>i ch. on_member (now (init_motor bus ch (ws i ch))) i)
         (\<lambda>i ch. on_member (now (halt_motor ch)) i)
         (\<lambda>i ch. on_member (now (recover_motor ch (ws i ch))) i)
         (\<lambda>i mode ch. on_member (now (set_operation_mode bus mode ch (ws i ch))) i)
         (\<lambda>i ch. on_member (\<lambda>d. Some (Inr (node_mode ch d), d)) i)
         (\<lambda>i v ch. on_member (now (set_target nc v ch)) i)
         (\<lambda>i ch. on_member (get (node_position bus ch)) i)
         (\<lambda>i ch. on_member (get (node_speed bus ch)) i)
         (\<lambda>i ch. on_member (get (node_effort bus ch)) i)))"

lemma on_member_serves:
  assumes "\<And>d. f d \<noteq> None"
  shows "serves (\<lambda>ds i. ds i \<noteq> None) i (on_member f i)"
proof -
  have "on_member f i ds = None \<longleftrightarrow> ds i = None" for ds
    using assms[of "the (ds i)"] by (cases "ds i"; cases "f (the (ds i))") (auto simp: on_member_def)
  moreover have "(\<lambda>j. ds' j \<noteq> None) = (\<lambda>j. ds j \<noteq> None)" if "on_member f i ds = Some (r, ds')" for ds r ds'
    using on_member_keeps[OF that] by simp
  ultimately show ?thesis by (simp add: serves_def)
qed

lemma drives_simps [simp]:
  "dl_init (drives dops nops nc ws) i ch = on_member (\<lambda>d. Some (init_motor (bridge_bus dops nops) ch (ws i ch) d)) i"
  "dl_halt (drives dops nops nc ws) i ch = on_member (\<lambda>d. Some (halt_motor ch d)) i"
  "dl_recover (drives dops nops nc ws) i ch = on_member (\<lambda>d. Some (recover_motor ch (ws i ch) d)) i"
  "dl_set_mode (drives dops nops nc ws) i mode ch =
     on_member (\<lambda>d. Some (set_operation_mode (bridge_bus dops nops) mode ch (ws i ch) d)) i"
  "dl_get_mode (drives dops nops nc ws) i ch = on_member (\<lambda>d. Some (Inr (node_mode ch d), d)) i"
  "dl_set_target (drives dops nops nc ws) i v ch = on_member (\<lambda>d. Some (set_target nc v ch d)) i"
  "dl_position (drives dops nops nc ws) i ch =
     on_member (\<lambda>d. Some (map_prod Inr id (node_position (bridge_bus dops nops) ch d))) i"
  "dl_speed (drives dops nops nc ws) i ch =
     on_member (\<lambda>d. Some (map_prod Inr id (node_speed (bridge_bus dops nops) ch d))) i"
  "dl_effort (drives dops nops nc ws) i ch =
     on_member (\<lambda>d. Some (map_prod Inr id (node_effort (bridge_bus dops nops) ch d))) i"
  by (simp_all add: drives_def Let_def proxy_lib.defs drive_lib.defs)

interpretation md: motor_drivers "drives dops nops nc ws" "\<lambda>ds i. ds i \<noteq> None" for dops nops nc ws
  by unfold_locales
    (simp_all add: on_member_serves del: not_None_eq,
      auto simp: on_member_def map_prod_def split: option.splits prod.splits)

text \<open>Operations of a channel that cannot throw.\<close>

lemma channel_call_returns:
  "\<exists>b d'. channel_call ch (map_prod Inr id \<circ> f) d = (Inr b, d')" "\<exists>b d'. channel_call ch (\<lambda>m. map_prod Inr id (f m)) d = (Inr b, d')"
  by (auto simp: channel_call_def on_motor_def map_prod_def split: option.splits prod.splits)

lemma halt_motor_returns: "\<exists>b d'. halt_motor ch d = (Inr b, d')"
  unfolding halt_motor_def by (rule channel_call_returns)

lemma set_target_returns: "\<exists>b d'. set_target nc v ch d = (Inr b, d')"
  unfolding set_target_def by (rule channel_call_returns(2))

lemma hand_over_returns:
  assumes "ds i \<noteq> None"
  shows "\<exists>ds'. hand_over_target (drives dops nops nc ws) i ch (m, ds) = Some (Inr (), m, ds')"
proof -
  from assms obtain d where d: "ds i = Some d" by blast
  show ?thesis
  proof (cases "target_of_mode (node_mode ch d) m")
    case None
    with d show ?thesis by (simp add: hand_over_target_def on_member_def)
  next
    case (Some v)
    obtain b d' where "set_target nc v ch d = (Inr b, d')" using set_target_returns by blast
    with d Some show ?thesis by (simp add: hand_over_target_def on_member_def call_with_def)
  qed
qed

subsection \<open>Properties\<close>

text \<open>C26: Every command of a controller reaches its drive once: after a cycle that returned no command is
  pending for any node or motor, for whatever drivers, the entries are those there were, and the
  next cycle only hands the targets over and leaves all data as it is.\<close>

theorem motor_commands_are_one_shot:
  assumes "drive_write dl sc data w = Some (Inr (), data', w')"
  shows "map fst (fst data') = map fst (fst data) \<and> map fst (snd data') = map fst (snd data) \<and>
    (\<forall>(k, m) \<in> set (snd data'). \<forall>(get, change) \<in> set motor_triggers. \<not> fst (is_commanded (get m))) \<and>
    drive_write dl sc data' w'' =
      map_option (map_prod id (map_prod (\<lambda>ms. data') id))
        (each_entry (\<lambda>(i, ch). hand_over_target dl (ucast i) ch) (snd data') w'')"
proof -
  note result = drive_write_result[OF assms]
  have "\<forall>(k, m) \<in> set (snd data'). \<forall>(get, change) \<in> set motor_triggers. \<not> fst (is_commanded (get m))"
    using result by (fastforce simp: quiet_motor_iff quiet_command)
  with result drive_write_idle[of data'] show ?thesis by simp
qed

theorem motor_commands_are_one_shot_witness:
  "let m = motor_node_init\<lparr>t_halt := trigger_init\<lparr>ons_cmd := Fin 1\<rparr>\<rparr>;
       dl = drives table_ops device_net boost_cast (\<lambda>i ch. []);
       r = the (drive_write dl plain_cast ([], [((2, 1), m)]) [2 \<mapsto> two_axes_node])
   in drive_write dl plain_cast (fst (snd r)) (snd (snd r)) =
      map_option (map_prod id (map_prod (\<lambda>ms. fst (snd r)) id))
        (each_entry (\<lambda>(i, ch). hand_over_target dl (ucast i) ch) (snd (fst (snd r))) (snd (snd r)))"
proof -
  let ?m = "motor_node_init\<lparr>t_halt := trigger_init\<lparr>ons_cmd := Fin 1\<rparr>\<rparr>"
  let ?dl = "drives table_ops device_net boost_cast (\<lambda>i ch. [])"
  let ?w = "drive_write ?dl plain_cast ([], [((2, 1), ?m)]) [2 \<mapsto> two_axes_node]"
  have "\<exists>data' ds'. ?w = Some (Inr (), data', ds')"
  proof -
    let ?ds = "[2 \<mapsto> two_axes_node] :: u16 \<rightharpoonup> (u16 \<times> u8 \<rightharpoonup> co_type \<times> int, device_memory, unit) d402_node"
    let ?m1 = "motor_node_init" let ?halt = "trigger_step t_halt t_halt_update (dl_halt ?dl 2 1)"
    obtain b d where halt: "halt_motor 1 two_axes_node = (Inr b, d)" using halt_motor_returns by blast
    then have 1: "?halt (?m, ?ds) = Some (Inr (), motor_node_init\<lparr>t_halt := set_response b trigger_init\<rparr>, ?ds(2 \<mapsto> d))"
      by (simp add: trigger_step_def is_commanded_def call_with_def on_member_def motor_node_init_def trigger_init_def)
    obtain ds' where 2: "hand_over_target ?dl 2 1 (motor_node_init\<lparr>t_halt := set_response b trigger_init\<rparr>, ?ds(2 \<mapsto> d))
        = Some (Inr (), motor_node_init\<lparr>t_halt := set_response b trigger_init\<rparr>, ds')"
      using hand_over_returns[of "?ds(2 \<mapsto> d)" 2 table_ops device_net boost_cast "\<lambda>i ch. []" 1] by auto
    have "write_motor ?dl 2 1 (?m, ?ds) = Some (Inr (), motor_node_init\<lparr>t_halt := set_response b trigger_init\<rparr>, ds')"
      using 1 2 by (simp add: write_motor_def handle_init_def handle_halt_def handle_recover_def switchModes_def
          mode_triggers_def trigger_step_def is_commanded_def bindB_def motor_node_init_def trigger_init_def set_response_def)
    then show ?thesis by (simp add: drive_write_def)
  qed
  then obtain data' ds' where run: "?w = Some (Inr (), data', ds')" by blast
  from motor_commands_are_one_shot[OF run] show ?thesis
    unfolding Let_def run by simp
qed

text \<open>Unlike the component for proxy drivers, which skips a node without a driver, this one follows the
  null pointer: reading the motors crashes exactly when a motor belongs to a node for which no
  driver is registered.\<close>

theorem motor_without_driver_crashes:
  "drive_read (drives dops nops nc ws) data ds = None \<longleftrightarrow> (\<exists>((i, ch), m) \<in> set (snd data). ds (ucast i) = None)"
  using md.drive_read_returns[of dops nops nc ws data ds] by (simp add: split_beta)

end
