(* ===== verification/RobotSystem.thy ===== *)
theory RobotSystem
  imports Cia402System
begin

text \<open>
  The hardware component for robots (\<open>canopen_ros2_control\<close>, \<open>cia402_data.hpp\<close>, \<open>robot_system.hpp\<close> and
  \<open>robot_system.cpp\<close>): joints, each with a CiA 402 driver and the operation modes that belong to its
  command interfaces.
\<close>

subsection \<open>Joints\<close>

text \<open>The driver is a pointer; it is the id under which the driver is registered, or null.\<close>

record cia402_data =
  cd_node_id :: u8
  cd_channel :: u8
  cd_joint_name :: string
  cd_driver :: "u16 option"
  command_interface_to_operation_mode :: "string \<rightharpoonup> u16"
  interfaces :: "string list"
  interfaces_to_start :: "string list"
  interfaces_to_running :: "string list"
  interfaces_to_stop :: "string list"
  cd_actual_position :: double
  cd_actual_velocity :: double
  cd_actual_effort :: double
  target_position :: double
  target_velocity :: double
  target_torque :: double

definition Cia402Data_new :: cia402_data where
  "Cia402Data_new =
    \<lparr>cd_node_id = 0, cd_channel = 0, cd_joint_name = [], cd_driver = None,
     command_interface_to_operation_mode = Map.empty, interfaces = [], interfaces_to_start = [],
     interfaces_to_running = [], interfaces_to_stop = [], cd_actual_position = NaN, cd_actual_velocity = NaN,
     cd_actual_effort = NaN, target_position = NaN, target_velocity = NaN, target_torque = NaN\<rparr>"

text \<open>One of the three entries that give an interface its mode. The number becomes an enumerator, and 16 bits
  of it go to the driver. \<open>emplace\<close> keeps an entry that is there.\<close>

definition mode_entry :: "yaml \<Rightarrow> string \<Rightarrow> string \<Rightarrow> cia402_data \<Rightarrow> (cia402_data, unit) outcome" where
  "mode_entry doc key iface d =
    (if has_entry doc [key]
     then (case required (as_uint doc [key]) of
             Inl e \<Rightarrow> (Inl e, d)
           | Inr mode \<Rightarrow>
               (let k = cd_joint_name d @ ''/'' @ iface; modes = command_interface_to_operation_mode d in
                (Inr (), if modes k = None then d\<lparr>command_interface_to_operation_mode := modes(k \<mapsto> word_of_nat mode)\<rparr> else d)))
     else (Inr (), d))"

text \<open>\<open>init_data\<close>: the id of the node is read with 16 bits and kept with eight.\<close>

definition init_data :: "yaml_lib \<Rightarrow> string \<Rightarrow> string \<Rightarrow> cia402_data \<Rightarrow> (cia402_data, bool) outcome" where
  "init_data yl name dump d =
    (let d1 = d\<lparr>cd_joint_name := name\<rparr> in
     case yaml_load yl dump of
       Inl e \<Rightarrow> (Inl e, d1)
     | Inr doc \<Rightarrow>
         if \<not> has_entry doc [''node_id''] then (Inr False, d1)
         else (case required (as_u16 doc [''node_id'']) of
                 Inl e \<Rightarrow> (Inl e, d1)
               | Inr nid \<Rightarrow>
                   (let d2 = d1\<lparr>cd_node_id := ucast nid\<rparr> in
                    case (if has_entry doc [''channel''] then required (as_u8 doc [''channel'']) else Inr (cd_channel d2)) of
                      Inl e \<Rightarrow> (Inl e, d2)
                    | Inr ch \<Rightarrow>
                        bindE (mode_entry doc ''position_mode'' ''position'' (d2\<lparr>cd_channel := ch\<rparr>)) (\<lambda>u d3.
                        bindE (mode_entry doc ''velocity_mode'' ''velocity'' d3) (\<lambda>u d4.
                        bindE (mode_entry doc ''effort_mode'' ''effort'' d4) (\<lambda>u d5. (Inr True, d5)))))))"

text \<open>The exports list joint and interface. A command interface is exported when it has a mode.\<close>

definition export_state_interface :: "cia402_data \<Rightarrow> (string \<times> string) list" where
  "export_state_interface d = map (Pair (cd_joint_name d)) [''position'', ''velocity'', ''effort'']"

definition export_command_interface :: "cia402_data \<Rightarrow> (string \<times> string) list \<times> cia402_data" where
  "export_command_interface d =
    (let names = filter (\<lambda>i. command_interface_to_operation_mode d (cd_joint_name d @ ''/'' @ i) \<noteq> None)
                   [''position'', ''velocity'', ''effort''] in
     (map (Pair (cd_joint_name d)) names,
      d\<lparr>interfaces := interfaces d @ map (\<lambda>i. cd_joint_name d @ ''/'' @ i) names\<rparr>))"

text \<open>A call on the driver of a joint; a null pointer is \<open>None\<close>.\<close>

definition on_driver ::
  "(u16 \<Rightarrow> 'w \<Rightarrow> ('w, 'a) blocking) \<Rightarrow> ('a \<Rightarrow> cia402_data \<Rightarrow> cia402_data) \<Rightarrow> cia402_data \<times> 'w
   \<Rightarrow> (cia402_data \<times> 'w, unit) blocking" where
  "on_driver call f dw = (case dw of (d, w) \<Rightarrow> (case cd_driver d of None \<Rightarrow> None | Some i \<Rightarrow> call_with (call i w) f d))"

text \<open>The drivers are called without a channel, which is channel zero.\<close>

definition read_state :: "'w drive_lib \<Rightarrow> cia402_data \<times> 'w \<Rightarrow> (cia402_data \<times> 'w, unit) blocking" where
  "read_state dl =
    run_steps
      [on_driver (\<lambda>i. dl_position dl i 0) (\<lambda>v d. d\<lparr>cd_actual_position := v\<rparr>),
       on_driver (\<lambda>i. dl_speed dl i 0) (\<lambda>v d. d\<lparr>cd_actual_velocity := v\<rparr>),
       on_driver (\<lambda>i. dl_effort dl i 0) (\<lambda>v d. d\<lparr>cd_actual_effort := v\<rparr>)]"

definition robot_target :: "u16 \<Rightarrow> cia402_data \<Rightarrow> double option" where
  "robot_target mode d =
    (if mode = No_Mode then None
     else if mode = Profiled_Position \<or> mode = Cyclic_Synchronous_Position \<or> mode = Interpolated_Position
     then Some (target_position d)
     else if mode = Profiled_Velocity \<or> mode = Cyclic_Synchronous_Velocity then Some (target_velocity d)
     else if mode = Profiled_Torque \<or> mode = Cyclic_Synchronous_Torque then Some (target_torque d)
     else None)"

definition write_target :: "'w drive_lib \<Rightarrow> cia402_data \<times> 'w \<Rightarrow> (cia402_data \<times> 'w, unit) blocking" where
  "write_target dl dw =
    (case dw of (d, w) \<Rightarrow>
      (case cd_driver d of
         None \<Rightarrow> None
       | Some i \<Rightarrow>
           (case dl_get_mode dl i 0 w of
              None \<Rightarrow> None
            | Some (Inl e, w1) \<Rightarrow> Some (Inl e, d, w1)
            | Some (Inr mode, w1) \<Rightarrow>
                (case robot_target mode d of
                   None \<Rightarrow> Some (Inr (), d, w1)
                 | Some v \<Rightarrow> call_with (dl_set_target dl i v 0 w1) (\<lambda>ok x. x) d))))"

text \<open>\<open>perform_switch\<close>: an interface without a mode gets the mode zero.\<close>

definition perform_switch :: "'w drive_lib \<Rightarrow> cia402_data \<times> 'w \<Rightarrow> (cia402_data \<times> 'w, bool) blocking" where
  "perform_switch dl dw =
    (case dw of (d, w) \<Rightarrow>
      (case interfaces_to_start d of
         [] \<Rightarrow> Some (Inr True, d, w)
       | [s] \<Rightarrow>
           (let modes = command_interface_to_operation_mode d; mode = (case modes s of None \<Rightarrow> No_Mode | Some k \<Rightarrow> k);
                d1 = d\<lparr>command_interface_to_operation_mode := modes(s \<mapsto> mode), interfaces_to_running := [s],
                       interfaces_to_stop := [], interfaces_to_start := []\<rparr>
            in case cd_driver d1 of
                 None \<Rightarrow> None
               | Some i \<Rightarrow>
                   (case dl_set_mode dl i mode 0 w of None \<Rightarrow> None | Some (r, w1) \<Rightarrow> Some (r, d1, w1)))
       | s # s' # ss \<Rightarrow> Some (Inr False, d, w)))"

definition check_id :: "u8 \<Rightarrow> cia402_data \<Rightarrow> bool" where
  "check_id i d \<longleftrightarrow> cd_node_id d = i"

subsection \<open>The control cycle\<close>

text \<open>A loop over the joints that ends when a step answers no.\<close>

fun until_false ::
  "('x \<times> 'w \<Rightarrow> ('x \<times> 'w, bool) blocking) \<Rightarrow> 'x list \<Rightarrow> 'w \<Rightarrow> ('x list \<times> 'w, bool) blocking" where
  "until_false f [] w = Some (Inr True, [], w)"
| "until_false f (x # xs) w =
    (case f (x, w) of
       None \<Rightarrow> None
     | Some (Inr True, x1, w1) \<Rightarrow> map_option (map_prod id (map_prod (\<lambda>l. x1 # l) id)) (until_false f xs w1)
     | Some (r, x1, w1) \<Rightarrow> Some (r, x1 # xs, w1))"

definition always :: "('s \<Rightarrow> ('s, unit) blocking) \<Rightarrow> 's \<Rightarrow> ('s, bool) blocking" where
  "always f s = map_option (map_prod (map_sum id (\<lambda>u. True)) id) (f s)"

definition robot_read :: "'w drive_lib \<Rightarrow> cia402_data list \<Rightarrow> 'w \<Rightarrow> (cia402_data list \<times> 'w, bool) blocking" where
  "robot_read dl = until_false (always (read_state dl))"

definition robot_write :: "'w drive_lib \<Rightarrow> cia402_data list \<Rightarrow> 'w \<Rightarrow> (cia402_data list \<times> 'w, bool) blocking" where
  "robot_write dl = until_false (always (write_target dl))"

definition ask_driver :: "(u16 \<Rightarrow> 'w \<Rightarrow> ('w, bool) blocking) \<Rightarrow> cia402_data \<times> 'w \<Rightarrow> (cia402_data \<times> 'w, bool) blocking" where
  "ask_driver call dw =
    (case dw of (d, w) \<Rightarrow>
      (case cd_driver d of
         None \<Rightarrow> None
       | Some i \<Rightarrow> (case call i w of None \<Rightarrow> None | Some (r, w1) \<Rightarrow> Some (r, d, w1))))"

definition robot_activate :: "'w drive_lib \<Rightarrow> cia402_data list \<Rightarrow> 'w \<Rightarrow> (cia402_data list \<times> 'w, bool) blocking" where
  "robot_activate dl = until_false (ask_driver (\<lambda>i. dl_init dl i 0))"

definition robot_deactivate :: "'w drive_lib \<Rightarrow> cia402_data list \<Rightarrow> 'w \<Rightarrow> (cia402_data list \<times> 'w, bool) blocking" where
  "robot_deactivate dl = until_false (ask_driver (\<lambda>i. dl_halt dl i 0))"

subsection \<open>Switching of the command interfaces\<close>

text \<open>The first joint that has exported the interface.\<close>

fun on_owner :: "string \<Rightarrow> (cia402_data \<Rightarrow> cia402_data) \<Rightarrow> cia402_data list \<Rightarrow> cia402_data list" where
  "on_owner x f [] = []"
| "on_owner x f (d # ds) = (if x \<in> set (interfaces d) then f d # ds else d # on_owner x f ds)"

text \<open>\<open>iface_name\<close> is \<open>CommandInterface(interface).get_interface_name()\<close>.\<close>

definition register_start :: "(string \<Rightarrow> string) \<Rightarrow> string \<Rightarrow> cia402_data list \<Rightarrow> cia402_data list" where
  "register_start iface_name x = on_owner x (\<lambda>d. d\<lparr>interfaces_to_start := interfaces_to_start d @ [iface_name x]\<rparr>)"

definition register_stop :: "(string \<Rightarrow> string) \<Rightarrow> string \<Rightarrow> cia402_data list \<Rightarrow> cia402_data list" where
  "register_stop iface_name x = on_owner x (\<lambda>d. d\<lparr>interfaces_to_stop := interfaces_to_stop d @ [iface_name x]\<rparr>)"

definition perform_command_mode_switch ::
  "(string \<Rightarrow> string) \<Rightarrow> 'w drive_lib \<Rightarrow> string list \<Rightarrow> string list \<Rightarrow> cia402_data list \<Rightarrow> 'w
   \<Rightarrow> (cia402_data list \<times> 'w, bool) blocking" where
  "perform_command_mode_switch iface_name dl starts stops ds w =
    until_false (perform_switch dl)
      (fold (register_stop iface_name) stops (fold (register_start iface_name) starts ds)) w"

subsection \<open>The hardware component\<close>

record robot_joint =
  rj_name :: string
  rj_params :: "string \<rightharpoonup> string"

record ('m, 'd) robot =
  rb_params :: "string \<rightharpoonup> string"
  rb_joints :: "robot_joint list"
  rb_bus_config :: string
  rb_master_config :: string
  rb_master_bin :: string
  rb_can_interface :: string
  rb_executor :: bool
  rb_container :: "('m, 'd) container option"
  rb_spin :: "bool option"
  rb_init :: "bool option"
  rb_data :: "cia402_data list"

definition RobotSystem_new :: "(string \<rightharpoonup> string) \<Rightarrow> robot_joint list \<Rightarrow> ('m, 'd) robot" where
  "RobotSystem_new ps js =
    \<lparr>rb_params = ps, rb_joints = js, rb_bus_config = [], rb_master_config = [], rb_master_bin = [],
     rb_can_interface = [], rb_executor = False, rb_container = None, rb_spin = None, rb_init = None, rb_data = []\<rparr>"

text \<open>The loop of \<open>on_init\<close> over the joints: one whose device has another driver ends it, one without a node id
  is left out.\<close>

definition device_name :: "robot_joint \<Rightarrow> string" where
  "device_name j = (case rj_params j ''device_name'' of None \<Rightarrow> [] | Some s \<Rightarrow> s)"

fun load_joints ::
  "yaml_lib \<Rightarrow> config_manager \<Rightarrow> robot_joint list \<Rightarrow> ('m, 'd) robot \<Rightarrow> (('m, 'd) robot, bool) outcome" where
  "load_joints yl cfg [] r = (Inr True, r)"
| "load_joints yl cfg (j # js) r =
    (case get_entry as_string cfg (device_name j) ''driver'' of
       None \<Rightarrow> (Inl (Std_exception ''bad optional access''), r)
     | Some type \<Rightarrow>
         if type \<noteq> ''ros2_canopen::Cia402Driver'' then (Inr False, r)
         else (case init_data yl (rj_name j) (dump_device yl cfg (device_name j)) Cia402Data_new of
                 (Inl e, d) \<Rightarrow> (Inl e, r)
               | (Inr ok, d) \<Rightarrow> load_joints yl cfg js (if ok then r\<lparr>rb_data := rb_data r @ [d]\<rparr> else r)))"

text \<open>\<open>base_ok\<close>: the base class accepts the description. The answer is no for a parameter that is missing.\<close>

definition robot_init :: "yaml_lib \<Rightarrow> bool \<Rightarrow> ('m, 'd) robot \<Rightarrow> (('m, 'd) robot, bool) outcome" where
  "robot_init yl base_ok r =
    (if \<not> base_ok then (Inr False, r)
     else (case rb_params r ''bus_config'' of
       None \<Rightarrow> (Inr False, r)
     | Some bus \<Rightarrow>
         (case rb_params r ''master_config'' of
            None \<Rightarrow> (Inr False, r\<lparr>rb_bus_config := bus\<rparr>)
          | Some mc \<Rightarrow>
              (let bin = (case rb_params r ''master_bin'' of None \<Rightarrow> [] | Some b \<Rightarrow> if b = [CHR 0x22, CHR 0x22] then [] else b);
                   r1 = r\<lparr>rb_bus_config := bus, rb_master_config := mc, rb_master_bin := bin\<rparr> in
               case rb_params r ''can_interface_name'' of
                 None \<Rightarrow> (Inr False, r1)
               | Some can \<Rightarrow>
                   (let r2 = r1\<lparr>rb_can_interface := can\<rparr> in
                    case ConfigurationManager_new yl bus of
                      Inl e \<Rightarrow> (Inl e, r2)
                    | Inr cfg \<Rightarrow>
                        (case init_config yl cfg of
                           (Inl e, cfg1) \<Rightarrow> (Inl e, r2)
                         | (Inr u, cfg1) \<Rightarrow> load_joints yl cfg1 (rb_joints r) r2))))))"

text \<open>\<open>initDeviceContainer\<close> gives every joint the driver of its node, when it has the right type.\<close>

fun assign_drivers :: "('m, 'd) container \<Rightarrow> cia402_data list \<Rightarrow> (cia402_data list, unit) outcome option" where
  "assign_drivers c [] = Some (Inr (), [])"
| "assign_drivers c (d # ds) =
    (let go = (\<lambda>d1. map_option (map_prod id (\<lambda>l. d1 # l)) (assign_drivers c ds)) in
     if map_of (registered_drivers c) (ucast (cd_node_id d)) = None then go d
     else (case get_driver_type (ucast (cd_node_id d)) c of
             None \<Rightarrow> None
           | Some (Inl e) \<Rightarrow> Some (Inl e, d # ds)
           | Some (Inr type) \<Rightarrow>
               go (if type = ''ros2_canopen::Cia402Driver'' then d\<lparr>cd_driver := Some (ucast (cd_node_id d))\<rparr> else d)))"

definition robot_container ::
  "('c, 'm, 'd) container_lib \<Rightarrow> ('m, 'd) robot \<Rightarrow> (('m, 'd) robot, unit) blocking" where
  "robot_container lib r =
    (case rb_container r of
       None \<Rightarrow> None
     | Some c \<Rightarrow>
         (case container_init_with lib (rb_can_interface r) (rb_master_config r) (rb_bus_config r) (rb_master_bin r) c of
            None \<Rightarrow> None
          | Some (Inl e, c1) \<Rightarrow> Some (Inl e, r\<lparr>rb_container := Some c1\<rparr>)
          | Some (Inr u, c1) \<Rightarrow>
              (case assign_drivers c1 (rb_data r) of
                 None \<Rightarrow> None
               | Some (q, ds) \<Rightarrow> Some (q, r\<lparr>rb_container := Some c1, rb_data := ds\<rparr>))))"

text \<open>As in the other component, an exception in a thread, and the destruction of a thread that was not
  joined, end the process.\<close>

definition robot_configure ::
  "('c, 'm, 'd) container_lib \<Rightarrow> ('m, 'd) container \<Rightarrow> ('m, 'd) robot \<Rightarrow> (('m, 'd) robot, bool) blocking" where
  "robot_configure lib raw r =
    (case DeviceContainer_new lib raw of
       (Inl e, c) \<Rightarrow> Some (Inl e, r\<lparr>rb_executor := True\<rparr>)
     | (Inr u, c) \<Rightarrow>
         (let r1 = r\<lparr>rb_executor := True, rb_container := Some c\<rparr> in
          if rb_spin r1 = Some True then Some (Inl (Terminated ''thread not joined''), r1)
          else (case robot_container lib (r1\<lparr>rb_spin := Some True, rb_init := Some True\<rparr>) of
                  None \<Rightarrow> None
                | Some (Inl e, r2) \<Rightarrow> Some (Inl (Terminated ''exception in a thread''), r2)
                | Some (Inr u, r2) \<Rightarrow> Some (Inr True, r2\<lparr>rb_init := Some False\<rparr>))))"

text \<open>\<open>clean\<close>, step by step. Joining a thread twice throws.\<close>

definition already_joined :: exn where
  "already_joined = System_error 22 ''Invalid argument''"

definition reset_container ::
  "('c, 'm, 'd) container_lib \<Rightarrow> ('m, 'd) robot \<Rightarrow> ('m, 'd) robot option" where
  "reset_container lib r =
    (case rb_container r of
       None \<Rightarrow> Some r
     | Some c \<Rightarrow> map_option (\<lambda>c1. r\<lparr>rb_container := None\<rparr>) (container_shutdown lib c))"

definition robot_clean :: "('c, 'm, 'd) container_lib \<Rightarrow> ('m, 'd) robot \<Rightarrow> (('m, 'd) robot, unit) blocking" where
  "robot_clean lib r =
    (case (rb_executor r, rb_spin r) of
       (False, _) \<Rightarrow> None
     | (True, None) \<Rightarrow> None
     | (True, Some False) \<Rightarrow> Some (Inl already_joined, r)
     | (True, Some True) \<Rightarrow>
         (case reset_container lib (r\<lparr>rb_spin := Some False\<rparr>) of
            None \<Rightarrow> None
          | Some r1 \<Rightarrow>
              (let r2 = r1\<lparr>rb_executor := False\<rparr> in
               case rb_init r2 of
                 None \<Rightarrow> None
               | Some False \<Rightarrow> Some (Inl already_joined, r2)
               | Some True \<Rightarrow> Some (Inr (), r2\<lparr>rb_init := None, rb_spin := None, rb_data := []\<rparr>))))"

definition robot_cleanup :: "('c, 'm, 'd) container_lib \<Rightarrow> ('m, 'd) robot \<Rightarrow> (('m, 'd) robot, unit) blocking" where
  "robot_cleanup lib r = robot_clean lib r"

definition robot_shutdown :: "('c, 'm, 'd) container_lib \<Rightarrow> ('m, 'd) robot \<Rightarrow> (('m, 'd) robot, unit) blocking" where
  "robot_shutdown lib r = robot_clean lib r"

text \<open>The destructor of the class is that of its members: of the threads first.\<close>

definition robot_destroy :: "('c, 'm, 'd) container_lib \<Rightarrow> ('m, 'd) robot \<Rightarrow> (('m, 'd) robot, unit) blocking" where
  "robot_destroy lib r =
    (if rb_init r = Some True \<or> rb_spin r = Some True then Some (Inl (Terminated ''thread not joined''), r)
     else map_option (Pair (Inr ())) (reset_container lib r))"

subsection \<open>Requests of a joint\<close>

text \<open>The joint at place \<open>k\<close> is the first that has exported \<open>x\<close>.\<close>

definition first_owner :: "string \<Rightarrow> cia402_data list \<Rightarrow> nat \<Rightarrow> bool" where
  "first_owner x ds k \<longleftrightarrow> k < length ds \<and> x \<in> set (interfaces (ds ! k)) \<and> (\<forall>j < k. x \<notin> set (interfaces (ds ! j)))"

lemma on_owner_at: "first_owner x ds k \<Longrightarrow> on_owner x f ds = ds[k := f (ds ! k)]"
proof (induction ds arbitrary: k)
  case (Cons d ds)
  show ?case
  proof (cases k)
    case 0
    with Cons.prems show ?thesis by (simp add: first_owner_def)
  next
    case (Suc j)
    with Cons.prems have "x \<notin> set (interfaces d)" "first_owner x ds j"
      by (auto simp: first_owner_def dest: spec[of _ 0] spec[of _ "Suc _"])
    with Cons.IH Suc show ?thesis by simp
  qed
qed (simp add: first_owner_def)

text \<open>Requests only grow while they are registered.\<close>

definition grown :: "cia402_data \<Rightarrow> cia402_data \<Rightarrow> bool" where
  "grown d d' \<longleftrightarrow> interfaces d' = interfaces d \<and> length (interfaces_to_start d) \<le> length (interfaces_to_start d')"

lemma grown_refl [simp]: "grown d d"
  by (simp add: grown_def)

lemma grown_trans: "grown a b \<Longrightarrow> grown b c \<Longrightarrow> grown a c"
  by (simp add: grown_def)

lemma all_grown_refl: "list_all2 grown ds ds"
  by (simp add: list_all2_refl)

lemma all_grown_trans: "list_all2 grown as bs \<Longrightarrow> list_all2 grown bs cs \<Longrightarrow> list_all2 grown as cs"
  by (rule list_all2_trans[OF grown_trans])

lemma on_owner_grown: "(\<And>d. grown d (f d)) \<Longrightarrow> list_all2 grown ds (on_owner x f ds)"
  by (induction ds) (auto simp: all_grown_refl)

lemma fold_grown: "(\<And>x ds. list_all2 grown ds (f x ds)) \<Longrightarrow> list_all2 grown ds (fold f xs ds)"
  by (induction xs arbitrary: ds) (auto intro: all_grown_refl all_grown_trans)

lemma register_grown:
  "list_all2 grown ds (register_start nm x ds)" "list_all2 grown ds (register_stop nm x ds)"
  by (auto simp: register_start_def register_stop_def grown_def intro!: on_owner_grown)

lemma first_owner_grown: "list_all2 grown ds ds' \<Longrightarrow> first_owner x ds k \<Longrightarrow> first_owner x ds' k"
  by (auto simp: first_owner_def list_all2_conv_all_nth grown_def)

definition starts_at :: "cia402_data list \<Rightarrow> nat \<Rightarrow> nat" where
  "starts_at ds k = length (interfaces_to_start (ds ! k))"

lemma starts_at_grown: "list_all2 grown ds ds' \<Longrightarrow> k < length ds \<Longrightarrow> starts_at ds k \<le> starts_at ds' k"
  by (auto simp: starts_at_def list_all2_conv_all_nth grown_def)

lemma register_start_at: "first_owner x ds k \<Longrightarrow> starts_at (register_start nm x ds) k = Suc (starts_at ds k)"
  by (simp add: register_start_def on_owner_at starts_at_def) (simp add: first_owner_def)

lemma two_starts:
  assumes "first_owner x ds k" "first_owner y ds k"
  shows "2 \<le> starts_at (fold (register_start nm) (as @ x # bs @ y # cs) ds) k"
proof -
  let ?r = "register_start nm"
  let ?d1 = "fold ?r as ds" let ?d2 = "?r x ?d1" let ?d3 = "fold ?r bs ?d2" let ?d4 = "?r y ?d3"
  have g1: "list_all2 grown ds ?d1" and g3: "list_all2 grown ?d2 ?d3" and g5: "list_all2 grown ?d4 (fold ?r cs ?d4)"
    by (rule fold_grown, rule register_grown)+
  have o1: "first_owner x ?d1 k" "first_owner y ?d1 k" using first_owner_grown[OF g1] assms by simp_all
  have o2: "first_owner y ?d2 k" using first_owner_grown[OF register_grown(1) o1(2)] .
  have o3: "first_owner y ?d3 k" using first_owner_grown[OF g3 o2] .
  have o4: "first_owner y ?d4 k" using first_owner_grown[OF register_grown(1) o3] .
  have "1 \<le> starts_at ?d2 k" by (simp add: register_start_at[OF o1(1)])
  also have "\<dots> \<le> starts_at ?d3 k" using starts_at_grown[OF g3] o2 by (simp add: first_owner_def)
  finally have "2 \<le> starts_at ?d4 k" by (simp add: register_start_at[OF o3])
  also have "\<dots> \<le> starts_at (fold ?r cs ?d4) k" using starts_at_grown[OF g5] o4 by (simp add: first_owner_def)
  finally show ?thesis by simp
qed

text \<open>A joint with two requests stops every switch, and is left as it is.\<close>

lemma crowded_switch:
  assumes "until_false (perform_switch dl) ds w = Some (r, ds', w')" "k < length ds" "2 \<le> starts_at ds k"
  shows "r \<noteq> Inr True \<and> k < length ds' \<and> 2 \<le> starts_at ds' k"
  using assms
proof (induction ds arbitrary: w ds' k)
  case (Cons d ds)
  show ?case
  proof (cases k)
    case 0
    with Cons.prems have "perform_switch dl (d, w) = Some (Inr False, d, w)"
      by (auto simp: perform_switch_def starts_at_def split: list.splits)
    with Cons.prems 0 show ?thesis by auto
  next
    case (Suc j)
    obtain q d1 w1 where step: "perform_switch dl (d, w) = Some (q, d1, w1)"
      using Cons.prems(1) by (auto split: option.splits)
    show ?thesis
    proof (cases "q = Inr True")
      case True
      then obtain l where "until_false (perform_switch dl) ds w1 = Some (r, l, w')" "ds' = d1 # l"
        using Cons.prems(1) step by auto
      with Cons.IH[of w1 l j] Cons.prems(2,3) Suc show ?thesis by (simp add: starts_at_def)
    next
      case False
      with Cons.prems Suc step show ?thesis
        by (auto simp: starts_at_def split: sum.splits bool.splits)
    qed
  qed
qed simp

lemma crowded_request:
  assumes "perform_command_mode_switch nm dl starts stops ds w = Some (r, ds', w')" "k < length ds"
    "2 \<le> starts_at (fold (register_start nm) starts ds) k"
  shows "r \<noteq> Inr True \<and> k < length ds' \<and> 2 \<le> starts_at ds' k"
proof -
  let ?d1 = "fold (register_start nm) starts ds" let ?d2 = "fold (register_stop nm) stops ?d1"
  have g: "list_all2 grown ds ?d1" "list_all2 grown ?d1 ?d2"
    by (rule fold_grown, rule register_grown)+
  then have k: "k < length ?d1" "k < length ?d2"
    using assms(2) by (simp_all add: list_all2_lengthD[symmetric])
  with starts_at_grown[OF g(2)] assms(3) have "2 \<le> starts_at ?d2 k" by fastforce
  with crowded_switch[OF assms(1)[unfolded perform_command_mode_switch_def] k(2)] show ?thesis by simp
qed

text \<open>A sequence of requests, with the answers.\<close>

fun run_switches ::
  "(string \<Rightarrow> string) \<Rightarrow> 'w drive_lib \<Rightarrow> (string list \<times> string list) list \<Rightarrow> cia402_data list \<Rightarrow> 'w
   \<Rightarrow> ((exn + bool) list \<times> cia402_data list \<times> 'w) option" where
  "run_switches nm dl [] ds w = Some ([], ds, w)"
| "run_switches nm dl ((starts, stops) # qs) ds w =
    (case perform_command_mode_switch nm dl starts stops ds w of
       None \<Rightarrow> None
     | Some (r, ds1, w1) \<Rightarrow> map_option (map_prod (\<lambda>rs. r # rs) id) (run_switches nm dl qs ds1 w1))"

lemma crowded_for_ever:
  assumes "run_switches nm dl qs ds w = Some (rs, ds', w')" "k < length ds" "2 \<le> starts_at ds k"
  shows "Inr True \<notin> set rs"
  using assms
proof (induction qs arbitrary: ds w rs)
  case (Cons q qs)
  obtain starts stops where q: "q = (starts, stops)" by (cases q)
  obtain r ds1 w1 rest where step: "perform_command_mode_switch nm dl starts stops ds w = Some (r, ds1, w1)"
    "run_switches nm dl qs ds1 w1 = Some (rest, ds', w')" "rs = r # rest"
    using Cons.prems(1) by (auto simp: q split: option.splits)
  have "list_all2 grown ds (fold (register_start nm) starts ds)"
    by (rule fold_grown, rule register_grown)
  from starts_at_grown[OF this Cons.prems(2)] Cons.prems(3)
  have "2 \<le> starts_at (fold (register_start nm) starts ds) k" by simp
  from crowded_request[OF step(1) Cons.prems(2) this] Cons.IH[OF step(2)] step(3) show ?case by auto
qed simp

subsection \<open>The channels of a drive\<close>

lemma on_motor_only: "on_motor ch f d = (a, d') \<Longrightarrow> only_channel ch d d'"
  by (erule on_motor_cases) (simp_all add: put_motor_result)

lemma channel_call_only: "channel_call ch f d = (r, d') \<Longrightarrow> only_channel (unat ch) d d'"
  by (auto simp: channel_call_def dest: on_motor_only split: if_split_asm prod.splits option.splits)

lemma value_only: "value_or_zero ch get f d = (v, d') \<Longrightarrow> only_channel (unat ch) d d'"
  by (auto simp: value_or_zero_def dest: on_motor_only split: prod.splits option.splits)

lemma read_only: "map_prod Inr id (value_or_zero ch get f d) = (r, d') \<Longrightarrow> only_channel (unat ch) d d'"
  by (cases "value_or_zero ch get f d") (auto dest: value_only)

lemma only_channel_trans: "only_channel ch a b \<Longrightarrow> only_channel ch b c \<Longrightarrow> only_channel ch a c"
  by (auto simp: only_channel_def intro: same_flags_trans)

text \<open>A call that changes at most the first channel of every drive.\<close>

type_synonym ('d, 'n, 'e) drive_set = "u16 \<rightharpoonup> ('d, 'n, 'e) d402_node"

definition first_channels :: "('d, 'n, 'e) drive_set \<Rightarrow> ('d, 'n, 'e) drive_set \<Rightarrow> bool" where
  "first_channels ds ds' \<longleftrightarrow> (\<forall>i. rel_option (only_channel 0) (ds i) (ds' i))"

lemma first_channels_refl: "first_channels ds ds"
  by (simp add: first_channels_def option.rel_refl)

lemma first_channels_trans: "first_channels a b \<Longrightarrow> first_channels b c \<Longrightarrow> first_channels a c"
proof -
  assume *: "first_channels a b" "first_channels b c"
  have "rel_option (only_channel 0) (a i) (c i)" for i
    using *[unfolded first_channels_def, THEN spec[of _ i]]
    by (cases "a i"; cases "b i"; cases "c i") (auto dest: only_channel_trans)
  then show ?thesis by (simp add: first_channels_def)
qed

lemma on_member_first:
  "on_member f i ds = Some (r, ds') \<Longrightarrow> (\<And>d r d'. f d = Some (r, d') \<Longrightarrow> only_channel 0 d d') \<Longrightarrow> first_channels ds ds'"
  by (auto simp: on_member_def first_channels_def option.rel_refl split: option.splits)

lemma drives_first:
  "dl_init (drives dops nops nc ws) i 0 ds = Some (r, ds') \<Longrightarrow> first_channels ds ds'"
  "dl_halt (drives dops nops nc ws) i 0 ds = Some (r, ds') \<Longrightarrow> first_channels ds ds'"
  "dl_set_mode (drives dops nops nc ws) i mode 0 ds = Some (r, ds') \<Longrightarrow> first_channels ds ds'"
  "dl_get_mode (drives dops nops nc ws) i 0 ds = Some (q, ds') \<Longrightarrow> first_channels ds ds'"
  "dl_set_target (drives dops nops nc ws) i v 0 ds = Some (r, ds') \<Longrightarrow> first_channels ds ds'"
  "dl_position (drives dops nops nc ws) i 0 ds = Some (p, ds') \<Longrightarrow> first_channels ds ds'"
  "dl_speed (drives dops nops nc ws) i 0 ds = Some (p, ds') \<Longrightarrow> first_channels ds ds'"
  "dl_effort (drives dops nops nc ws) i 0 ds = Some (p, ds') \<Longrightarrow> first_channels ds ds'"
  by (auto simp: init_motor_def halt_motor_def set_operation_mode_def set_target_def node_position_def
      node_speed_def node_effort_def elim!: on_member_first
      dest!: channel_call_only read_only)

lemma until_false_first:
  assumes "until_false f xs ds = Some (r, xs', ds')"
    "\<And>x ds r x' ds'. f (x, ds) = Some (r, x', ds') \<Longrightarrow> first_channels ds ds'"
  shows "first_channels ds ds'"
  using assms(1)
proof (induction xs arbitrary: ds r xs')
  case Nil
  then show ?case by (simp add: first_channels_refl)
next
  case (Cons x xs)
  obtain q x1 ds1 where step: "f (x, ds) = Some (q, x1, ds1)" using Cons.prems by (auto split: option.splits)
  show ?case
  proof (cases "q = Inr True")
    case True
    then obtain l where "until_false f xs ds1 = Some (r, l, ds')" using Cons.prems step by auto
    from first_channels_trans[OF assms(2)[OF step] Cons.IH[OF this]] show ?thesis .
  next
    case False
    then have "ds' = ds1" using Cons.prems step by (auto split: sum.splits bool.splits)
    with assms(2)[OF step] show ?thesis by simp
  qed
qed

lemma call_with_state: "call_with p f x = Some (r, x', w') \<Longrightarrow> \<exists>q. p = Some (q, w')"
  by (auto simp: call_with_def split: option.splits sum.splits)

lemmas drives_chain = drives_first drives_first(4,6,7)[THEN first_channels_trans]

lemma read_state_first:
  "read_state (drives dops nops nc ws) (d, ds) = Some (r, d', ds') \<Longrightarrow> first_channels ds ds'"
  by (auto simp: read_state_def on_driver_def bindB_def simp del: drives_simps split: option.splits sum.splits
      dest!: call_with_state) (blast intro: drives_chain)+

lemma write_target_first:
  "write_target (drives dops nops nc ws) (d, ds) = Some (r, d', ds') \<Longrightarrow> first_channels ds ds'"
  by (auto simp: write_target_def simp del: drives_simps split: option.splits sum.splits
      dest!: call_with_state) (blast intro: drives_chain)+

lemma perform_switch_first:
  "perform_switch (drives dops nops nc ws) (d, ds) = Some (r, d', ds') \<Longrightarrow> first_channels ds ds'"
  by (auto simp: perform_switch_def Let_def first_channels_refl simp del: drives_simps
      split: option.splits list.splits dest: drives_first)

lemma ask_first:
  "ask_driver (\<lambda>i. dl_init (drives dops nops nc ws) i 0) (d, ds) = Some (r, d', ds') \<Longrightarrow> first_channels ds ds'"
  "ask_driver (\<lambda>i. dl_halt (drives dops nops nc ws) i 0) (d, ds) = Some (r, d', ds') \<Longrightarrow> first_channels ds ds'"
  by (auto simp: ask_driver_def simp del: drives_simps split: option.splits dest: drives_first)

lemma always_first:
  assumes "always f (x, ds) = Some (r, x', ds')" "\<And>r d'. f (x, ds) = Some (r, d', ds') \<Longrightarrow> first_channels ds ds'"
  shows "first_channels ds ds'"
  using assms by (auto simp: always_def)

lemmas operation_modes = No_Mode_def Profiled_Position_def Profiled_Velocity_def Profiled_Torque_def
  Interpolated_Position_def Cyclic_Synchronous_Position_def Cyclic_Synchronous_Velocity_def
  Cyclic_Synchronous_Torque_def

subsection \<open>Properties\<close>

text \<open>C27: A request that names two command interfaces of one joint does not only fail: the joint keeps both
  names, so that from then on every request fails, whatever it asks for and for whatever joints.\<close>

theorem failed_switch_sticks:
  assumes "first_owner x ds k" "first_owner y ds k"
    "run_switches nm dl ((as @ x # bs @ y # cs, stops) # qs) ds w = Some (rs, ds', w')"
  shows "Inr True \<notin> set rs"
proof -
  obtain r ds1 w1 rest where step: "perform_command_mode_switch nm dl (as @ x # bs @ y # cs) stops ds w = Some (r, ds1, w1)"
    "run_switches nm dl qs ds1 w1 = Some (rest, ds', w')" "rs = r # rest"
    using assms(3) by (auto split: option.splits)
  have "k < length ds" using assms(1) by (simp add: first_owner_def)
  from crowded_request[OF step(1) this two_starts[OF assms(1,2)]]
  have "r \<noteq> Inr True" "k < length ds1" "2 \<le> starts_at ds1 k" by simp_all
  with crowded_for_ever[OF step(2)] step(3) show ?thesis by auto
qed

definition example_joint :: cia402_data where
  "example_joint = Cia402Data_new\<lparr>cd_node_id := 2, cd_channel := 1, cd_joint_name := ''a'', cd_driver := Some 2,
     command_interface_to_operation_mode := [''a/position'' \<mapsto> Cyclic_Synchronous_Position, ''a/velocity'' \<mapsto> Profiled_Velocity],
     interfaces := [''a/position'', ''a/velocity'']\<rparr>"

theorem failed_switch_sticks_witness:
  "let dl = drives table_ops device_net boost_cast (\<lambda>i ch. [])
   in \<exists>rs ds' w'. run_switches (\<lambda>x. x) dl [([''a/position'', ''a/velocity''], []), ([], [])] [example_joint] [2 \<mapsto> two_axes_node]
        = Some (rs, ds', w') \<and> length rs = 2 \<and> Inr True \<notin> set rs"
proof -
  let ?dl = "drives table_ops device_net boost_cast (\<lambda>i ch. [])"
  let ?p = "run_switches (\<lambda>x. x) ?dl [([] @ ''a/position'' # [] @ ''a/velocity'' # [], []), ([], [])] [example_joint] [2 \<mapsto> two_axes_node]"
  have own: "first_owner ''a/position'' [example_joint] 0" "first_owner ''a/velocity'' [example_joint] 0"
    by (simp_all add: first_owner_def example_joint_def)
  have "\<exists>rs ds' w'. ?p = Some (rs, ds', w') \<and> length rs = 2"
    by (simp add: perform_command_mode_switch_def register_start_def example_joint_def Cia402Data_new_def
        perform_switch_def)
  then obtain rs ds' w' where run: "?p = Some (rs, ds', w')" "length rs = 2" by blast
  from failed_switch_sticks[OF own run(1)] run show ?thesis by (simp add: Let_def)
qed

text \<open>A joint has a channel, but the component never uses it: whatever the channels of the joints, a cycle
  of reading or of writing, an activation, a deactivation and a switch of modes leave every
  channel but the first of every drive as it is.\<close>

theorem robot_uses_first_channel:
  assumes "dl = drives dops nops nc ws"
    "robot_read dl data ds = Some (r, data', ds') \<or> robot_write dl data ds = Some (r, data', ds') \<or>
     robot_activate dl data ds = Some (r, data', ds') \<or> robot_deactivate dl data ds = Some (r, data', ds') \<or>
     perform_command_mode_switch nm dl starts stops data ds = Some (r, data', ds')"
    "ds i = Some d" "0 < ch"
  shows "\<exists>d'. ds' i = Some d' \<and> channels (x402 d') ! ch = channels (x402 d) ! ch"
proof -
  have loop: "first_channels ds ds'" if "until_false f xs ds = Some (r, data', ds')"
    "\<And>x ds r x' ds'. f (x, ds) = Some (r, x', ds') \<Longrightarrow> first_channels ds ds'" for f xs
    using until_false_first[OF that] .
  have "first_channels ds ds'"
    using assms(2) unfolding robot_read_def robot_write_def robot_activate_def robot_deactivate_def
      perform_command_mode_switch_def assms(1)
    by (elim disjE; elim loop) (blast intro: always_first read_state_first write_target_first ask_first perform_switch_first)+
  from this[unfolded first_channels_def, THEN spec[of _ i]] assms(3,4) show ?thesis
    by (auto simp: option_rel_Some1 only_channel_def)
qed

theorem robot_uses_first_channel_witness:
  "\<exists>r data' ds' d'. robot_write (drives table_ops device_net boost_cast (\<lambda>i ch. [])) [example_joint] [2 \<mapsto> two_axes_node]
      = Some (r, data', ds') \<and> ds' 2 = Some d' \<and> channels (x402 d') ! 1 = channels (x402 two_axes_node) ! 1"
proof -
  let ?dl = "drives table_ops device_net boost_cast (\<lambda>i ch. [])"
  let ?ds = "[2 \<mapsto> two_axes_node] :: (u16 \<times> u8 \<rightharpoonup> co_type \<times> int, device_memory, unit) drive_set"
  have driver: "cd_driver example_joint = Some 2" by (simp add: example_joint_def)
  have "\<exists>d' ds'. write_target ?dl (example_joint, ?ds) = Some (Inr (), d', ds')"
  proof (cases "robot_target (node_mode 0 two_axes_node) example_joint")
    case None
    with driver show ?thesis by (simp add: write_target_def on_member_def)
  next
    case (Some v)
    obtain b d' where "set_target boost_cast v 0 two_axes_node = (Inr b, d')" using set_target_returns by blast
    with driver Some show ?thesis by (simp add: write_target_def on_member_def call_with_def)
  qed
  then obtain r data' ds' where run: "robot_write ?dl [example_joint] ?ds = Some (r, data', ds')"
    by (auto simp: robot_write_def always_def)
  from robot_uses_first_channel[OF refl disjI2[OF disjI1[OF run]], of 2 two_axes_node 1] run show ?thesis
    by auto
qed



text \<open>A request for a single command interface gives the drive of the joint the operation mode that was
  configured for the interface, and its answer is the answer of the request; the other joints are
  not touched.\<close>

theorem switch_selects_configured_mode:
  assumes "\<And>x. nm x = x" "first_owner x ds k" "\<forall>d \<in> set ds. interfaces_to_start d = []"
    "command_interface_to_operation_mode (ds ! k) x = Some mode" "cd_driver (ds ! k) = Some i"
    "dl_set_mode dl i mode 0 w = Some (Inr ok, w')"
  shows "perform_command_mode_switch nm dl [x] [] ds w =
    Some (Inr ok, ds[k := (ds ! k)\<lparr>interfaces_to_running := [x], interfaces_to_stop := []\<rparr>], w')"
proof -
  let ?p = "perform_switch dl"
  let ?d = "(ds ! k)\<lparr>interfaces_to_start := [x]\<rparr>"
  have k: "k < length ds" using assms(2) by (simp add: first_owner_def)
  have rest: "until_false ?p xs w = Some (Inr True, xs, w)" if "\<forall>d \<in> set xs. interfaces_to_start d = []" for xs w
    using that by (induction xs) (simp_all add: perform_switch_def)
  have "(command_interface_to_operation_mode (ds ! k))(x \<mapsto> mode) = command_interface_to_operation_mode (ds ! k)"
    using assms(4) by auto
  then have step: "?p (?d, w) = Some (Inr ok, (ds ! k)\<lparr>interfaces_to_running := [x], interfaces_to_stop := []\<rparr>, w')"
    using assms(3-6) k by (simp add: perform_switch_def Let_def)
  have "until_false ?p (pre @ ?d # post) w =
      Some (Inr ok, pre @ (ds ! k)\<lparr>interfaces_to_running := [x], interfaces_to_stop := []\<rparr> # post, w')"
    if "\<forall>d \<in> set pre. interfaces_to_start d = []" "\<forall>d \<in> set post. interfaces_to_start d = []" for pre post
    using that(1)
  proof (induction pre)
    case Nil
    then show ?case using step rest[OF that(2)] by (cases ok) simp_all
  next
    case (Cons d pre)
    then show ?case by (simp add: perform_switch_def)
  qed
  moreover have "\<forall>d \<in> set (take k ds). interfaces_to_start d = []" "\<forall>d \<in> set (drop (Suc k) ds). interfaces_to_start d = []"
    using assms(3) by (auto dest: in_set_takeD in_set_dropD)
  ultimately have "until_false ?p (ds[k := ?d]) w =
      Some (Inr ok, ds[k := (ds ! k)\<lparr>interfaces_to_running := [x], interfaces_to_stop := []\<rparr>], w')"
    unfolding upd_conv_take_nth_drop[OF k] by blast
  moreover have "register_start nm x ds = ds[k := ?d]"
    using assms(1,3) k by (simp add: register_start_def on_owner_at[OF assms(2)])
  ultimately show ?thesis by (simp add: perform_command_mode_switch_def)
qed

text \<open>A drive refuses the mode that it has.\<close>

lemma same_mode_refused: "\<exists>d'. set_operation_mode bus (node_mode ch d) ch ws d = (Inr False, d')"
  by (auto simp: set_operation_mode_def channel_call_def on_motor_def node_mode_def getMode_def selected_obj_def
      split: option.splits)

theorem switch_selects_configured_mode_witness:
  "let d = example_joint\<lparr>command_interface_to_operation_mode := [''a/position'' \<mapsto> node_mode 0 two_axes_node]\<rparr>
   in \<exists>d'. perform_command_mode_switch (\<lambda>x. x) (drives table_ops device_net boost_cast (\<lambda>i ch. [])) [''a/position''] [] [d]
        [2 \<mapsto> two_axes_node] =
      Some (Inr False, [d\<lparr>interfaces_to_running := [''a/position''], interfaces_to_stop := []\<rparr>], [2 \<mapsto> d'])"
proof -
  let ?dl = "drives table_ops device_net boost_cast (\<lambda>i ch. [])"
  let ?d = "example_joint\<lparr>command_interface_to_operation_mode := [''a/position'' \<mapsto> node_mode 0 two_axes_node]\<rparr>"
  obtain d' where "set_operation_mode (bridge_bus table_ops device_net) (node_mode 0 two_axes_node) 0 [] two_axes_node = (Inr False, d')"
    using same_mode_refused by blast
  then have step: "dl_set_mode ?dl 2 (node_mode 0 two_axes_node) 0 [2 \<mapsto> two_axes_node] = Some (Inr False, [2 \<mapsto> d'])"
    by (simp add: on_member_def)
  have own: "first_owner ''a/position'' [?d] 0"
    by (simp add: first_owner_def example_joint_def)
  show ?thesis
    unfolding Let_def using switch_selects_configured_mode[OF refl own _ _ _ step]
    by (intro exI[of _ d']) (simp add: example_joint_def Cia402Data_new_def)
qed

text \<open>The component can never be cleaned up: configuring has joined the thread that loads the bus, and
  \<open>clean\<close> joins it again, so that a cleanup of a configured component throws after it has dropped
  the container, the joints keep their data and their pointers, and the next attempt follows a
  null pointer; without a cleanup the destructor ends the process.\<close>

theorem robot_never_cleans:
  assumes "robot_configure lib raw r = Some (Inr True, r1)" "r2 = r1\<lparr>rb_data := ds\<rparr>"
  shows "robot_destroy lib r2 = Some (Inl (Terminated ''thread not joined''), r2) \<and>
    (\<forall>q r3. robot_cleanup lib r2 = Some (q, r3) \<longrightarrow>
       q = Inl already_joined \<and> rb_container r3 = None \<and> rb_data r3 = ds \<and>
       robot_cleanup lib r3 = None \<and> robot_shutdown lib r3 = None)"
proof -
  have keeps: "rb_spin b = rb_spin a \<and> rb_executor b = rb_executor a"
    if "robot_container lib a = Some (Inr u, b)" for a b u
    using that by (auto simp: robot_container_def split: option.splits sum.splits)
  have "rb_executor r1 \<and> rb_spin r1 = Some True \<and> rb_init r1 = Some False"
    using assms(1) by (auto simp: robot_configure_def Let_def split: prod.splits sum.splits if_split_asm option.splits dest: keeps)
  then have r2: "rb_executor r2" "rb_spin r2 = Some True" "rb_init r2 = Some False" "rb_data r2 = ds"
    using assms(2) by simp_all
  then have "robot_destroy lib r2 = Some (Inl (Terminated ''thread not joined''), r2)"
    by (simp add: robot_destroy_def)
  moreover have "q = Inl already_joined \<and> rb_container r3 = None \<and> rb_data r3 = ds \<and> robot_clean lib r3 = None"
    if "robot_clean lib r2 = Some (q, r3)" for q r3
    using that r2 by (auto simp: robot_clean_def reset_container_def split: option.splits)
  ultimately show ?thesis by (simp add: robot_cleanup_def robot_shutdown_def)
qed

definition two_entries :: "(string \<times> yaml) list" where
  "two_entries = map (\<lambda>(name, doc). (name, doc\<lparr>has_entry := \<lambda>p. p = [''dcf_path'']\<rparr>)) (devices two_devices)"

definition loading_lib :: "(bool, nat, nat) container_lib" where
  "loading_lib = (counting_lib True)\<lparr>cl_client := (table_lib empty_yaml)\<lparr>yaml_ops := plain_yaml two_entries empty_yaml\<rparr>\<rparr>"

lemma two_entries_load:
  "\<exists>c'. container_init_with loading_lib [] [] [] [] ((empty_container two_devices)\<lparr>ct_params := t\<rparr>) = Some (Inr (), c')"
proof -
  let ?m = "\<lparr>cm_file = [], cm_root = two_entries, devices = two_entries\<rparr>"
  have names: "get_all_devices ?m = [''master'', ''motor'']"
    by (simp add: get_all_devices_def two_entries_def two_devices_def)
  have entries: "read_entry ?m ''master'' = read_entry two_devices ''master''" "read_entry ?m ''motor'' = read_entry two_devices ''motor''"
    by (simp_all add: read_entry_def get_entry_def two_entries_def two_devices_def plain_device_def empty_yaml_def)
  let ?c = "(empty_container two_devices)\<lparr>ct_params := t, can_if_name := [], dcf_txt := [], dcf_bin := [], bus_config := []\<rparr>"
  have lib: "yaml_ops (cl_client loading_lib) = plain_yaml two_entries empty_yaml"
    by (simp add: loading_lib_def)
  have "load_bus (plain_yaml two_entries empty_yaml) ?c = (Inr (), ?c\<lparr>ct_config := ?m\<rparr>)"
    by (simp add: load_bus_def ConfigurationManager_new_def plain_yaml_def init_config_def two_entries_def two_devices_def
        empty_container_def plain_device_def empty_yaml_def)
  moreover have "\<exists>c'. load_all loading_lib (?c\<lparr>ct_config := ?m\<rparr>) = Some (Inr (), c')"
    by (simp add: load_all_def required_load_def load_master_def load_drivers_def load_manager_def bindB_def
        names entries empty_container_def two_devices_entries two_devices_kinds load_component_def loading_lib_def
        counting_lib_def register_component_def init_master_def init_registered_def add_node_to_executor_def Let_def
        del: contains.simps)
  ultimately show ?thesis by (simp add: container_init_with_def bindB_def lib)
qed

theorem robot_never_cleans_witness:
  "\<exists>r1. robot_configure loading_lib (empty_container two_devices) (RobotSystem_new Map.empty []) = Some (Inr True, r1) \<and>
     robot_destroy loading_lib (r1\<lparr>rb_data := []\<rparr>) = Some (Inl (Terminated ''thread not joined''), r1\<lparr>rb_data := []\<rparr>)"
proof -
  have new: "\<exists>t. DeviceContainer_new loading_lib (empty_container two_devices) = (Inr (), (empty_container two_devices)\<lparr>ct_params := t\<rparr>)"
    by (simp add: DeviceContainer_new_def loading_lib_def counting_lib_def table_lib_def container_defaults_def
        empty_container_def bindE_def Let_def)
  then obtain t c' where "DeviceContainer_new loading_lib (empty_container two_devices) = (Inr (), (empty_container two_devices)\<lparr>ct_params := t\<rparr>)"
    "container_init_with loading_lib [] [] [] [] ((empty_container two_devices)\<lparr>ct_params := t\<rparr>) = Some (Inr (), c')"
    using two_entries_load by blast
  then have "\<exists>r1. robot_configure loading_lib (empty_container two_devices) (RobotSystem_new Map.empty []) = Some (Inr True, r1)"
    by (simp add: robot_configure_def robot_container_def RobotSystem_new_def)
  then obtain r1 where run: "robot_configure loading_lib (empty_container two_devices) (RobotSystem_new Map.empty [])
      = Some (Inr True, r1)" by blast
  from robot_never_cleans[OF run refl] run show ?thesis by blast
qed

end
