(* ===== verification/Controllers.thy ===== *)
theory Controllers
  imports RobotSystem
begin

text \<open>
  The controllers of ros2\_control for proxy devices and for CiA 402 devices (\<open>canopen_ros2_controllers\<close>,
  \<open>canopen_proxy_controller\<close> and \<open>cia402_device_controller\<close>), and their interplay with the hardware
  components: a controller sees the data of a node through handles to its doubles, in the order
  in which it asked for them.
\<close>

subsection \<open>Handles\<close>

text \<open>What a controller does with the interfaces it has claimed, by name without the joint, in a state \<open>'w\<close>:
  \<open>set_value\<close>, which may fail, \<open>get_optional\<close>, and \<open>rclcpp::ok\<close>.\<close>

record 'w handles =
  h_set :: "string \<Rightarrow> double \<Rightarrow> 'w \<Rightarrow> bool \<times> 'w"
  h_get :: "string \<Rightarrow> 'w \<Rightarrow> double option"
  h_ok :: "'w \<Rightarrow> bool"

definition put :: "'w handles \<Rightarrow> string \<Rightarrow> double \<Rightarrow> 'w \<Rightarrow> 'w" where
  "put h name v w = snd (h_set h name v w)"

definition kCommandValue :: double where
  "kCommandValue = Fin 1"

text \<open>The interfaces of the proxy controller, in the order of the enumerators.\<close>

definition proxy_commands :: "string list" where
  "proxy_commands = [''tpdo/index'', ''tpdo/subindex'', ''tpdo/data'', ''tpdo/ons'', ''nmt/reset'', ''nmt/reset_fbk'',
     ''nmt/start'', ''nmt/start_fbk'']"

definition proxy_states :: "string list" where
  "proxy_states = [''rpdo/index'', ''rpdo/subindex'', ''rpdo/data'', ''nmt/state'']"

definition TPDO_INDEX :: nat where "TPDO_INDEX = 0"
definition TPDO_SUBINDEX :: nat where "TPDO_SUBINDEX = 1"
definition TPDO_DATA :: nat where "TPDO_DATA = 2"
definition TPDO_ONS :: nat where "TPDO_ONS = 3"
definition NMT_RESET :: nat where "NMT_RESET = 4"
definition NMT_RESET_FBK :: nat where "NMT_RESET_FBK = 5"
definition NMT_START :: nat where "NMT_START = 6"
definition NMT_START_FBK :: nat where "NMT_START_FBK = 7"

definition RPDO_INDEX :: nat where "RPDO_INDEX = 0"
definition RPDO_SUBINDEX :: nat where "RPDO_SUBINDEX = 1"
definition RPDO_DATA :: nat where "RPDO_DATA = 2"
definition NMT_STATE :: nat where "NMT_STATE = 3"

lemmas enumerators = TPDO_INDEX_def TPDO_SUBINDEX_def TPDO_DATA_def TPDO_ONS_def NMT_RESET_def NMT_RESET_FBK_def
  NMT_START_def NMT_START_FBK_def RPDO_INDEX_def RPDO_SUBINDEX_def RPDO_DATA_def NMT_STATE_def

subsection \<open>The proxy controller\<close>

record controller =
  cc_params :: param_table
  cc_joint :: string
  input_cmd :: "COData option"
  nmt_state_actual :: string
  nmt_publisher :: bool
  rpdo_publisher :: bool
  state_topic :: "string list"
  rpdo_messages :: "COData list"
  cc_services :: "string list"

definition CanopenProxyController_new :: "param_table \<Rightarrow> controller" where
  "CanopenProxyController_new t =
    \<lparr>cc_params = t, cc_joint = [], input_cmd = None, nmt_state_actual = ''BOOTUP'', nmt_publisher = False,
     rpdo_publisher = False, state_topic = [], rpdo_messages = [], cc_services = []\<rparr>"

text \<open>\<open>auto_declare\<close> declares a parameter that is not there. Exceptions are answered with an error.\<close>

definition proxy_on_init :: "client_lib \<Rightarrow> controller \<Rightarrow> bool \<times> controller" where
  "proxy_on_init lib c =
    (if declared (cc_params c) ''joint'' \<noteq> None then (True, c)
     else (case declare_parameter lib ''joint'' (P_string (cc_joint c)) (cc_params c) of
             (Inl e, t) \<Rightarrow> (False, c\<lparr>cc_params := t\<rparr>)
           | (Inr u, t) \<Rightarrow> (True, c\<lparr>cc_params := t\<rparr>)))"

text \<open>\<open>made\<close> says which of the two publishers can be made, and \<open>sent\<close> which of the first messages can be
  published. A parameter that is not there or not a string makes \<open>as_string\<close> throw.\<close>

definition proxy_on_configure :: "bool \<times> bool \<Rightarrow> bool \<times> bool \<Rightarrow> controller \<Rightarrow> (controller, bool) outcome" where
  "proxy_on_configure made sent c =
    (case declared (cc_params c) ''joint'' of
       Some (P_string s) \<Rightarrow>
         (let c1 = c\<lparr>cc_joint := s\<rparr> in
          if s = [] then (Inr False, c1)
          else (let c2 = c1\<lparr>input_cmd := None\<rparr> in
                if \<not> fst made then (Inr False, c2)
                else (let c3 = c2\<lparr>nmt_publisher := True\<rparr> in
                      if \<not> snd made then (Inr False, c3)
                      else (Inr True, c3\<lparr>rpdo_publisher := True,
                              state_topic := state_topic c3 @ (if fst sent then [[]] else []),
                              rpdo_messages := rpdo_messages c3 @ (if snd sent then [\<lparr>index_of = 0, subindex_of = 0, data_of = 0\<rparr>] else []),
                              cc_services := cc_services c3 @ filter (\<lambda>s. s \<notin> set (cc_services c3))
                                [''~/nmt_reset_node'', ''~/nmt_start_node'', ''~/sdo_read'', ''~/sdo_write'']\<rparr>))))
     | _ \<Rightarrow> (Inl (Std_exception ''parameter joint''), c))"

definition proxy_on_activate :: "controller \<Rightarrow> controller" where
  "proxy_on_activate c = c\<lparr>input_cmd := None\<rparr>"

definition proxy_on_deactivate :: "'w handles \<Rightarrow> string list \<Rightarrow> 'w \<Rightarrow> 'w" where
  "proxy_on_deactivate h names w = fold (\<lambda>name. put h name NaN) names w"

text \<open>The callback of the topic \<open>tpdo\<close>; the services for SDO transfers do nothing.\<close>

definition tpdo_callback :: "COData \<Rightarrow> controller \<Rightarrow> controller" where
  "tpdo_callback msg c = c\<lparr>input_cmd := Some msg\<rparr>"

definition on_sdo_read :: "controller \<Rightarrow> controller" where
  "on_sdo_read c = c"

definition on_sdo_write :: "controller \<Rightarrow> controller" where
  "on_sdo_write c = c"

text \<open>The names of the NMT states; \<open>number\<close> gives the numbers of the CANopen library.\<close>

definition state_names :: "(NmtState \<times> string) list" where
  "state_names = [(BOOTUP, ''BOOTUP''), (PREOP, ''PREOP''), (RESET_COMM, ''RESET_COMM''), (RESET_NODE, ''RESET_NODE''),
     (START, ''START''), (STOP, ''STOP''), (TOGGLE, ''TOGGLE'')]"

definition state_name :: "(NmtState \<Rightarrow> int) \<Rightarrow> int \<Rightarrow> string" where
  "state_name number k =
    (case find (\<lambda>(s, name). number s = k) state_names of None \<Rightarrow> ''ERROR'' | Some (s, name) \<Rightarrow> name)"

text \<open>The three parts of \<open>update\<close>. \<open>sent\<close>: publishing succeeds.\<close>

definition update_nmt ::
  "'w handles \<Rightarrow> static_cast \<Rightarrow> (NmtState \<Rightarrow> int) \<Rightarrow> bool \<Rightarrow> 'w \<Rightarrow> controller \<Rightarrow> controller" where
  "update_nmt h sc number sent w c =
    (if \<not> nmt_publisher c then c
     else (case h_get h (proxy_states ! NMT_STATE) w of
             None \<Rightarrow> c
           | Some v \<Rightarrow>
               (let name = state_name number (sc I32 v) in
                if nmt_state_actual c = name then c
                else c\<lparr>nmt_state_actual := name, state_topic := state_topic c @ (if sent then [name] else [])\<rparr>)))"

definition update_rpdo :: "'w handles \<Rightarrow> static_cast \<Rightarrow> bool \<Rightarrow> 'w \<Rightarrow> controller \<Rightarrow> controller" where
  "update_rpdo h sc sent w c =
    (if \<not> rpdo_publisher c then c
     else (case (h_get h (proxy_states ! RPDO_INDEX) w, h_get h (proxy_states ! RPDO_SUBINDEX) w,
                 h_get h (proxy_states ! RPDO_DATA) w) of
             (Some i, Some s, Some v) \<Rightarrow>
               c\<lparr>rpdo_messages := rpdo_messages c @
                   (if sent then [\<lparr>index_of = word_of_int (sc U16 i), subindex_of = word_of_int (sc U8 s),
                                   data_of = word_of_int (sc U32 v)\<rparr>] else [])\<rparr>
           | _ \<Rightarrow> c))"

definition update_tpdo :: "'w handles \<Rightarrow> controller \<times> 'w \<Rightarrow> controller \<times> 'w" where
  "update_tpdo h cw =
    (case cw of (c, w) \<Rightarrow>
      (case input_cmd c of
         None \<Rightarrow> (c, w)
       | Some msg \<Rightarrow>
           (let w1 = put h (proxy_commands ! TPDO_INDEX) (Fin (of_int (uint (index_of msg)))) w;
                w2 = put h (proxy_commands ! TPDO_SUBINDEX) (Fin (of_int (uint (subindex_of msg)))) w1;
                w3 = put h (proxy_commands ! TPDO_DATA) (Fin (of_int (uint (data_of msg)))) w2;
                w4 = put h (proxy_commands ! TPDO_ONS) kCommandValue w3
            in (c\<lparr>input_cmd := None\<rparr>, w4))))"

definition proxy_update ::
  "'w handles \<Rightarrow> static_cast \<Rightarrow> (NmtState \<Rightarrow> int) \<Rightarrow> bool \<times> bool \<Rightarrow> controller \<times> 'w \<Rightarrow> controller \<times> 'w" where
  "proxy_update h sc number sent cw =
    (case cw of (c, w) \<Rightarrow> update_tpdo h (update_rpdo h sc (snd sent) w (update_nmt h sc number (fst sent) w c), w))"

subsection \<open>The services\<close>

text \<open>A service polls; between two polls the rest of the system does a step of the script. \<open>None\<close>: it is
  still waiting when the script ends.\<close>

fun await :: "('w \<Rightarrow> bool) \<Rightarrow> ('w \<Rightarrow> bool) \<Rightarrow> ('w \<Rightarrow> 'w) list \<Rightarrow> 'w \<Rightarrow> ('w \<times> ('w \<Rightarrow> 'w) list) option" where
  "await ok stop [] w = (if \<not> ok w \<or> stop w then Some (w, []) else None)"
| "await ok stop (f # fs) w = (if \<not> ok w \<or> stop w then Some (w, f # fs) else await ok stop fs (f w))"

definition is_there :: "double option \<Rightarrow> bool" where
  "is_there v = (case v of None \<Rightarrow> False | Some x \<Rightarrow> \<not> is_nan x)"

definition as_bool_value :: "double option \<Rightarrow> bool" where
  "as_bool_value v = (case v of None \<Rightarrow> False | Some x \<Rightarrow> \<not> is_nan x \<and> double_neq x (Fin 0))"

text \<open>The reset is taken for executed when its command is gone, the start when there is a feedback.\<close>

definition on_nmt_state_reset :: "'w handles \<Rightarrow> ('w \<Rightarrow> 'w) list \<Rightarrow> 'w \<Rightarrow> (bool \<times> 'w) option" where
  "on_nmt_state_reset h script w =
    (let cmd = proxy_commands ! NMT_RESET; fbk = proxy_commands ! NMT_RESET_FBK in
     case await (h_ok h) (\<lambda>x. h_get h cmd x = Some NaN) script (put h cmd kCommandValue w) of
       None \<Rightarrow> None
     | Some (w1, rest) \<Rightarrow> Some (as_bool_value (h_get h fbk w1), put h fbk NaN w1))"

definition on_nmt_state_start :: "'w handles \<Rightarrow> ('w \<Rightarrow> 'w) list \<Rightarrow> 'w \<Rightarrow> (bool \<times> 'w) option" where
  "on_nmt_state_start h script w =
    (let cmd = proxy_commands ! NMT_START; fbk = proxy_commands ! NMT_START_FBK in
     case await (h_ok h) (\<lambda>x. is_there (h_get h fbk x)) script (put h cmd kCommandValue w) of
       None \<Rightarrow> None
     | Some (w1, rest) \<Rightarrow> Some (as_bool_value (h_get h fbk w1), put h fbk NaN w1))"

subsection \<open>The controller for CiA 402 devices\<close>

text \<open>Its services, each with the two interfaces it uses.\<close>

definition trigger_services :: "(string \<times> string \<times> string) list" where
  "trigger_services =
    [(''~/init'', ''init_cmd'', ''init_fbk''), (''~/halt'', ''halt_cmd'', ''halt_fbk''),
     (''~/recover'', ''recover_cmd'', ''recover_fbk''), (''~/position_mode'', ''position_mode_cmd'', ''position_mode_fbk''),
     (''~/velocity_mode'', ''velocity_mode_cmd'', ''velocity_mode_fbk''),
     (''~/cyclic_velocity_mode'', ''cyclic_velocity_mode_cmd'', ''cyclic_velocity_mode_fbk''),
     (''~/cyclic_position_mode'', ''cyclic_position_mode_cmd'', ''cyclic_position_mode_fbk''),
     (''~/interpolated_position_mode'', ''interpolated_position_mode_cmd'', ''interpolated_position_mode_fbk'')]"

definition device_commands :: "string list" where
  "device_commands = proxy_commands @ concat (map (\<lambda>(service, cmd, fbk). [cmd, fbk]) trigger_services)"

definition device_on_init :: "client_lib \<Rightarrow> controller \<Rightarrow> bool \<times> controller" where
  "device_on_init lib c =
    (case proxy_on_init lib c of
       (False, c1) \<Rightarrow> (False, c1)
     | (True, c1) \<Rightarrow> (True, c1\<lparr>cc_services := cc_services c1 @ map fst trigger_services\<rparr>))"

text \<open>The callback that \<open>createTriggerSrv\<close> makes.\<close>

definition trigger_service :: "'w handles \<Rightarrow> string \<Rightarrow> string \<Rightarrow> ('w \<Rightarrow> 'w) list \<Rightarrow> 'w \<Rightarrow> (bool \<times> 'w) option" where
  "trigger_service h cmd fbk script w =
    (case await (h_ok h) (\<lambda>x. is_there (h_get h fbk x)) script (put h cmd kCommandValue w) of
       None \<Rightarrow> None
     | Some (w1, rest) \<Rightarrow>
         Some (h_ok h w1 \<and> as_bool_value (h_get h fbk w1), put h cmd NaN (put h fbk NaN w1)))"

subsection \<open>The handles of the hardware components\<close>

text \<open>The command interfaces of a node, to be read.\<close>

definition command_reads :: "(string \<times> (node_data \<Rightarrow> double)) list" where
  "command_reads =
    [(''tpdo/index'', \<lambda>n. co_index (tpdo_data n)), (''tpdo/subindex'', \<lambda>n. co_subindex (tpdo_data n)),
     (''tpdo/data'', \<lambda>n. co_value (tpdo_data n)), (''tpdo/ons'', \<lambda>n. one_shot (tpdo_data n)),
     (''nmt/reset'', \<lambda>n. reset_ons (nmt_state n)), (''nmt/reset_fbk'', \<lambda>n. reset_fbk (nmt_state n)),
     (''nmt/start'', \<lambda>n. start_ons (nmt_state n)), (''nmt/start_fbk'', \<lambda>n. start_fbk (nmt_state n))]"

definition node_get :: "string \<Rightarrow> u16 \<Rightarrow> (u16 \<times> node_data) list \<Rightarrow> double option" where
  "node_get name i data =
    (case (map_of (command_reads @ state_fields) name, map_of data i) of (Some f, Some n) \<Rightarrow> Some (f n) | _ \<Rightarrow> None)"

text \<open>A joint of the component for proxy drivers, in the state of its data and of the drivers.\<close>

definition proxy_handles :: "u16 \<Rightarrow> ((u16 \<times> node_data) list \<times> 'w) handles" where
  "proxy_handles i =
    \<lparr>h_set = \<lambda>name v (data, w). (True, (write_interface name i v data, w)),
     h_get = \<lambda>name (data, w). node_get name i data, h_ok = \<lambda>w. True\<rparr>"

text \<open>A step of the rest of the system: a control cycle that returns.\<close>

definition proxy_cycle :: "'w proxy_lib \<Rightarrow> static_cast \<Rightarrow> (u16 \<times> node_data) list \<times> 'w \<Rightarrow> (u16 \<times> node_data) list \<times> 'w" where
  "proxy_cycle pl sc dw =
    (case canopen_write pl sc (fst dw) (snd dw) of None \<Rightarrow> dw | Some (r, data, w) \<Rightarrow> (data, w))"

text \<open>A joint of the component for CiA 402 drives.\<close>

definition motor_reads :: "(string \<times> (motor_node \<Rightarrow> double)) list" where
  "motor_reads =
    (let cmd = (\<lambda>get m. ons_cmd (get m)); fbk = (\<lambda>get m. resp (get m)) in
     [(''init_cmd'', cmd t_init), (''init_fbk'', fbk t_init), (''halt_cmd'', cmd t_halt), (''halt_fbk'', fbk t_halt),
      (''recover_cmd'', cmd t_recover), (''recover_fbk'', fbk t_recover),
      (''position_mode_cmd'', cmd t_position_mode), (''position_mode_fbk'', fbk t_position_mode),
      (''velocity_mode_cmd'', cmd t_velocity_mode), (''velocity_mode_fbk'', fbk t_velocity_mode),
      (''cyclic_velocity_mode_cmd'', cmd t_cyclic_velocity_mode), (''cyclic_velocity_mode_fbk'', fbk t_cyclic_velocity_mode),
      (''cyclic_position_mode_cmd'', cmd t_cyclic_position_mode), (''cyclic_position_mode_fbk'', fbk t_cyclic_position_mode),
      (''interpolated_position_mode_cmd'', cmd t_interpolated_position_mode),
      (''interpolated_position_mode_fbk'', fbk t_interpolated_position_mode)])"

definition drive_set :: "motor_key \<Rightarrow> string \<Rightarrow> double \<Rightarrow> drive_data \<Rightarrow> drive_data" where
  "drive_set k name v data =
    (case map_of motor_command_fields name of
       Some change \<Rightarrow> (fst data, at_motor k (change (\<lambda>u. v)) (snd data))
     | None \<Rightarrow> (write_interface name (ucast (fst k)) v (fst data), snd data))"

definition drive_get :: "motor_key \<Rightarrow> string \<Rightarrow> drive_data \<Rightarrow> double option" where
  "drive_get k name data =
    (case map_of motor_reads name of
       Some f \<Rightarrow> map_option f (map_of (snd data) k)
     | None \<Rightarrow> node_get name (ucast (fst k)) (fst data))"

definition drive_handles :: "motor_key \<Rightarrow> (drive_data \<times> 'w) handles" where
  "drive_handles k =
    \<lparr>h_set = \<lambda>name v (data, w). (True, (drive_set k name v data, w)),
     h_get = \<lambda>name (data, w). drive_get k name data, h_ok = \<lambda>w. True\<rparr>"

definition drive_cycle :: "'w drive_lib \<Rightarrow> static_cast \<Rightarrow> drive_data \<times> 'w \<Rightarrow> drive_data \<times> 'w" where
  "drive_cycle dl sc dw = (case drive_write dl sc (fst dw) (snd dw) of None \<Rightarrow> dw | Some (r, data, w) \<Rightarrow> (data, w))"

subsection \<open>Maps of nodes\<close>

lemma at_entry_split:
  assumes "\<forall>(j, m) \<in> set pre. j \<noteq> i \<and> \<not> before i j"
  shows "at_entry before new i f (pre @ (i, n) # post) = pre @ (i, f n) # post"
  using assms by (induction pre) auto

lemma at_node_split: "\<forall>(j, m) \<in> set pre. j < i \<Longrightarrow> at_node i f (pre @ (i, n) # post) = pre @ (i, f n) # post"
  unfolding at_node_def by (rule at_entry_split) force

lemma map_of_split:
  "\<forall>(j, m) \<in> set pre. j \<noteq> i \<Longrightarrow> map_of (pre @ (i, n) # post) i = Some n"
  by (induction pre) auto

text \<open>A cycle in which a single node has a command.\<close>

lemma canopen_write_single:
  assumes "\<forall>(j, m) \<in> set pre. idle m" "\<forall>(j, m) \<in> set post. idle m" "pl_registered pl i w"
    "write_node pl sc i (n, w) = Some (Inr (), n', w')"
  shows "canopen_write pl sc (pre @ (i, n) # post) w = Some (Inr (), pre @ (i, n') # post, w')"
  using assms(1)
proof (induction pre)
  case Nil
  have "canopen_write pl sc post w' = Some (Inr (), post, w')"
    using assms(2) by (intro idle_write) auto
  with assms(3,4) show ?case by simp
next
  case (Cons p pre)
  obtain j m where "p = (j, m)" by (cases p)
  with Cons show ?case by (simp add: idle_write_node)
qed

text \<open>Handles of a node among others.\<close>

definition among :: "u16 \<Rightarrow> (u16 \<times> node_data) list \<Rightarrow> (u16 \<times> node_data) list \<Rightarrow> node_data \<Rightarrow> (u16 \<times> node_data) list" where
  "among i pre post n = pre @ (i, n) # post"

definition others_idle :: "u16 \<Rightarrow> (u16 \<times> node_data) list \<Rightarrow> (u16 \<times> node_data) list \<Rightarrow> bool" where
  "others_idle i pre post \<longleftrightarrow> (\<forall>(j, m) \<in> set pre. j < i \<and> idle m) \<and> (\<forall>(j, m) \<in> set post. idle m)"

lemma among_put:
  assumes "others_idle i pre post"
  shows "put (proxy_handles i) (proxy_commands ! NMT_RESET) v (among i pre post n, w) =
      (among i pre post (n\<lparr>nmt_state := (nmt_state n)\<lparr>reset_ons := v\<rparr>\<rparr>), w)"
    "put (proxy_handles i) (proxy_commands ! NMT_RESET_FBK) v (among i pre post n, w) =
      (among i pre post (n\<lparr>nmt_state := (nmt_state n)\<lparr>reset_fbk := v\<rparr>\<rparr>), w)"
    "put (proxy_handles i) (proxy_commands ! NMT_START) v (among i pre post n, w) =
      (among i pre post (n\<lparr>nmt_state := (nmt_state n)\<lparr>start_ons := v\<rparr>\<rparr>), w)"
    "put (proxy_handles i) (proxy_commands ! NMT_START_FBK) v (among i pre post n, w) =
      (among i pre post (n\<lparr>nmt_state := (nmt_state n)\<lparr>start_fbk := v\<rparr>\<rparr>), w)"
proof -
  have "\<forall>(j, m) \<in> set pre. j < i" using assms by (auto simp: others_idle_def)
  then show "put (proxy_handles i) (proxy_commands ! NMT_RESET) v (among i pre post n, w) =
      (among i pre post (n\<lparr>nmt_state := (nmt_state n)\<lparr>reset_ons := v\<rparr>\<rparr>), w)"
    "put (proxy_handles i) (proxy_commands ! NMT_RESET_FBK) v (among i pre post n, w) =
      (among i pre post (n\<lparr>nmt_state := (nmt_state n)\<lparr>reset_fbk := v\<rparr>\<rparr>), w)"
    "put (proxy_handles i) (proxy_commands ! NMT_START) v (among i pre post n, w) =
      (among i pre post (n\<lparr>nmt_state := (nmt_state n)\<lparr>start_ons := v\<rparr>\<rparr>), w)"
    "put (proxy_handles i) (proxy_commands ! NMT_START_FBK) v (among i pre post n, w) =
      (among i pre post (n\<lparr>nmt_state := (nmt_state n)\<lparr>start_fbk := v\<rparr>\<rparr>), w)"
    by (simp_all add: put_def proxy_handles_def write_interface_def command_fields_def proxy_commands_def enumerators
        among_def at_node_split)
qed

lemma among_get:
  assumes "others_idle i pre post"
  shows "h_get (proxy_handles i) (proxy_commands ! NMT_RESET) (among i pre post n, w) = Some (reset_ons (nmt_state n))"
    "h_get (proxy_handles i) (proxy_commands ! NMT_RESET_FBK) (among i pre post n, w) = Some (reset_fbk (nmt_state n))"
    "h_get (proxy_handles i) (proxy_commands ! NMT_START) (among i pre post n, w) = Some (start_ons (nmt_state n))"
    "h_get (proxy_handles i) (proxy_commands ! NMT_START_FBK) (among i pre post n, w) = Some (start_fbk (nmt_state n))"
proof -
  have "map_of (among i pre post n) i = Some n"
    unfolding among_def using assms by (intro map_of_split) (auto simp: others_idle_def)
  then show "h_get (proxy_handles i) (proxy_commands ! NMT_RESET) (among i pre post n, w) = Some (reset_ons (nmt_state n))"
    "h_get (proxy_handles i) (proxy_commands ! NMT_RESET_FBK) (among i pre post n, w) = Some (reset_fbk (nmt_state n))"
    "h_get (proxy_handles i) (proxy_commands ! NMT_START) (among i pre post n, w) = Some (start_ons (nmt_state n))"
    "h_get (proxy_handles i) (proxy_commands ! NMT_START_FBK) (among i pre post n, w) = Some (start_fbk (nmt_state n))"
    by (simp_all add: proxy_handles_def node_get_def command_reads_def proxy_commands_def enumerators)
qed

lemma among_cycle:
  assumes "others_idle i pre post" "pl_registered pl i w" "write_node pl sc i (n, w) = Some (Inr (), n', w')"
  shows "proxy_cycle pl sc (among i pre post n, w) = (among i pre post n', w')"
  using canopen_write_single[OF _ _ assms(2,3), of pre post] assms(1)
  by (simp add: proxy_cycle_def among_def others_idle_def split_beta)

lemma proxy_handles_ok [simp]: "h_ok (proxy_handles i) w"
  by (simp add: proxy_handles_def)

lemma write_node_start:
  assumes "idle n" "pl_start pl i w = Some (Inr ok, w')"
  shows "write_node pl sc i (n\<lparr>nmt_state := (nmt_state n)\<lparr>start_ons := Fin 1\<rparr>\<rparr>, w) =
    Some (Inr (), n\<lparr>nmt_state := (nmt_state n)\<lparr>start_fbk := response ok\<rparr>\<rparr>, w')"
  using assms by (simp add: write_node_def write_reset_def write_start_def write_tpdo_def reset_command_def
      start_command_def write_command_def idle_def bindB_def call_with_def)

lemma write_node_reset:
  assumes "idle n" "pl_reset pl i w = Some (Inr ok, w')"
  shows "write_node pl sc i (n\<lparr>nmt_state := (nmt_state n)\<lparr>reset_ons := Fin 1\<rparr>\<rparr>, w) =
    Some (Inr (), n\<lparr>nmt_state := (nmt_state n)\<lparr>reset_fbk := response ok\<rparr>\<rparr>, w')"
  using assms by (simp add: write_node_def write_reset_def write_start_def write_tpdo_def reset_command_def
      start_command_def write_command_def idle_def bindB_def call_with_def)

lemma response_value [simp]: "as_bool_value (Some (response ok)) = ok" "is_there (Some (response ok))" "\<not> is_there (Some NaN)"
  by (auto simp: as_bool_value_def response_def is_there_def)

subsection \<open>The start service on CiA 402 drives\<close>

text \<open>A step of the rest of the system: a control cycle, a reading of the state or a callback.\<close>

definition drive_reading :: "'w drive_lib \<Rightarrow> drive_data \<times> 'w \<Rightarrow> drive_data \<times> 'w" where
  "drive_reading dl dw = (case drive_read dl (fst dw) (snd dw) of None \<Rightarrow> dw | Some (r, data, w) \<Rightarrow> (data, w))"

definition on_nodes :: "((u16 \<times> node_data) list \<Rightarrow> (u16 \<times> node_data) list) \<Rightarrow> drive_data \<times> 'w \<Rightarrow> drive_data \<times> 'w" where
  "on_nodes f dw = ((f (fst (fst dw)), snd (fst dw)), snd dw)"

definition component_step :: "'w drive_lib \<Rightarrow> static_cast \<Rightarrow> (drive_data \<times> 'w \<Rightarrow> drive_data \<times> 'w) \<Rightarrow> bool" where
  "component_step dl sc f \<longleftrightarrow>
    f = drive_cycle dl sc \<or> f = drive_reading dl \<or>
    (\<exists>number st i. f = on_nodes (nmt_state_cb number st i)) \<or> (\<exists>msg i. f = on_nodes (drive_rpdo_cb msg i))"

text \<open>None of them gives a feedback to the start command.\<close>

definition no_feedback :: "u16 \<Rightarrow> (u16 \<times> node_data) list \<Rightarrow> bool" where
  "no_feedback i data \<longleftrightarrow> (\<exists>n. map_of data i = Some n \<and> start_fbk (nmt_state n) = NaN)"

lemma at_node_no_feedback:
  assumes "\<And>n. start_fbk (nmt_state n) = NaN \<Longrightarrow> start_fbk (nmt_state (f n)) = NaN" "no_feedback i data"
  shows "no_feedback i (at_node j f data)"
proof -
  have "start_fbk (nmt_state (f CanopenNodeData_new)) = NaN"
    by (rule assms(1)) (simp add: CanopenNodeData_new_def nmt_slot_init_def)
  with assms show ?thesis
    unfolding no_feedback_def at_node_def by (induction data) (auto split: if_split_asm)
qed

lemma each_entry_no_feedback:
  assumes "each_entry f data w = Some (r, data', w')" "no_feedback i data"
    "\<And>k x w r x' w'. f k (x, w) = Some (r, x', w') \<Longrightarrow> start_fbk (nmt_state x') = start_fbk (nmt_state x)"
  shows "no_feedback i data'"
  using assms(1,2)
proof (induction data arbitrary: w data' r)
  case (Cons p data)
  obtain k x where p: "p = (k, x)" by (cases p)
  obtain q x1 w1 where step: "f k (x, w) = Some (q, x1, w1)" using Cons.prems(1) by (auto simp: p split: option.splits)
  from assms(3)[OF step] Cons step show ?case
    by (cases q) (auto simp: p no_feedback_def split: if_split_asm)
qed (simp add: no_feedback_def)

lemma drive_write_node_feedback:
  "drive_write_node dl sc i (n, w) = Some (r, n', w') \<Longrightarrow> start_fbk (nmt_state n') = start_fbk (nmt_state n)"
  by (auto simp: drive_write_node_def bindB_def call_with_def reset_command_def start_command_def write_command_def
      Let_def split: option.splits sum.splits if_split_asm)

lemma component_step_no_feedback:
  assumes "component_step dl sc f" "no_feedback i (fst (fst dw))"
  shows "no_feedback i (fst (fst (f dw)))"
proof -
  obtain data w where dw: "dw = (data, w)" by (cases dw)
  have "no_feedback i (fst data')" if "drive_write dl sc data w = Some (r, data', w')" for r data' w'
  proof -
    obtain q ns w1 where "each_entry (drive_write_node dl sc) (fst data) w = Some (q, ns, w1)" "fst data' = ns"
      using \<open>drive_write dl sc data w = _\<close> by (auto simp: drive_write_def split: option.splits sum.splits)
    with each_entry_no_feedback[OF this(1) _ drive_write_node_feedback] assms(2) dw show ?thesis by simp
  qed
  then have "no_feedback i (fst (fst (drive_cycle dl sc dw)))"
    using assms(2) by (auto simp: drive_cycle_def dw split: option.splits)
  moreover have "no_feedback i (fst (fst (drive_reading dl dw)))"
    using assms(2) by (auto simp: drive_reading_def drive_read_def dw split: option.splits)
  moreover have "no_feedback i (nmt_state_cb number st j (fst data))" "no_feedback i (drive_rpdo_cb msg j (fst data))"
    for number st j msg
    using assms(2) unfolding nmt_state_cb_def drive_rpdo_cb_def dw
    by (intro at_node_no_feedback; simp add: set_state_def)+
  ultimately show ?thesis using assms(1) by (auto simp: component_step_def on_nodes_def dw)
qed

lemma await_never:
  assumes "P w" "\<forall>f \<in> set script. \<forall>w. P w \<longrightarrow> P (f w)" "\<And>w. P w \<Longrightarrow> ok w \<and> \<not> stop w"
  shows "await ok stop script w = None"
  using assms(1,2)
proof (induction script arbitrary: w)
  case Nil
  with assms(3) show ?case by simp
next
  case (Cons f script)
  then have "await ok stop script (f w) = None" by simp
  with assms(3)[OF Cons.prems(1)] show ?case by simp
qed

subsection \<open>The services of a motor\<close>

text \<open>The call of the driver that a service stands for.\<close>

definition service_calls :: "'w drive_lib \<Rightarrow> u16 \<Rightarrow> u8 \<Rightarrow> (string \<times> ('w \<Rightarrow> ('w, bool) blocking)) list" where
  "service_calls dl i ch =
    [(''~/init'', dl_init dl i ch), (''~/halt'', dl_halt dl i ch), (''~/recover'', dl_recover dl i ch),
     (''~/position_mode'', dl_set_mode dl i Profiled_Position ch), (''~/velocity_mode'', dl_set_mode dl i Profiled_Velocity ch),
     (''~/cyclic_velocity_mode'', dl_set_mode dl i Cyclic_Synchronous_Velocity ch),
     (''~/cyclic_position_mode'', dl_set_mode dl i Cyclic_Synchronous_Position ch),
     (''~/interpolated_position_mode'', dl_set_mode dl i Interpolated_Position ch)]"

text \<open>What the handles of a service change in the data of a motor.\<close>

definition motor_field :: "string \<Rightarrow> (double \<Rightarrow> double) \<Rightarrow> motor_node \<Rightarrow> motor_node" where
  "motor_field name = the (map_of motor_command_fields name)"

definition motor_value :: "string \<Rightarrow> motor_node \<Rightarrow> double" where
  "motor_value name = the (map_of motor_reads name)"

lemma motor_field_simps:
  "motor_field ''init_cmd'' = (\<lambda>f. t_init_update (\<lambda>t. t\<lparr>ons_cmd := f (ons_cmd t)\<rparr>))"
  "motor_field ''init_fbk'' = (\<lambda>f. t_init_update (\<lambda>t. t\<lparr>resp := f (resp t)\<rparr>))"
  "motor_field ''halt_cmd'' = (\<lambda>f. t_halt_update (\<lambda>t. t\<lparr>ons_cmd := f (ons_cmd t)\<rparr>))"
  "motor_field ''halt_fbk'' = (\<lambda>f. t_halt_update (\<lambda>t. t\<lparr>resp := f (resp t)\<rparr>))"
  "motor_field ''recover_cmd'' = (\<lambda>f. t_recover_update (\<lambda>t. t\<lparr>ons_cmd := f (ons_cmd t)\<rparr>))"
  "motor_field ''recover_fbk'' = (\<lambda>f. t_recover_update (\<lambda>t. t\<lparr>resp := f (resp t)\<rparr>))"
  "motor_field ''position_mode_cmd'' = (\<lambda>f. t_position_mode_update (\<lambda>t. t\<lparr>ons_cmd := f (ons_cmd t)\<rparr>))"
  "motor_field ''position_mode_fbk'' = (\<lambda>f. t_position_mode_update (\<lambda>t. t\<lparr>resp := f (resp t)\<rparr>))"
  "motor_field ''velocity_mode_cmd'' = (\<lambda>f. t_velocity_mode_update (\<lambda>t. t\<lparr>ons_cmd := f (ons_cmd t)\<rparr>))"
  "motor_field ''velocity_mode_fbk'' = (\<lambda>f. t_velocity_mode_update (\<lambda>t. t\<lparr>resp := f (resp t)\<rparr>))"
  "motor_field ''cyclic_velocity_mode_cmd'' = (\<lambda>f. t_cyclic_velocity_mode_update (\<lambda>t. t\<lparr>ons_cmd := f (ons_cmd t)\<rparr>))"
  "motor_field ''cyclic_velocity_mode_fbk'' = (\<lambda>f. t_cyclic_velocity_mode_update (\<lambda>t. t\<lparr>resp := f (resp t)\<rparr>))"
  "motor_field ''cyclic_position_mode_cmd'' = (\<lambda>f. t_cyclic_position_mode_update (\<lambda>t. t\<lparr>ons_cmd := f (ons_cmd t)\<rparr>))"
  "motor_field ''cyclic_position_mode_fbk'' = (\<lambda>f. t_cyclic_position_mode_update (\<lambda>t. t\<lparr>resp := f (resp t)\<rparr>))"
  "motor_field ''interpolated_position_mode_cmd'' = (\<lambda>f. t_interpolated_position_mode_update (\<lambda>t. t\<lparr>ons_cmd := f (ons_cmd t)\<rparr>))"
  "motor_field ''interpolated_position_mode_fbk'' = (\<lambda>f. t_interpolated_position_mode_update (\<lambda>t. t\<lparr>resp := f (resp t)\<rparr>))"
  by (simp_all add: motor_field_def motor_command_fields_def Let_def)

lemma motor_value_simps:
  "motor_value ''init_fbk'' m = resp (t_init m)" "motor_value ''halt_fbk'' m = resp (t_halt m)"
  "motor_value ''recover_fbk'' m = resp (t_recover m)" "motor_value ''position_mode_fbk'' m = resp (t_position_mode m)"
  "motor_value ''velocity_mode_fbk'' m = resp (t_velocity_mode m)"
  "motor_value ''cyclic_velocity_mode_fbk'' m = resp (t_cyclic_velocity_mode m)"
  "motor_value ''cyclic_position_mode_fbk'' m = resp (t_cyclic_position_mode m)"
  "motor_value ''interpolated_position_mode_fbk'' m = resp (t_interpolated_position_mode m)"
  by (simp_all add: motor_value_def motor_reads_def Let_def)

lemma field_names:
  "map fst motor_command_fields =
     [''position'', ''velocity'', ''effort'', ''init_cmd'', ''init_fbk'', ''halt_cmd'', ''halt_fbk'', ''recover_cmd'',
      ''recover_fbk'', ''position_mode_cmd'', ''position_mode_fbk'', ''velocity_mode_cmd'', ''velocity_mode_fbk'',
      ''cyclic_velocity_mode_cmd'', ''cyclic_velocity_mode_fbk'', ''cyclic_position_mode_cmd'',
      ''cyclic_position_mode_fbk'', ''interpolated_position_mode_cmd'', ''interpolated_position_mode_fbk'']"
  "map fst motor_reads = drop 3 (map fst motor_command_fields)"
  by (simp_all add: motor_command_fields_def motor_reads_def Let_def)

lemma service_known:
  assumes "(service, cmd, fbk) \<in> set trigger_services"
  shows "map_of motor_command_fields cmd = Some (motor_field cmd)" "map_of motor_command_fields fbk = Some (motor_field fbk)"
    "map_of motor_reads fbk = Some (motor_value fbk)"
proof -
  have look: "map_of xs x = Some (the (map_of xs x))" if "x \<in> set (map fst xs)" for x and xs :: "(string \<times> 'x) list"
    using that by (metis list.set_map map_of_eq_None_iff option.collapse)
  have "cmd \<in> set (map fst motor_command_fields)" "fbk \<in> set (map fst motor_command_fields)" "fbk \<in> set (map fst motor_reads)"
    unfolding field_names using assms by (simp_all add: trigger_services_def) (elim disjE conjE; simp)+
  from this[THEN look] show "map_of motor_command_fields cmd = Some (motor_field cmd)"
    "map_of motor_command_fields fbk = Some (motor_field fbk)" "map_of motor_reads fbk = Some (motor_value fbk)"
    unfolding motor_field_def motor_value_def .
qed

lemma quiet_resp: "quiet t \<Longrightarrow> t\<lparr>ons_cmd := NaN, resp := r\<rparr> = t\<lparr>resp := r\<rparr>"
  by (cases t) (simp add: quiet_def)

text \<open>A motor with the command of a service: the driver is called once, then the motor gets its target.\<close>

lemma write_commanded:
  assumes "(service, cmd, fbk) \<in> set trigger_services" "quiet_motor m" "map_of (service_calls dl i ch) service = Some call"
    "call w = Some (Inr ok, w1)"
  shows "write_motor dl i ch (motor_field cmd (\<lambda>u. kCommandValue) m, w) =
    hand_over_target dl i ch (motor_field fbk (\<lambda>u. response ok) m, w1)"
proof -
  have no: "trigger_step get change c (x, v) = Some (Inr (), x, v)"
    if "(get, change) \<in> set motor_triggers" "quiet (get x)" for get change and c :: "'a \<Rightarrow> ('a, bool) blocking" and x v
    using motor_triggers_law[OF that(1)] quiet_command[OF that(2)] by (intro trigger_step_quiet) auto
  have yes: "trigger_step get change c (x, v) = Some (Inr (), change (\<lambda>t. t\<lparr>ons_cmd := NaN, resp := response q\<rparr>) x, v1)"
    if "(get, change) \<in> set motor_triggers" "ons_cmd (get x) = Fin 1" "c v = Some (Inr q, v1)"
    for get change and c :: "'a \<Rightarrow> ('a, bool) blocking" and x v v1 q
  proof -
    have "is_commanded (get x) = (True, (get x)\<lparr>ons_cmd := NaN\<rparr>)" using that(2) by (simp add: is_commanded_def)
    moreover have "change f x = change (\<lambda>u. f (get x)) x" for f
    proof -
      have a: "change f (change (\<lambda>u. get x) x) = change (\<lambda>u. f (get x)) x" and b: "change (\<lambda>u. get x) x = x"
        using motor_triggers_law[OF that(1)] by blast+
      from a show ?thesis unfolding b .
    qed
    ultimately show ?thesis
      using that(3) motor_triggers_law[OF that(1)] by (simp add: trigger_step_def call_with_def set_response_def)
  qed
  show ?thesis
    using assms unfolding write_motor_triggers
    by (auto simp: trigger_services_def service_calls_def motor_field_simps)
      (simp_all add: drive_steps_def mode_triggers_def bindB_def quiet_motor_def no yes motor_triggers_def kCommandValue_def,
        (cases m, simp add: quiet_resp)+)
qed

text \<open>The motor of a key among others, in the order of the keys.\<close>

definition motor_before :: "motor_key \<Rightarrow> motor_key \<Rightarrow> bool" where
  "motor_before k l \<longleftrightarrow> fst k < fst l \<or> fst k = fst l \<and> snd k < snd l"

definition motor_among ::
  "(u16 \<times> node_data) list \<Rightarrow> (motor_key \<times> motor_node) list \<Rightarrow> motor_key \<Rightarrow> (motor_key \<times> motor_node) list \<Rightarrow> motor_node \<Rightarrow> drive_data" where
  "motor_among ns pre k post m = (ns, pre @ (k, m) # post)"

definition others_quiet ::
  "(u16 \<times> node_data) list \<Rightarrow> (motor_key \<times> motor_node) list \<Rightarrow> motor_key \<Rightarrow> (motor_key \<times> motor_node) list \<Rightarrow> bool" where
  "others_quiet ns pre k post \<longleftrightarrow>
     (\<forall>(i, n) \<in> set ns. idle n) \<and> (\<forall>(l, x) \<in> set pre. motor_before l k \<and> quiet_motor x) \<and> (\<forall>(l, x) \<in> set post. quiet_motor x)"

lemma motor_among_put:
  assumes "others_quiet ns pre k post" "map_of motor_command_fields name = Some (motor_field name)"
  shows "put (drive_handles k) name v (motor_among ns pre k post m, w) =
    (motor_among ns pre k post (motor_field name (\<lambda>u. v) m), w)"
proof -
  have "at_motor k f (pre @ (k, m) # post) = pre @ (k, f m) # post" for f
    unfolding at_motor_def using assms(1)
    by (intro at_entry_split) (force simp: others_quiet_def motor_before_def split: prod.splits)
  with assms(2) show ?thesis by (simp add: put_def drive_handles_def drive_set_def motor_among_def)
qed

lemma motor_among_get:
  assumes "others_quiet ns pre k post" "map_of motor_reads name = Some (motor_value name)"
  shows "h_get (drive_handles k) name (motor_among ns pre k post m, w) = Some (motor_value name m)"
proof -
  have "map_of (pre @ (k, m) # post) k = Some m"
    using assms(1) by (intro map_of_split) (auto simp: others_quiet_def motor_before_def)
  with assms(2) show ?thesis by (simp add: drive_handles_def drive_get_def motor_among_def)
qed

lemma drive_handles_ok [simp]: "h_ok (drive_handles k) w"
  by (simp add: drive_handles_def)

lemma each_entry_append:
  "each_entry f (xs @ ys) w =
    (case each_entry f xs w of
       None \<Rightarrow> None
     | Some (Inl e, xs', w1) \<Rightarrow> Some (Inl e, xs' @ ys, w1)
     | Some (Inr u, xs', w1) \<Rightarrow> map_option (map_prod id (map_prod (\<lambda>l. xs' @ l) id)) (each_entry f ys w1))"
proof (induction xs arbitrary: w)
  case Nil
  show ?case by (cases "each_entry f ys w") auto
next
  case (Cons p xs)
  obtain k x where "p = (k, x)" by (cases p)
  then show ?case
    by (auto simp: Cons option.map_comp split: option.splits sum.splits intro!: option.map_cong0)
qed

text \<open>A cycle in which a single motor has a command, up to its target.\<close>

abbreviation hand_over_all where
  "hand_over_all dl \<equiv> each_entry (\<lambda>(i, ch). hand_over_target dl (ucast i) ch)"

lemma quiet_motors_same:
  assumes "each_entry (\<lambda>(i, ch). write_motor dl (ucast i) ch) ms w = Some (r, ms', w')" "\<forall>(l, x) \<in> set ms. quiet_motor x"
  shows "ms' = ms"
proof -
  have "each_entry (\<lambda>(i, ch). write_motor dl (ucast i) ch) ms w = hand_over_all dl ms w"
    using assms(2) by (intro each_entry_cong) (auto simp: write_motor_idle)
  with assms(1) have "hand_over_all dl ms w = Some (r, ms', w')" by simp
  then show ?thesis by (rule each_entry_same) (auto dest: hand_over_data)
qed

lemma motor_among_cycle:
  assumes "others_quiet ns pre k post" "hand_over_all dl pre w = Some (Inr (), pre, w0)"
    "write_motor dl (ucast (fst k)) (snd k) (m, w0) = hand_over_target dl (ucast (fst k)) (snd k) (m', w1)"
    "drive_write dl sc (motor_among ns pre k post m) w \<noteq> None"
  shows "\<exists>w'. drive_cycle dl sc (motor_among ns pre k post m, w) = (motor_among ns pre k post m', w')"
proof -
  let ?f = "\<lambda>(i, ch). write_motor dl (ucast i) ch"
  have nodes: "each_entry (drive_write_node dl sc) ns w = Some (Inr (), ns, w)"
    using assms(1) by (intro each_entry_skip) (auto simp: others_quiet_def idle_drive_write_node)
  have "each_entry ?f pre w = hand_over_all dl pre w"
    using assms(1) by (intro each_entry_cong) (auto simp: others_quiet_def write_motor_idle)
  with assms(2) have pre: "each_entry ?f pre w = Some (Inr (), pre, w0)" by simp
  have run: "each_entry ?f (pre @ (k, m) # post) w =
      map_option (map_prod id (map_prod (\<lambda>l. pre @ l) id)) (each_entry ?f ((k, m) # post) w0)"
    by (simp add: each_entry_append pre)
  obtain q w2 where k: "?f k (m, w0) = Some (q, m', w2)"
  proof (cases "?f k (m, w0)")
    case None
    with assms(4) show ?thesis by (simp add: drive_write_def motor_among_def nodes run)
  next
    case (Some p)
    obtain q x w2 where p: "p = (q, x, w2)" by (cases p)
    with Some assms(3) have "x = m'" by (auto simp: split_beta dest: hand_over_data)
    with that Some p show ?thesis by blast
  qed
  have "\<exists>r w'. each_entry ?f ((k, m) # post) w0 = Some (r, (k, m') # post, w')"
  proof (cases q)
    case (Inl e)
    with k show ?thesis by simp
  next
    case (Inr u)
    with assms(4) k have "each_entry ?f post w2 \<noteq> None" by (auto simp: drive_write_def motor_among_def nodes run)
    then obtain r ps w' where "each_entry ?f post w2 = Some (r, ps, w')" by (metis not_None_eq surj_pair)
    moreover from this have "ps = post"
      by (rule quiet_motors_same) (use assms(1) in \<open>auto simp: others_quiet_def\<close>)
    ultimately show ?thesis using k Inr by simp
  qed
  then show ?thesis by (auto simp: drive_cycle_def drive_write_def motor_among_def nodes run)
qed

lemma service_values:
  assumes "(service, cmd, fbk) \<in> set trigger_services"
  shows "motor_value fbk (motor_field fbk (\<lambda>u. v) m) = v"
    "quiet_motor m \<Longrightarrow> motor_value fbk m = NaN \<Longrightarrow>
       motor_field cmd (\<lambda>u. NaN) (motor_field fbk (\<lambda>u. NaN) (motor_field fbk (\<lambda>u. v) m)) = m"
    "motor_value fbk (motor_field cmd (\<lambda>u. v) m) = motor_value fbk m"
  using assms
  by (auto simp: trigger_services_def motor_field_simps motor_value_simps)
    (cases m; simp add: quiet_motor_def quiet_def; metis trigger.surjective trigger.update_convs old.unit.exhaust)+

subsection \<open>Messages to the device\<close>

lemma among_put_tpdo:
  assumes "others_idle i pre post"
  shows "put (proxy_handles i) (proxy_commands ! TPDO_INDEX) v (among i pre post n, w) =
      (among i pre post (n\<lparr>tpdo_data := (tpdo_data n)\<lparr>co_index := v\<rparr>\<rparr>), w)"
    "put (proxy_handles i) (proxy_commands ! TPDO_SUBINDEX) v (among i pre post n, w) =
      (among i pre post (n\<lparr>tpdo_data := (tpdo_data n)\<lparr>co_subindex := v\<rparr>\<rparr>), w)"
    "put (proxy_handles i) (proxy_commands ! TPDO_DATA) v (among i pre post n, w) =
      (among i pre post (n\<lparr>tpdo_data := (tpdo_data n)\<lparr>co_value := v\<rparr>\<rparr>), w)"
    "put (proxy_handles i) (proxy_commands ! TPDO_ONS) v (among i pre post n, w) =
      (among i pre post (n\<lparr>tpdo_data := (tpdo_data n)\<lparr>one_shot := v\<rparr>\<rparr>), w)"
proof -
  have "at_node i f (pre @ (i, n) # post) = pre @ (i, f n) # post" for f
    using assms by (intro at_node_split) (auto simp: others_idle_def)
  then show "put (proxy_handles i) (proxy_commands ! TPDO_INDEX) v (among i pre post n, w) =
      (among i pre post (n\<lparr>tpdo_data := (tpdo_data n)\<lparr>co_index := v\<rparr>\<rparr>), w)"
    "put (proxy_handles i) (proxy_commands ! TPDO_SUBINDEX) v (among i pre post n, w) =
      (among i pre post (n\<lparr>tpdo_data := (tpdo_data n)\<lparr>co_subindex := v\<rparr>\<rparr>), w)"
    "put (proxy_handles i) (proxy_commands ! TPDO_DATA) v (among i pre post n, w) =
      (among i pre post (n\<lparr>tpdo_data := (tpdo_data n)\<lparr>co_value := v\<rparr>\<rparr>), w)"
    "put (proxy_handles i) (proxy_commands ! TPDO_ONS) v (among i pre post n, w) =
      (among i pre post (n\<lparr>tpdo_data := (tpdo_data n)\<lparr>one_shot := v\<rparr>\<rparr>), w)"
    by (simp_all add: put_def proxy_handles_def write_interface_def command_fields_def proxy_commands_def enumerators among_def)
qed

lemma copy_in_all: "copy_in 32 v old = word_of_int v"
proof -
  have "low_mask 32 = - 1" by (simp add: low_mask_def)
  then show ?thesis by (simp add: copy_in_def)
qed

lemma word_in_type: "in_type U16 (uint (x :: u16))" "in_type U8 (uint (y :: u8))"
  using uint_lt2p[of x] uint_lt2p[of y] by (simp_all add: in_type_def type_limits)

text \<open>A slot with the doubles of a message packs the message.\<close>

definition message_slot :: "COData \<Rightarrow> co_slot \<Rightarrow> co_slot" where
  "message_slot msg s = s\<lparr>co_index := Fin (of_int (uint (index_of msg))), co_subindex := Fin (of_int (uint (subindex_of msg))),
     co_value := Fin (of_int (uint (data_of msg)))\<rparr>"

lemma message_packed:
  assumes "static_cast_law sc" "map_of type_names (co_type_name s) = Some t" "type_bits t = 32" "in_type t (uint (data_of msg))"
  shows "original (wo_prepare sc (message_slot msg s)) = msg"
proof -
  have "co_type_name s \<noteq> ''bool''" using assms(2) by (auto simp: type_names_def)
  with assms(2-4) show ?thesis
    using static_cast_int[OF assms(1) word_in_type(1), of "index_of msg"] static_cast_int[OF assms(1) word_in_type(2), of "subindex_of msg"]
      static_cast_int[OF assms(1,4)]
    by (simp add: wo_prepare_def message_slot_def wo_raw_def copy_in_all)
qed

subsection \<open>Properties\<close>

text \<open>The NMT services of the proxy controller do what they are called: the command that a service sets is
  executed by the next control cycle of the hardware component, exactly once, the service answers
  what the driver answered, and all data are afterwards as they were before.\<close>

theorem nmt_services_answer:
  assumes "others_idle i pre post" "idle n" "reset_fbk (nmt_state n) = NaN" "start_fbk (nmt_state n) = NaN" "pl_registered pl i w"
    "pl_reset pl i w = Some (Inr reset_ok, w1)" "pl_start pl i w = Some (Inr start_ok, w2)"
  shows "on_nmt_state_reset (proxy_handles i) [proxy_cycle pl sc] (among i pre post n, w) =
      Some (reset_ok, (among i pre post n, w1)) \<and>
    on_nmt_state_start (proxy_handles i) [proxy_cycle pl sc] (among i pre post n, w) =
      Some (start_ok, (among i pre post n, w2))"
proof -
  have same: "n\<lparr>nmt_state := (nmt_state n)\<lparr>reset_fbk := NaN\<rparr>\<rparr> = n" "n\<lparr>nmt_state := (nmt_state n)\<lparr>start_fbk := NaN\<rparr>\<rparr> = n"
    using assms(3,4) by (cases n; cases "nmt_state n"; simp)+
  have ons: "reset_ons (nmt_state n) = NaN" using assms(2) by (simp add: idle_def)
  show ?thesis
    using among_cycle[OF assms(1,5) write_node_reset[OF assms(2,6)]] among_cycle[OF assms(1,5) write_node_start[OF assms(2,7)]]
    by (simp add: on_nmt_state_reset_def on_nmt_state_start_def among_put[OF assms(1)] among_get[OF assms(1)]
        kCommandValue_def same ons assms(4))
qed

theorem nmt_services_answer_witness:
  "let n = CanopenNodeData_new; pl = proxy_drivers table_ops device_net
   in \<exists>reset_ok ds. on_nmt_state_reset (proxy_handles 2) [proxy_cycle pl plain_cast] (among 2 [] [] n, [2 \<mapsto> example_proxy]) =
        Some (reset_ok, (among 2 [] [] n, ds))"
proof -
  let ?n = "CanopenNodeData_new" let ?pl = "proxy_drivers table_ops device_net" let ?w = "[2 \<mapsto> example_proxy]"
  have "\<exists>a w1. pl_reset ?pl 2 ?w = Some (Inr a, w1)" "\<exists>b w2. pl_start ?pl 2 ?w = Some (Inr b, w2)"
    by (simp_all add: proxy_drivers_def on_member_def reset_node_nmt_command_def start_node_nmt_command_def
        with_bridge_def example_proxy_def fresh_node_def base_x_def) auto
  then obtain a w1 b w2 where calls: "pl_reset ?pl 2 ?w = Some (Inr a, w1)" "pl_start ?pl 2 ?w = Some (Inr b, w2)" by blast
  have data: "others_idle 2 [] []" "idle ?n" "reset_fbk (nmt_state ?n) = NaN" "start_fbk (nmt_state ?n) = NaN"
    "pl_registered ?pl 2 ?w"
    by (simp_all add: others_idle_def idle_def CanopenNodeData_new_def nmt_slot_init_def co_slot_init_def proxy_drivers_def)
  from nmt_services_answer[OF data calls] show ?thesis by (auto simp: Let_def)
qed

text \<open>C30: With the hardware component for CiA 402 drives the start service never returns: no control cycle, no
  reading and no callback, in whatever number and order, gives the feedback that it waits for.\<close>

theorem start_service_hangs:
  assumes "no_feedback (ucast (fst k)) (fst data)" "\<forall>f \<in> set script. component_step dl sc f"
  shows "on_nmt_state_start (drive_handles k) script (data, w) = None"
proof -
  let ?P = "\<lambda>dw. no_feedback (ucast (fst k)) (fst (fst dw))"
  let ?w = "put (drive_handles k) (proxy_commands ! NMT_START) kCommandValue (data, w)"
  have "no_feedback (ucast (fst k)) (write_interface ''nmt/start'' (ucast (fst k)) kCommandValue (fst data))"
    using assms(1) by (simp add: write_interface_def command_fields_def at_node_no_feedback)
  then have "?P ?w"
    by (simp add: put_def drive_handles_def drive_set_def motor_command_fields_def proxy_commands_def enumerators Let_def)
  moreover have "h_ok (drive_handles k) dw \<and> \<not> is_there (h_get (drive_handles k) (proxy_commands ! NMT_START_FBK) dw)"
    if "?P dw" for dw :: "drive_data \<times> 'a"
    using that by (cases dw) (auto simp: drive_handles_def drive_get_def motor_reads_def proxy_commands_def enumerators
        Let_def node_get_def command_reads_def no_feedback_def)
  ultimately have "await (h_ok (drive_handles k)) (\<lambda>dw. is_there (h_get (drive_handles k) (proxy_commands ! NMT_START_FBK) dw))
      script ?w = None"
    using component_step_no_feedback assms(2) by (intro await_never[where P = ?P]) blast+
  then show ?thesis by (simp add: on_nmt_state_start_def Let_def)
qed




theorem start_service_hangs_witness:
  "on_nmt_state_start (drive_handles (2, 0)) (replicate 3 (drive_cycle (drives table_ops device_net boost_cast (\<lambda>i ch. [])) plain_cast))
     (([(2, CanopenNodeData_new)], []), [2 \<mapsto> two_axes_node]) = None"
  by (rule start_service_hangs[where dl = "drives table_ops device_net boost_cast (\<lambda>i ch. [])" and sc = plain_cast])
    (auto simp: no_feedback_def component_step_def CanopenNodeData_new_def nmt_slot_init_def)


definition no_params :: param_table where
  "no_params = \<lparr>overrides = Map.empty, declared = Map.empty\<rparr>"


text \<open>The topic of the NMT state gets every change of the state once: what is published are the names of the
  states that the updates saw, without repetitions and without the name published last before.\<close>

theorem nmt_changes_published:
  assumes "nmt_publisher c" "\<forall>w \<in> set ws. h_get h ''nmt/state'' w = Some (v w)"
  shows "state_topic (fold (update_nmt h sc number True) ws c) =
    state_topic c @ tl (remdups_adj (nmt_state_actual c # map (\<lambda>w. state_name number (sc I32 (v w))) ws))"
  using assms
proof (induction ws arbitrary: c)
  case (Cons w ws)
  have "h_get h (proxy_states ! NMT_STATE) w = Some (v w)" using Cons.prems(2) by (simp add: proxy_states_def enumerators)
  then have step: "update_nmt h sc number True w c =
      (let name = state_name number (sc I32 (v w)) in
       if nmt_state_actual c = name then c else c\<lparr>nmt_state_actual := name, state_topic := state_topic c @ [name]\<rparr>)"
    using Cons.prems by (simp add: update_nmt_def Let_def)
  have hd: "remdups_adj (x # xs) = x # tl (remdups_adj (x # xs))" for x :: string and xs
    by (cases xs) (simp_all add: remdups_adj_Cons split: list.splits)
  show ?case
  proof (cases "nmt_state_actual c = state_name number (sc I32 (v w))")
    case True
    with Cons step show ?thesis by (simp add: Let_def)
  next
    case False
    let ?c = "c\<lparr>nmt_state_actual := state_name number (sc I32 (v w)), state_topic := state_topic c @ [state_name number (sc I32 (v w))]\<rparr>"
    have "nmt_publisher ?c" using Cons.prems by simp
    from Cons.IH[OF this] Cons.prems(2) step False show ?thesis
      by (simp add: Let_def hd[of "state_name number (sc I32 (v w))", symmetric])
  qed
qed simp

theorem nmt_changes_published_witness:
  "let number = (\<lambda>s. if s = START then 5 else if s = PREOP then 127 else if s = BOOTUP then 0 else 1);
       node = (\<lambda>k. (among 2 [] [] (CanopenNodeData_new\<lparr>nmt_state := nmt_slot_init\<lparr>nmt_value := Fin (of_int k)\<rparr>\<rparr>), ()))
   in state_topic (fold (update_nmt (proxy_handles 2) plain_cast number True) (map node [0, 127, 5, 5])
        ((CanopenProxyController_new no_params)\<lparr>nmt_publisher := True\<rparr>)) = [''PREOP'', ''START'']"
proof -
  let ?number = "\<lambda>s. if s = START then 5 else if s = PREOP then 127 else if s = BOOTUP then 0 else (1::int)"
  let ?node = "\<lambda>k::int. (among 2 [] [] (CanopenNodeData_new\<lparr>nmt_state := nmt_slot_init\<lparr>nmt_value := Fin (of_int k)\<rparr>\<rparr>), ())"
  let ?v = "\<lambda>w :: (u16 \<times> node_data) list \<times> unit. nmt_value (nmt_state (snd (hd (fst w))))"
  have read: "\<forall>w \<in> set (map ?node [0, 127, 5, 5]). h_get (proxy_handles 2) ''nmt/state'' w = Some (?v w)"
    by (simp add: proxy_handles_def node_get_def command_reads_def state_fields_def among_def)
  have cast: "plain_cast I32 (Fin (of_int k)) = k" if "in_type I32 k" for k
    using static_cast_int[OF plain_cast_law that] .
  have names: "map (\<lambda>w. state_name ?number (plain_cast I32 (?v w))) (map ?node [0, 127, 5, 5]) = [''BOOTUP'', ''PREOP'', ''START'', ''START'']"
    using cast[of 0] cast[of 127] cast[of 5]
    by (simp add: among_def state_name_def state_names_def in_type_def type_limits)
  show ?thesis
    using nmt_changes_published[OF _ read, of "(CanopenProxyController_new no_params)\<lparr>nmt_publisher := True\<rparr>" plain_cast ?number] names
    by (simp add: CanopenProxyController_new_def Let_def)
qed

end
