(* ===== verification/MotionGenerator.thy ===== *)
theory MotionGenerator
  imports Prelude
begin

text \<open>
  The generator of trapezoidal motions of the mock drive (\<open>canopen_fake_slaves\<close>,
  \<open>motion_generator.hpp\<close> and \<open>motion_generator.cpp\<close>), over exact reals. Times are in seconds since some
  start of the clock. Limits are positive throughout: what a division by a limit of zero gives is
  not modelled. The unqualified \<open>abs\<close> of the source is a parameter, since without a declaration of
  \<open>::abs(double)\<close> it is the function on \<open>int\<close>.
\<close>

subsection \<open>The generator\<close>

record motion =
  maxVel :: real
  maxAcc :: real
  initPos :: real
  mg_pos :: real
  mg_vel :: real
  mg_acc :: real
  oldPos :: real
  oldPosRef :: real
  oldVel :: real
  dBrk :: real
  dAcc :: real
  dVel :: real
  dDec :: real
  dTot :: real
  tBrk :: real
  tAcc :: real
  tVel :: real
  tDec :: real
  velSt :: real
  oldTime :: real
  lastTime :: real
  deltaTime :: real
  signM :: int
  trapezoidal :: bool
  isFinished :: bool

definition mg_reset :: "motion \<Rightarrow> motion" where
  "mg_reset m =
    m\<lparr>mg_pos := initPos m, oldPos := initPos m, oldPosRef := initPos m, mg_vel := 0, mg_acc := 0, oldVel := 0,
      dBrk := 0, dAcc := 0, dVel := 0, dDec := 0, dTot := 0, tBrk := 0, tAcc := 0, tVel := 0, tDec := 0, velSt := 0\<rparr>"

definition mg_init :: "real \<Rightarrow> motion \<Rightarrow> motion" where
  "mg_init now m =
    (mg_reset (m\<lparr>oldTime := now, lastTime := now, deltaTime := 0\<rparr>))\<lparr>signM := 1, trapezoidal := True, isFinished := False\<rparr>"

text \<open>The constructor, on memory \<open>m\<close>, at the time \<open>now\<close>.\<close>

definition MotionGenerator_new :: "real \<Rightarrow> real \<Rightarrow> real \<Rightarrow> real \<Rightarrow> motion \<Rightarrow> motion" where
  "MotionGenerator_new aMaxVel aMaxAcc aInitPos now m =
    mg_init now (m\<lparr>maxVel := aMaxVel, maxAcc := aMaxAcc, initPos := aInitPos, oldPosRef := aInitPos\<rparr>)"

definition mg_sign :: "real \<Rightarrow> int" where
  "mg_sign v = (if v < 0 then - 1 else if v > 0 then 1 else 0)"

text \<open>The part of \<open>update\<close> for a new reference, in its four steps: the state it starts from, the
  braking, the trapezoid and, when the trapezoid has no plateau, the triangle.\<close>

definition plan_start :: "real \<Rightarrow> motion \<Rightarrow> motion" where
  "plan_start posRef m =
    m\<lparr>isFinished := False, oldPosRef := posRef, oldPos := mg_pos m, oldVel := mg_vel m, oldTime := lastTime m\<rparr>"

definition plan_brake :: "(real \<Rightarrow> real) \<Rightarrow> real \<Rightarrow> motion \<Rightarrow> motion" where
  "plan_brake cabs posRef m =
    (let tb = cabs (oldVel m) / maxAcc m; db = tb * cabs (oldVel m) / 2;
         s = mg_sign (posRef - (oldPos m + of_int (mg_sign (oldVel m)) * db)) in
     if s \<noteq> mg_sign (oldVel m)
     then (let ta = maxVel m / maxAcc m in
           m\<lparr>tBrk := tb, dBrk := db, signM := s, tAcc := ta, dAcc := ta * (maxVel m / 2)\<rparr>)
     else (let ta = (maxVel m - cabs (oldVel m)) / maxAcc m in
           m\<lparr>tBrk := 0, dBrk := 0, signM := s, tAcc := ta, dAcc := ta * (maxVel m + cabs (oldVel m)) / 2\<rparr>))"

definition plan_trapezoid :: "(real \<Rightarrow> real) \<Rightarrow> real \<Rightarrow> motion \<Rightarrow> motion" where
  "plan_trapezoid cabs posRef m =
    (let total = cabs (posRef - oldPos m + of_int (signM m) * dBrk m);
         td = maxVel m / maxAcc m; dd = td * maxVel m / 2; dv = total - (dAcc m + dd) in
     m\<lparr>dTot := total, tDec := td, dDec := dd, dVel := dv, tVel := dv / maxVel m\<rparr>)"

definition plan_triangle :: "(real \<Rightarrow> real) \<Rightarrow> real \<Rightarrow> motion \<Rightarrow> motion" where
  "plan_triangle cabs posRef m =
    (let m1 = (if signM m \<noteq> mg_sign (oldVel m)
               then (let w = sqrt (maxAcc m * dTot m); ta = w / maxAcc m in
                     m\<lparr>velSt := w, tAcc := ta, dAcc := ta * (w / 2)\<rparr>)
               else (let total = cabs (posRef - oldPos m);
                         w = sqrt (1 / 2 * oldVel m * oldVel m + maxAcc m * total);
                         ta = (w - cabs (oldVel m)) / maxAcc m in
                     m\<lparr>tBrk := 0, dBrk := 0, dTot := total, velSt := w, tAcc := ta, dAcc := ta * (w + cabs (oldVel m)) / 2\<rparr>));
         td = velSt m1 / maxAcc m1
     in m1\<lparr>trapezoidal := False, tDec := td, dDec := td * velSt m1 / 2\<rparr>)"

definition plan :: "(real \<Rightarrow> real) \<Rightarrow> real \<Rightarrow> motion \<Rightarrow> motion" where
  "plan cabs posRef m =
    (let m1 = plan_trapezoid cabs posRef (plan_brake cabs posRef (plan_start posRef m)) in
     if tVel m1 > 0 then m1\<lparr>trapezoidal := True\<rparr> else plan_triangle cabs posRef m1)"

definition calculateTrapezoidalProfile :: "real \<Rightarrow> motion \<Rightarrow> motion" where
  "calculateTrapezoidalProfile posRef m =
    (let t = deltaTime m; s = of_int (signM m); a = maxAcc m in
     if trapezoidal m
     then (if t \<le> tBrk m + tAcc m
           then m\<lparr>mg_pos := oldPos m + oldVel m * t + s * (1 / 2) * a * t * t, mg_vel := oldVel m + s * a * t, mg_acc := s * a\<rparr>
           else if t < tBrk m + tAcc m + tVel m
           then m\<lparr>mg_pos := oldPos m + s * (- dBrk m + dAcc m + maxVel m * (t - tBrk m - tAcc m)), mg_vel := s * maxVel m, mg_acc := 0\<rparr>
           else if t < tBrk m + tAcc m + tVel m + tDec m
           then (let r = t - tBrk m - tAcc m - tVel m in
                 m\<lparr>mg_pos := oldPos m + s * (- dBrk m + dAcc m + dVel m + maxVel m * r - 1 / 2 * a * r * r),
                   mg_vel := s * (maxVel m - a * r), mg_acc := - s * a\<rparr>)
           else m\<lparr>mg_pos := posRef, mg_vel := 0, mg_acc := 0, isFinished := True\<rparr>)
     else (if t \<le> tBrk m + tAcc m
           then m\<lparr>mg_pos := oldPos m + oldVel m * t + s * (1 / 2) * a * t * t, mg_vel := oldVel m + s * a * t, mg_acc := s * a\<rparr>
           else if t < tBrk m + tAcc m + tDec m
           then (let r = t - tBrk m - tAcc m in
                 m\<lparr>mg_pos := oldPos m + s * (- dBrk m + dAcc m + velSt m * r - 1 / 2 * a * r * r),
                   mg_vel := s * (velSt m - a * r), mg_acc := - s * a\<rparr>)
           else m\<lparr>mg_pos := posRef, mg_vel := 0, mg_acc := 0, isFinished := True\<rparr>))"

text \<open>\<open>update\<close>, at the time \<open>now\<close>; it returns the position.\<close>

definition mg_update :: "(real \<Rightarrow> real) \<Rightarrow> real \<Rightarrow> real \<Rightarrow> motion \<Rightarrow> motion" where
  "mg_update cabs now posRef m =
    (let m1 = (if oldPosRef m \<noteq> posRef then plan cabs posRef m else m)
     in (calculateTrapezoidalProfile posRef (m1\<lparr>deltaTime := now - oldTime m1\<rparr>))\<lparr>lastTime := now\<rparr>)"

definition getFinished :: "motion \<Rightarrow> bool" where "getFinished = isFinished"
definition getVelocity :: "motion \<Rightarrow> real" where "getVelocity = mg_vel"
definition getAcceleration :: "motion \<Rightarrow> real" where "getAcceleration = mg_acc"

definition setMaxVelocity :: "real \<Rightarrow> motion \<Rightarrow> motion" where "setMaxVelocity v m = m\<lparr>maxVel := v\<rparr>"
definition setMaxAcceleration :: "real \<Rightarrow> motion \<Rightarrow> motion" where "setMaxAcceleration a m = m\<lparr>maxAcc := a\<rparr>"

definition setInitPosition :: "real \<Rightarrow> motion \<Rightarrow> motion" where
  "setInitPosition p m = m\<lparr>initPos := p, mg_pos := p, oldPos := p, oldPosRef := p\<rparr>"

subsection \<open>Motions with bounded velocity\<close>

text \<open>On an interval the position changes at most by \<open>V\<close> times the time that passes.\<close>

definition bounded_on :: "real \<Rightarrow> (real \<Rightarrow> real) \<Rightarrow> real \<Rightarrow> real \<Rightarrow> bool" where
  "bounded_on V f a b \<longleftrightarrow> (\<forall>x y. a \<le> x \<and> x \<le> y \<and> y \<le> b \<longrightarrow> \<bar>f y - f x\<bar> \<le> V * (y - x))"

lemma bounded_glue:
  assumes "bounded_on V f a b" "bounded_on V f b c" "a \<le> b" "b \<le> c"
  shows "bounded_on V f a c"
  unfolding bounded_on_def
proof (intro allI impI)
  fix x y
  assume xy: "a \<le> x \<and> x \<le> y \<and> y \<le> c"
  consider "y \<le> b" | "b \<le> x" | "x \<le> b" "b \<le> y" by linarith
  then show "\<bar>f y - f x\<bar> \<le> V * (y - x)"
  proof cases
    case 3
    then have "\<bar>f b - f x\<bar> \<le> V * (b - x)" "\<bar>f y - f b\<bar> \<le> V * (y - b)"
      using assms xy by (auto simp: bounded_on_def)
    then have "\<bar>f y - f x\<bar> \<le> V * (b - x) + V * (y - b)" by linarith
    also have "\<dots> = V * (y - x)" by (simp add: algebra_simps)
    finally show ?thesis .
  qed (use assms xy in \<open>auto simp: bounded_on_def\<close>)
qed

lemma bounded_cong:
  assumes "bounded_on V g a b" "\<And>t. a \<le> t \<Longrightarrow> t \<le> b \<Longrightarrow> f t = g t"
  shows "bounded_on V f a b"
  using assms unfolding bounded_on_def by (metis order_trans)

text \<open>A motion of constant acceleration, by its velocities at the ends.\<close>

lemma quadratic_bounded:
  assumes "\<And>t. f t = c + v * (t - d) + k * (t - d) * (t - d) / 2"
    "\<bar>v + k * (a - d)\<bar> \<le> V" "\<bar>v + k * (b - d)\<bar> \<le> V"
  shows "bounded_on V f a b"
  unfolding bounded_on_def
proof (intro allI impI)
  fix x y
  assume xy: "a \<le> x \<and> x \<le> y \<and> y \<le> b"
  have vel: "\<bar>v + k * (t - d)\<bar> \<le> V" if "a \<le> t" "t \<le> b" for t
  proof (cases "k \<ge> 0")
    case True
    with that have "k * (a - d) \<le> k * (t - d)" "k * (t - d) \<le> k * (b - d)" by (simp_all add: mult_left_mono)
    with assms(2,3) show ?thesis by linarith
  next
    case False
    with that have "k * (t - d) \<le> k * (a - d)" "k * (b - d) \<le> k * (t - d)" by (simp_all add: mult_left_mono_neg)
    with assms(2,3) show ?thesis by linarith
  qed
  have "f y - f x = ((v + k * (x - d)) + (v + k * (y - d))) / 2 * (y - x)"
    unfolding assms(1) by (simp add: field_simps)
  also have "\<bar>\<dots>\<bar> \<le> V * (y - x)"
  proof -
    have "\<bar>v + k * (x - d)\<bar> \<le> V" "\<bar>v + k * (y - d)\<bar> \<le> V" using vel xy by auto
    then have "\<bar>(v + k * (x - d)) + (v + k * (y - d))\<bar> / 2 \<le> V" by (simp add: abs_le_iff)
    then have "\<bar>(v + k * (x - d)) + (v + k * (y - d))\<bar> / 2 * (y - x) \<le> V * (y - x)"
      using xy by (intro mult_right_mono) auto
    then show ?thesis using xy by (simp add: abs_mult)
  qed
  finally show "\<bar>f y - f x\<bar> \<le> V * (y - x)" .
qed

lemma bounded_sub: "bounded_on V f a b \<Longrightarrow> a \<le> a' \<Longrightarrow> b' \<le> b \<Longrightarrow> bounded_on V f a' b'"
  by (auto simp: bounded_on_def)

lemma constant_bounded: "0 \<le> V \<Longrightarrow> bounded_on V (\<lambda>t. c) a b"
  by (auto simp: bounded_on_def)

subsection \<open>The shape of a motion\<close>

text \<open>Position and velocity \<open>t\<close> seconds after the reference was set.\<close>

definition profile_pos :: "real \<Rightarrow> motion \<Rightarrow> real \<Rightarrow> real" where
  "profile_pos posRef m t = mg_pos (calculateTrapezoidalProfile posRef (m\<lparr>deltaTime := t\<rparr>))"

definition profile_vel :: "real \<Rightarrow> motion \<Rightarrow> real \<Rightarrow> real" where
  "profile_vel posRef m t = mg_vel (calculateTrapezoidalProfile posRef (m\<lparr>deltaTime := t\<rparr>))"

text \<open>The highest velocity, the time and the way at it, and the ends of the three phases.\<close>

definition peak :: "motion \<Rightarrow> real" where "peak m = (if trapezoidal m then maxVel m else velSt m)"
definition cruise :: "motion \<Rightarrow> real" where "cruise m = (if trapezoidal m then tVel m else 0)"
definition dir :: "motion \<Rightarrow> real" where "dir m = of_int (signM m)"
definition end1 :: "motion \<Rightarrow> real" where "end1 m = tBrk m + tAcc m"
definition end2 :: "motion \<Rightarrow> real" where "end2 m = end1 m + cruise m"
definition end3 :: "motion \<Rightarrow> real" where "end3 m = end2 m + tDec m"
definition way1 :: "motion \<Rightarrow> real" where "way1 m = - dBrk m + dAcc m"

definition well_shaped :: "real \<Rightarrow> motion \<Rightarrow> bool" where
  "well_shaped posRef m \<longleftrightarrow>
     0 < maxAcc m \<and> \<bar>oldVel m\<bar> \<le> maxVel m \<and> 0 \<le> peak m \<and> peak m \<le> maxVel m \<and> 0 \<le> end1 m \<and> 0 \<le> cruise m \<and>
     \<bar>dir m\<bar> \<le> 1 \<and> oldVel m + dir m * maxAcc m * end1 m = dir m * peak m \<and>
     oldVel m * end1 m + dir m * maxAcc m * end1 m * end1 m / 2 = dir m * way1 m \<and>
     (trapezoidal m \<longrightarrow> dVel m = peak m * cruise m) \<and> tDec m = peak m / maxAcc m \<and>
     posRef = oldPos m + dir m * (way1 m + peak m * cruise m + peak m * peak m / (2 * maxAcc m))"

definition phase1 :: "motion \<Rightarrow> real \<Rightarrow> real" where
  "phase1 m t = oldPos m + oldVel m * (t - 0) + dir m * maxAcc m * (t - 0) * (t - 0) / 2"

definition phase2 :: "motion \<Rightarrow> real \<Rightarrow> real" where
  "phase2 m t = oldPos m + dir m * way1 m + dir m * peak m * (t - end1 m) + 0 * (t - end1 m) * (t - end1 m) / 2"

definition phase3 :: "motion \<Rightarrow> real \<Rightarrow> real" where
  "phase3 m t = oldPos m + dir m * (way1 m + peak m * cruise m) + dir m * peak m * (t - end2 m)
     + (- (dir m * maxAcc m)) * (t - end2 m) * (t - end2 m) / 2"

lemma profile_phases:
  assumes "well_shaped posRef m"
  shows "profile_pos posRef m t =
      (if t \<le> end1 m then phase1 m t else if t < end2 m then phase2 m t else if t < end3 m then phase3 m t else posRef)"
    "profile_vel posRef m t =
      (if t \<le> end1 m then oldVel m + dir m * maxAcc m * t else if t < end2 m then dir m * peak m
       else if t < end3 m then dir m * peak m - dir m * maxAcc m * (t - end2 m) else 0)"
proof -
  have way: "trapezoidal m \<Longrightarrow> dVel m = maxVel m * tVel m"
    using assms by (simp add: well_shaped_def peak_def cruise_def)
  show "profile_pos posRef m t =
      (if t \<le> end1 m then phase1 m t else if t < end2 m then phase2 m t else if t < end3 m then phase3 m t else posRef)"
    by (cases "trapezoidal m")
      (simp_all add: profile_pos_def calculateTrapezoidalProfile_def Let_def phase1_def phase2_def phase3_def
        end1_def end2_def end3_def way1_def peak_def cruise_def dir_def way field_simps)
  show "profile_vel posRef m t =
      (if t \<le> end1 m then oldVel m + dir m * maxAcc m * t else if t < end2 m then dir m * peak m
       else if t < end3 m then dir m * peak m - dir m * maxAcc m * (t - end2 m) else 0)"
    by (cases "trapezoidal m")
      (simp_all add: profile_vel_def calculateTrapezoidalProfile_def Let_def
        end1_def end2_def end3_def way1_def peak_def cruise_def dir_def algebra_simps)
qed

lemma phases_meet:
  assumes "well_shaped posRef m"
  shows "phase1 m (end1 m) = phase2 m (end1 m)" "phase2 m (end2 m) = phase3 m (end2 m)" "phase3 m (end3 m) = posRef"
    "0 \<le> end1 m" "end1 m \<le> end2 m" "end2 m \<le> end3 m"
proof -
  note w = assms[unfolded well_shaped_def]
  show "phase1 m (end1 m) = phase2 m (end1 m)"
    using w by (simp add: phase1_def phase2_def)
  show "phase2 m (end2 m) = phase3 m (end2 m)"
    by (simp add: phase2_def phase3_def end2_def algebra_simps)
  have "phase3 m (end3 m) = oldPos m + dir m * (way1 m + peak m * cruise m) + dir m * (peak m * (peak m / maxAcc m)
      - maxAcc m * (peak m / maxAcc m) * (peak m / maxAcc m) / 2)"
    using w by (simp add: phase3_def end3_def algebra_simps)
  also have "maxAcc m * (peak m / maxAcc m) * (peak m / maxAcc m) / 2 = peak m * peak m / (2 * maxAcc m)"
    using w by (simp add: field_simps)
  also have "peak m * (peak m / maxAcc m) - peak m * peak m / (2 * maxAcc m) = peak m * peak m / (2 * maxAcc m)"
    using w by (simp add: field_simps)
  finally show "phase3 m (end3 m) = posRef"
    using w by (simp add: algebra_simps)
  show "0 \<le> end1 m" "end1 m \<le> end2 m" "end2 m \<le> end3 m"
    using w by (simp_all add: end2_def end3_def)
qed


lemma well_shapedD:
  assumes "well_shaped posRef m"
  shows "0 < maxAcc m" "\<bar>oldVel m\<bar> \<le> maxVel m" "0 \<le> maxVel m" "\<bar>dir m * peak m\<bar> \<le> maxVel m"
    "oldVel m + dir m * maxAcc m * end1 m = dir m * peak m" "maxAcc m * tDec m = peak m"
  using assms mult_mono[of "\<bar>dir m\<bar>" 1 "peak m" "peak m"] by (auto simp: well_shaped_def abs_mult)

theorem profile_speed_limited:
  assumes "well_shaped posRef m" "0 \<le> t"
  shows "\<bar>profile_vel posRef m t\<bar> \<le> maxVel m"
proof -
  note w = well_shapedD[OF assms(1)]
  have lin: "\<bar>u + k * t\<bar> \<le> V" if "\<bar>u\<bar> \<le> V" "\<bar>u + k * T\<bar> \<le> V" "0 \<le> t" "t \<le> T" for u k t T V :: real
  proof (cases "0 \<le> k")
    case True
    with that have "0 \<le> k * t" "k * t \<le> k * T" by (simp_all add: mult_left_mono)
    with that show ?thesis by linarith
  next
    case False
    with that have "k * t \<le> 0" "k * T \<le> k * t" by (simp_all add: mult_left_mono_neg mult_nonpos_nonneg)
    with that show ?thesis by linarith
  qed
  show ?thesis
  proof -
    have a: "\<bar>oldVel m + (dir m * maxAcc m) * t\<bar> \<le> maxVel m" if "t \<le> end1 m"
      by (rule lin[where T = "end1 m"]) (use w assms(2) that in auto)
    have c: "\<bar>dir m * peak m + (- (dir m * maxAcc m)) * (t - end2 m)\<bar> \<le> maxVel m" if "end2 m \<le> t" "t < end3 m"
    proof (rule lin[where T = "tDec m"])
      show "\<bar>dir m * peak m + - (dir m * maxAcc m) * tDec m\<bar> \<le> maxVel m" using w by (simp add: mult.assoc)
    qed (use w that in \<open>auto simp: end3_def\<close>)
    show ?thesis
      using a c w unfolding profile_phases(2)[OF assms(1)] by (auto simp: algebra_simps)
  qed
qed

theorem profile_is_bounded:
  assumes "well_shaped posRef m" "0 \<le> c"
  shows "bounded_on (maxVel m) (profile_pos posRef m) 0 c"
proof -
  note w = well_shapedD[OF assms(1)] and meet = phases_meet[OF assms(1)]
  note pos = profile_phases(1)[OF assms(1)]
  have 1: "bounded_on (maxVel m) (profile_pos posRef m) 0 (end1 m)"
    by (rule bounded_cong[where g = "phase1 m"], rule quadratic_bounded[OF phase1_def]) (use w in \<open>simp_all add: pos\<close>)
  have 2: "bounded_on (maxVel m) (profile_pos posRef m) (end1 m) (end2 m)"
    by (rule bounded_cong[where g = "phase2 m"], rule quadratic_bounded[OF phase2_def])
      (use w meet in \<open>auto simp: pos\<close>)
  have 3: "bounded_on (maxVel m) (profile_pos posRef m) (end2 m) (end3 m)"
  proof (rule bounded_cong[where g = "phase3 m"])
    show "bounded_on (maxVel m) (phase3 m) (end2 m) (end3 m)"
      by (rule quadratic_bounded[OF phase3_def]) (use w in \<open>auto simp: end3_def mult.assoc\<close>)
    fix t
    assume "end2 m \<le> t" "t \<le> end3 m"
    then show "profile_pos posRef m t = phase3 m t"
      using meet by (cases "t = end1 m"; cases "t = end3 m") (auto simp: pos)
  qed
  have 4: "bounded_on (maxVel m) (profile_pos posRef m) (end3 m) (max c (end3 m))"
  proof (rule bounded_cong[where g = "\<lambda>t. posRef"])
    show "bounded_on (maxVel m) (\<lambda>t. posRef) (end3 m) (max c (end3 m))" by (rule constant_bounded[OF w(3)])
    fix t
    assume "end3 m \<le> t"
    show "profile_pos posRef m t = posRef"
    proof (cases "t \<le> end1 m")
      case True
      with \<open>end3 m \<le> t\<close> meet(5,6) have "t = end1 m" "end2 m = end1 m" "end3 m = end1 m" by linarith+
      with meet(1-3) show ?thesis by (simp add: pos)
    next
      case False
      with \<open>end3 m \<le> t\<close> meet(6) show ?thesis by (simp add: pos)
    qed
  qed
  have "bounded_on (maxVel m) (profile_pos posRef m) 0 (max c (end3 m))"
    using bounded_glue[OF bounded_glue[OF bounded_glue[OF 1 2] 3] 4] meet by auto
  then show ?thesis by (rule bounded_sub) auto
qed

lemma profile_end:
  assumes "well_shaped posRef m" "end3 m \<le> t" "end1 m < t"
  shows "profile_pos posRef m t = posRef" "profile_vel posRef m t = 0"
    "isFinished (calculateTrapezoidalProfile posRef (m\<lparr>deltaTime := t\<rparr>))"
proof -
  note meet = phases_meet[OF assms(1)]
  show "profile_pos posRef m t = posRef" "profile_vel posRef m t = 0"
    using assms meet by (auto simp: profile_phases[OF assms(1)])
  show "isFinished (calculateTrapezoidalProfile posRef (m\<lparr>deltaTime := t\<rparr>))"
    using assms meet
    by (auto simp: calculateTrapezoidalProfile_def Let_def end1_def end2_def end3_def cruise_def split: if_splits)
qed

subsection \<open>Planned motions have that shape\<close>

lemma mg_sign_abs: "of_int (mg_sign v) * \<bar>v\<bar> = v" "\<bar>of_int (mg_sign v) :: real\<bar> \<le> 1" "mg_sign v = 0 \<longleftrightarrow> v = 0"
  "mg_sign v \<noteq> 0 \<Longrightarrow> (of_int (mg_sign v) :: real) * of_int (mg_sign v) = 1"
  by (auto simp: mg_sign_def)

text \<open>The position the drive comes to a stand at when it brakes at once.\<close>

definition stopping_point :: "motion \<Rightarrow> real" where
  "stopping_point m = mg_pos m + of_int (mg_sign (mg_vel m)) * (mg_vel m * mg_vel m / (2 * maxAcc m))"


lemma plan_start_eqs:
  "oldVel (plan_start posRef m) = mg_vel m" "oldPos (plan_start posRef m) = mg_pos m" "maxAcc (plan_start posRef m) = maxAcc m"
  "maxVel (plan_start posRef m) = maxVel m"
  by (simp_all add: plan_start_def)

text \<open>The way still to go after braking, in the direction of the motion, and its sign.\<close>

lemma stopping_way:
  assumes "0 < maxAcc m" "s = mg_sign (posRef - stopping_point m)" "posRef \<noteq> stopping_point m"
  shows "0 < of_int s * (posRef - stopping_point m)" "\<bar>posRef - stopping_point m\<bar> = of_int s * (posRef - stopping_point m)"
    "(of_int s :: real) * of_int s = 1"
  using assms by (auto simp: mg_sign_def)


text \<open>The shape, by the signs and sizes: \<open>s\<close> the direction, \<open>u\<close> the present speed, along \<open>s\<close> or, when the
  drive has to turn, against it.\<close>

lemma well_shapedI:
  assumes "0 < maxAcc m" "u \<le> maxVel m" "oldVel m = q * u" "0 \<le> u" "\<bar>q\<bar> \<le> 1" "dir m * dir m = 1"
    "q = dir m \<or> q * u = - (dir m * u)"
    "0 \<le> peak m" "peak m \<le> maxVel m" "0 \<le> end1 m" "0 \<le> cruise m"
    "end1 m = (peak m - dir m * q * u) / maxAcc m" "way1 m = (peak m * peak m - u * u) / (2 * maxAcc m)"
    "trapezoidal m \<Longrightarrow> dVel m = peak m * cruise m" "tDec m = peak m / maxAcc m"
    "posRef = oldPos m + dir m * (way1 m + peak m * cruise m + peak m * peak m / (2 * maxAcc m))"
  shows "well_shaped posRef m"
proof -
  have sq: "(q * u) * (q * u) = u * u" using assms(6,7) by (metis (no_types, lifting) minus_mult_minus mult.assoc mult.commute mult_1)
  have a: "maxAcc m * end1 m = peak m - dir m * q * u" using assms(1,12) by (simp add: field_simps)
  then have e: "dir m * maxAcc m * end1 m = dir m * peak m - q * u"
    using assms(6) by (simp add: mult.assoc right_diff_distrib)
  have v: "oldVel m + dir m * maxAcc m * end1 m = dir m * peak m" using e assms(3) by simp
  have "maxAcc m * (oldVel m * end1 m + dir m * maxAcc m * end1 m * end1 m / 2)
      = (oldVel m + (oldVel m + dir m * maxAcc m * end1 m)) / 2 * (maxAcc m * end1 m)" by (simp add: field_simps)
  also have "\<dots> = (q * u + dir m * peak m) / 2 * (peak m - dir m * q * u)" using v a assms(3) by simp
  also have "\<dots> = dir m * (peak m * peak m - u * u) / 2"
  proof -
    have "(q * u + dir m * peak m) * (peak m - dir m * q * u)
        = q * u * peak m - dir m * ((q * u) * (q * u)) + dir m * peak m * peak m - (dir m * dir m) * peak m * (q * u)"
      by (simp add: algebra_simps)
    also have "\<dots> = dir m * (peak m * peak m - u * u)"
      unfolding sq assms(6) by (simp add: algebra_simps)
    finally show ?thesis by simp
  qed
  also have "\<dots> = maxAcc m * (dir m * way1 m)" using assms(1,13) by simp
  finally have w: "oldVel m * end1 m + dir m * maxAcc m * end1 m * end1 m / 2 = dir m * way1 m" using assms(1) by simp
  have "\<bar>dir m\<bar> \<le> 1" using assms(6) by (metis abs_mult abs_mult_self_eq abs_one abs_square_le_1 order_refl power2_eq_square)
  moreover have "\<bar>q * u\<bar> \<le> maxVel m"
    using assms(2,4,5) mult_mono[of "\<bar>q\<bar>" 1 u u] by (simp add: abs_mult)
  ultimately show ?thesis using assms v w by (simp add: well_shaped_def)
qed


lemma plan_brake_keeps:
  "oldVel (plan_brake cabs posRef m) = oldVel m" "oldPos (plan_brake cabs posRef m) = oldPos m"
  "maxAcc (plan_brake cabs posRef m) = maxAcc m" "maxVel (plan_brake cabs posRef m) = maxVel m"
  "oldPosRef (plan_brake cabs posRef m) = oldPosRef m" "lastTime (plan_brake cabs posRef m) = lastTime m"
  "oldTime (plan_brake cabs posRef m) = oldTime m"
  by (simp_all add: plan_brake_def Let_def)

lemma plan_trapezoid_keeps:
  "oldVel (plan_trapezoid cabs posRef m) = oldVel m" "oldPos (plan_trapezoid cabs posRef m) = oldPos m"
  "maxAcc (plan_trapezoid cabs posRef m) = maxAcc m" "maxVel (plan_trapezoid cabs posRef m) = maxVel m"
  "oldPosRef (plan_trapezoid cabs posRef m) = oldPosRef m" "lastTime (plan_trapezoid cabs posRef m) = lastTime m"
  "oldTime (plan_trapezoid cabs posRef m) = oldTime m" "signM (plan_trapezoid cabs posRef m) = signM m"
  "tBrk (plan_trapezoid cabs posRef m) = tBrk m" "dBrk (plan_trapezoid cabs posRef m) = dBrk m"
  "tAcc (plan_trapezoid cabs posRef m) = tAcc m" "dAcc (plan_trapezoid cabs posRef m) = dAcc m"
  by (simp_all add: plan_trapezoid_def Let_def)

lemma plan_triangle_keeps:
  "oldVel (plan_triangle cabs posRef m) = oldVel m" "oldPos (plan_triangle cabs posRef m) = oldPos m"
  "maxAcc (plan_triangle cabs posRef m) = maxAcc m" "maxVel (plan_triangle cabs posRef m) = maxVel m"
  "oldPosRef (plan_triangle cabs posRef m) = oldPosRef m" "lastTime (plan_triangle cabs posRef m) = lastTime m"
  "oldTime (plan_triangle cabs posRef m) = oldTime m" "signM (plan_triangle cabs posRef m) = signM m"
  "trapezoidal (plan_triangle cabs posRef m) = False"
  by (simp_all add: plan_triangle_def Let_def)

lemma plan_start_keeps:
  "oldVel (plan_start posRef m) = mg_vel m" "oldPos (plan_start posRef m) = mg_pos m" "maxAcc (plan_start posRef m) = maxAcc m"
  "maxVel (plan_start posRef m) = maxVel m" "oldPosRef (plan_start posRef m) = posRef"
  "lastTime (plan_start posRef m) = lastTime m" "oldTime (plan_start posRef m) = lastTime m"
  by (simp_all add: plan_start_def)

lemmas steps_keep = plan_brake_keeps plan_trapezoid_keeps plan_triangle_keeps plan_start_keeps

lemma plan_keeps:
  "oldVel (plan cabs posRef m) = mg_vel m" "oldPos (plan cabs posRef m) = mg_pos m" "maxAcc (plan cabs posRef m) = maxAcc m"
  "maxVel (plan cabs posRef m) = maxVel m" "oldPosRef (plan cabs posRef m) = posRef"
  "oldTime (plan cabs posRef m) = lastTime m"
  by (simp_all add: plan_def Let_def steps_keep)

lemma brake_sign:
  assumes "oldVel m = v" "oldPos m = p"
  shows "signM (plan_brake abs posRef m) = mg_sign (posRef - (p + of_int (mg_sign v) * (v * v / (2 * maxAcc m))))"
  using assms by (simp add: plan_brake_def Let_def mult.commute[of _ "2::real"])

lemma plan_sign: "signM (plan abs posRef m) = mg_sign (posRef - stopping_point m)"
  by (simp add: plan_def Let_def steps_keep stopping_point_def brake_sign[OF refl refl])

text \<open>The values after braking, for a drive that has to turn and for one that has not.\<close>

lemma brake_turning:
  assumes "signM (plan_brake abs posRef m) = s" "s \<noteq> mg_sign (oldVel m)"
  shows "tBrk (plan_brake abs posRef m) = \<bar>oldVel m\<bar> / maxAcc m"
    "dBrk (plan_brake abs posRef m) = \<bar>oldVel m\<bar> * \<bar>oldVel m\<bar> / (2 * maxAcc m)"
    "tAcc (plan_brake abs posRef m) = maxVel m / maxAcc m"
    "dAcc (plan_brake abs posRef m) = maxVel m * maxVel m / (2 * maxAcc m)"
  using assms by (auto simp: plan_brake_def Let_def split: if_splits)

lemma brake_straight:
  assumes "signM (plan_brake abs posRef m) = s" "s = mg_sign (oldVel m)"
  shows "tBrk (plan_brake abs posRef m) = 0" "dBrk (plan_brake abs posRef m) = 0"
    "tAcc (plan_brake abs posRef m) = (maxVel m - \<bar>oldVel m\<bar>) / maxAcc m"
    "dAcc (plan_brake abs posRef m) = (maxVel m - \<bar>oldVel m\<bar>) / maxAcc m * (maxVel m + \<bar>oldVel m\<bar>) / 2"
  using assms by (auto simp: plan_brake_def Let_def split: if_splits)


lemma signs_facts:
  assumes "s = mg_sign (posRef - stopping_point m)" "posRef \<noteq> stopping_point m"
  shows "mg_vel m = of_int (mg_sign (mg_vel m)) * \<bar>mg_vel m\<bar>"
    "s \<noteq> mg_sign (mg_vel m) \<Longrightarrow> of_int (mg_sign (mg_vel m)) * \<bar>mg_vel m\<bar> = - (of_int s * \<bar>mg_vel m\<bar>)"
    "stopping_point m = mg_pos m + of_int (mg_sign (mg_vel m)) * (\<bar>mg_vel m\<bar> * \<bar>mg_vel m\<bar> / (2 * maxAcc m))"
  using assms by (auto simp: mg_sign_def stopping_point_def split: if_splits)

text \<open>What the planned way is: from where the drive stands after braking, or from where it is.\<close>

lemma way_to_go:
  assumes "0 < maxAcc m" "s = mg_sign (posRef - stopping_point m)" "posRef \<noteq> stopping_point m"
    "u = \<bar>mg_vel m\<bar>" "db = (if s \<noteq> mg_sign (mg_vel m) then u * u / (2 * maxAcc m) else 0)"
  shows "\<bar>posRef - mg_pos m + of_int s * db\<bar> = of_int s * (posRef - mg_pos m) + db"
    "posRef = mg_pos m + of_int s * (of_int s * (posRef - mg_pos m))"
    "s \<noteq> mg_sign (mg_vel m) \<Longrightarrow> 0 < of_int s * (posRef - mg_pos m) + db"
    "s = mg_sign (mg_vel m) \<Longrightarrow> u * u / (2 * maxAcc m) < of_int s * (posRef - mg_pos m)"
proof -
  have ss: "(of_int s :: real) * of_int s = 1" by (rule stopping_way(3)[OF assms(1-3)])
  have pos: "0 < of_int s * (posRef - stopping_point m)" by (rule stopping_way(1)[OF assms(1-3)])
  have uu: "0 \<le> u * u / (2 * maxAcc m)" using assms(1) by simp
  show t: "0 < of_int s * (posRef - mg_pos m) + db" if "s \<noteq> mg_sign (mg_vel m)"
  proof -
    have "of_int s * (of_int (mg_sign (mg_vel m)) * (u * u / (2 * maxAcc m))) = - (u * u / (2 * maxAcc m))"
    proof -
      have "of_int (mg_sign (mg_vel m)) * u = - (of_int s * u)" using signs_facts(2)[OF assms(2,3) that] assms(4) by simp
      then have "of_int s * (of_int (mg_sign (mg_vel m)) * u) = - ((of_int s * of_int s) * u)" by (metis mult.assoc mult_minus_right)
      then have "of_int s * (of_int (mg_sign (mg_vel m)) * u) = - u" using ss by simp
      then show ?thesis by (metis (no_types, lifting) mult.assoc mult_minus_left times_divide_eq_right minus_divide_left)
    qed
    then show ?thesis
      using pos that assms(4,5) unfolding signs_facts(3)[OF assms(2,3)] by (simp add: right_diff_distrib distrib_left)
  qed
  show st: "u * u / (2 * maxAcc m) < of_int s * (posRef - mg_pos m)" if "s = mg_sign (mg_vel m)"
  proof -
    define x where "x = u * u / (2 * maxAcc m)"
    have "stopping_point m = mg_pos m + of_int s * x"
      using signs_facts(3)[OF assms(2,3)] assms(4) that by (simp add: x_def)
    then have "of_int s * (posRef - stopping_point m) = of_int s * (posRef - mg_pos m) - (of_int s * of_int s) * x"
      by (simp add: algebra_simps)
    then show ?thesis using pos ss by (simp add: x_def)
  qed
  have pd: "0 < of_int s * (posRef - mg_pos m) + db"
    using t st uu assms(5) by (cases "s = mg_sign (mg_vel m)") auto
  have "posRef - mg_pos m + of_int s * db = of_int s * (of_int s * (posRef - mg_pos m) + db)"
    using ss by (simp add: distrib_left mult.assoc[symmetric])
  moreover have "\<bar>of_int s :: real\<bar> = 1" using ss by (metis abs_mult abs_mult_self_eq abs_one abs_of_nonneg abs_ge_zero mult_eq_self_implies_10 power2_eq_square real_sqrt_abs real_sqrt_one)
  ultimately show "\<bar>posRef - mg_pos m + of_int s * db\<bar> = of_int s * (posRef - mg_pos m) + db"
    using pd by (simp add: abs_mult)
  show "posRef = mg_pos m + of_int s * (of_int s * (posRef - mg_pos m))"
    using ss by (simp add: mult.assoc[symmetric])
qed


text \<open>The trapezoid of a plan, and the triangle that takes its place when there is no plateau.\<close>

lemma plan_trapezoidal:
  assumes "b = plan_trapezoid abs posRef (plan_brake abs posRef (plan_start posRef m))" "tVel b > 0"
  shows "plan abs posRef m = b\<lparr>trapezoidal := True\<rparr>"
  using assms by (simp add: plan_def Let_def)

lemma plan_triangular:
  assumes "b = plan_trapezoid abs posRef (plan_brake abs posRef (plan_start posRef m))" "\<not> tVel b > 0"
  shows "plan abs posRef m = plan_triangle abs posRef b"
  using assms by (simp add: plan_def Let_def)

lemma triangle_turning:
  assumes "signM m \<noteq> mg_sign (oldVel m)"
  shows "velSt (plan_triangle abs posRef m) = sqrt (maxAcc m * dTot m)"
    "tAcc (plan_triangle abs posRef m) = sqrt (maxAcc m * dTot m) / maxAcc m"
    "dAcc (plan_triangle abs posRef m) = sqrt (maxAcc m * dTot m) / maxAcc m * (sqrt (maxAcc m * dTot m) / 2)"
    "tBrk (plan_triangle abs posRef m) = tBrk m" "dBrk (plan_triangle abs posRef m) = dBrk m"
    "tDec (plan_triangle abs posRef m) = sqrt (maxAcc m * dTot m) / maxAcc m"
  using assms by (simp_all add: plan_triangle_def Let_def)

lemma triangle_straight:
  assumes "signM m = mg_sign (oldVel m)" "w = sqrt (1 / 2 * oldVel m * oldVel m + maxAcc m * \<bar>posRef - oldPos m\<bar>)"
  shows "velSt (plan_triangle abs posRef m) = w"
    "tAcc (plan_triangle abs posRef m) = (w - \<bar>oldVel m\<bar>) / maxAcc m"
    "dAcc (plan_triangle abs posRef m) = (w - \<bar>oldVel m\<bar>) / maxAcc m * (w + \<bar>oldVel m\<bar>) / 2"
    "tBrk (plan_triangle abs posRef m) = 0" "dBrk (plan_triangle abs posRef m) = 0"
    "tDec (plan_triangle abs posRef m) = w / maxAcc m"
  using assms by (simp_all add: plan_triangle_def Let_def)

lemma plan_trapezoid_values:
  "dTot (plan_trapezoid abs posRef m) = \<bar>posRef - oldPos m + of_int (signM m) * dBrk m\<bar>"
  "tDec (plan_trapezoid abs posRef m) = maxVel m / maxAcc m"
  "dVel (plan_trapezoid abs posRef m) =
     \<bar>posRef - oldPos m + of_int (signM m) * dBrk m\<bar> - (dAcc m + maxVel m * maxVel m / (2 * maxAcc m))"
  "tVel (plan_trapezoid abs posRef m) = dVel (plan_trapezoid abs posRef m) / maxVel m"
  by (simp_all add: plan_trapezoid_def Let_def mult.commute[of _ "2::real"])

text \<open>The braking of a plan, of a drive that has somewhere to go: \<open>q\<close> is the direction of its present velocity.\<close>

lemma brake_facts:
  assumes lim: "0 < maxAcc m" and s: "s = mg_sign (posRef - stopping_point m)" and apart: "posRef \<noteq> stopping_point m"
    and u: "u = \<bar>mg_vel m\<bar>" and k: "k = plan_brake abs posRef (plan_start posRef m)" and q: "q = of_int (mg_sign (mg_vel m))"
  shows "signM k = s" "oldVel k = mg_vel m" "oldPos k = mg_pos m" "maxAcc k = maxAcc m" "maxVel k = maxVel m"
    "q = of_int s \<or> q * u = - (of_int s * u)"
    "tBrk k + tAcc k = (maxVel m - of_int s * q * u) / maxAcc m"
    "dAcc k - dBrk k = (maxVel m * maxVel m - u * u) / (2 * maxAcc m)"
    "\<bar>posRef - mg_pos m + of_int s * dBrk k\<bar> = of_int s * (posRef - mg_pos m) + dBrk k"
    "s \<noteq> mg_sign (mg_vel m) \<Longrightarrow> tBrk k = u / maxAcc m \<and> dBrk k = u * u / (2 * maxAcc m)"
    "s = mg_sign (mg_vel m) \<Longrightarrow> tBrk k = 0 \<and> dBrk k = 0"
    "of_int s * q * u = (if s = mg_sign (mg_vel m) then u else - u)"
proof -
  have ss: "(of_int s :: real) * of_int s = 1" by (rule stopping_way(3)[OF lim s apart])
  show ks: "signM k = s" by (simp add: k s brake_sign[OF refl refl] plan_start_keeps stopping_point_def)
  show "oldVel k = mg_vel m" "oldPos k = mg_pos m" "maxAcc k = maxAcc m" "maxVel k = maxVel m"
    by (simp_all add: k steps_keep)
  note way = way_to_go[OF lim s apart u refl]
  note turning = brake_turning[of posRef "plan_start posRef m", folded k, OF ks, unfolded plan_start_keeps, folded u]
  note straight = brake_straight[of posRef "plan_start posRef m", folded k, OF ks, unfolded plan_start_keeps, folded u]
  have qu: "s \<noteq> mg_sign (mg_vel m) \<Longrightarrow> q * u = - (of_int s * u)" using signs_facts(2)[OF s apart] by (simp add: q u)
  then show "q = of_int s \<or> q * u = - (of_int s * u)" by (auto simp: q)
  show sq: "of_int s * q * u = (if s = mg_sign (mg_vel m) then u else - u)"
  proof (cases "s = mg_sign (mg_vel m)")
    case True
    with ss show ?thesis by (simp add: q)
  next
    case False
    have "of_int s * (q * u) = - ((of_int s * of_int s) * u)" unfolding qu[OF False] by simp
    with ss False show ?thesis by (simp add: mult.assoc)
  qed
  show "tBrk k + tAcc k = (maxVel m - of_int s * q * u) / maxAcc m"
    unfolding sq by (cases "s = mg_sign (mg_vel m)") (simp_all add: turning straight add_divide_distrib)
  show "dAcc k - dBrk k = (maxVel m * maxVel m - u * u) / (2 * maxAcc m)"
    using lim by (cases "s = mg_sign (mg_vel m)") (simp_all add: turning straight field_simps)
  show "\<bar>posRef - mg_pos m + of_int s * dBrk k\<bar> = of_int s * (posRef - mg_pos m) + dBrk k"
    using way(1) by (cases "s = mg_sign (mg_vel m)") (simp_all add: turning straight)
  show "s \<noteq> mg_sign (mg_vel m) \<Longrightarrow> tBrk k = u / maxAcc m \<and> dBrk k = u * u / (2 * maxAcc m)"
    "s = mg_sign (mg_vel m) \<Longrightarrow> tBrk k = 0 \<and> dBrk k = 0"
    by (simp_all add: turning straight)
qed

lemma trapezoid_shape:
  assumes lim: "0 < maxVel m" "0 < maxAcc m" "\<bar>mg_vel m\<bar> \<le> maxVel m" and apart: "posRef \<noteq> stopping_point m"
    and b: "b = plan_trapezoid abs posRef (plan_brake abs posRef (plan_start posRef m))" and plateau: "tVel b > 0"
  shows "well_shaped posRef (plan abs posRef m)"
proof -
  define u s where "u = \<bar>mg_vel m\<bar>" and "s = mg_sign (posRef - stopping_point m)"
  define q :: real where "q = of_int (mg_sign (mg_vel m))"
  define k where "k = plan_brake abs posRef (plan_start posRef m)"
  note kk = brake_facts[OF lim(2) s_def apart u_def k_def q_def]
  have bk: "b = plan_trapezoid abs posRef k" by (simp add: b k_def)
  have ss: "(of_int s :: real) * of_int s = 1" by (rule stopping_way(3)[OF lim(2) s_def apart])
  have q1: "\<bar>q\<bar> \<le> 1" "mg_vel m = q * u" "of_int s * q * u \<le> u" "0 \<le> u"
    using mg_sign_abs[of "mg_vel m"] kk(12) by (auto simp: q_def u_def)
  note simps = plan_trapezoidal[OF b plateau] bk plan_trapezoid_keeps plan_trapezoid_values kk(1-5) dir_def peak_def end1_def
    way1_def cruise_def kk(9)
  have way_dv: "0 < dVel b"
    using lim plateau by (simp add: bk plan_trapezoid_values kk(5) zero_less_divide_iff)
  show ?thesis
  proof (rule well_shapedI[where u = u and q = q])
    show "q = dir (plan abs posRef m) \<or> q * u = - (dir (plan abs posRef m) * u)" using kk(6) by (simp add: simps)
    show "end1 (plan abs posRef m) = (peak (plan abs posRef m) - dir (plan abs posRef m) * q * u) / maxAcc (plan abs posRef m)"
      by (simp add: simps kk(7))
    show "0 \<le> end1 (plan abs posRef m)" using q1(3) lim by (simp add: simps kk(7) u_def)
    show "0 \<le> cruise (plan abs posRef m)" using way_dv lim by (simp add: simps)
    show "way1 (plan abs posRef m) = (peak (plan abs posRef m) * peak (plan abs posRef m) - u * u) / (2 * maxAcc (plan abs posRef m))"
      using kk(8) by (simp add: simps)
    have "posRef = mg_pos m + (of_int s * of_int s) * (posRef - mg_pos m)" using ss by simp
    also have "\<dots> = mg_pos m + of_int s * (of_int s * (posRef - mg_pos m))" by (simp only: mult.assoc)
    finally show "posRef = oldPos (plan abs posRef m) + dir (plan abs posRef m) * (way1 (plan abs posRef m)
        + peak (plan abs posRef m) * cruise (plan abs posRef m)
        + peak (plan abs posRef m) * peak (plan abs posRef m) / (2 * maxAcc (plan abs posRef m)))"
      using lim by (simp add: simps)
    show "oldVel (plan abs posRef m) = q * u" unfolding plan_keeps by (rule q1(2))
    show "dir (plan abs posRef m) * dir (plan abs posRef m) = 1" using ss by (simp add: simps)
    show "0 \<le> peak (plan abs posRef m)" "peak (plan abs posRef m) \<le> maxVel (plan abs posRef m)"
      "tDec (plan abs posRef m) = peak (plan abs posRef m) / maxAcc (plan abs posRef m)"
      "dVel (plan abs posRef m) = peak (plan abs posRef m) * cruise (plan abs posRef m)"
      using lim by (simp_all add: simps)
  qed (use lim q1(1,4) in \<open>simp_all only: plan_keeps u_def\<close>)
qed


lemma triangle_shape:
  assumes lim: "0 < maxVel m" "0 < maxAcc m" "\<bar>mg_vel m\<bar> \<le> maxVel m" and apart: "posRef \<noteq> stopping_point m"
    and b: "b = plan_trapezoid abs posRef (plan_brake abs posRef (plan_start posRef m))" and plateau: "\<not> tVel b > 0"
  shows "well_shaped posRef (plan abs posRef m)"
proof -
  define u s where "u = \<bar>mg_vel m\<bar>" and "s = mg_sign (posRef - stopping_point m)"
  define q :: real where "q = of_int (mg_sign (mg_vel m))"
  define k where "k = plan_brake abs posRef (plan_start posRef m)"
  define d where "d = of_int s * (posRef - mg_pos m)"
  define w where "w = velSt (plan abs posRef m)"
  let ?p = "plan abs posRef m"
  note kk = brake_facts[OF lim(2) s_def apart u_def k_def q_def]
  note way = way_to_go[OF lim(2) s_def apart u_def refl]
  have bk: "b = plan_trapezoid abs posRef k" by (simp add: b k_def)
  have ss: "(of_int s :: real) * of_int s = 1" by (rule stopping_way(3)[OF lim(2) s_def apart])
  have q1: "\<bar>q\<bar> \<le> 1" "mg_vel m = q * u" "0 \<le> u"
    using mg_sign_abs[of "mg_vel m"] by (auto simp: q_def u_def)
  have uV: "u \<le> maxVel m" using lim by (simp add: u_def)
  have bf: "signM b = s" "oldVel b = mg_vel m" "oldPos b = mg_pos m" "maxAcc b = maxAcc m" "dTot b = d + dBrk k"
      "tBrk b = tBrk k" "dBrk b = dBrk k"
    by (simp_all add: bk plan_trapezoid_keeps plan_trapezoid_values kk(1-5,9) d_def)
  have pl: "?p = plan_triangle abs posRef b" by (rule plan_triangular[OF b plateau])
  have short: "d + dBrk k \<le> dAcc k + maxVel m * maxVel m / (2 * maxAcc m)"
    using lim plateau by (simp add: bk plan_trapezoid_values kk(1-5,9) d_def zero_less_divide_iff)
  have "d + u * u / (2 * maxAcc m) \<le> maxVel m * maxVel m / maxAcc m"
    using short kk(8) by (simp add: diff_divide_distrib)
  then have "(d + u * u / (2 * maxAcc m)) * maxAcc m \<le> maxVel m * maxVel m"
    using lim(2) by (simp only: pos_le_divide_eq)
  moreover have "(d + u * u / (2 * maxAcc m)) * maxAcc m = maxAcc m * d + u * u / 2"
    using lim by (simp add: field_simps)
  ultimately have limit: "maxAcc m * d + u * u / 2 \<le> maxVel m * maxVel m" by simp
  have "s \<noteq> mg_sign (mg_vel m) \<or> s = mg_sign (mg_vel m)" by blast
  then have shape: "0 \<le> w \<and> w * w = maxAcc m * d + u * u / 2 \<and> w \<le> maxVel m \<and> of_int s * q * u \<le> w \<and>
      tBrk ?p + tAcc ?p = (w - of_int s * q * u) / maxAcc m \<and> dAcc ?p - dBrk ?p = (w * w - u * u) / (2 * maxAcc m) \<and>
      tDec ?p = w / maxAcc m"
  proof
    assume turns: "s \<noteq> mg_sign (mg_vel m)"
    note k2 = kk(10)[OF turns]
    have tri: "signM b \<noteq> mg_sign (oldVel b)" using turns by (simp add: bf)
    note t = triangle_turning[OF tri, of posRef, folded pl, unfolded bf]
    have w: "w = sqrt (maxAcc m * (d + dBrk k))" by (simp add: w_def t)
    have pos: "0 < d + dBrk k" using way(3)[OF turns] k2 turns by (simp add: d_def u_def)
    have "maxAcc m * (d + dBrk k) = maxAcc m * d + u * u / 2" using k2 lim by (simp add: field_simps)
    moreover have "w * w = maxAcc m * (d + dBrk k)" unfolding w
      by (rule real_sqrt_mult_self[THEN trans]) (use pos lim in simp)
    ultimately have ww: "w * w = maxAcc m * d + u * u / 2" by simp
    have wV: "w \<le> maxVel m" using ww lim limit by (metis abs_le_square_iff abs_of_pos abs_ge_self order_trans power2_eq_square)
    have "0 \<le> w" using pos lim by (simp add: w)
    moreover have "tAcc ?p = w / maxAcc m" "dAcc ?p = w / maxAcc m * (w / 2)" "tBrk ?p = u / maxAcc m"
        "dBrk ?p = u * u / (2 * maxAcc m)" "tDec ?p = w / maxAcc m"
      using k2 by (simp_all add: t w)
    moreover have "w / maxAcc m * (w / 2) - u * u / (2 * maxAcc m) = (w * w - u * u) / (2 * maxAcc m)"
      "u / maxAcc m + w / maxAcc m = (w - - u) / maxAcc m"
      using lim by (simp_all add: field_simps)
    ultimately show ?thesis using ww wV kk(12) turns q1(3) by simp
  next
    assume turns: "s = mg_sign (mg_vel m)"
    note k2 = kk(11)[OF turns]
    have tri: "signM b = mg_sign (oldVel b)" using turns by (simp add: bf)
    note t = triangle_straight[OF tri refl, of posRef, folded pl, unfolded bf]
    have far: "\<bar>posRef - mg_pos m\<bar> = d" using kk(9) k2 by (simp add: d_def)
    have w: "w = sqrt (1 / 2 * mg_vel m * mg_vel m + maxAcc m * d)" by (simp add: w_def t far)
    have uu: "u * u = mg_vel m * mg_vel m" by (simp add: u_def)
    have pos: "u * u / (2 * maxAcc m) < d" using way(4)[OF turns] by (simp add: d_def)
    then have big: "u * u < maxAcc m * d + u * u / 2" using lim by (simp add: field_simps)
    then have "0 \<le> maxAcc m * d + u * u / 2" using zero_le_square[of u] by linarith
    moreover have "1 / 2 * mg_vel m * mg_vel m + maxAcc m * d = maxAcc m * d + u * u / 2" by (simp add: uu)
    ultimately have ww: "w * w = maxAcc m * d + u * u / 2" and w0: "0 \<le> w" unfolding w by simp_all
    have wV: "w \<le> maxVel m" using ww lim limit by (metis abs_le_square_iff abs_of_pos abs_ge_self order_trans power2_eq_square)
    have uw: "u \<le> w" using big ww w0 q1 by (metis abs_le_square_iff abs_of_nonneg less_imp_le power2_eq_square)
    have eqs: "tAcc ?p = (w - u) / maxAcc m" "dAcc ?p = (w - u) / maxAcc m * (w + u) / 2" "tBrk ?p = 0" "dBrk ?p = 0"
        "tDec ?p = w / maxAcc m"
      by (simp_all add: t far w u_def)
    have prod: "(w - u) / maxAcc m * (w + u) / 2 = (w * w - u * u) / (2 * maxAcc m)"
      using lim by (simp add: field_simps)
    have su: "of_int s * q * u = u" using kk(12) turns by metis
    have ends: "0 + (w - u) / maxAcc m = (w - of_int s * q * u) / maxAcc m" "of_int s * q * u \<le> w"
      "(w - u) / maxAcc m * (w + u) / 2 - 0 = (w * w - u * u) / (2 * maxAcc m)"
      unfolding su using uw prod by simp_all
    show ?thesis unfolding eqs using ww wV w0 ends by blast
  qed
  have keeps: "dir ?p = of_int s" "peak ?p = w" "cruise ?p = 0" "\<not> trapezoidal ?p" "end1 ?p = tBrk ?p + tAcc ?p" "way1 ?p = dAcc ?p - dBrk ?p"
    by (simp_all add: dir_def bf(1) peak_def cruise_def end1_def way1_def w_def pl plan_triangle_keeps)
  show ?thesis
  proof (rule well_shapedI[where u = u and q = q])
    have "way1 ?p = (w * w - u * u) / (2 * maxAcc m)" "w * w = maxAcc m * d + u * u / 2" using shape keeps(6) by simp_all
    then have "d = way1 ?p + w * w / (2 * maxAcc m)" using lim by (simp add: field_simps)
    then have "oldPos ?p + dir ?p * (way1 ?p + peak ?p * cruise ?p + peak ?p * peak ?p / (2 * maxAcc ?p)) = mg_pos m + of_int s * d"
      by (simp add: keeps plan_keeps)
    also have "\<dots> = posRef" unfolding d_def by (rule way(2)[symmetric])
    finally show "posRef = oldPos ?p + dir ?p * (way1 ?p + peak ?p * cruise ?p + peak ?p * peak ?p / (2 * maxAcc ?p))" ..
    show "0 \<le> end1 ?p" using shape lim by (simp add: keeps)
  qed (use shape lim q1 uV ss kk(6) in \<open>simp_all add: keeps plan_keeps\<close>)
qed

theorem plan_shape:
  assumes "0 < maxVel m" "0 < maxAcc m" "\<bar>mg_vel m\<bar> \<le> maxVel m" "posRef \<noteq> stopping_point m"
  shows "well_shaped posRef (plan abs posRef m)"
  using trapezoid_shape[OF assms refl] triangle_shape[OF assms refl] by blast


subsection \<open>Runs of updates\<close>

fun mg_updates :: "(real \<times> real) list \<Rightarrow> motion \<Rightarrow> motion" where
  "mg_updates [] m = m"
| "mg_updates ((now, posRef) # evs) m = mg_updates evs (mg_update abs now posRef m)"

lemma mg_updates_append: "mg_updates (evs @ evs') m = mg_updates evs' (mg_updates evs m)"
  by (induction evs m rule: mg_updates.induct) auto

text \<open>The clock does not run backwards, and no new reference is the point the drive would come to a stand at.\<close>

fun usual_run :: "(real \<times> real) list \<Rightarrow> motion \<Rightarrow> bool" where
  "usual_run [] m \<longleftrightarrow> True"
| "usual_run ((now, posRef) # evs) m \<longleftrightarrow>
     lastTime m \<le> now \<and> (posRef \<noteq> oldPosRef m \<longrightarrow> posRef \<noteq> stopping_point m) \<and> usual_run evs (mg_update abs now posRef m)"

lemma usual_run_append: "usual_run (evs @ evs') m \<longleftrightarrow> usual_run evs m \<and> usual_run evs' (mg_updates evs m)"
  by (induction evs m rule: mg_updates.induct) auto

text \<open>A drive at rest at its reference, and a drive on its way.\<close>

definition resting :: "motion \<Rightarrow> bool" where
  "resting m \<longleftrightarrow> mg_pos m = oldPosRef m \<and> mg_vel m = 0 \<and> oldPos m = oldPosRef m \<and> oldVel m = 0 \<and> trapezoidal m \<and>
     tBrk m = 0 \<and> tAcc m = 0 \<and> tVel m = 0 \<and> tDec m = 0"

definition moving :: "motion \<Rightarrow> bool" where
  "moving m \<longleftrightarrow> well_shaped (oldPosRef m) m \<and> mg_pos m = profile_pos (oldPosRef m) m (lastTime m - oldTime m) \<and>
     mg_vel m = profile_vel (oldPosRef m) m (lastTime m - oldTime m)"

definition mg_ok :: "motion \<Rightarrow> bool" where
  "mg_ok m \<longleftrightarrow> 0 < maxVel m \<and> 0 < maxAcc m \<and> oldTime m \<le> lastTime m \<and> (resting m \<or> moving m)"

lemma mg_ok_speed:
  assumes "mg_ok m"
  shows "\<bar>mg_vel m\<bar> \<le> maxVel m"
  using assms profile_speed_limited[of "oldPosRef m" m "lastTime m - oldTime m"]
  by (auto simp: mg_ok_def resting_def moving_def)

lemma new_ok:
  assumes "0 < v" "0 < a"
  shows "mg_ok (MotionGenerator_new v a p now m)"
  using assms by (simp add: mg_ok_def resting_def MotionGenerator_new_def mg_init_def mg_reset_def)

lemma calculate_keeps:
  "maxVel (calculateTrapezoidalProfile r m) = maxVel m" "maxAcc (calculateTrapezoidalProfile r m) = maxAcc m"
  "oldPosRef (calculateTrapezoidalProfile r m) = oldPosRef m" "oldPos (calculateTrapezoidalProfile r m) = oldPos m"
  "oldVel (calculateTrapezoidalProfile r m) = oldVel m" "oldTime (calculateTrapezoidalProfile r m) = oldTime m"
  "trapezoidal (calculateTrapezoidalProfile r m) = trapezoidal m" "signM (calculateTrapezoidalProfile r m) = signM m"
  "tBrk (calculateTrapezoidalProfile r m) = tBrk m" "tAcc (calculateTrapezoidalProfile r m) = tAcc m"
  "tVel (calculateTrapezoidalProfile r m) = tVel m" "tDec (calculateTrapezoidalProfile r m) = tDec m"
  "dBrk (calculateTrapezoidalProfile r m) = dBrk m" "dAcc (calculateTrapezoidalProfile r m) = dAcc m"
  "dVel (calculateTrapezoidalProfile r m) = dVel m" "velSt (calculateTrapezoidalProfile r m) = velSt m"
  by (simp_all add: calculateTrapezoidalProfile_def Let_def)

text \<open>The motion of a state does not depend on where the drive is, nor on the last times.\<close>

lemmas shape_defs = well_shaped_def peak_def cruise_def dir_def end1_def end2_def end3_def way1_def

lemma shape_depends:
  "well_shaped r ((calculateTrapezoidalProfile r' (m\<lparr>deltaTime := t\<rparr>))\<lparr>lastTime := now\<rparr>) = well_shaped r m"
  by (simp add: shape_defs calculate_keeps)

lemma profile_depends:
  "profile_pos r ((calculateTrapezoidalProfile r' (m\<lparr>deltaTime := t'\<rparr>))\<lparr>lastTime := now\<rparr>) t = profile_pos r m t"
  "profile_vel r ((calculateTrapezoidalProfile r' (m\<lparr>deltaTime := t'\<rparr>))\<lparr>lastTime := now\<rparr>) t = profile_vel r m t"
  if "well_shaped r m"
proof -
  let ?n = "(calculateTrapezoidalProfile r' (m\<lparr>deltaTime := t'\<rparr>))\<lparr>lastTime := now\<rparr>"
  have ws: "well_shaped r ?n" using that by (simp only: shape_depends)
  have same: "end1 ?n = end1 m" "end2 ?n = end2 m" "end3 ?n = end3 m" "phase1 ?n = phase1 m" "phase2 ?n = phase2 m"
      "phase3 ?n = phase3 m" "dir ?n = dir m" "peak ?n = peak m" "maxAcc ?n = maxAcc m" "oldVel ?n = oldVel m"
    by (simp_all add: fun_eq_iff phase1_def phase2_def phase3_def shape_defs calculate_keeps)
  show "profile_pos r ?n t = profile_pos r m t" unfolding profile_phases(1)[OF ws] profile_phases(1)[OF that] same ..
  show "profile_vel r ?n t = profile_vel r m t" unfolding profile_phases(2)[OF ws] profile_phases(2)[OF that] same ..
qed


text \<open>An update is the profile at the time since the last change of the reference.\<close>

lemma update_moves:
  assumes "well_shaped posRef k" "oldPosRef k = posRef" "lastTime k \<le> now" "oldTime k \<le> lastTime k"
    "n = (calculateTrapezoidalProfile posRef (k\<lparr>deltaTime := now - oldTime k\<rparr>))\<lparr>lastTime := now\<rparr>"
  shows "mg_pos n = profile_pos posRef k (now - oldTime k)" "mg_vel n = profile_vel posRef k (now - oldTime k)" "moving n"
    "maxVel n = maxVel k" "maxAcc n = maxAcc k" "oldTime n = oldTime k" "lastTime n = now" "oldPosRef n = posRef"
proof -
  show p: "mg_pos n = profile_pos posRef k (now - oldTime k)" and v: "mg_vel n = profile_vel posRef k (now - oldTime k)"
    by (simp_all add: assms(5) profile_pos_def profile_vel_def)
  show l: "lastTime n = now" by (simp add: assms(5))
  show o: "maxVel n = maxVel k" "maxAcc n = maxAcc k" "oldTime n = oldTime k" "oldPosRef n = posRef"
    by (simp_all add: assms(2,5) calculate_keeps)
  have "well_shaped posRef n" unfolding assms(5) shape_depends by (rule assms(1))
  then show "moving n"
    unfolding moving_def p v l o unfolding assms(5) profile_depends[OF assms(1)] by simp
qed

lemma profile_starts:
  assumes "well_shaped posRef m"
  shows "profile_pos posRef m 0 = oldPos m"
  using phases_meet(4)[OF assms] by (simp add: profile_phases[OF assms] phase1_def)

lemma update_moving:
  assumes ok: "mg_ok m" and now: "lastTime m \<le> now" and k: "well_shaped posRef k" "oldPosRef k = posRef" "lastTime k = lastTime m"
      "oldTime k \<le> lastTime k" "maxVel k = maxVel m" "maxAcc k = maxAcc m" "mg_pos m = profile_pos posRef k (lastTime m - oldTime k)"
    and n: "n = (calculateTrapezoidalProfile posRef (k\<lparr>deltaTime := now - oldTime k\<rparr>))\<lparr>lastTime := now\<rparr>"
  shows "mg_ok n" "\<bar>mg_pos n - mg_pos m\<bar> \<le> maxVel m * (now - lastTime m)" "maxVel n = maxVel m" "maxAcc n = maxAcc m"
    "lastTime n = now" "oldPosRef n = posRef"
proof -
  have "lastTime k \<le> now" using now k by simp
  note u = update_moves[OF k(1,2) this k(4) n]
  show "mg_ok n" using u k ok now by (simp add: mg_ok_def)
  have "bounded_on (maxVel k) (profile_pos posRef k) 0 (now - oldTime k)"
    by (rule profile_is_bounded[OF k(1)]) (use now k in simp)
  then have "\<bar>profile_pos posRef k (now - oldTime k) - profile_pos posRef k (lastTime m - oldTime k)\<bar>
      \<le> maxVel k * ((now - oldTime k) - (lastTime m - oldTime k))"
    by (rule bounded_on_def[THEN iffD1, rule_format]) (use now k(3,4) in simp)
  then show "\<bar>mg_pos n - mg_pos m\<bar> \<le> maxVel m * (now - lastTime m)" using u k by simp
  show "maxVel n = maxVel m" "maxAcc n = maxAcc m" "lastTime n = now" "oldPosRef n = posRef" using u k by simp_all
qed

lemma update_resting:
  assumes "resting m" "oldTime m \<le> now"
    "n = (calculateTrapezoidalProfile (oldPosRef m) (m\<lparr>deltaTime := now - oldTime m\<rparr>))\<lparr>lastTime := now\<rparr>"
  shows "resting n" "mg_pos n = mg_pos m"
  using assms by (auto simp: resting_def calculateTrapezoidalProfile_def Let_def)

lemma update_step:
  assumes ok: "mg_ok m" and now: "lastTime m \<le> now" and usual: "posRef \<noteq> oldPosRef m \<longrightarrow> posRef \<noteq> stopping_point m"
  shows "mg_ok (mg_update abs now posRef m) \<and>
    \<bar>mg_pos (mg_update abs now posRef m) - mg_pos m\<bar> \<le> maxVel m * (now - lastTime m) \<and>
    maxVel (mg_update abs now posRef m) = maxVel m \<and> maxAcc (mg_update abs now posRef m) = maxAcc m \<and>
    lastTime (mg_update abs now posRef m) = now \<and> oldPosRef (mg_update abs now posRef m) = posRef"
proof (cases "posRef = oldPosRef m")
  case False
  define k where "k = plan abs posRef m"
  have ws: "well_shaped posRef k"
    unfolding k_def using ok usual False mg_ok_speed[OF ok] by (intro plan_shape) (auto simp: mg_ok_def)
  have lt: "lastTime k = lastTime m" by (simp add: k_def plan_def Let_def steps_keep)
  have kk: "oldPosRef k = posRef" "oldTime k = lastTime m" "maxVel k = maxVel m" "maxAcc k = maxAcc m" "oldPos k = mg_pos m"
    by (simp_all add: k_def plan_keeps)
  have "mg_update abs now posRef m =
      (calculateTrapezoidalProfile posRef (k\<lparr>deltaTime := now - oldTime k\<rparr>))\<lparr>lastTime := now\<rparr>"
    using False by (simp add: mg_update_def k_def Let_def)
  from update_moving[OF ok now ws _ lt _ _ _ _ this] show ?thesis
    using kk profile_starts[OF ws] lt by simp
next
  case True
  have n: "mg_update abs now posRef m =
      (calculateTrapezoidalProfile posRef (m\<lparr>deltaTime := now - oldTime m\<rparr>))\<lparr>lastTime := now\<rparr>"
    using True by (simp add: mg_update_def)
  from ok have "resting m \<or> moving m" by (simp add: mg_ok_def)
  then show ?thesis
  proof
    assume m: "moving m"
    have k: "well_shaped posRef m" "oldPosRef m = posRef" "mg_pos m = profile_pos posRef m (lastTime m - oldTime m)"
      using m unfolding moving_def True by blast+
    have "oldTime m \<le> lastTime m" using ok by (simp add: mg_ok_def)
    from update_moving[OF ok now k(1,2) refl this refl refl k(3) n] show ?thesis by blast
  next
    assume m: "resting m"
    have "oldTime m \<le> now" using ok now by (simp add: mg_ok_def)
    note r = update_resting[OF m this n[unfolded True]]
    have "mg_ok (mg_update abs now (oldPosRef m) m)"
      using r(1) ok \<open>oldTime m \<le> now\<close> n[unfolded True] by (simp add: mg_ok_def calculate_keeps)
    then show ?thesis
      using r(2) ok now n True by (simp add: mg_ok_def calculate_keeps)
  qed
qed

lemma updates_ok:
  assumes "mg_ok m" "usual_run evs m"
  shows "mg_ok (mg_updates evs m) \<and> maxVel (mg_updates evs m) = maxVel m \<and> maxAcc (mg_updates evs m) = maxAcc m"
  using assms
proof (induction evs m rule: mg_updates.induct)
  case (2 now posRef evs m)
  then show ?case using update_step[of m now posRef] by auto
qed simp


subsection \<open>What the generator promises\<close>


text \<open>The time a plan takes: at most the way at the maximal velocity and three times the time to reach it.\<close>

lemma plan_duration:
  assumes lim: "0 < maxVel m" "0 < maxAcc m" "\<bar>mg_vel m\<bar> \<le> maxVel m" and apart: "posRef \<noteq> stopping_point m"
  shows "end3 (plan abs posRef m) \<le> \<bar>posRef - mg_pos m\<bar> / maxVel m + 3 * maxVel m / maxAcc m"
proof -
  define k d e pk where "k = plan abs posRef m" and "d = dir k" and "e = end1 k" and "pk = peak k"
  note ws = plan_shape[OF assms, folded k_def]
  note kk = plan_keeps[of abs posRef m, folded k_def]
  note w = ws[unfolded well_shaped_def kk, folded d_def e_def pk_def]
  have dd: "d * d = 1"
    using stopping_way(3)[OF lim(2) refl apart] by (simp add: d_def k_def dir_def plan_sign)
  then have d1: "d = 1 \<or> d = - 1" by (simp add: square_eq_1_iff)
  have v: "mg_vel m + d * maxAcc m * e = d * pk" and e0: "0 \<le> e" and pk: "0 \<le> pk" "pk \<le> maxVel m" and cr: "0 \<le> cruise k"
    and dec: "tDec k = pk / maxAcc m" and way: "mg_vel m * e + d * maxAcc m * e * e / 2 = d * way1 k"
    and total: "posRef = mg_pos m + d * (way1 k + pk * cruise k + pk * pk / (2 * maxAcc m))"
    using w by blast+
  have "e * maxAcc m \<le> 2 * maxVel m" using d1 v pk lim by (auto simp: mult.commute)
  then have e1: "e \<le> 2 * maxVel m / maxAcc m" using lim(2) by (simp only: pos_le_divide_eq)
  have e3: "tDec k \<le> maxVel m / maxAcc m" using dec pk lim by (simp add: divide_right_mono)
  have e2: "cruise k \<le> \<bar>posRef - mg_pos m\<bar> / maxVel m"
  proof (cases "trapezoidal k")
    case False
    then show ?thesis using lim by (simp add: cruise_def)
  next
    case True
    then have full: "pk = maxVel m" by (simp add: pk_def peak_def kk)
    have "way1 k = d * (d * way1 k)" using dd by (simp add: mult.assoc[symmetric])
    also have "\<dots> = d * (mg_vel m + (mg_vel m + d * maxAcc m * e)) / 2 * e" by (simp add: way[symmetric] algebra_simps)
    also have "\<dots> = (d * mg_vel m + (d * d) * pk) / 2 * e" unfolding v by (simp add: algebra_simps)
    finally have "way1 k = (d * mg_vel m + maxVel m) / 2 * e" using dd full by simp
    moreover have "0 \<le> d * mg_vel m + maxVel m" using d1 lim by auto
    ultimately have "0 \<le> way1 k" using e0 by (metis divide_nonneg_pos mult_nonneg_nonneg zero_less_numeral)
    moreover have "0 \<le> pk * pk / (2 * maxAcc m)" using lim by simp
    ultimately have "pk * cruise k \<le> way1 k + pk * cruise k + pk * pk / (2 * maxAcc m)" by linarith
    also have "\<dots> \<le> \<bar>posRef - mg_pos m\<bar>"
      unfolding total using d1 by (auto simp: abs_if)
    finally show ?thesis using full lim by (simp add: pos_le_divide_eq mult.commute)
  qed
  have "end3 k = e + cruise k + tDec k" by (simp add: end3_def end2_def e_def)
  also have "\<dots> \<le> 2 * maxVel m / maxAcc m + \<bar>posRef - mg_pos m\<bar> / maxVel m + maxVel m / maxAcc m"
    using e1 e2 e3 by linarith
  also have "\<dots> = \<bar>posRef - mg_pos m\<bar> / maxVel m + 3 * maxVel m / maxAcc m" by (simp add: add_divide_distrib[symmetric])
  finally show ?thesis by (simp add: k_def)
qed

text \<open>Updates with the reference of a plan keep the plan; an update after its end has arrived.\<close>

definition follows :: "real \<Rightarrow> real \<Rightarrow> real \<Rightarrow> motion \<Rightarrow> bool" where
  "follows posRef start finish k \<longleftrightarrow>
     well_shaped posRef k \<and> oldPosRef k = posRef \<and> oldTime k = start \<and> start + end3 k = finish"

lemma follows_calculate:
  assumes "follows posRef start finish k"
  shows "follows posRef start finish ((calculateTrapezoidalProfile posRef (k\<lparr>deltaTime := now - start\<rparr>))\<lparr>lastTime := now\<rparr>)"
proof -
  have "well_shaped posRef ((calculateTrapezoidalProfile posRef (k\<lparr>deltaTime := now - start\<rparr>))\<lparr>lastTime := now\<rparr>)"
    using assms by (simp only: shape_depends follows_def)
  with assms show ?thesis
    by (cases "trapezoidal k") (simp_all add: follows_def end1_def end2_def end3_def cruise_def calculate_keeps)
qed

lemma follows_update:
  assumes "follows posRef start finish k"
  shows "mg_update cabs now posRef k =
      (calculateTrapezoidalProfile posRef (k\<lparr>deltaTime := now - start\<rparr>))\<lparr>lastTime := now\<rparr>"
  using assms by (simp add: mg_update_def follows_def Let_def)

lemma follows_updates: "follows posRef start finish k \<Longrightarrow>
    follows posRef start finish (mg_updates (map (\<lambda>t. (t, posRef)) ts) k)"
  by (induction ts arbitrary: k) (simp_all add: follows_update follows_calculate)

lemma follows_arrives:
  assumes "follows posRef start finish k" "finish < now"
    "n = (calculateTrapezoidalProfile posRef (k\<lparr>deltaTime := now - start\<rparr>))\<lparr>lastTime := now\<rparr>"
  shows "mg_pos n = posRef \<and> getVelocity n = 0 \<and> getFinished n"
proof -
  have ws: "well_shaped posRef k" and late: "end3 k < now - start" using assms by (auto simp: follows_def)
  then have "end1 k < now - start" using phases_meet(5,6)[OF ws] by linarith
  note arrived = profile_end[OF ws less_imp_le[OF late] this]
  then show ?thesis by (simp add: assms(3) getVelocity_def getFinished_def profile_pos_def profile_vel_def)
qed


text \<open>A moving drive that is told to go to the point it would come to a stand at.\<close>

lemma stopping_point_plan:
  assumes "0 < maxAcc m" "0 < maxVel m" "posRef = stopping_point m" "mg_vel m \<noteq> 0" "\<bar>mg_vel m\<bar> \<le> maxVel m" "k = plan abs posRef m"
  shows "signM k = 0" "\<not> trapezoidal k" "tBrk k = \<bar>mg_vel m\<bar> / maxAcc m" "velSt k * velSt k = mg_vel m * mg_vel m / 2"
    "0 \<le> velSt k" "tAcc k = velSt k / maxAcc m" "tDec k = velSt k / maxAcc m"
proof -
  let ?v = "mg_vel m"
  define b0 where "b0 = plan_brake abs posRef (plan_start posRef m)"
  define b where "b = plan_trapezoid abs posRef b0"
  have s0: "signM b0 = 0" by (simp add: b0_def brake_sign[OF refl refl] plan_start_keeps assms(3) stopping_point_def mg_sign_def)
  have turns: "0 \<noteq> mg_sign (oldVel (plan_start posRef m))" using assms(4) by (simp add: plan_start_keeps mg_sign_def)
  note bt = brake_turning[of posRef "plan_start posRef m", folded b0_def, OF s0 turns, unfolded plan_start_keeps]
  have b0: "oldVel b0 = ?v" "oldPos b0 = mg_pos m" "maxAcc b0 = maxAcc m" "maxVel b0 = maxVel m"
    by (simp_all add: b0_def steps_keep)
  have way: "dTot b = ?v * ?v / (2 * maxAcc m)"
    using assms(1) by (simp add: b_def plan_trapezoid_values s0 b0 assms(3) stopping_point_def mg_sign_def abs_mult)
  have "?v * ?v \<le> maxVel m * maxVel m"
    using assms(2,5) by (metis abs_ge_zero abs_mult_self_eq less_imp_le mult_mono)
  then have "?v * ?v / (2 * maxAcc m) \<le> maxVel m * maxVel m / (2 * maxAcc m)"
    using assms(1) by (simp add: divide_right_mono)
  moreover have "0 \<le> maxVel m * maxVel m / (2 * maxAcc m)" using assms(1) by simp
  moreover have "dVel b = dTot b - (maxVel m * maxVel m / (2 * maxAcc m) + maxVel m * maxVel m / (2 * maxAcc m))"
    by (simp add: b_def plan_trapezoid_values s0 b0 bt)
  ultimately have "dVel b \<le> 0" using way by linarith
  then have "\<not> tVel b > 0"
    using assms(2) by (simp add: b_def plan_trapezoid_values b0 zero_less_divide_iff)
  then have k: "k = plan_triangle abs posRef b"
    unfolding assms(6) by (rule plan_triangular[of b, rotated]) (simp add: b_def b0_def)
  have tri: "signM b \<noteq> mg_sign (oldVel b)" using turns by (simp add: b_def plan_trapezoid_keeps s0 b0 plan_start_keeps)
  note t = triangle_turning[OF tri, of posRef, folded k]
  have b: "maxAcc b = maxAcc m" "tBrk b = \<bar>?v\<bar> / maxAcc m" "signM b = 0"
    by (simp_all add: b_def plan_trapezoid_keeps b0 bt s0)
  have wd: "maxAcc m * dTot b = ?v * ?v / 2" using assms(1) way by simp
  show "signM k = 0" "\<not> trapezoidal k" by (simp_all add: k plan_triangle_keeps b)
  show "tBrk k = \<bar>?v\<bar> / maxAcc m" by (simp add: t b)
  show "velSt k * velSt k = ?v * ?v / 2" "0 \<le> velSt k" by (simp_all add: t b wd)
  show "tAcc k = velSt k / maxAcc m" "tDec k = velSt k / maxAcc m" by (simp_all add: t b)
qed



text \<open>A drive at rest in 0 with velocity 2 and acceleration 1, sent to 10, and one sent back on the way.\<close>

definition rest_drive :: motion where
  "rest_drive = MotionGenerator_new 2 1 0 0
     \<lparr>maxVel = 0, maxAcc = 0, initPos = 0, mg_pos = 0, mg_vel = 0, mg_acc = 0, oldPos = 0, oldPosRef = 0, oldVel = 0,
      dBrk = 0, dAcc = 0, dVel = 0, dDec = 0, dTot = 0, tBrk = 0, tAcc = 0, tVel = 0, tDec = 0, velSt = 0, oldTime = 0,
      lastTime = 0, deltaTime = 0, signM = 0, trapezoidal = False, isFinished = False\<rparr>"

lemma rest_drive_values:
  "mg_pos rest_drive = 0" "mg_vel rest_drive = 0" "maxVel rest_drive = 2" "maxAcc rest_drive = 1" "oldPosRef rest_drive = 0"
  "lastTime rest_drive = 0" "stopping_point rest_drive = 0"
  by (simp_all add: rest_drive_def MotionGenerator_new_def mg_init_def mg_reset_def stopping_point_def)

lemma rest_drive_starts:
  "mg_pos (mg_update abs 1 10 rest_drive) = 1 / 2" "mg_vel (mg_update abs 1 10 rest_drive) = 1"
  "maxVel (mg_update abs 1 10 rest_drive) = 2" "maxAcc (mg_update abs 1 10 rest_drive) = 1"
  "oldPosRef (mg_update abs 1 10 rest_drive) = 10" "lastTime (mg_update abs 1 10 rest_drive) = 1"
  "stopping_point (mg_update abs 1 10 rest_drive) = 1"
  by (simp_all add: rest_drive_def MotionGenerator_new_def mg_init_def mg_reset_def mg_update_def plan_def plan_start_def
      plan_brake_def plan_trapezoid_def calculateTrapezoidalProfile_def Let_def mg_sign_def stopping_point_def)




end
