(* ===== verification/MockModes.thy ===== *)
theory MockModes
  imports FakeSlave402 MotionGenerator Modes402
begin

text \<open>
  The threads of the CiA 402 mock device that simulate the motion of a mode (\<open>cia402_slave.hpp\<close>, the
  functions \<open>run_..._mode\<close>). A thread is a loop while the drive is enabled in the mode; what the other
  threads do while it sleeps, the clock and \<open>rclcpp::ok()\<close> are a script. A script that runs out inside
  the inner loop of an iteration leaves the thread there: that a thread comes out of the inner loop is
  a statement about its result. Lengths are exact reals; the conversion of a \<open>double\<close> to \<open>int32_t\<close> is a
  parameter, which truncates what fits.
\<close>

subsection \<open>Scripts and conversions\<close>

record tick =
  tk_now :: real
  tk_others :: "slave \<Rightarrow> slave"
  tk_ok :: bool

text \<open>An iteration of the outer loop: what others do before its test, the test's \<open>rclcpp::ok()\<close>, what they
  do in its first sleep, the clock after it, the inner loop and the last sleep.\<close>

record iteration =
  it_before :: "slave \<Rightarrow> slave"
  it_ok :: bool
  it_others :: "slave \<Rightarrow> slave"
  it_now :: real
  it_ticks :: "tick list"
  it_last :: "slave \<Rightarrow> slave"

datatype 'l thread_run = Ended slave | Inside | Waiting 'l slave

fun run_mode ::
  "int \<Rightarrow> (iteration \<Rightarrow> 'l \<Rightarrow> slave \<Rightarrow> ('l \<times> slave) option) \<Rightarrow> iteration list \<Rightarrow> 'l \<Rightarrow> slave \<Rightarrow> 'l thread_run" where
  "run_mode mode body [] l s = Waiting l s"
| "run_mode mode body (i # is) l s =
    (let s1 = it_before i s in
     if sl_state s1 = Operation_Enable \<and> sl_mode s1 = mode \<and> it_ok i
     then (case body i l s1 of None \<Rightarrow> Inside | Some (l2, s2) \<Rightarrow> run_mode mode body is l2 s2)
     else Ended s1)"

type_synonym to_int32 = "real \<Rightarrow> int"

definition to_int32_law :: "to_int32 \<Rightarrow> bool" where
  "to_int32_law cs \<longleftrightarrow> (\<forall>r. in_type I32 (trunc r) \<longrightarrow> cs r = trunc r)"

text \<open>\<open>(int32_t)(*this)[idx][sub]\<close>, and the same in units of a thousandth.\<close>

definition obj32 :: "u16 \<Rightarrow> u8 \<Rightarrow> slave \<Rightarrow> int" where
  "obj32 idx sub s = cast_int I32 (sl_od s (idx, sub))"

definition obj_milli :: "u16 \<Rightarrow> slave \<Rightarrow> real" where
  "obj_milli idx s = of_int (obj32 idx 0 s) / 1000"

definition put_obj :: "u16 \<Rightarrow> int \<Rightarrow> slave \<Rightarrow> slave" where
  "put_obj idx v s = s\<lparr>sl_od := (sl_od s)((idx, 0) := v)\<rparr>"

text \<open>Integer division of C++.\<close>

definition div1000 :: "int \<Rightarrow> int" where "div1000 n = trunc (of_int n / 1000)"

definition pow10 :: "int \<Rightarrow> real" where "pow10 k = (if 0 \<le> k then 10 ^ nat k else 1 / 10 ^ nat (- k))"

definition control_cycle_period :: real where "control_cycle_period = 1 / 100"

subsection \<open>Profiled position\<close>

record pp_locals =
  profile_speed :: real
  profile_accerlation :: real
  pp_actual :: real
  pp_target :: real
  pp_velocity :: real

definition pp_begin :: "slave \<Rightarrow> pp_locals" where
  "pp_begin s =
    \<lparr>profile_speed = of_int (cast_int U32 (sl_od s (0x6081, 0))) / 1000,
     profile_accerlation = of_int (cast_int U32 (sl_od s (0x6083, 0))) / 1000,
     pp_actual = obj_milli 0x6064 s, pp_target = obj_milli 0x607A s, pp_velocity = obj_milli 0x606C s\<rparr>"

fun pp_move :: "(real \<Rightarrow> real) \<Rightarrow> to_int32 \<Rightarrow> tick list \<Rightarrow> motion \<Rightarrow> pp_locals \<Rightarrow> slave \<Rightarrow> (pp_locals \<times> slave) option" where
  "pp_move cabs cs [] gen l s = (if getFinished gen then Some (l, s) else None)"
| "pp_move cabs cs (t # ts) gen l s =
    (if getFinished gen then Some (l, s)
     else (let s1 = tk_others t s; gen1 = mg_update cabs (tk_now t) (pp_target l) gen;
               l1 = l\<lparr>pp_actual := mg_pos gen1, pp_velocity := getVelocity gen1\<rparr>;
               s2 = put_obj 0x606C (cs (pp_velocity l1 * 1000)) (put_obj 0x6064 (cs (pp_actual l1 * 1000)) s1)
           in pp_move cabs cs ts gen1 l1 s2))"

text \<open>The arguments of \<open>gen\<close> as the code has them; the constructor takes the velocity first. \<open>m0\<close> is the
  memory \<open>gen\<close> is constructed in.\<close>

definition pp_iteration ::
  "(real \<Rightarrow> real) \<Rightarrow> to_int32 \<Rightarrow> motion \<Rightarrow> iteration \<Rightarrow> pp_locals \<Rightarrow> slave \<Rightarrow> (pp_locals \<times> slave) option" where
  "pp_iteration cabs cs m0 i l s =
    (let s1 = it_others i s;
         l1 = l\<lparr>pp_target := obj_milli 0x607A s1\<rparr>;
         s2 = set_status_bit (sw_bit SW_Remote) (set_status_bit (sw_bit SW_Voltage_enabled)
                (clear_status_bit (sw_bit SW_Operation_mode_specific0) s1)) in
     if pp_target l1 \<noteq> pp_actual l1
     then (let s3 = publish_status (clear_status_bit (sw_bit SW_Target_reached)
                      (clear_status_bit (sw_bit SW_Operation_mode_specific0) s2));
               s4 = s3\<lparr>sl_new_set_point := False\<rparr>;
               gen = MotionGenerator_new (profile_accerlation l1) (profile_speed l1) (pp_actual l1) (it_now i) m0
           in case pp_move cabs cs (it_ticks i) gen l1 s4 of
                None \<Rightarrow> None
              | Some (l5, s5) \<Rightarrow>
                  Some (l5, publish_status (set_status_bit (sw_bit SW_Target_reached)
                              (clear_status_bit (sw_bit SW_Operation_mode_specific0) s5))))
     else Some (l1, s2))"

definition run_profiled_position_mode ::
  "(real \<Rightarrow> real) \<Rightarrow> to_int32 \<Rightarrow> motion \<Rightarrow> iteration list \<Rightarrow> slave \<Rightarrow> pp_locals thread_run" where
  "run_profiled_position_mode cabs cs m0 is s = run_mode 1 (pp_iteration cabs cs m0) is (pp_begin s) s"

subsection \<open>Cyclic position\<close>

text \<open>The position is a member of the device, so it outlives the thread.\<close>

record cp_locals =
  cp_min_position :: real
  cp_max_position :: real
  cp_interpolation_period :: real
  cp_offset :: real

definition cp_begin :: "slave \<Rightarrow> cp_locals" where
  "cp_begin s =
    \<lparr>cp_min_position = of_int (div1000 (obj32 0x607D 1 s)), cp_max_position = of_int (div1000 (obj32 0x607D 2 s)),
     cp_interpolation_period = of_int (cast_int U8 (sl_od s (0x60C2, 1))) * pow10 (cast_int I8 (sl_od s (0x60C2, 2))),
     cp_offset = of_int (obj32 0x60B0 0 s) / 1000\<rparr>"

fun cp_move :: "to_int32 \<Rightarrow> tick list \<Rightarrow> real \<Rightarrow> real \<Rightarrow> slave \<Rightarrow> slave option" where
  "cp_move cs [] tgt increment s = (if \<bar>sl_position s - tgt\<bar> > 1 / 1000 then None else Some s)"
| "cp_move cs (t # ts) tgt increment s =
    (if \<bar>sl_position s - tgt\<bar> > 1 / 1000 \<and> tk_ok t
     then (let s1 = tk_others t s; s2 = s1\<lparr>sl_position := sl_position s1 + increment\<rparr>
           in cp_move cs ts tgt increment (put_obj 0x6064 (cs (sl_position s2) * 1000) s2))
     else Some s)"

definition cp_iteration :: "to_int32 \<Rightarrow> iteration \<Rightarrow> cp_locals \<Rightarrow> slave \<Rightarrow> (cp_locals \<times> slave) option" where
  "cp_iteration cs i l s =
    (let tgt = of_int (div1000 (obj32 0x607A 0 s)) - cp_offset l;
         position_delta = tgt - sl_position s;
         speed = position_delta / cp_interpolation_period l;
         increment = control_cycle_period * speed;
         s1 = put_obj 0x606C (cs speed * 1000) s
     in case (if tgt < cp_max_position l \<and> tgt > cp_min_position l \<and> \<bar>position_delta\<bar> > 1 / 1000
              then cp_move cs (it_ticks i) tgt increment s1 else Some s1) of
          None \<Rightarrow> None
        | Some s2 \<Rightarrow> Some (l, it_last i s2))"

definition run_cyclic_position_mode :: "to_int32 \<Rightarrow> iteration list \<Rightarrow> slave \<Rightarrow> cp_locals thread_run" where
  "run_cyclic_position_mode cs is s = run_mode 8 (cp_iteration cs) is (cp_begin s) s"

subsection \<open>Interpolated position\<close>

text \<open>Of the locals only the position lives on from one iteration to the next.\<close>

definition ip_begin :: "slave \<Rightarrow> real" where "ip_begin s = obj_milli 0x6064 s"

fun ip_move :: "to_int32 \<Rightarrow> tick list \<Rightarrow> real \<Rightarrow> real \<Rightarrow> real \<Rightarrow> slave \<Rightarrow> slave option" where
  "ip_move cs [] tgt increment pos s = (if \<bar>pos - tgt\<bar> > 1 / 1000 then None else Some s)"
| "ip_move cs (t # ts) tgt increment pos s =
    (if \<bar>pos - tgt\<bar> > 1 / 1000 \<and> tk_ok t
     then (let s1 = tk_others t s; pos1 = pos + increment
           in ip_move cs ts tgt increment pos1
                (put_obj 0x606C (cs (increment * 1000)) (put_obj 0x6064 (cs (pos1 * 1000)) s1)))
     else Some s)"

definition ip_iteration :: "to_int32 \<Rightarrow> iteration \<Rightarrow> real \<Rightarrow> slave \<Rightarrow> (real \<times> slave) option" where
  "ip_iteration cs i pos s =
    (let s1 = it_others i s;
         tgt = of_int (obj32 0x60C1 1 s1) / 1000 in
     if tgt \<noteq> pos
     then (let s2 = publish_status (clear_status_bit (sw_bit SW_Target_reached)
                      (clear_status_bit (sw_bit SW_Operation_mode_specific0) s1))
           in case ip_move cs (it_ticks i) tgt ((tgt - pos) / 20) pos s2 of
                None \<Rightarrow> None
              | Some s3 \<Rightarrow>
                  Some (tgt, publish_status (set_status_bit (sw_bit SW_Target_reached)
                               (clear_status_bit (sw_bit SW_Operation_mode_specific0) s3))))
     else Some (pos, s1))"

definition run_interpolated_position_mode :: "to_int32 \<Rightarrow> iteration list \<Rightarrow> slave \<Rightarrow> real thread_run" where
  "run_interpolated_position_mode cs is s = run_mode 7 (ip_iteration cs) is (ip_begin s) s"

subsection \<open>Profiled velocity\<close>

definition pv_iteration :: "to_int32 \<Rightarrow> iteration \<Rightarrow> unit \<Rightarrow> slave \<Rightarrow> (unit \<times> slave) option" where
  "pv_iteration cs i l s =
    (let position = obj_milli 0x6064 s; velocity = obj_milli 0x60FF s
     in Some ((), it_last i (put_obj 0x6064 (cs ((position + velocity * (1 / 100)) * 1000))
                    (put_obj 0x606C (cs (velocity * 1000)) s))))"

definition run_profile_velocity_mode :: "to_int32 \<Rightarrow> iteration list \<Rightarrow> slave \<Rightarrow> unit thread_run" where
  "run_profile_velocity_mode cs is s = run_mode 3 (pv_iteration cs) is () s"

subsection \<open>Homing\<close>

text \<open>The test of the start bit as it is: of bit 2, the value of \<open>CW_Operation_mode_specific0\<close> being 4.\<close>

definition start_homing :: "slave \<Rightarrow> bool" where
  "start_homing s \<longleftrightarrow> sl_control s AND word_of_nat (cw_bit CW_Operation_mode_specific0) \<noteq> 0"

definition homing_iteration :: "iteration \<Rightarrow> bool \<Rightarrow> slave \<Rightarrow> (bool \<times> slave) option" where
  "homing_iteration i homed s =
    (if start_homing s \<and> \<not> homed
     then (let s1 = it_others i (publish_status (set_status_bit (sw_bit SW_Manufacturer_specific1) s));
               s2 = set_status_bit (sw_bit SW_Operation_mode_specific0) (set_status_bit (sw_bit SW_Target_reached)
                      (clear_status_bit (sw_bit SW_Manufacturer_specific1) s1));
               s3 = put_obj 0x6041 (uint (sl_status s2)) s2
           in Some (True, put_obj 0x606C 0 (put_obj 0x6064 0 s3)))
     else Some (False, s))"

definition run_homing_mode :: "iteration list \<Rightarrow> slave \<Rightarrow> bool thread_run" where
  "run_homing_mode is s = run_mode 6 homing_iteration is False s"


subsection \<open>Conversions\<close>

lemma to_int32_of_int: "to_int32_law cs \<Longrightarrow> in_type I32 n \<Longrightarrow> cs (of_int n) = n"
  by (simp add: to_int32_law_def trunc_def)

lemma trunc_near:
  assumes "\<bar>r - of_int n\<bar> \<le> 1"
  shows "\<bar>trunc r - n\<bar> \<le> 1"
proof -
  have "of_int (n - 1) \<le> r" "r \<le> of_int (n + 1)" using assms by auto
  then have "n - 1 \<le> \<lfloor>r\<rfloor>" "\<lceil>r\<rceil> \<le> n + 1" by (simp_all only: le_floor_iff ceiling_le_iff)
  with floor_le_ceiling[of r] show ?thesis unfolding trunc_def by (split if_split) linarith
qed

lemma obj32_in_type: "in_type I32 (obj32 idx sub s)"
  by (simp add: obj32_def cast_int_in_type)

lemma put_obj_frame [simp]:
  "sl_od (put_obj idx v s) = (sl_od s)((idx, 0) := v)" "sl_status (put_obj idx v s) = sl_status s"
  "sl_state (put_obj idx v s) = sl_state s" "sl_mode (put_obj idx v s) = sl_mode s"
  "sl_control (put_obj idx v s) = sl_control s" "sl_position (put_obj idx v s) = sl_position s"
  by (simp_all add: put_obj_def)

lemma publish_frame [simp]:
  "sl_od (publish_status s) = (sl_od s)((0x6041, 0) := uint (sl_status s))" "sl_status (publish_status s) = sl_status s"
  "sl_position (publish_status s) = sl_position s"
  by (simp_all add: publish_status_def)

subsection \<open>Profiled position\<close>

text \<open>The generator's next update follows a plan that is not finished.\<close>

definition will_follow :: "real \<Rightarrow> real \<Rightarrow> real \<Rightarrow> motion \<Rightarrow> bool" where
  "will_follow posRef start finish gen \<longleftrightarrow>
     \<not> isFinished gen \<and> (\<exists>k. follows posRef start finish k \<and> \<not> isFinished k \<and>
       (\<forall>now. mg_update abs now posRef gen =
          (calculateTrapezoidalProfile posRef (k\<lparr>deltaTime := now - start\<rparr>))\<lparr>lastTime := now\<rparr>))"

lemma calculate_finished:
  "\<not> isFinished k \<Longrightarrow> isFinished (calculateTrapezoidalProfile posRef (k\<lparr>deltaTime := t\<rparr>)) \<Longrightarrow>
     mg_pos (calculateTrapezoidalProfile posRef (k\<lparr>deltaTime := t\<rparr>)) = posRef \<and>
     mg_vel (calculateTrapezoidalProfile posRef (k\<lparr>deltaTime := t\<rparr>)) = 0"
  by (auto simp: calculateTrapezoidalProfile_def Let_def split: if_splits)

lemma will_follow_update:
  assumes "will_follow posRef start finish gen"
  shows "isFinished (mg_update abs now posRef gen) \<Longrightarrow> mg_pos (mg_update abs now posRef gen) = posRef \<and> mg_vel (mg_update abs now posRef gen) = 0"
    "\<not> isFinished (mg_update abs now posRef gen) \<Longrightarrow> will_follow posRef start finish (mg_update abs now posRef gen)"
    "finish < now \<Longrightarrow> isFinished (mg_update abs now posRef gen)"
proof -
  from assms obtain k where k: "follows posRef start finish k" "\<not> isFinished k"
    and u: "\<And>t. mg_update abs t posRef gen = (calculateTrapezoidalProfile posRef (k\<lparr>deltaTime := t - start\<rparr>))\<lparr>lastTime := t\<rparr>"
    unfolding will_follow_def by blast
  show "isFinished (mg_update abs now posRef gen) \<Longrightarrow> mg_pos (mg_update abs now posRef gen) = posRef \<and> mg_vel (mg_update abs now posRef gen) = 0"
    using calculate_finished[OF k(2), of posRef "now - start"] by (simp add: u)
  show "finish < now \<Longrightarrow> isFinished (mg_update abs now posRef gen)"
    using follows_arrives[OF k(1) _ refl, of now] by (simp add: u getFinished_def)
  assume going: "\<not> isFinished (mg_update abs now posRef gen)"
  have f: "follows posRef start finish (mg_update abs now posRef gen)" unfolding u by (rule follows_calculate[OF k(1)])
  with going follows_update[OF f, of abs] show "will_follow posRef start finish (mg_update abs now posRef gen)"
    unfolding will_follow_def by blast
qed

lemma pp_move_arrives:
  assumes "will_follow (pp_target l) start finish gen" "\<exists>t\<in>set ts. finish < tk_now t"
  shows "\<exists>l1 s1. pp_move abs cs ts gen l s = Some (l1, s1) \<and> pp_actual l1 = pp_target l \<and> pp_target l1 = pp_target l \<and>
    sl_od s1 (0x6064, 0) = cs (pp_target l * 1000) \<and> sl_od s1 (0x606C, 0) = cs 0"
  using assms
proof (induction ts arbitrary: gen l s)
  case (Cons t ts)
  let ?g = "mg_update abs (tk_now t) (pp_target l) gen"
  have going: "\<not> getFinished gen" using Cons.prems(1) by (simp add: will_follow_def getFinished_def)
  let ?l = "l\<lparr>pp_actual := mg_pos ?g, pp_velocity := getVelocity ?g\<rparr>"
  let ?s = "put_obj 0x606C (cs (pp_velocity ?l * 1000)) (put_obj 0x6064 (cs (pp_actual ?l * 1000)) (tk_others t s))"
  have step: "pp_move abs cs (t # ts) gen l s = pp_move abs cs ts ?g ?l ?s"
    using going by (simp add: Let_def)
  show ?case
  proof (cases "isFinished ?g")
    case True
    then have "pp_move abs cs ts ?g ?l ?s = Some (?l, ?s)" by (cases ts) (simp_all add: getFinished_def)
    with will_follow_update(1)[OF Cons.prems(1) True] show ?thesis
      unfolding step by (simp add: getVelocity_def)
  next
    case False
    with Cons.prems(2) will_follow_update(3)[OF Cons.prems(1)] have "\<exists>t\<in>set ts. finish < tk_now t" by auto
    from Cons.IH[of ?l ?g ?s, OF _ this] will_follow_update(2)[OF Cons.prems(1) False] show ?thesis
      unfolding step by simp
  qed
qed simp

lemma plan_going: "\<not> isFinished (plan cabs posRef m)"
proof -
  have "\<not> isFinished (plan_start posRef m)" by (simp add: plan_start_def)
  then have "\<not> isFinished (plan_brake cabs posRef (plan_start posRef m))" by (simp add: plan_brake_def Let_def)
  then have "\<not> isFinished (plan_trapezoid cabs posRef (plan_brake cabs posRef (plan_start posRef m)))"
    by (simp add: plan_trapezoid_def Let_def)
  moreover have "isFinished (plan_triangle cabs posRef n) = isFinished n" for n by (simp add: plan_triangle_def Let_def)
  ultimately show ?thesis by (simp add: plan_def Let_def)
qed

lemma new_will_follow:
  assumes "0 < v" "0 < a" "posRef \<noteq> p"
  shows "\<exists>finish. will_follow posRef now finish (MotionGenerator_new v a p now m0) \<and>
    finish \<le> now + \<bar>posRef - p\<bar> / v + 3 * v / a"
proof -
  let ?g = "MotionGenerator_new v a p now m0"
  have g: "maxVel ?g = v" "maxAcc ?g = a" "mg_vel ?g = 0" "mg_pos ?g = p" "oldPosRef ?g = p" "lastTime ?g = now"
      "\<not> isFinished ?g" "stopping_point ?g = p"
    by (simp_all add: MotionGenerator_new_def mg_init_def mg_reset_def stopping_point_def)
  define k where "k = plan abs posRef ?g"
  have lim: "0 < maxVel ?g" "0 < maxAcc ?g" "\<bar>mg_vel ?g\<bar> \<le> maxVel ?g" "posRef \<noteq> stopping_point ?g" using assms by (simp_all add: g)
  have k: "follows posRef now (now + end3 k) k"
    using plan_shape[OF lim] by (simp add: follows_def k_def plan_keeps g)
  have going: "\<not> isFinished k" unfolding k_def by (rule plan_going)
  have "mg_update abs t posRef ?g = (calculateTrapezoidalProfile posRef (k\<lparr>deltaTime := t - now\<rparr>))\<lparr>lastTime := t\<rparr>" for t
    using assms(3) by (simp add: mg_update_def k_def Let_def plan_keeps g)
  with k going g(7) have "will_follow posRef now (now + end3 k) ?g" unfolding will_follow_def by blast
  moreover have "now + end3 k \<le> now + \<bar>posRef - p\<bar> / v + 3 * v / a" using plan_duration[OF lim] by (simp add: k_def g)
  ultimately show ?thesis by blast
qed



subsection \<open>Interpolated position\<close>

text \<open>\<open>n\<close> increments away from the target.\<close>

lemma ip_move_arrives:
  assumes "to_int32_law cs" "tgt = of_int z / 1000" "in_type I32 (z - 1)" "in_type I32 (z + 1)"
    "pos = tgt - of_nat n * d" "n \<le> length ts" "\<forall>t\<in>set ts. tk_ok t"
  shows "\<exists>s1. ip_move cs ts tgt d pos s = Some s1 \<and>
    (if \<bar>pos - tgt\<bar> \<le> 1 / 1000 then s1 = s else \<bar>sl_od s1 (0x6064, 0) - z\<bar> \<le> 1)"
  using assms(5-7)
proof (induction ts arbitrary: n pos s)
  case Nil
  then show ?case by simp
next
  case (Cons t ts)
  show ?case
  proof (cases "\<bar>pos - tgt\<bar> \<le> 1 / 1000")
    case True
    then show ?thesis by simp
  next
    case False
    with Cons.prems obtain k where n: "n = Suc k" by (cases n) auto
    have p: "pos + d = tgt - of_nat k * d" using Cons.prems(1) by (simp add: n algebra_simps)
    let ?s = "put_obj 0x606C (cs (d * 1000)) (put_obj 0x6064 (cs ((pos + d) * 1000)) (tk_others t s))"
    have step: "ip_move cs (t # ts) tgt d pos s = ip_move cs ts tgt d (pos + d) ?s"
      using False Cons.prems(3) by (simp add: Let_def)
    from Cons.IH[OF p, of ?s] Cons.prems(2,3) n
    obtain s1 where s1: "ip_move cs ts tgt d (pos + d) ?s = Some s1"
      "if \<bar>pos + d - tgt\<bar> \<le> 1 / 1000 then s1 = ?s else \<bar>sl_od s1 (0x6064, 0) - z\<bar> \<le> 1" by auto
    have "\<bar>sl_od s1 (0x6064, 0) - z\<bar> \<le> 1"
    proof (cases "\<bar>pos + d - tgt\<bar> \<le> 1 / 1000")
      case True
      have "(pos + d) * 1000 - of_int z = (pos + d - tgt) * 1000" by (simp add: assms(2) algebra_simps)
      then have "\<bar>(pos + d) * 1000 - of_int z\<bar> \<le> 1" using True by (simp only: abs_mult) simp
      then have near: "\<bar>trunc ((pos + d) * 1000) - z\<bar> \<le> 1" by (rule trunc_near)
      then have "in_type I32 (trunc ((pos + d) * 1000))" using assms(3,4) by (simp add: in_type_def abs_le_iff)
      then have "cs ((pos + d) * 1000) = trunc ((pos + d) * 1000)" using assms(1) by (simp add: to_int32_law_def)
      with s1(2) True near show ?thesis by simp
    next
      case False
      with s1(2) show ?thesis by simp
    qed
    with s1(1) False step show ?thesis by simp
  qed
qed

text \<open>A new target in the mode interpolated position is reported as reached after at most twenty
  increments, with the status word published; the position object is then off by at most one unit, and
  it was not touched at all if the target is one unit away.\<close>

theorem interpolated_position_reached:
  assumes "to_int32_law cs" "z = obj32 0x60C1 1 (it_others i s)" "\<bar>z\<bar> < 2147483647" "of_int z / 1000 \<noteq> pos"
    "20 \<le> length (it_ticks i)" "\<forall>t\<in>set (it_ticks i). tk_ok t"
  shows "\<exists>s1. ip_iteration cs i pos s = Some (of_int z / 1000, s1) \<and>
    bit (sl_status s1) (sw_bit SW_Target_reached) \<and> sl_od s1 (0x6041, 0) = uint (sl_status s1) \<and>
    (if \<bar>of_int z - pos * 1000\<bar> \<le> 1 then sl_od s1 (0x6064, 0) = sl_od (it_others i s) (0x6064, 0)
     else \<bar>sl_od s1 (0x6064, 0) - z\<bar> \<le> 1)"
proof -
  define tgt where "tgt = of_int z / (1000 :: real)"
  define s2 where "s2 = publish_status (clear_status_bit (sw_bit SW_Target_reached)
      (clear_status_bit (sw_bit SW_Operation_mode_specific0) (it_others i s)))"
  have z: "in_type I32 (z - 1)" "in_type I32 (z + 1)" using assms(3) by (simp_all add: in_type_def type_limits abs_less_iff)
  have "pos = tgt - of_nat 20 * ((tgt - pos) / 20)" by (simp add: field_simps)
  from ip_move_arrives[OF assms(1) tgt_def z this assms(5,6), of s2]
  obtain s3 where s3: "ip_move cs (it_ticks i) tgt ((tgt - pos) / 20) pos s2 = Some s3"
    "if \<bar>pos - tgt\<bar> \<le> 1 / 1000 then s3 = s2 else \<bar>sl_od s3 (0x6064, 0) - z\<bar> \<le> 1" by blast
  have "of_int z - pos * 1000 = (tgt - pos) * 1000" by (simp add: tgt_def algebra_simps)
  then have "\<bar>pos - tgt\<bar> \<le> 1 / 1000 \<longleftrightarrow> \<bar>of_int z - pos * 1000\<bar> \<le> 1"
    by (simp only: abs_mult abs_minus_commute[of pos]) simp
  with s3(2) have near: "if \<bar>of_int z - pos * 1000\<bar> \<le> 1 then s3 = s2 else \<bar>sl_od s3 (0x6064, 0) - z\<bar> \<le> 1" by simp
  have "ip_iteration cs i pos s = Some (tgt, publish_status (set_status_bit (sw_bit SW_Target_reached)
      (clear_status_bit (sw_bit SW_Operation_mode_specific0) s3)))"
    using s3(1) assms(4) unfolding ip_iteration_def Let_def assms(2)[symmetric] tgt_def[symmetric] s2_def[symmetric] by simp
  moreover have "sl_od s2 (0x6064, 0) = sl_od (it_others i s) (0x6064, 0)" by (simp add: s2_def)
  ultimately show ?thesis using near by (auto simp: tgt_def bit_set_status)
qed

subsection \<open>Cyclic position\<close>

text \<open>The increments of a move: with the interpolation period \<open>p\<close> each is the share \<open>1 / (100 p)\<close> of the way.
  The thread is the only one that changes the position.\<close>

definition position_kept :: "tick list \<Rightarrow> bool" where
  "position_kept ts \<longleftrightarrow> (\<forall>t\<in>set ts. tk_ok t \<and> (\<forall>s. sl_position (tk_others t s) = sl_position s))"

lemma cp_move_overshoots:
  assumes "2 * \<bar>w\<bar> \<le> \<bar>d\<bar>" "d * w \<ge> 0" "1 / 1000 < \<bar>w\<bar>" "sl_position s = tgt - w + of_nat k * d" "position_kept ts"
  shows "cp_move cs ts tgt d s = None"
  using assms(4,5)
proof (induction ts arbitrary: k s)
  case Nil
  have "\<bar>w\<bar> \<le> \<bar>of_nat k * d - w\<bar>" if "0 < k"
  proof -
    have "1 * \<bar>d\<bar> \<le> of_nat k * \<bar>d\<bar>" using that by (intro mult_right_mono) auto
    then have "\<bar>d\<bar> \<le> \<bar>of_nat k * d\<bar>" by (simp add: abs_mult)
    with assms(1) show ?thesis by linarith
  qed
  then have "\<bar>w\<bar> \<le> \<bar>of_nat k * d - w\<bar>" by (cases "k = 0") auto
  with assms(3) Nil show ?case by simp
next
  case (Cons t ts)
  have "\<bar>w\<bar> \<le> \<bar>of_nat k * d - w\<bar>"
  proof (cases "k = 0")
    case False
    then have "1 * \<bar>d\<bar> \<le> of_nat k * \<bar>d\<bar>" by (intro mult_right_mono) auto
    then have "\<bar>d\<bar> \<le> \<bar>of_nat k * d\<bar>" by (simp add: abs_mult)
    with assms(1) show ?thesis by linarith
  qed simp
  then have far: "\<bar>sl_position s - tgt\<bar> > 1 / 1000" using assms(3) Cons.prems(1) by simp
  let ?s = "put_obj 0x6064 (cs (sl_position (tk_others t s) + d) * 1000)
      ((tk_others t s)\<lparr>sl_position := sl_position (tk_others t s) + d\<rparr>)"
  have keep: "tk_ok t" "sl_position (tk_others t s) = sl_position s" "position_kept ts"
    using Cons.prems(2) by (auto simp: position_kept_def)
  have "cp_move cs ts tgt d ?s = None"
    by (rule Cons.IH[of _ "Suc k"]) (use keep Cons.prems(1) in \<open>auto simp: algebra_simps\<close>)
  with far keep show ?case by (simp add: Let_def)
qed

text \<open>C36: With an interpolation period of at most half a control cycle the thread of the mode cyclic
  synchronous position never comes out of its inner loop: the first increment leads past the target and
  every later one further away, and the loop does not look at the state or the mode of the drive.\<close>

theorem cyclic_position_runs_away:
  assumes "sl_state (it_before i s) = Operation_Enable" "sl_mode (it_before i s) = 8" "it_ok i"
    "l = cp_begin s" "tgt = of_int (div1000 (obj32 0x607A 0 (it_before i s))) - cp_offset l"
    "cp_min_position l < tgt" "tgt < cp_max_position l" "1 / 1000 < \<bar>tgt - sl_position (it_before i s)\<bar>"
    "0 < cp_interpolation_period l" "cp_interpolation_period l \<le> 1 / 200" "position_kept (it_ticks i)"
  shows "run_cyclic_position_mode cs (i # is) s = Inside"
proof -
  define s1 where "s1 = it_before i s"
  define w where "w = tgt - sl_position s1"
  define d where "d = control_cycle_period * (w / cp_interpolation_period l)"
  have d: "d = (1 / (100 * cp_interpolation_period l)) * w" by (simp add: d_def control_cycle_period_def)
  have c: "2 \<le> 1 / (100 * cp_interpolation_period l)" using assms(9,10) by (simp add: field_simps)
  have "\<bar>1 / (100 * cp_interpolation_period l)\<bar> = 1 / (100 * cp_interpolation_period l)" using c by linarith
  then have "2 * \<bar>w\<bar> \<le> \<bar>d\<bar>" unfolding d abs_mult by (simp only: mult_right_mono[OF c abs_ge_zero])
  moreover have "0 \<le> d * w" unfolding d using assms(9) by (simp add: mult.assoc)
  ultimately have "cp_move cs (it_ticks i) tgt d s2 = None" if "sl_position s2 = sl_position s1" for s2
    by (rule cp_move_overshoots[where k = 0]) (use assms(8,11) that in \<open>simp_all add: w_def s1_def\<close>)
  then have "cp_move cs (it_ticks i) tgt d (put_obj 0x606C (cs (w / cp_interpolation_period l) * 1000) s1) = None" by simp
  then have "cp_iteration cs i l s1 = None"
    using assms(6-8) unfolding cp_iteration_def Let_def s1_def[symmetric] assms(5)[folded s1_def, symmetric] w_def[symmetric] d_def[symmetric]
    by simp
  then show ?thesis
    using assms(1-4) by (simp add: run_cyclic_position_mode_def s1_def)
qed

text \<open>With an interpolation period of \<open>n\<close> control cycles the thread arrives.\<close>

lemma cp_move_arrives:
  assumes "sl_position s = tgt - of_nat n * d" "n \<le> length ts" "position_kept ts"
  shows "\<exists>s1. cp_move cs ts tgt d s = Some s1 \<and> \<bar>sl_position s1 - tgt\<bar> \<le> 1 / 1000"
  using assms
proof (induction ts arbitrary: n s)
  case (Cons t ts)
  have keep: "tk_ok t" "sl_position (tk_others t s) = sl_position s" "position_kept ts"
    using Cons.prems(3) by (auto simp: position_kept_def)
  show ?case
  proof (cases "\<bar>sl_position s - tgt\<bar> > 1 / 1000")
    case True
    with Cons.prems(1) obtain k where n: "n = Suc k" by (cases n) auto
    let ?s = "put_obj 0x6064 (cs (sl_position (tk_others t s) + d) * 1000)
        ((tk_others t s)\<lparr>sl_position := sl_position (tk_others t s) + d\<rparr>)"
    have "\<exists>s1. cp_move cs ts tgt d ?s = Some s1 \<and> \<bar>sl_position s1 - tgt\<bar> \<le> 1 / 1000"
      by (rule Cons.IH[of _ k]) (use Cons.prems keep n in \<open>auto simp: algebra_simps\<close>)
    with True keep show ?thesis by (simp add: Let_def)
  qed (simp add: Let_def)
qed auto

theorem cyclic_position_reached:
  assumes "tgt = of_int (div1000 (obj32 0x607A 0 s)) - cp_offset l" "cp_interpolation_period l = of_nat (Suc n) / 100"
    "Suc n \<le> length (it_ticks i)" "position_kept (it_ticks i)" "cp_min_position l < tgt" "tgt < cp_max_position l"
    "it_last i = (\<lambda>s. s)"
  shows "\<exists>s1. cp_iteration cs i l s = Some (l, s1) \<and> \<bar>sl_position s1 - tgt\<bar> \<le> 1 / 1000"
proof (cases "\<bar>tgt - sl_position s\<bar> > 1 / 1000")
  case True
  define d where "d = control_cycle_period * ((tgt - sl_position s) / cp_interpolation_period l)"
  let ?s = "put_obj 0x606C (cs ((tgt - sl_position s) / cp_interpolation_period l) * 1000) s"
  have "sl_position ?s = tgt - of_nat (Suc n) * d"
    unfolding d_def assms(2) control_cycle_period_def by (simp add: field_simps del: of_nat_Suc)
  from cp_move_arrives[OF this assms(3,4), of cs] obtain s1
    where "cp_move cs (it_ticks i) tgt d ?s = Some s1" "\<bar>sl_position s1 - tgt\<bar> \<le> 1 / 1000" by blast
  with True show ?thesis
    using assms(5-7) unfolding cp_iteration_def Let_def assms(1)[symmetric] d_def[symmetric] by simp
next
  case False
  then show ?thesis
    using assms(5-7) by (simp add: cp_iteration_def Let_def assms(1)[symmetric] abs_minus_commute)
qed

subsection \<open>Profiled velocity and homing\<close>

text \<open>A velocity below a hundred units never moves the drive: the way of a cycle is cut off.\<close>

theorem slow_velocity_stands:
  assumes "to_int32_law cs" "0 \<le> obj32 0x6064 0 s" "0 \<le> obj32 0x60FF 0 s" "obj32 0x60FF 0 s < 100"
    "it_last i = (\<lambda>s. s)"
  shows "\<exists>s1. pv_iteration cs i () s = Some ((), s1) \<and> sl_od s1 (0x6064, 0) = obj32 0x6064 0 s"
proof -
  let ?n = "obj32 0x6064 0 s" and ?w = "obj32 0x60FF 0 s"
  have e: "(obj_milli 0x6064 s + obj_milli 0x60FF s * (1 / 100)) * 1000 = of_int ?n + of_int ?w / 100"
    by (simp add: obj_milli_def field_simps)
  have "\<lfloor>of_int ?n + of_int ?w / (100 :: real)\<rfloor> = ?n" using assms(3,4) by (simp add: floor_eq_iff)
  then have "trunc (of_int ?n + of_int ?w / 100) = ?n" using assms(2,3) by (simp add: trunc_def)
  with assms(1) obj32_in_type[of "0x6064" 0 s] have "cs (of_int ?n + of_int ?w / 100) = ?n" by (metis to_int32_law_def)
  then show ?thesis unfolding pv_iteration_def Let_def e assms(5) by simp
qed

lemma start_homing_bit: "start_homing s \<longleftrightarrow> bit (sl_control s) 2"
proof -
  have "(word_of_nat 4 :: u16) = push_bit 2 1" by (simp add: push_bit_eq_mult)
  then have "start_homing s \<longleftrightarrow> sl_control s AND push_bit 2 1 \<noteq> 0" by (simp add: start_homing_def)
  also have "\<dots> \<longleftrightarrow> bit (sl_control s) 2" by (simp add: bit_iff_and_push_bit_not_eq_0)
  finally show ?thesis .
qed

text \<open>The mock drive homes without being asked to: it looks at bit 2 of the control word, which every
  command but the quick stop sets, instead of the start bit 4. So once it is enabled in the homing mode,
  with the start bit clear, it reports a homing attained at position 0.\<close>

theorem homing_without_start:
  assumes "sl_state (it_before i s) = Operation_Enable" "sl_mode (it_before i s) = 6" "it_ok i"
    "bit (sl_control (it_before i s)) (cw_bit CW_Quick_Stop)" "\<not> bit (sl_control (it_before i s)) (cw_bit CW_Operation_mode_specific0)"
  shows "\<exists>s1. run_homing_mode [i] s = Waiting True s1 \<and> sl_od s1 (0x6064, 0) = 0 \<and>
    bit (sl_status s1) (sw_bit SW_Target_reached) \<and> bit (sl_status s1) (sw_bit SW_Operation_mode_specific0) \<and>
    sl_od s1 (0x6041, 0) = uint (sl_status s1)"
  using assms
  by (simp add: run_homing_mode_def Let_def homing_iteration_def start_homing_bit bit_set_status bit_clear_status)


subsection \<open>Witnesses\<close>

text \<open>An enabled device, the conversion that is 0 where the language leaves it open, and scripts in which
  nobody else does anything.\<close>

definition plain_int32 :: to_int32 where
  "plain_int32 r = (if in_type I32 (trunc r) then trunc r else 0)"

lemma plain_int32_law: "to_int32_law plain_int32"
  by (simp add: to_int32_law_def plain_int32_def)

definition enabled_device :: "int \<Rightarrow> u16 \<Rightarrow> (u16 \<times> u8 \<Rightarrow> int) \<Rightarrow> slave" where
  "enabled_device mode cw od =
    \<lparr>sl_state = Operation_Enable, sl_status = 0, sl_control = cw, sl_mode = mode, sl_old_mode = mode, sl_relative = False,
     sl_halt = False, sl_new_set_point = False, sl_threads = {}, sl_od = od, sl_tpdo_events = 0, sl_position = 0\<rparr>"

definition quiet_tick :: "real \<Rightarrow> tick" where
  "quiet_tick now = \<lparr>tk_now = now, tk_others = (\<lambda>s. s), tk_ok = True\<rparr>"

definition quiet :: "tick list \<Rightarrow> iteration" where
  "quiet ts = \<lparr>it_before = (\<lambda>s. s), it_ok = True, it_others = (\<lambda>s. s), it_now = 0, it_ticks = ts, it_last = (\<lambda>s. s)\<rparr>"

lemmas script_defs = enabled_device_def quiet_tick_def quiet_def obj_milli_def obj32_def cast_int_def


lemma interpolated_position_reached_witness:
  "\<exists>s1. ip_iteration plain_int32 (quiet (replicate 20 (quiet_tick 0))) 0
      (enabled_device 7 15 (\<lambda>x. if x = (0x60C1, 1) then 4000 else 0)) = Some (4, s1) \<and> \<bar>sl_od s1 (0x6064, 0) - 4000\<bar> \<le> 1"
proof -
  let ?s = "enabled_device 7 15 (\<lambda>x. if x = (0x60C1, 1) then 4000 else 0)"
  have "obj32 0x60C1 1 ?s = 4000" by (simp add: script_defs signed_take_bit_int_eq_self)
  then show ?thesis
    using interpolated_position_reached[OF plain_int32_law, of 4000 "quiet (replicate 20 (quiet_tick 0))" ?s 0]
    by (auto simp: quiet_def quiet_tick_def)
qed

lemma cyclic_position_runs_away_witness:
  "run_cyclic_position_mode plain_int32 [quiet (replicate 5 (quiet_tick 0))]
    (enabled_device 8 15 (\<lambda>x. if x = (0x607A, 0) then 4000 else if x = (0x607D, 2) then 9000
       else if x = (0x60C2, 1) then 5 else if x = (0x60C2, 2) then - 3 else 0)) = Inside"
proof -
  let ?s = "enabled_device 8 15 (\<lambda>x. if x = (0x607A, 0) then 4000 else if x = (0x607D, 2) then 9000
       else if x = (0x60C2, 1) then 5 else if x = (0x60C2, 2) then - 3 else 0)"
  have o: "obj32 0x607A 0 ?s = 4000" "cp_begin ?s =
      \<lparr>cp_min_position = 0, cp_max_position = 9, cp_interpolation_period = 5 / 1000, cp_offset = 0\<rparr>"
    by (simp_all add: script_defs signed_take_bit_int_eq_self cp_begin_def div1000_def trunc_def pow10_def)
  show ?thesis
    by (rule cyclic_position_runs_away[OF _ _ _ o(2)[symmetric] refl])
      (simp_all add: o quiet_def quiet_tick_def position_kept_def enabled_device_def div1000_def trunc_def o[unfolded enabled_device_def])
qed

lemma homing_without_start_witness:
  "\<exists>s1. run_homing_mode [quiet []] (enabled_device 6 15 (\<lambda>x. 7)) = Waiting True s1 \<and> sl_od s1 (0x6064, 0) = 0"
  using homing_without_start[of "quiet []" "enabled_device 6 15 (\<lambda>x. 7)"]
  by (auto simp: quiet_def enabled_device_def)

end
