(* ===== verification/DeviceNode.thy ===== *)
theory DeviceNode
  imports ProxyDriver MotorBridge
begin

text \<open>
  What the drivers for CiA 401 and CiA 410 devices have in common: a proxy driver that owns a device object,
  created on the bridge when the driver is added to its master and dropped by the executor after
  a deactivation. The device object shares the ownership of the bridge, so it keeps the bridge when the
  driver drops its pointer.
\<close>

subsection \<open>State\<close>

text \<open>\<open>dev_bridge\<close> is the bridge the device object keeps alive when the driver has dropped its pointer.\<close>

record ('r, 'w, 'e) device_owner =
  dev_ptr :: "'r option"
  dev_bridge :: "'w option"
  dev_rest :: 'e

type_synonym ('d, 'n, 'r, 'e) device_node = "('d, 'n, ('r, ('d, 'n) bridge, 'e) device_owner) proxy_node"

definition own :: "('d, 'n, 'r, 'e) device_node \<Rightarrow> ('r, ('d, 'n) bridge, 'e) device_owner" where
  "own d = proxy_rest (ext (derived d))"

definition upd_own ::
  "(('r, ('d, 'n) bridge, 'e) device_owner \<Rightarrow> ('r, ('d, 'n) bridge, 'e) device_owner) \<Rightarrow> ('d, 'n, 'r, 'e) device_node
   \<Rightarrow> ('d, 'n, 'r, 'e) device_node" where
  "upd_own f d = upd_proxy (\<lambda>p. p\<lparr>proxy_rest := f (proxy_rest p)\<rparr>) d"

abbreviation node_x :: "('d, 'n, 'r, 'e) device_node \<Rightarrow> 'e" where
  "node_x d \<equiv> dev_rest (own d)"

definition upd_x :: "('e \<Rightarrow> 'e) \<Rightarrow> ('d, 'n, 'r, 'e) device_node \<Rightarrow> ('d, 'n, 'r, 'e) device_node" where
  "upd_x f d = upd_own (\<lambda>x. x\<lparr>dev_rest := f (dev_rest x)\<rparr>) d"

subsection \<open>The device object of the node\<close>

definition bridge_of_device :: "('d, 'n, 'r, 'e) device_node \<Rightarrow> ('d, 'n) bridge option" where
  "bridge_of_device d = (case lely_driver (derived d) of Some b \<Rightarrow> Some b | None \<Rightarrow> dev_bridge (own d))"

definition put_bridge :: "('d, 'n) bridge option \<Rightarrow> ('d, 'n, 'r, 'e) device_node \<Rightarrow> ('d, 'n, 'r, 'e) device_node" where
  "put_bridge w d =
    (case (lely_driver (derived d), w) of
       (Some b0, Some b) \<Rightarrow> set_bridge b d
     | (None, w) \<Rightarrow> upd_own (\<lambda>x. x\<lparr>dev_bridge := w\<rparr>) d
     | (Some b0, None) \<Rightarrow> d)"

text \<open>An operation of the device object; \<open>None\<close>: there is no device object.\<close>

definition on_device ::
  "('r \<Rightarrow> ('d, 'n) bridge option \<Rightarrow> 'a \<times> ('d, 'n) bridge option) \<Rightarrow> ('d, 'n, 'r, 'e) device_node
   \<Rightarrow> 'a option \<times> ('d, 'n, 'r, 'e) device_node" where
  "on_device f d =
    (case dev_ptr (own d) of
       None \<Rightarrow> (None, d)
     | Some r \<Rightarrow> (case f r (bridge_of_device d) of (a, w) \<Rightarrow> (Some a, put_bridge w d)))"

subsection \<open>Life cycle\<close>

text \<open>\<open>deactivate\<close> lets the executor drop the device object; \<open>drained\<close>: it gets to it.\<close>

definition device_deactivate :: "bool \<Rightarrow> ('d, 'n, 'r, 'e) device_node \<Rightarrow> (('d, 'n, 'r, 'e) device_node, unit) outcome" where
  "device_deactivate drained d =
    bindE (base_deactivate d)
      (\<lambda>u d1. (Inr (), if drained then upd_own (\<lambda>x. x\<lparr>dev_ptr := None, dev_bridge := None\<rparr>) d1 else d1))"

definition device_add_to_master ::
  "('e \<Rightarrow> 'r) \<Rightarrow> 'd dict_ops \<Rightarrow> 'n network \<Rightarrow> ('d, 'n, ('r, ('d, 'n) bridge, 'e) device_owner proxy) base_env
   \<Rightarrow> ('d, 'n, 'r, 'e) device_node \<Rightarrow> (('d, 'n, 'r, 'e) device_node, unit) outcome" where
  "device_add_to_master new_device dops nops env d =
    bindE (base_add_to_master dops nops env d) (\<lambda>u d1.
      (Inr (), upd_own (\<lambda>x. x\<lparr>dev_ptr := Some (new_device (dev_rest x)), dev_bridge := lely_driver (derived d1)\<rparr>) d1))"

text \<open>Dropping the bridge leaves it to the device object.\<close>

definition device_remove_from_master ::
  "('d, 'n, ('r, ('d, 'n) bridge, 'e) device_owner proxy) base_env \<Rightarrow> ('d, 'n, 'r, 'e) device_node
   \<Rightarrow> (('d, 'n, 'r, 'e) device_node, unit) outcome" where
  "device_remove_from_master env d =
    base_remove_from_master env (upd_own (\<lambda>x. x\<lparr>dev_bridge := bridge_of_device d\<rparr>) d)"

text \<open>The virtual functions of such a driver, given what its configuration and its activation add.\<close>

definition device_configure ::
  "(yaml \<Rightarrow> string \<Rightarrow> 'e \<Rightarrow> 'e) \<Rightarrow> ('d, 'n, 'r, 'e) device_node \<Rightarrow> (('d, 'n, 'r, 'e) device_node, unit) outcome" where
  "device_configure configure d =
    bindE (base_configure d) (\<lambda>u d1. (Inr (), upd_x (configure (dn_config d1) (dn_name d1)) d1))"

definition device_activate ::
  "(('d, 'n) bridge option \<Rightarrow> 'e \<Rightarrow> 'e) \<Rightarrow> ('d, 'n, ('r, ('d, 'n) bridge, 'e) device_owner proxy) base_env
   \<Rightarrow> ('d, 'n, 'r, 'e) device_node \<Rightarrow> (('d, 'n, 'r, 'e) device_node, unit) outcome" where
  "device_activate note_missing env d =
    bindE (base_activate env d) (\<lambda>u d1. (Inr (), upd_x (note_missing (lely_driver (derived d1))) d1))"

definition device_hooks ::
  "(yaml \<Rightarrow> string \<Rightarrow> 'e \<Rightarrow> 'e) \<Rightarrow> (('d, 'n) bridge option \<Rightarrow> 'e \<Rightarrow> 'e) \<Rightarrow> ('e \<Rightarrow> 'r)
   \<Rightarrow> 'd dict_ops \<Rightarrow> 'n network \<Rightarrow> ('d, 'n, ('r, ('d, 'n) bridge, 'e) device_owner proxy) base_env \<Rightarrow> bool
   \<Rightarrow> ('d, 'n, ('r, ('d, 'n) bridge, 'e) device_owner proxy) base_driver driver_hooks" where
  "device_hooks configure note_missing new_device dops nops env drained =
    (base_hooks dops nops env)\<lparr>h_init := proxy_init, h_configure := device_configure configure,
       h_activate := device_activate note_missing env, h_deactivate := device_deactivate drained,
       add_to_master := device_add_to_master new_device dops nops env,
       remove_from_master := device_remove_from_master env\<rparr>"

subsection \<open>The contract of the base driver\<close>

lemma upd_own_simps [simp]:
  "own (upd_own f d) = f (own d)" "lely_driver (derived (upd_own f d)) = lely_driver (derived d)"
  "same_flags d (upd_own f d)" "activated (upd_own f d) = activated d"
  by (simp_all add: upd_own_def own_def)

lemma upd_x_simps [simp]:
  "own (upd_x f d) = (own d)\<lparr>dev_rest := f (dev_rest (own d))\<rparr>" "lely_driver (derived (upd_x f d)) = lely_driver (derived d)"
  "same_flags d (upd_x f d)" "activated (upd_x f d) = activated d"
  by (simp_all add: upd_x_def)

lemma set_bridge_own [simp]: "own (set_bridge b d) = own d"
  by (simp add: set_bridge_def own_def)

lemma set_bridge_frame: "activated (set_bridge b d) = activated d" "same_flags d (set_bridge b d)"
  by (simp_all add: set_bridge_def)

lemma device_flags_then: "same_flags d d' \<Longrightarrow> same_flags d (upd_own f d')" "same_flags d d' \<Longrightarrow> same_flags d (upd_x g d')"
  by (rule same_flags_trans[OF _ upd_own_simps(3)] same_flags_trans[OF _ upd_x_simps(3)], assumption)+

lemma device_bridge_simps [simp]:
  "dev_ptr (own (put_bridge w d)) = dev_ptr (own d)" "dev_rest (own (put_bridge w d)) = dev_rest (own d)"
  "activated (put_bridge w d) = activated d" "same_flags d (put_bridge w d)"
  by (auto simp: put_bridge_def set_bridge_frame split: option.split)

lemma device_contract:
  fixes env :: "('d, 'n, ('r, ('d, 'n) bridge, 'e) device_owner proxy) base_env"
  shows "driver_contract (device_hooks configure note_missing new_device dops nops env drained)"
proof -
  note base = base_contract[of dops nops env, unfolded driver_contract_def]
  have "same_flags d (snd (proxy_init d))" for d :: "('d, 'n, 'r, 'e) device_node"
    by (simp add: proxy_init_def)
  moreover have "same_flags d (snd (device_configure configure d))" for d :: "('d, 'n, 'r, 'e) device_node"
  proof -
    have "same_flags d (snd (base_configure d))"
      by (simp add: base_configure_def Let_def same_flags_def)
    then show ?thesis
      unfolding device_configure_def by (rule same_flags_bind) (simp add: device_flags_then)
  qed
  moreover have "same_flags d (snd (device_activate note_missing env d))" for d :: "('d, 'n, 'r, 'e) device_node"
    unfolding device_activate_def
    using base by (intro same_flags_bind) (auto simp: base_hooks_def device_flags_then, metis prod.collapse)
  moreover have "same_flags d (snd (device_deactivate drained d))" for d :: "('d, 'n, 'r, 'e) device_node"
  proof -
    have "same_flags d (snd (base_deactivate d))" by (auto simp: base_deactivate_def Let_def)
    then show ?thesis
      unfolding device_deactivate_def by (rule same_flags_bind) (simp add: device_flags_then)
  qed
  moreover have "same_flags d (snd (device_add_to_master new_device dops nops env d))" for d
    unfolding device_add_to_master_def
    using base by (intro same_flags_bind) (auto simp: base_hooks_def device_flags_then, metis prod.collapse)
  moreover have "same_flags d (snd (device_remove_from_master env d))" for d
  proof -
    have "same_flags x (snd (base_remove_from_master env x))" for x
      by (auto simp: base_remove_from_master_def Let_def split: posted.split)
    then show ?thesis
      unfolding device_remove_from_master_def by (rule same_flags_trans[OF upd_own_simps(3)])
  qed
  ultimately show ?thesis
    using base
    unfolding device_hooks_def driver_contract_def by (simp add: base_hooks_def outcome_flags_iff)
qed

interpretation dv: driver_env "table_lib doc" "device_hooks configure note_missing new_device dops nops env drained"
  for doc configure note_missing new_device dops nops env drained
  by (intro driver_env.intro tl.client_library_axioms device_contract)

subsection \<open>The device object after a bring-up\<close>

text \<open>A node that was added to its master has a device object made from its configuration, on the bridge of
  the driver.\<close>

lemma base_add_frame:
  assumes "base_add_to_master dops nops env d = (Inr (), d')"
  shows "ext (derived d') = ext (derived d)" "lely_driver (derived d') \<noteq> None"
  using assms by (auto simp: base_add_to_master_def Let_def set_bridge_def split: posted.splits prod.splits if_splits)

lemma added_device:
  assumes "device_add_to_master new_device dops nops env d = (Inr (), d')"
  shows "dev_ptr (own d') = Some (new_device (node_x d))" "bridge_of_device d' = lely_driver (derived d')"
    "node_x d' = node_x d" "bridge_of_device d' \<noteq> None"
proof -
  obtain d0 where d0: "base_add_to_master dops nops env d = (Inr (), d0)"
    "d' = upd_own (\<lambda>x. x\<lparr>dev_ptr := Some (new_device (dev_rest x)), dev_bridge := lely_driver (derived d0)\<rparr>) d0"
    using assms by (auto simp: device_add_to_master_def bindE_Inr_iff)
  have "own d0 = own d" by (simp add: own_def base_add_frame(1)[OF d0(1)])
  then show "dev_ptr (own d') = Some (new_device (node_x d))" "node_x d' = node_x d" by (simp_all add: d0(2))
  show b: "bridge_of_device d' = lely_driver (derived d')" by (simp add: d0(2) bridge_of_device_def split: option.split)
  show "bridge_of_device d' \<noteq> None" unfolding b using base_add_frame(2)[OF d0(1)] by (simp add: d0(2))
qed

end
