(* ===== verification/M880Remote.thy ===== *)
theory M880Remote
  imports Modes402
begin

text \<open>
  The device part of the CiA 401 driver (\<open>canopen_401_driver\<close>, \<open>m880_remote.hpp\<close>): proportional axes,
  buttons, single bits and digital outputs of a radio remote, on the bus the driver bridge offers. The
  pointer to the bridge is an option; a \<open>float\<close> is an exact real.
\<close>

subsection \<open>Data\<close>

record Cia401RegisterMap =
  digital_input_index :: u16
  digital_output_index :: u16
  analog_index :: u16
  command_index :: u16

definition Cia401RegisterMap_default :: Cia401RegisterMap where
  "Cia401RegisterMap_default =
    \<lparr>digital_input_index = 0x6000, digital_output_index = 0x6200, analog_index = 0x2021, command_index = 0x2020\<rparr>"

record AxisSpec =
  ax_sub :: u8
  ax_center :: u8
  ax_deadband :: u8
  ax_invert :: bool

definition AxisSpec_default :: AxisSpec where
  "AxisSpec_default = \<lparr>ax_sub = 1, ax_center = 0x80, ax_deadband = 0, ax_invert = False\<rparr>"

record BitSpec =
  bs_index :: u16
  bs_sub :: u8
  bs_bit :: u8
  bs_active_low :: bool

definition BitSpec_default :: BitSpec where
  "BitSpec_default = \<lparr>bs_index = 0x6000, bs_sub = 1, bs_bit = 0, bs_active_low = False\<rparr>"

record m880 =
  registers :: Cia401RegisterMap
  axes :: "AxisSpec list"
  buttons :: "BitSpec list"
  polled_digital_subs :: "u8 list"

subsection \<open>Operations\<close>

definition read_u8 :: "'w bus \<Rightarrow> u16 \<Rightarrow> u8 \<Rightarrow> 'w option \<Rightarrow> u8 \<times> 'w option" where
  "read_u8 bus index sub drv =
    (case drv of
       None \<Rightarrow> (0, drv)
     | Some w \<Rightarrow>
         if index = 0 then (0, drv)
         else if \<not> has_object bus index sub w then (0, drv)
         else (case uget bus U8 index sub w of (v, w1) \<Rightarrow> (word_of_int v, Some w1)))"

definition normalize_axis :: "u8 \<Rightarrow> AxisSpec \<Rightarrow> real" where
  "normalize_axis raw axis =
    (let center = uint (ax_center axis); delta = uint raw - center in
     if \<bar>delta\<bar> \<le> uint (ax_deadband axis) then 0
     else (let span = (if delta > 0 then 255 - center else center) in
           if span \<le> 0 then 0
           else (let normalized = max (- 1) (min 1 (of_int delta / of_int span))
                 in if ax_invert axis then - normalized else normalized)))"

fun read_axes :: "'w bus \<Rightarrow> u16 \<Rightarrow> AxisSpec list \<Rightarrow> 'w option \<Rightarrow> real list \<times> 'w option" where
  "read_axes bus index [] drv = ([], drv)"
| "read_axes bus index (axis # as) drv =
    (let (b, drv1) = read_u8 bus index (ax_sub axis) drv; (vs, drv2) = read_axes bus index as drv1
     in (normalize_axis b axis # vs, drv2))"

definition read_bit :: "'w bus \<Rightarrow> BitSpec \<Rightarrow> 'w option \<Rightarrow> bool \<times> 'w option" where
  "read_bit bus spec drv =
    (if drv = None \<or> bs_index spec = 0 then (False, drv)
     else (let (b, drv1) = read_u8 bus (bs_index spec) (bs_sub spec) drv;
               raw = (drop_bit (unat (bs_bit spec AND 7)) b AND 1 \<noteq> 0)
           in (if bs_active_low spec then \<not> raw else raw, drv1)))"

fun read_specs :: "'w bus \<Rightarrow> BitSpec list \<Rightarrow> 'w option \<Rightarrow> int list \<times> 'w option" where
  "read_specs bus [] drv = ([], drv)"
| "read_specs bus (spec # specs) drv =
    (let (v, drv1) = read_bit bus spec drv; (vs, drv2) = read_specs bus specs drv1
     in ((if v then 1 else 0) # vs, drv2))"

fun read_polled :: "'w bus \<Rightarrow> u16 \<Rightarrow> u8 list \<Rightarrow> 'w option \<Rightarrow> int list \<times> 'w option" where
  "read_polled bus index [] drv = ([], drv)"
| "read_polled bus index (sub # subs) drv =
    (let (b, drv1) = read_u8 bus index sub drv; (vs, drv2) = read_polled bus index subs drv1
     in (map (\<lambda>k. uint (drop_bit k b AND 1)) [0..<8] @ vs, drv2))"

definition read_buttons :: "'w bus \<Rightarrow> m880 \<Rightarrow> 'w option \<Rightarrow> int list \<times> 'w option" where
  "read_buttons bus m drv =
    (if buttons m \<noteq> [] then read_specs bus (buttons m) drv
     else read_polled bus (digital_input_index (registers m)) (polled_digital_subs m) drv)"

definition write_output_byte :: "'w bus \<Rightarrow> u8 \<Rightarrow> u8 \<Rightarrow> m880 \<Rightarrow> 'w option \<Rightarrow> bool \<times> 'w option" where
  "write_output_byte bus sub v m drv =
    (case drv of
       None \<Rightarrow> (False, drv)
     | Some w \<Rightarrow>
         if digital_output_index (registers m) = 0 then (False, drv)
         else (case uset bus U8 (digital_output_index (registers m)) sub (uint v) w of
                 (Inr u, w1) \<Rightarrow> (True, Some w1) | (Inl e, w1) \<Rightarrow> (False, Some w1)))"

definition axis_count :: "m880 \<Rightarrow> nat" where "axis_count m = length (axes m)"

definition button_count :: "m880 \<Rightarrow> nat" where
  "button_count m = (if buttons m = [] then length (polled_digital_subs m) * 8 else length (buttons m))"

subsection \<open>Counts\<close>

lemma read_specs_length: "length (fst (read_specs bus specs drv)) = length specs"
  by (induction specs arbitrary: drv) (simp_all add: split_beta)

lemma read_polled_length: "length (fst (read_polled bus index subs drv)) = length subs * 8"
  by (induction subs arbitrary: drv) (simp_all add: split_beta)

lemma read_axes_length: "length (fst (read_axes bus index as drv)) = length as"
  by (induction as arbitrary: drv) (simp_all add: split_beta)

lemma read_buttons_count: "length (fst (read_buttons bus m drv)) = button_count m"
  by (simp add: read_buttons_def button_count_def read_specs_length read_polled_length)

text \<open>On a bus whose reads do not disturb each other the bits are those of the bytes read.\<close>

definition stable_bytes :: "'w bus \<Rightarrow> (u16 \<Rightarrow> u8 \<Rightarrow> u8) \<Rightarrow> 'w option \<Rightarrow> bool" where
  "stable_bytes bus byte drv \<longleftrightarrow>
    (\<forall>index sub. fst (read_u8 bus index sub drv) = byte index sub \<and> snd (read_u8 bus index sub drv) = drv)"

lemma read_polled_bits:
  assumes "stable_bytes bus byte drv" "n < length subs" "k < 8"
  shows "fst (read_polled bus index subs drv) ! (n * 8 + k) = of_bool (bit (byte index (subs ! n)) k)"
  using assms(2)
proof (induction subs arbitrary: n)
  case (Cons sub subs)
  have r: "read_u8 bus index sub drv = (byte index sub, drv)"
    using assms(1) by (metis prod.collapse stable_bytes_def)
  have low: "uint (drop_bit j b AND 1) = of_bool (bit b j)" for b :: u8 and j
    by (simp add: and_one_eq mod2_eq_if bit_iff_odd_drop_bit)
  show ?case
  proof (cases n)
    case 0
    then show ?thesis using assms(3) by (simp add: r split_beta nth_append low)
  next
    case (Suc j)
    then show ?thesis using Cons by (simp add: r split_beta nth_append)
  qed
qed simp

lemma read_bit_value:
  assumes "stable_bytes bus byte drv" "drv \<noteq> None" "bs_index spec \<noteq> 0"
  shows "read_bit bus spec drv =
    (bit (byte (bs_index spec) (bs_sub spec)) (unat (bs_bit spec AND 7)) \<noteq> bs_active_low spec, drv)"
proof -
  have r: "read_u8 bus (bs_index spec) (bs_sub spec) drv = (byte (bs_index spec) (bs_sub spec), drv)"
    using assms(1) by (metis prod.collapse stable_bytes_def)
  have low: "drop_bit j b AND 1 \<noteq> 0 \<longleftrightarrow> bit b j" for b :: u8 and j
    by (simp add: and_one_eq mod2_eq_if bit_iff_odd_drop_bit)
  have "(drv = None) = False" using assms(2) by simp
  then show ?thesis by (simp del: not_None_eq add: read_bit_def r low Let_def assms(3))
qed

subsection \<open>Axes\<close>

lemma fraction_range: "0 \<le> (x :: int) \<Longrightarrow> x \<le> n \<Longrightarrow> 0 \<le> of_int x / (of_int n :: real) \<and> of_int x / (of_int n :: real) \<le> 1"
  by (cases "n = 0") (simp_all add: divide_le_eq_1)

lemma fraction_neg_range: "- n \<le> (x :: int) \<Longrightarrow> x \<le> 0 \<Longrightarrow> - 1 \<le> of_int x / (of_int n :: real) \<and> of_int x / (of_int n :: real) \<le> 0"
  using fraction_range[of "- x" n] by simp

lemma normalize_sides:
  assumes "\<bar>uint raw - uint (ax_center axis)\<bar> > uint (ax_deadband axis)"
  shows "uint raw > uint (ax_center axis) \<Longrightarrow> normalize_axis raw (axis\<lparr>ax_invert := False\<rparr>) =
      of_int (uint raw - uint (ax_center axis)) / of_int (255 - uint (ax_center axis))"
    "uint raw < uint (ax_center axis) \<Longrightarrow> normalize_axis raw (axis\<lparr>ax_invert := False\<rparr>) =
      of_int (uint raw - uint (ax_center axis)) / of_int (uint (ax_center axis))"
proof -
  have r: "0 \<le> uint raw" "uint raw \<le> 255" using uint_lt2p[of raw] by simp_all
  let ?c = "uint (ax_center axis)"
  show "normalize_axis raw (axis\<lparr>ax_invert := False\<rparr>) = of_int (uint raw - ?c) / of_int (255 - ?c)" if g: "uint raw > ?c"
  proof -
    have "0 \<le> of_int (uint raw - ?c) / (of_int (255 - ?c) :: real) \<and> of_int (uint raw - ?c) / (of_int (255 - ?c) :: real) \<le> 1"
      by (rule fraction_range) (use r g in linarith)+
    then have "max (- 1) (min 1 (of_int (uint raw - ?c) / (of_int (255 - ?c) :: real))) = of_int (uint raw - ?c) / of_int (255 - ?c)"
      by linarith
    with g assms r show ?thesis by (simp add: normalize_axis_def Let_def del: of_int_diff)
  qed
  show "normalize_axis raw (axis\<lparr>ax_invert := False\<rparr>) = of_int (uint raw - ?c) / of_int ?c" if g: "uint raw < ?c"
  proof -
    have "- 1 \<le> of_int (uint raw - ?c) / (of_int ?c :: real) \<and> of_int (uint raw - ?c) / (of_int ?c :: real) \<le> 0"
      by (rule fraction_neg_range) (use r g in linarith)+
    then have "max (- 1) (min 1 (of_int (uint raw - ?c) / (of_int ?c :: real))) = of_int (uint raw - ?c) / of_int ?c"
      by linarith
    note range = this
    define c where "c = uint (ax_center axis)"
    define x where "x = uint raw"
    have "0 < c" "x < c" "\<bar>x - c\<bar> > uint (ax_deadband axis)" using g r assms unfolding c_def x_def by linarith+
    with range[folded c_def x_def] show ?thesis
      by (simp add: normalize_axis_def Let_def c_def[symmetric] x_def[symmetric] del: of_int_diff)
  qed
qed

lemma normalize_rest: "\<bar>uint raw - uint (ax_center axis)\<bar> \<le> uint (ax_deadband axis) \<Longrightarrow> normalize_axis raw axis = 0"
  by (simp add: normalize_axis_def Let_def)

lemma normalize_range: "\<bar>normalize_axis raw axis\<bar> \<le> 1"
  by (simp add: normalize_axis_def Let_def abs_le_iff)

lemma normalize_invert: "normalize_axis raw (axis\<lparr>ax_invert := True\<rparr>) = - normalize_axis raw (axis\<lparr>ax_invert := False\<rparr>)"
  by (simp add: normalize_axis_def Let_def)

lemma normalize_mono:
  assumes "uint raw \<le> uint raw'"
  shows "normalize_axis raw (axis\<lparr>ax_invert := False\<rparr>) \<le> normalize_axis raw' (axis\<lparr>ax_invert := False\<rparr>)"
proof -
  let ?c = "uint (ax_center axis)" and ?d = "uint (ax_deadband axis)"
  let ?n = "\<lambda>r. normalize_axis r (axis\<lparr>ax_invert := False\<rparr>)"
  have d: "0 \<le> ?d" by simp
  have r: "uint x \<le> 255" "0 \<le> uint x" for x :: u8 using uint_lt2p[of x] by simp_all
  have rest: "?n x = 0" if "\<bar>uint x - ?c\<bar> \<le> ?d" for x using that by (simp add: normalize_rest)
  have up: "0 \<le> ?n x" if "?c < uint x" for x
  proof (cases "\<bar>uint x - ?c\<bar> \<le> ?d")
    case False
    then have "?n x = of_int (uint x - ?c) / of_int (255 - ?c)" using normalize_sides(1)[of axis x] that by simp
    moreover have "0 \<le> of_int (uint x - ?c) / (of_int (255 - ?c) :: real)"
      by (rule fraction_range[THEN conjunct1]) (use r[of x] that in linarith)+
    ultimately show ?thesis by (simp only:)
  qed (simp add: rest)
  have down: "?n x \<le> 0" if "uint x < ?c" for x
  proof (cases "\<bar>uint x - ?c\<bar> \<le> ?d")
    case False
    then have "?n x = of_int (uint x - ?c) / of_int ?c" using normalize_sides(2)[of axis x] that by simp
    moreover have "of_int (uint x - ?c) / (of_int ?c :: real) \<le> 0"
      by (rule fraction_neg_range[THEN conjunct2]) (use r[of x] that in linarith)+
    ultimately show ?thesis by (simp only:)
  qed (simp add: rest)
  have mid: "?n x = 0" if "uint x = ?c" for x using that d by (simp add: rest)
  consider "uint raw \<le> ?c" "?c \<le> uint raw'" | "?c < uint raw" | "uint raw' < ?c" by linarith
  then show ?thesis
  proof cases
    case 1
    then have "?n raw \<le> 0" "0 \<le> ?n raw'" using down[of raw] up[of raw'] mid[of raw] mid[of raw'] by linarith+
    then show ?thesis by linarith
  next
    case 2
    show ?thesis
    proof (cases "\<bar>uint raw - ?c\<bar> \<le> ?d")
      case True
      then show ?thesis using up[of raw'] 2 assms by (simp add: rest)
    next
      case False
      then have far: "\<bar>uint raw' - ?c\<bar> > ?d" using 2 assms by linarith
      have "?n raw = of_int (uint raw - ?c) / of_int (255 - ?c)" "?n raw' = of_int (uint raw' - ?c) / of_int (255 - ?c)"
        using normalize_sides(1)[OF far] normalize_sides(1)[of axis raw] False 2 assms by auto
      moreover have "of_int (uint raw - ?c) / of_int (255 - ?c) \<le> (of_int (uint raw' - ?c) / of_int (255 - ?c) :: real)"
      proof (rule divide_right_mono)
        show "of_int (uint raw - ?c) \<le> (of_int (uint raw' - ?c) :: real)"
          unfolding of_int_le_iff using assms by linarith
        show "(0 :: real) \<le> of_int (255 - ?c)" unfolding of_int_0_le_iff using 2 r[of raw] by linarith
      qed
      ultimately show ?thesis by (simp only:)
    qed
  next
    case 3
    show ?thesis
    proof (cases "\<bar>uint raw' - ?c\<bar> \<le> ?d")
      case True
      then show ?thesis using down[of raw] 3 assms by (simp add: rest)
    next
      case False
      then have far: "\<bar>uint raw - ?c\<bar> > ?d" using 3 assms by linarith
      have "?n raw = of_int (uint raw - ?c) / of_int ?c" "?n raw' = of_int (uint raw' - ?c) / of_int ?c"
        using normalize_sides(2)[OF far] normalize_sides(2)[of axis raw'] False 3 assms by auto
      moreover have "of_int (uint raw - ?c) / of_int ?c \<le> (of_int (uint raw' - ?c) / of_int ?c :: real)"
      proof (rule divide_right_mono)
        show "of_int (uint raw - ?c) \<le> (of_int (uint raw' - ?c) :: real)"
          unfolding of_int_le_iff using assms by linarith
        show "(0 :: real) \<le> of_int ?c" unfolding of_int_0_le_iff by simp
      qed
      ultimately show ?thesis by (simp only:)
    qed
  qed
qed

text \<open>C37: Whatever rest position, deadband and polarity an axis has, its value is within -1 and 1, 0 at
  rest, follows the stick in one direction, and reaches 1 and -1 at the ends of the raw range
  wherever the deadband leaves room for it.\<close>

theorem axis_normalised:
  shows "\<bar>normalize_axis raw axis\<bar> \<le> 1 \<and> normalize_axis (ax_center axis) axis = 0 \<and>
    (uint raw \<le> uint raw' \<longrightarrow>
       (if ax_invert axis then normalize_axis raw' axis \<le> normalize_axis raw axis else normalize_axis raw axis \<le> normalize_axis raw' axis)) \<and>
    (uint (ax_deadband axis) < 255 - uint (ax_center axis) \<longrightarrow> normalize_axis 255 axis = (if ax_invert axis then - 1 else 1)) \<and>
    (uint (ax_deadband axis) < uint (ax_center axis) \<longrightarrow> normalize_axis 0 axis = (if ax_invert axis then 1 else - 1))"
proof -
  have pol: "normalize_axis r axis = (if ax_invert axis then - normalize_axis r (axis\<lparr>ax_invert := False\<rparr>) else normalize_axis r (axis\<lparr>ax_invert := False\<rparr>))" for r
    by (simp add: normalize_axis_def Let_def)
  have "normalize_axis 255 (axis\<lparr>ax_invert := False\<rparr>) = 1" if "uint (ax_deadband axis) < 255 - uint (ax_center axis)"
  proof -
    have "0 \<le> uint (ax_deadband axis)" by simp
    with that have "uint (ax_center axis) < 255" by linarith
    then have "normalize_axis 255 (axis\<lparr>ax_invert := False\<rparr>) = of_int (255 - uint (ax_center axis)) / of_int (255 - uint (ax_center axis))"
      using normalize_sides(1)[of axis 255] that by (simp del: of_int_diff)
    with \<open>uint (ax_center axis) < 255\<close> show ?thesis by (simp only: divide_self_if of_int_eq_0_iff) simp
  qed
  moreover have "normalize_axis 0 (axis\<lparr>ax_invert := False\<rparr>) = - 1" if "uint (ax_deadband axis) < uint (ax_center axis)"
  proof -
    have "0 \<le> uint (ax_deadband axis)" by simp
    with that have "0 < uint (ax_center axis)" by linarith
    then have "normalize_axis 0 (axis\<lparr>ax_invert := False\<rparr>) = of_int (0 - uint (ax_center axis)) / of_int (uint (ax_center axis))"
      using normalize_sides(2)[of axis 0] that by (simp del: of_int_diff)
    also have "\<dots> = - (of_int (uint (ax_center axis)) / of_int (uint (ax_center axis)))" by simp
    finally show ?thesis using \<open>0 < uint (ax_center axis)\<close> by (simp only: divide_self_if of_int_eq_0_iff) simp
  qed
  moreover have "normalize_axis (ax_center axis) axis = 0" by (simp add: normalize_rest)
  ultimately show ?thesis
    using normalize_range[of raw axis] normalize_mono[of raw raw' axis] by (auto simp: pol)
qed

theorem axis_normalised_witness:
  "normalize_axis 255 AxisSpec_default = 1 \<and> normalize_axis 0 AxisSpec_default = - 1"
  using axis_normalised[of 0 AxisSpec_default 1] by (simp add: AxisSpec_default_def)

end
