(* ===== verification/Driver401.thy ===== *)
theory Driver401
  imports DeviceNode M880Remote
begin

text \<open>
  The CiA 401 driver (\<open>canopen_401_driver\<close>, \<open>node_canopen_401_driver.hpp\<close> and its implementation): a proxy
  driver with one radio remote. It publishes the axes and buttons of the remote and, when one is configured,
  its stop bit from its poll timer, and writes the digital outputs a topic asks for.
\<close>

subsection \<open>State\<close>

record driver401 =
  frame_id :: string
  joy_topic :: string
  estop_topic :: string
  digital_output_topic :: string
  register_map :: Cia401RegisterMap
  axes_cfg :: "AxisSpec list"
  buttons_cfg :: "BitSpec list"
  polled_cfg :: "u8 list"
  estop_spec :: BitSpec
  estop_configured :: bool
  joy_publisher :: bool
  estop_publisher :: bool
  output_subscription :: bool
  joy_messages :: "(real list \<times> int list) list"
  estop_messages :: "bool list"
  missing_objects :: "(u16 \<times> u8) list"

type_synonym ('d, 'n) d401_node = "('d, 'n, m880, driver401) device_node"

definition NodeCanopen401Driver_new :: driver401 where
  "NodeCanopen401Driver_new =
    \<lparr>frame_id = ''m880_remote'', joy_topic = ''~/joy'', estop_topic = ''~/estop_not_safety_rated'',
     digital_output_topic = ''~/digital_outputs'', register_map = Cia401RegisterMap_default, axes_cfg = [],
     buttons_cfg = [], polled_cfg = [], estop_spec = BitSpec_default, estop_configured = False,
     joy_publisher = False, estop_publisher = False, output_subscription = False, joy_messages = [],
     estop_messages = [], missing_objects = []\<rparr>"

definition kDefaultPolledDigitalSubs :: "u8 list" where
  "kDefaultPolledDigitalSubs =
    [0x01, 0x02, 0x03, 0x04, 0x05, 0x06, 0x07, 0x08, 0x09, 0x0A, 0x0B, 0x0C, 0x0D, 0x0E, 0x0F, 0x11]"

definition kDefaultAxisCount :: nat where "kDefaultAxisCount = 16"

subsection \<open>Configuration\<close>

text \<open>\<open>static_cast\<close> of an \<open>int\<close> entry, or the old value when there is none.\<close>

definition pick :: "yaml \<Rightarrow> string list \<Rightarrow> 'a::len word \<Rightarrow> 'a word" where
  "pick doc path old = (case as_int doc path of None \<Rightarrow> old | Some v \<Rightarrow> word_of_int v)"

definition parse_bit_spec :: "yaml \<Rightarrow> string list \<Rightarrow> BitSpec \<Rightarrow> bool \<times> BitSpec" where
  "parse_bit_spec doc path out =
    (if \<not> is_map doc path then (False, out)
     else (True, \<lparr>bs_index = pick doc (path @ [''index'']) (bs_index out), bs_sub = pick doc (path @ [''sub'']) (bs_sub out),
                  bs_bit = pick doc (path @ [''bit'']) (bs_bit out),
                  bs_active_low = or_default (as_bool doc (path @ [''active_low''])) (bs_active_low out)\<rparr>))"

definition read_register_map :: "yaml \<Rightarrow> Cia401RegisterMap \<Rightarrow> Cia401RegisterMap" where
  "read_register_map doc rm =
    (if is_map doc [''register_map'']
     then \<lparr>digital_input_index = pick doc [''register_map'', ''digital_input_index''] (digital_input_index rm),
           digital_output_index = pick doc [''register_map'', ''digital_output_index''] (digital_output_index rm),
           analog_index = pick doc [''register_map'', ''analog_index''] (analog_index rm),
           command_index = pick doc [''register_map'', ''command_index''] (command_index rm)\<rparr>
     else rm)"

text \<open>The entries of a sequence; one that is no \<open>int\<close> drops them all.\<close>

definition read_subs :: "yaml \<Rightarrow> u8 list" where
  "read_subs doc =
    (case seq_size doc [''polled_digital_subs''] of
       None \<Rightarrow> []
     | Some n \<Rightarrow>
         (let entries = map (\<lambda>i. as_int doc [''polled_digital_subs'', show_nat i]) [0..<n]
          in if None \<in> set entries then [] else map (\<lambda>e. word_of_int (the e)) entries))"

definition polled_subs :: "yaml \<Rightarrow> u8 list" where
  "polled_subs doc = (if read_subs doc = [] then kDefaultPolledDigitalSubs else read_subs doc)"

text \<open>An axis without a channel is skipped.\<close>

definition read_axis :: "yaml \<Rightarrow> string list \<Rightarrow> AxisSpec option" where
  "read_axis doc path =
    (case as_int doc (path @ [''channel'']) of
       None \<Rightarrow> None
     | Some c \<Rightarrow> Some
         \<lparr>ax_sub = word_of_int c, ax_center = pick doc (path @ [''center'']) (ax_center AxisSpec_default),
          ax_deadband = pick doc (path @ [''deadband'']) (ax_deadband AxisSpec_default),
          ax_invert = or_default (as_bool doc (path @ [''invert''])) (ax_invert AxisSpec_default)\<rparr>)"

definition read_axis_list :: "yaml \<Rightarrow> AxisSpec list" where
  "read_axis_list doc =
    (case seq_size doc [''axes''] of
       None \<Rightarrow> [] | Some n \<Rightarrow> List.map_filter (\<lambda>i. read_axis doc [''axes'', show_nat i]) [0..<n])"

definition configured_axes :: "yaml \<Rightarrow> AxisSpec list" where
  "configured_axes doc =
    (if read_axis_list doc = []
     then map (\<lambda>c. AxisSpec_default\<lparr>ax_sub := word_of_nat c\<rparr>) [1..<Suc kDefaultAxisCount]
     else read_axis_list doc)"

definition configured_buttons :: "yaml \<Rightarrow> u16 \<Rightarrow> BitSpec list" where
  "configured_buttons doc input =
    (case seq_size doc [''buttons''] of
       None \<Rightarrow> []
     | Some n \<Rightarrow> List.map_filter
         (\<lambda>i. let (ok, spec) = parse_bit_spec doc [''buttons'', show_nat i] (BitSpec_default\<lparr>bs_index := input\<rparr>)
              in if ok then Some spec else None) [0..<n])"

definition configure401 :: "yaml \<Rightarrow> string \<Rightarrow> driver401 \<Rightarrow> driver401" where
  "configure401 doc node x =
    (let name = (\<lambda>key old. or_default (as_string doc [key]) old);
         rm = read_register_map doc (register_map x);
         (stop, spec) = parse_bit_spec doc [''estop'']
           ((estop_spec x)\<lparr>bs_index := command_index rm, bs_sub := 0x13, bs_active_low := True\<rparr>) in
     x\<lparr>frame_id := name ''frame_id'' (frame_id x), joy_topic := name ''joy_topic'' (joy_topic x),
       estop_topic := name ''estop_topic'' (estop_topic x),
       digital_output_topic := name ''digital_output_topic'' (digital_output_topic x),
       register_map := rm, polled_cfg := polled_subs doc, axes_cfg := configured_axes doc,
       buttons_cfg := configured_buttons doc (digital_input_index rm), estop_spec := spec, estop_configured := stop,
       joy_publisher := True, estop_publisher := stop \<or> estop_publisher x, output_subscription := True\<rparr>)"

definition d401_configure :: "('d, 'n) d401_node \<Rightarrow> (('d, 'n) d401_node, unit) outcome" where
  "d401_configure d = device_configure configure401 d"

subsection \<open>Life cycle\<close>

definition d401_init :: "('d, 'n) d401_node \<Rightarrow> (('d, 'n) d401_node, unit) outcome" where
  "d401_init d = proxy_init d"

text \<open>The warnings of \<open>activate\<close>, as the objects they name.\<close>

definition note_missing :: "'d dict_ops \<Rightarrow> ('d, 'n) bridge option \<Rightarrow> driver401 \<Rightarrow> driver401" where
  "note_missing dops drv x =
    (case drv of
       None \<Rightarrow> x
     | Some b \<Rightarrow>
         (let inputs = map (Pair (digital_input_index (register_map x))) (polled_cfg x);
              analogs = map (\<lambda>a. (analog_index (register_map x), ax_sub a)) (axes_cfg x)
          in x\<lparr>missing_objects := missing_objects x @ filter (\<lambda>(i, s). \<not> bridge_has_object dops i s b) (inputs @ analogs)\<rparr>))"

definition d401_activate ::
  "'d dict_ops \<Rightarrow> ('d, 'n, (m880, ('d, 'n) bridge, driver401) device_owner proxy) base_env \<Rightarrow> ('d, 'n) d401_node
   \<Rightarrow> (('d, 'n) d401_node, unit) outcome" where
  "d401_activate dops env d = device_activate (note_missing dops) env d"

definition d401_deactivate :: "bool \<Rightarrow> ('d, 'n) d401_node \<Rightarrow> (('d, 'n) d401_node, unit) outcome" where
  "d401_deactivate drained d = device_deactivate drained d"

text \<open>The remote copies the configuration at the time of \<open>add_to_master\<close>.\<close>

definition M880Remote_new :: "driver401 \<Rightarrow> m880" where
  "M880Remote_new x =
    \<lparr>registers = register_map x, axes = axes_cfg x, buttons = buttons_cfg x, polled_digital_subs = polled_cfg x\<rparr>"

definition d401_add_to_master ::
  "'d dict_ops \<Rightarrow> 'n network \<Rightarrow> ('d, 'n, (m880, ('d, 'n) bridge, driver401) device_owner proxy) base_env
   \<Rightarrow> ('d, 'n) d401_node \<Rightarrow> (('d, 'n) d401_node, unit) outcome" where
  "d401_add_to_master dops nops env d = device_add_to_master M880Remote_new dops nops env d"

definition d401_hooks ::
  "'d dict_ops \<Rightarrow> 'n network \<Rightarrow> ('d, 'n, (m880, ('d, 'n) bridge, driver401) device_owner proxy) base_env \<Rightarrow> bool
   \<Rightarrow> ('d, 'n, (m880, ('d, 'n) bridge, driver401) device_owner proxy) base_driver driver_hooks" where
  "d401_hooks dops nops env drained =
    (base_hooks dops nops env)\<lparr>h_init := d401_init, h_configure := d401_configure,
       h_activate := d401_activate dops env, h_deactivate := d401_deactivate drained,
       add_to_master := d401_add_to_master dops nops env,
       remove_from_master := device_remove_from_master env\<rparr>"

lemma d401_contract: "driver_contract (d401_hooks dops nops env drained)"
proof -
  have "d401_hooks dops nops env drained = device_hooks configure401 (note_missing dops) M880Remote_new dops nops env drained"
    unfolding d401_hooks_def device_hooks_def
    by (simp add: fun_eq_iff d401_init_def d401_configure_def d401_activate_def d401_deactivate_def d401_add_to_master_def
        flip: eq_reflection)
  then show ?thesis by (simp add: device_contract)
qed

interpretation d1: driver_env "table_lib doc" "d401_hooks dops nops env drained" for doc dops nops env drained
  by (intro driver_env.intro tl.client_library_axioms d401_contract)

subsection \<open>Publishing\<close>

definition publish_joy :: "('d, 'n) bridge bus \<Rightarrow> ('d, 'n) d401_node \<Rightarrow> ('d, 'n) d401_node" where
  "publish_joy bus d =
    (case on_device (\<lambda>m drv. let (as, drv1) = read_axes bus (analog_index (registers m)) (axes m) drv;
                                 (bs, drv2) = read_buttons bus m drv1 in ((as, bs), drv2)) d of
       (None, d1) \<Rightarrow> d1
     | (Some msg, d1) \<Rightarrow> upd_x (\<lambda>x. x\<lparr>joy_messages := joy_messages x @ [msg]\<rparr>) d1)"

definition publish_estop :: "('d, 'n) bridge bus \<Rightarrow> ('d, 'n) d401_node \<Rightarrow> ('d, 'n) d401_node" where
  "publish_estop bus d =
    (if estop_configured (node_x d) \<and> estop_publisher (node_x d)
     then (case on_device (\<lambda>m. read_bit bus (estop_spec (node_x d))) d of
             (None, d1) \<Rightarrow> d1
           | (Some v, d1) \<Rightarrow> upd_x (\<lambda>x. x\<lparr>estop_messages := estop_messages x @ [v]\<rparr>) d1)
     else d)"

definition publish401 :: "('d, 'n) bridge bus \<Rightarrow> ('d, 'n) d401_node \<Rightarrow> ('d, 'n) d401_node" where
  "publish401 bus d = (if dev_ptr (own d) = None then d else publish_estop bus (publish_joy bus d))"

definition d401_poll :: "('d, 'n) bridge bus \<Rightarrow> ('d, 'n) d401_node \<Rightarrow> ('d, 'n) d401_node option" where
  "d401_poll bus d = map_option (publish401 bus) (poll_timer_callback proxy_virtuals d)"

subsection \<open>Outputs and direct access\<close>

fun write_outputs :: "'w bus \<Rightarrow> nat \<Rightarrow> u8 list \<Rightarrow> m880 \<Rightarrow> 'w option \<Rightarrow> unit \<times> 'w option" where
  "write_outputs bus i [] m drv = ((), drv)"
| "write_outputs bus i (v # vs) m drv =
    write_outputs bus (Suc i) vs m (snd (write_output_byte bus (word_of_nat (i + 1)) v m drv))"

definition on_digital_output :: "('d, 'n) bridge bus \<Rightarrow> u8 list \<Rightarrow> ('d, 'n) d401_node \<Rightarrow> ('d, 'n) d401_node" where
  "on_digital_output bus data d = snd (on_device (write_outputs bus 0 data) d)"

definition get_axes :: "('d, 'n) bridge bus \<Rightarrow> ('d, 'n) d401_node \<Rightarrow> real list \<times> ('d, 'n) d401_node" where
  "get_axes bus d =
    (case on_device (\<lambda>m. read_axes bus (analog_index (registers m)) (axes m)) d of
       (None, d1) \<Rightarrow> ([], d1) | (Some vs, d1) \<Rightarrow> (vs, d1))"

definition get_buttons :: "('d, 'n) bridge bus \<Rightarrow> ('d, 'n) d401_node \<Rightarrow> int list \<times> ('d, 'n) d401_node" where
  "get_buttons bus d =
    (case on_device (read_buttons bus) d of (None, d1) \<Rightarrow> ([], d1) | (Some vs, d1) \<Rightarrow> (vs, d1))"

definition get_estop :: "('d, 'n) bridge bus \<Rightarrow> ('d, 'n) d401_node \<Rightarrow> bool \<times> ('d, 'n) d401_node" where
  "get_estop bus d =
    (if dev_ptr (own d) \<noteq> None \<and> estop_configured (node_x d)
     then (case on_device (\<lambda>m. read_bit bus (estop_spec (node_x d))) d of (r, d1) \<Rightarrow> (r = Some True, d1))
     else (False, d))"

definition set_digital_output_byte :: "('d, 'n) bridge bus \<Rightarrow> u8 \<Rightarrow> u8 \<Rightarrow> ('d, 'n) d401_node \<Rightarrow> bool \<times> ('d, 'n) d401_node" where
  "set_digital_output_byte bus sub v d =
    (case on_device (write_output_byte bus sub v) d of (r, d1) \<Rightarrow> (r = Some True, d1))"


subsection \<open>Configurations\<close>

lemma configured_nonempty: "configured_axes doc \<noteq> []" "polled_subs doc \<noteq> []"
  by (auto simp: configured_axes_def polled_subs_def kDefaultPolledDigitalSubs_def kDefaultAxisCount_def)

lemma configured_values:
  assumes "d401_configure d = (Inr (), d1)"
  shows "axes_cfg (node_x d1) = configured_axes (dn_config d)" "polled_cfg (node_x d1) = polled_subs (dn_config d)"
    "estop_configured (node_x d1) = is_map (dn_config d) [''estop'']"
    "estop_configured (node_x d1) \<Longrightarrow> estop_publisher (node_x d1)"
    "estop_spec (node_x d1) = snd (parse_bit_spec (dn_config d) [''estop'']
      ((estop_spec (node_x d))\<lparr>bs_index := command_index (read_register_map (dn_config d) (register_map (node_x d))),
         bs_sub := 0x13, bs_active_low := True\<rparr>))"
proof -
  obtain d0 where d0: "base_configure d = (Inr (), d0)" "d1 = upd_x (configure401 (dn_config d0) (dn_name d0)) d0"
    using assms by (auto simp: d401_configure_def device_configure_def bindE_Inr_iff)
  have keep: "dn_config d0 = dn_config d" "node_x d0 = node_x d"
    using d0(1) by (auto simp: base_configure_def Let_def own_def configure_base_def)
  show "axes_cfg (node_x d1) = configured_axes (dn_config d)" "polled_cfg (node_x d1) = polled_subs (dn_config d)"
    "estop_configured (node_x d1) = is_map (dn_config d) [''estop'']"
    "estop_configured (node_x d1) \<Longrightarrow> estop_publisher (node_x d1)"
    "estop_spec (node_x d1) = snd (parse_bit_spec (dn_config d) [''estop'']
      ((estop_spec (node_x d))\<lparr>bs_index := command_index (read_register_map (dn_config d) (register_map (node_x d))),
         bs_sub := 0x13, bs_active_low := True\<rparr>))"
    by (simp_all add: d0(2) configure401_def keep Let_def split_beta parse_bit_spec_def)
qed

text \<open>Whatever a stop map holds, the driver takes it for a stop bit: fields that are missing or of another
  type leave the defaults, bit 0 of sub-index 0x13 of the commands, active low.\<close>

theorem malformed_stop_map:
  assumes "d401_configure d = (Inr (), d1)" "is_map (dn_config d) [''estop'']"
    "\<And>k. as_int (dn_config d) [''estop'', k] = None" "as_bool (dn_config d) [''estop'', ''active_low''] = None"
  shows "estop_configured (node_x d1) \<and> bs_sub (estop_spec (node_x d1)) = 0x13 \<and> bs_active_low (estop_spec (node_x d1))"
  using assms(2-4) by (simp add: configured_values[OF assms(1)] parse_bit_spec_def pick_def or_default_def)

subsection \<open>Publications\<close>

lemma on_device_stable:
  assumes "dev_ptr (own d) = Some m" "f m (bridge_of_device d) = (r, bridge_of_device d)"
  shows "\<exists>d1. on_device f d = (Some r, d1) \<and> dev_ptr (own d1) = Some m \<and> node_x d1 = node_x d \<and>
    bridge_of_device d1 = bridge_of_device d"
proof -
  have "bridge_of_device (put_bridge (bridge_of_device d) d) = bridge_of_device d"
    by (auto simp: bridge_of_device_def put_bridge_def set_bridge_def upd_own_def own_def split: option.split)
  with assms show ?thesis by (simp add: on_device_def)
qed

lemma stable_reads:
  assumes "stable_bytes bus byte drv"
  shows "snd (read_axes bus index as drv) = drv" "snd (read_polled bus index' subs drv) = drv" "snd (read_bit bus spec drv) = drv"
    "snd (read_specs bus specs drv) = drv" "snd (read_buttons bus m drv) = drv"
proof -
  have r: "snd (read_u8 bus i s drv) = drv" for i s using assms by (simp add: stable_bytes_def)
  show "snd (read_axes bus index as drv) = drv" by (induction as) (simp_all add: split_beta r)
  show p: "snd (read_polled bus index' subs drv) = drv" for index' subs by (induction subs) (simp_all add: split_beta r)
  show b: "snd (read_bit bus spec drv) = drv" for spec by (simp add: read_bit_def Let_def split_beta r)
  show sp: "snd (read_specs bus specs drv) = drv" for specs by (induction specs) (simp_all add: split_beta b)
  show "snd (read_buttons bus m drv) = drv" by (simp add: read_buttons_def p sp)
qed

lemma upd_x_bridge: "bridge_of_device (upd_x f d) = bridge_of_device d"
  by (simp add: bridge_of_device_def split: option.split)

lemma publish_joy_result:
  assumes "dev_ptr (own d) = Some m" "stable_bytes bus byte (bridge_of_device d)"
  shows "\<exists>msg. joy_messages (node_x (publish_joy bus d)) = joy_messages (node_x d) @ [msg] \<and>
      length (fst msg) = axis_count m \<and> length (snd msg) = button_count m \<and>
      (\<forall>v\<in>set (fst msg). \<bar>v\<bar> \<le> 1)"
    "dev_ptr (own (publish_joy bus d)) = Some m" "bridge_of_device (publish_joy bus d) = bridge_of_device d"
    "estop_messages (node_x (publish_joy bus d)) = estop_messages (node_x d)"
    "estop_configured (node_x (publish_joy bus d)) = estop_configured (node_x d)"
    "estop_publisher (node_x (publish_joy bus d)) = estop_publisher (node_x d)"
    "estop_spec (node_x (publish_joy bus d)) = estop_spec (node_x d)"
proof -
  let ?w = "bridge_of_device d"
  let ?as = "fst (read_axes bus (analog_index (registers m)) (axes m) ?w)" and ?bs = "fst (read_buttons bus m ?w)"
  let ?f = "\<lambda>m drv. let (as, drv1) = read_axes bus (analog_index (registers m)) (axes m) drv;
                          (bs, drv2) = read_buttons bus m drv1 in ((as, bs), drv2)"
  have "?f m ?w = ((?as, ?bs), ?w)" using stable_reads[OF assms(2)] by (simp add: split_beta)
  from on_device_stable[OF assms(1), of ?f, OF this]
  obtain d1 where d1: "on_device ?f d = (Some (?as, ?bs), d1)" "dev_ptr (own d1) = Some m" "node_x d1 = node_x d"
    "bridge_of_device d1 = ?w" by blast
  then have p: "publish_joy bus d = upd_x (\<lambda>x. x\<lparr>joy_messages := joy_messages x @ [(?as, ?bs)]\<rparr>) d1"
    by (simp add: publish_joy_def)
  have range: "\<bar>v\<bar> \<le> 1" if "v \<in> set (fst (read_axes bus i as drv))" for v i as drv
    using that by (induction as arbitrary: drv) (auto simp: split_beta normalize_range)
  show "\<exists>msg. joy_messages (node_x (publish_joy bus d)) = joy_messages (node_x d) @ [msg] \<and>
      length (fst msg) = axis_count m \<and> length (snd msg) = button_count m \<and> (\<forall>v\<in>set (fst msg). \<bar>v\<bar> \<le> 1)"
    using range by (intro exI[of _ "(?as, ?bs)"]) (simp add: p d1(3) read_axes_length read_buttons_count axis_count_def)
  show "dev_ptr (own (publish_joy bus d)) = Some m" "bridge_of_device (publish_joy bus d) = ?w"
    "estop_messages (node_x (publish_joy bus d)) = estop_messages (node_x d)"
    "estop_configured (node_x (publish_joy bus d)) = estop_configured (node_x d)"
    "estop_publisher (node_x (publish_joy bus d)) = estop_publisher (node_x d)"
    "estop_spec (node_x (publish_joy bus d)) = estop_spec (node_x d)"
    by (simp_all add: p d1 upd_x_bridge)
qed



text \<open>A driver whose configuration has a stop map with nothing in it, on a device without objects.\<close>

definition stop_doc :: yaml where
  "stop_doc = empty_yaml\<lparr>is_map := (\<lambda>p. p = [''estop''])\<rparr>"

definition instant_env :: "(u16 \<times> u8 \<rightharpoonup> co_type \<times> int, device_memory, 'e) base_env" where
  "instant_env = prompt_env\<lparr>env_add := \<lambda>d. In_time, env_ready := \<lambda>d. True\<rparr>"

definition remote_node :: "(u16 \<times> u8 \<rightharpoonup> co_type \<times> int, device_memory) d401_node" where
  "remote_node =
    (fresh_node (base_x \<lparr>nmt_topic = [], rpdo_topic = [], interface = True, proxy_rest =
         \<lparr>dev_ptr = None, dev_bridge = None, dev_rest = NodeCanopen401Driver_new\<rparr>\<rparr>))\<lparr>dn_config := stop_doc\<rparr>"

definition added_remote :: "(u16 \<times> u8 \<rightharpoonup> co_type \<times> int, device_memory) d401_node" where
  "added_remote = snd (d401_add_to_master table_ops device_net instant_env (snd (d401_configure remote_node)))"

definition silent_bus :: "'w bus" where
  "silent_bus = \<lparr>uget = \<lambda>t i s w. (0, w), uset = \<lambda>t i s v w. (Inr (), w), has_object = \<lambda>i s w. False\<rparr>"


end
