(* ===== verification/Inclinometer410.thy ===== *)
theory Inclinometer410
  imports Modes402 Rounding
begin

text \<open>
  The device part of the CiA 410 driver (\<open>canopen_410_driver\<close>, \<open>inclinometer.hpp\<close>): the slopes of an
  inclinometer in radians, its presets and its offsets. Reads go through the bus the driver bridge offers;
  the blocking SDO write \<open>async_sdo_write_typed(...).get()\<close> is a parameter.
\<close>

subsection \<open>Data\<close>

record Cia410RegisterMap =
  slope_long_index :: u16
  slope_long_bits :: u8
  slope_lateral_index :: u16
  slope_lateral_bits :: u8
  slope_long_preset_index :: u16
  slope_lateral_preset_index :: u16
  slope_long_offset_index :: u16
  slope_lateral_offset_index :: u16
  preset_bits :: u8
  offset_bits :: u8

definition Cia410RegisterMap_default :: Cia410RegisterMap where
  "Cia410RegisterMap_default =
    \<lparr>slope_long_index = 0x6010, slope_long_bits = 32, slope_lateral_index = 0x6110, slope_lateral_bits = 32,
     slope_long_preset_index = 0x6030, slope_lateral_preset_index = 0x6130, slope_long_offset_index = 0x6040,
     slope_lateral_offset_index = 0x6140, preset_bits = 32, offset_bits = 32\<rparr>"

record inclinometer =
  incl_registers :: Cia410RegisterMap
  deg_per_lsb :: double

type_synonym 'w sdo_write = "int_type \<Rightarrow> u16 \<Rightarrow> u8 \<Rightarrow> int \<Rightarrow> 'w \<Rightarrow> ((exn + bool) \<times> 'w) option"

subsection \<open>Operations\<close>

definition DEG_TO_RAD :: real where "DEG_TO_RAD = pi / 180"
definition RAD_TO_DEG :: real where "RAD_TO_DEG = 180 / pi"

text \<open>The quotient of doubles, for a divisor that is not zero.\<close>

definition d_div :: "double \<Rightarrow> double \<Rightarrow> double" where
  "d_div a b =
    (case b of
       NaN \<Rightarrow> NaN
     | PInf \<Rightarrow> (case a of Fin r \<Rightarrow> Fin 0 | _ \<Rightarrow> NaN)
     | NInf \<Rightarrow> (case a of Fin r \<Rightarrow> Fin 0 | _ \<Rightarrow> NaN)
     | Fin y \<Rightarrow> d_mul a (Fin (1 / y)))"

definition slope_rad :: "int \<Rightarrow> inclinometer \<Rightarrow> double" where
  "slope_rad raw m = d_mul (d_mul (Fin (of_int raw)) (deg_per_lsb m)) (Fin DEG_TO_RAD)"

definition read_slope_rad :: "'w bus \<Rightarrow> u16 \<Rightarrow> u8 \<Rightarrow> inclinometer \<Rightarrow> 'w option \<Rightarrow> double \<times> 'w option" where
  "read_slope_rad bus index bits m drv =
    (case drv of
       None \<Rightarrow> (Fin 0, drv)
     | Some w \<Rightarrow>
         if index = 0 then (Fin 0, drv)
         else if \<not> has_object bus index 0 w then (Fin 0, drv)
         else (case uget bus (if bits = 16 then I16 else I32) index 0 w of (raw, w1) \<Rightarrow> (slope_rad raw m, Some w1)))"

definition radians_to_raw :: "(double \<Rightarrow> int) \<Rightarrow> double \<Rightarrow> inclinometer \<Rightarrow> int" where
  "radians_to_raw lround radians m =
    (if \<not> double_neq (deg_per_lsb m) (Fin 0) then 0
     else cast_int I32 (lround (d_div (d_mul radians (Fin RAD_TO_DEG)) (deg_per_lsb m))))"

definition write_preset_or_offset ::
  "'w sdo_write \<Rightarrow> u16 \<Rightarrow> int \<Rightarrow> u8 \<Rightarrow> 'w option \<Rightarrow> (bool \<times> 'w option) option" where
  "write_preset_or_offset sdo_write index raw bits drv =
    (case drv of
       None \<Rightarrow> Some (False, drv)
     | Some w \<Rightarrow>
         if index = 0 then Some (False, drv)
         else (case (if bits = 16 then sdo_write I16 index 0 (cast_int I16 raw) w else sdo_write I32 index 0 raw w) of
                 None \<Rightarrow> None
               | Some (Inl e, w1) \<Rightarrow> Some (False, Some w1)
               | Some (Inr r, w1) \<Rightarrow> Some (r, Some w1)))"

definition get_long_rad :: "'w bus \<Rightarrow> inclinometer \<Rightarrow> 'w option \<Rightarrow> double \<times> 'w option" where
  "get_long_rad bus m = read_slope_rad bus (slope_long_index (incl_registers m)) (slope_long_bits (incl_registers m)) m"

definition get_lateral_rad :: "'w bus \<Rightarrow> inclinometer \<Rightarrow> 'w option \<Rightarrow> double \<times> 'w option" where
  "get_lateral_rad bus m =
    read_slope_rad bus (slope_lateral_index (incl_registers m)) (slope_lateral_bits (incl_registers m)) m"

definition has_lateral_axis :: "'w bus \<Rightarrow> inclinometer \<Rightarrow> 'w option \<Rightarrow> bool" where
  "has_lateral_axis bus m drv =
    (case drv of None \<Rightarrow> False | Some w \<Rightarrow> has_object bus (slope_lateral_index (incl_registers m)) 0 w)"

definition zero_long :: "'w sdo_write \<Rightarrow> inclinometer \<Rightarrow> 'w option \<Rightarrow> (bool \<times> 'w option) option" where
  "zero_long sdo_write m =
    write_preset_or_offset sdo_write (slope_long_preset_index (incl_registers m)) 0 (preset_bits (incl_registers m))"

definition zero_lateral :: "'w sdo_write \<Rightarrow> inclinometer \<Rightarrow> 'w option \<Rightarrow> (bool \<times> 'w option) option" where
  "zero_lateral sdo_write m =
    write_preset_or_offset sdo_write (slope_lateral_preset_index (incl_registers m)) 0 (preset_bits (incl_registers m))"

definition set_long_offset_rad ::
  "'w sdo_write \<Rightarrow> (double \<Rightarrow> int) \<Rightarrow> double \<Rightarrow> inclinometer \<Rightarrow> 'w option \<Rightarrow> (bool \<times> 'w option) option" where
  "set_long_offset_rad sdo_write lround radians m =
    write_preset_or_offset sdo_write (slope_long_offset_index (incl_registers m)) (radians_to_raw lround radians m)
      (offset_bits (incl_registers m))"

definition set_lateral_offset_rad ::
  "'w sdo_write \<Rightarrow> (double \<Rightarrow> int) \<Rightarrow> double \<Rightarrow> inclinometer \<Rightarrow> 'w option \<Rightarrow> (bool \<times> 'w option) option" where
  "set_lateral_offset_rad sdo_write lround radians m =
    write_preset_or_offset sdo_write (slope_lateral_offset_index (incl_registers m)) (radians_to_raw lround radians m)
      (offset_bits (incl_registers m))"

subsection \<open>Angles\<close>

lemma radians_to_raw_eq:
  assumes "lround_law lround" "deg_per_lsb m = Fin g" "g \<noteq> 0" "\<bar>x * RAD_TO_DEG / g\<bar> \<le> 2147483647"
  shows "radians_to_raw lround (Fin x) m = round_half_away (x * RAD_TO_DEG / g)"
proof -
  let ?r = "round_half_away (x * RAD_TO_DEG / g)"
  have b: "- 2147483647 \<le> ?r" "?r \<le> 2147483647"
    using round_half_away_abs[of "x * RAD_TO_DEG / g" 2147483647] assms(4) by simp_all
  have "lround (Fin (x * RAD_TO_DEG / g)) = ?r"
    using assms(1) b by (simp add: lround_law_def)
  moreover have "cast_int I32 ?r = ?r"
    using b by (intro cast_int_id) (simp add: in_type_def type_limits)
  ultimately show ?thesis
    using assms(3) by (simp add: radians_to_raw_def assms(2) d_div_def)
qed

lemma rounded_angle:
  assumes "g > 0"
  shows "\<bar>of_int (round_half_away (x * RAD_TO_DEG / g)) * g * DEG_TO_RAD - x\<bar> \<le> g * DEG_TO_RAD / 2"
proof -
  let ?y = "x * RAD_TO_DEG / g"
  have unit: "RAD_TO_DEG * DEG_TO_RAD = 1" by (simp add: RAD_TO_DEG_def DEG_TO_RAD_def)
  have "?y * g * DEG_TO_RAD = x * (RAD_TO_DEG * DEG_TO_RAD)" using assms by simp
  then have "?y * (g * DEG_TO_RAD) = x" unfolding unit by (simp only: mult.assoc mult_1_right)
  then have "of_int (round_half_away ?y) * g * DEG_TO_RAD - x = (of_int (round_half_away ?y) - ?y) * (g * DEG_TO_RAD)"
    by (simp only: left_diff_distrib mult.assoc)
  moreover have pos: "0 < g * DEG_TO_RAD" using assms by (simp add: DEG_TO_RAD_def)
  ultimately have "\<bar>of_int (round_half_away ?y) * g * DEG_TO_RAD - x\<bar> = \<bar>of_int (round_half_away ?y) - ?y\<bar> * (g * DEG_TO_RAD)"
    by (simp only: abs_mult[of _ "g * DEG_TO_RAD"] abs_of_pos)
  also have "\<dots> \<le> 1 / 2 * (g * DEG_TO_RAD)"
    using round_half_away_near[of ?y] pos by (intro mult_right_mono) auto
  finally show ?thesis by simp
qed

text \<open>The number an offset is written as, by the width of the object.\<close>

definition written_number :: "(double \<Rightarrow> int) \<Rightarrow> double \<Rightarrow> inclinometer \<Rightarrow> int" where
  "written_number lround radians m =
    (if offset_bits (incl_registers m) = 16 then cast_int I16 (radians_to_raw lround radians m)
     else radians_to_raw lround radians m)"

text \<open>C39: An offset that fits the object is written as the nearest number of the device: the driver asks for one
  write of that number, in the width configured, and the number taken as a slope is the requested angle up
  to half a step.\<close>

theorem offset_roundtrip:
  assumes "lround_law lround" "deg_per_lsb m = Fin g" "0 < g"
    "\<bar>x * RAD_TO_DEG / g\<bar> \<le> (if offset_bits (incl_registers m) = 16 then 32767 else 2147483647)"
    "slope_long_offset_index (incl_registers m) = index" "index \<noteq> 0"
    "sdo_write (if offset_bits (incl_registers m) = 16 then I16 else I32) index 0 n w = Some (Inr ok, w1)"
    "n = written_number lround (Fin x) m"
  shows "set_long_offset_rad sdo_write lround (Fin x) m (Some w) = Some (ok, Some w1) \<and>
    (\<exists>v. slope_rad n m = Fin v \<and> \<bar>v - x\<bar> \<le> g * DEG_TO_RAD / 2)"
proof -
  let ?r = "round_half_away (x * RAD_TO_DEG / g)"
  have "\<bar>x * RAD_TO_DEG / g\<bar> \<le> 2147483647" using assms(4) by (auto split: if_splits)
  from radians_to_raw_eq[OF assms(1,2) _ this] assms(3)
  have raw: "radians_to_raw lround (Fin x) m = ?r" by simp
  have "cast_int I16 ?r = ?r" if "offset_bits (incl_registers m) = 16"
  proof -
    have "- 32767 \<le> ?r \<and> ?r \<le> 32767"
      using round_half_away_abs[of "x * RAD_TO_DEG / g" 32767] assms(4) that by simp
    then show ?thesis by (intro cast_int_id) (simp add: in_type_def type_limits)
  qed
  then have n: "n = ?r" by (simp add: assms(8) written_number_def raw)
  have "set_long_offset_rad sdo_write lround (Fin x) m (Some w) = Some (ok, Some w1)"
    using assms(6-8) by (auto simp: set_long_offset_rad_def write_preset_or_offset_def assms(5) written_number_def)
  then show ?thesis
    using rounded_angle[OF assms(3), of x] by (simp add: n slope_rad_def assms(2))
qed

theorem offset_roundtrip_witness:
  "set_long_offset_rad (\<lambda>t i s v w. Some (Inr True, v)) plain_lround (Fin (DEG_TO_RAD * 5))
     \<lparr>incl_registers = Cia410RegisterMap_default, deg_per_lsb = Fin (1 / 100)\<rparr> (Some 0) = Some (True, Some (500 :: int))"
proof -
  let ?m = "\<lparr>incl_registers = Cia410RegisterMap_default, deg_per_lsb = Fin (1 / 100)\<rparr>"
  have e: "DEG_TO_RAD * 5 * RAD_TO_DEG / (1 / 100) = 500" by (simp add: DEG_TO_RAD_def RAD_TO_DEG_def)
  have n: "written_number plain_lround (Fin (DEG_TO_RAD * 5)) ?m = 500"
    using radians_to_raw_eq[OF plain_lround_law, of ?m "1 / 100" "DEG_TO_RAD * 5"] e
    by (simp add: written_number_def Cia410RegisterMap_default_def round_half_away_def)
  show ?thesis
    using offset_roundtrip[OF plain_lround_law, of ?m "1 / 100" "DEG_TO_RAD * 5" "0x6040" "\<lambda>t i s v w. Some (Inr True, v)"
        500 0 True 500] e n
    by (simp add: Cia410RegisterMap_default_def)
qed

text \<open>On a device with offsets of sixteen bits a request beyond their range is not refused: it is written
  modulo 2 to the 16th, and the answer is that of the write.\<close>

theorem wide_offset_wraps:
  assumes "lround_law lround" "deg_per_lsb m = Fin g" "0 < g" "offset_bits (incl_registers m) = 16"
    "round_half_away (x * RAD_TO_DEG / g) = 32768"
  shows "written_number lround (Fin x) m = - 32768"
proof -
  have "\<bar>x * RAD_TO_DEG / g\<bar> \<le> 2147483647"
    using round_half_away_near[of "x * RAD_TO_DEG / g"] unfolding assms(5) by linarith
  from radians_to_raw_eq[OF assms(1,2) _ this] assms(3-5) show ?thesis
    by (simp add: written_number_def cast_int_def signed_take_bit_eq_take_bit_shift take_bit_eq_mod)
qed

end
