(* ===== verification/Driver410.thy ===== *)
theory Driver410
  imports DeviceNode Inclinometer410
begin

text \<open>
  The CiA 410 driver (\<open>canopen_410_driver\<close>, \<open>node_canopen_410_driver.hpp\<close> and its implementation): a proxy
  driver with one inclinometer. It publishes roll and pitch from its poll timer and offers services that
  set the present slope to zero. \<open>tf2::Quaternion::setRPY\<close> is a parameter.
\<close>

subsection \<open>State\<close>

record 'q imu_message =
  orientation :: 'q
  orientation_covariance :: "double list"
  angular_velocity_covariance :: "double list"
  linear_acceleration_covariance :: "double list"

record 'q driver410 =
  frame_id410 :: string
  imu_topic :: string
  inclination_topic :: string
  deg_per_lsb_fallback :: double
  has_lateral :: bool
  orientation_stddev :: double
  register_map410 :: Cia410RegisterMap
  publishers410 :: bool
  services410 :: "string list"
  inclination_messages :: "(double \<times> double \<times> double) list"
  imu_messages :: "'q imu_message list"

type_synonym ('d, 'n, 'q) d410_node = "('d, 'n, inclinometer, 'q driver410) device_node"

definition NodeCanopen410Driver_new :: "'q driver410" where
  "NodeCanopen410Driver_new =
    \<lparr>frame_id410 = ''inclinometer'', imu_topic = ''~/imu'', inclination_topic = ''~/inclination'',
     deg_per_lsb_fallback = Fin (1 / 100), has_lateral = True, orientation_stddev = Fin (- 1),
     register_map410 = Cia410RegisterMap_default, publishers410 = False, services410 = [],
     inclination_messages = [], imu_messages = []\<rparr>"

subsection \<open>Configuration\<close>

definition pick_word :: "yaml \<Rightarrow> string \<Rightarrow> 'a::len word \<Rightarrow> 'a word" where
  "pick_word doc key old = (case as_int doc [''register_map'', key] of None \<Rightarrow> old | Some v \<Rightarrow> word_of_int v)"

definition read_register_map410 :: "yaml \<Rightarrow> Cia410RegisterMap \<Rightarrow> Cia410RegisterMap" where
  "read_register_map410 doc rm =
    (if is_map doc [''register_map'']
     then \<lparr>slope_long_index = pick_word doc ''slope_long_index'' (slope_long_index rm),
           slope_long_bits = pick_word doc ''slope_long_bits'' (slope_long_bits rm),
           slope_lateral_index = pick_word doc ''slope_lateral_index'' (slope_lateral_index rm),
           slope_lateral_bits = pick_word doc ''slope_lateral_bits'' (slope_lateral_bits rm),
           slope_long_preset_index = pick_word doc ''slope_long_preset_index'' (slope_long_preset_index rm),
           slope_lateral_preset_index = pick_word doc ''slope_lateral_preset_index'' (slope_lateral_preset_index rm),
           slope_long_offset_index = pick_word doc ''slope_long_offset_index'' (slope_long_offset_index rm),
           slope_lateral_offset_index = pick_word doc ''slope_lateral_offset_index'' (slope_lateral_offset_index rm),
           preset_bits = pick_word doc ''preset_bits'' (preset_bits rm),
           offset_bits = pick_word doc ''offset_bits'' (offset_bits rm)\<rparr>
     else rm)"

definition configure410 :: "yaml \<Rightarrow> string \<Rightarrow> 'q driver410 \<Rightarrow> 'q driver410" where
  "configure410 doc node x =
    (let name = (\<lambda>key old. or_default (as_string doc [key]) old);
         lateral = or_default (as_bool doc [''has_lateral_axis'']) (has_lateral x) in
     x\<lparr>frame_id410 := name ''frame_id'' (frame_id410 x), imu_topic := name ''imu_topic'' (imu_topic x),
       inclination_topic := name ''inclination_topic'' (inclination_topic x),
       deg_per_lsb_fallback := or_default (as_double doc [''deg_per_lsb'']) (deg_per_lsb_fallback x),
       has_lateral := lateral,
       orientation_stddev := or_default (as_double doc [''orientation_stddev'']) (orientation_stddev x),
       register_map410 := read_register_map410 doc (register_map410 x), publishers410 := True,
       services410 := (node @ ''/zero_long'') # (if lateral then [node @ ''/zero_lateral''] else [])\<rparr>)"

definition d410_configure :: "('d, 'n, 'q) d410_node \<Rightarrow> (('d, 'n, 'q) d410_node, unit) outcome" where
  "d410_configure d = device_configure configure410 d"

subsection \<open>Life cycle\<close>

definition d410_init :: "('d, 'n, 'q) d410_node \<Rightarrow> (('d, 'n, 'q) d410_node, unit) outcome" where
  "d410_init d = proxy_init d"

text \<open>\<open>activate\<close> only logs the resolution.\<close>

definition d410_activate ::
  "('d, 'n, (inclinometer, ('d, 'n) bridge, 'q driver410) device_owner proxy) base_env \<Rightarrow> ('d, 'n, 'q) d410_node
   \<Rightarrow> (('d, 'n, 'q) d410_node, unit) outcome" where
  "d410_activate env d = device_activate (\<lambda>drv x. x) env d"

definition d410_deactivate :: "bool \<Rightarrow> ('d, 'n, 'q) d410_node \<Rightarrow> (('d, 'n, 'q) d410_node, unit) outcome" where
  "d410_deactivate drained d = device_deactivate drained d"

definition Inclinometer410_new :: "'q driver410 \<Rightarrow> inclinometer" where
  "Inclinometer410_new x = \<lparr>incl_registers = register_map410 x, deg_per_lsb = deg_per_lsb_fallback x\<rparr>"

definition d410_add_to_master ::
  "'d dict_ops \<Rightarrow> 'n network \<Rightarrow> ('d, 'n, (inclinometer, ('d, 'n) bridge, 'q driver410) device_owner proxy) base_env
   \<Rightarrow> ('d, 'n, 'q) d410_node \<Rightarrow> (('d, 'n, 'q) d410_node, unit) outcome" where
  "d410_add_to_master dops nops env d = device_add_to_master Inclinometer410_new dops nops env d"

definition d410_hooks ::
  "'d dict_ops \<Rightarrow> 'n network \<Rightarrow> ('d, 'n, (inclinometer, ('d, 'n) bridge, 'q driver410) device_owner proxy) base_env \<Rightarrow> bool
   \<Rightarrow> ('d, 'n, (inclinometer, ('d, 'n) bridge, 'q driver410) device_owner proxy) base_driver driver_hooks" where
  "d410_hooks dops nops env drained =
    (base_hooks dops nops env)\<lparr>h_init := d410_init, h_configure := d410_configure,
       h_activate := d410_activate env, h_deactivate := d410_deactivate drained,
       add_to_master := d410_add_to_master dops nops env,
       remove_from_master := device_remove_from_master env\<rparr>"

lemma d410_contract: "driver_contract (d410_hooks dops nops env drained)"
proof -
  have "d410_hooks dops nops env drained = device_hooks configure410 (\<lambda>drv x. x) Inclinometer410_new dops nops env drained"
    unfolding d410_hooks_def device_hooks_def
    by (simp add: fun_eq_iff d410_init_def d410_configure_def d410_activate_def d410_deactivate_def d410_add_to_master_def
        flip: eq_reflection)
  then show ?thesis by (simp add: device_contract)
qed

interpretation d0: driver_env "table_lib doc" "d410_hooks dops nops env drained" for doc dops nops env drained
  by (intro driver_env.intro tl.client_library_axioms d410_contract)

subsection \<open>Publishing\<close>

text \<open>The covariance matrix: no variance known unless a standard deviation was configured. The comparison
  \<open>x > 0.0\<close> is false for a value that is not a number.\<close>

definition covariance :: "double \<Rightarrow> double list" where
  "covariance stddev =
    (if (case stddev of Fin r \<Rightarrow> 0 < r | PInf \<Rightarrow> True | NInf \<Rightarrow> False | NaN \<Rightarrow> False)
     then (let v = d_mul stddev stddev in [v, Fin 0, Fin 0, Fin 0, v, Fin 0, Fin 0, Fin 0, v])
     else replicate 9 (Fin 0))"

definition not_measured :: "double list" where "not_measured = Fin (- 1) # replicate 8 (Fin 0)"

definition publish410 :: "('d, 'n) bridge bus \<Rightarrow> (double \<Rightarrow> double \<Rightarrow> double \<Rightarrow> 'q) \<Rightarrow> ('d, 'n, 'q) d410_node \<Rightarrow> ('d, 'n, 'q) d410_node" where
  "publish410 bus setRPY d =
    (case on_device (\<lambda>m drv. let (pitch, drv1) = get_long_rad bus m drv;
                                 (roll, drv2) = (if has_lateral (node_x d) then get_lateral_rad bus m drv1 else (Fin 0, drv1))
                             in ((roll, pitch), drv2)) d of
       (None, d1) \<Rightarrow> d1
     | (Some (roll, pitch), d1) \<Rightarrow>
         upd_x (\<lambda>x. x\<lparr>inclination_messages := inclination_messages x @ [(roll, pitch, Fin 0)],
           imu_messages := imu_messages x @
             [\<lparr>orientation = setRPY roll pitch (Fin 0), orientation_covariance = covariance (orientation_stddev x),
               angular_velocity_covariance = not_measured, linear_acceleration_covariance = not_measured\<rparr>]\<rparr>) d1)"

definition d410_poll ::
  "('d, 'n) bridge bus \<Rightarrow> (double \<Rightarrow> double \<Rightarrow> double \<Rightarrow> 'q) \<Rightarrow> ('d, 'n, 'q) d410_node \<Rightarrow> ('d, 'n, 'q) d410_node option" where
  "d410_poll bus setRPY d = map_option (publish410 bus setRPY) (poll_timer_callback proxy_virtuals d)"

subsection \<open>Direct access and services\<close>

definition node_long_rad :: "('d, 'n) bridge bus \<Rightarrow> ('d, 'n, 'q) d410_node \<Rightarrow> double \<times> ('d, 'n, 'q) d410_node" where
  "node_long_rad bus d = (case on_device (get_long_rad bus) d of (None, d1) \<Rightarrow> (Fin 0, d1) | (Some v, d1) \<Rightarrow> (v, d1))"

definition node_lateral_rad :: "('d, 'n) bridge bus \<Rightarrow> ('d, 'n, 'q) d410_node \<Rightarrow> double \<times> ('d, 'n, 'q) d410_node" where
  "node_lateral_rad bus d = (case on_device (get_lateral_rad bus) d of (None, d1) \<Rightarrow> (Fin 0, d1) | (Some v, d1) \<Rightarrow> (v, d1))"

text \<open>A write of the device object may block; the answer of a service is that of the write.\<close>

definition on_device_write ::
  "(inclinometer \<Rightarrow> ('d, 'n) bridge option \<Rightarrow> (bool \<times> ('d, 'n) bridge option) option) \<Rightarrow> ('d, 'n, 'q) d410_node
   \<Rightarrow> (bool \<times> ('d, 'n, 'q) d410_node) option" where
  "on_device_write f d =
    (case dev_ptr (own d) of
       None \<Rightarrow> Some (False, d)
     | Some m \<Rightarrow> (case f m (bridge_of_device d) of None \<Rightarrow> None | Some (r, w) \<Rightarrow> Some (r, put_bridge w d)))"

definition node_zero_long :: "('d, 'n) bridge sdo_write \<Rightarrow> ('d, 'n, 'q) d410_node \<Rightarrow> (bool \<times> ('d, 'n, 'q) d410_node) option" where
  "node_zero_long sdo_write d = on_device_write (zero_long sdo_write) d"

definition node_zero_lateral :: "('d, 'n) bridge sdo_write \<Rightarrow> ('d, 'n, 'q) d410_node \<Rightarrow> (bool \<times> ('d, 'n, 'q) d410_node) option" where
  "node_zero_lateral sdo_write d = on_device_write (zero_lateral sdo_write) d"

text \<open>\<open>async_sdo_write_typed(...).get()\<close> on the bridge: the callback of the request settles the promise, and
  \<open>get\<close> waits for it without a deadline.\<close>

definition sdo_write_and_get :: "'d dict_ops \<Rightarrow> 'n network \<Rightarrow> ('d, 'n) bridge sdo_write" where
  "sdo_write_and_get dops nops t idx sub v b =
    bindB (async_sdo_write_typed dops nops (CO_INT t) idx sub v b) (\<lambda>fut b1.
      case settled_promise fut of
        Some r \<Rightarrow> Some (r, b1)
      | None \<Rightarrow>
          (case pending b1 of
             None \<Rightarrow> None
           | Some p \<Rightarrow>
               (case n_late nops (net b1) of ((ec, x), n) \<Rightarrow>
                  Some (map_sum id (\<lambda>x. True) (callback_result (request p) ec x), sdo_callback dops p ec x (b1\<lparr>net := n\<rparr>)))))"

context bridge_env
begin

lemma write_and_get_result:
  assumes "sdo_ok b"
  shows "\<exists>res b'. sdo_write_and_get dops nops t i s v b = Some (res, b') \<and> sdo_ok b' \<and>
    (res = Inr True \<and> dict_find dops i s (dictionary b') = Some (CO_INT t) \<longrightarrow>
       dict_get dops (CO_INT t) i s (dictionary b') = v)"
proof -
  obtain b1 where b1: "acquire_sdo dops nops b = Some b1" "running b1" "pending b1 = None"
    using acquire_sdo_ok[OF assms] by blast
  show ?thesis
  proof (cases "bridge_has_object dops i s b1")
    case False
    with b1 show ?thesis
      by (simp add: sdo_write_and_get_def async_sdo_write_typed_def bindB_def sdo_ok_def)
  next
    case True
    let ?p = "\<lparr>request = Sdo_write (CO_INT t) i s v, untyped = False\<rparr>"
    obtain n where sub: "submit_sdo nops (Sdo_write (CO_INT t) i s v) False b1
        = (Inr (), b1\<lparr>net := n, pending := Some ?p\<rparr>)"
      using submit_sdo_accepts by blast
    obtain ec x n' where late: "n_late nops n = ((ec, x), n')" by (metis surj_pair)
    show ?thesis
      using b1 True sub late get_set[of i s "dictionary b1" "CO_INT t" v]
      by (auto simp: sdo_write_and_get_def async_sdo_write_typed_def bindB_def sdo_ok_def callback_result_def
          bridge_has_object_def sdo_callback_def Let_def find_set)
  qed
qed

lemma preset_result:
  assumes "sdo_ok b"
  shows "\<exists>r b'. write_preset_or_offset (sdo_write_and_get dops nops) index raw bits (Some b) = Some (r, Some b') \<and> sdo_ok b' \<and>
    (r \<longrightarrow> index \<noteq> 0 \<and> (dict_find dops index 0 (dictionary b') = Some (CO_INT (if bits = 16 then I16 else I32)) \<longrightarrow>
       dict_get dops (CO_INT (if bits = 16 then I16 else I32)) index 0 (dictionary b') = (if bits = 16 then cast_int I16 raw else raw)))"
proof (cases "index = 0")
  case False
  let ?t = "if bits = 16 then I16 else I32" and ?v = "if bits = 16 then cast_int I16 raw else raw"
  obtain res b' where r: "sdo_write_and_get dops nops ?t index 0 ?v b = Some (res, b')" "sdo_ok b'"
    "res = Inr True \<and> dict_find dops index 0 (dictionary b') = Some (CO_INT ?t) \<longrightarrow> dict_get dops (CO_INT ?t) index 0 (dictionary b') = ?v"
    using write_and_get_result[OF assms] by blast
  have "write_preset_or_offset (sdo_write_and_get dops nops) index raw bits (Some b) = Some (res = Inr True, Some b')"
    using r(1) False by (cases res) (auto simp: write_preset_or_offset_def split: if_splits)
  with r(2,3) False show ?thesis by blast
next
  case True
  with assms show ?thesis by (intro exI[of _ False]) (simp add: write_preset_or_offset_def)
qed

end

subsection \<open>Properties\<close>


definition inclined_node :: "(u16 \<times> u8 \<rightharpoonup> co_type \<times> int, device_memory, unit) d410_node" where
  "inclined_node =
    fresh_node (base_x \<lparr>nmt_topic = [], rpdo_topic = [], interface = True, proxy_rest =
         \<lparr>dev_ptr = Some \<lparr>incl_registers = Cia410RegisterMap_default, deg_per_lsb = Fin (1 / 100)\<rparr>, dev_bridge = Some example_bridge,
          dev_rest = NodeCanopen410Driver_new\<rparr>\<rparr> \<lparr>lely_driver := Some example_bridge\<rparr>)"


end
