(* ===== verification/SimpleSlave.thy ===== *)
theory SimpleSlave
  imports Bridge
begin

text \<open>
  The plain mock slave of the test bench (\<open>canopen_fake_slaves\<close>): the life cycle of its node
  (\<open>base_slave.hpp\<close>), the vendor number it takes from its EDS file and its reaction to writes
  (\<open>basic_slave.hpp\<close>).
\<close>

subsection \<open>The vendor number\<close>

text \<open>\<open>std::stoul(s, nullptr, 0)\<close>: white space, a sign, a prefix that gives the base, digits. \<open>None\<close> is an
  exception: no digits, or a number of more than 64 bits.\<close>

definition digit_of :: "char \<Rightarrow> nat option" where
  "digit_of c =
    (let n = of_char c :: nat in
     if 48 \<le> n \<and> n \<le> 57 then Some (n - 48)
     else if 97 \<le> n \<and> n \<le> 102 then Some (n - 87)
     else if 65 \<le> n \<and> n \<le> 70 then Some (n - 55)
     else None)"

definition is_digit :: "nat \<Rightarrow> char \<Rightarrow> bool" where
  "is_digit base c = (case digit_of c of None \<Rightarrow> False | Some d \<Rightarrow> d < base)"

definition is_space :: "char \<Rightarrow> bool" where
  "is_space c = (let n = of_char c :: nat in n = 32 \<or> 9 \<le> n \<and> n \<le> 13)"

definition digits_value :: "nat \<Rightarrow> string \<Rightarrow> nat" where
  "digits_value base s = foldl (\<lambda>n c. n * base + the (digit_of c)) 0 s"

definition split_base :: "string \<Rightarrow> nat \<times> string" where
  "split_base s =
    (case s of
       c # x # y # t \<Rightarrow> if c = CHR ''0'' \<and> (x = CHR ''x'' \<or> x = CHR ''X'') \<and> is_digit 16 y then (16, y # t)
                        else if c = CHR ''0'' then (8, s) else (10, s)
     | c # t \<Rightarrow> if c = CHR ''0'' then (8, s) else (10, s)
     | [] \<Rightarrow> (10, s))"

definition stoul0 :: "string \<Rightarrow> nat option" where
  "stoul0 s =
    (let s1 = dropWhile is_space s;
         (neg, s2) = (case s1 of c # t \<Rightarrow> (if c = CHR ''-'' then (True, t) else if c = CHR ''+'' then (False, t) else (False, s1))
                      | [] \<Rightarrow> (False, s1));
         (base, s3) = split_base s2;
         ds = takeWhile (is_digit base) s3;
         n = digits_value base ds
     in if ds = [] \<or> n \<ge> 2 ^ 64 then None else Some (if neg then (2 ^ 64 - n) mod 2 ^ 64 else n))"

text \<open>\<open>std::string::find\<close>, as what follows the first occurrence.\<close>

fun after :: "string \<Rightarrow> string \<Rightarrow> string option" where
  "after pat [] = (if pat = [] then Some [] else None)"
| "after pat (c # s) = (if take (length pat) (c # s) = pat then Some (drop (length pat) (c # s)) else after pat s)"

text \<open>The lines of the file; \<open>None\<close>: it cannot be opened.\<close>

fun vendor_of_lines :: "string list \<Rightarrow> u32" where
  "vendor_of_lines [] = 0"
| "vendor_of_lines (line # ls) =
    (case after ''VendorNumber='' line of
       None \<Rightarrow> vendor_of_lines ls
     | Some v \<Rightarrow> (case stoul0 v of None \<Rightarrow> 0 | Some n \<Rightarrow> word_of_nat n))"

definition parse_vendor_id :: "string list option \<Rightarrow> u32" where
  "parse_vendor_id contents = (case contents of None \<Rightarrow> 0 | Some ls \<Rightarrow> vendor_of_lines ls)"

subsection \<open>Reaction to writes\<close>

record 'd simple_slave =
  ss_dict :: 'd
  ss_events :: nat
  ss_message_thread :: bool

text \<open>\<open>static_cast<uint32_t>\<close> of the value of an object; the value of a float is its bit pattern, and its
  conversion is a parameter.\<close>

definition GetValue :: "'d dict_ops \<Rightarrow> (int \<Rightarrow> u32) \<Rightarrow> u16 \<Rightarrow> u8 \<Rightarrow> 'd simple_slave \<Rightarrow> u32" where
  "GetValue dops float_to_u32 idx sub s =
    (case dict_find dops idx sub (ss_dict s) of
       Some CO_BOOLEAN \<Rightarrow> word_of_int (dict_get dops CO_BOOLEAN idx sub (ss_dict s))
     | Some CO_REAL32 \<Rightarrow> float_to_u32 (dict_get dops CO_REAL32 idx sub (ss_dict s))
     | Some (CO_INT t) \<Rightarrow> word_of_int (dict_get dops (CO_INT t) idx sub (ss_dict s))
     | _ \<Rightarrow> word_of_int (dict_get dops (CO_INT U32) idx sub (ss_dict s)))"

definition put_echo :: "'d dict_ops \<Rightarrow> u32 \<Rightarrow> 'd simple_slave \<Rightarrow> 'd simple_slave" where
  "put_echo dops v s =
    s\<lparr>ss_dict := dict_set dops (CO_INT U32) 0x4001 0 (uint v) (ss_dict s), ss_events := ss_events s + 1\<rparr>"

definition simple_OnWrite :: "'d dict_ops \<Rightarrow> (int \<Rightarrow> u32) \<Rightarrow> u16 \<Rightarrow> u8 \<Rightarrow> 'd simple_slave \<Rightarrow> 'd simple_slave" where
  "simple_OnWrite dops float_to_u32 idx sub s =
    (put_echo dops (GetValue dops float_to_u32 idx sub s) s)\<lparr>ss_message_thread := True\<rparr>"

text \<open>One turn of the thread that sends messages.\<close>

definition periodic_message :: "'d dict_ops \<Rightarrow> 'd simple_slave \<Rightarrow> 'd simple_slave" where
  "periodic_message dops s = put_echo dops 0x1122 s"

subsection \<open>The node of a slave\<close>

text \<open>\<open>sn_signalled\<close>: a signal has ended the event loop that \<open>run\<close> sits in; nothing else ends it.\<close>

record slave_node =
  sn_id :: int
  sn_config :: string
  sn_interface :: string
  sn_activated :: bool
  sn_run_thread :: bool
  sn_signalled :: bool

definition BaseSlave_new :: "slave_node \<Rightarrow> slave_node" where
  "BaseSlave_new n = n\<lparr>sn_activated := False, sn_run_thread := False, sn_signalled := False\<rparr>"

definition slave_on_configure :: "slave_node \<Rightarrow> slave_node" where
  "slave_on_configure n = n\<lparr>sn_activated := False\<rparr>"

text \<open>The parameters are read; assigning to a thread that is still joinable ends the process (\<open>None\<close>).\<close>

definition slave_on_activate :: "int \<Rightarrow> string \<Rightarrow> string \<Rightarrow> slave_node \<Rightarrow> slave_node option" where
  "slave_on_activate nid config interface n =
    (if sn_run_thread n then None
     else Some (n\<lparr>sn_activated := True, sn_id := nid, sn_config := config, sn_interface := interface, sn_run_thread := True\<rparr>))"

text \<open>\<open>join\<close> blocks until the thread ends: \<open>None\<close> when nothing ends it.\<close>

definition slave_on_deactivate :: "slave_node \<Rightarrow> slave_node option" where
  "slave_on_deactivate n =
    (let n1 = n\<lparr>sn_activated := False\<rparr> in
     if sn_run_thread n1 then (if sn_signalled n1 then Some (n1\<lparr>sn_run_thread := False\<rparr>) else None) else Some n1)"

definition slave_on_cleanup :: "slave_node \<Rightarrow> slave_node" where
  "slave_on_cleanup n = n\<lparr>sn_activated := False\<rparr>"

definition slave_on_shutdown :: "slave_node \<Rightarrow> slave_node" where
  "slave_on_shutdown n = n"

subsection \<open>Lemmas\<close>

text \<open>What is written is echoed as the object 0x4001 until the thread that the write starts overwrites it.\<close>

context dictionary_laws
begin

lemma echo_of_write:
  assumes "dict_find dops idx sub (ss_dict s) = Some (CO_INT t)" "dict_find dops 0x4001 0 (ss_dict s) = Some (CO_INT U32)"
  shows "dict_get dops (CO_INT U32) 0x4001 0 (ss_dict (simple_OnWrite dops f idx sub s)) =
      uint (word_of_int (dict_get dops (CO_INT t) idx sub (ss_dict s)) :: u32)"
    "dict_get dops (CO_INT U32) 0x4001 0 (ss_dict (periodic_message dops (simple_OnWrite dops f idx sub s))) = 0x1122"
  using assms get_set[of "0x4001" 0 _ "CO_INT U32"]
  by (simp_all add: simple_OnWrite_def periodic_message_def put_echo_def GetValue_def find_set)

end

text \<open>A slave node cannot be deactivated: unless a signal ends the whole process, \<open>on_deactivate\<close> waits for
  ever for the thread it started.\<close>

theorem active_slave_cannot_be_deactivated:
  assumes "slave_on_activate nid config interface n = Some n1" "\<not> sn_signalled n"
  shows "slave_on_deactivate n1 = None"
  using assms by (auto simp: slave_on_activate_def slave_on_deactivate_def Let_def split: if_splits)

lemma vendor_examples:
  "parse_vendor_id (Some [''[DeviceInfo]'', ''VendorNumber=0x360'', ''VendorNumber=7'']) = 0x360"
  "parse_vendor_id (Some [''VendorNumber='', ''VendorNumber=7'']) = 0" "parse_vendor_id (Some [''VendorNumber=010'']) = 8"
  by (simp_all add: parse_vendor_id_def stoul0_def split_base_def is_space_def is_digit_def digit_of_def digits_value_def)

end
