(* ===== verification/ResultWait.thy ===== *)
theory ResultWait
  imports Prelude
begin

text \<open>
  Waiting for the answer of a lifecycle service (\<open>canopen_core\<close>, \<open>lifecycle_manager.hpp\<close>, \<open>wait_for_result\<close>): a loop
  of waits of at most 100 ms, until the answer is there, the deadline has passed or the context was shut down.
  The clock, the future and \<open>rclcpp::ok()\<close> are a record of functions of the state of the world, times in ms.
\<close>

record 'w wait_lib =
  clock_now :: "'w \<Rightarrow> int \<times> 'w"
  future_wait :: "int \<Rightarrow> 'w \<Rightarrow> bool \<times> 'w"
  ros_ok :: "'w \<Rightarrow> bool"

text \<open>The result says whether the status is \<open>ready\<close>; the futures of a client come from promises and are never deferred.\<close>

partial_function (option) wait_loop :: "'w wait_lib \<Rightarrow> int \<Rightarrow> bool \<Rightarrow> 'w \<Rightarrow> (bool \<times> 'w) option" where
  "wait_loop wl deadline status w =
    (case clock_now wl w of (now, w1) \<Rightarrow>
       if deadline - now \<le> 0 then Some (status, w1)
       else (case future_wait wl (if deadline - now < 100 then deadline - now else 100) w1 of (ready, w2) \<Rightarrow>
               if ros_ok wl w2 \<and> \<not> ready then wait_loop wl deadline ready w2 else Some (ready, w2)))"

definition wait_for_result :: "'w wait_lib \<Rightarrow> int \<Rightarrow> 'w \<Rightarrow> (bool \<times> 'w) option" where
  "wait_for_result wl time_to_wait w =
    (case clock_now wl w of (now, w1) \<Rightarrow> wait_loop wl (now + time_to_wait) False w1)"

text \<open>The clock is steady; a wait that did not find the future ready took the time it was given.\<close>

locale steady_wait =
  fixes wl :: "'w wait_lib" and time :: "'w \<Rightarrow> int"
  assumes now_reads: "clock_now wl w = (n, w') \<Longrightarrow> time w \<le> n \<and> n \<le> time w'"
    and wait_takes: "future_wait wl d w = (ready, w') \<Longrightarrow> 0 < d \<Longrightarrow> time w \<le> time w' \<and> (ready \<or> time w + d \<le> time w')"
begin

lemma wait_loop_returns:
  assumes "nat (deadline - time w) \<le> n"
  shows "\<exists>ready w'. wait_loop wl deadline False w = Some (ready, w') \<and> time w \<le> time w' \<and>
    (ready \<or> \<not> ros_ok wl w' \<or> deadline \<le> time w')"
  using assms
proof (induction n arbitrary: w rule: less_induct)
  case (less n)
  obtain now w1 where now: "clock_now wl w = (now, w1)" by fastforce
  let ?d = "if deadline - now < 100 then deadline - now else 100"
  obtain ready w2 where wait: "future_wait wl ?d w1 = (ready, w2)" by fastforce
  have law: "time w \<le> now" "now \<le> time w1" using now_reads[OF now] by auto
  have waited: "time w1 \<le> time w2 \<and> (ready \<or> time w1 < time w2)" if "\<not> deadline - now \<le> 0"
    using wait_takes[OF wait] that by (auto split: if_splits)
  note unfold = wait_loop.simps[of wl deadline False w]
  show ?case
  proof (cases "deadline - now \<le> 0 \<or> ready \<or> \<not> ros_ok wl w2")
    case True
    with law waited show ?thesis by (subst unfold) (auto simp: now wait)
  next
    case False
    with law waited have later: "time w < time w2" "nat (deadline - time w2) < nat (deadline - time w)" by auto
    from less.IH[OF _ order_refl, of w2] later less.prems obtain r w' where
      "wait_loop wl deadline False w2 = Some (r, w')" "time w2 \<le> time w'" "r \<or> \<not> ros_ok wl w' \<or> deadline \<le> time w'"
      by fastforce
    with later False show ?thesis by (subst unfold) (auto simp: now wait)
  qed
qed

end

text \<open>A world of a clock, the time at which the answer comes and the time at which the context is shut down.\<close>

definition answering :: "(int \<times> int \<times> int) wait_lib" where
  "answering =
    \<lparr>clock_now = \<lambda>(t, a, s). (t, (t, a, s)),
     future_wait = \<lambda>d (t, a, s). (a \<le> t + d, (if a \<le> t + d then max t a else t + d, a, s)),
     ros_ok = \<lambda>(t, a, s). t < s\<rparr>"

interpretation aw: steady_wait answering fst
  by unfold_locales (auto simp: answering_def split: if_splits)

text \<open>The wait for the answer of a lifecycle service always returns, and when it returns without the answer the time
  has passed or the context was shut down.\<close>

theorem wait_for_result_returns:
  assumes "steady_wait wl time"
  shows "\<exists>ready w'. wait_for_result wl time_to_wait w = Some (ready, w') \<and>
    (ready \<or> \<not> ros_ok wl w' \<or> time w + time_to_wait \<le> time w')"
proof -
  obtain now w1 where now: "clock_now wl w = (now, w1)" by fastforce
  from steady_wait.wait_loop_returns[OF assms order_refl, of "now + time_to_wait" w1] steady_wait.now_reads[OF assms now]
  show ?thesis by (auto simp: wait_for_result_def now)
qed

theorem wait_for_result_returns_witness:
  "\<exists>ready w'. wait_for_result answering 250 (0, 1000, 5000) = Some (ready, w') \<and>
    (ready \<or> \<not> ros_ok answering w' \<or> 250 \<le> fst w')"
  using wait_for_result_returns[OF aw.steady_wait_axioms, of 250 "(0, 1000, 5000)"] by simp

end
