(* ===== verification/Spec2Isabelle.thy ===== *)
theory Spec2Isabelle
  imports ClosedLoop MotorBridge ProxyDriver Fleet DeviceContainer Driver402 Driver408 Controllers MockModes Driver401 Driver410 SimpleSlave ResultWait
begin

text \<open>
  Verification of the ROS 2 CANopen stack.

  The program. A device container (\<open>canopen_core\<close>) reads the configuration of a bus, loads a master, one
  driver for each device and, on a managed bus, a lifecycle manager. The nodes share one life cycle; a
  driver asks the container for the master and, when activated, creates a bridge to its device on it. The
  bridge (\<open>canopen_base_driver\<close>) is the boundary between the threads of ROS and the event loop of
  the CANopen library lely: SDO requests with promises, PDO data, NMT and emergency messages. The
  drivers for device profiles (\<open>canopen_402_driver\<close>, \<open>401\<close>, \<open>408\<close>, \<open>410\<close>) own a device object that works on the
  bridge. The packages \<open>canopen_ros2_control\<close> and \<open>canopen_ros2_controllers\<close> put the drivers behind the interfaces
  of ros2\_control, doubles that controllers write and hardware components read. \<open>canopen_fake_slaves\<close> holds
  mock devices for tests.

  Theories and code.
  \<^item> \<open>Prelude\<close>, \<open>Config\<close>, \<open>Rounding\<close>: machine types, exceptions, waits, doubles; documents of YAML, node parameters
    and \<open>std::lround\<close>.
  \<^item> \<open>State402\<close>, \<open>Command402\<close>, \<open>Modes402\<close>, \<open>Motor402\<close>: \<open>state.cpp\<close>, \<open>command.cpp\<close>, \<open>mode*.hpp\<close> with the homing mode, and
    \<open>motor.cpp\<close>. The record \<open>motor\<close> holds the members of \<open>Motor402\<close>; the bridge is its field \<open>driver\<close> of any type.
  \<^item> \<open>FakeSlave402\<close>, \<open>MockModes\<close>, \<open>MotionGenerator\<close>, \<open>SimpleSlave\<close>: \<open>cia402_slave.hpp\<close> (state machine and mode threads),
    \<open>motion_generator.cpp\<close>, \<open>base_slave.hpp\<close> with \<open>basic_slave.hpp\<close>.
  \<^item> \<open>ClosedLoop\<close>: the state loop of the motor against the mock device.
  \<^item> \<open>Exchange\<close>, \<open>Bridge\<close>, \<open>MotorBridge\<close>: \<open>exchange.hpp\<close>, \<open>lely_driver_bridge.hpp\<close> and \<open>.cpp\<close>, and the motor on this bridge.
  \<^item> \<open>DriverNode\<close>, \<open>BaseDriver\<close>, \<open>ProxyDriver\<close>, \<open>Driver402\<close>, \<open>HydraulicAxis\<close>, \<open>Driver408\<close>, \<open>DeviceNode\<close>, \<open>M880Remote\<close>,
    \<open>Driver401\<close>, \<open>Inclinometer410\<close>, \<open>Driver410\<close>: the driver nodes, each over the one it derives from, and their
    device objects. A node is the record \<open>driver_node\<close> with a field for the members of the derived class; the
    virtual functions are the record \<open>driver_hooks\<close>.
  \<^item> \<open>MasterNode\<close>, \<open>MasterBridge\<close>: the life cycle of the master and the basic master on its bridge.
  \<^item> \<open>Devices\<close>, \<open>LifecycleManager\<close>, \<open>ResultWait\<close>, \<open>DeviceContainer\<close>, \<open>Fleet\<close>: \<open>configuration_manager.cpp\<close>, \<open>lifecycle_manager.cpp\<close>
    and its wait for the answer of a service, \<open>device_container.cpp\<close>, and manager, master and drivers together.
  \<^item> \<open>ControlSystem\<close>, \<open>Cia402System\<close>, \<open>RobotSystem\<close>, \<open>Controllers\<close>: \<open>canopen_system.cpp\<close>, \<open>cia402_system.cpp\<close>,
    \<open>cia402_data.hpp\<close> with \<open>robot_system.cpp\<close>, and the two controllers.
  \<^item> \<open>Diagnostics\<close>: \<open>diagnostic_collector.hpp\<close>.

  How code becomes definitions. A member function takes the record of its object and returns it updated. A
  function that may throw returns an outcome, \<open>Inl\<close> the exception or \<open>Inr\<close> the value, with the state at
  that point; \<open>bindE\<close> sequences such functions and keeps the state of a throw. \<open>None\<close>, where the result is an
  option around the state, is what the program does not survive or return from: a null pointer followed,
  \<open>std::terminate\<close>, a wait without a deadline that nothing ends. A lock makes what it guards one step. A wait
  on a condition variable runs over a script of wake-ups, each with what other threads did meanwhile; the end
  of the script is the deadline. Loops with a deadline and threads that sleep run over such scripts too
  (\<open>MockModes\<close>, \<open>Motor402\<close>), so a theorem for every script speaks of every interleaving at these points, and a
  result is proved to be reached, with the script long enough as a hypothesis, where the code promises it:
  eight polls in \<open>enable_reaches_operation\<close>, two for each of at most four hops, and twenty
  increments in \<open>interpolated_position_reached\<close>. No other fuel is used: \<open>switch_loop\<close> and \<open>boot_loop\<close> end by a measure, \<open>wait_loop\<close> is proved to
  return, all other recursion is structural.

  Code outside the sources. lely's dictionary and network, the lock-free queue, YAML, the ROS client library, the
  component loader and \<open>boost::numeric_cast\<close> are arguments of the definitions, and what the code relies on are the
  assumptions of locales: \<open>dictionary_laws\<close>, \<open>bridge_env\<close>, \<open>fifo\<close>, \<open>yaml_library\<close>, \<open>client_library\<close>, \<open>lifecycle_services\<close>,
  \<open>steady_wait\<close>.
  Interfaces inside the program are locales as well: \<open>driver_contract\<close>, what the life cycle relies on of the virtual
  functions, with \<open>driver_env\<close>, interpreted for each kind of driver (\<open>bd\<close>, \<open>xd\<close>, \<open>d4\<close>, \<open>d8\<close>, \<open>dv\<close>, \<open>d1\<close>, \<open>d0\<close>);
  \<open>reliable_driver\<close> and \<open>command_log\<close> for the boot of a device; \<open>master_contract\<close> (\<open>bm\<close>); \<open>bus_invariant\<close>, what the motor may rely
  on of the bridge, of which every \<open>bridge_env\<close> is an instance; \<open>motor_services\<close>, the services of a 402 driver; \<open>homing_access\<close>;
  \<open>control_drivers\<close> and \<open>motor_drivers\<close>, what hardware components rely on of drivers; \<open>service_invariant\<close>, what the lifecycle
  manager keeps (\<open>fi\<close>).

  What is proved.
  \<^item> The CiA 402 motor: the command table leads to every enabled state; a hop that is reported was confirmed by the device;
    control words keep the command, the halt bit and the edge of the fault reset; targets saturate; homing withdraws
    its start bit; modes are the registered ones over every history; and against the mock device enabling succeeds.
  \<^item> The bridge: the request discipline, at most one SDO request, settled promises, over every history, also with
    the motor or services on it; what a successful transfer leaves in the dictionary; the routing of PDOs.
  \<^item> Life cycles of drivers and masters as invariants over every history, throwing calls included; boot attempts;
    the container loads what the configuration says; the manager brings nodes up and down in order, and
    on real nodes its promise refines to their flags.
  \<^item> Device drivers: channels of a 402 driver do not touch each other, scaling round trips; the valve gets Active only after
    its climb, which ends; only legal values leave the driver; roundings are the nearest set point; the stop
    of a remote is published as configured; axes are normalised; offsets of an inclinometer round trip.
  \<^item> ros2\_control: commands are sent once, services answer, messages round trip through the doubles, and the two
    hardware components agree on targets where the theorem says so.
  \<^item> Mock devices: the status word is read back as the state; motions are within the limits and arrive.
  \<^item> Where the code does not do what it means to, a theorem says what it does: a switch that sticks, a start service that hangs,
    a reference that is overrun, a mode thread that never ends.

  Numbers. Integers are words, or ints with the conversion of C++ written out (\<open>cast_int\<close>). A \<open>double\<close> is NaN, an infinity or an
  exact real: rounding in arithmetic is not modelled, the conversions between integers and doubles are. The time of the motion
  generator and the values of an axis are exact reals. Members that the code leaves uninitialised are arbitrary
  arguments of the constructors; members of aggregates that are value-initialised are zero.

  Not modelled. Logging; the set-up of event loops, executors and timers (\<open>run\<close> of the mock slaves, \<open>DelayedBootSlave\<close>,
  the main functions); the virtual
  interfaces and forwarding node classes; data races inside what the code leaves unlocked; \<open>rsdo\<close>, \<open>wsdo\<close> and
  \<open>TriggerCommand\<close>, which no code uses; launch files, generators, message definitions and tests.
\<close>

end
